(* ===== verification/Prelude.thy ===== *)
theory Prelude
  imports Main "HOL-Library.List_Lexorder" "HOL-Library.Char_ord" "HOL-Library.Product_Lexorder"
begin

text \<open>
  What the components share: the errors the services throw, JSON values, database
  transactions as functions from a state to an error or a result with the next state,
  frame conditions on transactions (a locale over preorders on states), rows of a table
  as lists, and the two clocks (PostgreSQL keeps microseconds, a JavaScript Date keeps
  milliseconds).
\<close>

named_theorems tx_simps "rewrite rules of the transaction operations"
named_theorems row_simps "rewrite rules of the table operations"

section \<open>Errors\<close>

text \<open>
  The error classes the modelled code throws or catches. A constructor carries the fields
  the code reads again: the code and the HTTP status of a service error, the SQLSTATE and
  the constraint of a database error, the code and the \<open>uncertain\<close> flag of a provider
  error (\<open>None\<close> where the thrown value has no string code).
\<close>

datatype js_error =
    InstanceServiceError string nat
  | IdempotencyConflictError
  | TenantOperationalError
  | ReconciliationError string
  | ChallengeStoreError
  | MembershipError string
  | AuthServiceError string nat "int option"
  | BrowserSessionPreservedError
  | ApiKeyServiceError string
  | TenantCreateError string
  | BootstrapError string
  | MediaError string bool
  | MessagingRepositoryError string nat
  | AttendanceError string nat
  | LifecycleError string nat
  | DatabaseError string string
  | ProviderError "string option" bool
  | PlainError string

text \<open>The \<open>code\<close> property of a thrown value, as the handlers read it.\<close>

fun thrown_code :: "js_error \<Rightarrow> string option" where
  "thrown_code (InstanceServiceError c _) = Some c"
| "thrown_code IdempotencyConflictError = Some ''IDEMPOTENCY_CONFLICT''"
| "thrown_code TenantOperationalError = Some ''ORGANIZATION_NOT_ACTIVE''"
| "thrown_code (ReconciliationError c) = Some c"
| "thrown_code ChallengeStoreError = Some ''INVALID_CHALLENGE''"
| "thrown_code (MembershipError c) = Some c"
| "thrown_code (AuthServiceError c _ _) = Some c"
| "thrown_code BrowserSessionPreservedError = Some ''CONSOLE_ORGANIZATION_SWITCH_REJECTED''"
| "thrown_code (ApiKeyServiceError c) = Some c"
| "thrown_code (TenantCreateError c) = Some c"
| "thrown_code (BootstrapError c) = Some c"
| "thrown_code (MediaError c _) = Some c"
| "thrown_code (MessagingRepositoryError c _) = Some c"
| "thrown_code (AttendanceError c _) = Some c"
| "thrown_code (LifecycleError c _) = Some c"
| "thrown_code (DatabaseError c _) = Some c"
| "thrown_code (ProviderError c _) = c"
| "thrown_code (PlainError _) = None"

fun thrown_uncertain :: "js_error \<Rightarrow> bool" where
  "thrown_uncertain (ProviderError _ u) = u"
| "thrown_uncertain _ = False"

section \<open>JSON values\<close>

datatype json =
    JNull
  | JBool bool
  | JNum int
  | JStr string
  | JArr "json list"
  | JObj "(string \<times> json) list"

fun json_field :: "json \<Rightarrow> string \<Rightarrow> json option" where
  "json_field (JObj kvs) k = map_of kvs k"
| "json_field _ k = None"

section \<open>Characters and codes\<close>

definition upper_char :: "char \<Rightarrow> bool" where
  "upper_char c \<longleftrightarrow> CHR ''A'' \<le> c \<and> c \<le> CHR ''Z''"

definition lower_char :: "char \<Rightarrow> bool" where
  "lower_char c \<longleftrightarrow> CHR ''a'' \<le> c \<and> c \<le> CHR ''z''"

definition digit_char :: "char \<Rightarrow> bool" where
  "digit_char c \<longleftrightarrow> CHR ''0'' \<le> c \<and> c \<le> CHR ''9''"

definition to_lower :: "char \<Rightarrow> char" where
  "to_lower c = (if upper_char c then char_of ((of_char c :: nat) + 32) else c)"

text \<open>The pattern of a canonical error code, with the given number of characters after the first.\<close>

definition matches_code :: "nat \<Rightarrow> string \<Rightarrow> bool" where
  "matches_code n s = (case s of [] \<Rightarrow> False
     | c # cs \<Rightarrow> upper_char c \<and> length cs \<le> n
         \<and> list_all (\<lambda>d. upper_char d \<or> digit_char d \<or> d = CHR ''_'') cs)"

section \<open>Clocks\<close>

text \<open>
  Database timestamps are microseconds since the epoch; \<open>js_ms\<close> is what the driver
  hands to JavaScript, \<open>db_us\<close> the timestamp PostgreSQL stores for a Date parameter.
\<close>

definition js_ms :: "int \<Rightarrow> int" where
  "js_ms t = t div 1000"

definition db_us :: "int \<Rightarrow> int" where
  "db_us ms = ms * 1000"

lemma js_ms_db_us [simp]: "js_ms (db_us ms) = ms"
  by (simp add: js_ms_def db_us_def)

lemma db_us_js_ms_le: "db_us (js_ms t) \<le> t"
  by (simp add: js_ms_def db_us_def minus_mod_eq_mult_div [symmetric] mult.commute)

lemma js_ms_mono: "s \<le> t \<Longrightarrow> js_ms s \<le> js_ms t"
  by (simp add: js_ms_def zdiv_mono1)

section \<open>Transactions\<close>

text \<open>
  A transaction body maps the state to an error (the transaction rolls back: the state it
  had reached is dropped) or to a result and the state it commits.
\<close>

type_synonym ('s, 'a) tx = "'s \<Rightarrow> js_error + ('a \<times> 's)"

definition tx_return :: "'a \<Rightarrow> ('s, 'a) tx" where
  "tx_return a s = Inr (a, s)"

definition tx_throw :: "js_error \<Rightarrow> ('s, 'a) tx" where
  "tx_throw e s = Inl e"

definition tx_bind :: "('s, 'a) tx \<Rightarrow> ('a \<Rightarrow> ('s, 'b) tx) \<Rightarrow> ('s, 'b) tx" where
  "tx_bind m f s = (case m s of Inl e \<Rightarrow> Inl e | Inr (a, s') \<Rightarrow> f a s')"

definition tx_gets :: "('s \<Rightarrow> 'a) \<Rightarrow> ('s, 'a) tx" where
  "tx_gets g s = Inr (g s, s)"

definition tx_modify :: "('s \<Rightarrow> 's) \<Rightarrow> ('s, unit) tx" where
  "tx_modify f s = Inr ((), f s)"

definition tx_when :: "bool \<Rightarrow> ('s, unit) tx \<Rightarrow> ('s, unit) tx" where
  "tx_when b m = (if b then m else tx_return ())"

definition tx_map_error :: "(js_error \<Rightarrow> js_error) \<Rightarrow> ('s, 'a) tx \<Rightarrow> ('s, 'a) tx" where
  "tx_map_error h m s = (case m s of Inl e \<Rightarrow> Inl (h e) | Inr r \<Rightarrow> Inr r)"

definition run_tx :: "('s, 'a) tx \<Rightarrow> 's \<Rightarrow> (js_error + 'a) \<times> 's" where
  "run_tx m s = (case m s of Inl e \<Rightarrow> (Inl e, s) | Inr (a, s') \<Rightarrow> (Inr a, s'))"

lemmas tx_defs = tx_return_def tx_throw_def tx_bind_def tx_gets_def tx_modify_def
  tx_when_def tx_map_error_def

lemma tx_return_simp [simp, tx_simps]: "tx_return a s = Inr (a, s)"
  by (simp add: tx_return_def)

lemma tx_throw_simp [simp, tx_simps]: "tx_throw e s = Inl e"
  by (simp add: tx_throw_def)

lemma tx_gets_simp [simp, tx_simps]: "tx_gets g s = Inr (g s, s)"
  by (simp add: tx_gets_def)

lemma tx_modify_simp [simp, tx_simps]: "tx_modify f s = Inr ((), f s)"
  by (simp add: tx_modify_def)

lemma tx_bind_Inl [simp]: "m s = Inl e \<Longrightarrow> tx_bind m f s = Inl e"
  by (simp add: tx_bind_def)

lemma tx_bind_Inr [simp]: "m s = Inr (a, s') \<Longrightarrow> tx_bind m f s = f a s'"
  by (simp add: tx_bind_def)

lemma tx_bind_eq_Inr:
  "tx_bind m f s = Inr r \<longleftrightarrow> (\<exists>a s'. m s = Inr (a, s') \<and> f a s' = Inr r)"
  by (auto simp: tx_bind_def split: sum.splits)

lemma tx_bind_eq_Inl:
  "tx_bind m f s = Inl e \<longleftrightarrow> m s = Inl e \<or> (\<exists>a s'. m s = Inr (a, s') \<and> f a s' = Inl e)"
  by (auto simp: tx_bind_def split: sum.splits)

lemma tx_map_error_eq_Inr [simp]: "tx_map_error h m s = Inr r \<longleftrightarrow> m s = Inr r"
  by (auto simp: tx_map_error_def split: sum.splits)

lemma run_tx_error_rolls_back: "run_tx m s = (Inl e, s') \<Longrightarrow> s' = s"
  by (auto simp: run_tx_def split: sum.splits)

text \<open>What a transaction that commits answers, and the state it leaves (\<open>d\<close> where it does not commit).\<close>

definition commits :: "js_error + ('a \<times> 's) \<Rightarrow> ('a \<Rightarrow> bool) \<Rightarrow> bool" where
  "commits r p = (case r of Inl _ \<Rightarrow> False | Inr (a, _) \<Rightarrow> p a)"

definition end_state :: "'s \<Rightarrow> js_error + ('a \<times> 's) \<Rightarrow> 's" where
  "end_state d r = (case r of Inl _ \<Rightarrow> d | Inr (_, s) \<Rightarrow> s)"

lemma commits_end: "commits r p \<Longrightarrow> \<exists>a. r = Inr (a, end_state d r) \<and> p a"
  by (auto simp: commits_def end_state_def split: sum.splits)

section \<open>Frame conditions of transactions\<close>

definition tx_respects :: "('s \<Rightarrow> 's \<Rightarrow> bool) \<Rightarrow> ('s, 'a) tx \<Rightarrow> bool" where
  "tx_respects R m \<longleftrightarrow> (\<forall>s a s'. m s = Inr (a, s') \<longrightarrow> R s s')"

lemma tx_respectsI: "(\<And>s a s'. m s = Inr (a, s') \<Longrightarrow> R s s') \<Longrightarrow> tx_respects R m"
  by (auto simp: tx_respects_def)

lemma tx_respectsD: "tx_respects R m \<Longrightarrow> m s = Inr (a, s') \<Longrightarrow> R s s'"
  by (auto simp: tx_respects_def)

text \<open>
  A preorder on states that every statement of a transaction keeps is kept by the
  transaction. Tenant isolation, the growth of the audit log and every state invariant are
  instances.
\<close>

locale tx_frame =
  fixes R :: "'s \<Rightarrow> 's \<Rightarrow> bool"
  assumes R_refl: "R s s"
    and R_trans: "R s t \<Longrightarrow> R t u \<Longrightarrow> R s u"
begin

lemma respects_return [intro]: "tx_respects R (tx_return a)"
  by (auto simp: tx_respects_def R_refl)

lemma respects_throw [intro]: "tx_respects R (tx_throw e)"
  by (auto simp: tx_respects_def)

lemma respects_gets [intro]: "tx_respects R (tx_gets g)"
  by (auto simp: tx_respects_def R_refl)

lemma respects_bind [intro]:
  assumes "tx_respects R m" and "\<And>a. tx_respects R (f a)"
  shows "tx_respects R (tx_bind m f)"
  unfolding tx_respects_def tx_bind_eq_Inr
  using assms[unfolded tx_respects_def] by (blast intro: R_trans)

lemma respects_when [intro]: "tx_respects R m \<Longrightarrow> tx_respects R (tx_when b m)"
  by (auto simp: tx_when_def)

lemma respects_map_error [intro]: "tx_respects R m \<Longrightarrow> tx_respects R (tx_map_error h m)"
  by (auto simp: tx_respects_def)

lemma respects_if [intro]:
  "(b \<Longrightarrow> tx_respects R m) \<Longrightarrow> (\<not> b \<Longrightarrow> tx_respects R n) \<Longrightarrow> tx_respects R (if b then m else n)"
  by simp

lemma respects_option [intro]:
  "tx_respects R m \<Longrightarrow> (\<And>a. x = Some a \<Longrightarrow> tx_respects R (f a)) \<Longrightarrow> tx_respects R (case x of None \<Rightarrow> m | Some a \<Rightarrow> f a)"
  by (cases x) auto

lemma respects_sum [intro]:
  "(\<And>e. x = Inl e \<Longrightarrow> tx_respects R (f e)) \<Longrightarrow> (\<And>a. x = Inr a \<Longrightarrow> tx_respects R (g a)) \<Longrightarrow> tx_respects R (case x of Inl e \<Rightarrow> f e | Inr a \<Rightarrow> g a)"
  by (cases x) auto

lemma respects_prod [intro]:
  "(\<And>a b. x = (a, b) \<Longrightarrow> tx_respects R (f a b)) \<Longrightarrow> tx_respects R (case x of (a, b) \<Rightarrow> f a b)"
  by (cases x) auto

lemma respects_reading: "(\<And>s a t. m s = Inr (a, t) \<Longrightarrow> t = s) \<Longrightarrow> tx_respects R m"
  unfolding tx_respects_def using R_refl by blast

lemma respects_run: "tx_respects R m \<Longrightarrow> R s (snd (run_tx m s))"
  by (auto simp: tx_respects_def run_tx_def R_refl split: sum.splits)

lemmas respects_intros = respects_return respects_throw respects_gets respects_bind
  respects_when respects_map_error respects_if respects_option respects_sum respects_prod

end

lemma tx_frame_invariant: "tx_frame (\<lambda>s s'. I s \<longrightarrow> I s')"
  by unfold_locales auto

section \<open>Tables\<close>

definition update_rows :: "('r \<Rightarrow> bool) \<Rightarrow> ('r \<Rightarrow> 'r) \<Rightarrow> 'r list \<Rightarrow> 'r list" where
  "update_rows p f rs = map (\<lambda>r. if p r then f r else r) rs"

fun max_by :: "('r \<Rightarrow> 'k::linorder) \<Rightarrow> 'r list \<Rightarrow> 'r option" where
  "max_by k [] = None"
| "max_by k (r # rs) = (case max_by k rs of None \<Rightarrow> Some r
     | Some r' \<Rightarrow> if k r < k r' then Some r' else Some r)"

lemma update_rows_simps [simp, row_simps]:
  "update_rows p f [] = []"
  "update_rows p f (r # rs) = (if p r then f r else r) # update_rows p f rs"
  by (simp_all add: update_rows_def)

lemma length_update_rows [simp]: "length (update_rows p f rs) = length rs"
  by (simp add: update_rows_def)

lemma update_rows_append [row_simps]:
  "update_rows p f (rs @ qs) = update_rows p f rs @ update_rows p f qs"
  by (simp add: update_rows_def)

lemma set_update_rows: "r \<in> set (update_rows p f rs) \<Longrightarrow>
    (r \<in> set rs \<and> \<not> p r) \<or> (\<exists>q \<in> set rs. p q \<and> r = f q)"
  by (auto simp: update_rows_def)

lemma map_update_rows [row_simps]:
  assumes "\<And>r. p r \<Longrightarrow> g (f r) = g r"
  shows "map g (update_rows p f rs) = map g rs"
  using assms by (auto simp: update_rows_def)

lemma filter_update_rows_other [row_simps]:
  assumes "\<And>r. p r \<Longrightarrow> \<not> q r" and "\<And>r. p r \<Longrightarrow> \<not> q (f r)"
  shows "filter q (update_rows p f rs) = filter q rs"
  using assms by (induction rs) auto

lemma update_rows_none [row_simps]: "\<not> (\<exists>r \<in> set rs. p r) \<Longrightarrow> update_rows p f rs = rs"
  by (induction rs) auto

lemma max_by_mem: "max_by k rs = Some r \<Longrightarrow> r \<in> set rs"
  by (induction rs arbitrary: r) (auto split: option.splits if_splits)

lemma max_by_None [simp]: "max_by k rs = None \<longleftrightarrow> rs = []"
  by (cases rs) (auto split: option.splits)

lemma max_by_greatest: "max_by k rs = Some r \<Longrightarrow> q \<in> set rs \<Longrightarrow> k q \<le> k r"
  by (induction rs arbitrary: r) (force split: option.splits if_splits)+

lemma find_mem: "find p rs = Some r \<Longrightarrow> r \<in> set rs \<and> p r"
  by (induction rs) (auto split: if_splits)

lemma find_None_all: "find p rs = None \<Longrightarrow> r \<in> set rs \<Longrightarrow> \<not> p r"
  by (auto simp: find_None_iff)

end
