(* ===== verification/Redaction.thy ===== *)
theory Redaction
  imports Prelude
begin

text \<open>
  The log redactor of packages/security/src/redaction/logger.ts. Its input is a graph of
  JavaScript objects that may be shared or cyclic, so values refer to nodes of a heap; the
  set of objects being visited is the source's WeakSet. The output is a tree. The lemmas
  show that the traversal ends on every graph, that no value under a sensitive key reaches
  the output, and that the output does not depend on those values at all.
\<close>

section \<open>JavaScript values\<close>

datatype js_val =
    VUndefined
  | VNull
  | VBool bool
  | VInt int
  | VFloat string
  | VStr string
  | VRef nat

text \<open>An Error instance lists the properties its own and its prototype's fields give.\<close>

datatype js_node =
    NArray "js_val list"
  | NObject "(string \<times> js_val) list"
  | NError "(string \<times> js_val) list"

type_synonym js_heap = "js_node list"

datatype log_out =
    OVal js_val
  | OArray "log_out list"
  | OObject "(string \<times> log_out) list"

definition node_at :: "js_heap \<Rightarrow> js_val \<Rightarrow> js_node option" where
  "node_at h v = (case v of VRef n \<Rightarrow> if n < length h then Some (h ! n) else None | _ \<Rightarrow> None)"

fun node_fields :: "js_node \<Rightarrow> (string \<times> js_val) list" where
  "node_fields (NArray _) = []"
| "node_fields (NObject kvs) = kvs"
| "node_fields (NError kvs) = kvs"

text \<open>Optional chaining: a property of something that is no object is undefined.\<close>

definition get_prop :: "js_heap \<Rightarrow> js_val \<Rightarrow> string \<Rightarrow> js_val" where
  "get_prop h v k = (case node_at h v of None \<Rightarrow> VUndefined
     | Some n \<Rightarrow> (case map_of (node_fields n) k of None \<Rightarrow> VUndefined | Some x \<Rightarrow> x))"

fun is_str :: "js_val \<Rightarrow> bool" where
  "is_str (VStr _) = True"
| "is_str _ = False"

fun is_num :: "js_val \<Rightarrow> bool" where
  "is_num (VInt _) = True"
| "is_num (VFloat _) = True"
| "is_num _ = False"

definition nullish :: "js_val \<Rightarrow> js_val \<Rightarrow> js_val" where
  "nullish a b = (if a = VUndefined \<or> a = VNull then b else a)"

section \<open>Keys\<close>

definition SENSITIVE_KEYS :: "string list" where
  "SENSITIVE_KEYS = [''accesstoken'', ''apikey'', ''authorization'', ''body'', ''challenge'',
     ''cookie'', ''credential'', ''content'', ''data'', ''message'', ''text'', ''sender'',
     ''remotejid'', ''participantjid'', ''wuid'', ''mediabase64'', ''base64'',
     ''xjrcsignature'', ''evolutionapikey'', ''jwt'', ''jwtsecret'', ''pairingcode'',
     ''password'', ''newpassword'', ''confirmpassword'', ''confirmationtoken'',
     ''passwordhash'', ''phone'', ''phonenumber'', ''providercredential'', ''qrcode'', ''qr'',
     ''verifier'', ''response'', ''refreshtoken'', ''refreshtokenhashsecret'', ''secret'',
     ''selectiontoken'', ''selectiontokenhashsecret'', ''setcookie'', ''telephone'', ''token'',
     ''upstream'', ''upstreambody'', ''upstreamresponse'', ''xjrcapikey'', ''xcsrftoken'']"

definition normalizeKey :: "string \<Rightarrow> string" where
  "normalizeKey key = map to_lower (filter (\<lambda>c. c \<noteq> CHR ''-'' \<and> c \<noteq> CHR ''_'') key)"

definition sensitive :: "string \<Rightarrow> bool" where
  "sensitive key \<longleftrightarrow> normalizeKey key \<in> set SENSITIVE_KEYS"

definition REDACTED :: log_out where
  "REDACTED = OVal (VStr ''[REDACTED]'')"

section \<open>The projections of errors, requests and responses\<close>

definition ERROR_TYPES :: "string list" where
  "ERROR_TYPES = [''Error'', ''TypeError'', ''RangeError'', ''SyntaxError'', ''URIError'',
     ''EvalError'', ''AggregateError'']"

definition errorForLog :: "js_heap \<Rightarrow> js_val \<Rightarrow> log_out" where
  "errorForLog h e = (case node_at h e of
     None \<Rightarrow> OObject [(''type'', OVal (VStr ''Error''))]
   | Some _ \<Rightarrow> OObject (
       [(''type'', OVal (VStr (case find (\<lambda>name. VStr name = get_prop h e ''name'' \<or> VStr name = get_prop h e ''type'') ERROR_TYPES of
            None \<Rightarrow> ''Error'' | Some name \<Rightarrow> name)))]
       @ (case get_prop h e ''code'' of
            VStr c \<Rightarrow> if matches_code 95 c then [(''code'', OVal (VStr c))] else []
          | _ \<Rightarrow> [])
       @ (case get_prop h e ''statusCode'' of
            VInt i \<Rightarrow> if 100 \<le> i \<and> i \<le> 599 then [(''statusCode'', OVal (VInt i))] else []
          | _ \<Rightarrow> [])))"

definition starts_with :: "string \<Rightarrow> string \<Rightarrow> bool" where
  "starts_with p s \<longleftrightarrow> take (length p) s = p"

definition pathWithoutQuery :: "js_val \<Rightarrow> string option" where
  "pathWithoutQuery url = (case url of
     VStr s \<Rightarrow> (let path = takeWhile (\<lambda>c. c \<noteq> CHR ''?'') s in
       Some (if starts_with ''/hooks/'' path then ''/hooks/[REDACTED]'' else path))
   | _ \<Rightarrow> None)"

definition requestForLog :: "js_heap \<Rightarrow> js_val \<Rightarrow> log_out" where
  "requestForLog h r = (case node_at h r of None \<Rightarrow> OObject []
   | Some _ \<Rightarrow>
      (let raw = get_prop h r ''raw'';
           url = pathWithoutQuery (nullish (get_prop h r ''url'') (get_prop h raw ''url''));
           ident = get_prop h r ''id'';
           meth = get_prop h r ''method'';
           sock = get_prop h (get_prop h raw ''socket'') ''remoteAddress''
       in OObject (
         (if is_str ident \<or> is_num ident then [(''id'', OVal ident)] else [])
         @ (if is_str meth \<or> is_str (get_prop h raw ''method'')
            then [(''method'', OVal (nullish meth (get_prop h raw ''method'')))] else [])
         @ (case url of None \<Rightarrow> [] | Some u \<Rightarrow> [(''url'', OVal (VStr u))])
         @ (if is_str (get_prop h r ''ip'') then [(''remoteAddress'', OVal (get_prop h r ''ip''))]
            else if is_str (get_prop h r ''remoteAddress'')
              then [(''remoteAddress'', OVal (get_prop h r ''remoteAddress''))]
            else if is_str sock then [(''remoteAddress'', OVal sock)] else []))))"

definition responseForLog :: "js_heap \<Rightarrow> js_val \<Rightarrow> log_out" where
  "responseForLog h r = (case node_at h r of None \<Rightarrow> OObject []
   | Some _ \<Rightarrow> if is_num (get_prop h r ''statusCode'')
       then OObject [(''statusCode'', OVal (get_prop h r ''statusCode''))] else OObject [])"

section \<open>The traversal\<close>

text \<open>
  \<open>seen\<close> is the path of objects being visited: the source adds an object before its
  children and deletes it after them, so a child sees exactly its ancestors.
\<close>

function sanitizeForLog :: "js_heap \<Rightarrow> nat set \<Rightarrow> js_val \<Rightarrow> log_out" where
  "sanitizeForLog h seen v = (case v of
     VRef n \<Rightarrow>
       if \<not> n < length h then OVal v
       else (case h ! n of
         NError _ \<Rightarrow> errorForLog h v
       | NArray vs \<Rightarrow> if n \<in> seen then OVal (VStr ''[Circular]'')
           else OArray (map (sanitizeForLog h (insert n seen)) vs)
       | NObject kvs \<Rightarrow> if n \<in> seen then OVal (VStr ''[Circular]'')
           else OObject (map (\<lambda>(key, entry). (key,
             let k = normalizeKey key in
             if sensitive key then REDACTED
             else if k = ''req'' \<or> k = ''request'' then requestForLog h entry
             else if k = ''res'' \<or> k = ''reply'' then responseForLog h entry
             else if k = ''err'' \<or> k = ''error'' then errorForLog h entry
             else sanitizeForLog h (insert n seen) entry)) kvs))
   | _ \<Rightarrow> OVal v)"
  by pat_completeness auto
termination
proof (relation "measure (\<lambda>(h, seen, _). card ({..<length h} - seen))", goal_cases)
  case 1
  show ?case by simp
next
  case (2 h seen v n vs z)
  then have "{..<length h} - insert n seen \<subset> {..<length h} - seen" by auto
  then show ?case by (simp add: psubset_card_mono)
next
  case (3 h seen v n kvs z key entry k)
  then have "{..<length h} - insert n seen \<subset> {..<length h} - seen" by auto
  then show ?case by (simp add: psubset_card_mono)
qed

declare sanitizeForLog.simps [simp del]

definition redactSensitive :: "js_heap \<Rightarrow> js_val \<Rightarrow> log_out" where
  "redactSensitive h v = sanitizeForLog h {} v"

definition logMethod :: "js_heap \<Rightarrow> js_val list \<Rightarrow> log_out list" where
  "logMethod h args = map (sanitizeForLog h {}) args"

section \<open>No secret reaches the output\<close>

text \<open>Every value under a sensitive key of an output tree is the redaction mark.\<close>

fun clean :: "log_out \<Rightarrow> bool" where
  "clean (OVal v) = True"
| "clean (OArray xs) = (\<forall>x \<in> set xs. clean x)"
| "clean (OObject kvs) = (\<forall>kv \<in> set kvs. (sensitive (fst kv) \<longrightarrow> snd kv = REDACTED) \<and> clean (snd kv))"

lemma projection_keys_plain [simp]:
  "\<not> sensitive ''id''" "\<not> sensitive ''method''" "\<not> sensitive ''url''" "\<not> sensitive ''remoteAddress''"
  "\<not> sensitive ''type''" "\<not> sensitive ''code''" "\<not> sensitive ''statusCode''" "\<not> sensitive ''name''"
  "\<not> sensitive ''raw''" "\<not> sensitive ''socket''" "\<not> sensitive ''ip''"
  by (code_simp)+

lemma clean_REDACTED [simp]: "clean REDACTED"
  by (simp add: REDACTED_def)

lemma clean_errorForLog [simp]: "clean (errorForLog h e)"
  by (auto simp: errorForLog_def split: option.splits js_val.splits)

lemma clean_requestForLog [simp]: "clean (requestForLog h r)"
  by (auto simp: requestForLog_def Let_def split: option.splits)

lemma clean_responseForLog [simp]: "clean (responseForLog h r)"
  by (auto simp: responseForLog_def split: option.splits)

lemma clean_sanitizeForLog: "clean (sanitizeForLog h seen v)"
proof (induction h seen v rule: sanitizeForLog.induct)
  case (1 h seen v)
  show ?case
  proof (cases v)
    case (VRef n)
    show ?thesis
    proof (cases "n < length h")
      case True
      show ?thesis
      proof (cases "h ! n")
        case (NArray vs)
        then show ?thesis
          using 1(1)[OF VRef] True VRef by (subst sanitizeForLog.simps) auto
      next
        case (NObject kvs)
        then show ?thesis
          using 1(2)[OF VRef] True VRef
          by (subst sanitizeForLog.simps) (auto simp: Let_def)
      next
        case (NError kvs)
        then show ?thesis using True VRef by (subst sanitizeForLog.simps) auto
      qed
    next
      case False
      then show ?thesis using VRef by (subst sanitizeForLog.simps) auto
    qed
  qed (subst sanitizeForLog.simps, simp)+
qed

section \<open>The output does not depend on secrets\<close>

definition low_fields :: "(string \<times> js_val) list \<Rightarrow> (string \<times> js_val) list \<Rightarrow> bool" where
  "low_fields xs ys = list_all2 (\<lambda>x y. fst x = fst y \<and> (sensitive (fst x) \<or> snd x = snd y)) xs ys"

fun low_node :: "js_node \<Rightarrow> js_node \<Rightarrow> bool" where
  "low_node (NArray xs) (NArray ys) = (xs = ys)"
| "low_node (NObject xs) (NObject ys) = low_fields xs ys"
| "low_node (NError xs) (NError ys) = low_fields xs ys"
| "low_node _ _ = False"

text \<open>Heaps that differ at most in the values stored under sensitive keys.\<close>

definition low_heap :: "js_heap \<Rightarrow> js_heap \<Rightarrow> bool" where
  "low_heap h h' = list_all2 low_node h h'"

lemma low_fields_map_of:
  "low_fields xs ys \<Longrightarrow> \<not> sensitive k \<Longrightarrow> map_of xs k = map_of ys k"
  unfolding low_fields_def by (induction rule: list_all2_induct) auto

lemma low_node_fields: "low_node a b \<Longrightarrow> low_fields (node_fields a) (node_fields b)"
  by (cases a; cases b) (auto simp: low_fields_def)

lemma low_heap_length: "low_heap h h' \<Longrightarrow> length h' = length h"
  by (auto simp: low_heap_def dest: list_all2_lengthD)

lemma low_heap_nth: "low_heap h h' \<Longrightarrow> n < length h \<Longrightarrow> low_node (h ! n) (h' ! n)"
  by (simp add: low_heap_def list_all2_nthD)

lemma low_node_at: "low_heap h h' \<Longrightarrow> node_at h v = None \<longleftrightarrow> node_at h' v = None"
  by (simp add: node_at_def low_heap_length split: js_val.splits)

lemma low_get_prop:
  assumes "low_heap h h'" and "\<not> sensitive k"
  shows "get_prop h v k = get_prop h' v k"
proof (cases v)
  case (VRef n)
  then show ?thesis
    using assms low_fields_map_of[OF low_node_fields[OF low_heap_nth[OF assms(1)]] assms(2), of n]
    by (simp add: get_prop_def node_at_def low_heap_length)
qed (simp_all add: get_prop_def node_at_def)

lemma low_errorForLog:
  assumes "low_heap h h'"
  shows "errorForLog h v = errorForLog h' v"
proof (cases "node_at h v")
  case None
  then show ?thesis using low_node_at[OF assms, of v] by (simp add: errorForLog_def)
next
  case (Some n)
  then obtain n' where n': "node_at h' v = Some n'" using low_node_at[OF assms, of v] by auto
  have "get_prop h v k = get_prop h' v k" if "k \<in> {''name'', ''type'', ''code'', ''statusCode''}" for k
    using that low_get_prop[OF assms] by auto
  then show ?thesis by (simp only: errorForLog_def Some n' option.case insert_iff simp_thms)
qed

lemma low_requestForLog:
  assumes "low_heap h h'"
  shows "requestForLog h v = requestForLog h' v"
proof (cases "node_at h v")
  case None
  then show ?thesis using low_node_at[OF assms, of v] by (simp add: requestForLog_def)
next
  case (Some n)
  then obtain n' where n': "node_at h' v = Some n'" using low_node_at[OF assms, of v] by auto
  have "get_prop h w k = get_prop h' w k"
    if "k \<in> {''raw'', ''url'', ''id'', ''method'', ''socket'', ''remoteAddress'', ''ip''}" for w k
    using that low_get_prop[OF assms] by auto
  then show ?thesis by (simp only: requestForLog_def Some n' option.case insert_iff simp_thms)
qed

lemma low_responseForLog:
  assumes "low_heap h h'"
  shows "responseForLog h v = responseForLog h' v"
proof (cases "node_at h v")
  case None
  then show ?thesis using low_node_at[OF assms, of v] by (simp add: responseForLog_def)
next
  case (Some n)
  then obtain n' where n': "node_at h' v = Some n'" using low_node_at[OF assms, of v] by auto
  have "get_prop h v ''statusCode'' = get_prop h' v ''statusCode''"
    using low_get_prop[OF assms] by simp
  then show ?thesis by (simp only: responseForLog_def Some n' option.case)
qed

lemmas low_projections = low_errorForLog low_requestForLog low_responseForLog

lemma low_object_map:
  assumes "low_fields xs ys"
    and fg: "\<And>k v. (k, v) \<in> set xs \<Longrightarrow> f k v = g k v"
    and "\<And>k v w. sensitive k \<Longrightarrow> g k v = g k w"
  shows "map (\<lambda>(k, v). (k, f k v)) xs = map (\<lambda>(k, v). (k, g k v)) ys"
  using assms(1) fg unfolding low_fields_def
proof (induction xs ys rule: list_all2_induct)
  case Nil
  then show ?case by simp
next
  case (Cons x xs y ys)
  have "f (fst x) (snd x) = g (fst x) (snd x)" using Cons.prems by simp
  also have "\<dots> = g (fst y) (snd y)" using Cons.hyps(1) assms(3) by auto
  finally have "f (fst x) (snd x) = g (fst y) (snd y)" .
  with Cons show ?case by (simp add: case_prod_beta)
qed

lemma low_sanitizeForLog:
  "low_heap h h' \<Longrightarrow> sanitizeForLog h seen v = sanitizeForLog h' seen v"
proof (induction h seen v rule: sanitizeForLog.induct)
  case (1 h seen v)
  note len = low_heap_length[OF 1(3)]
  show ?case
  proof (cases v)
    case (VRef n)
    show ?thesis
    proof (cases "n < length h")
      case True
      note low = low_heap_nth[OF 1(3) True]
      show ?thesis
      proof (cases "h ! n")
        case (NArray vs)
        with low have h': "h' ! n = NArray vs" by (cases "h' ! n") auto
        show ?thesis
          using 1(1)[OF VRef _ NArray _ _ 1(3)] True VRef NArray h' len
          by (subst (1 2) sanitizeForLog.simps) auto
      next
        case (NObject kvs)
        with low obtain kvs' where h': "h' ! n = NObject kvs'" and lf: "low_fields kvs kvs'"
          by (cases "h' ! n") auto
        show ?thesis
        proof (cases "n \<in> seen")
          case True
          then show ?thesis using \<open>n < length h\<close> VRef NObject h' len
            by (subst (1 2) sanitizeForLog.simps) simp
        next
          case False
          show ?thesis
            using \<open>n < length h\<close> VRef NObject h' len False
            by (subst (1 2) sanitizeForLog.simps)
               (simp, rule low_object_map[OF lf],
                auto simp: Let_def low_projections[OF 1(3)] intro!: 1(2) 1(3))
        qed
      next
        case (NError kvs)
        with low obtain kvs' where "h' ! n = NError kvs'" by (cases "h' ! n") auto
        then show ?thesis using True VRef NError len low_projections(1)[OF 1(3)]
          by (subst (1 2) sanitizeForLog.simps) simp
      qed
    next
      case False
      then show ?thesis using VRef len by (subst (1 2) sanitizeForLog.simps) simp
    qed
  qed (subst (1 2) sanitizeForLog.simps, simp)+
qed

section \<open>The output holds no live object\<close>

fun is_ref :: "js_val \<Rightarrow> bool" where
  "is_ref (VRef _) = True"
| "is_ref _ = False"

fun closed_out :: "log_out \<Rightarrow> bool" where
  "closed_out (OVal v) = (\<not> is_ref v)"
| "closed_out (OArray xs) = (\<forall>x \<in> set xs. closed_out x)"
| "closed_out (OObject kvs) = (\<forall>kv \<in> set kvs. closed_out (snd kv))"

definition in_heap :: "js_heap \<Rightarrow> js_val \<Rightarrow> bool" where
  "in_heap h v = (case v of VRef n \<Rightarrow> n < length h | _ \<Rightarrow> True)"

fun node_values :: "js_node \<Rightarrow> js_val list" where
  "node_values (NArray vs) = vs"
| "node_values (NObject kvs) = map snd kvs"
| "node_values (NError kvs) = map snd kvs"

definition no_dangling :: "js_heap \<Rightarrow> bool" where
  "no_dangling h \<longleftrightarrow> (\<forall>n \<in> set h. \<forall>v \<in> set (node_values n). in_heap h v)"

definition plain_methods :: "js_heap \<Rightarrow> bool" where
  "plain_methods h \<longleftrightarrow> (\<forall>n \<in> set h. case map_of (node_fields n) ''method'' of None \<Rightarrow> True | Some v \<Rightarrow> \<not> is_ref v)"

lemma get_prop_method_plain: "plain_methods h \<Longrightarrow> \<not> is_ref (get_prop h v ''method'')"
  by (cases v) (fastforce simp: get_prop_def node_at_def plain_methods_def split: option.splits if_splits)+

lemma is_str_not_ref: "is_str v \<Longrightarrow> \<not> is_ref v"
  by (cases v) auto

lemma is_num_not_ref: "is_num v \<Longrightarrow> \<not> is_ref v"
  by (cases v) auto

lemma closed_errorForLog [simp]: "closed_out (errorForLog h e)"
  by (auto simp: errorForLog_def split: option.splits js_val.splits) (metis is_ref.simps)+

lemma closed_responseForLog [simp]: "closed_out (responseForLog h r)"
  by (auto simp: responseForLog_def is_num_not_ref split: option.splits)

lemma closed_requestForLog: "plain_methods h \<Longrightarrow> closed_out (requestForLog h r)"
  using get_prop_method_plain[of h]
  by (auto simp: requestForLog_def Let_def nullish_def is_num_not_ref is_str_not_ref split: option.splits)

lemma closed_sanitizeForLog:
  "no_dangling h \<Longrightarrow> plain_methods h \<Longrightarrow> in_heap h v \<Longrightarrow> closed_out (sanitizeForLog h seen v)"
proof (induction h seen v rule: sanitizeForLog.induct)
  case (1 h seen v)
  show ?case
  proof (cases v)
    case (VRef n)
    then have n: "n < length h" using 1(5) by (simp add: in_heap_def)
    then have vals: "\<forall>w \<in> set (node_values (h ! n)). in_heap h w"
      using 1(3) nth_mem by (auto simp: no_dangling_def)
    show ?thesis
    proof (cases "h ! n")
      case (NArray vs)
      then show ?thesis
        using 1(1)[OF VRef] 1(3,4) n VRef vals by (subst sanitizeForLog.simps) auto
    next
      case (NObject kvs)
      then show ?thesis
        using 1(2)[OF VRef] 1(3,4) n VRef vals closed_requestForLog[OF 1(4)]
        by (subst sanitizeForLog.simps) (force simp: Let_def REDACTED_def)
    next
      case (NError kvs)
      then show ?thesis using n VRef by (subst sanitizeForLog.simps) auto
    qed
  qed (subst sanitizeForLog.simps, simp)+
qed

section \<open>Properties\<close>



text \<open>In every tree the log hook passes on, at any depth, the value under a sensitive key
  is the redaction mark.\<close>

theorem log_method_clean: "\<forall>out \<in> set (logMethod h args). clean out"
  by (simp add: logMethod_def clean_sanitizeForLog)

theorem log_method_clean_witness:
  "clean (hd (logMethod [NArray [VRef 0, VStr ''x'']] [VRef 0]))"
  by (rule log_method_clean [rule_format, of _ "[NArray [VRef 0, VStr ''x'']]" "[VRef 0]"])
    (simp add: logMethod_def)



text \<open>
  Without that condition an object does get through: a request whose own \<open>method\<close> is an object
  and whose raw request has a string method is logged with that object as it is, its password
  included.
\<close>

theorem request_method_object_leaks:
  "redactSensitive [NObject [(''req'', VRef 1)], NObject [(''method'', VRef 2), (''raw'', VRef 3)],
      NObject [(''password'', VStr ''s3cret'')], NObject [(''method'', VStr ''GET'')]] (VRef 0)
   = OObject [(''req'', OObject [(''method'', OVal (VRef 2))])]"
proof -
  have "\<not> sensitive ''req''" "normalizeKey ''req'' = ''req''" by code_simp+
  then show ?thesis
    by (simp add: redactSensitive_def sanitizeForLog.simps requestForLog_def get_prop_def node_at_def
        nullish_def pathWithoutQuery_def)
qed

end
