(* ===== verification/Audit_Log.thy ===== *)
theory Audit_Log
  imports Redaction
begin

text \<open>
  The audit events of apps/api/src/modules/audit: how a security or tenant event becomes an
  audit row, and how a tenant row is written. Metadata goes through the log redactor before
  it is stored; the lemmas show that the redactor leaves the metadata the code builds alone.
\<close>

section \<open>Events\<close>

datatype security_event_type =
    AUTH_LOGIN_ACCEPTED
  | AUTH_LOGIN_DENIED
  | AUTH_RATE_LIMITED
  | AUTH_RATE_LIMIT_RELEASED
  | AUTH_RATE_LIMIT_UNAVAILABLE
  | AUTH_PROGRESSIVE_DELAY_APPLIED js_val
  | AUTH_SELECTION_TOKEN_INVALID
  | AUTH_SELECTION_TOKEN_REUSED
  | AUTH_REFRESH_INVALID
  | AUTH_REFRESH_REUSED
  | AUTH_REFRESH_ROTATED
  | AUTH_LOGOUT_COMPLETED
  | AUTH_LOGOUT_INVALID
  | BOOTSTRAP_COMPLETED

record security_event =
  se_type :: security_event_type
  se_requestId :: string
  se_identityDigest :: "string option"
  se_ipDigest :: "string option"

datatype actor_kind = NoKind | USER | INTERNAL | API_KEY string

datatype tenant_event_type =
    ORGANIZATION_SELECTED
  | TENANT_CREATED
  | API_KEY_ISSUED
  | API_KEY_REVOKED
  | MEMBERSHIP_CHANGED
  | INSTANCE_CREATED
  | INSTANCE_CONNECTED
  | INSTANCE_DISCONNECTED
  | INSTANCE_CONNECT_FAILED string
  | INSTANCE_DISCONNECT_FAILED string
  | INSTANCE_STATUS_FAILED string
  | RECONCILIATION_COMPLETED
  | CROSS_TENANT_ACCESS_DENIED

record tenant_event =
  te_type :: tenant_event_type
  te_org :: string
  te_actorId :: "string option"
  te_actorKind :: actor_kind
  te_resourceId :: string
  te_requestId :: string

datatype audit_outcome = SUCCESS | DENIED | FAILED_OUTCOME

record security_record =
  sr_type :: security_event_type
  sr_requestId :: string
  sr_identityDigest :: "string option"
  sr_ipDigest :: "string option"
  sr_outcome :: audit_outcome
  sr_metadata :: "(string \<times> log_out) list"

record tenant_record =
  tr_org :: string
  tr_actorId :: "string option"
  tr_type :: tenant_event_type
  tr_resourceType :: string
  tr_resourceId :: string
  tr_requestId :: string
  tr_outcome :: audit_outcome
  tr_metadata :: "(string \<times> log_out) list"

section \<open>Digests and metadata\<close>

definition hex_char :: "char \<Rightarrow> bool" where
  "hex_char c \<longleftrightarrow> digit_char c \<or> (CHR ''a'' \<le> c \<and> c \<le> CHR ''f'')"

definition valid_digest :: "string \<Rightarrow> bool" where
  "valid_digest s \<longleftrightarrow> length s = 64 \<and> list_all hex_char s"

definition createAuditDigest :: "string \<Rightarrow> js_error + string" where
  "createAuditDigest s = (if valid_digest s then Inr s
     else Inl (PlainError ''Audit digest must be a lowercase SHA-256 hexadecimal HMAC''))"

definition optionalAuditDigest :: "string option \<Rightarrow> js_error + string option" where
  "optionalAuditDigest v = (case v of None \<Rightarrow> Inr None
     | Some s \<Rightarrow> (case createAuditDigest s of Inl e \<Rightarrow> Inl e | Inr d \<Rightarrow> Inr (Some d)))"

definition safeMetadata :: "(string \<times> js_val) list \<Rightarrow> (string \<times> log_out) list" where
  "safeMetadata md = (case redactSensitive [NObject md] (VRef 0) of
     OObject kvs \<Rightarrow> kvs | _ \<Rightarrow> [])"

section \<open>Events to rows\<close>

definition security_row ::
  "security_event \<Rightarrow> audit_outcome \<Rightarrow> (string \<times> log_out) list \<Rightarrow> js_error + security_record" where
  "security_row e outc md =
     (case optionalAuditDigest (se_identityDigest e) of Inl err \<Rightarrow> Inl err
      | Inr idd \<Rightarrow> (case optionalAuditDigest (se_ipDigest e) of Inl err \<Rightarrow> Inl err
         | Inr ipd \<Rightarrow> Inr \<lparr>sr_type = se_type e, sr_requestId = se_requestId e, sr_identityDigest = idd,
             sr_ipDigest = ipd, sr_outcome = outc, sr_metadata = md\<rparr>))"

definition toSecurityAuditRecord :: "security_event \<Rightarrow> js_error + security_record" where
  "toSecurityAuditRecord e = (case se_type e of
     AUTH_LOGIN_ACCEPTED \<Rightarrow> security_row e SUCCESS []
   | AUTH_LOGIN_DENIED \<Rightarrow> security_row e DENIED []
   | AUTH_RATE_LIMITED \<Rightarrow> security_row e DENIED []
   | AUTH_RATE_LIMIT_UNAVAILABLE \<Rightarrow> security_row e DENIED []
   | AUTH_PROGRESSIVE_DELAY_APPLIED secs \<Rightarrow> security_row e DENIED (safeMetadata [(''delaySeconds'', secs)])
   | AUTH_SELECTION_TOKEN_INVALID \<Rightarrow> security_row e DENIED []
   | AUTH_SELECTION_TOKEN_REUSED \<Rightarrow> security_row e DENIED []
   | AUTH_REFRESH_INVALID \<Rightarrow> security_row e DENIED []
   | AUTH_REFRESH_REUSED \<Rightarrow> security_row e DENIED []
   | AUTH_LOGOUT_INVALID \<Rightarrow> security_row e DENIED []
   | AUTH_RATE_LIMIT_RELEASED \<Rightarrow> security_row e SUCCESS []
   | AUTH_REFRESH_ROTATED \<Rightarrow> security_row e SUCCESS []
   | AUTH_LOGOUT_COMPLETED \<Rightarrow> security_row e SUCCESS []
   | BOOTSTRAP_COMPLETED \<Rightarrow> Inr \<lparr>sr_type = BOOTSTRAP_COMPLETED, sr_requestId = se_requestId e,
       sr_identityDigest = None, sr_ipDigest = None, sr_outcome = SUCCESS, sr_metadata = []\<rparr>)"

text \<open>The metadata an API key actor leaves.\<close>

definition key_metadata :: "actor_kind \<Rightarrow> (string \<times> js_val) list" where
  "key_metadata k = (case k of
     API_KEY i \<Rightarrow> [(''actorKind'', VStr ''API_KEY''), (''actorApiKeyId'', VStr i)] | _ \<Rightarrow> [])"

definition tenant_row ::
  "tenant_event \<Rightarrow> string \<Rightarrow> audit_outcome \<Rightarrow> (string \<times> log_out) list \<Rightarrow> tenant_record" where
  "tenant_row e rt outc md = \<lparr>tr_org = te_org e, tr_actorId = te_actorId e, tr_type = te_type e,
     tr_resourceType = rt, tr_resourceId = te_resourceId e, tr_requestId = te_requestId e,
     tr_outcome = outc, tr_metadata = md\<rparr>"

definition toTenantAuditRecord :: "tenant_event \<Rightarrow> tenant_record" where
  "toTenantAuditRecord e =
    (let keyed = (case te_actorKind e of API_KEY _ \<Rightarrow> safeMetadata (key_metadata (te_actorKind e)) | _ \<Rightarrow> []);
         failed = (\<lambda>c. safeMetadata ((''canonicalErrorCode'', VStr c) # key_metadata (te_actorKind e)))
     in case te_type e of
       ORGANIZATION_SELECTED \<Rightarrow> tenant_row e ''organization'' SUCCESS []
     | TENANT_CREATED \<Rightarrow> (tenant_row e ''organization'' SUCCESS
           (safeMetadata [(''actorKind'', VStr ''LOCAL_ADMIN_COMMAND'')]))\<lparr>tr_actorId := None\<rparr>
     | API_KEY_ISSUED \<Rightarrow> tenant_row e ''api_key'' SUCCESS keyed
     | API_KEY_REVOKED \<Rightarrow> tenant_row e ''api_key'' SUCCESS keyed
     | MEMBERSHIP_CHANGED \<Rightarrow> tenant_row e ''membership'' SUCCESS []
     | INSTANCE_CREATED \<Rightarrow> tenant_row e ''instance'' SUCCESS keyed
     | INSTANCE_CONNECTED \<Rightarrow> tenant_row e ''instance'' SUCCESS keyed
     | INSTANCE_DISCONNECTED \<Rightarrow> tenant_row e ''instance'' SUCCESS keyed
     | INSTANCE_CONNECT_FAILED c \<Rightarrow> tenant_row e ''instance'' FAILED_OUTCOME (failed c)
     | INSTANCE_DISCONNECT_FAILED c \<Rightarrow> tenant_row e ''instance'' FAILED_OUTCOME (failed c)
     | INSTANCE_STATUS_FAILED c \<Rightarrow> tenant_row e ''instance'' FAILED_OUTCOME (failed c)
     | RECONCILIATION_COMPLETED \<Rightarrow> tenant_row e ''reconciliation'' SUCCESS
         (case te_actorKind e of API_KEY _ \<Rightarrow> keyed
          | INTERNAL \<Rightarrow> safeMetadata [(''actorKind'', VStr ''INTERNAL'')] | _ \<Rightarrow> [])
     | CROSS_TENANT_ACCESS_DENIED \<Rightarrow> tenant_row e ''organization'' DENIED keyed)"

text \<open>The INSERT of a tenant row; the audit log is the list of its rows in insertion order.\<close>

definition writeTenantAudit :: "tenant_event \<Rightarrow> tenant_record list \<Rightarrow> tenant_record list" where
  "writeTenantAudit e rows = rows @ [toTenantAuditRecord e]"

section \<open>Lemmas\<close>

lemma audit_keys_plain [simp]:
  "\<not> sensitive ''actorKind''" "\<not> sensitive ''actorApiKeyId''" "\<not> sensitive ''canonicalErrorCode''"
  "\<not> sensitive ''delaySeconds''"
  "normalizeKey ''actorKind'' = ''actorkind''" "normalizeKey ''actorApiKeyId'' = ''actorapikeyid''"
  "normalizeKey ''canonicalErrorCode'' = ''canonicalerrorcode''"
  "normalizeKey ''delaySeconds'' = ''delayseconds''"
  by code_simp+

lemma sanitize_str [simp]: "sanitizeForLog h seen (VStr s) = OVal (VStr s)"
  by (simp add: sanitizeForLog.simps)

lemma safeMetadata_audit [simp]:
  "safeMetadata [] = []"
  "safeMetadata [(''actorKind'', VStr a)] = [(''actorKind'', OVal (VStr a))]"
  "safeMetadata [(''canonicalErrorCode'', VStr c)] = [(''canonicalErrorCode'', OVal (VStr c))]"
  "safeMetadata [(''actorKind'', VStr a), (''actorApiKeyId'', VStr i)]
     = [(''actorKind'', OVal (VStr a)), (''actorApiKeyId'', OVal (VStr i))]"
  "safeMetadata [(''canonicalErrorCode'', VStr c), (''actorKind'', VStr a), (''actorApiKeyId'', VStr i)]
     = [(''canonicalErrorCode'', OVal (VStr c)), (''actorKind'', OVal (VStr a)), (''actorApiKeyId'', OVal (VStr i))]"
  by (simp_all add: safeMetadata_def redactSensitive_def sanitizeForLog.simps [of _ _ "VRef 0"])

lemma toTenantAuditRecord_fields [simp]:
  "tr_org (toTenantAuditRecord e) = te_org e"
  "tr_resourceId (toTenantAuditRecord e) = te_resourceId e"
  "tr_requestId (toTenantAuditRecord e) = te_requestId e"
  "tr_type (toTenantAuditRecord e) = te_type e"
  by (simp_all add: toTenantAuditRecord_def tenant_row_def Let_def split: tenant_event_type.splits)

text \<open>The events whose type lets an API key act.\<close>

definition key_actor_events :: "tenant_event_type \<Rightarrow> bool" where
  "key_actor_events t = (case t of ORGANIZATION_SELECTED \<Rightarrow> False | TENANT_CREATED \<Rightarrow> False
     | MEMBERSHIP_CHANGED \<Rightarrow> False | _ \<Rightarrow> True)"

lemma key_actor_recorded:
  "te_actorKind e = API_KEY i \<Longrightarrow> key_actor_events (te_type e) \<Longrightarrow>
   map_of (tr_metadata (toTenantAuditRecord e)) ''actorApiKeyId'' = Some (OVal (VStr i))"
  by (auto simp: toTenantAuditRecord_def tenant_row_def Let_def key_metadata_def key_actor_events_def
      split: tenant_event_type.splits)

text \<open>When an API key acts, every audit row whose event admits such an actor names that key
  in its metadata: the redaction pass, which removes API key material, leaves the key's identifier,
  and the row keeps the tenant, the resource and the request of the event.\<close>

theorem audit_names_the_key:
  assumes "te_actorKind e = API_KEY i" and "key_actor_events (te_type e)"
  shows "map_of (tr_metadata (last (writeTenantAudit e rows))) ''actorApiKeyId'' = Some (OVal (VStr i))
    \<and> tr_org (last (writeTenantAudit e rows)) = te_org e
    \<and> tr_resourceId (last (writeTenantAudit e rows)) = te_resourceId e
    \<and> tr_requestId (last (writeTenantAudit e rows)) = te_requestId e"
  using key_actor_recorded[OF assms] by (simp add: writeTenantAudit_def)

theorem audit_names_the_key_witness:
  "map_of (tr_metadata (last (writeTenantAudit \<lparr>te_type = INSTANCE_CONNECT_FAILED ''PROVIDER_TIMEOUT'',
     te_org = ''o'', te_actorId = None, te_actorKind = API_KEY ''k1'', te_resourceId = ''i'',
     te_requestId = ''r''\<rparr> []))) ''actorApiKeyId'' = Some (OVal (VStr ''k1''))"
  using audit_names_the_key[of "\<lparr>te_type = INSTANCE_CONNECT_FAILED ''PROVIDER_TIMEOUT'',
     te_org = ''o'', te_actorId = None, te_actorKind = API_KEY ''k1'', te_resourceId = ''i'',
     te_requestId = ''r''\<rparr>" "''k1''" "[]"] by (simp add: key_actor_events_def)

end
