(* ===== verification/Js_Text.thy ===== *)
theory Js_Text
  imports Prelude
begin

text \<open>
  Strings as the code handles them: white space and \<open>trim\<close>, \<open>includes\<close>, the markers in double
  braces that templates and flows are written with, and the text of numbers, strings and JSON values.
  A character stands for a UTF-16 code unit below 256.
\<close>

section \<open>White space\<close>

definition js_space :: "char \<Rightarrow> bool" where
  "js_space ch \<longleftrightarrow> ch = CHR '' '' \<or> ch = CHR 0xA0 \<or> (CHR 0x09 \<le> ch \<and> ch \<le> CHR 0x0D)"

definition js_trim :: "string \<Rightarrow> string" where
  "js_trim s = rev (dropWhile js_space (rev (dropWhile js_space s)))"

section \<open>Searching\<close>

fun occurs_in :: "string \<Rightarrow> string \<Rightarrow> bool" where
  "occurs_in p [] = (p = [])"
| "occurs_in p (c # cs) = (take (length p) (c # cs) = p \<or> occurs_in p cs)"

definition brace :: "char \<Rightarrow> bool" where
  "brace c \<longleftrightarrow> c = CHR ''{'' \<or> c = CHR ''}''"

text \<open>A marker at the start of the text: what stands between its braces, and the text after it.\<close>

definition match_marker :: "string \<Rightarrow> (string \<times> string) option" where
  "match_marker t = (if take 2 t \<noteq> ''{{'' then None
     else let body = takeWhile (\<lambda>c. \<not> brace c) (drop 2 t); rest = drop (2 + length body) t
          in if take 2 rest = ''}}'' then Some (body, drop 2 rest) else None)"

lemma match_marker_shorter: "match_marker t = Some (b, r) \<Longrightarrow> length r < length t"
  by (cases t) (auto simp: match_marker_def Let_def split: if_splits)

section \<open>Text of values\<close>

definition hex_digit :: "nat \<Rightarrow> char" where
  "hex_digit n = ''0123456789abcdef'' ! (n mod 16)"

text \<open>JSON.stringify of a string: the short escapes, and four hexadecimal digits for the other control characters.\<close>

definition quote_char :: "char \<Rightarrow> string" where
  "quote_char c = (let n = (of_char c :: nat) in
     if n = 34 then [char_of (92::nat), c]
     else if n = 92 then [c, c]
     else if n = 8 then [char_of (92::nat), CHR ''b'']
     else if n = 9 then [char_of (92::nat), CHR ''t'']
     else if n = 10 then [char_of (92::nat), CHR ''n'']
     else if n = 12 then [char_of (92::nat), CHR ''f'']
     else if n = 13 then [char_of (92::nat), CHR ''r'']
     else if n < 32 then char_of (92::nat) # ''u00'' @ [hex_digit (n div 16), hex_digit n]
     else [c])"

definition json_quote :: "string \<Rightarrow> string" where
  "json_quote s = char_of (34::nat) # concat (map quote_char s) @ [char_of (34::nat)]"

fun show_nat :: "nat \<Rightarrow> string" where
  "show_nat n = (if n < 10 then [char_of (48 + n)] else show_nat (n div 10) @ [char_of (48 + n mod 10)])"

declare show_nat.simps [simp del]

definition show_int :: "int \<Rightarrow> string" where
  "show_int i = (if i < 0 then CHR ''-'' # show_nat (nat (- i)) else show_nat (nat i))"

text \<open>On integers the digits are computed without counting up to the number.\<close>

lemma char_of_int_nat: "0 \<le> i \<Longrightarrow> (char_of i :: char) = char_of (nat i)"
  by (cases i rule: int_cases) simp_all

lemma show_int_code [code]:
  "show_int i = (if i < 0 then CHR ''-'' # show_int (- i) else if i < 10 then [char_of (48 + i)] else show_int (i div 10) @ [char_of (48 + i mod 10)])"
proof (cases "i < 0")
  case True
  then show ?thesis by (simp add: show_int_def)
next
  case False
  then have "0 \<le> i div 10" "0 \<le> i mod 10" by (simp_all add: pos_imp_zdiv_nonneg_iff)
  moreover from False have "nat i < 10 \<longleftrightarrow> i < 10" by linarith
  ultimately show ?thesis using False
    by (simp add: show_int_def show_nat.simps [of "nat i"] char_of_int_nat nat_div_distrib nat_mod_distrib nat_add_distrib)
qed

fun join_with :: "string \<Rightarrow> string list \<Rightarrow> string" where
  "join_with sep [] = []"
| "join_with sep [x] = x"
| "join_with sep (x # y # xs) = x @ sep @ join_with sep (y # xs)"

end
