(* ===== verification/Idempotency.thy ===== *)
theory Idempotency
  imports Js_Text
begin

text \<open>
  The idempotency records of apps/api/src/modules/instances/idempotency.ts: the canonical
  JSON form a request is hashed from, the claim of a key inside a transaction, and the two
  updates of a claimed record. The table is a list of rows; the unique key of a row is its
  organization, route and idempotency key.
\<close>

section \<open>Canonical JSON\<close>

fun canonicalJson :: "json \<Rightarrow> string" where
  "canonicalJson JNull = ''null''"
| "canonicalJson (JBool b) = (if b then ''true'' else ''false'')"
| "canonicalJson (JNum i) = show_int i"
| "canonicalJson (JStr s) = json_quote s"
| "canonicalJson (JArr xs) = ''['' @ join_with '','' (map canonicalJson xs) @ '']''"
| "canonicalJson (JObj kvs) = ''{'' @ join_with '',''
     (map snd (sort_key fst (map (\<lambda>kv. (fst kv, json_quote (fst kv) @ '':'' @ canonicalJson (snd kv))) kvs))) @ ''}''"

section \<open>Records\<close>

datatype idem_status = IN_PROGRESS | COMPLETED | FAILED_REQUEST

record idem_row =
  ir_id :: string
  ir_org :: string
  ir_route :: string
  ir_key :: string
  ir_hash :: string
  ir_op :: "string option"
  ir_status :: idem_status
  ir_meta :: "(string \<times> json) list"
  ir_expires :: int
  ir_updated :: int

type_synonym idem_table = "idem_row list"

record claim_input =
  ci_org :: string
  ci_route :: string
  ci_key :: string
  ci_hash :: string
  ci_expires :: int

datatype idem_claim = CLAIMED string | REPLAY idem_row

definition same_idem_key :: "string \<Rightarrow> string \<Rightarrow> string \<Rightarrow> idem_row \<Rightarrow> bool" where
  "same_idem_key org rt k r \<longleftrightarrow> ir_org r = org \<and> ir_route r = rt \<and> ir_key r = k"

text \<open>The rows left once an expired record of the key is dropped, and the row of a new claim.\<close>

definition live_rows :: "int \<Rightarrow> claim_input \<Rightarrow> idem_table \<Rightarrow> idem_table" where
  "live_rows now i t = filter (\<lambda>r. \<not> (same_idem_key (ci_org i) (ci_route i) (ci_key i) r \<and> ir_expires r \<le> now)) t"

definition claimed_row :: "int \<Rightarrow> string \<Rightarrow> claim_input \<Rightarrow> idem_row" where
  "claimed_row now fresh i = \<lparr>ir_id = fresh, ir_org = ci_org i, ir_route = ci_route i, ir_key = ci_key i,
     ir_hash = ci_hash i, ir_op = None, ir_status = IN_PROGRESS, ir_meta = [],
     ir_expires = db_us (ci_expires i), ir_updated = now\<rparr>"

text \<open>
  The claim: drop an expired record of the key, insert unless the key is taken, otherwise read
  the taken record and compare request hashes. \<open>now\<close> is the database clock, \<open>fresh\<close> the
  identifier the database generates for an inserted row.
\<close>

definition claimIdempotency :: "int \<Rightarrow> string \<Rightarrow> claim_input \<Rightarrow> (idem_table, idem_claim) tx" where
  "claimIdempotency now fresh i t =
    (let hit = same_idem_key (ci_org i) (ci_route i) (ci_key i); t1 = live_rows now i t
     in if \<not> list_ex hit t1 then
          (if list_ex (\<lambda>r. ir_id r = fresh) t1 then Inl (DatabaseError ''23505'' ''idempotency_records_pkey'')
           else Inr (CLAIMED fresh, t1 @ [claimed_row now fresh i]))
        else (case find hit t1 of
            None \<Rightarrow> Inl (PlainError ''Idempotency claim disappeared during transaction'')
          | Some r \<Rightarrow> if ir_hash r \<noteq> ci_hash i then Inl IdempotencyConflictError
              else Inr (REPLAY r, t1)))"

definition linkIdempotencyOperation ::
  "int \<Rightarrow> string \<Rightarrow> string \<Rightarrow> string \<Rightarrow> (string \<times> json) list \<Rightarrow> (idem_table, unit) tx" where
  "linkIdempotencyOperation now org rid opid md = tx_modify
     (update_rows (\<lambda>r. ir_org r = org \<and> ir_id r = rid)
        (\<lambda>r. r\<lparr>ir_op := Some opid, ir_meta := md, ir_updated := now\<rparr>))"

definition completeIdempotencyRecord ::
  "int \<Rightarrow> string \<Rightarrow> string \<Rightarrow> idem_status \<Rightarrow> (string \<times> json) list \<Rightarrow> (idem_table, unit) tx" where
  "completeIdempotencyRecord now org rid st md = tx_modify
     (update_rows (\<lambda>r. ir_org r = org \<and> ir_id r = rid)
        (\<lambda>r. r\<lparr>ir_status := st, ir_meta := md, ir_updated := now\<rparr>))"

section \<open>The outcomes of a claim\<close>

lemma claimIdempotency_cases:
  assumes "claimIdempotency now fresh i t = Inr (c, t')"
  obtains (claimed) "c = CLAIMED fresh" "\<forall>r \<in> set (live_rows now i t). \<not> same_idem_key (ci_org i) (ci_route i) (ci_key i) r"
      "fresh \<notin> ir_id ` set (live_rows now i t)"
      "t' = live_rows now i t @ [claimed_row now fresh i]"
    | (replay) r where "c = REPLAY r" "r \<in> set (live_rows now i t)" "same_idem_key (ci_org i) (ci_route i) (ci_key i) r"
      "ir_hash r = ci_hash i" "t' = live_rows now i t"
proof (cases "list_ex (same_idem_key (ci_org i) (ci_route i) (ci_key i)) (live_rows now i t)")
  case True
  then obtain r where r: "find (same_idem_key (ci_org i) (ci_route i) (ci_key i)) (live_rows now i t) = Some r"
    using find_None_iff [of "same_idem_key (ci_org i) (ci_route i) (ci_key i)"]
    by (auto simp: list_ex_iff)
  with True assms have "ir_hash r = ci_hash i" "c = REPLAY r" "t' = live_rows now i t"
    by (simp_all add: claimIdempotency_def Let_def split: if_splits)
  with r show ?thesis by (auto intro: replay dest: find_mem)
next
  case False
  with assms have "fresh \<notin> ir_id ` set (live_rows now i t)" "c = CLAIMED fresh"
    "t' = live_rows now i t @ [claimed_row now fresh i]"
    by (auto simp: claimIdempotency_def Let_def list_ex_iff split: if_splits)
  then show ?thesis using False by (intro claimed) (simp_all add: list_ex_iff)
qed

lemma link_fresh:
  assumes "rid \<notin> ir_id ` set t" and "ir_id q = rid" and "ir_org q = org"
  shows "linkIdempotencyOperation now org rid opid md (t @ [q])
    = Inr ((), t @ [q\<lparr>ir_op := Some opid, ir_meta := md, ir_updated := now\<rparr>])"
proof -
  have "update_rows (\<lambda>r. ir_org r = org \<and> ir_id r = rid) f t = t" for f
    by (rule update_rows_none) (use assms(1) in auto)
  then show ?thesis using assms(2,3) by (simp add: linkIdempotencyOperation_def update_rows_append)
qed

end
