(* ===== verification/Instance_Repository.thy ===== *)
theory Instance_Repository
  imports Audit_Log Idempotency
begin

text \<open>
  The tables and the statements of apps/api/src/modules/instances/repository.ts: WhatsApp
  instances, the provider operations that change them, and the idempotency records and audit
  rows written in the same transactions. A table is a list of rows in insertion order. The
  triggers of the database (plan limits, archived instances, engine pinning) are not part of
  this code: \<open>env_admit\<close> stands for them and may refuse any row a statement writes.
\<close>

section \<open>Rows\<close>

datatype provider_kind = BAILEYS | META

datatype instance_status = PROVISIONING | CREATED | PROVISIONING_FAILED | CONNECTING
  | AWAITING_ACTION | CONNECTED | DISCONNECTING | DISCONNECTED | ERROR

datatype operation_type = PROVISION | CONNECT | DISCONNECT

datatype operation_status = PENDING | SUCCEEDED | OP_FAILED | OP_UNKNOWN

datatype org_status = ORG_ACTIVE | ORG_SUSPENDED | ORG_DISABLED

record account_row =
  pa_id :: string
  pa_org :: string
  pa_provider :: provider_kind

text \<open>An instance as stored; times in microseconds.\<close>

record inst_db =
  in_id :: string
  in_org :: string
  in_account :: string
  in_name :: string
  in_key :: string
  in_extref :: "string option"
  in_status :: instance_status
  in_caps :: "string list"
  in_created :: int
  in_updated :: int
  in_observed :: "int option"
  in_fingerprint :: "string option"
  in_archived :: "int option"

text \<open>An instance as the service reads it, joined with its account; times in milliseconds.\<close>

record instance_row =
  ro_id :: string
  ro_org :: string
  ro_account :: string
  ro_name :: string
  ro_provider :: provider_kind
  ro_key :: string
  ro_extref :: "string option"
  ro_status :: instance_status
  ro_caps :: "string list"
  ro_created :: int
  ro_updated :: int
  ro_observed :: "int option"
  ro_fingerprint :: "string option"

record op_row =
  op_id :: string
  op_org :: string
  op_instance :: string
  op_type :: operation_type
  op_status :: operation_status
  op_attempts :: nat
  op_error :: "string option"
  op_recon :: bool
  op_created :: int
  op_updated :: int

record db =
  db_orgs :: "(string \<times> org_status) list"
  db_accounts :: "account_row list"
  db_instances :: "inst_db list"
  db_ops :: "op_row list"
  db_idem :: idem_table
  db_audit :: "tenant_record list"

datatype db_write = InsertInstance inst_db | UpdateInstance inst_db inst_db
  | InsertOperation op_row | UpdateOperation op_row op_row

text \<open>
  What a transaction is given from outside: the database clock, the identifiers the database
  generates, the triggers and the engine guard of the fleet.
\<close>

record tx_env =
  env_now :: int
  env_idemId :: string
  env_opId :: string
  env_admit :: "db \<Rightarrow> db_write \<Rightarrow> js_error option"
  env_guard :: "db \<Rightarrow> string \<Rightarrow> string \<Rightarrow> js_error option"

section \<open>Statements shared by the operations\<close>

definition on_idem :: "(idem_table, 'a) tx \<Rightarrow> (db, 'a) tx" where
  "on_idem m s = (case m (db_idem s) of Inl e \<Rightarrow> Inl e | Inr (a, t) \<Rightarrow> Inr (a, s\<lparr>db_idem := t\<rparr>))"

definition admitted :: "tx_env \<Rightarrow> db_write \<Rightarrow> (db, unit) tx" where
  "admitted env w s = (case env_admit env s w of Some e \<Rightarrow> Inl e | None \<Rightarrow> Inr ((), s))"

fun admit_all :: "tx_env \<Rightarrow> db_write list \<Rightarrow> (db, unit) tx" where
  "admit_all env [] = tx_return ()"
| "admit_all env (w # ws) = tx_bind (admitted env w) (\<lambda>_. admit_all env ws)"

text \<open>An UPDATE of operations: the triggers see every matched row; the result counts them.\<close>

definition update_ops :: "tx_env \<Rightarrow> (op_row \<Rightarrow> bool) \<Rightarrow> (op_row \<Rightarrow> op_row) \<Rightarrow> (db, nat) tx" where
  "update_ops env p f = tx_bind (tx_gets (\<lambda>s. filter p (db_ops s))) (\<lambda>hits.
     tx_bind (admit_all env (map (\<lambda>r. UpdateOperation r (f r)) hits)) (\<lambda>_.
     tx_bind (tx_modify (\<lambda>s. s\<lparr>db_ops := update_rows p f (db_ops s)\<rparr>)) (\<lambda>_.
     tx_return (length hits))))"

section \<open>Reading\<close>

definition joined :: "db \<Rightarrow> inst_db \<Rightarrow> instance_row option" where
  "joined s r = (case find (\<lambda>a. pa_org a = in_org r \<and> pa_id a = in_account r) (db_accounts s) of
     None \<Rightarrow> None
   | Some a \<Rightarrow> Some \<lparr>ro_id = in_id r, ro_org = in_org r, ro_account = in_account r, ro_name = in_name r,
       ro_provider = pa_provider a, ro_key = in_key r, ro_extref = in_extref r, ro_status = in_status r,
       ro_caps = in_caps r, ro_created = js_ms (in_created r), ro_updated = js_ms (in_updated r),
       ro_observed = map_option js_ms (in_observed r), ro_fingerprint = in_fingerprint r\<rparr>)"

definition first_joined :: "db \<Rightarrow> inst_db list \<Rightarrow> instance_row option" where
  "first_joined s rs = (case List.map_filter (joined s) rs of [] \<Rightarrow> None | x # _ \<Rightarrow> Some x)"

definition findProviderAccount :: "string \<Rightarrow> string \<Rightarrow> (db, account_row option) tx" where
  "findProviderAccount org aid = tx_gets (\<lambda>s.
     find (\<lambda>a. pa_org a = org \<and> pa_id a = aid) (db_accounts s))"

definition findById :: "string \<Rightarrow> string \<Rightarrow> (db, instance_row option) tx" where
  "findById org iid = tx_gets (\<lambda>s. first_joined s
     (filter (\<lambda>r. in_org r = org \<and> in_id r = iid \<and> in_archived r = None) (db_instances s)))"

text \<open>
  The same row, with a lock: the transactions on one instance run one after the other, which
  is what makes a transaction a function of the state.
\<close>

definition findByIdForUpdate :: "string \<Rightarrow> string \<Rightarrow> (db, instance_row option) tx" where
  "findByIdForUpdate org iid = tx_gets (\<lambda>s. first_joined s
     (filter (\<lambda>r. in_org r = org \<and> in_id r = iid \<and> in_archived r = None) (db_instances s)))"

definition findByOperation :: "string \<Rightarrow> string \<Rightarrow> (db, instance_row option) tx" where
  "findByOperation org opid = tx_gets (\<lambda>s. first_joined s (concat
     (map (\<lambda>po. filter (\<lambda>i. in_org i = op_org po \<and> in_id i = op_instance po) (db_instances s))
        (filter (\<lambda>po. op_org po = org \<and> op_id po = opid) (db_ops s)))))"

record cursor =
  cu_org :: string
  cu_created :: int
  cu_id :: string

text \<open>
  One page: the rows strictly before the cursor (its time is a millisecond value) in
  descending order of creation time and id.
\<close>

definition list_instances :: "string \<Rightarrow> nat \<Rightarrow> cursor option \<Rightarrow> (db, instance_row list) tx" where
  "list_instances org lim cur = tx_gets (\<lambda>s. take lim (rev (map snd (sort_key fst
     (List.map_filter (\<lambda>r. map_option (\<lambda>j. ((in_created r, in_id r), j)) (joined s r))
       (filter (\<lambda>r. in_org r = org \<and> in_archived r = None
           \<and> (case cur of None \<Rightarrow> True | Some c \<Rightarrow> (in_created r, in_id r) < (db_us (cu_created c), cu_id c)))
         (db_instances s)))))))"

definition findLatestConnectOperationForUpdate :: "string \<Rightarrow> string \<Rightarrow> (db, op_row option) tx" where
  "findLatestConnectOperationForUpdate org iid = tx_gets (\<lambda>s.
     max_by (\<lambda>o'. (op_created o', op_id o')) (filter (\<lambda>o'. op_org o' = org \<and> op_instance o' = iid
       \<and> op_type o' = CONNECT) (db_ops s)))"

definition findPendingConnectOperationForUpdate :: "string \<Rightarrow> string \<Rightarrow> (db, op_row option) tx" where
  "findPendingConnectOperationForUpdate org iid = tx_gets (\<lambda>s.
     max_by (\<lambda>o'. (op_created o', op_id o')) (filter (\<lambda>o'. op_org o' = org \<and> op_instance o' = iid
       \<and> op_type o' = CONNECT \<and> op_status o' = PENDING) (db_ops s)))"

definition findPendingDisconnectOperationForUpdate :: "string \<Rightarrow> string \<Rightarrow> (db, op_row option) tx" where
  "findPendingDisconnectOperationForUpdate org iid = tx_gets (\<lambda>s.
     max_by (\<lambda>o'. (op_created o', op_id o')) (filter (\<lambda>o'. op_org o' = org \<and> op_instance o' = iid
       \<and> op_type o' = DISCONNECT \<and> op_status o' = PENDING) (db_ops s)))"

section \<open>Writing\<close>

text \<open>INSERT of an operation; \<open>upd\<close> is the optional timestamp the caller gives (milliseconds).\<close>

definition createOperation :: "tx_env \<Rightarrow> string \<Rightarrow> string \<Rightarrow> operation_type \<Rightarrow> int option \<Rightarrow> (db, op_row) tx" where
  "createOperation env org iid ty upd =
    (let row = \<lparr>op_id = env_opId env, op_org = org, op_instance = iid, op_type = ty, op_status = PENDING,
        op_attempts = 0, op_error = None, op_recon = (ty = PROVISION), op_created = env_now env,
        op_updated = (case upd of None \<Rightarrow> env_now env | Some ms \<Rightarrow> db_us ms)\<rparr>
     in tx_bind (admitted env (InsertOperation row)) (\<lambda>_ s.
       if list_ex (\<lambda>r. op_id r = op_id row) (db_ops s) then Inl (DatabaseError ''23505'' ''provider_operations_pkey'')
       else if \<not> list_ex (\<lambda>r. in_org r = org \<and> in_id r = iid) (db_instances s)
         then Inl (DatabaseError ''23503'' ''provider_operations_instance_fk'')
       else Inr (row, s\<lparr>db_ops := db_ops s @ [row]\<rparr>)))"

definition insertInstance :: "tx_env \<Rightarrow> inst_db \<Rightarrow> (db, unit) tx" where
  "insertInstance env row = tx_bind (admitted env (InsertInstance row)) (\<lambda>_ s.
     if list_ex (\<lambda>r. in_id r = in_id row) (db_instances s) then Inl (DatabaseError ''23505'' ''instances_pkey'')
     else if list_ex (\<lambda>r. in_org r = in_org row \<and> in_name r = in_name row) (db_instances s)
       then Inl (DatabaseError ''23505'' ''instances_org_name_unique'')
     else if list_ex (\<lambda>r. in_key r = in_key row) (db_instances s)
       then Inl (DatabaseError ''23505'' ''instances_upstream_instance_key_unique'')
     else if \<not> list_ex (\<lambda>a. pa_org a = in_org row \<and> pa_id a = in_account row) (db_accounts s)
       then Inl (DatabaseError ''23503'' ''instances_provider_account_fk'')
     else Inr ((), s\<lparr>db_instances := db_instances s @ [row]\<rparr>))"

definition insertProvisioning ::
  "tx_env \<Rightarrow> string \<Rightarrow> string \<Rightarrow> string \<Rightarrow> provider_kind \<Rightarrow> string \<Rightarrow> string \<Rightarrow> (db, instance_row \<times> op_row) tx" where
  "insertProvisioning env iid org aid prov name key =
    tx_bind (insertInstance env \<lparr>in_id = iid, in_org = org, in_account = aid, in_name = name, in_key = key,
        in_extref = None, in_status = PROVISIONING, in_caps = [], in_created = env_now env,
        in_updated = env_now env, in_observed = None, in_fingerprint = None, in_archived = None\<rparr>) (\<lambda>_.
    tx_bind (createOperation env org iid PROVISION None) (\<lambda>po.
    tx_return (\<lparr>ro_id = iid, ro_org = org, ro_account = aid, ro_name = name, ro_provider = prov,
        ro_key = key, ro_extref = None, ro_status = PROVISIONING, ro_caps = [],
        ro_created = js_ms (env_now env), ro_updated = js_ms (env_now env), ro_observed = None,
        ro_fingerprint = None\<rparr>, po)))"

text \<open>The three fenced updates: they touch the operation only while it is in the state they expect.\<close>

definition updatePendingConnectOperation ::
  "tx_env \<Rightarrow> string \<Rightarrow> string \<Rightarrow> string \<Rightarrow> operation_status \<Rightarrow> string option \<Rightarrow> bool option \<Rightarrow> int \<Rightarrow> bool \<Rightarrow> (db, bool) tx" where
  "updatePendingConnectOperation env org iid opid st err recon updMs inc =
    tx_bind (update_ops env
      (\<lambda>r. op_org r = org \<and> op_instance r = iid \<and> op_id r = opid \<and> op_type r = CONNECT \<and> op_status r = PENDING)
      (\<lambda>r. r\<lparr>op_status := st, op_error := err,
             op_recon := (case recon of None \<Rightarrow> op_recon r | Some b \<Rightarrow> b),
             op_attempts := op_attempts r + (if inc then 1 else 0), op_updated := db_us updMs\<rparr>))
    (\<lambda>n. tx_return (n = 1))"

definition resolveUncertainConnectOperation ::
  "tx_env \<Rightarrow> string \<Rightarrow> string \<Rightarrow> string \<Rightarrow> int \<Rightarrow> (db, bool) tx" where
  "resolveUncertainConnectOperation env org iid opid updMs =
    tx_bind (update_ops env
      (\<lambda>r. op_org r = org \<and> op_instance r = iid \<and> op_id r = opid \<and> op_type r = CONNECT
         \<and> (op_status r = OP_UNKNOWN \<or> op_status r = OP_FAILED) \<and> op_recon r)
      (\<lambda>r. r\<lparr>op_status := SUCCEEDED, op_error := None, op_recon := False, op_updated := db_us updMs\<rparr>))
    (\<lambda>n. tx_return (n = 1))"

definition updatePendingDisconnectOperation ::
  "tx_env \<Rightarrow> string \<Rightarrow> string \<Rightarrow> string \<Rightarrow> operation_status \<Rightarrow> string option \<Rightarrow> int \<Rightarrow> bool \<Rightarrow> (db, bool) tx" where
  "updatePendingDisconnectOperation env org iid opid st err updMs inc =
    tx_bind (update_ops env
      (\<lambda>r. op_org r = org \<and> op_instance r = iid \<and> op_id r = opid \<and> op_type r = DISCONNECT \<and> op_status r = PENDING)
      (\<lambda>r. r\<lparr>op_status := st, op_error := err, op_recon := False,
             op_attempts := op_attempts r + (if inc then 1 else 0), op_updated := db_us updMs\<rparr>))
    (\<lambda>n. tx_return (n = 1))"

text \<open>
  The state of an instance; \<open>ext\<close> and \<open>caps\<close> are the optional fields of the input,
  absent (\<open>None\<close>) or present with a value.
\<close>

definition updateInstanceState ::
  "tx_env \<Rightarrow> string \<Rightarrow> string \<Rightarrow> instance_status \<Rightarrow> string option option \<Rightarrow> string list option \<Rightarrow> (db, instance_row option) tx" where
  "updateInstanceState env org iid st ext caps =
    (let p = (\<lambda>r. in_org r = org \<and> in_id r = iid);
         f = (\<lambda>r. r\<lparr>in_status := st,
                in_extref := (case ext of None \<Rightarrow> in_extref r | Some v \<Rightarrow> v),
                in_caps := (case caps of None \<Rightarrow> in_caps r | Some v \<Rightarrow> v),
                in_updated := env_now env\<rparr>)
     in tx_bind (tx_gets (\<lambda>s. filter p (db_instances s))) (\<lambda>hits.
        tx_bind (admit_all env (map (\<lambda>r. UpdateInstance r (f r)) hits)) (\<lambda>_.
        tx_bind (tx_modify (\<lambda>s. s\<lparr>db_instances := update_rows p f (db_instances s)\<rparr>)) (\<lambda>_.
        tx_gets (\<lambda>s. first_joined s (map f hits))))))"

definition completeOperation ::
  "tx_env \<Rightarrow> string \<Rightarrow> string \<Rightarrow> operation_status \<Rightarrow> string option \<Rightarrow> bool \<Rightarrow> bool \<Rightarrow> (db, unit) tx" where
  "completeOperation env org opid st err recon inc =
    tx_bind (update_ops env (\<lambda>r. op_org r = org \<and> op_id r = opid)
      (\<lambda>r. r\<lparr>op_status := st, op_error := err, op_recon := recon,
             op_attempts := op_attempts r + (if inc then 1 else 0), op_updated := env_now env\<rparr>))
    (\<lambda>_. tx_return ())"

text \<open>
  The claim of a provisioning operation for reconciliation: unknown ones, and pending ones
  whose lease has run out.
\<close>

definition claimable :: "string \<Rightarrow> string \<Rightarrow> int \<Rightarrow> int \<Rightarrow> op_row \<Rightarrow> bool" where
  "claimable org opid acqMs leaseMs r \<longleftrightarrow> op_org r = org \<and> op_id r = opid \<and> op_type r = PROVISION
     \<and> op_recon r \<and> (op_status r = OP_UNKNOWN
        \<or> (op_status r = PENDING \<and> op_updated r \<le> db_us acqMs - db_us leaseMs))"

definition claimProvisioningOperation ::
  "tx_env \<Rightarrow> string \<Rightarrow> string \<Rightarrow> int \<Rightarrow> int \<Rightarrow> (db, (instance_row \<times> op_row) option) tx" where
  "claimProvisioningOperation env org opid acqMs leaseMs =
    (let p = claimable org opid acqMs leaseMs;
         f = (\<lambda>r. r\<lparr>op_status := PENDING, op_attempts := op_attempts r + 1, op_updated := db_us acqMs\<rparr>)
     in tx_bind (tx_gets (\<lambda>s. find p (db_ops s))) (\<lambda>hit.
        tx_bind (update_ops env p f) (\<lambda>_.
        (case hit of None \<Rightarrow> tx_return None
         | Some r \<Rightarrow> tx_bind (findById org (op_instance r)) (\<lambda>i.
             tx_return (map_option (\<lambda>x. (x, f r)) i))))))"

definition claim_record :: "tx_env \<Rightarrow> claim_input \<Rightarrow> (db, idem_claim) tx" where
  "claim_record env i = on_idem (claimIdempotency (env_now env) (env_idemId env) i)"

definition link_record :: "tx_env \<Rightarrow> string \<Rightarrow> string \<Rightarrow> string \<Rightarrow> (string \<times> json) list \<Rightarrow> (db, unit) tx" where
  "link_record env org rid opid md = on_idem (linkIdempotencyOperation (env_now env) org rid opid md)"

definition complete_record :: "tx_env \<Rightarrow> string \<Rightarrow> string \<Rightarrow> idem_status \<Rightarrow> (string \<times> json) list \<Rightarrow> (db, unit) tx" where
  "complete_record env org rid st md = on_idem (completeIdempotencyRecord (env_now env) org rid st md)"

definition write_audit :: "tenant_event \<Rightarrow> (db, unit) tx" where
  "write_audit e = tx_modify (\<lambda>s. s\<lparr>db_audit := writeTenantAudit e (db_audit s)\<rparr>)"

text \<open>The tenancy check: \<open>requireActiveOrganization\<close> of tenancy/operational-limits.ts.\<close>

definition isOrganizationActive :: "string \<Rightarrow> (db, bool) tx" where
  "isOrganizationActive org = tx_gets (\<lambda>s. map_of (db_orgs s) org = Some ORG_ACTIVE)"

definition requireActiveOrganization :: "string \<Rightarrow> (db, unit) tx" where
  "requireActiveOrganization org = tx_bind (isOrganizationActive org) (\<lambda>active.
     if \<not> active then tx_throw TenantOperationalError else tx_return ())"

end
