(* ===== verification/Instance_Service.thy ===== *)
theory Instance_Service
  imports Instance_Repository
begin

text \<open>
  The service of apps/api/src/modules/instances/service.ts. Each public operation is a
  sequence of transactions around one call of the WhatsApp provider. A transaction is a
  definition of its own (\<open>connect_begin\<close>, \<open>connect_failed\<close>, ...); the whole operation
  composes them, and takes the provider's answer and \<open>world\<close>, what the other requests do to
  the database while the provider is called.
\<close>

section \<open>Context and configuration\<close>

datatype delegated_op = DelCreate | DelPair | DelDisconnect | DelStatus | DelList

text \<open>
  A delegated credential brings two hooks of the Chatwoot control service: its authorization
  check and the saga record it writes with a new instance.
\<close>

datatype credential =
    JWT string
  | API_KEY_CREDENTIAL string
  | CHATWOOT_CONTROL "string option" "string option"
      "db \<Rightarrow> delegated_op \<Rightarrow> string option \<Rightarrow> js_error option" "db \<Rightarrow> string \<Rightarrow> js_error option"

record actor_ctx =
  ac_org :: string
  ac_requestId :: string
  ac_cred :: credential

record service_cfg =
  sv_hash :: "string \<Rightarrow> string"
  sv_idemTtl :: int
  sv_connectLease :: int
  sv_disconnectLease :: int

definition IDEMPOTENCY_TTL_MS :: int where "IDEMPOTENCY_TTL_MS = 24 * 60 * 60 * 1000"
definition CONNECT_LEASE_MS :: int where "CONNECT_LEASE_MS = 60000"
definition DISCONNECT_LEASE_MS :: int where "DISCONNECT_LEASE_MS = 60000"

definition default_cfg :: "(string \<Rightarrow> string) \<Rightarrow> service_cfg" where
  "default_cfg h = \<lparr>sv_hash = h, sv_idemTtl = IDEMPOTENCY_TTL_MS, sv_connectLease = CONNECT_LEASE_MS,
     sv_disconnectLease = DISCONNECT_LEASE_MS\<rparr>"

datatype none_reason = ALREADY_CONNECTED | CONNECTION_PENDING | NO_USER_ACTION_REQUIRED

text \<open>
  What a provider answers to a connection request (\<open>ConnectionActionSchema\<close>): a QR code with its
  encoding, a pairing code, an embedded signup flow, a redirect, each with its expiry, or
  nothing to do.
\<close>

datatype connection_action =
    QR_CODE string string string
  | PAIRING_CODE string string
  | EMBEDDED_SIGNUP string string
  | REDIRECT string string
  | NONE none_reason

record public_instance =
  pi_id :: string
  pi_org :: string
  pi_account :: string
  pi_name :: string
  pi_provider :: provider_kind
  pi_status :: instance_status
  pi_created :: int
  pi_updated :: int

record mutation_result =
  mr_instance :: public_instance
  mr_op :: "string option"
  mr_replayed :: bool
  mr_pending :: bool
  mr_recon :: bool

section \<open>Helpers\<close>

definition hex_any :: "char \<Rightarrow> bool" where
  "hex_any c \<longleftrightarrow> hex_char c \<or> (CHR ''A'' \<le> c \<and> c \<le> CHR ''F'')"

definition is_uuid :: "string \<Rightarrow> bool" where
  "is_uuid s \<longleftrightarrow> length s = 36
     \<and> list_all (\<lambda>i. if i = 8 \<or> i = 13 \<or> i = 18 \<or> i = 23 then s ! i = CHR ''-'' else hex_any (s ! i)) [0..<36]
     \<and> s ! 14 \<in> set ''12345'' \<and> s ! 19 \<in> set ''89abAB''"

definition deriveUpstreamInstanceKey :: "string \<Rightarrow> js_error + string" where
  "deriveUpstreamInstanceKey iid = (if \<not> is_uuid iid then Inl (PlainError ''Instance id must be a UUID'')
     else Inr (''jrc_'' @ map to_lower (filter (\<lambda>c. c \<noteq> CHR ''-'') iid)))"

definition asInstance :: "instance_row \<Rightarrow> public_instance" where
  "asInstance r = \<lparr>pi_id = ro_id r, pi_org = ro_org r, pi_account = ro_account r, pi_name = ro_name r,
     pi_provider = ro_provider r, pi_status = ro_status r, pi_created = ro_created r, pi_updated = ro_updated r\<rparr>"

definition auditActor :: "actor_ctx \<Rightarrow> string option \<times> actor_kind" where
  "auditActor ctx = (case ac_cred ctx of
     API_KEY_CREDENTIAL k \<Rightarrow> (None, API_KEY k)
   | CHATWOOT_CONTROL a (Some k) _ _ \<Rightarrow> (None, API_KEY k)
   | CHATWOOT_CONTROL a None _ _ \<Rightarrow> (a, NoKind)
   | JWT a \<Rightarrow> (Some a, NoKind))"

definition errorCode :: "js_error \<Rightarrow> string" where
  "errorCode e = (case thrown_code e of None \<Rightarrow> ''PROVIDER_OPERATION_FAILED''
     | Some c \<Rightarrow> if matches_code 127 c then c else ''PROVIDER_OPERATION_FAILED'')"

definition isUncertain :: "js_error \<Rightarrow> bool" where
  "isUncertain e \<longleftrightarrow> thrown_uncertain e \<or> errorCode e = ''PROVIDER_TIMEOUT'' \<or> errorCode e = ''PROVIDER_ABORTED''"

definition hasUncertainConnectOutcome :: "op_row \<Rightarrow> bool" where
  "hasUncertainConnectOutcome r \<longleftrightarrow> op_recon r \<or> op_error r = Some ''PROVIDER_TIMEOUT''
     \<or> op_error r = Some ''PROVIDER_ABORTED'' \<or> op_error r = Some ''CONNECT_LEASE_EXPIRED''
     \<or> op_error r = Some ''CONNECTION_NOT_ACTIVE''"

definition connectionStatus :: "connection_action \<Rightarrow> instance_status" where
  "connectionStatus a = (case a of NONE reason \<Rightarrow> if reason = ALREADY_CONNECTED then CONNECTED else CONNECTING
     | _ \<Rightarrow> AWAITING_ACTION)"

definition replayConnectionAction :: "instance_status \<Rightarrow> connection_action" where
  "replayConnectionAction st = (if st = CONNECTED then NONE ALREADY_CONNECTED else NONE CONNECTION_PENDING)"

text \<open>\<open>isSameConnectionClock\<close> of messaging/qr-connection-order.ts and the snapshot comparison built on it.\<close>

definition isSameConnectionClock :: "int option \<times> string option \<Rightarrow> int option \<times> string option \<Rightarrow> bool" where
  "isSameConnectionClock previous current \<longleftrightarrow> snd previous = snd current \<and> fst previous = fst current"

definition isSameInstanceSnapshot :: "instance_row \<Rightarrow> instance_row \<Rightarrow> bool" where
  "isSameInstanceSnapshot current observed \<longleftrightarrow> ro_status current = ro_status observed
     \<and> ro_updated current = ro_updated observed
     \<and> isSameConnectionClock (ro_observed observed, ro_fingerprint observed) (ro_observed current, ro_fingerprint current)"

definition reference_of :: "instance_row \<Rightarrow> string" where
  "reference_of r = (case ro_extref r of Some x \<Rightarrow> x | None \<Rightarrow> ro_key r)"

definition status_name :: "instance_status \<Rightarrow> string" where
  "status_name st = (case st of PROVISIONING \<Rightarrow> ''PROVISIONING'' | CREATED \<Rightarrow> ''CREATED''
     | PROVISIONING_FAILED \<Rightarrow> ''PROVISIONING_FAILED'' | CONNECTING \<Rightarrow> ''CONNECTING''
     | AWAITING_ACTION \<Rightarrow> ''AWAITING_ACTION'' | CONNECTED \<Rightarrow> ''CONNECTED''
     | DISCONNECTING \<Rightarrow> ''DISCONNECTING'' | DISCONNECTED \<Rightarrow> ''DISCONNECTED'' | ERROR \<Rightarrow> ''ERROR'')"

definition provider_name :: "provider_kind \<Rightarrow> string" where
  "provider_name p = (case p of BAILEYS \<Rightarrow> ''BAILEYS'' | META \<Rightarrow> ''META'')"

definition action_name :: "connection_action \<Rightarrow> string" where
  "action_name a = (case a of QR_CODE _ _ _ \<Rightarrow> ''QR_CODE'' | PAIRING_CODE _ _ \<Rightarrow> ''PAIRING_CODE''
     | EMBEDDED_SIGNUP _ _ \<Rightarrow> ''EMBEDDED_SIGNUP'' | REDIRECT _ _ \<Rightarrow> ''REDIRECT'' | NONE _ \<Rightarrow> ''NONE'')"

definition instance_meta :: "string \<Rightarrow> instance_status \<Rightarrow> (string \<times> json) list" where
  "instance_meta iid st = [(''instanceId'', JStr iid), (''status'', JStr (status_name st))]"

definition audit_event :: "actor_ctx \<Rightarrow> tenant_event_type \<Rightarrow> string \<Rightarrow> tenant_event" where
  "audit_event ctx ty rid = \<lparr>te_type = ty, te_org = ac_org ctx, te_actorId = fst (auditActor ctx),
     te_actorKind = snd (auditActor ctx), te_resourceId = rid, te_requestId = ac_requestId ctx\<rparr>"

text \<open>The authorization of a delegated credential, a transaction of its own before the others.\<close>

definition authorize :: "actor_ctx \<Rightarrow> delegated_op \<Rightarrow> string option \<Rightarrow> (db, unit) tx" where
  "authorize ctx dop iid s = (case ac_cred ctx of
     CHATWOOT_CONTROL _ _ auth _ \<Rightarrow> (case auth s dop iid of Some e \<Rightarrow> Inl e | None \<Rightarrow> Inr ((), s))
   | _ \<Rightarrow> Inr ((), s))"

definition guardOperation :: "tx_env \<Rightarrow> actor_ctx \<Rightarrow> string \<Rightarrow> (db, unit) tx" where
  "guardOperation env ctx opid s = (case env_guard env s (ac_org ctx) opid of Some e \<Rightarrow> Inl e | None \<Rightarrow> Inr ((), s))"

definition denyNotFound :: "actor_ctx \<Rightarrow> string \<Rightarrow> db \<Rightarrow> (js_error + 'a) \<times> db" where
  "denyNotFound ctx rid s =
    (Inl (InstanceServiceError ''INSTANCE_NOT_FOUND'' 404),
     snd (run_tx (write_audit (audit_event ctx CROSS_TENANT_ACCESS_DENIED rid)) s))"

definition translateIdempotencyError :: "js_error \<Rightarrow> js_error" where
  "translateIdempotencyError e = (if e = IdempotencyConflictError \<or> thrown_code e = Some ''IDEMPOTENCY_CONFLICT''
     then InstanceServiceError ''IDEMPOTENCY_CONFLICT'' 409 else e)"

definition claim :: "service_cfg \<Rightarrow> tx_env \<Rightarrow> int \<Rightarrow> string \<Rightarrow> string \<Rightarrow> string \<Rightarrow> json \<Rightarrow> (db, idem_claim) tx" where
  "claim cfg env nowMs org route key request = tx_map_error translateIdempotencyError
     (claim_record env \<lparr>ci_org = org, ci_route = route, ci_key = key,
        ci_hash = sv_hash cfg (canonicalJson request), ci_expires = nowMs + sv_idemTtl cfg\<rparr>)"

section \<open>Creating an instance\<close>

record create_command =
  cc_name :: string
  cc_provider :: provider_kind
  cc_account :: string
  cc_key :: string

datatype create_initial =
    CreateReplay instance_row "string option" idem_status bool
  | CreateNew instance_row op_row string

definition create_request :: "create_command \<Rightarrow> json" where
  "create_request cmd = JObj [(''name'', JStr (cc_name cmd)), (''provider'', JStr (provider_name (cc_provider cmd))),
     (''providerAccountId'', JStr (cc_account cmd))]"

definition replayInstance :: "string \<Rightarrow> string option \<Rightarrow> (string \<times> json) list \<Rightarrow> (db, instance_row) tx" where
  "replayInstance org opid md =
    tx_bind (case opid of None \<Rightarrow> tx_return None | Some i \<Rightarrow> findByOperation org i) (\<lambda>byOperation.
    case byOperation of Some r \<Rightarrow> tx_return r
    | None \<Rightarrow> (case map_of md ''instanceId'' of
        Some (JStr iid) \<Rightarrow> tx_bind (findById org iid) (\<lambda>byId.
          case byId of Some r \<Rightarrow> tx_return r
          | None \<Rightarrow> tx_throw (InstanceServiceError ''INSTANCE_NOT_FOUND'' 404))
      | _ \<Rightarrow> tx_throw (InstanceServiceError ''INSTANCE_NOT_FOUND'' 404)))"

definition onInstanceCreated :: "actor_ctx \<Rightarrow> string \<Rightarrow> (db, unit) tx" where
  "onInstanceCreated ctx iid s = (case ac_cred ctx of
     CHATWOOT_CONTROL _ _ _ created \<Rightarrow> (case created s iid of Some e \<Rightarrow> Inl e | None \<Rightarrow> Inr ((), s))
   | _ \<Rightarrow> Inr ((), s))"

definition create_begin ::
  "service_cfg \<Rightarrow> tx_env \<Rightarrow> actor_ctx \<Rightarrow> int \<Rightarrow> string \<Rightarrow> create_command \<Rightarrow> (db, create_initial) tx" where
  "create_begin cfg env ctx nowMs newId cmd =
    tx_bind (requireActiveOrganization (ac_org ctx)) (\<lambda>_.
    tx_bind (findProviderAccount (ac_org ctx) (cc_account cmd)) (\<lambda>acct.
    case acct of None \<Rightarrow> tx_throw (InstanceServiceError ''PROVIDER_ACCOUNT_NOT_FOUND'' 404)
    | Some pa \<Rightarrow>
      if pa_provider pa \<noteq> cc_provider cmd then tx_throw (InstanceServiceError ''PROVIDER_ACCOUNT_MISMATCH'' 400)
      else tx_bind (claim cfg env nowMs (ac_org ctx) ''/v1/instances'' (cc_key cmd) (create_request cmd)) (\<lambda>idem.
        case idem of
          REPLAY rec \<Rightarrow> tx_bind (replayInstance (ac_org ctx) (ir_op rec) (ir_meta rec)) (\<lambda>i.
            tx_return (CreateReplay i (ir_op rec) (ir_status rec)
              (map_of (ir_meta rec) ''reconciliationRequired'' = Some (JBool True))))
        | CLAIMED rid \<Rightarrow>
          (case deriveUpstreamInstanceKey newId of Inl e \<Rightarrow> tx_throw e
           | Inr ukey \<Rightarrow>
            tx_bind (insertProvisioning env newId (ac_org ctx) (pa_id pa) (pa_provider pa) (cc_name cmd) ukey) (\<lambda>(i, po).
            tx_bind (onInstanceCreated ctx (ro_id i)) (\<lambda>_.
            tx_bind (link_record env (ac_org ctx) rid (op_id po)
              (instance_meta (ro_id i) PROVISIONING @ [(''reconciliationRequired'', JBool True)])) (\<lambda>_.
            tx_bind (write_audit (audit_event ctx INSTANCE_CREATED (ro_id i))) (\<lambda>_.
            tx_return (CreateNew i po rid)))))))))"

text \<open>What the provider's answer to provisioning means: the final state and the operation's outcome.\<close>

definition create_outcome ::
  "js_error + string \<Rightarrow> instance_status \<times> string option \<times> operation_status \<times> string option \<times> bool" where
  "create_outcome answer = (case answer of
     Inr ref \<Rightarrow> (CREATED, Some ref, SUCCEEDED, None, False)
   | Inl e \<Rightarrow> (if isUncertain e then (PROVISIONING, None, OP_UNKNOWN, Some (errorCode e), True)
       else (PROVISIONING_FAILED, None, OP_FAILED, Some (errorCode e), False)))"

definition create_complete ::
  "tx_env \<Rightarrow> actor_ctx \<Rightarrow> instance_row \<Rightarrow> op_row \<Rightarrow> string \<Rightarrow> js_error + string \<Rightarrow> (db, instance_row) tx" where
  "create_complete env ctx i po rid answer =
    (let (finalStatus, ref, opStatus, err, recon) = create_outcome answer in
     tx_bind (if opStatus = SUCCEEDED then guardOperation env ctx (op_id po) else tx_return ()) (\<lambda>_.
     tx_bind (updateInstanceState env (ac_org ctx) (ro_id i) finalStatus (map_option Some ref) None) (\<lambda>upd.
     case upd of None \<Rightarrow> tx_throw (InstanceServiceError ''INSTANCE_NOT_FOUND'' 404)
     | Some u \<Rightarrow>
       tx_bind (completeOperation env (ac_org ctx) (op_id po) opStatus err recon True) (\<lambda>_.
       tx_bind (complete_record env (ac_org ctx) rid COMPLETED
         (instance_meta (ro_id u) (ro_status u) @ [(''reconciliationRequired'', JBool recon)])) (\<lambda>_.
       tx_return u)))))"

definition createInstance ::
  "service_cfg \<Rightarrow> actor_ctx \<Rightarrow> create_command \<Rightarrow> tx_env \<Rightarrow> int \<Rightarrow> string \<Rightarrow> (instance_row \<Rightarrow> js_error + string)
   \<Rightarrow> (db \<Rightarrow> db) \<Rightarrow> tx_env \<Rightarrow> db \<Rightarrow> (js_error + mutation_result) \<times> db" where
  "createInstance cfg ctx cmd env1 nowMs newId provision world env2 s0 =
    (case run_tx (authorize ctx DelCreate None) s0 of (Inl e, s) \<Rightarrow> (Inl e, s)
     | (Inr _, s) \<Rightarrow>
    (case run_tx (create_begin cfg env1 ctx nowMs newId cmd) s of (Inl e, s1) \<Rightarrow> (Inl e, s1)
     | (Inr (CreateReplay i opid st recon), s1) \<Rightarrow>
        (Inr \<lparr>mr_instance = asInstance i, mr_op = opid, mr_replayed = True,
           mr_pending = (st = IN_PROGRESS \<or> ro_status i = PROVISIONING), mr_recon = recon\<rparr>, s1)
     | (Inr (CreateNew i po rid), s1) \<Rightarrow>
        (let answer = provision i; recon = snd (snd (snd (snd (create_outcome answer)))) in
         case run_tx (create_complete env2 ctx i po rid answer) (world s1) of (Inl e, s2) \<Rightarrow> (Inl e, s2)
         | (Inr u, s2) \<Rightarrow> (Inr \<lparr>mr_instance = asInstance u, mr_op = Some (op_id po), mr_replayed = False,
             mr_pending = recon, mr_recon = recon\<rparr>, s2))))"

end
