(* ===== verification/Instance_Connection.thy ===== *)
theory Instance_Connection
  imports Instance_Service
begin

text \<open>
  The connection operations of apps/api/src/modules/instances/service.ts: connecting and
  disconnecting an instance and polling its status, with their leases and fences, the reads,
  and the webhook fact of messaging/qr-connection-order.ts that races with them.
\<close>

section \<open>Connecting\<close>

record connect_command =
  kc_instance :: string
  kc_key :: string
  kc_hint :: "string option"

datatype connect_initial =
    ConnectNotFound
  | ConnectReplay instance_row "string option" bool
  | ConnectAlready instance_row
  | ConnectJoined instance_row string bool
  | ConnectNew instance_row op_row string

definition connect_request :: "connect_command \<Rightarrow> json" where
  "connect_request cmd = JObj [(''instanceId'', JStr (kc_instance cmd)),
     (''pairingHint'', case kc_hint cmd of None \<Rightarrow> JNull | Some h \<Rightarrow> JStr h)]"

definition none_meta :: "(string \<times> json) list" where
  "none_meta = [(''actionType'', JStr ''NONE'')]"

text \<open>A new connection attempt, once nothing uncertain is left of the last one.\<close>

definition connect_start ::
  "tx_env \<Rightarrow> actor_ctx \<Rightarrow> int \<Rightarrow> instance_row \<Rightarrow> string \<Rightarrow> (db, connect_initial) tx" where
  "connect_start env ctx acquiredAt inst rid =
    tx_bind (findLatestConnectOperationForUpdate (ac_org ctx) (ro_id inst)) (\<lambda>latest.
    if (case latest of None \<Rightarrow> False | Some l \<Rightarrow> op_status l = PENDING \<or> op_status l = OP_UNKNOWN
          \<or> hasUncertainConnectOutcome l)
    then tx_throw (InstanceServiceError ''CONNECT_RECONCILIATION_REQUIRED'' 409)
    else
      tx_bind (createOperation env (ac_org ctx) (ro_id inst) CONNECT (Some acquiredAt)) (\<lambda>po.
      tx_bind (updateInstanceState env (ac_org ctx) (ro_id inst) CONNECTING None None) (\<lambda>connecting.
      case connecting of None \<Rightarrow> tx_throw (InstanceServiceError ''INSTANCE_NOT_FOUND'' 404)
      | Some c \<Rightarrow>
        tx_bind (link_record env (ac_org ctx) rid (op_id po) (instance_meta (ro_id inst) CONNECTING)) (\<lambda>_.
        tx_return (ConnectNew c po rid)))))"

text \<open>
  A claimed request: nothing to do, join the attempt in progress while its lease is fresh, refuse
  once it has expired, or start an attempt.
\<close>

definition connect_claimed ::
  "service_cfg \<Rightarrow> tx_env \<Rightarrow> actor_ctx \<Rightarrow> int \<Rightarrow> instance_row \<Rightarrow> string \<Rightarrow> (db, connect_initial) tx" where
  "connect_claimed cfg env ctx acquiredAt inst rid =
    (if ro_status inst = CONNECTED then
       tx_bind (complete_record env (ac_org ctx) rid COMPLETED
         (instance_meta (ro_id inst) (ro_status inst) @ none_meta)) (\<lambda>_.
       tx_return (ConnectAlready inst))
     else if ro_status inst = CONNECTING then
       tx_bind (findPendingConnectOperationForUpdate (ac_org ctx) (ro_id inst)) (\<lambda>active.
       case active of
         Some a \<Rightarrow>
           if js_ms (op_updated a) > acquiredAt - sv_connectLease cfg then
             tx_bind (link_record env (ac_org ctx) rid (op_id a)
               (instance_meta (ro_id inst) CONNECTING @ none_meta)) (\<lambda>_.
             tx_bind (complete_record env (ac_org ctx) rid COMPLETED
               (instance_meta (ro_id inst) CONNECTING @ none_meta)) (\<lambda>_.
             tx_return (ConnectJoined inst (op_id a) (hasUncertainConnectOutcome a))))
           else tx_throw (InstanceServiceError ''CONNECT_RECONCILIATION_REQUIRED'' 409)
       | None \<Rightarrow> connect_start env ctx acquiredAt inst rid)
     else if ro_status inst \<notin> {CREATED, DISCONNECTED, ERROR, AWAITING_ACTION}
       then tx_throw (InstanceServiceError ''INSTANCE_STATE_CONFLICT'' 409)
     else connect_start env ctx acquiredAt inst rid)"

definition connect_begin ::
  "service_cfg \<Rightarrow> tx_env \<Rightarrow> actor_ctx \<Rightarrow> int \<Rightarrow> connect_command \<Rightarrow> (db, connect_initial) tx" where
  "connect_begin cfg env ctx acquiredAt cmd =
    tx_bind (requireActiveOrganization (ac_org ctx)) (\<lambda>_.
    tx_bind (findByIdForUpdate (ac_org ctx) (kc_instance cmd)) (\<lambda>found.
    case found of None \<Rightarrow> tx_return ConnectNotFound
    | Some inst \<Rightarrow>
      tx_bind (claim cfg env acquiredAt (ac_org ctx) (''/v1/instances/'' @ kc_instance cmd @ ''/connect'')
        (kc_key cmd) (connect_request cmd)) (\<lambda>idem.
      case idem of
        REPLAY rec \<Rightarrow>
          if ir_status rec = FAILED_REQUEST then tx_throw (InstanceServiceError ''PROVIDER_OPERATION_FAILED'' 502)
          else tx_bind (case ir_op rec of None \<Rightarrow> tx_return None
              | Some _ \<Rightarrow> findLatestConnectOperationForUpdate (ac_org ctx) (ro_id inst)) (\<lambda>latest.
            tx_return (ConnectReplay inst (ir_op rec)
              (case latest of None \<Rightarrow> False
               | Some l \<Rightarrow> Some (op_id l) = ir_op rec \<and> hasUncertainConnectOutcome l)))
      | CLAIMED rid \<Rightarrow> connect_claimed cfg env ctx acquiredAt inst rid)))"

text \<open>The provider refused: \<open>False\<close> when the operation is no longer this request's to change.\<close>

definition connect_failed ::
  "tx_env \<Rightarrow> actor_ctx \<Rightarrow> int \<Rightarrow> instance_row \<Rightarrow> op_row \<Rightarrow> string \<Rightarrow> js_error \<Rightarrow> (db, bool) tx" where
  "connect_failed env ctx nowMs inst po rid e =
    (let uncertain = isUncertain e; st = (if uncertain then CONNECTING else ERROR) in
     tx_bind (findByIdForUpdate (ac_org ctx) (ro_id inst)) (\<lambda>locked.
     case locked of None \<Rightarrow> tx_return False
     | Some _ \<Rightarrow>
       tx_bind (updatePendingConnectOperation env (ac_org ctx) (ro_id inst) (op_id po)
         (if uncertain then PENDING else OP_FAILED) (Some (errorCode e)) (Some uncertain) nowMs True) (\<lambda>fenced.
       if \<not> fenced then tx_return False
       else
         tx_bind (updateInstanceState env (ac_org ctx) (ro_id inst) st None None) (\<lambda>_.
         tx_bind (complete_record env (ac_org ctx) rid (if uncertain then COMPLETED else FAILED_REQUEST)
           (instance_meta (ro_id inst) st @ (if uncertain then none_meta else []))) (\<lambda>_.
         tx_bind (write_audit (audit_event ctx (INSTANCE_CONNECT_FAILED (errorCode e)) (ro_id inst))) (\<lambda>_.
         tx_return True))))))"

text \<open>The provider answered: \<open>None\<close> when the operation is no longer this request's to change.\<close>

definition connect_settled ::
  "tx_env \<Rightarrow> actor_ctx \<Rightarrow> int \<Rightarrow> instance_row \<Rightarrow> op_row \<Rightarrow> string \<Rightarrow> connection_action \<Rightarrow> (db, instance_row option) tx" where
  "connect_settled env ctx nowMs inst po rid action =
    (let pending = (action = NONE CONNECTION_PENDING) in
     tx_bind (findByIdForUpdate (ac_org ctx) (ro_id inst)) (\<lambda>locked.
     case locked of None \<Rightarrow> tx_return None
     | Some _ \<Rightarrow>
       tx_bind (guardOperation env ctx (op_id po)) (\<lambda>_.
       tx_bind (updatePendingConnectOperation env (ac_org ctx) (ro_id inst) (op_id po)
         (if pending then PENDING else SUCCEEDED) None None nowMs (\<not> pending)) (\<lambda>fenced.
       if \<not> fenced then tx_return None
       else
         tx_bind (updateInstanceState env (ac_org ctx) (ro_id inst) (connectionStatus action) None None) (\<lambda>upd.
         case upd of None \<Rightarrow> tx_throw (InstanceServiceError ''INSTANCE_NOT_FOUND'' 404)
         | Some u \<Rightarrow>
           tx_bind (complete_record env (ac_org ctx) rid COMPLETED
             (instance_meta (ro_id u) (ro_status u) @ [(''actionType'', JStr (action_name action))])) (\<lambda>_.
           tx_bind (tx_when (\<not> pending) (write_audit (audit_event ctx INSTANCE_CONNECTED (ro_id u)))) (\<lambda>_.
           tx_return (Some u))))))))"

definition connect_stale ::
  "actor_ctx \<Rightarrow> instance_row \<Rightarrow> op_row \<Rightarrow> db \<Rightarrow> (js_error + mutation_result \<times> connection_action) \<times> db" where
  "connect_stale ctx inst po s = (case run_tx (findById (ac_org ctx) (ro_id inst)) s of
     (Inl e, s') \<Rightarrow> (Inl e, s')
   | (Inr None, s') \<Rightarrow> (Inl (InstanceServiceError ''INSTANCE_NOT_FOUND'' 404), s')
   | (Inr (Some c), s') \<Rightarrow> (Inr (\<lparr>mr_instance = asInstance c, mr_op = Some (op_id po), mr_replayed = False,
       mr_pending = (ro_status c \<noteq> CONNECTED), mr_recon = False\<rparr>, replayConnectionAction (ro_status c)), s'))"

definition connectInstance ::
  "service_cfg \<Rightarrow> actor_ctx \<Rightarrow> connect_command \<Rightarrow> tx_env \<Rightarrow> int \<Rightarrow> (instance_row \<Rightarrow> js_error + connection_action)
   \<Rightarrow> (db \<Rightarrow> db) \<Rightarrow> tx_env \<Rightarrow> int \<Rightarrow> db \<Rightarrow> (js_error + mutation_result \<times> connection_action) \<times> db" where
  "connectInstance cfg ctx cmd env1 acquiredAt beginConnection world env2 nowMs s0 =
    (case run_tx (authorize ctx DelPair (Some (kc_instance cmd))) s0 of (Inl e, s) \<Rightarrow> (Inl e, s)
     | (Inr _, s) \<Rightarrow>
    (case run_tx (connect_begin cfg env1 ctx acquiredAt cmd) s of (Inl e, s1) \<Rightarrow> (Inl e, s1)
     | (Inr ConnectNotFound, s1) \<Rightarrow> denyNotFound ctx (kc_instance cmd) s1
     | (Inr (ConnectReplay i opid recon), s1) \<Rightarrow>
        (Inr (\<lparr>mr_instance = asInstance i, mr_op = opid, mr_replayed = True,
           mr_pending = (ro_status i \<noteq> CONNECTED), mr_recon = recon\<rparr>, replayConnectionAction (ro_status i)), s1)
     | (Inr (ConnectJoined i opid recon), s1) \<Rightarrow>
        (Inr (\<lparr>mr_instance = asInstance i, mr_op = Some opid, mr_replayed = False, mr_pending = True,
           mr_recon = recon\<rparr>, NONE CONNECTION_PENDING), s1)
     | (Inr (ConnectAlready i), s1) \<Rightarrow>
        (Inr (\<lparr>mr_instance = asInstance i, mr_op = None, mr_replayed = False, mr_pending = False,
           mr_recon = False\<rparr>, NONE ALREADY_CONNECTED), s1)
     | (Inr (ConnectNew i po rid), s1) \<Rightarrow>
        (case beginConnection i of
           Inl e \<Rightarrow> (case run_tx (connect_failed env2 ctx nowMs i po rid e) (world s1) of
               (Inl e', s2) \<Rightarrow> (Inl e', s2)
             | (Inr False, s2) \<Rightarrow> connect_stale ctx i po s2
             | (Inr True, s2) \<Rightarrow> (Inl (InstanceServiceError ''PROVIDER_OPERATION_FAILED'' 502), s2))
         | Inr action \<Rightarrow> (case run_tx (connect_settled env2 ctx nowMs i po rid action) (world s1) of
               (Inl e', s2) \<Rightarrow> (Inl e', s2)
             | (Inr None, s2) \<Rightarrow> connect_stale ctx i po s2
             | (Inr (Some u), s2) \<Rightarrow> (Inr (\<lparr>mr_instance = asInstance u, mr_op = Some (op_id po),
                 mr_replayed = False, mr_pending = (connectionStatus action \<noteq> CONNECTED), mr_recon = False\<rparr>,
                 action), s2)))))"

section \<open>Disconnecting\<close>

record disconnect_command =
  dc_instance :: string
  dc_key :: string

datatype disconnect_initial =
    DisconnectNotFound
  | DisconnectReplay instance_row "string option"
  | DisconnectAlready instance_row
  | DisconnectJoined instance_row string
  | DisconnectNew instance_row op_row string

definition disconnect_start ::
  "tx_env \<Rightarrow> actor_ctx \<Rightarrow> int \<Rightarrow> instance_row \<Rightarrow> string \<Rightarrow> (db, disconnect_initial) tx" where
  "disconnect_start env ctx acquiredAt inst rid =
    tx_bind (createOperation env (ac_org ctx) (ro_id inst) DISCONNECT (Some acquiredAt)) (\<lambda>po.
    tx_bind (updateInstanceState env (ac_org ctx) (ro_id inst) DISCONNECTING None None) (\<lambda>disconnecting.
    case disconnecting of None \<Rightarrow> tx_throw (InstanceServiceError ''INSTANCE_NOT_FOUND'' 404)
    | Some d \<Rightarrow>
      tx_bind (link_record env (ac_org ctx) rid (op_id po) (instance_meta (ro_id inst) DISCONNECTING)) (\<lambda>_.
      tx_return (DisconnectNew d po rid))))"

definition disconnect_begin ::
  "service_cfg \<Rightarrow> tx_env \<Rightarrow> actor_ctx \<Rightarrow> int \<Rightarrow> disconnect_command \<Rightarrow> (db, disconnect_initial) tx" where
  "disconnect_begin cfg env ctx acquiredAt cmd =
    tx_bind (findByIdForUpdate (ac_org ctx) (dc_instance cmd)) (\<lambda>found.
    case found of None \<Rightarrow> tx_return DisconnectNotFound
    | Some inst \<Rightarrow>
      tx_bind (claim cfg env acquiredAt (ac_org ctx) (''/v1/instances/'' @ dc_instance cmd @ ''/disconnect'')
        (dc_key cmd) (JObj [(''instanceId'', JStr (dc_instance cmd))])) (\<lambda>idem.
      case idem of
        REPLAY rec \<Rightarrow>
          if ir_status rec = FAILED_REQUEST then tx_throw (InstanceServiceError ''PROVIDER_OPERATION_FAILED'' 502)
          else tx_return (DisconnectReplay inst (ir_op rec))
      | CLAIMED rid \<Rightarrow>
          if ro_status inst = DISCONNECTED then
            tx_bind (complete_record env (ac_org ctx) rid COMPLETED
              (instance_meta (ro_id inst) (ro_status inst))) (\<lambda>_.
            tx_return (DisconnectAlready inst))
          else if ro_status inst = DISCONNECTING then
            tx_bind (findPendingDisconnectOperationForUpdate (ac_org ctx) (ro_id inst)) (\<lambda>active.
            case active of
              Some a \<Rightarrow>
                if js_ms (op_updated a) > acquiredAt - sv_disconnectLease cfg then
                  tx_bind (link_record env (ac_org ctx) rid (op_id a) (instance_meta (ro_id inst) DISCONNECTING)) (\<lambda>_.
                  tx_bind (complete_record env (ac_org ctx) rid COMPLETED (instance_meta (ro_id inst) DISCONNECTING)) (\<lambda>_.
                  tx_return (DisconnectJoined inst (op_id a))))
                else
                  tx_bind (updatePendingDisconnectOperation env (ac_org ctx) (ro_id inst) (op_id a) OP_UNKNOWN
                    (Some ''DISCONNECT_LEASE_EXPIRED'') acquiredAt False) (\<lambda>_.
                  disconnect_start env ctx acquiredAt inst rid)
            | None \<Rightarrow> tx_throw (InstanceServiceError ''INSTANCE_STATE_CONFLICT'' 409))
          else if ro_status inst \<notin> {CONNECTED, AWAITING_ACTION, ERROR}
            then tx_throw (InstanceServiceError ''INSTANCE_STATE_CONFLICT'' 409)
          else disconnect_start env ctx acquiredAt inst rid))"

definition disconnect_failed ::
  "tx_env \<Rightarrow> actor_ctx \<Rightarrow> int \<Rightarrow> instance_row \<Rightarrow> op_row \<Rightarrow> string \<Rightarrow> js_error \<Rightarrow> (db, bool) tx" where
  "disconnect_failed env ctx nowMs inst po rid e =
    (let uncertain = isUncertain e; st = (if uncertain then DISCONNECTING else ERROR) in
     tx_bind (findByIdForUpdate (ac_org ctx) (ro_id inst)) (\<lambda>locked.
     case locked of None \<Rightarrow> tx_return False
     | Some _ \<Rightarrow>
       tx_bind (updatePendingDisconnectOperation env (ac_org ctx) (ro_id inst) (op_id po)
         (if uncertain then PENDING else OP_FAILED) (Some (errorCode e)) nowMs True) (\<lambda>fenced.
       if \<not> fenced then tx_return False
       else
         tx_bind (updateInstanceState env (ac_org ctx) (ro_id inst) st None None) (\<lambda>_.
         tx_bind (complete_record env (ac_org ctx) rid (if uncertain then COMPLETED else FAILED_REQUEST)
           (instance_meta (ro_id inst) st)) (\<lambda>_.
         tx_bind (write_audit (audit_event ctx (INSTANCE_DISCONNECT_FAILED (errorCode e)) (ro_id inst))) (\<lambda>_.
         tx_return True))))))"

definition disconnect_settled ::
  "tx_env \<Rightarrow> actor_ctx \<Rightarrow> int \<Rightarrow> instance_row \<Rightarrow> op_row \<Rightarrow> string \<Rightarrow> (db, instance_row option) tx" where
  "disconnect_settled env ctx nowMs inst po rid =
    tx_bind (findByIdForUpdate (ac_org ctx) (ro_id inst)) (\<lambda>locked.
    case locked of None \<Rightarrow> tx_return None
    | Some _ \<Rightarrow>
      tx_bind (guardOperation env ctx (op_id po)) (\<lambda>_.
      tx_bind (updatePendingDisconnectOperation env (ac_org ctx) (ro_id inst) (op_id po) SUCCEEDED None nowMs True) (\<lambda>fenced.
      if \<not> fenced then tx_return None
      else
        tx_bind (updateInstanceState env (ac_org ctx) (ro_id inst) DISCONNECTED None None) (\<lambda>upd.
        case upd of None \<Rightarrow> tx_throw (InstanceServiceError ''INSTANCE_NOT_FOUND'' 404)
        | Some u \<Rightarrow>
          tx_bind (complete_record env (ac_org ctx) rid COMPLETED (instance_meta (ro_id u) (ro_status u))) (\<lambda>_.
          tx_bind (write_audit (audit_event ctx INSTANCE_DISCONNECTED (ro_id u))) (\<lambda>_.
          tx_return (Some u)))))))"

definition disconnect_stale :: "actor_ctx \<Rightarrow> instance_row \<Rightarrow> op_row \<Rightarrow> db \<Rightarrow> (js_error + mutation_result) \<times> db" where
  "disconnect_stale ctx inst po s = (case run_tx (findById (ac_org ctx) (ro_id inst)) s of
     (Inl e, s') \<Rightarrow> (Inl e, s')
   | (Inr None, s') \<Rightarrow> (Inl (InstanceServiceError ''INSTANCE_NOT_FOUND'' 404), s')
   | (Inr (Some c), s') \<Rightarrow> (Inr \<lparr>mr_instance = asInstance c, mr_op = Some (op_id po), mr_replayed = False,
       mr_pending = (ro_status c = DISCONNECTING), mr_recon = False\<rparr>, s'))"

definition disconnectInstance ::
  "service_cfg \<Rightarrow> actor_ctx \<Rightarrow> disconnect_command \<Rightarrow> tx_env \<Rightarrow> int \<Rightarrow> (instance_row \<Rightarrow> js_error option)
   \<Rightarrow> (db \<Rightarrow> db) \<Rightarrow> tx_env \<Rightarrow> int \<Rightarrow> db \<Rightarrow> (js_error + mutation_result) \<times> db" where
  "disconnectInstance cfg ctx cmd env1 acquiredAt disconnect world env2 nowMs s0 =
    (case run_tx (authorize ctx DelDisconnect (Some (dc_instance cmd))) s0 of (Inl e, s) \<Rightarrow> (Inl e, s)
     | (Inr _, s) \<Rightarrow>
    (case run_tx (disconnect_begin cfg env1 ctx acquiredAt cmd) s of (Inl e, s1) \<Rightarrow> (Inl e, s1)
     | (Inr DisconnectNotFound, s1) \<Rightarrow> denyNotFound ctx (dc_instance cmd) s1
     | (Inr (DisconnectReplay i opid), s1) \<Rightarrow> (Inr \<lparr>mr_instance = asInstance i, mr_op = opid, mr_replayed = True,
         mr_pending = (ro_status i = DISCONNECTING), mr_recon = False\<rparr>, s1)
     | (Inr (DisconnectJoined i opid), s1) \<Rightarrow> (Inr \<lparr>mr_instance = asInstance i, mr_op = Some opid, mr_replayed = False,
         mr_pending = (ro_status i = DISCONNECTING), mr_recon = False\<rparr>, s1)
     | (Inr (DisconnectAlready i), s1) \<Rightarrow> (Inr \<lparr>mr_instance = asInstance i, mr_op = None, mr_replayed = False,
         mr_pending = (ro_status i = DISCONNECTING), mr_recon = False\<rparr>, s1)
     | (Inr (DisconnectNew i po rid), s1) \<Rightarrow>
        (case disconnect i of
           Some e \<Rightarrow> (case run_tx (disconnect_failed env2 ctx nowMs i po rid e) (world s1) of
               (Inl e', s2) \<Rightarrow> (Inl e', s2)
             | (Inr False, s2) \<Rightarrow> disconnect_stale ctx i po s2
             | (Inr True, s2) \<Rightarrow> (Inl (InstanceServiceError ''PROVIDER_OPERATION_FAILED'' 502), s2))
         | None \<Rightarrow> (case run_tx (disconnect_settled env2 ctx nowMs i po rid) (world s1) of
               (Inl e', s2) \<Rightarrow> (Inl e', s2)
             | (Inr None, s2) \<Rightarrow> disconnect_stale ctx i po s2
             | (Inr (Some u), s2) \<Rightarrow> (Inr \<lparr>mr_instance = asInstance u, mr_op = Some (op_id po),
                 mr_replayed = False, mr_pending = False, mr_recon = False\<rparr>, s2)))))"

end
