(* ===== verification/Instance_Status.thy ===== *)
theory Instance_Status
  imports Instance_Connection
begin

text \<open>
  The reads of apps/api/src/modules/instances/service.ts (one instance, a page of instances,
  the polled status, which also settles pending operations) and the webhook fact of
  messaging/qr-connection-order.ts that races with a poll.
\<close>

section \<open>Reading instances\<close>

definition getInstance :: "actor_ctx \<Rightarrow> string \<Rightarrow> db \<Rightarrow> (js_error + public_instance) \<times> db" where
  "getInstance ctx iid s0 = (case run_tx (authorize ctx DelStatus (Some iid)) s0 of (Inl e, s) \<Rightarrow> (Inl e, s)
     | (Inr _, s) \<Rightarrow> (case run_tx (findById (ac_org ctx) iid) s of (Inl e, s1) \<Rightarrow> (Inl e, s1)
       | (Inr None, s1) \<Rightarrow> denyNotFound ctx iid s1
       | (Inr (Some r), s1) \<Rightarrow> (Inr (asInstance r), s1)))"

record instance_page =
  pg_data :: "public_instance list"
  pg_hasNextPage :: bool
  pg_nextCursor :: "cursor option"

text \<open>The cursor of a row, before its serialization: the creation time has milliseconds only.\<close>

definition encodeCursor :: "instance_row \<Rightarrow> cursor" where
  "encodeCursor r = \<lparr>cu_org = ro_org r, cu_created = ro_created r, cu_id = ro_id r\<rparr>"

definition decodeCursor :: "cursor \<Rightarrow> string \<Rightarrow> js_error + cursor" where
  "decodeCursor c org = (if \<not> is_uuid (cu_id c) then Inl (InstanceServiceError ''INVALID_CURSOR'' 400)
     else if cu_org c \<noteq> org then Inl (InstanceServiceError ''CURSOR_NOT_FOUND'' 404) else Inr c)"

definition page_of :: "nat \<Rightarrow> instance_row list \<Rightarrow> instance_page" where
  "page_of lim rows = (let selected = take lim rows; more = length rows > lim in
     \<lparr>pg_data = map asInstance selected, pg_hasNextPage = more,
      pg_nextCursor = (if more \<and> selected \<noteq> [] then Some (encodeCursor (last selected)) else None)\<rparr>)"

definition listInstances :: "actor_ctx \<Rightarrow> nat \<Rightarrow> cursor option \<Rightarrow> db \<Rightarrow> (js_error + instance_page) \<times> db" where
  "listInstances ctx lim cur s0 = (case run_tx (authorize ctx DelList None) s0 of (Inl e, s) \<Rightarrow> (Inl e, s)
     | (Inr _, s) \<Rightarrow>
       (case (case cur of None \<Rightarrow> Inr None | Some c \<Rightarrow> map_sum id Some (decodeCursor c (ac_org ctx))) of
          Inl e \<Rightarrow> (Inl e, s)
        | Inr dc \<Rightarrow> (case run_tx (list_instances (ac_org ctx) (lim + 1) dc) s of
            (Inl e, s1) \<Rightarrow> (Inl e, s1)
          | (Inr rows, s1) \<Rightarrow> (Inr (page_of lim rows), s1))))"

section \<open>Polling the status\<close>

text \<open>What a polled status makes of an operation whose lease has run out.\<close>

definition polled_connect_outcome :: "instance_status \<Rightarrow> operation_status" where
  "polled_connect_outcome st = (if st = CONNECTING then OP_UNKNOWN
     else if st = CONNECTED \<or> st = AWAITING_ACTION then SUCCEEDED else OP_FAILED)"

definition polled_connect_error :: "instance_status \<Rightarrow> string option \<Rightarrow> string option" where
  "polled_connect_error st previous = (case polled_connect_outcome st of
     OP_UNKNOWN \<Rightarrow> Some (case previous of Some e \<Rightarrow> e | None \<Rightarrow> ''CONNECT_LEASE_EXPIRED'')
   | OP_FAILED \<Rightarrow> Some (case previous of Some e \<Rightarrow> e | None \<Rightarrow> ''CONNECTION_NOT_ACTIVE'')
   | _ \<Rightarrow> None)"

text \<open>
  The operations a poll settles. The connection part answers \<open>True\<close> when a fresh lease
  decides the state (the poll only confirms that the instance is connecting); otherwise the
  disconnection part follows.
\<close>

definition status_connect ::
  "service_cfg \<Rightarrow> tx_env \<Rightarrow> actor_ctx \<Rightarrow> int \<Rightarrow> string \<Rightarrow> instance_status \<Rightarrow> (db, bool) tx" where
  "status_connect cfg env ctx observedAt iid st =
    tx_bind (findPendingConnectOperationForUpdate (ac_org ctx) iid) (\<lambda>pending.
    case pending of
      Some p \<Rightarrow>
        if js_ms (op_updated p) > observedAt - sv_connectLease cfg \<and> st \<noteq> CONNECTED then tx_return True
        else tx_bind (updatePendingConnectOperation env (ac_org ctx) iid (op_id p) (polled_connect_outcome st)
            (polled_connect_error st (op_error p)) (Some (st \<noteq> CONNECTED)) observedAt True) (\<lambda>_.
          tx_return False)
    | None \<Rightarrow>
        if st = CONNECTED then
          tx_bind (findLatestConnectOperationForUpdate (ac_org ctx) iid) (\<lambda>latest.
          case latest of
            Some l \<Rightarrow> if op_recon l \<and> (op_status l = OP_UNKNOWN \<or> op_status l = OP_FAILED)
              then tx_bind (resolveUncertainConnectOperation env (ac_org ctx) iid (op_id l) observedAt) (\<lambda>_.
                tx_return False)
              else tx_return False
          | None \<Rightarrow> tx_return False)
        else tx_return False)"

definition status_disconnect ::
  "service_cfg \<Rightarrow> tx_env \<Rightarrow> actor_ctx \<Rightarrow> int \<Rightarrow> string \<Rightarrow> instance_status \<Rightarrow> (db, bool) tx" where
  "status_disconnect cfg env ctx observedAt iid st =
    tx_bind (findPendingDisconnectOperationForUpdate (ac_org ctx) iid) (\<lambda>pending.
    case pending of
      Some p \<Rightarrow>
        if js_ms (op_updated p) > observedAt - sv_disconnectLease cfg \<and> st \<noteq> DISCONNECTED then tx_return True
        else tx_bind (updatePendingDisconnectOperation env (ac_org ctx) iid (op_id p)
            (if st = DISCONNECTED then SUCCEEDED else OP_UNKNOWN)
            (if st = DISCONNECTED then None else Some ''DISCONNECT_LEASE_EXPIRED'') observedAt True) (\<lambda>_.
          tx_return False)
    | None \<Rightarrow> tx_return False)"

definition status_settle ::
  "service_cfg \<Rightarrow> tx_env \<Rightarrow> actor_ctx \<Rightarrow> int \<Rightarrow> instance_row \<Rightarrow> string \<Rightarrow> instance_status \<Rightarrow> (db, instance_row option) tx" where
  "status_settle cfg env ctx observedAt inst iid st =
    tx_bind (findByIdForUpdate (ac_org ctx) iid) (\<lambda>found.
    case found of None \<Rightarrow> tx_return None
    | Some current \<Rightarrow>
      if \<not> isSameInstanceSnapshot current inst then tx_return (Some current)
      else
        tx_bind (status_connect cfg env ctx observedAt iid st) (\<lambda>connecting.
        if connecting then updateInstanceState env (ac_org ctx) iid CONNECTING None None
        else
          tx_bind (status_disconnect cfg env ctx observedAt iid st) (\<lambda>disconnecting.
          if disconnecting then updateInstanceState env (ac_org ctx) iid DISCONNECTING None None
          else updateInstanceState env (ac_org ctx) iid st None None)))"

definition getInstanceStatus ::
  "service_cfg \<Rightarrow> actor_ctx \<Rightarrow> string \<Rightarrow> (instance_row \<Rightarrow> js_error + instance_status) \<Rightarrow> (db \<Rightarrow> db)
   \<Rightarrow> tx_env \<Rightarrow> int \<Rightarrow> db \<Rightarrow> (js_error + public_instance) \<times> db" where
  "getInstanceStatus cfg ctx iid getStatus world env observedAt s0 =
    (case run_tx (authorize ctx DelStatus (Some iid)) s0 of (Inl e, s) \<Rightarrow> (Inl e, s)
     | (Inr _, s) \<Rightarrow>
    (case run_tx (findById (ac_org ctx) iid) s of (Inl e, s1) \<Rightarrow> (Inl e, s1)
     | (Inr None, s1) \<Rightarrow> denyNotFound ctx iid s1
     | (Inr (Some inst), s1) \<Rightarrow>
        (case getStatus inst of
           Inl e \<Rightarrow> (Inl (InstanceServiceError ''PROVIDER_OPERATION_FAILED'' 502),
             snd (run_tx (write_audit (audit_event ctx (INSTANCE_STATUS_FAILED (errorCode e)) (ro_id inst))) (world s1)))
         | Inr st \<Rightarrow> (case run_tx (status_settle cfg env ctx observedAt inst iid st) (world s1) of
               (Inl e, s2) \<Rightarrow> (Inl e, s2)
             | (Inr None, s2) \<Rightarrow> (Inl (InstanceServiceError ''INSTANCE_NOT_FOUND'' 404), s2)
             | (Inr (Some u), s2) \<Rightarrow> (Inr (asInstance u), s2)))))"

section \<open>The connection fact of a webhook\<close>

text \<open>Times in milliseconds; a fact without a time never supersedes a known clock.\<close>

definition shouldAcceptConnectionFact :: "int option \<times> string option \<Rightarrow> int option \<times> string \<Rightarrow> bool" where
  "shouldAcceptConnectionFact previous next =
    (if snd previous \<noteq> Some (snd next) then True
     else case fst previous of None \<Rightarrow> True
       | Some p \<Rightarrow> (case fst next of None \<Rightarrow> False | Some n \<Rightarrow> n > p))"

record connection_fact =
  cf_org :: string
  cf_instance :: string
  cf_connected :: bool
  cf_observed :: "int option"
  cf_fingerprint :: string

definition persistConnectionFact :: "tx_env \<Rightarrow> connection_fact \<Rightarrow> (db, bool) tx" where
  "persistConnectionFact env f =
    tx_bind (tx_gets (\<lambda>s. find (\<lambda>r. in_org r = cf_org f \<and> in_id r = cf_instance f \<and> in_archived r = None
       \<and> in_status r \<notin> {PROVISIONING, PROVISIONING_FAILED}) (db_instances s))) (\<lambda>found.
    case found of None \<Rightarrow> tx_return False
    | Some previous \<Rightarrow>
      if \<not> shouldAcceptConnectionFact (map_option js_ms (in_observed previous), in_fingerprint previous)
            (cf_observed f, cf_fingerprint f) then tx_return False
      else
        (let p = (\<lambda>r. in_org r = cf_org f \<and> in_id r = cf_instance f);
             g = (\<lambda>r. r\<lparr>in_status := (if cf_connected f then CONNECTED else DISCONNECTED),
                    in_observed := map_option db_us (cf_observed f),
                    in_fingerprint := Some (cf_fingerprint f), in_updated := env_now env\<rparr>)
         in tx_bind (tx_gets (\<lambda>s. filter p (db_instances s))) (\<lambda>hits.
            tx_bind (admit_all env (map (\<lambda>r. UpdateInstance r (g r)) hits)) (\<lambda>_.
            tx_bind (tx_modify (\<lambda>s. s\<lparr>db_instances := update_rows p g (db_instances s)\<rparr>)) (\<lambda>_.
            tx_return True)))))"

end
