(* ===== verification/Instance_Frames.thy ===== *)
theory Instance_Frames
  imports Instance_Status
begin

text \<open>
  What every transaction of the instance service keeps. \<open>repository_frame\<close> is the interface
  between the service and its repository: a preorder on databases that every statement of the
  repository keeps, for the rows of one organization. Each transaction of the service keeps it
  too. Its instances are the isolation of tenants with the growth of the audit log, the keys of
  the tables, and the life cycle of an operation.
\<close>

section \<open>Whole operations\<close>

text \<open>
  An operation that calls the provider commits before the call and after it; \<open>world\<close> is what
  the others do in between.
\<close>

definition two_phase :: "(db \<Rightarrow> db \<Rightarrow> bool) \<Rightarrow> (db \<Rightarrow> db) \<Rightarrow> db \<Rightarrow> db \<Rightarrow> bool" where
  "two_phase R world s0 s2 \<longleftrightarrow> R s0 s2 \<or> (\<exists>s1. R s0 s1 \<and> R (world s1) s2)"

lemma two_phase_first: "R s0 s2 \<Longrightarrow> two_phase R world s0 s2"
  by (simp add: two_phase_def)

lemma two_phase_second: "R s0 s1 \<Longrightarrow> R (world s1) s2 \<Longrightarrow> two_phase R world s0 s2"
  by (auto simp: two_phase_def)

lemma readonly_run: "(\<And>a t. m s = Inr (a, t) \<Longrightarrow> t = s) \<Longrightarrow> run_tx m s = (r, s') \<Longrightarrow> s' = s"
  by (auto simp: run_tx_def split: sum.splits)

lemma authorize_state: "run_tx (authorize ctx dop iid) s = (r, s') \<Longrightarrow> s' = s"
  by (rule readonly_run) (auto simp: authorize_def split: credential.splits option.splits)

lemma created_hook_state: "onInstanceCreated ctx iid s = Inr (u, s') \<Longrightarrow> s' = s"
  by (auto simp: onInstanceCreated_def split: credential.splits option.splits)

lemma find_state: "run_tx (findById org iid) s = (r, s') \<Longrightarrow> s' = s"
  by (auto simp: findById_def run_tx_def)

lemma list_state: "run_tx (list_instances org lim cur) s = (r, s') \<Longrightarrow> s' = s"
  by (auto simp: list_instances_def run_tx_def)

lemma stale_state: "connect_stale ctx i po s = (r, s') \<Longrightarrow> s' = s" "disconnect_stale ctx i po s = (q, s') \<Longrightarrow> s' = s"
  by (auto simp: connect_stale_def disconnect_stale_def split: prod.splits sum.splits option.splits
    dest: find_state)

section \<open>The interface\<close>

locale statement_frame = tx_frame R for R :: "db \<Rightarrow> db \<Rightarrow> bool" +
  fixes org :: string
  assumes law_createOther: "ty \<noteq> CONNECT \<Longrightarrow> tx_respects R (createOperation env org iid ty upd)"
    and law_insertInstance: "in_org row = org \<Longrightarrow> in_archived row = None \<Longrightarrow> tx_respects R (insertInstance env row)"
    and law_updateConnect: "tx_respects R (updatePendingConnectOperation env org iid opid st err recon ms inc)"
    and law_resolveConnect: "tx_respects R (resolveUncertainConnectOperation env org iid opid ms)"
    and law_updateDisconnect: "tx_respects R (updatePendingDisconnectOperation env org iid opid st err ms inc)"
    and law_updateInstance: "tx_respects R (updateInstanceState env org iid ist ext caps)"
    and law_claim: "ci_org i = org \<Longrightarrow> tx_respects R (claim_record env i)"
    and law_link: "tx_respects R (link_record env org rid opid md)"
    and law_complete: "tx_respects R (complete_record env org rid ist' md)"
    and law_audit: "te_org e = org \<Longrightarrow> tx_respects R (write_audit e)"
begin

lemmas statement_laws = law_insertInstance law_updateConnect law_resolveConnect
  law_updateDisconnect law_updateInstance law_claim law_link law_complete law_audit

lemma reads:
  "tx_respects R (findProviderAccount o' aid)" "tx_respects R (findById o' iid)"
  "tx_respects R (findByIdForUpdate o' iid)" "tx_respects R (findByOperation o' opid)"
  "tx_respects R (list_instances o' lim cur)" "tx_respects R (findLatestConnectOperationForUpdate o' iid)"
  "tx_respects R (findPendingConnectOperationForUpdate o' iid)"
  "tx_respects R (findPendingDisconnectOperationForUpdate o' iid)"
  "tx_respects R (isOrganizationActive o')"
  unfolding findProviderAccount_def findById_def findByIdForUpdate_def findByOperation_def list_instances_def
    findLatestConnectOperationForUpdate_def findPendingConnectOperationForUpdate_def
    findPendingDisconnectOperationForUpdate_def isOrganizationActive_def
  by (rule respects_gets)+

lemma guards:
  "tx_respects R (requireActiveOrganization o')" "tx_respects R (authorize ctx dop iid')"
  "tx_respects R (guardOperation env ctx opid)"
proof -
  show "tx_respects R (requireActiveOrganization o')"
    unfolding requireActiveOrganization_def by (intro respects_intros reads)
  show "tx_respects R (authorize ctx dop iid')"
    by (rule respects_reading) (auto simp: authorize_def split: credential.splits option.splits)
  show "tx_respects R (guardOperation env ctx opid)"
    by (rule respects_reading) (auto simp: guardOperation_def split: option.splits)
qed

lemma respects_claim_case:
  "(\<And>r. tx_respects R (f r)) \<Longrightarrow> (\<And>r. tx_respects R (g r)) \<Longrightarrow>
   tx_respects R (case c of CLAIMED r \<Rightarrow> f r | REPLAY r \<Rightarrow> g r)"
  by (cases c) auto

lemma claims: "tx_respects R (claim cfg env ms org rt k rq)"
  unfolding claim_def by (intro respects_map_error law_claim) simp

lemma audits: "ac_org ctx = org \<Longrightarrow> tx_respects R (write_audit (audit_event ctx ty rid))"
  by (rule law_audit) (simp add: audit_event_def)

lemmas tx_laws = respects_intros respects_claim_case reads guards claims

lemma connect_answers:
  assumes [simp]: "ac_org ctx = org"
  shows "tx_respects R (connect_failed env ctx ms i po rid e)"
    and "tx_respects R (connect_settled env ctx ms i po rid action)"
proof -
  show "tx_respects R (connect_failed env ctx ms i po rid e)"
    unfolding connect_failed_def assms Let_def by (intro tx_laws statement_laws audits assms)
  show "tx_respects R (connect_settled env ctx ms i po rid action)"
    unfolding connect_settled_def assms Let_def by (intro tx_laws statement_laws audits assms)
qed

lemma disconnecting:
  assumes [simp]: "ac_org ctx = org"
  shows "tx_respects R (disconnect_begin cfg env ctx acq dcmd)"
    and "tx_respects R (disconnect_failed env ctx ms i po rid e)"
    and "tx_respects R (disconnect_settled env ctx ms i po rid)"
proof -
  have start: "tx_respects R (disconnect_start env ctx acq i rid)" for i rid
    unfolding disconnect_start_def assms by (intro tx_laws statement_laws law_createOther) simp
  show "tx_respects R (disconnect_begin cfg env ctx acq dcmd)"
    unfolding disconnect_begin_def assms by (intro tx_laws statement_laws start)
  show "tx_respects R (disconnect_failed env ctx ms i po rid e)"
    unfolding disconnect_failed_def assms Let_def by (intro tx_laws statement_laws audits assms)
  show "tx_respects R (disconnect_settled env ctx ms i po rid)"
    unfolding disconnect_settled_def assms by (intro tx_laws statement_laws audits assms)
qed

lemma polling:
  assumes [simp]: "ac_org ctx = org"
  shows "tx_respects R (status_settle cfg env ctx obs inst iid st)"
proof -
  have "tx_respects R (status_connect cfg env ctx obs iid st)"
    unfolding status_connect_def assms by (intro tx_laws statement_laws)
  moreover have "tx_respects R (status_disconnect cfg env ctx obs iid st)"
    unfolding status_disconnect_def assms by (intro tx_laws statement_laws)
  ultimately show ?thesis
    unfolding status_settle_def assms by (intro tx_laws statement_laws)
qed

lemma provisioning:
  assumes [simp]: "ac_org ctx = org"
  shows "tx_respects R (create_begin cfg env ctx ms newId ccmd)"
proof -
  have replay: "tx_respects R (replayInstance org opid md)" for opid md
    unfolding replayInstance_def by (intro tx_laws) (auto split: json.splits intro!: tx_laws)
  have insert: "tx_respects R (insertProvisioning env newId org aid prov name k)" for aid prov name k
    unfolding insertProvisioning_def by (intro tx_laws statement_laws law_createOther) simp_all
  have hook: "tx_respects R (onInstanceCreated ctx iid')" for iid'
    by (rule respects_reading) (rule created_hook_state)
  show ?thesis
    unfolding create_begin_def assms
    by (intro tx_laws statement_laws replay insert hook audits assms)
qed

lemma run_step: "tx_respects R m \<Longrightarrow> run_tx m s = (r, s') \<Longrightarrow> R s s'"
  by (metis respects_run snd_conv)

lemma deny_step: "ac_org ctx = org \<Longrightarrow> denyNotFound ctx rid s = (r, s') \<Longrightarrow> R s s'"
  by (auto simp: denyNotFound_def audit_event_def intro!: respects_run law_audit)

lemmas runs = connect_answers [THEN run_step] disconnecting [THEN run_step] polling [THEN run_step]
  provisioning [THEN run_step]

lemmas phase_intros = two_phase_first two_phase_second R_trans R_refl

lemma disconnect_two_phase:
  assumes org: "ac_org ctx = org"
  shows "two_phase R world s0 (snd (disconnectInstance cfg ctx cmd env1 acq answer world env2 nowMs s0))"
proof -
  obtain r s2 where e: "disconnectInstance cfg ctx cmd env1 acq answer world env2 nowMs s0 = (r, s2)" by fastforce
  have "two_phase R world s0 s2"
    using e unfolding disconnectInstance_def
    by (auto split: prod.splits sum.splits disconnect_initial.splits option.splits bool.splits
      dest!: authorize_state stale_state runs [OF org] deny_step [OF org] intro: phase_intros)
  then show ?thesis using e by simp
qed

lemma status_two_phase:
  assumes org: "ac_org ctx = org"
  shows "two_phase R world s0 (snd (getInstanceStatus cfg ctx iid answer world env obs s0))"
proof -
  obtain r s2 where e: "getInstanceStatus cfg ctx iid answer world env obs s0 = (r, s2)" by fastforce
  have failed: "two_phase R world s
      (snd (run_tx (write_audit (audit_event ctx ty rid)) (world s)))" for s ty rid
    by (rule two_phase_second [where R = R, OF R_refl respects_run]) (rule law_audit, simp add: audit_event_def org)
  have "two_phase R world s0 s2"
    using e unfolding getInstanceStatus_def
    by (auto split: prod.splits sum.splits option.splits simp: failed
      dest!: authorize_state find_state runs [OF org] deny_step [OF org] intro: phase_intros)
  then show ?thesis using e by simp
qed

lemma reads_step:
  assumes org: "ac_org ctx = org"
  shows "R s0 (snd (getInstance ctx iid s0))" and "R s0 (snd (listInstances ctx lim cur s0))"
proof -
  show "R s0 (snd (listInstances ctx lim cur s0))"
    by (auto simp: listInstances_def split: prod.splits sum.splits dest!: authorize_state list_state intro: R_refl)
  obtain r s2 where e: "getInstance ctx iid s0 = (r, s2)" by fastforce
  then have "R s0 s2" unfolding getInstance_def
    by (auto split: prod.splits sum.splits option.splits dest!: authorize_state find_state deny_step [OF org]
      intro: R_refl)
  then show "R s0 (snd (getInstance ctx iid s0))" using e by simp
qed

end

text \<open>The start of a connection needs the law for connection operations too.\<close>

locale repository_frame = statement_frame +
  assumes law_createConnect: "tx_respects R (createOperation env org iid CONNECT upd)"
begin

lemma connecting:
  assumes [simp]: "ac_org ctx = org"
  shows "tx_respects R (connect_begin cfg env ctx acq cmd)"
proof -
  have start: "tx_respects R (connect_start env ctx acq i rid)" for i rid
    unfolding connect_start_def assms by (intro tx_laws statement_laws law_createConnect)
  have "tx_respects R (connect_claimed cfg env ctx acq i rid)" for i rid
    unfolding connect_claimed_def assms by (intro tx_laws statement_laws start)
  then show ?thesis
    unfolding connect_begin_def assms by (intro tx_laws statement_laws)
qed

lemma connect_two_phase:
  assumes org: "ac_org ctx = org"
  shows "two_phase R world s0 (snd (connectInstance cfg ctx cmd env1 acq answer world env2 nowMs s0))"
proof -
  obtain r s2 where e: "connectInstance cfg ctx cmd env1 acq answer world env2 nowMs s0 = (r, s2)" by fastforce
  have "two_phase R world s0 s2"
    using e unfolding connectInstance_def
    by (auto split: prod.splits sum.splits connect_initial.splits option.splits bool.splits
      dest!: authorize_state stale_state runs [OF org] connecting [OF org, THEN run_step] deny_step [OF org] intro: phase_intros)
  then show ?thesis using e by simp
qed

end

text \<open>The completion of an operation is not fenced: it needs a law of its own.\<close>

locale provisioning_frame = repository_frame +
  assumes law_completeOperation: "tx_respects R (completeOperation env org opid st err recon inc)"
begin

lemma completing:
  assumes [simp]: "ac_org ctx = org"
  shows "tx_respects R (create_complete env ctx i po rid answer)"
  unfolding create_complete_def assms Let_def
  by (intro tx_laws statement_laws law_completeOperation)

lemma create_two_phase:
  assumes org: "ac_org ctx = org"
  shows "two_phase R world s0 (snd (createInstance cfg ctx cmd env1 nowMs newId answer world env2 s0))"
proof -
  obtain r s2 where e: "createInstance cfg ctx cmd env1 nowMs newId answer world env2 s0 = (r, s2)" by fastforce
  have "two_phase R world s0 s2"
    using e unfolding createInstance_def Let_def
    by (auto split: prod.splits sum.splits create_initial.splits
      dest!: authorize_state runs [OF org] completing [OF org, THEN run_step] intro: phase_intros)
  then show ?thesis using e by simp
qed

end

end
