(* ===== verification/Instance_Isolation.thy ===== *)
theory Instance_Isolation
  imports Instance_Frames
begin

text \<open>
  Tenant isolation and the append-only history of the instance service: the first instance of
  \<open>repository_frame\<close>.
\<close>

section \<open>Steps of one tenant\<close>

definition grows :: "'a list \<Rightarrow> 'a list \<Rightarrow> bool" where
  "grows xs ys \<longleftrightarrow> take (length xs) ys = xs"

lemma grows_refl [simp]: "grows xs xs"
  by (simp add: grows_def)

lemma grows_append [simp]: "grows xs (xs @ ys)"
  by (simp add: grows_def)

lemma grows_iff: "grows xs ys \<longleftrightarrow> (\<exists>zs. ys = xs @ zs)"
  by (metis append_take_drop_id grows_append grows_def)

lemma grows_trans: "grows xs ys \<Longrightarrow> grows ys zs \<Longrightarrow> grows xs zs"
  by (auto simp: grows_iff)

text \<open>What identifies an instance and an operation: no statement changes it once the row is written.\<close>

definition inst_identity :: "inst_db \<Rightarrow> string \<times> string \<times> string \<times> string \<times> string \<times> int \<times> int option" where
  "inst_identity r = (in_id r, in_org r, in_account r, in_name r, in_key r, in_created r, in_archived r)"

definition op_identity :: "op_row \<Rightarrow> string \<times> string \<times> string \<times> operation_type \<times> int" where
  "op_identity r = (op_id r, op_org r, op_instance r, op_type r, op_created r)"

definition tenant_step :: "string \<Rightarrow> db \<Rightarrow> db \<Rightarrow> bool" where
  "tenant_step org s s' \<longleftrightarrow> db_orgs s' = db_orgs s \<and> db_accounts s' = db_accounts s
     \<and> filter (\<lambda>r. in_org r \<noteq> org) (db_instances s') = filter (\<lambda>r. in_org r \<noteq> org) (db_instances s)
     \<and> filter (\<lambda>r. op_org r \<noteq> org) (db_ops s') = filter (\<lambda>r. op_org r \<noteq> org) (db_ops s)
     \<and> filter (\<lambda>r. ir_org r \<noteq> org) (db_idem s') = filter (\<lambda>r. ir_org r \<noteq> org) (db_idem s)
     \<and> filter (\<lambda>r. tr_org r \<noteq> org) (db_audit s') = filter (\<lambda>r. tr_org r \<noteq> org) (db_audit s)
     \<and> grows (db_audit s) (db_audit s')
     \<and> grows (map inst_identity (db_instances s)) (map inst_identity (db_instances s'))
     \<and> grows (map op_identity (db_ops s)) (map op_identity (db_ops s'))"

lemma tenant_frame: "tx_frame (tenant_step org)"
  by unfold_locales (auto simp: tenant_step_def intro: grows_trans)

lemma admit_all_state: "admit_all env ws s = Inr (u, s') \<Longrightarrow> s' = s"
  by (induction ws arbitrary: s) (auto simp: tx_bind_eq_Inr admitted_def split: option.splits)

lemma admitted_state: "admitted env w s = Inr (u, s') \<Longrightarrow> s' = s"
  by (auto simp: admitted_def split: option.splits)

lemma update_ops_eq_Inr: "update_ops env p f s = Inr (n, s') \<Longrightarrow>
    s' = s\<lparr>db_ops := update_rows p f (db_ops s)\<rparr> \<and> n = length (filter p (db_ops s))"
  by (auto simp: update_ops_def tx_bind_eq_Inr dest!: admit_all_state)

text \<open>The result and the next state of each statement.\<close>

lemma createOperation_eq_Inr:
  assumes "createOperation env org iid ty upd s = Inr (row, s')"
  shows "s' = s\<lparr>db_ops := db_ops s @ [row]\<rparr>" and "op_id row = env_opId env" and "op_org row = org"
    and "op_instance row = iid" and "op_type row = ty" and "op_status row = PENDING"
    and "op_created row = env_now env" and "op_recon row = (ty = PROVISION)" and "op_error row = None"
    and "op_updated row = (case upd of None \<Rightarrow> env_now env | Some ms \<Rightarrow> db_us ms)"
    and "op_id row \<notin> op_id ` set (db_ops s)"
    and "\<exists>r \<in> set (db_instances s). in_org r = org \<and> in_id r = iid"
  using assms by (auto simp: createOperation_def Let_def tx_bind_eq_Inr list_ex_iff
      dest!: admitted_state split: if_splits)

lemma insertInstance_eq_Inr:
  assumes "insertInstance env row s = Inr (u, s')"
  shows "s' = s\<lparr>db_instances := db_instances s @ [row]\<rparr>" and "in_id row \<notin> in_id ` set (db_instances s)"
    and "in_key row \<notin> in_key ` set (db_instances s)"
    and "(in_org row, in_name row) \<notin> (\<lambda>r. (in_org r, in_name r)) ` set (db_instances s)"
    and "\<exists>a \<in> set (db_accounts s). pa_org a = in_org row \<and> pa_id a = in_account row"
  using assms by (auto simp: insertInstance_def tx_bind_eq_Inr list_ex_iff dest!: admitted_state split: if_splits)

lemma updateInstanceState_eq_Inr:
  assumes "updateInstanceState env org iid st ext caps s = Inr (u, s')"
  shows "s' = s\<lparr>db_instances := update_rows (\<lambda>r. in_org r = org \<and> in_id r = iid)
     (\<lambda>r. r\<lparr>in_status := st, in_extref := (case ext of None \<Rightarrow> in_extref r | Some v \<Rightarrow> v),
        in_caps := (case caps of None \<Rightarrow> in_caps r | Some v \<Rightarrow> v), in_updated := env_now env\<rparr>) (db_instances s)\<rparr>"
  using assms by (auto simp: updateInstanceState_def Let_def tx_bind_eq_Inr dest!: admit_all_state)

lemma claim_record_eq_Inr:
  assumes "claim_record env i s = Inr (c, s')"
  shows "\<exists>t. claimIdempotency (env_now env) (env_idemId env) i (db_idem s) = Inr (c, t) \<and> s' = s\<lparr>db_idem := t\<rparr>"
  using assms by (auto simp: claim_record_def on_idem_def split: sum.splits)

section \<open>The laws\<close>

lemma tenant_ops_update:
  assumes "\<And>r. p r \<Longrightarrow> op_org r = org \<and> op_identity (f r) = op_identity r"
  shows "tenant_step org s (s\<lparr>db_ops := update_rows p f (db_ops s)\<rparr>)"
proof -
  have org: "op_org (f r) = org" if "p r" for r
    using assms[OF that] by (simp add: op_identity_def)
  have "filter (\<lambda>r. op_org r \<noteq> org) (update_rows p f (db_ops s)) = filter (\<lambda>r. op_org r \<noteq> org) (db_ops s)"
    by (rule filter_update_rows_other) (use assms org in auto)
  moreover have "map op_identity (update_rows p f (db_ops s)) = map op_identity (db_ops s)"
    by (rule map_update_rows) (use assms in auto)
  ultimately show ?thesis by (simp add: tenant_step_def)
qed

lemma tenant_insts_update:
  assumes "\<And>r. p r \<Longrightarrow> in_org r = org \<and> inst_identity (f r) = inst_identity r"
  shows "tenant_step org s (s\<lparr>db_instances := update_rows p f (db_instances s)\<rparr>)"
proof -
  have org: "in_org (f r) = org" if "p r" for r
    using assms[OF that] by (simp add: inst_identity_def)
  have "filter (\<lambda>r. in_org r \<noteq> org) (update_rows p f (db_instances s)) = filter (\<lambda>r. in_org r \<noteq> org) (db_instances s)"
    by (rule filter_update_rows_other) (use assms org in auto)
  moreover have "map inst_identity (update_rows p f (db_instances s)) = map inst_identity (db_instances s)"
    by (rule map_update_rows) (use assms in auto)
  ultimately show ?thesis by (simp add: tenant_step_def)
qed

lemma tenant_idem_update:
  assumes "\<And>r. p r \<Longrightarrow> ir_org r = org \<and> ir_org (f r) = ir_org r"
  shows "tenant_step org s (s\<lparr>db_idem := update_rows p f (db_idem s)\<rparr>)"
proof -
  have "filter (\<lambda>r. ir_org r \<noteq> org) (update_rows p f (db_idem s)) = filter (\<lambda>r. ir_org r \<noteq> org) (db_idem s)"
    by (rule filter_update_rows_other) (use assms in auto)
  then show ?thesis by (simp add: tenant_step_def)
qed

lemma tenant_claim:
  assumes "ci_org i = org" "claim_record env i s = Inr (c, s')"
  shows "tenant_step org s s'"
proof -
  obtain t where t: "claimIdempotency (env_now env) (env_idemId env) i (db_idem s) = Inr (c, t)"
    and s': "s' = s\<lparr>db_idem := t\<rparr>"
    using claim_record_eq_Inr [OF assms(2)] by blast
  have "filter (\<lambda>r. ir_org r \<noteq> org) t = filter (\<lambda>r. ir_org r \<noteq> org) (db_idem s)"
    using t by (rule claimIdempotency_cases)
      (auto simp: assms(1) same_idem_key_def live_rows_def claimed_row_def intro!: filter_cong)
  then show ?thesis by (simp add: s' tenant_step_def)
qed

lemma tenant_create: "tx_respects (tenant_step org) (createOperation env org iid ty upd)"
proof (rule tx_respectsI)
  fix s row s'
  assume "createOperation env org iid ty upd s = Inr (row, s')"
  from createOperation_eq_Inr(1,3) [OF this] show "tenant_step org s s'"
    by (simp add: tenant_step_def)
qed

interpretation tenant: statement_frame "tenant_step org" org for org
proof (rule statement_frame.intro[OF tenant_frame statement_frame_axioms.intro], goal_cases)
  case 1
  show ?case by (rule tenant_create)
next
  case (2 row env)
  then show ?case by (auto simp: tx_respects_def tenant_step_def dest!: insertInstance_eq_Inr(1))
next
  case (3 env iid opid st err recon ms inc)
  show ?case by (auto simp: tx_respects_def updatePendingConnectOperation_def tx_bind_eq_Inr op_identity_def
      intro!: tenant_ops_update dest!: update_ops_eq_Inr)
next
  case (4 env iid opid ms)
  show ?case by (auto simp: tx_respects_def resolveUncertainConnectOperation_def tx_bind_eq_Inr op_identity_def
      intro!: tenant_ops_update dest!: update_ops_eq_Inr)
next
  case (5 env iid opid st err ms inc)
  show ?case by (auto simp: tx_respects_def updatePendingDisconnectOperation_def tx_bind_eq_Inr op_identity_def
      intro!: tenant_ops_update dest!: update_ops_eq_Inr)
next
  case (6 env iid ist ext caps)
  show ?case by (auto simp: tx_respects_def inst_identity_def intro!: tenant_insts_update dest!: updateInstanceState_eq_Inr)
next
  case (7 i env)
  then show ?case by (auto simp: tx_respects_def intro: tenant_claim)
next
  case (8 env rid opid md)
  show ?case by (auto simp: tx_respects_def link_record_def on_idem_def linkIdempotencyOperation_def
      intro!: tenant_idem_update)
next
  case (9 env rid ist' md)
  show ?case by (auto simp: tx_respects_def complete_record_def on_idem_def completeIdempotencyRecord_def
      intro!: tenant_idem_update)
next
  case (10 e)
  then show ?case by (auto simp: tx_respects_def write_audit_def writeTenantAudit_def tenant_step_def
      toTenantAuditRecord_def tenant_row_def Let_def split: tenant_event_type.splits)
qed

interpretation tenant_connect: repository_frame "tenant_step org" org for org
  by unfold_locales (rule tenant_create)

interpretation tenant_all: provisioning_frame "tenant_step org" org for org
proof unfold_locales
  fix env opid st err recon inc
  show "tx_respects (tenant_step org) (completeOperation env org opid st err recon inc)"
    by (auto simp: tx_respects_def completeOperation_def tx_bind_eq_Inr op_identity_def
      intro!: tenant_ops_update dest!: update_ops_eq_Inr)
qed

lemma tenant_webhook: "tx_respects (tenant_step (cf_org f)) (persistConnectionFact env f)"
  by (rule tx_respectsI) (auto simp: persistConnectionFact_def tx_bind_eq_Inr Let_def inst_identity_def
    tenant.R_refl split: option.splits if_splits intro!: tenant_insts_update dest!: admit_all_state)

section \<open>The property\<close>

text \<open>
  C15: tenant isolation with an append-only history. Whatever an instance operation answers, in
  each of its transactions the accounts, the organizations and every row of another tenant
  (instances, operations, idempotency records, audit rows) stay as they were, no audit row is
  changed or removed, and no instance or operation disappears or changes its identity. The
  webhook fact obeys the same law for the organization it names.
\<close>

theorem instance_operations_isolated:
  "two_phase (tenant_step (ac_org ctx)) world s0 (snd (createInstance cfg ctx ccmd env1 acq newId provisionAnswer world env2 s0))
   \<and> two_phase (tenant_step (ac_org ctx)) world s0 (snd (connectInstance cfg ctx kcmd env1 acq connectAnswer world env2 nowMs s0))
   \<and> two_phase (tenant_step (ac_org ctx)) world s0 (snd (disconnectInstance cfg ctx dcmd env1 acq disconnectAnswer world env2 nowMs s0))
   \<and> two_phase (tenant_step (ac_org ctx)) world s0 (snd (getInstanceStatus cfg ctx iid statusAnswer world env2 nowMs s0))
   \<and> tenant_step (ac_org ctx) s0 (snd (getInstance ctx iid s0))
   \<and> tenant_step (ac_org ctx) s0 (snd (listInstances ctx lim cur s0))
   \<and> tenant_step (cf_org news) s0 (snd (run_tx (persistConnectionFact env1 news) s0))"
  by (intro conjI tenant_all.create_two_phase tenant_connect.connect_two_phase tenant.disconnect_two_phase
    tenant.status_two_phase tenant.reads_step tenant.respects_run tenant_webhook refl)

end
