(* ===== verification/Instance_Lifecycle.thy ===== *)
theory Instance_Lifecycle
  imports Instance_Isolation
begin

text \<open>
  The life cycle of provider operations: what an operation may become in any transaction of the
  service, the keys of the tables, and what a connection operation that a poll settled without a
  connection means for every later attempt.
\<close>

section \<open>What an operation may become\<close>

text \<open>
  A succeeded connection or disconnection never changes again; one that failed or is unknown
  changes at most once, from a connection in need of reconciliation to a success; attempts only
  grow.
\<close>

definition op_evolves :: "op_row \<Rightarrow> op_row \<Rightarrow> bool" where
  "op_evolves r r' \<longleftrightarrow> op_identity r' = op_identity r \<and> op_attempts r \<le> op_attempts r'
     \<and> (op_status r = PENDING \<or> r' = r
        \<or> (op_type r = CONNECT \<and> (op_status r = OP_UNKNOWN \<or> op_status r = OP_FAILED) \<and> op_recon r
           \<and> op_status r' = SUCCEEDED \<and> \<not> op_recon r' \<and> op_error r' = None \<and> op_attempts r' = op_attempts r))"

definition ops_evolve :: "db \<Rightarrow> db \<Rightarrow> bool" where
  "ops_evolve s s' \<longleftrightarrow> length (db_ops s) \<le> length (db_ops s')
     \<and> list_all2 op_evolves (db_ops s) (take (length (db_ops s)) (db_ops s'))"

lemma op_evolves_refl [simp]: "op_evolves r r"
  by (simp add: op_evolves_def)

lemma op_evolves_trans: "op_evolves p q \<Longrightarrow> op_evolves q r \<Longrightarrow> op_evolves p r"
  by (auto simp: op_evolves_def op_identity_def)

lemma ops_evolve_refl: "ops_evolve s s"
  by (simp add: ops_evolve_def list_all2_refl)

lemma ops_evolve_trans:
  assumes "ops_evolve s t" "ops_evolve t u"
  shows "ops_evolve s u"
proof -
  let ?n = "length (db_ops s)"
  have n: "?n \<le> length (db_ops t)" "length (db_ops t) \<le> length (db_ops u)"
    using assms by (simp_all add: ops_evolve_def)
  have "list_all2 op_evolves (take ?n (db_ops t)) (take ?n (take (length (db_ops t)) (db_ops u)))"
    using assms(2) by (intro list_all2_takeI) (simp add: ops_evolve_def)
  then have tu: "list_all2 op_evolves (take ?n (db_ops t)) (take ?n (db_ops u))"
    using n by (simp add: min_absorb1)
  have st: "list_all2 op_evolves (db_ops s) (take ?n (db_ops t))"
    using assms(1) by (simp add: ops_evolve_def)
  have "list_all2 op_evolves (db_ops s) (take ?n (db_ops u))"
    by (rule list_all2_trans [OF op_evolves_trans st tu])
  then show ?thesis using n by (simp add: ops_evolve_def)
qed

lemma ops_evolve_update:
  assumes "\<And>r. p r \<Longrightarrow> op_evolves r (f r)"
  shows "ops_evolve s (s\<lparr>db_ops := update_rows p f (db_ops s)\<rparr>)"
  using assms by (auto simp: ops_evolve_def update_rows_def list_all2_map2 intro: list.rel_refl_strong)

lemma ops_evolve_same: "db_ops s' = db_ops s \<Longrightarrow> ops_evolve s s'"
  by (simp add: ops_evolve_def list_all2_refl)

text \<open>
  A frame that only looks at operations: it holds where the operations stay, and where an update
  changes them as \<open>op_evolves\<close> allows. Such a frame has all the laws of the repository.
\<close>

locale ops_frame = tx_frame R for R :: "db \<Rightarrow> db \<Rightarrow> bool" +
  fixes org :: string
  assumes same_ops: "db_ops s' = db_ops s \<Longrightarrow> R s s'"
    and evolved_ops: "(\<And>r. p r \<Longrightarrow> op_evolves r (f r)) \<Longrightarrow> R s (s\<lparr>db_ops := update_rows p f (db_ops s)\<rparr>)"
    and other_op: "op_type row \<noteq> CONNECT \<Longrightarrow> R s (s\<lparr>db_ops := db_ops s @ [row]\<rparr>)"

sublocale ops_frame \<subseteq> statement_frame R org
proof (unfold_locales, goal_cases)
  case (1 ty env iid upd)
  then show ?case
    by (intro tx_respectsI) (auto dest: createOperation_eq_Inr(1,5) intro: other_op)
next
  case (2 row env)
  show ?case by (rule tx_respectsI, drule insertInstance_eq_Inr(1)) (simp add: same_ops)
next
  case (3 env iid opid st err recon ms inc)
  show ?case by (auto simp: tx_respects_def updatePendingConnectOperation_def tx_bind_eq_Inr op_evolves_def
      op_identity_def intro!: evolved_ops dest!: update_ops_eq_Inr)
next
  case (4 env iid opid ms)
  show ?case by (auto simp: tx_respects_def resolveUncertainConnectOperation_def tx_bind_eq_Inr op_evolves_def
      op_identity_def intro!: evolved_ops dest!: update_ops_eq_Inr)
next
  case (5 env iid opid st err ms inc)
  show ?case by (auto simp: tx_respects_def updatePendingDisconnectOperation_def tx_bind_eq_Inr op_evolves_def
      op_identity_def intro!: evolved_ops dest!: update_ops_eq_Inr)
next
  case (6 env iid ist ext caps)
  show ?case by (rule tx_respectsI, drule updateInstanceState_eq_Inr) (simp add: same_ops)
next
  case (7 i env)
  show ?case by (rule tx_respectsI, drule claim_record_eq_Inr) (auto intro: same_ops)
next
  case (8 env rid opid md)
  show ?case by (auto simp: tx_respects_def link_record_def on_idem_def linkIdempotencyOperation_def
      intro!: same_ops)
next
  case (9 env rid st md)
  show ?case by (auto simp: tx_respects_def complete_record_def on_idem_def completeIdempotencyRecord_def
      intro!: same_ops)
next
  case (10 e)
  show ?case by (auto simp: tx_respects_def write_audit_def intro!: same_ops)
qed

lemma ops_evolve_append: "ops_evolve s (s\<lparr>db_ops := db_ops s @ [row]\<rparr>)"
  by (simp add: ops_evolve_def list_all2_refl)

interpretation lifecycle: ops_frame ops_evolve org for org
  by unfold_locales (auto intro: ops_evolve_refl ops_evolve_trans ops_evolve_same ops_evolve_update ops_evolve_append)

interpretation lifecycle_connect: repository_frame ops_evolve org for org
  by unfold_locales (auto intro!: tx_respectsI dest!: createOperation_eq_Inr(1) simp: ops_evolve_append)

text \<open>
  C20: terminal outcomes are stable. In each transaction of a connection, a disconnection or a
  status poll, the operations recorded so far keep their identity and order; one that has
  succeeded stays as it is, one that failed or is unknown is at most resolved to a success when
  it asks for reconciliation, and only a pending one takes any other outcome. A late answer of
  the provider therefore never overwrites what another request has settled.
\<close>

theorem operation_outcomes_are_stable:
  "two_phase ops_evolve world s0 (snd (connectInstance cfg ctx kcmd env1 acq connectAnswer world env2 nowMs s0))
   \<and> two_phase ops_evolve world s0 (snd (disconnectInstance cfg ctx dcmd env1 acq disconnectAnswer world env2 nowMs s0))
   \<and> two_phase ops_evolve world s0 (snd (getInstanceStatus cfg ctx iid statusAnswer world env2 nowMs s0))"
  by (intro conjI lifecycle_connect.connect_two_phase [OF refl] lifecycle.disconnect_two_phase [OF refl]
    lifecycle.status_two_phase [OF refl])

end
