(* ===== verification/Instance_Protocol.thy ===== *)
theory Instance_Protocol
  imports Instance_Lifecycle
begin

text \<open>
  The connection protocol of an instance: requests, provider answers, status polls, webhooks and
  crashes of the API interleaved in any order. A state is the database, the time of the last
  connection attempt and the provider calls in flight; \<open>step\<close> runs one transaction of the
  service. The invariant: of the connection attempts of an instance, all but the latest are
  settled without doubt.
\<close>

section \<open>Connection operations of an instance\<close>

definition conn_ops :: "string \<Rightarrow> string \<Rightarrow> db \<Rightarrow> op_row list" where
  "conn_ops org iid s = filter (\<lambda>r. op_org r = org \<and> op_instance r = iid \<and> op_type r = CONNECT) (db_ops s)"

text \<open>Settled, with nothing left to reconcile: the condition under which a new attempt may start.\<close>

definition quiet :: "op_row \<Rightarrow> bool" where
  "quiet r \<longleftrightarrow> op_status r \<noteq> PENDING \<and> op_status r \<noteq> OP_UNKNOWN \<and> \<not> hasUncertainConnectOutcome r"

definition conn_inv :: "int \<Rightarrow> db \<Rightarrow> bool" where
  "conn_inv clk s \<longleftrightarrow> (\<forall>org iid. sorted_wrt (<) (map op_created (conn_ops org iid s))
     \<and> (\<forall>r \<in> set (conn_ops org iid s). op_created r \<le> clk)
     \<and> (\<forall>r \<in> set (butlast (conn_ops org iid s)). quiet r))"

text \<open>A transaction that starts no connection attempt.\<close>

definition conn_keep :: "db \<Rightarrow> db \<Rightarrow> bool" where
  "conn_keep s s' \<longleftrightarrow> ops_evolve s s'
     \<and> map op_identity (filter (\<lambda>r. op_type r = CONNECT) (db_ops s'))
       = map op_identity (filter (\<lambda>r. op_type r = CONNECT) (db_ops s))"

lemma conn_keep_refl: "conn_keep s s"
  by (simp add: conn_keep_def ops_evolve_refl)

lemma conn_keep_trans: "conn_keep s t \<Longrightarrow> conn_keep t u \<Longrightarrow> conn_keep s u"
  by (auto simp: conn_keep_def intro: ops_evolve_trans)

lemma conn_keep_same: "db_ops s' = db_ops s \<Longrightarrow> conn_keep s s'"
  by (simp add: conn_keep_def ops_evolve_same)

lemma map_identity_update:
  assumes "\<And>r. p r \<Longrightarrow> op_identity (f r) = op_identity r"
  shows "map op_identity (filter (\<lambda>r. op_type r = CONNECT) (update_rows p f rs))
    = map op_identity (filter (\<lambda>r. op_type r = CONNECT) rs)"
proof (induction rs)
  case (Cons r rs)
  have "p r \<Longrightarrow> op_type (f r) = op_type r" using assms [of r] by (simp add: op_identity_def)
  with Cons assms show ?case by simp
qed simp

lemma conn_keep_update:
  assumes "\<And>r. p r \<Longrightarrow> op_evolves r (f r)"
  shows "conn_keep s (s\<lparr>db_ops := update_rows p f (db_ops s)\<rparr>)"
  unfolding conn_keep_def
  using ops_evolve_update [OF assms] map_identity_update [of p f] assms
  by (simp add: op_evolves_def)

lemma conn_keep_append: "op_type row \<noteq> CONNECT \<Longrightarrow> conn_keep s (s\<lparr>db_ops := db_ops s @ [row]\<rparr>)"
  by (simp add: conn_keep_def ops_evolve_append)

interpretation conn: ops_frame conn_keep org for org
  by unfold_locales
    (auto intro: conn_keep_refl conn_keep_trans conn_keep_same conn_keep_update conn_keep_append)

lemma conn_webhook: "tx_respects conn_keep (persistConnectionFact env f)"
  by (rule tx_respectsI) (auto simp: persistConnectionFact_def tx_bind_eq_Inr Let_def
    split: option.splits if_splits intro!: conn_keep_same dest!: admit_all_state)

section \<open>The invariant is kept\<close>

lemma op_evolves_quiet: "op_evolves r r' \<Longrightarrow> quiet r \<Longrightarrow> r' = r"
  by (auto simp: op_evolves_def quiet_def hasUncertainConnectOutcome_def)

lemma identity_fields: "op_identity r' = op_identity r \<Longrightarrow>
    op_id r' = op_id r \<and> op_org r' = op_org r \<and> op_instance r' = op_instance r \<and> op_type r' = op_type r \<and> op_created r' = op_created r"
  by (simp add: op_identity_def)

lemma list_all2_filter_same:
  assumes "list_all2 R xs ys" and "\<And>x y. R x y \<Longrightarrow> P x = P y"
  shows "list_all2 R (filter P xs) (filter P ys)"
  using assms(1) by (induction rule: list_all2_induct) (auto dest: assms(2))

lemma conn_keep_evolves:
  assumes "conn_keep s s'"
  shows "list_all2 op_evolves (conn_ops org iid s) (conn_ops org iid s')"
proof -
  let ?n = "length (db_ops s)" and ?c = "\<lambda>r. op_type r = CONNECT"
  let ?P = "\<lambda>r. op_org r = org \<and> op_instance r = iid \<and> ?c r"
  have ev: "list_all2 op_evolves (db_ops s) (take ?n (db_ops s'))"
    using assms by (simp add: conn_keep_def ops_evolve_def)
  have same: "op_evolves x y \<Longrightarrow> ?P x = ?P y" "op_evolves x y \<Longrightarrow> ?c x = ?c y" for x y
    using identity_fields [of y x] by (simp_all add: op_evolves_def)
  have "length (filter ?c (db_ops s')) = length (filter ?c (db_ops s))"
    using assms unfolding conn_keep_def by (metis length_map)
  moreover have "length (filter ?c (take ?n (db_ops s'))) = length (filter ?c (db_ops s))"
    using list_all2_lengthD [OF list_all2_filter_same [OF ev same(2)]] by simp
  moreover have "filter ?c (db_ops s') = filter ?c (take ?n (db_ops s')) @ filter ?c (drop ?n (db_ops s'))"
    by (metis append_take_drop_id filter_append)
  ultimately have "filter ?c (drop ?n (db_ops s')) = []" by simp
  then have "filter ?P (drop ?n (db_ops s')) = []"
    by (auto simp: filter_empty_conv)
  then have "conn_ops org iid s' = filter ?P (take ?n (db_ops s'))"
    using filter_append [of ?P "take ?n (db_ops s')" "drop ?n (db_ops s')"] by (simp add: conn_ops_def)
  then show ?thesis
    using list_all2_filter_same [OF ev same(1)] by (simp add: conn_ops_def)
qed

lemma list_all2_mem: "list_all2 R xs ys \<Longrightarrow> y \<in> set ys \<Longrightarrow> \<exists>x \<in> set xs. R x y"
  by (induction rule: list_all2_induct) auto

lemma list_all2_butlast: "list_all2 R xs ys \<Longrightarrow> list_all2 R (butlast xs) (butlast ys)"
  using list_all2_takeI [of R xs ys "length xs - 1"] by (simp add: butlast_conv_take list_all2_lengthD)

lemma list_all2_map_eq: "list_all2 R xs ys \<Longrightarrow> (\<And>x y. R x y \<Longrightarrow> f x = f y) \<Longrightarrow> map f xs = map f ys"
  by (induction rule: list_all2_induct) auto

lemma conn_inv_evolves:
  assumes "\<forall>org iid. list_all2 op_evolves (conn_ops org iid s) (conn_ops org iid s')" and "conn_inv clk s"
  shows "conn_inv clk s'"
  unfolding conn_inv_def
proof (intro allI conjI)
  fix org iid
  note ev = assms(1) [rule_format, of org iid]
  have created: "map op_created (conn_ops org iid s) = map op_created (conn_ops org iid s')"
    by (rule list_all2_map_eq [OF ev]) (auto simp: op_evolves_def dest: identity_fields)
  show "sorted_wrt (<) (map op_created (conn_ops org iid s'))"
    using assms(2) by (simp add: conn_inv_def flip: created)
  have "op_created ` set (conn_ops org iid s') = op_created ` set (conn_ops org iid s)"
    using created by (metis set_map)
  then show "\<forall>r \<in> set (conn_ops org iid s'). op_created r \<le> clk"
    using assms(2) unfolding conn_inv_def by (metis (mono_tags, lifting) imageE imageI)
  show "\<forall>r \<in> set (butlast (conn_ops org iid s')). quiet r"
  proof
    fix r' assume "r' \<in> set (butlast (conn_ops org iid s'))"
    then obtain r where "r \<in> set (butlast (conn_ops org iid s))" "op_evolves r r'"
      using list_all2_mem [OF list_all2_butlast [OF ev]] by blast
    then show "quiet r'"
      using assms(2) op_evolves_quiet by (metis conn_inv_def)
  qed
qed

section \<open>Starting an attempt\<close>

lemma joined_fields: "joined s r = Some x \<Longrightarrow> ro_id x = in_id r \<and> ro_org x = in_org r"
  by (auto simp: joined_def split: option.splits)

lemma first_joined_mem: "first_joined s rs = Some x \<Longrightarrow> \<exists>r \<in> set rs. joined s r = Some x"
  by (induction rs) (auto simp: first_joined_def List.map_filter_def split: list.splits option.splits if_splits)

lemma findByIdForUpdate_fields:
  assumes "findByIdForUpdate org iid s = Inr (Some x, s')"
  shows "s' = s" and "ro_id x = iid" and "ro_org x = org"
  using assms by (auto simp: findByIdForUpdate_def dest!: first_joined_mem joined_fields)

lemma latest_eq: "findLatestConnectOperationForUpdate org iid s
    = Inr (max_by (\<lambda>o'. (op_created o', op_id o')) (conn_ops org iid s), s)"
  by (simp add: findLatestConnectOperationForUpdate_def conn_ops_def)

lemma max_by_sorted:
  assumes "sorted_wrt (<) (map op_created xs)" and "xs \<noteq> []"
  shows "max_by (\<lambda>o'. (op_created o', op_id o')) xs = Some (last xs)"
  using assms
proof (induction xs)
  case (Cons r rs)
  show ?case
  proof (cases "rs = []")
    case False
    then have "op_created r < op_created (last rs)" using Cons.prems(1) by simp
    then show ?thesis using Cons False by simp
  qed simp
qed simp

lemma quiet_iff: "quiet l \<longleftrightarrow> \<not> (op_status l = PENDING \<or> op_status l = OP_UNKNOWN \<or> hasUncertainConnectOutcome l)"
  by (auto simp: quiet_def)

lemma ops_unchanged:
  "claim cfg env ms org rt k rq s = Inr (c, s') \<Longrightarrow> db_ops s' = db_ops s"
  "link_record env org rid opid md s = Inr (u, s') \<Longrightarrow> db_ops s' = db_ops s"
  "complete_record env org rid ist md s = Inr (u, s') \<Longrightarrow> db_ops s' = db_ops s"
  "updateInstanceState env org iid st ext caps s = Inr (x, s') \<Longrightarrow> db_ops s' = db_ops s"
  "requireActiveOrganization org s = Inr (u, s') \<Longrightarrow> db_ops s' = db_ops s"
  by (auto simp: claim_def link_record_def complete_record_def on_idem_def linkIdempotencyOperation_def
    completeIdempotencyRecord_def requireActiveOrganization_def isOrganizationActive_def tx_bind_eq_Inr
    dest!: claim_record_eq_Inr updateInstanceState_eq_Inr split: if_splits)

definition fresh_attempt :: "tx_env \<Rightarrow> string \<Rightarrow> string \<Rightarrow> op_row \<Rightarrow> bool" where
  "fresh_attempt env org iid r \<longleftrightarrow> op_org r = org \<and> op_instance r = iid \<and> op_type r = CONNECT
     \<and> op_status r = PENDING \<and> op_created r = env_now env"

lemma connect_start_eq_Inr:
  assumes "connect_start env ctx acq inst rid s = Inr (res, s')"
  shows "\<exists>c r. res = ConnectNew c r rid \<and> fresh_attempt env (ac_org ctx) (ro_id inst) r
    \<and> db_ops s' = db_ops s @ [r] \<and> (case max_by (\<lambda>o'. (op_created o', op_id o')) (conn_ops (ac_org ctx) (ro_id inst) s) of
         None \<Rightarrow> True | Some l \<Rightarrow> quiet l)"
proof -
  let ?latest = "max_by (\<lambda>o'. (op_created o', op_id o')) (conn_ops (ac_org ctx) (ro_id inst) s)"
  from assms obtain r s1 c s2 u s3 where steps:
    "case ?latest of None \<Rightarrow> True | Some l \<Rightarrow> quiet l"
    "createOperation env (ac_org ctx) (ro_id inst) CONNECT (Some acq) s = Inr (r, s1)"
    "updateInstanceState env (ac_org ctx) (ro_id inst) CONNECTING None None s1 = Inr (c, s2)"
    "link_record env (ac_org ctx) rid (op_id r) (instance_meta (ro_id inst) CONNECTING) s2 = Inr (u, s3)"
    "s' = s3" "\<exists>c. res = ConnectNew c r rid"
    by (auto simp: connect_start_def tx_bind_eq_Inr latest_eq quiet_def split: if_splits option.splits)
  note r = createOperation_eq_Inr [OF steps(2)]
  have "db_ops s' = db_ops s @ [r]"
    using ops_unchanged(4) [OF steps(3)] ops_unchanged(2) [OF steps(4)] r(1) steps(5) by simp
  then show ?thesis using steps(1,6) r by (auto simp: fresh_attempt_def)
qed

text \<open>What the start of a connection does to the operations: one new attempt after a quiet one, or nothing.\<close>

definition begun :: "tx_env \<Rightarrow> string \<Rightarrow> string \<Rightarrow> db \<Rightarrow> connect_initial \<Rightarrow> db \<Rightarrow> bool" where
  "begun env org iid s res s' \<longleftrightarrow> (case res of
     ConnectNew c r rid \<Rightarrow> fresh_attempt env org iid r \<and> db_ops s' = db_ops s @ [r]
       \<and> (case max_by (\<lambda>o'. (op_created o', op_id o')) (conn_ops org iid s) of None \<Rightarrow> True | Some l \<Rightarrow> quiet l)
   | _ \<Rightarrow> db_ops s' = db_ops s)"

lemma begun_start: "connect_start env ctx acq inst rid s = Inr (res, s') \<Longrightarrow> begun env (ac_org ctx) (ro_id inst) s res s'"
  by (drule connect_start_eq_Inr) (auto simp: begun_def)

lemma begun_claimed:
  assumes "connect_claimed cfg env ctx acq inst rid s = Inr (res, s')"
  shows "begun env (ac_org ctx) (ro_id inst) s res s'"
proof -
  have pend: "findPendingConnectOperationForUpdate (ac_org ctx) (ro_id inst) s = Inr (x, s1) \<Longrightarrow> s1 = s" for x s1
    by (simp add: findPendingConnectOperationForUpdate_def)
  consider (connected) "ro_status inst = CONNECTED" | (connecting) "ro_status inst = CONNECTING"
    | (other) "ro_status inst \<noteq> CONNECTED" "ro_status inst \<noteq> CONNECTING" by blast
  then show ?thesis
  proof cases
    case connected
    then show ?thesis using assms
      by (auto simp: connect_claimed_def tx_bind_eq_Inr begun_def dest: ops_unchanged)
  next
    case connecting
    then obtain active where a: "findPendingConnectOperationForUpdate (ac_org ctx) (ro_id inst) s = Inr (active, s)"
      by (simp add: findPendingConnectOperationForUpdate_def)
    show ?thesis
    proof (cases active)
      case None
      then show ?thesis using assms connecting a
        by (intro begun_start) (simp add: connect_claimed_def tx_bind_def)
    next
      case (Some p)
      then show ?thesis using assms connecting a
        by (auto simp: connect_claimed_def tx_bind_eq_Inr begun_def split: if_splits dest!: ops_unchanged)
    qed
  next
    case other
    then show ?thesis using assms
      by (intro begun_start) (simp add: connect_claimed_def split: if_splits)
  qed
qed

lemma begun_same_ops: "db_ops t = db_ops s \<Longrightarrow> begun env org iid t res s' = begun env org iid s res s'"
  by (cases res) (simp_all add: begun_def conn_ops_def)

lemma begun_begin:
  assumes "connect_begin cfg env ctx acq cmd s = Inr (res, s')"
  shows "begun env (ac_org ctx) (kc_instance cmd) s res s'"
proof -
  obtain u s1 found where s1: "requireActiveOrganization (ac_org ctx) s = Inr (u, s1)"
    and found: "findByIdForUpdate (ac_org ctx) (kc_instance cmd) s1 = Inr (found, s1)"
    using assms by (auto simp: connect_begin_def tx_bind_eq_Inr findByIdForUpdate_def)
  note o1 = ops_unchanged(5) [OF s1]
  show ?thesis
  proof (cases found)
    case None
    then show ?thesis using assms s1 found o1 by (auto simp: connect_begin_def tx_bind_eq_Inr begun_def)
  next
    case (Some inst)
    note id = findByIdForUpdate_fields(2) [OF found [unfolded Some]]
    obtain idem s2 where c: "claim cfg env acq (ac_org ctx) (''/v1/instances/'' @ kc_instance cmd @ ''/connect'')
        (kc_key cmd) (connect_request cmd) s1 = Inr (idem, s2)"
      using assms s1 found Some by (auto simp: connect_begin_def tx_bind_eq_Inr)
    have o2: "db_ops s2 = db_ops s" using ops_unchanged(1) [OF c] o1 by simp
    show ?thesis
    proof (cases idem)
      case (REPLAY rec)
      then show ?thesis using assms s1 found Some c o2
        by (auto simp: connect_begin_def tx_bind_eq_Inr latest_eq begun_def split: if_splits option.splits)
    next
      case (CLAIMED rid)
      then have "connect_claimed cfg env ctx acq inst rid s2 = Inr (res, s')"
        using assms s1 found Some c by (simp add: connect_begin_def tx_bind_def)
      from begun_claimed [OF this] show ?thesis by (simp add: id begun_same_ops [OF o2])
    qed
  qed
qed

lemma conn_inv_begin:
  assumes "connect_begin cfg env ctx acq cmd s = Inr (ConnectNew c r rid, s')" and "conn_inv clk s"
  shows "clk < env_now env \<Longrightarrow> conn_inv (env_now env) s'"
    and "r' \<in> set (conn_ops (ac_org ctx) (kc_instance cmd) s) \<Longrightarrow> quiet r'"
proof -
  have b: "fresh_attempt env (ac_org ctx) (kc_instance cmd) r" "db_ops s' = db_ops s @ [r]"
    "case max_by (\<lambda>o'. (op_created o', op_id o')) (conn_ops (ac_org ctx) (kc_instance cmd) s) of None \<Rightarrow> True | Some l \<Rightarrow> quiet l"
    using begun_begin [OF assms(1)] by (simp_all add: begun_def)
  have inv: "sorted_wrt (<) (map op_created (conn_ops org iid s))" "r' \<in> set (conn_ops org iid s) \<Longrightarrow> op_created r' \<le> clk"
    "r' \<in> set (butlast (conn_ops org iid s)) \<Longrightarrow> quiet r'" for org iid r'
    using assms(2) by (auto simp: conn_inv_def)
  have all: "r' \<in> set (conn_ops (ac_org ctx) (kc_instance cmd) s) \<Longrightarrow> quiet r'" for r'
  proof (cases "conn_ops (ac_org ctx) (kc_instance cmd) s = []")
    case False
    assume "r' \<in> set (conn_ops (ac_org ctx) (kc_instance cmd) s)"
    moreover have "quiet (last (conn_ops (ac_org ctx) (kc_instance cmd) s))"
      using b(3) max_by_sorted [OF inv(1) False] by simp
    ultimately show "quiet r'"
      using inv(3) False by (metis append_butlast_last_id in_set_conv_decomp rotate1.simps(2) set_ConsD set_rotate1)
  qed simp
  then show "r' \<in> set (conn_ops (ac_org ctx) (kc_instance cmd) s) \<Longrightarrow> quiet r'" .
  assume clk: "clk < env_now env"
  show "conn_inv (env_now env) s'"
    unfolding conn_inv_def
  proof (intro allI)
    fix org iid
    show "sorted_wrt (<) (map op_created (conn_ops org iid s'))
      \<and> (\<forall>r \<in> set (conn_ops org iid s'). op_created r \<le> env_now env)
      \<and> (\<forall>r \<in> set (butlast (conn_ops org iid s')). quiet r)"
    proof (cases "org = ac_org ctx \<and> iid = kc_instance cmd")
      case True
      then have "conn_ops org iid s' = conn_ops org iid s @ [r]"
        using b(1,2) by (simp add: conn_ops_def fresh_attempt_def)
      then show ?thesis
        using inv(1) [of org iid] inv(2) [where org = org and iid = iid] all True b(1) clk
        by (fastforce simp: sorted_wrt_append fresh_attempt_def)
    next
      case False
      then have "conn_ops org iid s' = conn_ops org iid s"
        using b(1,2) by (auto simp: conn_ops_def fresh_attempt_def)
      then show ?thesis using assms(2) clk unfolding conn_inv_def by fastforce
    qed
  qed
qed

section \<open>The protocol\<close>

datatype call =
    ConnectCall actor_ctx instance_row op_row string
  | DisconnectCall actor_ctx instance_row op_row string
  | StatusCall actor_ctx instance_row string

record pstate =
  ps_db :: db
  ps_clock :: int
  ps_calls :: "call list"

text \<open>The transaction that a provider's answer to a connection or a disconnection leads to.\<close>

definition connect_answer ::
  "tx_env \<Rightarrow> actor_ctx \<Rightarrow> int \<Rightarrow> instance_row \<Rightarrow> op_row \<Rightarrow> string \<Rightarrow> js_error + connection_action \<Rightarrow> (db, unit) tx" where
  "connect_answer env ctx ms i po rid ans = (case ans of
     Inl e \<Rightarrow> tx_bind (connect_failed env ctx ms i po rid e) (\<lambda>_. tx_return ())
   | Inr a \<Rightarrow> tx_bind (connect_settled env ctx ms i po rid a) (\<lambda>_. tx_return ()))"

definition disconnect_answer ::
  "tx_env \<Rightarrow> actor_ctx \<Rightarrow> int \<Rightarrow> instance_row \<Rightarrow> op_row \<Rightarrow> string \<Rightarrow> js_error option \<Rightarrow> (db, unit) tx" where
  "disconnect_answer env ctx ms i po rid ans = (case ans of
     Some e \<Rightarrow> tx_bind (disconnect_failed env ctx ms i po rid e) (\<lambda>_. tx_return ())
   | None \<Rightarrow> tx_bind (disconnect_settled env ctx ms i po rid) (\<lambda>_. tx_return ()))"

text \<open>
  The steps. A provider call may never answer (\<open>crash\<close>); the rest of the system may change
  anything but the connection operations (\<open>elsewhere\<close>).
\<close>

inductive step :: "service_cfg \<Rightarrow> pstate \<Rightarrow> pstate \<Rightarrow> bool" for cfg where
  connect_call: "connect_begin cfg env ctx acq cmd (ps_db p) = Inr (ConnectNew i po rid, d) \<Longrightarrow> ps_clock p < env_now env \<Longrightarrow>
    step cfg p (p\<lparr>ps_db := d, ps_clock := env_now env, ps_calls := ConnectCall ctx i po rid # ps_calls p\<rparr>)"
| connect_local: "connect_begin cfg env ctx acq cmd (ps_db p) = Inr (res, d) \<Longrightarrow> \<not> (\<exists>i po rid. res = ConnectNew i po rid) \<Longrightarrow>
    step cfg p (p\<lparr>ps_db := d\<rparr>)"
| connect_return: "ConnectCall ctx i po rid \<in> set (ps_calls p) \<Longrightarrow>
    step cfg p (p\<lparr>ps_db := snd (run_tx (connect_answer env ctx ms i po rid ans) (ps_db p)),
      ps_calls := remove1 (ConnectCall ctx i po rid) (ps_calls p)\<rparr>)"
| disconnect_call: "disconnect_begin cfg env ctx acq dcmd (ps_db p) = Inr (dres, d) \<Longrightarrow>
    step cfg p (p\<lparr>ps_db := d, ps_calls := (case dres of DisconnectNew i po rid \<Rightarrow> [DisconnectCall ctx i po rid] | _ \<Rightarrow> []) @ ps_calls p\<rparr>)"
| disconnect_return: "DisconnectCall ctx i po rid \<in> set (ps_calls p) \<Longrightarrow>
    step cfg p (p\<lparr>ps_db := snd (run_tx (disconnect_answer env ctx ms i po rid dans) (ps_db p)),
      ps_calls := remove1 (DisconnectCall ctx i po rid) (ps_calls p)\<rparr>)"
| status_call: "findById (ac_org ctx) iid (ps_db p) = Inr (Some i, d) \<Longrightarrow>
    step cfg p (p\<lparr>ps_calls := StatusCall ctx i iid # ps_calls p\<rparr>)"
| status_return: "StatusCall ctx i iid \<in> set (ps_calls p) \<Longrightarrow>
    step cfg p (p\<lparr>ps_db := snd (run_tx (status_settle cfg env ctx obs i iid st) (ps_db p)),
      ps_calls := remove1 (StatusCall ctx i iid) (ps_calls p)\<rparr>)"
| create: "step cfg p (p\<lparr>ps_db := snd (run_tx (create_begin cfg env ctx ms newId ccmd) (ps_db p))\<rparr>)"
| webhook: "step cfg p (p\<lparr>ps_db := snd (run_tx (persistConnectionFact env news) (ps_db p))\<rparr>)"
| crash: "step cfg p (p\<lparr>ps_calls := remove1 c (ps_calls p)\<rparr>)"
| elsewhere: "filter (\<lambda>r. op_type r = CONNECT) (db_ops d) = filter (\<lambda>r. op_type r = CONNECT) (db_ops (ps_db p)) \<Longrightarrow>
    step cfg p (p\<lparr>ps_db := d\<rparr>)"

inductive reachable :: "service_cfg \<Rightarrow> pstate \<Rightarrow> bool" for cfg where
  start: "filter (\<lambda>r. op_type r = CONNECT) (db_ops (ps_db p)) = [] \<Longrightarrow> ps_calls p = [] \<Longrightarrow> reachable cfg p"
| more: "reachable cfg p \<Longrightarrow> step cfg p q \<Longrightarrow> reachable cfg q"

lemma conn_run: "tx_respects conn_keep m \<Longrightarrow> conn_keep s (snd (run_tx m s))"
  by (rule conn.respects_run)

lemma conn_answers:
  "tx_respects conn_keep (connect_answer env ctx ms i po rid ans)"
  "tx_respects conn_keep (disconnect_answer env ctx ms i po rid dans)"
  unfolding connect_answer_def disconnect_answer_def
  by (intro conn.respects_intros conn.connect_answers [OF refl] conn.disconnecting [OF refl])+

lemma conn_ops_connects: "conn_ops org iid x = filter (\<lambda>r. op_org r = org \<and> op_instance r = iid) (filter (\<lambda>r. op_type r = CONNECT) (db_ops x))"
  unfolding conn_ops_def filter_filter by (rule filter_cong) auto

lemma same_connects: "filter (\<lambda>r. op_type r = CONNECT) (db_ops d) = filter (\<lambda>r. op_type r = CONNECT) (db_ops s)
    \<Longrightarrow> conn_ops org iid d = conn_ops org iid s"
  by (metis conn_ops_connects)

text \<open>Every step either starts an attempt after quiet ones or lets the attempts evolve.\<close>

lemma step_evolves:
  assumes "step cfg p q"
  shows "(\<forall>org iid. list_all2 op_evolves (conn_ops org iid (ps_db p)) (conn_ops org iid (ps_db q))) \<and> ps_clock q = ps_clock p
    \<or> (\<exists>env ctx acq cmd i po rid. connect_begin cfg env ctx acq cmd (ps_db p) = Inr (ConnectNew i po rid, ps_db q)
         \<and> ps_clock p < env_now env \<and> ps_clock q = env_now env)"
  using assms
proof cases
  case (connect_call env ctx acq cmd i po rid d)
  then show ?thesis by (intro disjI2 exI conjI) auto
next
  case (connect_local env ctx acq cmd res d)
  then have "db_ops d = db_ops (ps_db p)"
    using begun_begin [OF connect_local(2)] by (auto simp: begun_def split: connect_initial.splits)
  then show ?thesis using connect_local(1) conn_keep_evolves [OF conn_keep_same] by simp
next
  case (disconnect_call env ctx acq dcmd dres d)
  then show ?thesis
    using conn_keep_evolves [OF tx_respectsD [OF conn.disconnecting(1) [OF refl] disconnect_call(2)]] by simp
next
  case (elsewhere d)
  then show ?thesis using same_connects [OF elsewhere(2)] by (simp add: list_all2_refl)
qed (simp_all add: conn_keep_evolves [OF conn_run] conn_answers conn.polling conn.provisioning conn_webhook list_all2_refl)

lemma reachable_inv: "reachable cfg p \<Longrightarrow> conn_inv (ps_clock p) (ps_db p)"
proof (induction rule: reachable.induct)
  case (start p)
  then have "conn_ops org iid (ps_db p) = []" for org iid
    by (auto simp: conn_ops_def filter_empty_conv)
  then show ?case by (simp add: conn_inv_def)
next
  case (more p q)
  from step_evolves [OF more.hyps(2)] show ?case
  proof
    assume "(\<forall>org iid. list_all2 op_evolves (conn_ops org iid (ps_db p)) (conn_ops org iid (ps_db q))) \<and> ps_clock q = ps_clock p"
    then show ?case using conn_inv_evolves more.IH by metis
  next
    assume "\<exists>env ctx acq cmd i po rid. connect_begin cfg env ctx acq cmd (ps_db p) = Inr (ConnectNew i po rid, ps_db q)
         \<and> ps_clock p < env_now env \<and> ps_clock q = env_now env"
    then show ?case using conn_inv_begin(1) more.IH by metis
  qed
qed

section \<open>Properties\<close>

lemma all_but_last_quiet: "\<forall>r \<in> set (butlast L). quiet r \<Longrightarrow> length (filter (\<lambda>r. \<not> quiet r) L) \<le> 1"
proof (cases L rule: rev_cases)
  case (snoc xs x)
  assume "\<forall>r \<in> set (butlast L). quiet r"
  then have "filter (\<lambda>r. \<not> quiet r) xs = []" using snoc by (simp add: filter_empty_conv)
  then show ?thesis using snoc by simp
qed simp


text \<open>An attempt that a poll settled as succeeded while asking for reconciliation.\<close>

definition stranded :: "string \<Rightarrow> string \<Rightarrow> db \<Rightarrow> bool" where
  "stranded org iid s \<longleftrightarrow> conn_ops org iid s \<noteq> [] \<and> op_status (last (conn_ops org iid s)) = SUCCEEDED
     \<and> op_recon (last (conn_ops org iid s))"

lemma list_all2_last: "list_all2 R xs ys \<Longrightarrow> xs \<noteq> [] \<Longrightarrow> R (last xs) (last ys)"
  by (induction rule: list_all2_induct) (auto simp: list_all2_Cons1)

lemma stranded_not_quiet: "stranded org iid s \<Longrightarrow> \<not> quiet (last (conn_ops org iid s))"
  by (simp add: stranded_def quiet_def hasUncertainConnectOutcome_def)

lemma stranded_step:
  assumes "conn_inv (ps_clock p) (ps_db p)" and "stranded org iid (ps_db p)" and "step cfg p q"
  shows "stranded org iid (ps_db q)"
  using step_evolves [OF assms(3)]
proof (elim disjE conjE exE)
  assume "\<forall>org iid. list_all2 op_evolves (conn_ops org iid (ps_db p)) (conn_ops org iid (ps_db q))"
  then have ev: "list_all2 op_evolves (conn_ops org iid (ps_db p)) (conn_ops org iid (ps_db q))" by blast
  have ne: "conn_ops org iid (ps_db p) \<noteq> []" using assms(2) by (simp add: stranded_def)
  then have "op_evolves (last (conn_ops org iid (ps_db p))) (last (conn_ops org iid (ps_db q)))"
    by (rule list_all2_last [OF ev])
  then have "last (conn_ops org iid (ps_db q)) = last (conn_ops org iid (ps_db p))"
    using assms(2) by (auto simp: op_evolves_def stranded_def)
  moreover have "conn_ops org iid (ps_db q) \<noteq> []" using ne ev by auto
  ultimately show ?thesis using assms(2) by (simp add: stranded_def)
next
  fix env ctx acq cmd i po rid
  assume b: "connect_begin cfg env ctx acq cmd (ps_db p) = Inr (ConnectNew i po rid, ps_db q)"
  have "last (conn_ops org iid (ps_db p)) \<in> set (conn_ops org iid (ps_db p))"
    using assms(2) by (simp add: stranded_def)
  then have "\<not> (org = ac_org ctx \<and> iid = kc_instance cmd)"
    using conn_inv_begin(2) [OF b assms(1)] stranded_not_quiet [OF assms(2)]
    by metis
  then have "conn_ops org iid (ps_db q) = conn_ops org iid (ps_db p)"
    using begun_begin [OF b] by (auto simp: begun_def fresh_attempt_def conn_ops_def)
  then show ?thesis using assms(2) by (simp add: stranded_def)
qed

lemma stranded_steps:
  assumes "(step cfg)\<^sup>*\<^sup>* p q" and "reachable cfg p" and "stranded org iid (ps_db p)"
  shows "reachable cfg q \<and> stranded org iid (ps_db q)"
  using assms
proof (induction rule: rtranclp_induct)
  case (step q r)
  then show ?case
    by (metis reachable.more reachable_inv stranded_step)
qed simp


section \<open>A run of the protocol\<close>

definition demo_cfg :: service_cfg where
  "demo_cfg = default_cfg id"

definition demo_ctx :: actor_ctx where
  "demo_ctx = \<lparr>ac_org = ''o'', ac_requestId = ''q'', ac_cred = JWT ''u''\<rparr>"

definition demo_env :: "int \<Rightarrow> string \<Rightarrow> tx_env" where
  "demo_env t opid = \<lparr>env_now = t, env_idemId = ''r'', env_opId = opid, env_admit = (\<lambda>_ _. None),
     env_guard = (\<lambda>_ _ _. None)\<rparr>"

definition demo_db0 :: db where
  "demo_db0 = \<lparr>db_orgs = [(''o'', ORG_ACTIVE)], db_accounts = [\<lparr>pa_id = ''a'', pa_org = ''o'', pa_provider = BAILEYS\<rparr>],
     db_instances = [\<lparr>in_id = ''i'', in_org = ''o'', in_account = ''a'', in_name = ''n'', in_key = ''k'',
       in_extref = None, in_status = CREATED, in_caps = [], in_created = 0, in_updated = 0, in_observed = None,
       in_fingerprint = None, in_archived = None\<rparr>], db_ops = [], db_idem = [], db_audit = []\<rparr>"

definition demo_cmd :: connect_command where
  "demo_cmd = \<lparr>kc_instance = ''i'', kc_key = ''key'', kc_hint = None\<rparr>"

definition demo_begin :: "js_error + connect_initial \<times> db" where
  "demo_begin = connect_begin demo_cfg (demo_env 1000000 ''op'') demo_ctx 1000 demo_cmd demo_db0"

definition demo_db1 :: db where
  "demo_db1 = (case demo_begin of Inr (_, d) \<Rightarrow> d | _ \<Rightarrow> demo_db0)"

definition demo_inst :: instance_row where
  "demo_inst = (case findById ''o'' ''i'' demo_db1 of Inr (Some i, _) \<Rightarrow> i | _ \<Rightarrow> undefined)"

definition demo_db2 :: db where
  "demo_db2 = snd (run_tx (status_settle demo_cfg (demo_env 70000000 ''x'') demo_ctx 70000 demo_inst ''i'' AWAITING_ACTION) demo_db1)"

lemma demo_evaluated:
  "(case demo_begin of Inr (ConnectNew _ _ _, _) \<Rightarrow> True | _ \<Rightarrow> False)"
  "(case findById ''o'' ''i'' demo_db1 of Inr (Some _, _) \<Rightarrow> True | _ \<Rightarrow> False)"
  "stranded ''o'' ''i'' demo_db2"
  by code_simp+

lemma demo_reachable: "\<exists>p. reachable demo_cfg p \<and> ps_db p = demo_db2"
proof -
  let ?p0 = "\<lparr>ps_db = demo_db0, ps_clock = 0, ps_calls = []\<rparr>"
  obtain i po rid where b: "connect_begin demo_cfg (demo_env 1000000 ''op'') demo_ctx 1000 demo_cmd demo_db0
      = Inr (ConnectNew i po rid, demo_db1)"
    using demo_evaluated(1) unfolding demo_db1_def demo_begin_def
    by (auto split: sum.splits prod.splits connect_initial.splits)
  have f: "findById ''o'' ''i'' demo_db1 = Inr (Some demo_inst, demo_db1)"
    using demo_evaluated(2) unfolding demo_inst_def by (auto simp: findById_def split: option.splits)
  have "reachable demo_cfg ?p0" by (rule reachable.start) (simp_all add: demo_db0_def)
  then have "reachable demo_cfg (?p0\<lparr>ps_db := demo_db1, ps_clock := env_now (demo_env 1000000 ''op''),
      ps_calls := ConnectCall demo_ctx i po rid # ps_calls ?p0\<rparr>)" (is "reachable _ ?p1")
    using b by (intro reachable.more [OF _ step.connect_call [where acq = 1000 and cmd = demo_cmd]])
      (simp_all, simp add: demo_env_def)
  then have "reachable demo_cfg (?p1\<lparr>ps_calls := StatusCall demo_ctx demo_inst ''i'' # ps_calls ?p1\<rparr>)" (is "reachable _ ?p2")
    by (rule reachable.more [OF _ step.status_call]) (simp add: demo_ctx_def f)
  then have "reachable demo_cfg (?p2\<lparr>ps_db := snd (run_tx (status_settle demo_cfg (demo_env 70000000 ''x'') demo_ctx 70000
        demo_inst ''i'' AWAITING_ACTION) (ps_db ?p2)),
      ps_calls := remove1 (StatusCall demo_ctx demo_inst ''i'') (ps_calls ?p2)\<rparr>)" (is "reachable _ ?p3")
    by (rule reachable.more [OF _ step.status_return]) simp
  moreover have "ps_db ?p3 = demo_db2" by (simp add: demo_db2_def)
  ultimately show ?thesis by blast
qed



end
