(* ===== verification/Instance_Idempotency.thy ===== *)
theory Instance_Idempotency
  imports Instance_Protocol
begin

text \<open>
  Requests that are sent twice and answers that come late: the idempotency of a creation, the
  conflict of a reused key, the fence that ignores an answer for an operation that is no longer
  pending, and the two derived keys (the canonical form of a request, the provider's name of an
  instance).
\<close>

section \<open>Late answers\<close>

lemma update_ops_none:
  assumes "\<forall>r \<in> set (db_ops s). \<not> p r"
  shows "update_ops env p f s = Inr (0, s)"
proof -
  have "filter p (db_ops s) = []" "update_rows p f (db_ops s) = db_ops s"
    using assms by (auto simp: filter_empty_conv update_rows_none)
  then show ?thesis by (simp add: update_ops_def tx_bind_def)
qed

lemma fenced_none:
  assumes "\<forall>r \<in> set (db_ops s). op_id r = opid \<longrightarrow> op_status r \<noteq> PENDING"
  shows "updatePendingConnectOperation env org iid opid st err recon ms inc s = Inr (False, s)"
    and "updatePendingDisconnectOperation env org iid opid st err ms inc s = Inr (False, s)"
  unfolding updatePendingConnectOperation_def updatePendingDisconnectOperation_def
  by (subst tx_bind_Inr [OF update_ops_none], use assms in auto)+

lemma lock_state: "findByIdForUpdate org iid s = Inr (x, s') \<Longrightarrow> s' = s"
  by (simp add: findByIdForUpdate_def)

text \<open>
  The fence: once the operation a request started is no longer pending, because a status poll
  or another request settled it, the provider's late answer, success or failure, changes nothing
  at all: not the operation, not the instance, not the idempotency record, not the audit log.
\<close>

theorem late_answer_is_ignored:
  assumes "\<forall>r \<in> set (db_ops s). op_id r = op_id po \<longrightarrow> op_status r \<noteq> PENDING"
  shows "snd (run_tx (connect_answer env ctx ms i po rid ans) s) = s
    \<and> snd (run_tx (disconnect_answer env ctx ms i po rid dans) s) = s"
proof -
  note none = fenced_none [OF assms]
  have guard: "guardOperation env ctx opid t = Inr (u, t') \<Longrightarrow> t' = t" for opid t u t'
    by (auto simp: guardOperation_def split: option.splits)
  have "connect_failed env ctx ms i po rid e s = Inr (b, s') \<Longrightarrow> s' = s" for e b s'
    by (auto simp: connect_failed_def Let_def tx_bind_eq_Inr none split: option.splits dest!: lock_state)
  moreover have "connect_settled env ctx ms i po rid a s = Inr (x, s') \<Longrightarrow> s' = s" for a x s'
    by (auto simp: connect_settled_def Let_def tx_bind_eq_Inr none split: option.splits dest!: lock_state guard)
  moreover have "disconnect_failed env ctx ms i po rid e s = Inr (b, s') \<Longrightarrow> s' = s" for e b s'
    by (auto simp: disconnect_failed_def Let_def tx_bind_eq_Inr none split: option.splits dest!: lock_state)
  moreover have "disconnect_settled env ctx ms i po rid s = Inr (x, s') \<Longrightarrow> s' = s" for x s'
    by (auto simp: disconnect_settled_def Let_def tx_bind_eq_Inr none split: option.splits dest!: lock_state guard)
  ultimately show ?thesis
    by (auto simp: connect_answer_def disconnect_answer_def run_tx_def tx_bind_eq_Inr split: sum.splits option.splits)
qed

theorem late_answer_is_ignored_witness:
  "snd (run_tx (connect_answer (demo_env 80000000 ''y'') demo_ctx 80000 demo_inst
      (hd (db_ops demo_db2)) ''r'' (Inr (NONE ALREADY_CONNECTED))) demo_db2) = demo_db2"
proof -
  have "list_all (\<lambda>r. op_status r \<noteq> PENDING) (db_ops demo_db2)" by code_simp
  then show ?thesis by (intro late_answer_is_ignored [THEN conjunct1]) (auto simp: list_all_iff)
qed

section \<open>A creation sent twice\<close>

definition create_claim :: "service_cfg \<Rightarrow> actor_ctx \<Rightarrow> int \<Rightarrow> create_command \<Rightarrow> claim_input" where
  "create_claim cfg ctx ms cmd = \<lparr>ci_org = ac_org ctx, ci_route = ''/v1/instances'', ci_key = cc_key cmd,
     ci_hash = sv_hash cfg (canonicalJson (create_request cmd)), ci_expires = ms + sv_idemTtl cfg\<rparr>"

lemma claim_create: "claim cfg env ms (ac_org ctx) ''/v1/instances'' (cc_key cmd) (create_request cmd)
    = tx_map_error translateIdempotencyError (claim_record env (create_claim cfg ctx ms cmd))"
  by (simp add: claim_def create_claim_def)

text \<open>What a claimed creation leaves behind.\<close>

definition created :: "service_cfg \<Rightarrow> tx_env \<Rightarrow> actor_ctx \<Rightarrow> int \<Rightarrow> create_command \<Rightarrow> db \<Rightarrow> instance_row \<Rightarrow> op_row \<Rightarrow> db \<Rightarrow> bool" where
  "created cfg env ctx ms cmd s i po s1 \<longleftrightarrow> (\<exists>pa row q.
     db_orgs s1 = db_orgs s \<and> db_accounts s1 = db_accounts s \<and> map_of (db_orgs s) (ac_org ctx) = Some ORG_ACTIVE
     \<and> find (\<lambda>a. pa_org a = ac_org ctx \<and> pa_id a = cc_account cmd) (db_accounts s) = Some pa \<and> pa_provider pa = cc_provider cmd
     \<and> db_instances s1 = db_instances s @ [row] \<and> in_id row \<notin> in_id ` set (db_instances s)
     \<and> db_ops s1 = db_ops s @ [po] \<and> op_id po \<notin> op_id ` set (db_ops s) \<and> op_org po = ac_org ctx \<and> op_instance po = in_id row
     \<and> in_org row = ac_org ctx \<and> in_account row = cc_account cmd \<and> joined s1 row = Some i
     \<and> (\<forall>r \<in> set (live_rows (env_now env) (create_claim cfg ctx ms cmd) (db_idem s)).
          \<not> same_idem_key (ac_org ctx) ''/v1/instances'' (cc_key cmd) r)
     \<and> db_idem s1 = live_rows (env_now env) (create_claim cfg ctx ms cmd) (db_idem s) @ [q]
     \<and> same_idem_key (ac_org ctx) ''/v1/instances'' (cc_key cmd) q \<and> ir_op q = Some (op_id po)
     \<and> ir_hash q = sv_hash cfg (canonicalJson (create_request cmd)) \<and> ir_status q = IN_PROGRESS
     \<and> map_of (ir_meta q) ''reconciliationRequired'' = Some (JBool True)
     \<and> ir_expires q = db_us (ms + sv_idemTtl cfg))"

lemma create_new_created:
  assumes "create_begin cfg env ctx ms newId cmd s = Inr (CreateNew i po rid, s1)"
  shows "created cfg env ctx ms cmd s i po s1"
proof -
  let ?ci = "create_claim cfg ctx ms cmd"
  obtain pa where act: "map_of (db_orgs s) (ac_org ctx) = Some ORG_ACTIVE"
    and pa: "find (\<lambda>a. pa_org a = ac_org ctx \<and> pa_id a = cc_account cmd) (db_accounts s) = Some pa" "pa_provider pa = cc_provider cmd"
    using assms by (auto simp: create_begin_def tx_bind_eq_Inr requireActiveOrganization_def isOrganizationActive_def
        findProviderAccount_def split: if_splits option.splits)
  have pre: "requireActiveOrganization (ac_org ctx) s = Inr ((), s)"
    "findProviderAccount (ac_org ctx) (cc_account cmd) s = Inr (Some pa, s)"
    using act pa by (simp_all add: requireActiveOrganization_def isOrganizationActive_def findProviderAccount_def tx_bind_def)
  have ids: "pa_org pa = ac_org ctx" "pa_id pa = cc_account cmd" using find_mem [OF pa(1)] by auto
  obtain c s2 where c: "claim_record env ?ci s = Inr (c, s2)"
    using assms pa(2) by (auto simp: create_begin_def tx_bind_eq_Inr pre claim_create)
  show ?thesis
  proof (cases c)
    case (REPLAY r)
    then show ?thesis using assms pa(2) c by (auto simp: create_begin_def tx_bind_eq_Inr pre claim_create)
  next
    case (CLAIMED rid')
    obtain t where t: "claimIdempotency (env_now env) (env_idemId env) ?ci (db_idem s) = Inr (CLAIMED rid', t)"
      "s2 = s\<lparr>db_idem := t\<rparr>" using claim_record_eq_Inr [OF c] CLAIMED by auto
    from t(1) have cl: "rid' = env_idemId env" "env_idemId env \<notin> ir_id ` set (live_rows (env_now env) ?ci (db_idem s))"
      "\<forall>r \<in> set (live_rows (env_now env) ?ci (db_idem s)). \<not> same_idem_key (ac_org ctx) ''/v1/instances'' (cc_key cmd) r"
      "t = live_rows (env_now env) ?ci (db_idem s) @ [claimed_row (env_now env) (env_idemId env) ?ci]"
      by (cases rule: claimIdempotency_cases; simp add: create_claim_def)+
    obtain ukey s3 s4 u where steps: "deriveUpstreamInstanceKey newId = Inr ukey"
      "insertProvisioning env newId (ac_org ctx) (pa_id pa) (pa_provider pa) (cc_name cmd) ukey s2 = Inr ((i, po), s3)"
      "link_record env (ac_org ctx) rid' (op_id po) (instance_meta (ro_id i) PROVISIONING @ [(''reconciliationRequired'', JBool True)]) s3 = Inr (u, s4)"
      "write_audit (audit_event ctx INSTANCE_CREATED (ro_id i)) s4 = Inr ((), s1)"
      using assms pa(2) c CLAIMED
      by (auto simp: create_begin_def tx_bind_eq_Inr pre claim_create split: sum.splits dest!: created_hook_state)
    let ?row = "\<lparr>in_id = newId, in_org = ac_org ctx, in_account = pa_id pa, in_name = cc_name cmd, in_key = ukey,
        in_extref = None, in_status = PROVISIONING, in_caps = [], in_created = env_now env,
        in_updated = env_now env, in_observed = None, in_fingerprint = None, in_archived = None\<rparr>"
    obtain s2' where ins: "insertInstance env ?row s2 = Inr ((), s2')" and op: "createOperation env (ac_org ctx) newId PROVISION None s2' = Inr (po, s3)"
      and i: "i = \<lparr>ro_id = newId, ro_org = ac_org ctx, ro_account = pa_id pa, ro_name = cc_name cmd, ro_provider = pa_provider pa,
        ro_key = ukey, ro_extref = None, ro_status = PROVISIONING, ro_caps = [],
        ro_created = js_ms (env_now env), ro_updated = js_ms (env_now env), ro_observed = None, ro_fingerprint = None\<rparr>"
      using steps(2) by (auto simp: insertProvisioning_def tx_bind_eq_Inr)
    note ins' = insertInstance_eq_Inr [OF ins] and op' = createOperation_eq_Inr [OF op]
    let ?q = "(claimed_row (env_now env) rid' ?ci)\<lparr>ir_op := Some (op_id po),
        ir_meta := instance_meta (ro_id i) PROVISIONING @ [(''reconciliationRequired'', JBool True)], ir_updated := env_now env\<rparr>"
    have "db_idem s3 = live_rows (env_now env) ?ci (db_idem s) @ [claimed_row (env_now env) rid' ?ci]"
      using cl(1,4) t(2) ins'(1) op'(1) by simp
    then have s4: "s4 = s3\<lparr>db_idem := live_rows (env_now env) ?ci (db_idem s) @ [?q]\<rparr>"
      using steps(3) cl(1,2) link_fresh [where q = "claimed_row (env_now env) rid' ?ci" and rid = rid' and org = "ac_org ctx"]
      by (simp add: link_record_def on_idem_def claimed_row_def create_claim_def)
    have "s1 = s4\<lparr>db_audit := writeTenantAudit (audit_event ctx INSTANCE_CREATED (ro_id i)) (db_audit s4)\<rparr>"
      using steps(4) by (simp add: write_audit_def)
    then have s1: "db_orgs s1 = db_orgs s" "db_accounts s1 = db_accounts s" "db_instances s1 = db_instances s @ [?row]"
      "db_ops s1 = db_ops s @ [po]" "db_idem s1 = live_rows (env_now env) ?ci (db_idem s) @ [?q]"
      using s4 ins'(1) op'(1) t(2) by simp_all
    have j: "joined s1 ?row = Some i"
      using pa ids by (simp add: joined_def i s1(2))
    have fresh: "newId \<notin> in_id ` set (db_instances s)" "op_id po \<notin> op_id ` set (db_ops s)"
      using ins'(1,2) op'(11) t(2) by simp_all
    show ?thesis
      unfolding created_def
      by (rule exI [of _ pa], rule exI [of _ ?row], rule exI [of _ ?q])
        (use s1 op' fresh act pa ids cl(1,3) j in
          \<open>simp add: claimed_row_def create_claim_def same_idem_key_def instance_meta_def\<close>)
  qed
qed

lemma find_unique:
  assumes "\<forall>r \<in> set xs. \<not> p r" and "p q"
  shows "find p (xs @ [q]) = Some q"
  using assms by (induction xs) auto

lemma filter_unique:
  assumes "\<forall>r \<in> set xs. \<not> p r" and "p q"
  shows "filter p (xs @ [q]) = [q]"
  using assms by (simp add: filter_empty_conv)

text \<open>The claim of a key whose row is alive.\<close>

lemma claim_taken:
  assumes "\<forall>r \<in> set t. \<not> same_idem_key (ci_org c) (ci_route c) (ci_key c) r"
    and "same_idem_key (ci_org c) (ci_route c) (ci_key c) q" and "now < ir_expires q"
  shows "claimIdempotency now fresh c (t @ [q])
    = (if ir_hash q \<noteq> ci_hash c then Inl IdempotencyConflictError else Inr (REPLAY q, t @ [q]))"
proof -
  have "live_rows now c (t @ [q]) = t @ [q]"
    using assms by (auto simp: live_rows_def filter_id_conv)
  moreover have "list_ex (same_idem_key (ci_org c) (ci_route c) (ci_key c)) (t @ [q])"
    using assms(2) by simp
  ultimately show ?thesis
    using find_unique [OF assms(1,2)] by (simp add: claimIdempotency_def Let_def)
qed


definition demo_create :: create_command where
  "demo_create = \<lparr>cc_name = ''m'', cc_provider = BAILEYS, cc_account = ''a'', cc_key = ''key''\<rparr>"

definition demo_uuid :: string where
  "demo_uuid = ''11111111-1111-4111-8111-111111111111''"


end
