(* ===== verification/Instance_Keys.thy ===== *)
theory Instance_Keys
  imports Instance_Idempotency "HOL-Library.Multiset"
begin

text \<open>
  Derived keys and pages: the name of an instance at the provider, the canonical form a request
  is hashed from, and the keyset pagination of instances.
\<close>

section \<open>The provider's name of an instance\<close>

lemma hex_any_dash: "hex_any c \<Longrightarrow> c \<noteq> CHR ''-''"
proof -
  have "\<not> hex_any (CHR ''-'')" by code_simp
  then show "hex_any c \<Longrightarrow> c \<noteq> CHR ''-''" by blast
qed

lemma filter_split:
  assumes "n < length xs" and "xs ! n = d" and "\<forall>i < n. xs ! i \<noteq> d"
  shows "filter (\<lambda>c. c \<noteq> d) xs = take n xs @ filter (\<lambda>c. c \<noteq> d) (drop (Suc n) xs)"
proof -
  have "xs = take n xs @ xs ! n # drop (Suc n) xs" using assms(1) by (rule id_take_nth_drop)
  moreover have "filter (\<lambda>c. c \<noteq> d) (take n xs) = take n xs"
    using assms by (auto simp: filter_id_conv in_set_conv_nth)
  ultimately show ?thesis using assms(2) by (metis (mono_tags, lifting) filter.simps(2) filter_append)
qed

lemma uuid_nth:
  assumes "is_uuid s" and "i < 36"
  shows "(s ! i = CHR ''-'') = (i = 8 \<or> i = 13 \<or> i = 18 \<or> i = 23)"
proof -
  have "if i = 8 \<or> i = 13 \<or> i = 18 \<or> i = 23 then s ! i = CHR ''-'' else hex_any (s ! i)"
    using assms by (auto simp: is_uuid_def list_all_iff)
  then show ?thesis by (auto dest: hex_any_dash split: if_splits)
qed

lemma uuid_hex:
  assumes "is_uuid s"
  shows "filter (\<lambda>c. c \<noteq> CHR ''-'') s = take 8 s @ take 4 (drop 9 s) @ take 4 (drop 14 s) @ take 4 (drop 19 s) @ drop 24 s"
proof -
  have len: "length s = 36" using assms by (simp add: is_uuid_def)
  note at = uuid_nth [OF assms]
  have 1: "filter (\<lambda>c. c \<noteq> CHR ''-'') s = take 8 s @ filter (\<lambda>c. c \<noteq> CHR ''-'') (drop 9 s)"
    using filter_split [of 8 s "CHR ''-''"] at len by simp
  have 2: "filter (\<lambda>c. c \<noteq> CHR ''-'') (drop 9 s) = take 4 (drop 9 s) @ filter (\<lambda>c. c \<noteq> CHR ''-'') (drop 14 s)"
    using filter_split [of 4 "drop 9 s" "CHR ''-''"] at len by simp
  have 3: "filter (\<lambda>c. c \<noteq> CHR ''-'') (drop 14 s) = take 4 (drop 14 s) @ filter (\<lambda>c. c \<noteq> CHR ''-'') (drop 19 s)"
    using filter_split [of 4 "drop 14 s" "CHR ''-''"] at len by simp
  have 4: "filter (\<lambda>c. c \<noteq> CHR ''-'') (drop 19 s) = take 4 (drop 19 s) @ filter (\<lambda>c. c \<noteq> CHR ''-'') (drop 24 s)"
    using filter_split [of 4 "drop 19 s" "CHR ''-''"] at len by simp
  have 5: "filter (\<lambda>c. c \<noteq> CHR ''-'') (drop 24 s) = drop 24 s"
    using at len by (auto simp: filter_id_conv in_set_conv_nth)
  show ?thesis by (simp add: 1 2 3 4 5)
qed

lemma uuid_rebuilt:
  assumes "is_uuid s"
  shows "s = take 8 s @ ''-'' @ take 4 (drop 9 s) @ ''-'' @ take 4 (drop 14 s) @ ''-'' @ take 4 (drop 19 s) @ ''-'' @ drop 24 s"
proof -
  have len: "length s = 36" using assms by (simp add: is_uuid_def)
  have cut: "n < 36 \<Longrightarrow> s ! n = CHR ''-'' \<Longrightarrow> drop n s = CHR ''-'' # drop (Suc n) s" for n
    using len by (metis Cons_nth_drop_Suc)
  have d: "s ! 8 = CHR ''-''" "s ! 13 = CHR ''-''" "s ! 18 = CHR ''-''" "s ! 23 = CHR ''-''"
    using uuid_nth [OF assms] by simp_all
  have t: "drop n s = take 4 (drop n s) @ drop (n + 4) s" for n
    by (metis append_take_drop_id drop_drop add.commute)
  have "s = take 8 s @ drop 8 s" by simp
  also have "drop 8 s = ''-'' @ take 4 (drop 9 s) @ drop 13 s" using cut [of 8] d(1) t [of 9] by simp
  also have "drop 13 s = ''-'' @ take 4 (drop 14 s) @ drop 18 s" using cut [of 13] d(2) t [of 14] by simp
  also have "drop 18 s = ''-'' @ take 4 (drop 19 s) @ drop 23 s" using cut [of 18] d(3) t [of 19] by simp
  also have "drop 23 s = ''-'' @ drop 24 s" using cut [of 23] d(4) by simp
  finally show ?thesis by simp
qed

text \<open>
  The name an instance gets at the provider determines the instance: two identifiers with the
  same name differ at most in the case of their digits. (The name drops the dashes of a UUID and
  lowers its letters.)
\<close>

theorem upstream_key_is_injective:
  assumes "deriveUpstreamInstanceKey a = Inr k" and "deriveUpstreamInstanceKey b = Inr k"
  shows "map to_lower a = map to_lower b"
proof -
  let ?h = "\<lambda>s. map to_lower (filter (\<lambda>c. c \<noteq> CHR ''-'') s)"
  have u: "is_uuid a" "is_uuid b" "?h a = ?h b"
    using assms by (auto simp: deriveUpstreamInstanceKey_def split: if_splits)
  have len: "length a = 36" "length b = 36" using u by (simp_all add: is_uuid_def)
  have parts: "map to_lower (take 8 a) = map to_lower (take 8 b)"
    "map to_lower (take 4 (drop 9 a)) = map to_lower (take 4 (drop 9 b))"
    "map to_lower (take 4 (drop 14 a)) = map to_lower (take 4 (drop 14 b))"
    "map to_lower (take 4 (drop 19 a)) = map to_lower (take 4 (drop 19 b))"
    "map to_lower (drop 24 a) = map to_lower (drop 24 b)"
    using u(3) len by (simp_all add: uuid_hex [OF u(1)] uuid_hex [OF u(2)])
  show ?thesis
    by (subst uuid_rebuilt [OF u(1)], subst uuid_rebuilt [OF u(2)]) (simp only: map_append parts)
qed

theorem upstream_key_is_injective_witness:
  "map to_lower demo_uuid = map to_lower demo_uuid"
proof -
  have "deriveUpstreamInstanceKey demo_uuid = Inr ''jrc_11111111111141118111111111111111''" by code_simp
  then show ?thesis using upstream_key_is_injective by blast
qed

section \<open>The canonical form of a request\<close>

text \<open>The same JSON value up to the order of the fields of its objects, at any depth.\<close>

inductive json_same :: "json \<Rightarrow> json \<Rightarrow> bool" where
  same_refl: "json_same j j"
| same_array: "list_all2 json_same xs ys \<Longrightarrow> json_same (JArr xs) (JArr ys)"
| same_object: "distinct (map fst kvs) \<Longrightarrow> list_all2 (rel_prod (=) json_same) kvs mid \<Longrightarrow> mset mid = mset kvs' \<Longrightarrow>
    json_same (JObj kvs) (JObj kvs')"
  monos prod.rel_mono

lemma sort_key_same:
  assumes "mset xs = mset ys" and "distinct (map fst xs)"
  shows "sort_key fst xs = sort_key fst (ys :: ('k :: linorder \<times> 'v) list)"
proof (rule map_sorted_distinct_set_unique [where f = fst])
  have d: "distinct (map fst ys)" using assms by (metis mset_eq_imp_distinct_iff mset_map)
  have "set xs = set ys" using assms(1) by (metis set_mset_mset)
  then show "set (sort_key fst xs) = set (sort_key fst ys)" by simp
  show "inj_on fst (set (sort_key fst xs) \<union> set (sort_key fst ys))"
    using assms(2) \<open>set xs = set ys\<close> by (simp add: distinct_map)
  have "mset (map fst (sort_key fst xs)) = mset (map fst xs)" "mset (map fst (sort_key fst ys)) = mset (map fst ys)"
    by (metis mset_map mset_sort)+
  then show "distinct (map fst (sort_key fst xs))" "distinct (map fst (sort_key fst ys))"
    using assms(2) d by (metis mset_eq_imp_distinct_iff)+
qed simp_all

text \<open>
  Two requests that are the same JSON value up to the order of object fields have the same
  canonical text, hence the same request hash: a client that repeats a request with its fields
  in another order is not told that its key is taken.
\<close>

theorem canonical_json_ignores_field_order:
  "json_same a b \<Longrightarrow> canonicalJson a = canonicalJson b"
proof (induction rule: json_same.induct)
  case (same_array xs ys)
  then have "map canonicalJson xs = map canonicalJson ys"
    by (induction rule: list_all2_induct) auto
  then show ?case by simp
next
  case (same_object kvs mid kvs')
  let ?item = "\<lambda>kv. (fst kv, json_quote (fst kv) @ '':'' @ canonicalJson (snd kv))"
  have items: "map ?item kvs = map ?item mid"
    using same_object.IH by (induction rule: list_all2_induct) auto
  then have "map fst mid = map fst kvs"
    by (metis (mono_tags, lifting) comp_apply fst_conv map_eq_conv map_map list.map_comp)
  moreover have "mset (map ?item mid) = mset (map ?item kvs')"
    using same_object.hyps by (simp add: mset_map)
  ultimately have "sort_key fst (map ?item kvs) = sort_key fst (map ?item kvs')"
    unfolding items using same_object.hyps by (intro sort_key_same) (simp_all add: comp_def)
  then show ?case by simp
qed simp

theorem canonical_json_ignores_field_order_witness:
  "canonicalJson (JObj [(''a'', JNum 1), (''b'', JNull)]) = canonicalJson (JObj [(''b'', JNull), (''a'', JNum 1)])"
  by (rule canonical_json_ignores_field_order, rule same_object [of _ "[(''a'', JNum 1), (''b'', JNull)]"])
    (auto intro: same_refl)

section \<open>Pages of instances\<close>

text \<open>The rows a listing ranges over, keyed by creation time and identifier.\<close>

definition keyed_rows :: "string \<Rightarrow> db \<Rightarrow> ((int \<times> string) \<times> instance_row) list" where
  "keyed_rows org s = List.map_filter (\<lambda>r. map_option (\<lambda>j. ((in_created r, in_id r), j)) (joined s r))
     (filter (\<lambda>r. in_org r = org \<and> in_archived r = None) (db_instances s))"

definition all_rows :: "string \<Rightarrow> db \<Rightarrow> ((int \<times> string) \<times> instance_row) list" where
  "all_rows org s = rev (sort_key fst (keyed_rows org s))"

lemma keyed_filter:
  "List.map_filter (\<lambda>r. map_option (\<lambda>j. (k r, j)) (g r)) (filter (\<lambda>r. p r \<and> q (k r)) rs)
    = filter (\<lambda>x. q (fst x)) (List.map_filter (\<lambda>r. map_option (\<lambda>j. (k r, j)) (g r)) (filter p rs))"
  by (induction rs) (auto simp: List.map_filter_simps split: option.splits)

lemma list_first: "list_instances org lim None s = Inr (take lim (map snd (all_rows org s)), s)"
  by (simp add: list_instances_def all_rows_def keyed_rows_def rev_map)

lemma list_after: "list_instances org lim (Some c) s
    = Inr (take lim (map snd (filter (\<lambda>x. fst x < (db_us (cu_created c), cu_id c)) (all_rows org s))), s)"
proof -
  let ?q = "\<lambda>k. k < (db_us (cu_created c), cu_id c)"
  have "List.map_filter (\<lambda>r. map_option (\<lambda>j. ((in_created r, in_id r), j)) (joined s r))
      (filter (\<lambda>r. in_org r = org \<and> in_archived r = None \<and> ?q (in_created r, in_id r)) (db_instances s))
    = filter (\<lambda>x. ?q (fst x)) (keyed_rows org s)"
    using keyed_filter [of "\<lambda>r. (in_created r, in_id r)" "joined s" "\<lambda>r. in_org r = org \<and> in_archived r = None" ?q "db_instances s"]
    by (simp only: keyed_rows_def conj_assoc)
  then have "list_instances org lim (Some c) s
      = Inr (take lim (rev (map snd (sort_key fst (filter (\<lambda>x. ?q (fst x)) (keyed_rows org s))))), s)"
    by (simp only: list_instances_def tx_gets_simp option.case)
  then show ?thesis
    by (simp only: all_rows_def rev_map rev_filter [symmetric] filter_sort)
qed

lemma filter_below:
  assumes "sorted_wrt (\<lambda>x y. fst y < (fst x :: 'k :: linorder)) xs" and "k < length xs"
  shows "filter (\<lambda>x. fst x < fst (xs ! k)) xs = drop (Suc k) xs"
  using assms
proof (induction xs arbitrary: k)
  case (Cons x xs)
  show ?case
  proof (cases k)
    case 0
    then show ?thesis using Cons.prems(1) by (auto simp: filter_id_conv)
  next
    case (Suc j)
    have "xs ! j \<in> set xs" using Cons.prems(2) Suc by simp
    then have "fst (xs ! j) < fst x" using Cons.prems(1) by simp
    then have "\<not> fst x < fst (xs ! j)" by simp
    then show ?thesis using Cons.IH [of j] Cons.prems Suc by simp
  qed
qed simp

lemma all_rows_descending:
  assumes "distinct (map in_id (db_instances s))"
  shows "sorted_wrt (\<lambda>x y. fst y < fst x) (all_rows org s)"
proof -
  have keys: "map fst (List.map_filter (\<lambda>r. map_option (\<lambda>j. ((in_created r, in_id r), j)) (joined s r)) rs)
      = map (\<lambda>r. (in_created r, in_id r)) (filter (\<lambda>r. joined s r \<noteq> None) rs)" for rs
    by (induction rs) (auto simp: List.map_filter_simps split: option.splits)
  have "distinct (map in_id (filter (\<lambda>r. joined s r \<noteq> None) (filter (\<lambda>r. in_org r = org \<and> in_archived r = None) (db_instances s))))"
    using assms by (simp add: distinct_map_filter)
  then have "distinct (map fst (keyed_rows org s))"
    unfolding keyed_rows_def keys by (auto simp: distinct_map inj_on_def)
  moreover have "mset (map fst (sort_key fst (keyed_rows org s))) = mset (map fst (keyed_rows org s))"
    by (metis mset_map mset_sort)
  ultimately have "distinct (map fst (sort_key fst (keyed_rows org s)))"
    by (metis mset_eq_imp_distinct_iff)
  then have "sorted_wrt (<) (map fst (sort_key fst (keyed_rows org s)))"
    by (simp add: strict_sorted_iff)
  then show ?thesis by (simp add: all_rows_def sorted_wrt_rev sorted_wrt_map)
qed

lemma all_rows_row:
  assumes "x \<in> set (all_rows org s)"
  shows "ro_created (snd x) = js_ms (fst (fst x)) \<and> ro_id (snd x) = snd (fst x)
    \<and> (\<exists>r \<in> set (db_instances s). in_org r = org \<and> fst (fst x) = in_created r)"
  using assms by (auto simp: all_rows_def keyed_rows_def List.map_filter_def joined_def split: option.splits)

text \<open>
  Following the cursors visits every instance once, in descending order of creation, when the
  creation times are whole milliseconds: the page after the cursor of the \<open>k\<close>-th instance of
  the whole listing starts at the next one.
\<close>

theorem pages_follow_each_other:
  assumes "distinct (map in_id (db_instances s))"
    and "\<forall>r \<in> set (db_instances s). in_created r mod 1000 = 0"
    and "list_instances org lim0 None s = Inr (whole, s)" and "k < length whole"
  shows "list_instances org lim (Some (encodeCursor (whole ! k))) s
    = Inr (take lim (drop (Suc k) (map snd (all_rows org s))), s)"
proof -
  have w: "whole = take lim0 (map snd (all_rows org s))"
    using assms(3) by (simp add: list_first)
  then have k: "k < length (all_rows org s)" "whole ! k = snd (all_rows org s ! k)" using assms(4) by simp_all
  let ?x = "all_rows org s ! k"
  have x: "?x \<in> set (all_rows org s)" using k(1) by simp
  have "db_us (ro_created (snd ?x)) = fst (fst ?x)"
    using all_rows_row [OF x] assms(2) by (auto simp: db_us_def js_ms_def)
  then have "(db_us (ro_created (snd ?x)), ro_id (snd ?x)) = fst ?x"
    using all_rows_row [OF x] by (simp add: prod_eq_iff)
  then show ?thesis
    unfolding list_after k(2) encodeCursor_def
    using filter_below [OF all_rows_descending [OF assms(1)] k(1)] by (simp add: drop_map)
qed

definition demo_row :: "string \<Rightarrow> string \<Rightarrow> int \<Rightarrow> inst_db" where
  "demo_row iid nm t = \<lparr>in_id = iid, in_org = ''o'', in_account = ''a'', in_name = nm, in_key = nm,
     in_extref = None, in_status = CREATED, in_caps = [], in_created = t, in_updated = t, in_observed = None,
     in_fingerprint = None, in_archived = None\<rparr>"

definition demo_other_uuid :: string where
  "demo_other_uuid = ''22222222-2222-4222-8222-222222222222''"

definition demo_pages :: "int \<Rightarrow> int \<Rightarrow> db" where
  "demo_pages t u = demo_db0\<lparr>db_instances := [demo_row demo_uuid ''n'' t, demo_row demo_other_uuid ''m'' u]\<rparr>"

theorem pages_follow_each_other_witness:
  "\<exists>whole. length whole = 2 \<and> list_instances ''o'' 1 (Some (encodeCursor (whole ! 0))) (demo_pages 2000 1000)
     = Inr (take 1 (drop 1 (map snd (all_rows ''o'' (demo_pages 2000 1000)))), demo_pages 2000 1000)"
proof -
  let ?s = "demo_pages 2000 1000"
  let ?w = "map snd (all_rows ''o'' ?s)"
  have "distinct (map in_id (db_instances ?s))" "\<forall>r \<in> set (db_instances ?s). in_created r mod 1000 = 0"
    by (simp_all add: demo_pages_def demo_db0_def demo_row_def demo_uuid_def demo_other_uuid_def)
  moreover have "list_instances ''o'' 2 None ?s = Inr (?w, ?s)" "length ?w = 2"
  proof -
    show "length ?w = 2" by code_simp
    then show "list_instances ''o'' 2 None ?s = Inr (?w, ?s)" by (simp add: list_first)
  qed
  ultimately have "list_instances ''o'' 1 (Some (encodeCursor (?w ! 0))) ?s = Inr (take 1 (drop (Suc 0) ?w), ?s)"
    by (intro pages_follow_each_other) auto
  then show ?thesis using \<open>length ?w = 2\<close> by (intro exI [of _ ?w]) simp
qed

text \<open>
  A page boundary inside a millisecond loses instances. Two instances created 300 microseconds
  apart in one millisecond: the first page shows the later one and promises another page, whose
  cursor (rounded down to the millisecond) excludes the earlier one, so it is never listed.
\<close>

theorem page_boundary_loses_an_instance:
  "case listInstances demo_ctx 1 None (demo_pages 1000500 1000200) of
     (Inr pg, _) \<Rightarrow> map pi_id (pg_data pg) = [demo_uuid] \<and> pg_hasNextPage pg
       \<and> (case listInstances demo_ctx 1 (pg_nextCursor pg) (demo_pages 1000500 1000200) of
            (Inr pg', _) \<Rightarrow> pg_data pg' = [] \<and> \<not> pg_hasNextPage pg' | _ \<Rightarrow> False)
   | _ \<Rightarrow> False"
  by code_simp

end
