(* ===== verification/Reconcile.thy ===== *)
theory Reconcile
  imports Instance_Keys
begin

text \<open>
  The reconciler of provisioning operations, apps/api/src/modules/reconciliation/reconcile-provisioning.ts:
  claim the operation under a lease, look the instance up at the provider, and record what was
  found. Absence never leads to another creation.
\<close>

section \<open>The reconciler\<close>

record reconcile_command =
  rc_org :: string
  rc_operation :: string
  rc_requestId :: string

definition RECONCILE_LEASE_MS :: int where "RECONCILE_LEASE_MS = 60000"

definition canonicalError :: "js_error \<Rightarrow> string" where
  "canonicalError e = (case thrown_code e of None \<Rightarrow> ''RECONCILIATION_FAILED''
     | Some c \<Rightarrow> if matches_code 127 c then c else ''RECONCILIATION_FAILED'')"

definition publicInstance :: "instance_row \<Rightarrow> public_instance" where
  "publicInstance r = \<lparr>pi_id = ro_id r, pi_org = ro_org r, pi_account = ro_account r, pi_name = ro_name r,
     pi_provider = ro_provider r, pi_status = ro_status r, pi_created = ro_created r, pi_updated = ro_updated r\<rparr>"

definition reconcile_found :: "tx_env \<Rightarrow> reconcile_command \<Rightarrow> instance_row \<Rightarrow> op_row \<Rightarrow> string \<Rightarrow> (db, instance_row) tx" where
  "reconcile_found env cmd i po ref =
    tx_bind (updateInstanceState env (rc_org cmd) (ro_id i) CREATED (Some (Some ref)) None) (\<lambda>upd.
    case upd of None \<Rightarrow> tx_throw (ReconciliationError ''RECONCILIATION_NOT_FOUND'')
    | Some u \<Rightarrow>
      tx_bind (completeOperation env (rc_org cmd) (op_id po) SUCCEEDED None False False) (\<lambda>_.
      tx_bind (write_audit \<lparr>te_type = RECONCILIATION_COMPLETED, te_org = rc_org cmd, te_actorId = None,
        te_actorKind = INTERNAL, te_resourceId = op_id po, te_requestId = rc_requestId cmd\<rparr>) (\<lambda>_.
      tx_return u)))"

definition reconcile_failed :: "tx_env \<Rightarrow> reconcile_command \<Rightarrow> op_row \<Rightarrow> js_error \<Rightarrow> (db, unit) tx" where
  "reconcile_failed env cmd po e =
    completeOperation env (rc_org cmd) (op_id po) OP_UNKNOWN (Some (canonicalError e)) True False"

text \<open>
  The lookup answers an error, that the instance does not exist (\<open>None\<close>) or its reference. A
  failure of the recording transaction is handled like a failed lookup.
\<close>

definition reconcile_settle ::
  "tx_env \<Rightarrow> reconcile_command \<Rightarrow> instance_row \<Rightarrow> op_row \<Rightarrow> js_error + string option \<Rightarrow> db \<Rightarrow> (js_error + public_instance) \<times> db" where
  "reconcile_settle env cmd i po answer s =
    (let attempt = (case answer of Inl e \<Rightarrow> (Inl e, s)
         | Inr None \<Rightarrow> (Inl (ReconciliationError ''RECONCILIATION_FAILED''), s)
         | Inr (Some ref) \<Rightarrow> run_tx (reconcile_found env cmd i po ref) s)
     in case attempt of
       (Inr u, s1) \<Rightarrow> (Inr (publicInstance u), s1)
     | (Inl e, s1) \<Rightarrow> (case run_tx (reconcile_failed env cmd po e) s1 of
           (Inl e', s2) \<Rightarrow> (Inl e', s2)
         | (Inr _, s2) \<Rightarrow> (Inl (case e of ReconciliationError c \<Rightarrow> e | _ \<Rightarrow> ReconciliationError ''RECONCILIATION_FAILED''), s2)))"

definition reconcileProvisioning ::
  "reconcile_command \<Rightarrow> tx_env \<Rightarrow> int \<Rightarrow> int \<Rightarrow> (instance_row \<Rightarrow> js_error + string option) \<Rightarrow> (db \<Rightarrow> db) \<Rightarrow> tx_env
   \<Rightarrow> db \<Rightarrow> (js_error + public_instance) \<times> db" where
  "reconcileProvisioning cmd env1 nowMs leaseMs lookupInstance world env2 s0 =
    (case run_tx (claimProvisioningOperation env1 (rc_org cmd) (rc_operation cmd) nowMs leaseMs) s0 of
       (Inl e, s1) \<Rightarrow> (Inl e, s1)
     | (Inr None, s1) \<Rightarrow> (Inl (ReconciliationError ''RECONCILIATION_NOT_FOUND''), s1)
     | (Inr (Some (i, po)), s1) \<Rightarrow> reconcile_settle env2 cmd i po (lookupInstance i) (world s1))"

section \<open>Frames\<close>

lemma completeOperation_state:
  "completeOperation env org opid st err recon inc s = Inr (u, s') \<Longrightarrow>
    s' = s\<lparr>db_ops := update_rows (\<lambda>r. op_org r = org \<and> op_id r = opid)
      (\<lambda>r. r\<lparr>op_status := st, op_error := err, op_recon := recon,
             op_attempts := op_attempts r + (if inc then 1 else 0), op_updated := env_now env\<rparr>) (db_ops s)\<rparr>"
  by (auto simp: completeOperation_def tx_bind_eq_Inr dest!: update_ops_eq_Inr)

lemma claim_provisioning_tenant: "tx_respects (tenant_step org) (claimProvisioningOperation env org opid acq lease)"
  unfolding claimProvisioningOperation_def Let_def
proof (intro tenant.respects_intros tenant.reads)
  show "tx_respects (tenant_step org) (update_ops env (claimable org opid acq lease)
      (\<lambda>r. r\<lparr>op_status := PENDING, op_attempts := op_attempts r + 1, op_updated := db_us acq\<rparr>))"
    by (auto simp: tx_respects_def claimable_def op_identity_def intro!: tenant_ops_update dest!: update_ops_eq_Inr)
qed

lemma reconcile_settle_tenant: "tenant_step (rc_org cmd) s (snd (reconcile_settle env cmd i po answer s))"
proof -
  have found: "tx_respects (tenant_step (rc_org cmd)) (reconcile_found env cmd i po ref)" for ref
    unfolding reconcile_found_def
    by (intro tenant.respects_intros tenant.law_updateInstance tenant_all.law_completeOperation tenant.law_audit) simp
  have failed: "tx_respects (tenant_step (rc_org cmd)) (reconcile_failed env cmd po e)" for e
    unfolding reconcile_failed_def by (rule tenant_all.law_completeOperation)
  note runs = tenant.run_step [OF found] tenant.run_step [OF failed]
  show ?thesis
    by (auto simp: reconcile_settle_def Let_def split: prod.splits sum.splits option.splits dest!: runs
      intro: tenant.R_refl tenant.R_trans)
qed

lemma reconcile_two_phase:
  "two_phase (tenant_step (rc_org cmd)) world s0 (snd (reconcileProvisioning cmd env1 ms lease answer world env2 s0))"
proof -
  obtain r s1 where c: "run_tx (claimProvisioningOperation env1 (rc_org cmd) (rc_operation cmd) ms lease) s0 = (r, s1)"
    by fastforce
  have "tenant_step (rc_org cmd) s0 s1"
    by (rule tenant.run_step [OF claim_provisioning_tenant c])
  then show ?thesis
    using c by (auto simp: reconcileProvisioning_def split: sum.splits option.splits
      intro: two_phase_first two_phase_second reconcile_settle_tenant)
qed

section \<open>Properties\<close>

definition no_new_rows :: "db \<Rightarrow> db \<Rightarrow> bool" where
  "no_new_rows s s' \<longleftrightarrow> map inst_identity (db_instances s') = map inst_identity (db_instances s)
     \<and> map op_identity (db_ops s') = map op_identity (db_ops s)"

lemma no_new_frame: "tx_frame no_new_rows"
  by unfold_locales (auto simp: no_new_rows_def)

interpretation no_new: tx_frame no_new_rows
  by (rule no_new_frame)

lemma no_new_ops: "(\<And>r. p r \<Longrightarrow> op_identity (f r) = op_identity r) \<Longrightarrow> no_new_rows s (s\<lparr>db_ops := update_rows p f (db_ops s)\<rparr>)"
  by (simp add: no_new_rows_def map_update_rows)

lemma no_new_insts: "(\<And>r. p r \<Longrightarrow> inst_identity (f r) = inst_identity r) \<Longrightarrow> no_new_rows s (s\<lparr>db_instances := update_rows p f (db_instances s)\<rparr>)"
  by (simp add: no_new_rows_def map_update_rows)

lemma no_new_statements:
  "tx_respects no_new_rows (claimProvisioningOperation env org opid acq lease)"
  "tx_respects no_new_rows (completeOperation env org opid st err recon inc)"
  "tx_respects no_new_rows (updateInstanceState env org iid ist ext caps)"
  "tx_respects no_new_rows (write_audit ev)"
proof -
  have "tx_respects no_new_rows (update_ops env (claimable org opid acq lease)
      (\<lambda>r. r\<lparr>op_status := PENDING, op_attempts := op_attempts r + 1, op_updated := db_us acq\<rparr>))"
    by (auto simp: tx_respects_def op_identity_def intro!: no_new_ops dest!: update_ops_eq_Inr)
  moreover have "tx_respects no_new_rows (findById org x)" for x
    unfolding findById_def by (rule no_new.respects_gets)
  ultimately show "tx_respects no_new_rows (claimProvisioningOperation env org opid acq lease)"
    unfolding claimProvisioningOperation_def Let_def by (intro no_new.respects_intros)
  show "tx_respects no_new_rows (completeOperation env org opid st err recon inc)"
    by (auto simp: tx_respects_def op_identity_def intro!: no_new_ops dest!: completeOperation_state)
  show "tx_respects no_new_rows (updateInstanceState env org iid ist ext caps)"
    by (auto simp: tx_respects_def inst_identity_def intro!: no_new_insts dest!: updateInstanceState_eq_Inr)
  show "tx_respects no_new_rows (write_audit ev)"
    by (auto simp: tx_respects_def write_audit_def no_new_rows_def)
qed

lemma reconcile_settle_no_new: "no_new_rows s (snd (reconcile_settle env cmd i po answer s))"
proof -
  have found: "tx_respects no_new_rows (reconcile_found env cmd i po ref)" for ref
    unfolding reconcile_found_def by (intro no_new.respects_intros no_new_statements)
  have failed: "tx_respects no_new_rows (reconcile_failed env cmd po e)" for e
    unfolding reconcile_failed_def by (rule no_new_statements)
  have run: "tx_respects no_new_rows m \<Longrightarrow> run_tx m s = (r, s') \<Longrightarrow> no_new_rows s s'" for m :: "(db, 'x) tx" and s r s'
    by (metis no_new.respects_run snd_conv)
  show ?thesis
    by (auto simp: reconcile_settle_def Let_def split: prod.splits sum.splits option.splits
      dest!: run [OF found] run [OF failed] intro: no_new.R_refl no_new.R_trans)
qed

text \<open>
  Reconciliation creates nothing. Whatever the provider answers, no transaction of the
  reconciler adds an instance or an operation; and when the provider does not know the instance,
  the instance rows stay as they are and the operation is left unknown, in need of
  reconciliation.
\<close>

theorem reconciliation_never_creates:
  "two_phase no_new_rows world s0 (snd (reconcileProvisioning cmd env1 ms lease lookupAnswer world env2 s0))
   \<and> (let (res, s') = reconcile_settle env2 cmd i po (Inr None) s
      in (\<exists>e. res = Inl e) \<and> db_instances s' = db_instances s
        \<and> (s' = s \<or> filter (\<lambda>r. op_org r = rc_org cmd \<and> op_id r = op_id po
              \<and> \<not> (op_status r = OP_UNKNOWN \<and> op_recon r)) (db_ops s') = []))"
proof
  obtain r s1 where c: "run_tx (claimProvisioningOperation env1 (rc_org cmd) (rc_operation cmd) ms lease) s0 = (r, s1)"
    by fastforce
  have "no_new_rows s0 s1"
    using no_new.respects_run [OF no_new_statements(1)] c by (metis snd_conv)
  then show "two_phase no_new_rows world s0 (snd (reconcileProvisioning cmd env1 ms lease lookupAnswer world env2 s0))"
    using c by (auto simp: reconcileProvisioning_def split: sum.splits option.splits
      intro: two_phase_first two_phase_second reconcile_settle_no_new)
  show "let (res, s') = reconcile_settle env2 cmd i po (Inr None) s
      in (\<exists>e. res = Inl e) \<and> db_instances s' = db_instances s
        \<and> (s' = s \<or> filter (\<lambda>r. op_org r = rc_org cmd \<and> op_id r = op_id po
              \<and> \<not> (op_status r = OP_UNKNOWN \<and> op_recon r)) (db_ops s') = [])"
    by (auto simp: reconcile_settle_def run_tx_def reconcile_failed_def Let_def update_rows_def filter_empty_conv
      split: sum.splits dest!: completeOperation_state)
qed

lemma distinct_id_eq: "distinct (map op_id rs) \<Longrightarrow> r \<in> set rs \<Longrightarrow> q \<in> set rs \<Longrightarrow> op_id r = op_id q \<Longrightarrow> r = q"
  by (auto simp: distinct_map dest: inj_onD)

text \<open>
  The lease: while the lease of a claim runs, no other reconciler gets the operation: its claim
  finds nothing and changes nothing.
\<close>

theorem reconcile_lease_excludes:
  assumes "claimProvisioningOperation env org opid acq lease s = Inr (Some (i, po), s1)"
    and "distinct (map op_id (db_ops s))" and "acq' - lease < acq"
  shows "claimProvisioningOperation env' org opid acq' lease s1 = Inr (None, s1)"
proof -
  let ?f = "\<lambda>r. r\<lparr>op_status := PENDING, op_attempts := op_attempts r + 1, op_updated := db_us acq\<rparr>"
  obtain r n where r: "find (claimable org opid acq lease) (db_ops s) = Some r"
    and u: "update_ops env (claimable org opid acq lease) ?f s = Inr (n, s1)"
    using assms(1) by (auto simp: claimProvisioningOperation_def Let_def tx_bind_eq_Inr findById_def split: option.splits)
  have s1: "s1 = s\<lparr>db_ops := update_rows (claimable org opid acq lease) ?f (db_ops s)\<rparr>"
    using update_ops_eq_Inr [OF u] by simp
  then have ops: "db_ops s1 = update_rows (claimable org opid acq lease) ?f (db_ops s)" by simp
  have none: "\<not> claimable org opid acq' lease q" if q: "q \<in> set (db_ops s1)" for q
  proof -
    consider "q \<in> set (db_ops s)" "\<not> claimable org opid acq lease q" | q' where "q = ?f q'"
      using set_update_rows [OF q [unfolded ops]] by blast
    then show ?thesis
    proof cases
      case 1
      then have "op_id q \<noteq> opid"
        using distinct_id_eq [OF assms(2), of q r] find_mem [OF r] by (auto simp: claimable_def)
      then show ?thesis by (simp add: claimable_def)
    next
      case 2
      then show ?thesis using assms(3) by (simp add: claimable_def db_us_def)
    qed
  qed
  then have "find (claimable org opid acq' lease) (db_ops s1) = None"
    by (auto simp: find_None_iff)
  moreover have "update_ops env' (claimable org opid acq' lease) f s1 = Inr (0, s1)" for f
    by (rule update_ops_none) (use none in blast)
  ultimately show ?thesis
    by (simp add: claimProvisioningOperation_def Let_def tx_bind_def)
qed

text \<open>An operation left unknown by a creation, and two reconcilers, the first one late.\<close>

definition demo_unknown :: db where
  "demo_unknown = demo_db0\<lparr>db_instances := [(demo_row ''i'' ''n'' 0)\<lparr>in_status := PROVISIONING\<rparr>],
     db_ops := [\<lparr>op_id = ''p'', op_org = ''o'', op_instance = ''i'', op_type = PROVISION, op_status = OP_UNKNOWN,
       op_attempts = 1, op_error = Some ''PROVIDER_TIMEOUT'', op_recon = True, op_created = 0, op_updated = 0\<rparr>]\<rparr>"

definition demo_reconcile :: reconcile_command where
  "demo_reconcile = \<lparr>rc_org = ''o'', rc_operation = ''p'', rc_requestId = ''q''\<rparr>"

definition demo_claimed :: "int \<Rightarrow> db \<Rightarrow> (instance_row \<times> op_row) option \<times> db" where
  "demo_claimed ms s = (case run_tx (claimProvisioningOperation (demo_env (db_us ms) ''x'') ''o'' ''p'' ms RECONCILE_LEASE_MS) s of
     (Inr x, s') \<Rightarrow> (x, s') | (Inl _, s') \<Rightarrow> (None, s'))"

theorem reconcile_lease_excludes_witness:
  "\<exists>s1. claimProvisioningOperation (demo_env 50000000 ''y'') ''o'' ''p'' 50000 60000 s1 = Inr (None, s1)"
proof -
  have "case claimProvisioningOperation (demo_env 1000000 ''x'') ''o'' ''p'' 1000 60000 demo_unknown of
      Inr (Some _, _) \<Rightarrow> True | _ \<Rightarrow> False"
    by code_simp
  then obtain i po s1 where c: "claimProvisioningOperation (demo_env 1000000 ''x'') ''o'' ''p'' 1000 60000 demo_unknown = Inr (Some (i, po), s1)"
    by (auto split: sum.splits prod.splits option.splits)
  have "claimProvisioningOperation (demo_env 50000000 ''y'') ''o'' ''p'' 50000 60000 s1 = Inr (None, s1)"
    by (rule reconcile_lease_excludes [OF c]) (simp_all add: demo_unknown_def)
  then show ?thesis by blast
qed

text \<open>
  A reconciler that outlives its lease undoes the work of the next one. The first claim is
  overtaken after 60 seconds; the second reconciler finds the instance, marks it created and the
  operation succeeded; then the first one's failed lookup, whose completion is not fenced, makes
  the succeeded operation unknown and in need of reconciliation again.
\<close>

theorem late_reconciler_undoes_success:
  "let (c1, s1) = demo_claimed 1000 demo_unknown; (c2, s2) = demo_claimed 61000 s1;
       (r2, s3) = reconcile_settle (demo_env 62000000 ''x'') demo_reconcile (fst (the c2)) (snd (the c2)) (Inr (Some ''ref'')) s2;
       (r1, s4) = reconcile_settle (demo_env 63000000 ''x'') demo_reconcile (fst (the c1)) (snd (the c1)) (Inl (PlainError ''timeout'')) s3
   in c1 \<noteq> None \<and> c2 \<noteq> None \<and> map op_status (db_ops s3) = [SUCCEEDED] \<and> map in_status (db_instances s3) = [CREATED]
      \<and> map op_status (db_ops s4) = [OP_UNKNOWN] \<and> map op_recon (db_ops s4) = [True]"
  by code_simp

end
