(* ===== verification/Challenges.thy ===== *)
theory Challenges
  imports Instance_Service
begin

text \<open>
  The store of connection challenges, apps/api/src/modules/instances/challenges.ts: a QR code or a
  pairing code is kept encrypted until it expires, and is handed out once, to the binding it was
  made for. The cipher (AES-256-GCM of node:crypto, with the JSON text of the action as
  plaintext) and Date.parse are parameters.
\<close>

section \<open>Rows and configuration\<close>

record challenge_row =
  ch_id :: string
  ch_org :: string
  ch_instance :: string
  ch_operation :: string
  ch_algorithm :: string
  ch_ciphertext :: string
  ch_nonce :: string
  ch_authTag :: string
  ch_expires :: int
  ch_consumed :: "int option"

type_synonym challenge_table = "challenge_row list"

text \<open>
  \<open>cs_seal\<close> gives a ciphertext with its tag, \<open>cs_open\<close> fails (\<open>None\<close>) where decryption or the
  parsing of the plaintext throws; \<open>cs_parseDate\<close> is \<open>None\<close> for NaN.
\<close>

record challenge_options =
  cs_key :: string
  cs_ttlMs :: int
  cs_seal :: "string \<Rightarrow> string \<Rightarrow> string \<Rightarrow> connection_action \<Rightarrow> string \<times> string"
  cs_open :: "string \<Rightarrow> string \<Rightarrow> string \<Rightarrow> string \<Rightarrow> string \<Rightarrow> connection_action option"
  cs_parseDate :: "string \<Rightarrow> int option"

record binding =
  bi_org :: string
  bi_instance :: string
  bi_operation :: string

definition ALGORITHM :: string where "ALGORITHM = ''AES-256-GCM''"
definition DEFAULT_TTL_MS :: int where "DEFAULT_TTL_MS = 60000"

definition deriveKey :: "(string \<Rightarrow> string) \<Rightarrow> string \<Rightarrow> js_error + string" where
  "deriveKey sha256 secret = (if length secret < 32
     then Inl (PlainError ''Challenge encryption secret must contain at least 32 bytes'')
     else Inr (sha256 secret))"

definition additionalData :: "binding \<Rightarrow> string" where
  "additionalData b = bi_org b @ '':'' @ bi_instance b @ '':'' @ bi_operation b"

definition expires_of :: "connection_action \<Rightarrow> string option" where
  "expires_of a = (case a of QR_CODE _ _ e \<Rightarrow> Some e | PAIRING_CODE _ e \<Rightarrow> Some e | EMBEDDED_SIGNUP _ e \<Rightarrow> Some e
     | REDIRECT _ e \<Rightarrow> Some e | NONE _ \<Rightarrow> None)"

section \<open>Operations\<close>

definition decrypt :: "challenge_options \<Rightarrow> challenge_row \<Rightarrow> binding \<Rightarrow> js_error + connection_action" where
  "decrypt cs r b = (if ch_algorithm r \<noteq> ALGORITHM then Inl ChallengeStoreError
     else case cs_open cs (cs_key cs) (ch_nonce r) (additionalData b) (ch_ciphertext r) (ch_authTag r) of
       None \<Rightarrow> Inl ChallengeStoreError
     | Some (NONE _) \<Rightarrow> Inl ChallengeStoreError
     | Some a \<Rightarrow> Inr a)"

text \<open>\<open>issuedAt\<close> in milliseconds; \<open>fresh\<close> and \<open>nonce\<close> are the identifier and the random bytes drawn.\<close>

definition store_challenge ::
  "challenge_options \<Rightarrow> int \<Rightarrow> string \<Rightarrow> string \<Rightarrow> binding \<Rightarrow> connection_action \<Rightarrow> (challenge_table, string) tx" where
  "store_challenge cs issuedAt fresh nonce b a t =
    (case Option.bind (expires_of a) (cs_parseDate cs) of
       None \<Rightarrow> Inl ChallengeStoreError
     | Some providerExpiry \<Rightarrow>
        (let expiresAt = min providerExpiry (issuedAt + cs_ttlMs cs);
             (ct, tag) = cs_seal cs (cs_key cs) nonce (additionalData b) a
         in if expiresAt \<le> issuedAt then Inl ChallengeStoreError
            else if list_ex (\<lambda>r. ch_id r = fresh) t then Inl (DatabaseError ''23505'' ''connection_challenges_pkey'')
            else Inr (fresh, t @ [\<lparr>ch_id = fresh, ch_org = bi_org b, ch_instance = bi_instance b,
              ch_operation = bi_operation b, ch_algorithm = ALGORITHM, ch_ciphertext = ct, ch_nonce = nonce,
              ch_authTag = tag, ch_expires = db_us expiresAt, ch_consumed = None\<rparr>])))"

definition open_challenge :: "binding \<Rightarrow> string \<Rightarrow> challenge_row \<Rightarrow> bool" where
  "open_challenge b cid r \<longleftrightarrow> ch_org r = bi_org b \<and> ch_instance r = bi_instance b \<and> ch_operation r = bi_operation b
     \<and> ch_id r = cid \<and> ch_consumed r = None"

definition consume_challenge ::
  "challenge_options \<Rightarrow> int \<Rightarrow> binding \<Rightarrow> string \<Rightarrow> (challenge_table, connection_action option) tx" where
  "consume_challenge cs consumedAt b cid t =
    (let live = (\<lambda>r. open_challenge b cid r \<and> ch_expires r > db_us consumedAt);
         dead = (\<lambda>r. open_challenge b cid r \<and> ch_expires r \<le> db_us consumedAt);
         t' = update_rows live (\<lambda>r. r\<lparr>ch_consumed := Some (db_us consumedAt)\<rparr>) (filter (\<lambda>r. \<not> dead r) t)
     in case find live t of
          None \<Rightarrow> Inr (None, t')
        | Some r \<Rightarrow> (case decrypt cs r b of Inl e \<Rightarrow> Inl e | Inr a \<Rightarrow> Inr (Some a, t')))"

section \<open>Once only\<close>

text \<open>A challenge that was handed out: its row, if any, is consumed.\<close>

definition spent :: "string \<Rightarrow> challenge_table \<Rightarrow> bool" where
  "spent cid t \<longleftrightarrow> list_ex (\<lambda>r. ch_id r = cid) t \<and> list_all (\<lambda>r. ch_id r = cid \<longrightarrow> ch_consumed r \<noteq> None) t"

inductive challenge_step :: "challenge_options \<Rightarrow> challenge_table \<Rightarrow> challenge_table \<Rightarrow> bool" for cs where
  "store_challenge cs issuedAt fresh nonce b a t = Inr (cid, t') \<Longrightarrow> challenge_step cs t t'"
| "consume_challenge cs consumedAt b cid t = Inr (res, t') \<Longrightarrow> challenge_step cs t t'"

lemma open_not_spent: "spent cid t \<Longrightarrow> r \<in> set t \<Longrightarrow> \<not> open_challenge b cid r"
  by (auto simp: spent_def list_all_iff open_challenge_def)

lemma spent_consume: "spent cid t \<Longrightarrow> consume_challenge cs ms b cid t = Inr (None, t)"
proof -
  assume sp: "spent cid t"
  let ?live = "\<lambda>r. open_challenge b cid r \<and> ch_expires r > db_us ms"
  have "find ?live t = None" using open_not_spent [OF sp] by (auto simp: find_None_iff)
  moreover have "filter (\<lambda>r. \<not> (open_challenge b cid r \<and> ch_expires r \<le> db_us ms)) t = t"
    using open_not_spent [OF sp] by (auto simp: filter_id_conv)
  moreover have "update_rows ?live f t = t" for f
    by (rule update_rows_none) (use open_not_spent [OF sp] in auto)
  ultimately show ?thesis by (simp add: consume_challenge_def Let_def)
qed

lemma challenge_step_spent:
  assumes "challenge_step cs t t'" and "spent cid t"
  shows "spent cid t'"
  using assms(1)
proof cases
  case (1 issuedAt fresh nonce b a c)
  then obtain row where "t' = t @ [row]" "\<forall>r \<in> set t. ch_id r \<noteq> ch_id row"
    by (auto simp: store_challenge_def Let_def list_ex_iff split: option.splits prod.splits if_splits)
  then show ?thesis using assms(2) by (auto simp: spent_def list_ex_iff list_all_iff)
next
  case (2 ms b c res)
  let ?live = "\<lambda>r. open_challenge b c r \<and> ch_expires r > db_us ms"
  let ?dead = "\<lambda>r. open_challenge b c r \<and> ch_expires r \<le> db_us ms"
  have t': "t' = update_rows ?live (\<lambda>r. r\<lparr>ch_consumed := Some (db_us ms)\<rparr>) (filter (\<lambda>r. \<not> ?dead r) t)"
    using 2 by (auto simp: consume_challenge_def Let_def split: option.splits sum.splits)
  from assms(2) obtain r where r: "r \<in> set t" "ch_id r = cid" "ch_consumed r \<noteq> None"
    by (auto simp: spent_def list_ex_iff list_all_iff)
  then have "\<not> open_challenge b c r" by (simp add: open_challenge_def)
  then have "r \<in> set t'" using r(1) by (auto simp: t' update_rows_def)
  moreover have "ch_consumed q \<noteq> None" if "q \<in> set t'" "ch_id q = cid" for q
    using that assms(2) by (auto simp: t' update_rows_def spent_def list_all_iff)
  ultimately show ?thesis using r(2) by (auto simp: spent_def list_ex_iff list_all_iff)
qed

lemma consumed_is_spent:
  assumes "consume_challenge cs ms b cid t = Inr (Some a, t')" and "distinct (map ch_id t)"
  shows "spent cid t'"
proof -
  let ?live = "\<lambda>r. open_challenge b cid r \<and> ch_expires r > db_us ms"
  let ?dead = "\<lambda>r. open_challenge b cid r \<and> ch_expires r \<le> db_us ms"
  let ?f = "\<lambda>r. r\<lparr>ch_consumed := Some (db_us ms)\<rparr>"
  obtain r where r: "find ?live t = Some r"
    and t': "t' = update_rows ?live ?f (filter (\<lambda>r. \<not> ?dead r) t)"
    using assms(1) by (auto simp: consume_challenge_def Let_def split: option.splits sum.splits)
  note r' = find_mem [OF r]
  have "?f r \<in> set t'" using r' by (auto simp: t' update_rows_def)
  moreover have "ch_consumed q \<noteq> None" if "q \<in> set t'" "ch_id q = cid" for q
  proof -
    have "q' = r" if "q' \<in> set t" "ch_id q' = cid" for q'
      using that r' assms(2) by (auto simp: distinct_map open_challenge_def dest: inj_onD)
    then show ?thesis using that r' by (auto simp: t' update_rows_def)
  qed
  moreover have "ch_id (?f r) = cid" using r' by (simp add: open_challenge_def)
  ultimately show ?thesis unfolding spent_def list_ex_iff list_all_iff by blast
qed

text \<open>
  C33: a challenge is handed out at most once. After a challenge has been consumed, whatever
  challenges are stored and consumed in between, consuming it again, under any binding and at any
  time, gives nothing and changes nothing.
\<close>

theorem challenge_handed_out_once:
  assumes "consume_challenge cs ms b cid t = Inr (Some a, t1)" and "distinct (map ch_id t)"
    and "(challenge_step cs)\<^sup>*\<^sup>* t1 t2"
  shows "consume_challenge cs ms' b' cid t2 = Inr (None, t2)"
proof -
  from assms(3) have "spent cid t2"
    by (induction rule: rtranclp_induct) (use consumed_is_spent [OF assms(1,2)] challenge_step_spent in auto)
  then show ?thesis by (rule spent_consume)
qed

text \<open>
  A stored challenge opens for its own binding, before its expiry, with the action that was
  stored; for another binding there is nothing, and nothing changes; from its expiry on (at the
  latest \<open>cs_ttlMs\<close> after it was issued, and never after the provider's own expiry) it is dropped.
\<close>

theorem challenge_opens_for_its_binding:
  assumes "store_challenge cs issuedAt fresh nonce b a t = Inr (cid, t1)"
    and "cs_open cs (cs_key cs) nonce (additionalData b) (fst (cs_seal cs (cs_key cs) nonce (additionalData b) a))
      (snd (cs_seal cs (cs_key cs) nonce (additionalData b) a)) = Some a"
  shows "\<exists>expiry providerExpiry. Option.bind (expires_of a) (cs_parseDate cs) = Some providerExpiry
    \<and> issuedAt < expiry \<and> expiry \<le> issuedAt + cs_ttlMs cs \<and> expiry \<le> providerExpiry
    \<and> (ms < expiry \<longrightarrow> (\<exists>t2. consume_challenge cs ms b cid t1 = Inr (Some a, t2)))
    \<and> (expiry \<le> ms \<longrightarrow> consume_challenge cs ms b cid t1 = Inr (None, t))
    \<and> (b' \<noteq> b \<longrightarrow> consume_challenge cs ms b' cid t1 = Inr (None, t1))"
proof -
  obtain pe where pe: "Option.bind (expires_of a) (cs_parseDate cs) = Some pe"
    using assms(1) by (auto simp: store_challenge_def split: option.splits)
  obtain ct tag where sealed: "cs_seal cs (cs_key cs) nonce (additionalData b) a = (ct, tag)" by fastforce
  define e where "e = min pe (issuedAt + cs_ttlMs cs)"
  define row where "row = \<lparr>ch_id = fresh, ch_org = bi_org b, ch_instance = bi_instance b,
    ch_operation = bi_operation b, ch_algorithm = ALGORITHM, ch_ciphertext = ct, ch_nonce = nonce,
    ch_authTag = tag, ch_expires = db_us e, ch_consumed = None\<rparr>"
  have st: "issuedAt < e" "cid = fresh" "t1 = t @ [row]" "\<forall>r \<in> set t. ch_id r \<noteq> fresh"
    using assms(1) pe sealed
    by (auto simp: store_challenge_def Let_def e_def row_def list_ex_iff split: if_splits)
  have others: "\<not> open_challenge x fresh r" if "r \<in> set t" for x r
    using st(4) that by (auto simp: open_challenge_def)
  have own: "open_challenge x fresh row \<longleftrightarrow> x = b" for x
    by (cases x, cases b) (auto simp: open_challenge_def row_def)
  have find_app: "find p (t @ [row]) = (if p row then Some row else None)" if "\<forall>r \<in> set t. \<not> p r" for p
    using that by (induction t) auto
  have "case a of NONE _ \<Rightarrow> False | _ \<Rightarrow> True"
    using pe by (cases a) (auto simp: expires_of_def)
  then have dec: "decrypt cs row b = Inr a"
    using assms(2) sealed by (cases a) (auto simp: decrypt_def row_def)
  have consume: "consume_challenge cs ms x fresh t1 =
      (if x = b \<and> ms < e then Inr (Some a, t @ [row\<lparr>ch_consumed := Some (db_us ms)\<rparr>])
       else if x = b then Inr (None, t) else Inr (None, t1))" for x
  proof -
    let ?live = "\<lambda>r. open_challenge x fresh r \<and> ch_expires r > db_us ms"
    let ?dead = "\<lambda>r. open_challenge x fresh r \<and> ch_expires r \<le> db_us ms"
    have "filter (\<lambda>r. \<not> ?dead r) t = t" using others by (auto simp: filter_id_conv)
    moreover have "update_rows ?live f t = t" for f
      by (rule update_rows_none) (use others in auto)
    moreover have "find ?live (t @ [row]) = (if ?live row then Some row else None)"
      by (rule find_app) (use others in auto)
    moreover have "ch_expires row > db_us ms \<longleftrightarrow> ms < e" by (simp add: row_def db_us_def)
    ultimately show ?thesis
      using own [of x] dec unfolding consume_challenge_def Let_def st(3)
      by (cases "x = b") (simp_all add: update_rows_append not_less [symmetric])
  qed
  show ?thesis
    using st(1) by (intro exI [of _ e] exI [of _ pe]) (auto simp: pe e_def consume st(2))
qed

section \<open>A run\<close>

definition demo_action :: connection_action where
  "demo_action = PAIRING_CODE ''ABCD'' ''later''"

definition demo_options :: challenge_options where
  "demo_options = \<lparr>cs_key = ''k'', cs_ttlMs = DEFAULT_TTL_MS, cs_seal = (\<lambda>_ _ aad _. (''sealed'', aad)),
     cs_open = (\<lambda>_ _ aad ct tag. if ct = ''sealed'' \<and> tag = aad then Some demo_action else None),
     cs_parseDate = (\<lambda>_. Some 90000)\<rparr>"

definition demo_binding :: binding where
  "demo_binding = \<lparr>bi_org = ''o'', bi_instance = ''i'', bi_operation = ''p''\<rparr>"

definition demo_stored :: challenge_table where
  "demo_stored = (case store_challenge demo_options 1000 ''c'' ''n'' demo_binding demo_action [] of Inr (_, t) \<Rightarrow> t | _ \<Rightarrow> [])"

lemma demo_store: "store_challenge demo_options 1000 ''c'' ''n'' demo_binding demo_action [] = Inr (''c'', demo_stored)"
  by code_simp

theorem challenge_opens_for_its_binding_witness:
  "\<exists>t2. consume_challenge demo_options 2000 demo_binding ''c'' demo_stored = Inr (Some demo_action, t2)"
proof -
  have "1000 + cs_ttlMs demo_options = 61000" by code_simp
  moreover have "cs_open demo_options (cs_key demo_options) ''n'' (additionalData demo_binding)
      (fst (cs_seal demo_options (cs_key demo_options) ''n'' (additionalData demo_binding) demo_action))
      (snd (cs_seal demo_options (cs_key demo_options) ''n'' (additionalData demo_binding) demo_action)) = Some demo_action"
    by code_simp
  ultimately obtain e :: int where e: "1000 < e" "e \<le> 61000"
    "2000 < e \<longrightarrow> (\<exists>t2. consume_challenge demo_options 2000 demo_binding ''c'' demo_stored = Inr (Some demo_action, t2))"
    "e \<le> 2000 \<longrightarrow> consume_challenge demo_options 2000 demo_binding ''c'' demo_stored = Inr (None, [])"
    using challenge_opens_for_its_binding [OF demo_store, of 2000 demo_binding] by auto
  moreover have "consume_challenge demo_options 2000 demo_binding ''c'' demo_stored \<noteq> Inr (None, [])" by code_simp
  ultimately show ?thesis by force
qed

theorem challenge_handed_out_once_witness:
  "\<exists>t1. consume_challenge demo_options 3000 demo_binding ''c'' t1 = Inr (None, t1)"
proof -
  have "case consume_challenge demo_options 2000 demo_binding ''c'' demo_stored of Inr (Some _, _) \<Rightarrow> True | _ \<Rightarrow> False"
    by code_simp
  then obtain a t1 where c: "consume_challenge demo_options 2000 demo_binding ''c'' demo_stored = Inr (Some a, t1)"
    by (auto split: sum.splits prod.splits option.splits)
  have d: "distinct (map ch_id demo_stored)" by code_simp
  show ?thesis using challenge_handed_out_once [OF c d rtranclp.rtrancl_refl] by blast
qed

end
