(* ===== verification/Rate_Limit.thy ===== *)
theory Rate_Limit
  imports Prelude
begin

text \<open>
  The rate limiter of apps/api/src/modules/auth/rate-limit: the in-memory store of the tests, the
  Redis store of production with its Lua script, and the equivalence of the two. Redis is a map
  from keys to a value with an optional deadline; \<open>rd_gone\<close>, when a key with a deadline counts
  as expired, is a parameter, since Redis documents it only to the millisecond.
\<close>

section \<open>Arguments\<close>

record decision =
  de_allowed :: bool
  de_count :: int
  de_remaining :: int
  de_retryAfterMs :: int
  de_released :: bool

definition RELEASE_MARKER_TTL_MULTIPLIER :: int where "RELEASE_MARKER_TTL_MULTIPLIER = 3"

definition releaseMarkerTtlMs :: "int \<Rightarrow> int" where
  "releaseMarkerTtlMs ttlMs = ttlMs * RELEASE_MARKER_TTL_MULTIPLIER"

definition lower_hex :: "char \<Rightarrow> bool" where
  "lower_hex c \<longleftrightarrow> digit_char c \<or> (CHR ''a'' \<le> c \<and> c \<le> CHR ''f'')"

definition safe_digest :: "string \<Rightarrow> string \<Rightarrow> bool" where
  "safe_digest scope key \<longleftrightarrow> take (length scope) key = scope \<and> length key = length scope + 64
     \<and> list_all lower_hex (drop (length scope) key)"

definition assertSafeRateLimitKey :: "string \<Rightarrow> js_error option" where
  "assertSafeRateLimitKey key = (if safe_digest ''ip:'' key \<or> safe_digest ''identity:'' key then None
     else Some (PlainError ''Rate-limit key must contain only a scoped HMAC digest''))"

definition MAX_SAFE_INTEGER :: int where "MAX_SAFE_INTEGER = 9007199254740991"

definition assertRateLimitArguments :: "int \<Rightarrow> int \<Rightarrow> js_error option" where
  "assertRateLimitArguments limit ttlMs =
    (if \<bar>limit\<bar> > MAX_SAFE_INTEGER \<or> limit \<le> 0 \<or> \<bar>ttlMs\<bar> > MAX_SAFE_INTEGER \<or> ttlMs \<le> 0
     then Some (PlainError ''Rate-limit limit and TTL must be positive integers'') else None)"

section \<open>The memory store\<close>

record memory_store =
  me_entries :: "string \<Rightarrow> (int \<times> int) option"
  me_blocked :: "string \<Rightarrow> int option"

definition memory_window :: "int \<Rightarrow> string \<Rightarrow> int \<Rightarrow> int \<Rightarrow> memory_store \<Rightarrow> decision \<times> memory_store" where
  "memory_window now key limit ttlMs m =
    (let existing = me_entries m key;
         blocked1 = (case me_blocked m key of Some b \<Rightarrow> if b \<le> now then (me_blocked m)(key := None) else me_blocked m
                     | None \<Rightarrow> me_blocked m);
         begins = (case existing of None \<Rightarrow> True | Some (_, e) \<Rightarrow> e \<le> now);
         (count0, expiresAt) = (case existing of None \<Rightarrow> (0, now + ttlMs)
            | Some (c, e) \<Rightarrow> if e \<le> now then (0, now + ttlMs) else (c, e));
         count = count0 + 1;
         allowed = (count \<le> limit);
         released = (allowed \<and> begins \<and> blocked1 key \<noteq> None);
         blocked2 = (if allowed \<and> begins then blocked1(key := None) else blocked1);
         blocked3 = (if \<not> allowed then blocked2(key \<mapsto> now + releaseMarkerTtlMs ttlMs) else blocked2)
     in (\<lparr>de_allowed = allowed, de_count = count, de_remaining = max 0 (limit - count),
          de_retryAfterMs = max 1 (expiresAt - now), de_released = released\<rparr>,
         \<lparr>me_entries = (me_entries m)(key \<mapsto> (count, expiresAt)), me_blocked = blocked3\<rparr>))"

definition memory_consume :: "int \<Rightarrow> string \<Rightarrow> int \<Rightarrow> int \<Rightarrow> memory_store \<Rightarrow> (js_error + decision) \<times> memory_store" where
  "memory_consume now key limit ttlMs m =
    (case assertSafeRateLimitKey key of Some e \<Rightarrow> (Inl e, m) | None \<Rightarrow>
    (case assertRateLimitArguments limit ttlMs of Some e \<Rightarrow> (Inl e, m) | None \<Rightarrow>
      (let (d, m') = memory_window now key limit ttlMs m in (Inr d, m'))))"

section \<open>The Redis store\<close>

text \<open>A key holds an integer (the marker's value \<open>1\<close> included) and perhaps a deadline.\<close>

type_synonym redis = "string \<Rightarrow> (int \<times> int option) option"

type_synonym gone = "int \<Rightarrow> int \<Rightarrow> bool"

definition redis_get :: "gone \<Rightarrow> int \<Rightarrow> redis \<Rightarrow> string \<Rightarrow> (int \<times> int option) option" where
  "redis_get gone now r k = (case r k of Some (v, Some e) \<Rightarrow> if gone now e then None else Some (v, Some e) | x \<Rightarrow> x)"

definition redis_incr :: "gone \<Rightarrow> int \<Rightarrow> string \<Rightarrow> redis \<Rightarrow> int \<times> redis" where
  "redis_incr gone now k r = (case redis_get gone now r k of None \<Rightarrow> (1, r(k \<mapsto> (1, None)))
     | Some (v, e) \<Rightarrow> (v + 1, r(k \<mapsto> (v + 1, e))))"

definition redis_pexpire :: "gone \<Rightarrow> int \<Rightarrow> string \<Rightarrow> int \<Rightarrow> redis \<Rightarrow> redis" where
  "redis_pexpire gone now k ms r = (case redis_get gone now r k of None \<Rightarrow> r | Some (v, _) \<Rightarrow> r(k \<mapsto> (v, Some (now + ms))))"

definition redis_del :: "gone \<Rightarrow> int \<Rightarrow> string \<Rightarrow> redis \<Rightarrow> int \<times> redis" where
  "redis_del gone now k r = ((if redis_get gone now r k = None then 0 else 1), r(k := None))"

definition redis_pttl :: "gone \<Rightarrow> int \<Rightarrow> string \<Rightarrow> redis \<Rightarrow> int" where
  "redis_pttl gone now k r = (case redis_get gone now r k of None \<Rightarrow> -2 | Some (_, None) \<Rightarrow> -1 | Some (_, Some e) \<Rightarrow> e - now)"

definition redis_psetex :: "int \<Rightarrow> string \<Rightarrow> int \<Rightarrow> redis \<Rightarrow> redis" where
  "redis_psetex now k ms r = r(k \<mapsto> (1, Some (now + ms)))"

text \<open>The script, with its keys and arguments; the clock of a script stands still.\<close>

definition CONSUME_SCRIPT :: "gone \<Rightarrow> int \<Rightarrow> string \<Rightarrow> string \<Rightarrow> int \<Rightarrow> int \<Rightarrow> int \<Rightarrow> redis \<Rightarrow> (int \<times> int \<times> int) \<times> redis" where
  "CONSUME_SCRIPT gone now key1 key2 argv1 argv2 argv3 r =
    (let (current, r1) = redis_incr gone now key1 r;
         (released, r2) = (if current = 1 then redis_del gone now key2 (redis_pexpire gone now key1 argv1 r1) else (0, r1));
         ttl0 = redis_pttl gone now key1 r2;
         r3 = (if ttl0 < 1 then redis_pexpire gone now key1 argv1 r2 else r2);
         ttl = (if ttl0 < 1 then argv1 else ttl0);
         r4 = (if current > argv2 then redis_psetex now key2 argv3 r3 else r3)
     in ((current, ttl, released), r4))"

definition redis_decision :: "int \<Rightarrow> int \<times> int \<times> int \<Rightarrow> js_error + decision" where
  "redis_decision limit answer = (case answer of (count, retryAfterMs, released) \<Rightarrow>
     if \<bar>count\<bar> > MAX_SAFE_INTEGER \<or> count \<le> 0 \<or> \<bar>retryAfterMs\<bar> > MAX_SAFE_INTEGER
     then Inl (PlainError ''Rate-limit store temporarily unavailable'')
     else Inr \<lparr>de_allowed = (count \<le> limit), de_count = count, de_remaining = max 0 (limit - count),
       de_retryAfterMs = max 1 retryAfterMs, de_released = (released = 1)\<rparr>)"

text \<open>\<open>reachable\<close>: whether the script answered within the deadline.\<close>

definition redis_consume ::
  "gone \<Rightarrow> string \<Rightarrow> bool \<Rightarrow> int \<Rightarrow> string \<Rightarrow> int \<Rightarrow> int \<Rightarrow> redis \<Rightarrow> (js_error + decision) \<times> redis" where
  "redis_consume gone prefix answered now key limit ttlMs r =
    (case assertSafeRateLimitKey key of Some e \<Rightarrow> (Inl e, r) | None \<Rightarrow>
    (case assertRateLimitArguments limit ttlMs of Some e \<Rightarrow> (Inl e, r) | None \<Rightarrow>
      (let (answer, r') = CONSUME_SCRIPT gone now (prefix @ key) (prefix @ key @ '':blocked'') ttlMs limit (releaseMarkerTtlMs ttlMs) r
       in (if answered then redis_decision limit answer else Inl (PlainError ''Rate-limit store temporarily unavailable''), r'))))"

section \<open>The two stores agree\<close>

lemma safe_length: "assertSafeRateLimitKey k = None \<Longrightarrow> length k = 67 \<or> length k = 73"
  by (auto simp: assertSafeRateLimitKey_def safe_digest_def split: if_splits)

lemma marker_keys:
  assumes "assertSafeRateLimitKey k = None" and "assertSafeRateLimitKey k' = None"
  shows "prefix @ k \<noteq> prefix @ k' @ '':blocked''" and "prefix @ k' @ '':blocked'' \<noteq> prefix @ k"
proof -
  have "length k \<noteq> length (k' @ '':blocked'')"
    using safe_length [OF assms(1)] safe_length [OF assms(2)] by auto
  then show "prefix @ k \<noteq> prefix @ k' @ '':blocked''" by (metis same_append_eq)
  then show "prefix @ k' @ '':blocked'' \<noteq> prefix @ k" by metis
qed

text \<open>
  The correspondence at a time: the same windows; a marker the memory store has dropped is at
  most an expired one in Redis. \<open>n\<close> bounds the counters.
\<close>

definition same_key :: "int \<Rightarrow> nat \<Rightarrow> (int \<times> int) option \<Rightarrow> int option \<Rightarrow> (int \<times> int option) option \<Rightarrow> (int \<times> int option) option \<Rightarrow> bool" where
  "same_key clock n window blocked rc rb \<longleftrightarrow> rc = map_option (\<lambda>(c, e). (c, Some e)) window
     \<and> (case window of None \<Rightarrow> True | Some (c, e) \<Rightarrow> 0 < c \<and> c \<le> int n \<and> e \<le> clock + MAX_SAFE_INTEGER)
     \<and> (case blocked of Some b \<Rightarrow> rb = Some (1, Some b)
        | None \<Rightarrow> (case rb of None \<Rightarrow> True | Some (_, Some b) \<Rightarrow> b \<le> clock | Some (_, None) \<Rightarrow> False))"

definition same_store :: "string \<Rightarrow> int \<Rightarrow> nat \<Rightarrow> memory_store \<Rightarrow> redis \<Rightarrow> bool" where
  "same_store prefix clock n m r \<longleftrightarrow> (\<forall>k. assertSafeRateLimitKey k = None \<longrightarrow>
     same_key clock n (me_entries m k) (me_blocked m k) (r (prefix @ k)) (r (prefix @ k @ '':blocked'')))"

lemma same_key_later: "same_key clock n w b rc rb \<Longrightarrow> clock \<le> now \<Longrightarrow> same_key now (Suc n) w b rc rb"
  unfolding same_key_def by (cases w; cases b; cases rb) (auto split: option.splits)

text \<open>What the code relies on of Redis: a key is there before its deadline and gone after it.\<close>

definition keeps_deadlines :: "gone \<Rightarrow> bool" where
  "keeps_deadlines gone \<longleftrightarrow> (\<forall>now e. now < e \<longrightarrow> \<not> gone now e) \<and> (\<forall>now e. e < now \<longrightarrow> gone now e)"

definition at_deadline :: "int \<Rightarrow> (int \<times> int option) option \<Rightarrow> bool" where
  "at_deadline now cell = (case cell of Some (_, Some e) \<Rightarrow> e = now | _ \<Rightarrow> False)"

definition off_boundary :: "int \<Rightarrow> string \<Rightarrow> string \<Rightarrow> redis \<Rightarrow> bool" where
  "off_boundary now K B r \<longleftrightarrow> \<not> at_deadline now (r K) \<and> \<not> at_deadline now (r B)"

text \<open>The script in its two cases: a window that begins, and one that goes on.\<close>

lemma script_begins:
  assumes "keeps_deadlines gone" and "K \<noteq> B" and "0 < ttl" and "1 \<le> limit" and "redis_get gone now r K = None"
  shows "CONSUME_SCRIPT gone now K B ttl limit mark r
    = ((1, ttl, if redis_get gone now r B = None then 0 else 1), r(K \<mapsto> (1, Some (now + ttl)), B := None))"
proof -
  have alive: "\<not> gone now (now + ttl)" using assms(1,3) by (simp add: keeps_deadlines_def)
  have incr: "redis_incr gone now K r = (1, r(K \<mapsto> (1, None)))"
    using assms(5) by (simp add: redis_incr_def)
  have pex: "redis_pexpire gone now K ttl (r(K \<mapsto> (1, None))) = r(K \<mapsto> (1, Some (now + ttl)))"
    by (simp add: redis_pexpire_def redis_get_def)
  have del: "redis_del gone now B (r(K \<mapsto> (1, Some (now + ttl))))
      = (if redis_get gone now r B = None then 0 else 1, r(K \<mapsto> (1, Some (now + ttl)), B := None))"
    using assms(2) by (simp add: redis_del_def redis_get_def)
  have pttl: "redis_pttl gone now K (r(K \<mapsto> (1, Some (now + ttl)), B := None)) = ttl"
    using assms(2) alive by (simp add: redis_pttl_def redis_get_def)
  show ?thesis
    using assms(3,4) by (simp add: CONSUME_SCRIPT_def incr pex del pttl Let_def)
qed

lemma script_goes_on:
  assumes "keeps_deadlines gone" and "now < e" and "0 < c" and "r K = Some (c, Some e)"
  shows "CONSUME_SCRIPT gone now K B ttl limit mark r
    = ((c + 1, e - now, 0), if c + 1 > limit then r(K \<mapsto> (c + 1, Some e), B \<mapsto> (1, Some (now + mark))) else r(K \<mapsto> (c + 1, Some e)))"
proof -
  have alive: "\<not> gone now e" using assms(1,2) by (simp add: keeps_deadlines_def)
  have incr: "redis_incr gone now K r = (c + 1, r(K \<mapsto> (c + 1, Some e)))"
    using assms(4) alive by (simp add: redis_incr_def redis_get_def)
  have pttl: "redis_pttl gone now K (r(K \<mapsto> (c + 1, Some e))) = e - now"
    using alive by (simp add: redis_pttl_def redis_get_def)
  show ?thesis
    using assms(2,3) by (simp add: CONSUME_SCRIPT_def incr pttl redis_psetex_def Let_def)
qed

text \<open>One key: the decision and the two cells afterwards.\<close>

lemma key_agrees:
  assumes gone: "keeps_deadlines gone" and KB: "K \<noteq> B"
    and same: "same_key clock n (me_entries m key) (me_blocked m key) (r K) (r B)"
    and clock: "clock \<le> now" and off: "off_boundary now K B r" and n: "int n < MAX_SAFE_INTEGER"
    and args: "assertRateLimitArguments limit ttl = None"
  defines "out \<equiv> CONSUME_SCRIPT gone now K B ttl limit (releaseMarkerTtlMs ttl) r" and "mem \<equiv> memory_window now key limit ttl m"
  shows "redis_decision limit (fst out) = Inr (fst mem)
    \<and> same_key now (Suc n) (me_entries (snd mem) key) (me_blocked (snd mem) key) (snd out K) (snd out B)"
proof -
  have a: "1 \<le> limit" "0 < ttl" "ttl \<le> MAX_SAFE_INTEGER"
    using args by (auto simp: assertRateLimitArguments_def split: if_splits)
  have big: "(1 :: int) \<le> MAX_SAFE_INTEGER" by (simp add: MAX_SAFE_INTEGER_def)
  have rc: "r K = map_option (\<lambda>(c, e). (c, Some e)) (me_entries m key)"
    using same by (simp add: same_key_def)
  have getB: "redis_get gone now r B = None \<longleftrightarrow> (case me_blocked m key of None \<Rightarrow> True | Some b \<Rightarrow> b \<le> now)"
  proof (cases "me_blocked m key")
    case None
    then show ?thesis using same clock off gone
      by (cases "r B") (auto simp: same_key_def redis_get_def keeps_deadlines_def off_boundary_def at_deadline_def order.order_iff_strict
        split: option.splits prod.splits)
  next
    case (Some b)
    then have rB: "r B = Some (1, Some b)" using same by (simp add: same_key_def)
    then have "b \<noteq> now" using off by (auto simp: off_boundary_def at_deadline_def)
    then have "gone now b \<longleftrightarrow> b \<le> now" using gone unfolding keeps_deadlines_def by (metis linorder_neqE order.strict_iff_order leD)
    then show ?thesis using Some rB by (simp add: redis_get_def)
  qed
  show ?thesis
  proof (cases "\<exists>c e. me_entries m key = Some (c, e) \<and> now < e")
    case True
    then obtain c e where w: "me_entries m key = Some (c, e)" "now < e" by blast
    then have ce: "r K = Some (c, Some e)" "0 < c" "c \<le> int n" "e \<le> clock + MAX_SAFE_INTEGER"
      using same by (simp_all add: same_key_def)
    have out: "out = ((c + 1, e - now, 0), if c + 1 > limit then r(K \<mapsto> (c + 1, Some e), B \<mapsto> (1, Some (now + releaseMarkerTtlMs ttl)))
        else r(K \<mapsto> (c + 1, Some e)))"
      unfolding out_def by (rule script_goes_on [where r = r and K = K, OF gone w(2) ce(2) ce(1)])
    have "redis_decision limit (c + 1, e - now, 0) = Inr (fst mem)"
      using w ce n clock by (simp add: redis_decision_def mem_def memory_window_def Let_def)
    moreover have "same_key now (Suc n) (me_entries (snd mem) key) (me_blocked (snd mem) key) (snd out K) (snd out B)"
      using w ce KB clock same unfolding out mem_def
      by (auto simp: memory_window_def Let_def same_key_def split: option.splits)
    ultimately show ?thesis by (simp add: out)
  next
    case False
    have get: "redis_get gone now r K = None"
    proof (cases "me_entries m key")
      case (Some w)
      then obtain c e where w: "me_entries m key = Some (c, e)" by (cases w) auto
      then have rK: "r K = Some (c, Some e)" using rc by simp
      then have "e \<noteq> now" using off by (auto simp: off_boundary_def at_deadline_def)
      then have "gone now e" using False w gone by (auto simp: keeps_deadlines_def)
      then show ?thesis using rK by (simp add: redis_get_def)
    qed (simp add: rc redis_get_def)
    have out: "out = ((1, ttl, if redis_get gone now r B = None then 0 else 1), r(K \<mapsto> (1, Some (now + ttl)), B := None))"
      unfolding out_def by (rule script_begins [OF gone KB a(2,1) get])
    have mem: "mem = (\<lparr>de_allowed = True, de_count = 1, de_remaining = max 0 (limit - 1), de_retryAfterMs = max 1 ttl,
        de_released = (case me_blocked m key of None \<Rightarrow> False | Some b \<Rightarrow> \<not> b \<le> now)\<rparr>,
        \<lparr>me_entries = (me_entries m)(key \<mapsto> (1, now + ttl)), me_blocked = (me_blocked m)(key := None)\<rparr>)"
      using False a(1) unfolding mem_def memory_window_def Let_def
      by (cases "me_entries m key"; cases "me_blocked m key") auto
    show ?thesis
      using KB a n big unfolding out mem
      by (auto simp: redis_decision_def same_key_def getB split: option.splits)
  qed
qed

lemma script_other_keys:
  assumes "x \<noteq> K" and "x \<noteq> B"
  shows "snd (CONSUME_SCRIPT gone now K B ttl limit mark r) x = r x"
  using assms by (auto simp: CONSUME_SCRIPT_def Let_def redis_incr_def redis_pexpire_def redis_del_def redis_psetex_def
    split: option.splits prod.splits if_splits)

lemma consume_agrees:
  assumes gone: "keeps_deadlines gone" and same: "same_store prefix clock n m r"
    and clock: "clock \<le> now" and off: "off_boundary now (prefix @ key) (prefix @ key @ '':blocked'') r" and n: "int n < MAX_SAFE_INTEGER"
  shows "fst (redis_consume gone prefix True now key limit ttlMs r) = fst (memory_consume now key limit ttlMs m)
    \<and> same_store prefix now (Suc n) (snd (memory_consume now key limit ttlMs m)) (snd (redis_consume gone prefix True now key limit ttlMs r))"
proof (cases "assertSafeRateLimitKey key = None \<and> assertRateLimitArguments limit ttlMs = None")
  case False
  have "same_store prefix now (Suc n) m r"
    using same clock same_key_later unfolding same_store_def by blast
  with False show ?thesis by (auto simp: memory_consume_def redis_consume_def split: option.splits)
next
  case True
  let ?K = "prefix @ key" and ?B = "prefix @ key @ '':blocked''"
  let ?mem = "memory_window now key limit ttlMs m"
  let ?out = "CONSUME_SCRIPT gone now ?K ?B ttlMs limit (releaseMarkerTtlMs ttlMs) r"
  have KB: "?K \<noteq> ?B" by simp
  have "same_key clock n (me_entries m key) (me_blocked m key) (r ?K) (r ?B)"
    using same True by (simp add: same_store_def)
  note own = key_agrees [OF gone KB this clock off n conjunct2 [OF True]]
  have other: "same_key now (Suc n) (me_entries (snd ?mem) k) (me_blocked (snd ?mem) k) (snd ?out (prefix @ k)) (snd ?out (prefix @ k @ '':blocked''))"
    if k: "assertSafeRateLimitKey k = None" "k \<noteq> key" for k
  proof -
    have "me_entries (snd ?mem) k = me_entries m k" "me_blocked (snd ?mem) k = me_blocked m k"
      using k(2) by (auto simp: memory_window_def Let_def split: option.splits prod.splits if_splits)
    moreover have "snd ?out (prefix @ k) = r (prefix @ k)" "snd ?out (prefix @ k @ '':blocked'') = r (prefix @ k @ '':blocked'')"
      using k marker_keys(1) [OF k(1) conjunct1 [OF True]] marker_keys(2) [OF conjunct1 [OF True] k(1)]
      by (simp_all add: script_other_keys)
    ultimately show ?thesis using same k(1) same_key_later [OF _ clock] by (simp add: same_store_def)
  qed
  have "same_store prefix now (Suc n) (snd ?mem) (snd ?out)"
    unfolding same_store_def using own other by blast
  then show ?thesis
    using True own by (simp add: memory_consume_def redis_consume_def case_prod_beta)
qed

section \<open>Runs\<close>

record rate_call =
  rl_now :: int
  rl_key :: string
  rl_limit :: int
  rl_ttlMs :: int

fun memory_run :: "rate_call list \<Rightarrow> memory_store \<Rightarrow> (js_error + decision) list" where
  "memory_run [] m = []"
| "memory_run (c # cs) m = (let (d, m') = memory_consume (rl_now c) (rl_key c) (rl_limit c) (rl_ttlMs c) m in d # memory_run cs m')"

fun redis_run :: "gone \<Rightarrow> string \<Rightarrow> rate_call list \<Rightarrow> redis \<Rightarrow> (js_error + decision) list" where
  "redis_run gone prefix [] r = []"
| "redis_run gone prefix (c # cs) r =
    (let (d, r') = redis_consume gone prefix True (rl_now c) (rl_key c) (rl_limit c) (rl_ttlMs c) r in d # redis_run gone prefix cs r')"

text \<open>The times grow and no call falls on the very millisecond of a deadline.\<close>

fun well_timed :: "gone \<Rightarrow> string \<Rightarrow> int \<Rightarrow> rate_call list \<Rightarrow> redis \<Rightarrow> bool" where
  "well_timed gone prefix clock [] r \<longleftrightarrow> True"
| "well_timed gone prefix clock (c # cs) r \<longleftrightarrow> clock \<le> rl_now c \<and> off_boundary (rl_now c) (prefix @ rl_key c) (prefix @ rl_key c @ '':blocked'') r
     \<and> well_timed gone prefix (rl_now c) cs (snd (redis_consume gone prefix True (rl_now c) (rl_key c) (rl_limit c) (rl_ttlMs c) r))"

lemma runs_agree:
  assumes "keeps_deadlines gone" and "same_store prefix clock n m r" and "well_timed gone prefix clock cs r"
    and "int (n + length cs) \<le> MAX_SAFE_INTEGER"
  shows "redis_run gone prefix cs r = memory_run cs m"
  using assms(2-4)
proof (induction cs arbitrary: clock n m r)
  case (Cons c cs)
  let ?r = "redis_consume gone prefix True (rl_now c) (rl_key c) (rl_limit c) (rl_ttlMs c) r"
  let ?m = "memory_consume (rl_now c) (rl_key c) (rl_limit c) (rl_ttlMs c) m"
  have "fst ?r = fst ?m \<and> same_store prefix (rl_now c) (Suc n) (snd ?m) (snd ?r)"
    by (rule consume_agrees [OF assms(1) Cons.prems(1)]) (use Cons.prems in auto)
  moreover have "redis_run gone prefix cs (snd ?r) = memory_run cs (snd ?m)"
    if "same_store prefix (rl_now c) (Suc n) (snd ?m) (snd ?r)"
    by (rule Cons.IH [OF that]) (use Cons.prems in auto)
  ultimately show ?case by (simp add: case_prod_beta)
qed simp

text \<open>
  C27: the production store behaves as the tested one. Starting empty, for any sequence of calls
  (any keys, limits and windows, invalid ones included) whose times grow and avoid the very
  millisecond of a deadline, the Redis store with its Lua script and the memory store give the
  same decisions and the same errors: allowed or not, count, remaining, retry time and release.
\<close>

theorem redis_store_refines_memory_store:
  assumes "keeps_deadlines gone" and "well_timed gone prefix 0 calls (\<lambda>_. None)"
    and "int (length calls) \<le> MAX_SAFE_INTEGER"
  shows "redis_run gone prefix calls (\<lambda>_. None) = memory_run calls \<lparr>me_entries = (\<lambda>_. None), me_blocked = (\<lambda>_. None)\<rparr>"
  by (rule runs_agree [where n = 0 and clock = 0]) (use assms in \<open>simp_all add: same_store_def same_key_def\<close>)

definition admitted_calls :: "(js_error + decision) list \<Rightarrow> nat" where
  "admitted_calls ds = length (filter (\<lambda>d. case d of Inr x \<Rightarrow> de_allowed x | Inl _ \<Rightarrow> False) ds)"

lemma window_goes_on:
  assumes "me_entries m k = Some (c, e)" and "\<forall>x \<in> set calls. rl_key x = k \<and> rl_limit x = limit \<and> rl_now x < e"
  shows "int (admitted_calls (memory_run calls m)) \<le> max 0 (limit - c)"
  using assms
proof (induction calls arbitrary: c m)
  case (Cons x xs)
  have x: "rl_key x = k" "rl_limit x = limit" "rl_now x < e" using Cons.prems(2) by auto
  show ?case
  proof (cases "assertSafeRateLimitKey k = None \<and> assertRateLimitArguments limit (rl_ttlMs x) = None")
    case False
    then have "memory_consume (rl_now x) k limit (rl_ttlMs x) m = (fst (memory_consume (rl_now x) k limit (rl_ttlMs x) m), m)"
      "\<exists>err. fst (memory_consume (rl_now x) k limit (rl_ttlMs x) m) = Inl err"
      by (auto simp: memory_consume_def split: option.splits)
    then show ?thesis
      using Cons.IH [OF Cons.prems(1)] Cons.prems(2) x by (auto simp: admitted_calls_def case_prod_beta)
  next
    case True
    let ?w = "memory_window (rl_now x) k limit (rl_ttlMs x) m"
    have w: "me_entries (snd ?w) k = Some (c + 1, e)" "de_allowed (fst ?w) \<longleftrightarrow> c + 1 \<le> limit"
      using Cons.prems(1) x(3) by (simp_all add: memory_window_def Let_def)
    have "int (admitted_calls (memory_run xs (snd ?w))) \<le> max 0 (limit - (c + 1))"
      by (rule Cons.IH [OF w(1)]) (use Cons.prems(2) in auto)
    then show ?thesis
      using True x w(2) by (auto simp: memory_consume_def admitted_calls_def case_prod_beta max_def)
  qed
qed (simp add: admitted_calls_def)

text \<open>
  A window admits at most its limit. From a state in which a key has no live window, of all
  calls for the key before the end of the window the first one opens, at most \<open>limit\<close> are
  allowed.
\<close>

theorem window_admits_at_most_limit:
  assumes "case me_entries m k of None \<Rightarrow> True | Some (_, e) \<Rightarrow> e \<le> t"
    and "\<forall>x \<in> set (c # calls). rl_key x = k \<and> rl_limit x = limit \<and> rl_now x < t + rl_ttlMs c" and "rl_now c = t"
    and "assertSafeRateLimitKey k = None" and "assertRateLimitArguments limit (rl_ttlMs c) = None"
  shows "int (admitted_calls (memory_run (c # calls) m)) \<le> limit"
proof -
  let ?w = "memory_window t k limit (rl_ttlMs c) m"
  have c: "rl_key c = k" "rl_limit c = limit" using assms(2) by auto
  have limit: "1 \<le> limit" using assms(5) by (auto simp: assertRateLimitArguments_def split: if_splits)
  have w: "me_entries (snd ?w) k = Some (1, t + rl_ttlMs c)" "de_allowed (fst ?w) \<longleftrightarrow> 1 \<le> limit"
    using assms(1) by (auto simp: memory_window_def Let_def split: option.splits)
  have "int (admitted_calls (memory_run calls (snd ?w))) \<le> max 0 (limit - 1)"
    by (rule window_goes_on [OF w(1)]) (use assms(2) in auto)
  then show ?thesis
    using c w(2) assms(3,4,5) limit by (auto simp: memory_consume_def admitted_calls_def case_prod_beta max_def)
qed

section \<open>A run\<close>

definition demo_key :: string where
  "demo_key = ''ip:0123456789abcdef0123456789abcdef0123456789abcdef0123456789abcdef''"

definition demo_calls :: "rate_call list" where
  "demo_calls = map (\<lambda>t. \<lparr>rl_now = t, rl_key = demo_key, rl_limit = 2, rl_ttlMs = 1000\<rparr>) [10, 20, 30, 1500]"

theorem redis_store_refines_memory_store_witness:
  "map (map_sum (\<lambda>_. ()) (\<lambda>d. (de_allowed d, de_count d, de_released d)))
      (redis_run (\<lambda>now e. e \<le> now) ''jrc:'' demo_calls (\<lambda>_. None))
    = [Inr (True, 1, False), Inr (True, 2, False), Inr (False, 3, False), Inr (True, 1, True)]"
proof -
  have g: "keeps_deadlines (\<lambda>now e. e \<le> now)" by (auto simp: keeps_deadlines_def)
  have "redis_run (\<lambda>now e. e \<le> now) ''jrc:'' demo_calls (\<lambda>_. None)
      = memory_run demo_calls \<lparr>me_entries = (\<lambda>_. None), me_blocked = (\<lambda>_. None)\<rparr>"
  proof (rule redis_store_refines_memory_store [OF g])
    show "int (length demo_calls) \<le> MAX_SAFE_INTEGER" by code_simp
    show "well_timed (\<lambda>now e. e \<le> now) ''jrc:'' 0 demo_calls (\<lambda>_. None)"
      by code_simp
  qed
  moreover have "map (map_sum (\<lambda>_. ()) (\<lambda>d. (de_allowed d, de_count d, de_released d)))
      (memory_run demo_calls \<lparr>me_entries = (\<lambda>_. None), me_blocked = (\<lambda>_. None)\<rparr>)
    = [Inr (True, 1, False), Inr (True, 2, False), Inr (False, 3, False), Inr (True, 1, True)]"
    by code_simp
  ultimately show ?thesis by simp
qed

theorem window_admits_at_most_limit_witness:
  "int (admitted_calls (memory_run (take 3 demo_calls) \<lparr>me_entries = (\<lambda>_. None), me_blocked = (\<lambda>_. None)\<rparr>)) \<le> 2"
proof -
  have "take 3 demo_calls = hd demo_calls # take 2 (tl demo_calls)" by (simp add: demo_calls_def)
  moreover have "assertSafeRateLimitKey demo_key = None" "assertRateLimitArguments 2 1000 = None" by code_simp+
  ultimately show ?thesis
    using window_admits_at_most_limit [where m = "\<lparr>me_entries = (\<lambda>_. None), me_blocked = (\<lambda>_. None)\<rparr>" and k = demo_key
        and t = 10 and c = "hd demo_calls" and calls = "take 2 (tl demo_calls)" and limit = 2]
    by (simp add: demo_calls_def)
qed

end
