(* ===== verification/Effects.thy ===== *)
theory Effects
  imports Prelude
begin

text \<open>
  Services that act on the world step by step: a step answers a value or throws, and what it did
  before it threw stays done (unlike a transaction). Transactions on a part of the world are steps.
\<close>

type_synonym ('w, 'a) io = "'w \<Rightarrow> (js_error + 'a) \<times> 'w"

definition io_return :: "'a \<Rightarrow> ('w, 'a) io" where
  "io_return a w = (Inr a, w)"

definition io_throw :: "js_error \<Rightarrow> ('w, 'a) io" where
  "io_throw e w = (Inl e, w)"

definition io_bind :: "('w, 'a) io \<Rightarrow> ('a \<Rightarrow> ('w, 'b) io) \<Rightarrow> ('w, 'b) io" where
  "io_bind m f w = (case m w of (Inl e, w') \<Rightarrow> (Inl e, w') | (Inr a, w') \<Rightarrow> f a w')"

definition io_catch :: "('w, 'a) io \<Rightarrow> (js_error \<Rightarrow> ('w, 'a) io) \<Rightarrow> ('w, 'a) io" where
  "io_catch m h w = (case m w of (Inl e, w') \<Rightarrow> h e w' | (Inr a, w') \<Rightarrow> (Inr a, w'))"

definition io_try :: "('w, 'a) io \<Rightarrow> ('w, js_error + 'a) io" where
  "io_try m w = (case m w of (r, w') \<Rightarrow> (Inr r, w'))"

definition io_when :: "bool \<Rightarrow> ('w, unit) io \<Rightarrow> ('w, unit) io" where
  "io_when b m = (if b then m else io_return ())"

definition io_gets :: "('w \<Rightarrow> 'a) \<Rightarrow> ('w, 'a) io" where
  "io_gets g w = (Inr (g w), w)"

definition io_modify :: "('w \<Rightarrow> 'w) \<Rightarrow> ('w, unit) io" where
  "io_modify f w = (Inr (), f w)"

definition io_lift :: "js_error + 'a \<Rightarrow> ('w, 'a) io" where
  "io_lift r w = (r, w)"

definition io_part :: "('w \<Rightarrow> 's) \<Rightarrow> ('s \<Rightarrow> 'w \<Rightarrow> 'w) \<Rightarrow> ('s \<Rightarrow> (js_error + 'a) \<times> 's) \<Rightarrow> ('w, 'a) io" where
  "io_part get put m w = (case m (get w) of (r, s) \<Rightarrow> (r, put s w))"

named_theorems io_simps "how steps compute"

lemma io_return_step [simp, io_simps]: "io_return a w = (Inr a, w)"
  by (simp add: io_return_def)

lemma io_throw_step [simp, io_simps]: "io_throw e w = (Inl e, w)"
  by (simp add: io_throw_def)

lemma io_gets_step [simp, io_simps]: "io_gets g w = (Inr (g w), w)"
  by (simp add: io_gets_def)

lemma io_modify_step [simp, io_simps]: "io_modify h w = (Inr (), h w)"
  by (simp add: io_modify_def)

lemma io_lift_step [simp, io_simps]: "io_lift r w = (r, w)"
  by (simp add: io_lift_def)

lemma io_bind_return [simp, io_simps]: "io_bind (io_return a) f w = f a w"
  by (simp add: io_bind_def)

lemma io_bind_throw [simp, io_simps]: "io_bind (io_throw e) f w = (Inl e, w)"
  by (simp add: io_bind_def)

lemma io_bind_gets [simp, io_simps]: "io_bind (io_gets g) f w = f (g w) w"
  by (simp add: io_bind_def)

lemma io_bind_modify [simp, io_simps]: "io_bind (io_modify h) f w = f () (h w)"
  by (simp add: io_bind_def)

lemma io_bind_lift [simp, io_simps]: "io_bind (io_lift (Inr a)) f w = f a w" "io_bind (io_lift (Inl e)) f w = (Inl e, w)"
  by (simp_all add: io_bind_def)

lemma io_bind_eq: "m w = (Inr a, w') \<Longrightarrow> io_bind m f w = f a w'" "m w = (Inl e, w') \<Longrightarrow> io_bind m f w = (Inl e, w')"
  by (simp_all add: io_bind_def)

lemma io_when_simps [simp, io_simps]: "io_when True m = m" "io_when False m = io_return ()"
  by (simp_all add: io_when_def)

lemma io_bind_Inr: "io_bind m f w = (Inr b, w') \<longleftrightarrow> (\<exists>a v. m w = (Inr a, v) \<and> f a v = (Inr b, w'))"
  by (auto simp: io_bind_def split: prod.splits sum.splits)

lemma io_bind_Inl: "io_bind m f w = (Inl e, w') \<longleftrightarrow> m w = (Inl e, w') \<or> (\<exists>a v. m w = (Inr a, v) \<and> f a v = (Inl e, w'))"
  by (auto simp: io_bind_def split: prod.splits sum.splits)

text \<open>A preorder on worlds that every step keeps is kept by the whole service, thrown errors included.\<close>

definition io_respects :: "('w \<Rightarrow> 'w \<Rightarrow> bool) \<Rightarrow> ('w, 'a) io \<Rightarrow> bool" where
  "io_respects R m \<longleftrightarrow> (\<forall>w. R w (snd (m w)))"

locale io_frame =
  fixes R :: "'w \<Rightarrow> 'w \<Rightarrow> bool"
  assumes io_refl: "R w w"
    and io_trans: "R u v \<Longrightarrow> R v w \<Longrightarrow> R u w"
begin

lemma io_respects_return [intro]: "io_respects R (io_return a)"
  by (simp add: io_respects_def io_refl)

lemma io_respects_throw [intro]: "io_respects R (io_throw e)"
  by (simp add: io_respects_def io_refl)

lemma io_respects_lift [intro]: "io_respects R (io_lift r)"
  by (simp add: io_respects_def io_refl)

lemma io_respects_gets [intro]: "io_respects R (io_gets g)"
  by (simp add: io_respects_def io_refl)

lemma io_respects_bind [intro]:
  assumes "io_respects R m" and "\<And>a. io_respects R (f a)"
  shows "io_respects R (io_bind m f)"
  unfolding io_respects_def
proof
  fix w
  obtain r v where m: "m w = (r, v)" by fastforce
  from assms(1) m have "R w v" by (metis io_respects_def snd_conv)
  with m assms(2) show "R w (snd (io_bind m f w))"
    by (cases r) (auto simp: io_bind_def io_respects_def intro: io_trans)
qed

lemma io_respects_catch [intro]:
  assumes "io_respects R m" and "\<And>e. io_respects R (h e)"
  shows "io_respects R (io_catch m h)"
  unfolding io_respects_def
proof
  fix w
  obtain r v where m: "m w = (r, v)" by fastforce
  from assms(1) m have "R w v" by (metis io_respects_def snd_conv)
  with m assms(2) show "R w (snd (io_catch m h w))"
    by (cases r) (auto simp: io_catch_def io_respects_def intro: io_trans)
qed

lemma io_respects_try [intro]: "io_respects R m \<Longrightarrow> io_respects R (io_try m)"
  by (simp add: io_respects_def io_try_def split_beta)

lemma io_respects_when [intro]: "io_respects R m \<Longrightarrow> io_respects R (io_when b m)"
  by (cases b) auto

lemma io_respects_if [intro]: "io_respects R m \<Longrightarrow> io_respects R n \<Longrightarrow> io_respects R (if b then m else n)"
  by simp

lemma io_respects_option [intro]:
  "io_respects R m \<Longrightarrow> (\<And>a. io_respects R (f a)) \<Longrightarrow> io_respects R (case x of None \<Rightarrow> m | Some a \<Rightarrow> f a)"
  by (cases x) auto

lemma io_respects_sum [intro]:
  "(\<And>e. io_respects R (f e)) \<Longrightarrow> (\<And>a. io_respects R (g a)) \<Longrightarrow> io_respects R (case x of Inl e \<Rightarrow> f e | Inr a \<Rightarrow> g a)"
  by (cases x) auto

end

end
