(* ===== verification/Encoding.thy ===== *)
theory Encoding
  imports Prelude "HOL-Library.Word"
begin

text \<open>
  The byte encodings of Node's Buffer that the security package uses: hexadecimal and base64url
  text of a byte array, the readers the code applies to them, and their round trips.
\<close>

type_synonym bytes = "8 word list"

section \<open>Hexadecimal\<close>

definition nibble_char :: "nat \<Rightarrow> char" where
  "nibble_char n = ''0123456789abcdef'' ! n"

definition nibble_value :: "char \<Rightarrow> nat option" where
  "nibble_value c = (if digit_char c then Some (of_char c - 48)
     else if CHR ''a'' \<le> c \<and> c \<le> CHR ''f'' then Some (of_char c - 87)
     else if CHR ''A'' \<le> c \<and> c \<le> CHR ''F'' then Some (of_char c - 55) else None)"

definition byte_of :: "nat \<Rightarrow> 8 word" where
  "byte_of n = word_of_nat n"

lemma byte_of_unat [simp]: "byte_of (unat b) = b"
  by (simp add: byte_of_def)

fun to_hex :: "bytes \<Rightarrow> string" where
  "to_hex [] = []"
| "to_hex (b # bs) = nibble_char (unat b div 16) # nibble_char (unat b mod 16) # to_hex bs"

text \<open>Reading stops at the first pair that is not hexadecimal.\<close>

fun from_hex :: "string \<Rightarrow> bytes" where
  "from_hex (a # b # cs) = (case (nibble_value a, nibble_value b) of
     (Some x, Some y) \<Rightarrow> byte_of (x * 16 + y) # from_hex cs | _ \<Rightarrow> [])"
| "from_hex _ = []"

lemma nibbles: "list_all (\<lambda>n. nibble_value (nibble_char n) = Some n) [0..<16]"
  by code_simp

lemma nibble_roundtrip: "n < 16 \<Longrightarrow> nibble_value (nibble_char n) = Some n"
  using nibbles by (simp add: list_all_iff)

lemma byte_bound: "unat (b :: 8 word) < 256"
  using unsigned_less[of b] by simp

lemma from_hex_to_hex [simp]: "from_hex (to_hex bs) = bs"
proof (induction bs)
  case (Cons b bs)
  have "unat b div 16 < 16" using byte_bound[of b] by simp
  with Cons show ?case by (simp add: nibble_roundtrip)
qed simp

lemma to_hex_inj: "to_hex a = to_hex b \<longleftrightarrow> a = b"
  by (metis from_hex_to_hex)

section \<open>base64url\<close>

definition b64_alphabet :: string where
  "b64_alphabet = ''ABCDEFGHIJKLMNOPQRSTUVWXYZabcdefghijklmnopqrstuvwxyz0123456789-_''"

definition b64_char :: "nat \<Rightarrow> char" where
  "b64_char n = b64_alphabet ! n"

definition b64url_char :: "char \<Rightarrow> bool" where
  "b64url_char c \<longleftrightarrow> upper_char c \<or> lower_char c \<or> digit_char c \<or> c = CHR ''-'' \<or> c = CHR ''_''"

definition b64_value :: "char \<Rightarrow> nat" where
  "b64_value c = (if upper_char c then of_char c - 65 else if lower_char c then of_char c - 71
     else if digit_char c then of_char c + 4 else if c = CHR ''-'' then 62 else 63)"

fun to_base64url :: "bytes \<Rightarrow> string" where
  "to_base64url [] = []"
| "to_base64url [a] = [b64_char (unat a div 4), b64_char (unat a mod 4 * 16)]"
| "to_base64url [a, b] = [b64_char (unat a div 4), b64_char (unat a mod 4 * 16 + unat b div 16), b64_char (unat b mod 16 * 4)]"
| "to_base64url (a # b # c # r) = b64_char (unat a div 4) # b64_char (unat a mod 4 * 16 + unat b div 16)
     # b64_char (unat b mod 16 * 4 + unat c div 64) # b64_char (unat c mod 64) # to_base64url r"

text \<open>The reader, on text over the alphabet: leftover bits are dropped.\<close>

fun from_base64url :: "string \<Rightarrow> bytes" where
  "from_base64url (p # q # r # s # t) = byte_of (b64_value p * 4 + b64_value q div 16)
     # byte_of (b64_value q mod 16 * 16 + b64_value r div 4) # byte_of (b64_value r mod 4 * 64 + b64_value s) # from_base64url t"
| "from_base64url [p, q, r] = [byte_of (b64_value p * 4 + b64_value q div 16), byte_of (b64_value q mod 16 * 16 + b64_value r div 4)]"
| "from_base64url [p, q] = [byte_of (b64_value p * 4 + b64_value q div 16)]"
| "from_base64url _ = []"

lemma b64_digits: "list_all (\<lambda>n. b64_value (b64_char n) = n \<and> b64url_char (b64_char n)) [0..<64]"
  by code_simp

lemma b64_value_char [simp]: "n < 64 \<Longrightarrow> b64_value (b64_char n) = n"
  using b64_digits by (simp add: list_all_iff)

lemma b64url_char_char: "n < 64 \<Longrightarrow> b64url_char (b64_char n)"
  using b64_digits by (simp add: list_all_iff)

lemma sextets:
  "unat (a :: 8 word) div 4 < 64" "unat a mod 4 * 16 < 64" "unat a mod 4 * 16 + unat (b :: 8 word) div 16 < 64"
  "unat a mod 16 * 4 < 64" "unat a mod 16 * 4 + unat b div 64 < 64" "unat a mod 64 < 64"
  using byte_bound[of a] byte_bound[of b] by auto

lemma join_16: "y < (16::nat) \<Longrightarrow> (x * 16 + y) div 16 = x" "y < (16::nat) \<Longrightarrow> (x * 16 + y) mod 16 = y"
  and join_4: "y < (4::nat) \<Longrightarrow> (x * 4 + y) div 4 = x" "y < (4::nat) \<Longrightarrow> (x * 4 + y) mod 4 = y"
  by simp_all

lemma pieces: "unat (b :: 8 word) div 16 < 16" "unat b div 64 < 4"
  using byte_bound[of b] by auto

lemma octets:
  "byte_of (unat a div 4 * 4 + unat (a :: 8 word) mod 4) = a"
  "byte_of (unat a div 16 * 16 + unat a mod 16) = a"
  "byte_of (unat a div 64 * 64 + unat a mod 64) = a"
  by simp_all

lemma from_to_base64url [simp]: "from_base64url (to_base64url bs) = bs"
  by (induction bs rule: to_base64url.induct) (simp_all add: sextets join_16 join_4 pieces octets)

lemma base64url_chars: "list_all b64url_char (to_base64url bs)"
  by (induction bs rule: to_base64url.induct) (simp_all add: sextets b64url_char_char)

lemma length_base64url: "length (to_base64url bs) = (4 * length bs + 2) div 3"
  by (induction bs rule: to_base64url.induct) simp_all

end
