(* ===== verification/Auth_Repository.thy ===== *)
theory Auth_Repository
  imports Prelude
begin

text \<open>
  The authentication repository, apps/api/src/modules/auth/repository.ts, with the SQL functions it
  calls (drizzle/migrations/0043_user_password_reset.sql): login sessions that are consumed once, and
  refresh tokens that rotate inside a family. Times are milliseconds (every one the code writes
  or compares comes from JavaScript). The advisory lock and the row locks of the code order the
  transactions on a family and on a user; that order is the sequence of steps.
\<close>

section \<open>Tables\<close>

datatype auth_role = OWNER | ADMIN | OPERATOR | VIEWER

datatype row_status = ACTIVE | SUSPENDED | DISABLED

record user_row =
  us_id :: string
  us_email :: string
  us_passwordHash :: string
  us_version :: nat
  us_status :: row_status

record org_row =
  or_id :: string
  or_name :: string
  or_slug :: string
  or_status :: row_status

record member_row =
  mb_org :: string
  mb_user :: string
  mb_role :: auth_role
  mb_status :: row_status

record login_row =
  ls_user :: string
  ls_hash :: string
  ls_version :: nat
  ls_expires :: int
  ls_consumed :: "int option"

record refresh_row =
  rt_id :: string
  rt_org :: string
  rt_user :: string
  rt_family :: string
  rt_hash :: string
  rt_version :: nat
  rt_expires :: int
  rt_revoked :: "int option"
  rt_replacedBy :: "string option"

record auth_db =
  au_users :: "user_row list"
  au_orgs :: "org_row list"
  au_members :: "member_row list"
  au_logins :: "login_row list"
  au_tokens :: "refresh_row list"

record login_org =
  lo_id :: string
  lo_name :: string
  lo_slug :: string
  lo_role :: auth_role

record login_identity =
  li_id :: string
  li_passwordHash :: string
  li_version :: nat
  li_status :: row_status
  li_orgs :: "login_org list"

record browser_identity =
  bs_version :: nat
  bs_user :: string
  bs_email :: string
  bs_orgs :: "login_org list"

section \<open>Reading\<close>

definition isUserAuthenticationCurrent :: "string \<Rightarrow> nat \<Rightarrow> auth_db \<Rightarrow> bool" where
  "isUserAuthenticationCurrent uid v s = list_ex (\<lambda>u. us_id u = uid \<and> us_status u = ACTIVE \<and> us_version u = v) (au_users s)"

text \<open>The active memberships of a user in active organizations, ordered by name and identifier.\<close>

definition active_orgs :: "string \<Rightarrow> auth_db \<Rightarrow> login_org list" where
  "active_orgs uid s = sort_key (\<lambda>x. (lo_name x, lo_id x)) (concat (map (\<lambda>m. map (\<lambda>x. \<lparr>lo_id = or_id x, lo_name = or_name x,
       lo_slug = or_slug x, lo_role = mb_role m\<rparr>) (filter (\<lambda>x. or_id x = mb_org m \<and> or_status x = ACTIVE) (au_orgs s)))
     (filter (\<lambda>m. mb_user m = uid \<and> mb_status m = ACTIVE) (au_members s))))"

text \<open>An organization with an empty name or slug is dropped (the query's left join).\<close>

definition findLoginIdentity :: "string \<Rightarrow> auth_db \<Rightarrow> login_identity option" where
  "findLoginIdentity email s = map_option (\<lambda>u. \<lparr>li_id = us_id u, li_passwordHash = us_passwordHash u, li_version = us_version u,
     li_status = us_status u, li_orgs = filter (\<lambda>x. lo_id x \<noteq> [] \<and> lo_name x \<noteq> [] \<and> lo_slug x \<noteq> []) (active_orgs (us_id u) s)\<rparr>)
     (find (\<lambda>u. us_email u = email) (au_users s))"

definition findBrowserSessionIdentity :: "string \<Rightarrow> auth_db \<Rightarrow> browser_identity option" where
  "findBrowserSessionIdentity uid s = (case find (\<lambda>u. us_id u = uid \<and> us_status u = ACTIVE) (au_users s) of None \<Rightarrow> None
     | Some u \<Rightarrow> if active_orgs uid s = [] then None
         else Some \<lparr>bs_version = us_version u, bs_user = us_id u, bs_email = us_email u, bs_orgs = active_orgs uid s\<rparr>)"

definition lock_user_authentication :: "string \<Rightarrow> auth_db \<Rightarrow> nat option" where
  "lock_user_authentication uid s = map_option us_version (find (\<lambda>u. us_id u = uid) (au_users s))"

text \<open>The role of a user in an organization, when user, membership and organization are active.\<close>

definition active_role :: "string \<Rightarrow> string \<Rightarrow> auth_db \<Rightarrow> auth_role option" where
  "active_role org uid s =
    (if list_ex (\<lambda>x. or_id x = org \<and> or_status x = ACTIVE) (au_orgs s) \<and> list_ex (\<lambda>u. us_id u = uid \<and> us_status u = ACTIVE) (au_users s)
     then map_option mb_role (find (\<lambda>m. mb_org m = org \<and> mb_user m = uid \<and> mb_status m = ACTIVE) (au_members s)) else None)"

section \<open>Sessions\<close>

definition create_login_selection :: "string \<Rightarrow> string \<Rightarrow> int \<Rightarrow> nat \<Rightarrow> (auth_db, bool) tx" where
  "create_login_selection uid hash expiresAt expected s =
    (case lock_user_authentication uid s of None \<Rightarrow> Inr (False, s)
     | Some v \<Rightarrow> if v \<noteq> expected \<or> \<not> list_ex (\<lambda>u. us_id u = uid \<and> us_status u = ACTIVE) (au_users s) then Inr (False, s)
         else if list_ex (\<lambda>l. ls_hash l = hash) (au_logins s) then Inl (DatabaseError ''23505'' ''login_sessions_token_hash_unique'')
         else Inr (True, s\<lparr>au_logins := au_logins s @ [\<lparr>ls_user = uid, ls_hash = hash, ls_version = v, ls_expires = expiresAt,
           ls_consumed = None\<rparr>]\<rparr>))"

definition insert_token :: "refresh_row \<Rightarrow> (auth_db, unit) tx" where
  "insert_token row s =
    (if list_ex (\<lambda>t. rt_id t = rt_id row) (au_tokens s) then Inl (DatabaseError ''23505'' ''refresh_tokens_pkey'')
     else if list_ex (\<lambda>t. rt_hash t = rt_hash row) (au_tokens s) then Inl (DatabaseError ''23505'' ''refresh_tokens_token_hash_unique'')
     else Inr ((), s\<lparr>au_tokens := au_tokens s @ [row]\<rparr>))"

record new_token =
  nt_id :: string
  nt_family :: string
  nt_hash :: string
  nt_expires :: int

datatype 'o auth_outcome = Granted string string auth_role nat | Refused 'o

datatype refusal = INVALID | REUSED | PRESERVE_SOURCE | SOURCE_MISMATCH

definition consume_login_selection :: "string \<Rightarrow> string \<Rightarrow> int \<Rightarrow> new_token \<Rightarrow> (auth_db, refusal auth_outcome) tx" where
  "consume_login_selection hash org now nt s =
    (case find (\<lambda>l. ls_hash l = hash) (au_logins s) of None \<Rightarrow> Inr (Refused INVALID, s)
     | Some l0 \<Rightarrow>
    (case lock_user_authentication (ls_user l0) s of None \<Rightarrow> Inr (Refused INVALID, s)
     | Some v \<Rightarrow>
       (let live = (\<lambda>l. ls_hash l = hash \<and> ls_version l = v \<and> ls_consumed l = None \<and> ls_expires l > now);
            s1 = s\<lparr>au_logins := update_rows live (\<lambda>l. l\<lparr>ls_consumed := Some now\<rparr>) (au_logins s)\<rparr>
        in case find live (au_logins s) of
             None \<Rightarrow> Inr (Refused (if list_ex (\<lambda>l. ls_hash l = hash \<and> ls_consumed l \<noteq> None) (au_logins s) then REUSED else INVALID), s)
           | Some l \<Rightarrow> (case active_role org (ls_user l) s of
                 None \<Rightarrow> Inr (Refused INVALID, s1)
               | Some role \<Rightarrow> tx_bind (insert_token \<lparr>rt_id = nt_id nt, rt_org = org, rt_user = ls_user l, rt_family = nt_family nt,
                     rt_hash = nt_hash nt, rt_version = v, rt_expires = nt_expires nt, rt_revoked = None, rt_replacedBy = None\<rparr>)
                   (\<lambda>_. tx_return (Granted (ls_user l) org role v)) s1))))"

section \<open>Refresh tokens\<close>

definition in_family :: "string \<Rightarrow> string \<Rightarrow> refresh_row \<Rightarrow> bool" where
  "in_family org fam t \<longleftrightarrow> rt_org t = org \<and> rt_family t = fam"

definition revoke_family :: "int \<Rightarrow> string \<Rightarrow> string \<Rightarrow> auth_db \<Rightarrow> auth_db" where
  "revoke_family now org fam s = s\<lparr>au_tokens := update_rows (in_family org fam)
     (\<lambda>t. t\<lparr>rt_revoked := (case rt_revoked t of Some r \<Rightarrow> Some r | None \<Rightarrow> Some now)\<rparr>) (au_tokens s)\<rparr>"

text \<open>The statuses a token is joined with; no row when a membership, user or organization is missing.\<close>

definition token_statuses :: "refresh_row \<Rightarrow> auth_db \<Rightarrow> (auth_role \<times> row_status \<times> row_status \<times> row_status) option" where
  "token_statuses t s = (case (find (\<lambda>m. mb_org m = rt_org t \<and> mb_user m = rt_user t) (au_members s),
       find (\<lambda>u. us_id u = rt_user t) (au_users s), find (\<lambda>x. or_id x = rt_org t) (au_orgs s)) of
     (Some m, Some u, Some x) \<Rightarrow> Some (mb_role m, mb_status m, us_status u, or_status x) | _ \<Rightarrow> None)"

definition rotateRefreshToken :: "string \<Rightarrow> new_token \<Rightarrow> int \<Rightarrow> (auth_db, refusal auth_outcome) tx" where
  "rotateRefreshToken hash nt now s =
    (case find (\<lambda>t. rt_hash t = hash) (au_tokens s) of None \<Rightarrow> Inr (Refused INVALID, s)
     | Some current \<Rightarrow>
    (case lock_user_authentication (rt_user current) s of None \<Rightarrow> Inr (Refused INVALID, s)
     | Some v \<Rightarrow>
    (case token_statuses current s of None \<Rightarrow> Inr (Refused INVALID, s)
     | Some (role, member, user, org) \<Rightarrow>
       if rt_revoked current \<noteq> None \<or> rt_replacedBy current \<noteq> None
         then Inr (Refused REUSED, revoke_family now (rt_org current) (rt_family current) s)
       else if rt_version current \<noteq> v \<or> rt_expires current \<le> now \<or> member \<noteq> ACTIVE \<or> user \<noteq> ACTIVE \<or> org \<noteq> ACTIVE
         then Inr (Refused INVALID, revoke_family now (rt_org current) (rt_family current) s)
       else tx_bind (tx_modify (\<lambda>s. s\<lparr>au_tokens := update_rows (\<lambda>t. rt_id t = rt_id current \<and> rt_org t = rt_org current)
             (\<lambda>t. t\<lparr>rt_revoked := Some now, rt_replacedBy := Some (nt_id nt)\<rparr>) (au_tokens s)\<rparr>)) (\<lambda>_.
         tx_bind (insert_token \<lparr>rt_id = nt_id nt, rt_org = rt_org current, rt_user = rt_user current, rt_family = rt_family current,
             rt_hash = nt_hash nt, rt_version = v, rt_expires = nt_expires nt, rt_revoked = None, rt_replacedBy = None\<rparr>) (\<lambda>_.
         tx_return (Granted (rt_user current) (rt_org current) role v))) s)))"

datatype logout_outcome = LOGOUT_REVOKED | ALREADY_REVOKED | LOGOUT_INVALID

definition revokeRefreshFamily :: "string \<Rightarrow> int \<Rightarrow> (auth_db, logout_outcome) tx" where
  "revokeRefreshFamily hash now s = (case find (\<lambda>t. rt_hash t = hash) (au_tokens s) of
     None \<Rightarrow> Inr (LOGOUT_INVALID, s)
   | Some t \<Rightarrow> Inr (if rt_revoked t = None then LOGOUT_REVOKED else ALREADY_REVOKED,
       revoke_family now (rt_org t) (rt_family t) s))"

definition switch_refresh_organization ::
  "string \<Rightarrow> string \<Rightarrow> string \<Rightarrow> string \<Rightarrow> int \<Rightarrow> new_token \<Rightarrow> (auth_db, refusal auth_outcome) tx" where
  "switch_refresh_organization hash expectedUser expectedOrg target now nt s =
    (case find (\<lambda>t. rt_hash t = hash) (au_tokens s) of None \<Rightarrow> Inr (Refused INVALID, s)
     | Some source \<Rightarrow>
    (case lock_user_authentication (rt_user source) s of None \<Rightarrow> Inr (Refused INVALID, s)
     | Some v \<Rightarrow>
    (case token_statuses source s of None \<Rightarrow> Inr (Refused INVALID, s)
     | Some (_, member, user, org) \<Rightarrow>
       if rt_user source \<noteq> expectedUser \<or> rt_org source \<noteq> expectedOrg then Inr (Refused SOURCE_MISMATCH, s)
       else if rt_revoked source \<noteq> None \<or> rt_replacedBy source \<noteq> None
         then Inr (Refused REUSED, revoke_family now (rt_org source) (rt_family source) s)
       else if rt_version source \<noteq> v \<or> rt_expires source \<le> now \<or> user \<noteq> ACTIVE \<or> member \<noteq> ACTIVE \<or> org \<noteq> ACTIVE
         then Inr (Refused INVALID, revoke_family now (rt_org source) (rt_family source) s)
       else (case active_role target (rt_user source) s of
           None \<Rightarrow> Inr (Refused PRESERVE_SOURCE, s)
         | Some role \<Rightarrow> tx_bind (tx_modify (revoke_family now (rt_org source) (rt_family source))) (\<lambda>_.
             tx_bind (insert_token \<lparr>rt_id = nt_id nt, rt_org = target, rt_user = rt_user source, rt_family = nt_family nt,
               rt_hash = nt_hash nt, rt_version = v, rt_expires = nt_expires nt, rt_revoked = None, rt_replacedBy = None\<rparr>) (\<lambda>_.
             tx_return (Granted (rt_user source) target role v))) s))))"

text \<open>A password reset: the next generation, every session consumed, every token revoked.\<close>

definition revoke_user_authentication :: "string \<Rightarrow> int \<Rightarrow> (auth_db, nat) tx" where
  "revoke_user_authentication uid at s = (case find (\<lambda>u. us_id u = uid) (au_users s) of
     None \<Rightarrow> Inl (DatabaseError ''P0002'' ''user not found'')
   | Some u \<Rightarrow> Inr (us_version u + 1, s\<lparr>au_users := update_rows (\<lambda>u. us_id u = uid) (\<lambda>u. u\<lparr>us_version := us_version u + 1\<rparr>) (au_users s),
       au_logins := update_rows (\<lambda>l. ls_user l = uid) (\<lambda>l. l\<lparr>ls_consumed := (case ls_consumed l of Some c \<Rightarrow> Some c | None \<Rightarrow> Some at)\<rparr>) (au_logins s),
       au_tokens := update_rows (\<lambda>t. rt_user t = uid) (\<lambda>t. t\<lparr>rt_revoked := (case rt_revoked t of Some r \<Rightarrow> Some r | None \<Rightarrow> Some at)\<rparr>) (au_tokens s)\<rparr>))"

section \<open>The TypeScript wrappers\<close>

text \<open>An outcome with an empty identifier is an error of the caller's check, not a session.\<close>

definition checked_outcome :: "refusal list \<Rightarrow> string \<Rightarrow> refusal auth_outcome \<Rightarrow> js_error + refusal auth_outcome" where
  "checked_outcome known what r = (case r of
     Granted uid org role v \<Rightarrow> if uid = [] \<or> org = [] then Inl (PlainError (''Authentication '' @ what @ '' function returned an invalid result'')) else Inr r
   | Refused x \<Rightarrow> if x \<in> set known then Inr r else Inl (PlainError (''Authentication '' @ what @ '' function returned an invalid outcome'')))"

definition consumeSelection :: "string \<Rightarrow> string \<Rightarrow> int \<Rightarrow> new_token \<Rightarrow> auth_db \<Rightarrow> (js_error + refusal auth_outcome) \<times> auth_db" where
  "consumeSelection hash org now nt s = (case run_tx (consume_login_selection hash org now nt) s of (Inl e, s') \<Rightarrow> (Inl e, s')
     | (Inr r, s') \<Rightarrow> (checked_outcome [INVALID, REUSED] ''selection'' r, s'))"

definition switchOrganization ::
  "string \<Rightarrow> string \<Rightarrow> string \<Rightarrow> string \<Rightarrow> int \<Rightarrow> new_token \<Rightarrow> auth_db \<Rightarrow> (js_error + refusal auth_outcome) \<times> auth_db" where
  "switchOrganization hash eu eo target now nt s = (case run_tx (switch_refresh_organization hash eu eo target now nt) s of (Inl e, s') \<Rightarrow> (Inl e, s')
     | (Inr r, s') \<Rightarrow> (checked_outcome [INVALID, REUSED, PRESERVE_SOURCE, SOURCE_MISMATCH] ''switch'' r, s'))"

definition createSelectionSession :: "string \<Rightarrow> string \<Rightarrow> int \<Rightarrow> nat \<Rightarrow> auth_db \<Rightarrow> (js_error + bool) \<times> auth_db" where
  "createSelectionSession uid hash expiresAt expected = run_tx (create_login_selection uid hash expiresAt expected)"

end
