(* ===== verification/Tokens.thy ===== *)
theory Tokens
  imports Encoding Auth_Repository
begin

text \<open>
  The credentials of packages/security: opaque tokens (tokens/opaque.ts), access tokens
  (tokens/jwt.ts), CSRF tokens (browser/csrf.ts), cookie names (browser/cookies.ts), password
  verification (passwords/argon2id.ts) and organization API keys (api-keys/hmac.ts). SHA-256 and
  HMAC are parameters, as are argon2 and jose, which the repository does not contain; strings are
  their UTF-8 bytes.
\<close>

record crypto =
  cr_sha256 :: "string \<Rightarrow> bytes"
  cr_hmac :: "string \<Rightarrow> string \<Rightarrow> bytes"

section \<open>Opaque tokens\<close>

definition createOpaqueToken :: "bytes \<Rightarrow> string" where
  "createOpaqueToken random = to_base64url random"

definition hashOpaqueToken :: "crypto \<Rightarrow> string \<Rightarrow> string" where
  "hashOpaqueToken c token = to_hex (cr_sha256 c token)"

definition hashRefreshToken :: "crypto \<Rightarrow> string \<Rightarrow> string \<Rightarrow> js_error + string" where
  "hashRefreshToken c token secret = (if length secret < 32
     then Inl (PlainError ''Refresh token hash secret must contain at least 32 bytes'')
     else Inr (to_hex (cr_hmac c secret token)))"

section \<open>Access tokens\<close>

definition ACCESS_TOKEN_ISSUER :: string where "ACCESS_TOKEN_ISSUER = ''jrc-whatsapp-broker''"
definition ACCESS_TOKEN_AUDIENCE :: string where "ACCESS_TOKEN_AUDIENCE = ''jrc-api''"
definition ACCESS_TOKEN_TTL_SECONDS :: int where "ACCESS_TOKEN_TTL_SECONDS = 600"
definition ACCESS_TOKEN_CLOCK_TOLERANCE_SECONDS :: int where "ACCESS_TOKEN_CLOCK_TOLERANCE_SECONDS = 30"

type_synonym claims = "(string \<times> json) list"

text \<open>jose, over its type of tokens: signing claims under a key, and reading a token under a key, an issuer, an audience, the
  time in milliseconds, a tolerance in seconds and the claims required.\<close>

record 't jose =
  jo_sign :: "claims \<Rightarrow> string \<Rightarrow> 't"
  jo_verify :: "'t \<Rightarrow> string \<Rightarrow> string \<Rightarrow> string \<Rightarrow> int \<Rightarrow> int \<Rightarrow> string list \<Rightarrow> claims option"

definition secretKey :: "string \<Rightarrow> js_error + string" where
  "secretKey secret = (if length secret < 32 then Inl (PlainError ''JWT secret must contain at least 32 bytes'') else Inr secret)"

definition safe_integer :: "int \<Rightarrow> bool" where
  "safe_integer n \<longleftrightarrow> \<bar>n\<bar> \<le> 9007199254740991"

fun role_name :: "auth_role \<Rightarrow> string" where
  "role_name OWNER = ''OWNER''"
| "role_name ADMIN = ''ADMIN''"
| "role_name OPERATOR = ''OPERATOR''"
| "role_name VIEWER = ''VIEWER''"

record access_identity =
  ai_user :: string
  ai_version :: "int option"
  ai_org :: string
  ai_role :: auth_role

definition access_claims :: "access_identity \<Rightarrow> int \<Rightarrow> string \<Rightarrow> int \<Rightarrow> claims" where
  "access_claims i v jti iat = [(''organization_id'', JStr (ai_org i)), (''role'', JStr (role_name (ai_role i))),
     (''auth_version'', JNum v), (''iss'', JStr ACCESS_TOKEN_ISSUER), (''aud'', JStr ACCESS_TOKEN_AUDIENCE),
     (''sub'', JStr (ai_user i)), (''jti'', JStr jti), (''iat'', JNum iat), (''exp'', JNum (iat + ACCESS_TOKEN_TTL_SECONDS))]"

definition issueAccessToken :: "'t jose \<Rightarrow> access_identity \<Rightarrow> string \<Rightarrow> string \<Rightarrow> int \<Rightarrow> js_error + 't" where
  "issueAccessToken j i jti secret nowMs =
    (let v = (case ai_version i of None \<Rightarrow> 0 | Some v \<Rightarrow> v)
     in if \<not> safe_integer v \<or> v < 0 then Inl (PlainError ''Invalid authentication generation'')
        else (case secretKey secret of Inl e \<Rightarrow> Inl e
          | Inr key \<Rightarrow> Inr (jo_sign j (access_claims i v jti (nowMs div 1000)) key)))"

text \<open>\<open>String(x)\<close> of a JSON value, where it can be the name of a role.\<close>

fun js_string :: "json \<Rightarrow> string option" where
  "js_string (JStr s) = Some s"
| "js_string (JArr [x]) = js_string x"
| "js_string _ = None"

definition is_json_string :: "json option \<Rightarrow> bool" where
  "is_json_string v = (case v of Some (JStr _) \<Rightarrow> True | _ \<Rightarrow> False)"

definition json_safe_int :: "json option \<Rightarrow> int option" where
  "json_safe_int v = (case v of Some (JNum n) \<Rightarrow> if safe_integer n then Some n else None | _ \<Rightarrow> None)"

record access_payload =
  ap_sub :: string
  ap_version :: int
  ap_org :: string
  ap_role :: json

definition verifyAccessToken :: "'t jose \<Rightarrow> 't \<Rightarrow> string \<Rightarrow> int \<Rightarrow> js_error + access_payload" where
  "verifyAccessToken j token secret nowMs =
    (case secretKey secret of Inl e \<Rightarrow> Inl e | Inr key \<Rightarrow>
    (case jo_verify j token key ACCESS_TOKEN_ISSUER ACCESS_TOKEN_AUDIENCE nowMs ACCESS_TOKEN_CLOCK_TOLERANCE_SECONDS
        [''sub'', ''jti'', ''iat'', ''exp''] of
      None \<Rightarrow> Inl (PlainError ''JWT verification failed'')
    | Some payload \<Rightarrow>
       (case (case map_of payload ''auth_version'' of None \<Rightarrow> Some 0 | v \<Rightarrow> json_safe_int v,
              map_of payload ''sub'', map_of payload ''jti'', json_safe_int (map_of payload ''iat''), json_safe_int (map_of payload ''exp''),
              map_of payload ''organization_id'', map_of payload ''role'') of
         (Some v, Some (JStr sub), Some (JStr jti), Some iat, Some exp', Some (JStr org), Some role) \<Rightarrow>
           if v < 0 \<or> jti = [] \<or> exp' - iat \<noteq> ACCESS_TOKEN_TTL_SECONDS
               \<or> \<not> (case js_string role of None \<Rightarrow> False | Some r \<Rightarrow> r \<in> {''OWNER'', ''ADMIN'', ''OPERATOR'', ''VIEWER''})
           then Inl (PlainError ''Invalid access token claims'')
           else if iat > nowMs div 1000 + ACCESS_TOKEN_CLOCK_TOLERANCE_SECONDS
           then Inl (PlainError ''Access token was issued in the future'')
           else Inr \<lparr>ap_sub = sub, ap_version = v, ap_org = org, ap_role = role\<rparr>
       | _ \<Rightarrow> Inl (PlainError ''Invalid access token claims''))))"

section \<open>CSRF tokens\<close>

definition CSRF_NONCE_BYTES :: nat where "CSRF_NONCE_BYTES = 32"

definition csrf_pattern :: "string \<Rightarrow> bool" where
  "csrf_pattern t \<longleftrightarrow> length t = 87 \<and> list_all b64url_char (take 43 t) \<and> t ! 43 = CHR ''.'' \<and> list_all b64url_char (drop 44 t)"

definition signNonce :: "crypto \<Rightarrow> string \<Rightarrow> string \<Rightarrow> bytes" where
  "signNonce c nonce secret = cr_hmac c secret nonce"

definition assertCsrfSecret :: "string \<Rightarrow> js_error option" where
  "assertCsrfSecret secret = (if length secret < 32 then Some (PlainError ''Browser CSRF secret must contain at least 32 bytes'') else None)"

definition createBrowserCsrfToken :: "crypto \<Rightarrow> string \<Rightarrow> bytes \<Rightarrow> js_error + string" where
  "createBrowserCsrfToken c secret random = (case assertCsrfSecret secret of Some e \<Rightarrow> Inl e
     | None \<Rightarrow> if length random \<noteq> CSRF_NONCE_BYTES then Inl (PlainError ''CSRF random source must return exactly 32 bytes'')
         else (let nonce = to_base64url random in Inr (nonce @ ''.'' @ to_base64url (signNonce c nonce secret))))"

definition timingSafeEqual :: "'a list \<Rightarrow> 'a list \<Rightarrow> js_error + bool" where
  "timingSafeEqual a b = (if length a \<noteq> length b then Inl (PlainError ''Input buffers must have the same byte length'') else Inr (a = b))"

definition verifyBrowserCsrfToken :: "crypto \<Rightarrow> string option \<Rightarrow> string option \<Rightarrow> string \<Rightarrow> js_error + bool" where
  "verifyBrowserCsrfToken c header cookie secret = (case assertCsrfSecret secret of Some e \<Rightarrow> Inl e
     | None \<Rightarrow> (case (header, cookie) of
         (Some h, Some k) \<Rightarrow>
           if \<not> csrf_pattern h \<or> \<not> csrf_pattern k then Inr False
           else (case timingSafeEqual h k of Inl e \<Rightarrow> Inl e
             | Inr same \<Rightarrow> (case timingSafeEqual (from_base64url (drop 44 k)) (signNonce c (take 43 k) secret) of Inl e \<Rightarrow> Inl e
                 | Inr valid \<Rightarrow> Inr (same \<and> valid)))
       | _ \<Rightarrow> Inr False))"

definition isConsoleOriginAllowed :: "string option \<Rightarrow> string list \<Rightarrow> bool" where
  "isConsoleOriginAllowed origin allowed = (case origin of None \<Rightarrow> False | Some x \<Rightarrow> x \<in> set allowed)"

section \<open>Cookies\<close>

datatype node_env = Development | Test | Production

record cookie_policy =
  ck_refresh :: string
  ck_csrf :: string
  ck_secure :: bool
  ck_refreshHttpOnly :: bool
  ck_csrfHttpOnly :: bool

definition resolveBrowserCookiePolicy :: "node_env \<Rightarrow> bool \<Rightarrow> js_error + cookie_policy" where
  "resolveBrowserCookiePolicy nodeEnv secure =
    (if nodeEnv = Production \<and> \<not> secure then Inl (PlainError ''Production browser cookies require HTTPS'')
     else (let prefix = (if secure then ''__Host-'' else '''')
       in Inr \<lparr>ck_refresh = prefix @ ''jrc_refresh'', ck_csrf = prefix @ ''jrc_csrf'', ck_secure = secure,
            ck_refreshHttpOnly = True, ck_csrfHttpOnly = False\<rparr>))"

section \<open>Passwords\<close>

record password_crypto =
  pw_dummy :: string
  pw_verify :: "string \<Rightarrow> string \<Rightarrow> bool option"

definition verifyPasswordOrDummy :: "password_crypto \<Rightarrow> string \<Rightarrow> string option \<Rightarrow> bool" where
  "verifyPasswordOrDummy p candidate hash =
    (let matches = (case pw_verify p (case hash of None \<Rightarrow> pw_dummy p | Some h \<Rightarrow> h) candidate of None \<Rightarrow> False | Some b \<Rightarrow> b)
     in (case hash of None \<Rightarrow> False | Some _ \<Rightarrow> matches))"


section \<open>Properties\<close>

text \<open>jose reads back the claims it signed under the same key, unless they have expired.\<close>

definition jose_reads :: "'t jose \<Rightarrow> bool" where
  "jose_reads j \<longleftrightarrow> (\<forall>p key iss aud ms tol req e. map_of p ''iss'' = Some (JStr iss) \<longrightarrow> map_of p ''aud'' = Some (JStr aud) \<longrightarrow>
     map_of p ''exp'' = Some (JNum e) \<longrightarrow> map_of p ''nbf'' = None \<longrightarrow> list_all (\<lambda>k. map_of p k \<noteq> None) req \<longrightarrow>
     jo_verify j (jo_sign j p key) key iss aud ms tol req = (if e \<le> ms div 1000 - tol then None else Some p))"

definition access_token_life :: "int \<Rightarrow> int \<Rightarrow> bool" where
  "access_token_life issuedMs nowMs \<longleftrightarrow> issuedMs div 1000 - 30 \<le> nowMs div 1000 \<and> nowMs div 1000 < issuedMs div 1000 + 630"

lemma js_role [simp]: "js_string (JStr (role_name r)) = Some (role_name r)" "role_name r \<in> {''OWNER'', ''ADMIN'', ''OPERATOR'', ''VIEWER''}"
  by (cases r; simp)+

text \<open> C32: an access token names its user, generation, organization and role to whoever verifies it
  within its life of ten minutes and thirty seconds of clock tolerance either way, and to nobody
  outside it. \<close>

theorem access_token_roundtrip:
  assumes "jose_reads j" and "issueAccessToken j i jti secret issuedMs = Inr t" and "jti \<noteq> []"
    and "safe_integer (issuedMs div 1000)" and "safe_integer (issuedMs div 1000 + 600)"
  shows "case verifyAccessToken j t secret nowMs of
      Inr p \<Rightarrow> access_token_life issuedMs nowMs \<and> p = \<lparr>ap_sub = ai_user i, ap_version = (case ai_version i of None \<Rightarrow> 0 | Some v \<Rightarrow> v),
        ap_org = ai_org i, ap_role = JStr (role_name (ai_role i))\<rparr>
    | Inl _ \<Rightarrow> \<not> access_token_life issuedMs nowMs"
proof -
  define v where "v = (case ai_version i of None \<Rightarrow> 0 | Some v \<Rightarrow> v)"
  define p where "p = access_claims i v jti (issuedMs div 1000)"
  have key: "secretKey secret = Inr secret" and t: "t = jo_sign j p secret" and v: "safe_integer v" "0 \<le> v"
    using assms(2) by (auto simp: issueAccessToken_def Let_def secretKey_def p_def v_def split: if_splits sum.splits)
  have r: "jo_verify j t secret ACCESS_TOKEN_ISSUER ACCESS_TOKEN_AUDIENCE nowMs ACCESS_TOKEN_CLOCK_TOLERANCE_SECONDS [''sub'', ''jti'', ''iat'', ''exp'']
      = (if issuedMs div 1000 + 600 \<le> nowMs div 1000 - 30 then None else Some p)"
    using assms(1) unfolding jose_reads_def t
    by (simp add: p_def access_claims_def ACCESS_TOKEN_TTL_SECONDS_def ACCESS_TOKEN_CLOCK_TOLERANCE_SECONDS_def)
  have look: "map_of p ''sub'' = Some (JStr (ai_user i))" "map_of p ''jti'' = Some (JStr jti)" "map_of p ''auth_version'' = Some (JNum v)"
    "map_of p ''organization_id'' = Some (JStr (ai_org i))" "map_of p ''role'' = Some (JStr (role_name (ai_role i)))"
    "map_of p ''iat'' = Some (JNum (issuedMs div 1000))" "map_of p ''exp'' = Some (JNum (issuedMs div 1000 + 600))"
    by (simp_all add: p_def access_claims_def ACCESS_TOKEN_TTL_SECONDS_def)
  show ?thesis
  proof (cases "issuedMs div 1000 + 600 \<le> nowMs div 1000 - 30")
    case True
    then show ?thesis unfolding verifyAccessToken_def key sum.case r by (simp add: access_token_life_def)
  next
    case False
    then show ?thesis
      using assms(3-5) v unfolding verifyAccessToken_def key sum.case r v_def[symmetric]
      by (simp add: look json_safe_int_def access_token_life_def ACCESS_TOKEN_TTL_SECONDS_def ACCESS_TOKEN_CLOCK_TOLERANCE_SECONDS_def
        del: insert_iff)
  qed
qed

definition demo_jose :: "(claims \<times> string) jose" where
  "demo_jose = \<lparr>jo_sign = (\<lambda>p key. (p, key)), jo_verify = (\<lambda>(p, k) key iss aud ms tol req.
     if k = key \<and> map_of p ''iss'' = Some (JStr iss) \<and> map_of p ''aud'' = Some (JStr aud) \<and> list_all (\<lambda>k. map_of p k \<noteq> None) req
     then (case map_of p ''exp'' of Some (JNum e) \<Rightarrow> if e \<le> ms div 1000 - tol then None else Some p | _ \<Rightarrow> None) else None)\<rparr>"

definition demo_identity :: access_identity where
  "demo_identity = \<lparr>ai_user = ''u'', ai_version = Some 3, ai_org = ''o'', ai_role = ADMIN\<rparr>"

theorem access_token_roundtrip_witness:
  "verifyAccessToken demo_jose (access_claims demo_identity 3 ''j'' 1, replicate 32 CHR ''s'') (replicate 32 CHR ''s'') 5000
     = Inr \<lparr>ap_sub = ''u'', ap_version = 3, ap_org = ''o'', ap_role = JStr ''ADMIN''\<rparr>"
proof -
  have law: "jose_reads demo_jose" by (simp add: jose_reads_def demo_jose_def)
  have issued: "issueAccessToken demo_jose demo_identity ''j'' (replicate 32 CHR ''s'') 1000
      = Inr (access_claims demo_identity 3 ''j'' 1, replicate 32 CHR ''s'')"
    by (simp add: issueAccessToken_def demo_identity_def demo_jose_def secretKey_def safe_integer_def)
  from access_token_roundtrip[OF law issued, of 5000]
  show ?thesis
    by (auto simp: access_token_life_def safe_integer_def demo_identity_def split: sum.splits)
qed

lemma csrf_parts:
  assumes "length n = 43" and "length g = 43" and "list_all b64url_char n" and "list_all b64url_char g"
  shows "csrf_pattern (n @ ''.'' @ g)" and "take 43 (n @ ''.'' @ g) = n" and "drop 44 (n @ ''.'' @ g) = g"
  using assms by (simp_all add: csrf_pattern_def nth_append)

text \<open>A CSRF token that was created verifies as header and cookie; and a pair that verifies has the
  same header and cookie, whose second part is the signature of the first under the secret. \<close>

theorem csrf_tokens_are_signed:
  assumes "\<And>s m. length (cr_hmac c s m) = 32"
  shows "(createBrowserCsrfToken c secret random = Inr t \<longrightarrow> verifyBrowserCsrfToken c (Some t) (Some t) secret = Inr True)
    \<and> (verifyBrowserCsrfToken c header cookie secret = Inr True \<longrightarrow>
        (\<exists>k. header = Some k \<and> cookie = Some k \<and> csrf_pattern k \<and> from_base64url (drop 44 k) = cr_hmac c secret (take 43 k)))"
proof (intro conjI impI)
  assume "createBrowserCsrfToken c secret random = Inr t"
  then have r: "length random = 32" "\<not> length secret < 32"
    and t: "t = to_base64url random @ ''.'' @ to_base64url (signNonce c (to_base64url random) secret)"
    by (auto simp: createBrowserCsrfToken_def assertCsrfSecret_def CSRF_NONCE_BYTES_def Let_def split: if_splits option.splits)
  have "length (to_base64url random) = 43" "length (to_base64url (signNonce c (to_base64url random) secret)) = 43"
    using r assms by (simp_all add: length_base64url signNonce_def)
  note parts = csrf_parts[OF this base64url_chars base64url_chars, folded t]
  show "verifyBrowserCsrfToken c (Some t) (Some t) secret = Inr True"
    using r by (simp add: verifyBrowserCsrfToken_def assertCsrfSecret_def parts timingSafeEqual_def)
next
  assume "verifyBrowserCsrfToken c header cookie secret = Inr True"
  then show "\<exists>k. header = Some k \<and> cookie = Some k \<and> csrf_pattern k \<and> from_base64url (drop 44 k) = cr_hmac c secret (take 43 k)"
    by (auto simp: verifyBrowserCsrfToken_def timingSafeEqual_def signNonce_def split: option.splits if_splits)
qed

definition demo_crypto :: crypto where
  "demo_crypto = \<lparr>cr_sha256 = (\<lambda>m. replicate 32 (word_of_nat (length m))), cr_hmac = (\<lambda>s m. replicate 32 (word_of_nat (length s + length m)))\<rparr>"

theorem csrf_tokens_are_signed_witness:
  "\<exists>t. createBrowserCsrfToken demo_crypto (replicate 32 CHR ''s'') (replicate 32 7) = Inr t
     \<and> verifyBrowserCsrfToken demo_crypto (Some t) (Some t) (replicate 32 CHR ''s'') = Inr True"
proof -
  have len: "\<And>s m. length (cr_hmac demo_crypto s m) = 32" by (simp add: demo_crypto_def)
  obtain t where t: "createBrowserCsrfToken demo_crypto (replicate 32 CHR ''s'') (replicate 32 7) = Inr t"
    by (simp add: createBrowserCsrfToken_def assertCsrfSecret_def CSRF_NONCE_BYTES_def Let_def)
  with csrf_tokens_are_signed[OF len, of "replicate 32 CHR ''s''" "replicate 32 7" t] show ?thesis by blast
qed

end
