(* ===== verification/Api_Keys.thy ===== *)
theory Api_Keys
  imports Tokens Audit_Log Js_Text
begin

text \<open>
  Organization API keys: their text (packages/security/src/api-keys/hmac.ts), their table
  (modules/api-keys/repository.ts) and the service that issues, lists, revokes and authenticates
  them (modules/api-keys/service.ts). Timestamps in rows are microseconds. The admission trigger of
  the table is a parameter of the environment.
\<close>

section \<open>The text of a key\<close>

record created_key =
  ck_secret :: string
  ck_prefix :: string
  ck_hmac :: string

record parsed_key =
  pk_org :: string
  pk_prefix :: string

definition deriveHmac :: "crypto \<Rightarrow> string \<Rightarrow> string \<Rightarrow> js_error + string" where
  "deriveHmac c value secret = (if length secret < 32 then Inl (PlainError ''HMAC secret must contain at least 32 bytes'')
     else Inr (to_hex (cr_hmac c secret value)))"

definition deriveIdentityRateLimitKey :: "crypto \<Rightarrow> string \<Rightarrow> string \<Rightarrow> js_error + string" where
  "deriveIdentityRateLimitKey c email secret = deriveHmac c (map to_lower (js_trim email)) secret"

text \<open>ipaddr.js is a parameter: the canonical text of an address, if it is one.\<close>

definition deriveIpRateLimitKey :: "crypto \<Rightarrow> (string \<Rightarrow> string option) \<Rightarrow> string \<Rightarrow> string \<Rightarrow> js_error + string" where
  "deriveIpRateLimitKey c ip address secret = (case ip address of None \<Rightarrow> Inl (PlainError ''Invalid IP address'')
     | Some canonical \<Rightarrow> deriveHmac c canonical secret)"

definition hex_letter :: "char \<Rightarrow> bool" where
  "hex_letter ch \<longleftrightarrow> digit_char ch \<or> (CHR ''a'' \<le> ch \<and> ch \<le> CHR ''f'')"

definition uuid_parts :: "string \<Rightarrow> string list option" where
  "uuid_parts s = (if length s = 36 \<and> s ! 8 = CHR ''-'' \<and> s ! 13 = CHR ''-'' \<and> s ! 18 = CHR ''-'' \<and> s ! 23 = CHR ''-''
       \<and> list_all (\<lambda>ch. hex_letter (to_lower ch)) (take 8 s @ take 4 (drop 9 s) @ take 4 (drop 14 s) @ take 4 (drop 19 s) @ drop 24 s)
     then Some [take 8 s, take 4 (drop 9 s), take 4 (drop 14 s), take 4 (drop 19 s), drop 24 s] else None)"

definition createApiKey :: "crypto \<Rightarrow> string \<Rightarrow> bytes \<Rightarrow> bytes \<Rightarrow> js_error + created_key" where
  "createApiKey c hmacSecret random9 random32 =
    (let prefix = to_base64url random9; secret = ''jrc_'' @ prefix @ ''_'' @ to_base64url random32
     in (case deriveHmac c secret hmacSecret of Inl e \<Rightarrow> Inl e
         | Inr h \<Rightarrow> Inr \<lparr>ck_secret = secret, ck_prefix = prefix, ck_hmac = h\<rparr>))"

definition createOrganizationApiKey :: "crypto \<Rightarrow> string \<Rightarrow> string \<Rightarrow> bytes \<Rightarrow> bytes \<Rightarrow> js_error + created_key" where
  "createOrganizationApiKey c org hmacSecret random9 random32 =
    (case uuid_parts org of None \<Rightarrow> Inl (PlainError ''Invalid organization ID'')
     | Some parts \<Rightarrow>
       (let locator = map to_lower (concat parts); prefix = locator @ ''-'' @ to_base64url random9;
            secret = ''jrc_'' @ prefix @ ''_'' @ to_base64url random32
        in (case deriveHmac c secret hmacSecret of Inl e \<Rightarrow> Inl e
            | Inr h \<Rightarrow> Inr \<lparr>ck_secret = secret, ck_prefix = prefix, ck_hmac = h\<rparr>)))"

definition parseOrganizationApiKey :: "string \<Rightarrow> parsed_key option" where
  "parseOrganizationApiKey s =
    (if length s = 93 \<and> take 4 s = ''jrc_'' \<and> list_all hex_letter (take 32 (drop 4 s)) \<and> s ! 36 = CHR ''-''
        \<and> list_all b64url_char (take 12 (drop 37 s)) \<and> s ! 49 = CHR ''_'' \<and> list_all b64url_char (drop 50 s)
     then (let prefix = take 45 (drop 4 s); l = take 32 prefix
       in Some \<lparr>pk_org = take 8 l @ ''-'' @ take 4 (drop 8 l) @ ''-'' @ take 4 (drop 12 l) @ ''-'' @ take 4 (drop 16 l) @ ''-'' @ drop 20 l,
            pk_prefix = prefix\<rparr>)
     else None)"

definition verifyApiKey :: "crypto \<Rightarrow> string \<Rightarrow> string \<Rightarrow> string \<Rightarrow> js_error + bool" where
  "verifyApiKey c candidate expectedHmac hmacSecret = (case deriveHmac c candidate hmacSecret of Inl e \<Rightarrow> Inl e
     | Inr h \<Rightarrow> (let actual = from_hex h; expected = from_hex expectedHmac
         in if length actual \<noteq> length expected then Inr False else timingSafeEqual actual expected))"

section \<open>The table\<close>

record key_row =
  ky_id :: string
  ky_org :: string
  ky_name :: string
  ky_prefix :: string
  ky_hmac :: string
  ky_scopes :: "string list"
  ky_expires :: "int option"
  ky_revoked :: "int option"
  ky_lastUsed :: "int option"
  ky_created :: int

record key_insert =
  ki_org :: string
  ki_name :: string
  ki_prefix :: string
  ki_hmac :: string
  ki_scopes :: "string list"
  ki_expires :: "int option"

record key_db =
  kd_keys :: "key_row list"
  kd_orgs :: "(string \<times> row_status) list"
  kd_audit :: "tenant_record list"

text \<open>What the database brings to a statement: the transaction's time, a fresh identifier, the readings
  of \<open>clock_timestamp()\<close> and the admission trigger.\<close>

record key_env =
  ke_now :: int
  ke_id :: string
  ke_clock :: "nat \<Rightarrow> int"
  ke_admit :: "key_db \<Rightarrow> key_row \<Rightarrow> js_error option"

definition insert_key :: "key_env \<Rightarrow> key_insert \<Rightarrow> (key_db, key_row) tx" where
  "insert_key env i s =
    (let row = \<lparr>ky_id = ke_id env, ky_org = ki_org i, ky_name = ki_name i, ky_prefix = ki_prefix i, ky_hmac = ki_hmac i,
           ky_scopes = ki_scopes i, ky_expires = map_option db_us (ki_expires i), ky_revoked = None, ky_lastUsed = None, ky_created = ke_now env\<rparr>
     in (case ke_admit env s row of Some e \<Rightarrow> Inl e
       | None \<Rightarrow>
         if list_ex (\<lambda>k. ky_id k = ke_id env) (kd_keys s) then Inl (DatabaseError ''23505'' ''api_keys_pkey'')
         else if list_ex (\<lambda>k. ky_org k = ki_org i \<and> ky_name k = ki_name i) (kd_keys s) then Inl (DatabaseError ''23505'' ''api_keys_org_name_unique'')
         else if list_ex (\<lambda>k. ky_prefix k = ki_prefix i) (kd_keys s) then Inl (DatabaseError ''23505'' ''api_keys_prefix_global_unique'')
         else Inr (row, s\<lparr>kd_keys := kd_keys s @ [row]\<rparr>)))"

record key_cursor =
  kc_org :: string
  kc_created :: int
  kc_id :: string

definition key_after :: "key_cursor option \<Rightarrow> key_row \<Rightarrow> bool" where
  "key_after cur k = (case cur of None \<Rightarrow> True | Some c \<Rightarrow> (ky_created k, ky_id k) < (db_us (kc_created c), kc_id c))"

definition list_keys :: "string \<Rightarrow> nat \<Rightarrow> key_cursor option \<Rightarrow> key_db \<Rightarrow> key_row list" where
  "list_keys org n cur s = take n (rev (sort_key (\<lambda>k. (ky_created k, ky_id k))
     (filter (\<lambda>k. ky_org k = org \<and> key_after cur k) (kd_keys s))))"

definition revoke_key :: "string \<Rightarrow> string \<Rightarrow> int \<Rightarrow> (key_db, key_row option) tx" where
  "revoke_key org kid at s =
    (let hit = (\<lambda>k. ky_org k = org \<and> ky_id k = kid);
         keys = update_rows hit (\<lambda>k. k\<lparr>ky_revoked := (case ky_revoked k of Some r \<Rightarrow> Some r | None \<Rightarrow> Some (db_us at))\<rparr>) (kd_keys s)
     in Inr (find hit keys, s\<lparr>kd_keys := keys\<rparr>))"

definition findActiveByPrefix :: "string \<Rightarrow> string \<Rightarrow> key_db \<Rightarrow> key_row option" where
  "findActiveByPrefix org prefix s = find (\<lambda>k. ky_org k = org \<and> ky_prefix k = prefix
     \<and> list_ex (\<lambda>x. fst x = ky_org k \<and> snd x \<noteq> DISABLED) (kd_orgs s)) (kd_keys s)"

definition markUsed :: "string \<Rightarrow> int \<Rightarrow> string \<Rightarrow> (key_db, unit) tx" where
  "markUsed kid at org = tx_modify (\<lambda>s. s\<lparr>kd_keys := update_rows (\<lambda>k. ky_org k = org \<and> ky_id k = kid)
     (\<lambda>k. k\<lparr>ky_lastUsed := Some (db_us at)\<rparr>) (kd_keys s)\<rparr>)"

section \<open>The service\<close>

datatype key_credential = JwtActor string | KeyActor string

record key_ctx =
  kx_org :: string
  kx_request :: string
  kx_cred :: key_credential

record issue_request =
  ir_name :: string
  ir_scopes :: "string list"
  ir_expires :: "int option"

record key_view =
  kv_id :: string
  kv_name :: string
  kv_prefix :: string
  kv_scopes :: "string list"
  kv_expires :: "int option"
  kv_revoked :: "int option"
  kv_lastUsed :: "int option"
  kv_created :: int

record issued_view =
  iv_id :: string
  iv_name :: string
  iv_prefix :: string
  iv_scopes :: "string list"
  iv_expires :: "int option"
  iv_created :: int
  iv_secret :: string

definition requestedPartnerScopes :: "string list \<Rightarrow> string list" where
  "requestedPartnerScopes scopes = filter (\<lambda>x. x \<in> set [''messaging:read'', ''messaging:send'', ''webhooks:manage'', ''media:upload'',
     ''media:send'', ''media:archive'']) scopes"

definition key_to_view :: "key_row \<Rightarrow> key_view" where
  "key_to_view k = \<lparr>kv_id = ky_id k, kv_name = ky_name k, kv_prefix = ky_prefix k, kv_scopes = ky_scopes k,
     kv_expires = map_option js_ms (ky_expires k), kv_revoked = map_option js_ms (ky_revoked k),
     kv_lastUsed = map_option js_ms (ky_lastUsed k), kv_created = js_ms (ky_created k)\<rparr>"

definition key_audit :: "key_ctx \<Rightarrow> tenant_event_type \<Rightarrow> string \<Rightarrow> (key_db, unit) tx" where
  "key_audit ctx ty rid = tx_modify (\<lambda>s. s\<lparr>kd_audit := writeTenantAudit
     \<lparr>te_type = ty, te_org = kx_org ctx, te_actorId = (case kx_cred ctx of KeyActor _ \<Rightarrow> None | JwtActor a \<Rightarrow> Some a),
       te_actorKind = (case kx_cred ctx of KeyActor k \<Rightarrow> API_KEY k | JwtActor _ \<Rightarrow> NoKind), te_resourceId = rid, te_requestId = kx_request ctx\<rparr>
     (kd_audit s)\<rparr>)"

definition isGlobalPrefixCollision :: "js_error \<Rightarrow> bool" where
  "isGlobalPrefixCollision e = (case e of DatabaseError c k \<Rightarrow> c = ''23505'' \<and> k = ''api_keys_prefix_global_unique'' | _ \<Rightarrow> False)"

text \<open>The issuer of a delegated key still holds what it passes on, at the given reading of the clock.\<close>

definition assertIssuer :: "key_env \<Rightarrow> key_ctx \<Rightarrow> string list \<Rightarrow> nat \<Rightarrow> (key_db, unit) tx" where
  "assertIssuer env ctx partner n s = (case kx_cred ctx of JwtActor _ \<Rightarrow> Inr ((), s)
     | KeyActor kid \<Rightarrow> if partner = [] then Inr ((), s)
         else if list_ex (\<lambda>k. ky_org k = kx_org ctx \<and> ky_id k = kid \<and> ky_revoked k = None
             \<and> (case ky_expires k of None \<Rightarrow> True | Some e \<Rightarrow> ke_clock env n < e) \<and> set (''api_keys:manage'' # partner) \<subseteq> set (ky_scopes k)) (kd_keys s)
         then Inr ((), s) else Inl (ApiKeyServiceError ''PARTNER_SCOPE_DELEGATION_FORBIDDEN''))"

fun unique_of :: "string list \<Rightarrow> string list" where
  "unique_of [] = []"
| "unique_of (x # xs) = x # filter (\<lambda>y. y \<noteq> x) (unique_of xs)"

definition issue_transaction :: "key_env \<Rightarrow> key_ctx \<Rightarrow> issue_request \<Rightarrow> created_key \<Rightarrow> (key_db, key_row) tx" where
  "issue_transaction env ctx input cred =
    (let partner = requestedPartnerScopes (ir_scopes input) in
     tx_bind (assertIssuer env ctx partner 0) (\<lambda>_. tx_bind (assertIssuer env ctx partner 1) (\<lambda>_.
     tx_bind (insert_key env \<lparr>ki_org = kx_org ctx, ki_name = ir_name input, ki_prefix = ck_prefix cred, ki_hmac = ck_hmac cred,
       ki_scopes = unique_of (ir_scopes input), ki_expires = ir_expires input\<rparr>) (\<lambda>row.
     tx_bind (assertIssuer env ctx partner 2) (\<lambda>_. tx_bind (key_audit ctx API_KEY_ISSUED (ky_id row)) (\<lambda>_.
     tx_bind (assertIssuer env ctx partner 3) (\<lambda>_. tx_return row)))))))"

text \<open>At most five attempts, each with its own random bytes and transaction; \<open>left\<close> counts down.\<close>

fun issue_attempts ::
  "crypto \<Rightarrow> string \<Rightarrow> (nat \<Rightarrow> key_env) \<Rightarrow> (nat \<Rightarrow> bytes \<times> bytes) \<Rightarrow> key_ctx \<Rightarrow> issue_request \<Rightarrow> nat \<Rightarrow> key_db
   \<Rightarrow> (js_error + issued_view) \<times> key_db" where
  "issue_attempts c secret env random ctx input 0 s = (Inl (PlainError ''Unreachable API key retry state''), s)"
| "issue_attempts c secret env random ctx input (Suc left) s =
    (case createOrganizationApiKey c (kx_org ctx) secret (fst (random left)) (snd (random left)) of Inl e \<Rightarrow> (Inl e, s)
     | Inr cred \<Rightarrow> (case run_tx (issue_transaction (env left) ctx input cred) s of
         (Inr row, s') \<Rightarrow> (let v = key_to_view row in
            (Inr \<lparr>iv_id = kv_id v, iv_name = kv_name v, iv_prefix = kv_prefix v, iv_scopes = kv_scopes v, iv_expires = kv_expires v,
              iv_created = kv_created v, iv_secret = ck_secret cred\<rparr>, s'))
       | (Inl e, s') \<Rightarrow> if \<not> isGlobalPrefixCollision e \<or> left = 0 then (Inl e, s')
           else issue_attempts c secret env random ctx input left s'))"

definition issueApiKey ::
  "crypto \<Rightarrow> string \<Rightarrow> (nat \<Rightarrow> key_env) \<Rightarrow> (nat \<Rightarrow> bytes \<times> bytes) \<Rightarrow> int \<Rightarrow> key_ctx \<Rightarrow> issue_request \<Rightarrow> key_db
   \<Rightarrow> (js_error + issued_view) \<times> key_db" where
  "issueApiKey c secret env random nowMs ctx input s =
    (if (case ir_expires input of None \<Rightarrow> False | Some e \<Rightarrow> e \<le> nowMs) then (Inl (ApiKeyServiceError ''INVALID_EXPIRATION''), s)
     else issue_attempts c secret env random ctx input 5 s)"

definition key_encodeCursor :: "key_row \<Rightarrow> key_cursor" where
  "key_encodeCursor k = \<lparr>kc_org = ky_org k, kc_created = js_ms (ky_created k), kc_id = ky_id k\<rparr>"

definition key_decodeCursor :: "key_cursor option \<Rightarrow> string \<Rightarrow> js_error + key_cursor" where
  "key_decodeCursor cur org = (case cur of None \<Rightarrow> Inl (ApiKeyServiceError ''INVALID_CURSOR'')
     | Some c \<Rightarrow> if uuid_parts (kc_id c) = None then Inl (ApiKeyServiceError ''INVALID_CURSOR'')
         else if kc_org c \<noteq> org then Inl (ApiKeyServiceError ''CURSOR_NOT_FOUND'') else Inr c)"

definition listApiKeys :: "key_ctx \<Rightarrow> nat \<Rightarrow> key_cursor option option \<Rightarrow> key_db \<Rightarrow> js_error + (key_view list \<times> key_cursor option)" where
  "listApiKeys ctx limit cur s =
    (case (case cur of None \<Rightarrow> Inr None | Some text \<Rightarrow> (case key_decodeCursor text (kx_org ctx) of Inl e \<Rightarrow> Inl e | Inr c \<Rightarrow> Inr (Some c))) of
       Inl e \<Rightarrow> Inl e
     | Inr c \<Rightarrow> (let rows = list_keys (kx_org ctx) (limit + 1) c s; hasNext = length rows > limit; page = take limit rows
         in Inr (map key_to_view page, if hasNext \<and> page \<noteq> [] then Some (key_encodeCursor (last page)) else None)))"

definition revokeApiKey :: "key_ctx \<Rightarrow> string \<Rightarrow> int \<Rightarrow> key_db \<Rightarrow> (js_error + bool) \<times> key_db" where
  "revokeApiKey ctx kid nowMs = run_tx (tx_bind (revoke_key (kx_org ctx) kid nowMs) (\<lambda>revoked.
     case revoked of None \<Rightarrow> tx_return False
     | Some k \<Rightarrow> tx_bind (key_audit ctx API_KEY_REVOKED (ky_id k)) (\<lambda>_. tx_return True)))"

record key_principal =
  kp_id :: string
  kp_org :: string
  kp_scopes :: "string list"

definition authenticateApiKey :: "crypto \<Rightarrow> string \<Rightarrow> int \<Rightarrow> string \<Rightarrow> key_db \<Rightarrow> (js_error + key_principal option) \<times> key_db" where
  "authenticateApiKey c secret nowMs raw s =
    (case parseOrganizationApiKey raw of None \<Rightarrow> (Inr None, s)
     | Some p \<Rightarrow> run_tx (tx_bind (tx_gets (findActiveByPrefix (pk_org p) (pk_prefix p))) (\<lambda>row.
         case row of None \<Rightarrow> tx_return None
         | Some k \<Rightarrow>
           if ky_revoked k \<noteq> None \<or> (case ky_expires k of None \<Rightarrow> False | Some e \<Rightarrow> js_ms e \<le> nowMs) then tx_return None
           else (case verifyApiKey c raw (ky_hmac k) secret of Inl e \<Rightarrow> tx_throw e
             | Inr False \<Rightarrow> tx_return None
             | Inr True \<Rightarrow> tx_bind (markUsed (ky_id k) nowMs (pk_org p)) (\<lambda>_.
                 tx_return (Some \<lparr>kp_id = ky_id k, kp_org = ky_org k, kp_scopes = ky_scopes k\<rparr>))))) s)"

end
