(* ===== verification/Auth_Service.thy ===== *)
theory Auth_Service
  imports Effects Api_Keys Rate_Limit Idempotency
begin

text \<open>
  The authentication services of apps/api/src/modules/auth: login (login.ts), choice of an
  organization (select-organization.ts), refresh (refresh.ts), logout (logout.ts), the progressive
  delay (delay.ts) and the browser session (browser-session.ts), as steps on the database, the rate
  limiter and the two audit logs. The store of the limiter, argon2, jose and the failures of the
  audit writer are parameters; \<open>between\<close> is what other requests do to the database while a login
  verifies its password.
\<close>

section \<open>World and dependencies\<close>

record 'l auth_world =
  aw_db :: auth_db
  aw_limits :: 'l
  aw_trace :: "security_record list"
  aw_tenant :: "tenant_record list"
  aw_slept :: "int list"

record ('l, 't) auth_deps =
  ad_consume :: "string \<Rightarrow> int \<Rightarrow> int \<Rightarrow> 'l \<Rightarrow> (js_error + decision) \<times> 'l"
  ad_limit :: int
  ad_ttlMs :: int
  ad_baseDelayMs :: int
  ad_maximumDelayMs :: int
  ad_crypto :: crypto
  ad_ip :: "string \<Rightarrow> string option"
  ad_passwords :: password_crypto
  ad_jose :: "'t jose"
  ad_ipSecret :: string
  ad_identitySecret :: string
  ad_jwtSecret :: string
  ad_refreshSecret :: string
  ad_auditFails :: "security_record \<Rightarrow> js_error option"
  ad_tenantAuditFails :: "tenant_record \<Rightarrow> js_error option"

definition SELECTION_TOKEN_TTL_MS :: int where "SELECTION_TOKEN_TTL_MS = 5 * 60 * 1000"
definition REFRESH_TOKEN_TTL_MS :: int where "REFRESH_TOKEN_TTL_MS = 30 * 24 * 60 * 60 * 1000"

text \<open>Defaults of the services.\<close>

definition default_rate_limit :: "int \<times> int" where "default_rate_limit = (10, 60000)"
definition default_delay :: "int \<times> int" where "default_delay = (100, 2000)"

definition calculateProgressiveDelayMs :: "int \<Rightarrow> int \<Rightarrow> int \<Rightarrow> int" where
  "calculateProgressiveDelayMs attemptCount baseDelayMs maximumDelayMs =
    (if attemptCount \<le> 1 then 0 else min maximumDelayMs (baseDelayMs * 2 ^ nat (attemptCount - 2)))"

definition writeSecurityAudit :: "('l, 't) auth_deps \<Rightarrow> security_event \<Rightarrow> ('l auth_world, unit) io" where
  "writeSecurityAudit d e = io_bind (io_lift (toSecurityAuditRecord e)) (\<lambda>r.
     case ad_auditFails d r of Some err \<Rightarrow> io_throw err | None \<Rightarrow> io_modify (\<lambda>w. w\<lparr>aw_trace := aw_trace w @ [r]\<rparr>))"

definition writeOrganizationSelectedAudit :: "('l, 't) auth_deps \<Rightarrow> string \<Rightarrow> string \<Rightarrow> string \<Rightarrow> ('l auth_world, unit) io" where
  "writeOrganizationSelectedAudit d org actor requestId =
    (let e = \<lparr>te_type = ORGANIZATION_SELECTED, te_org = org, te_actorId = Some actor, te_actorKind = NoKind, te_resourceId = org, te_requestId = requestId\<rparr>
     in (case ad_tenantAuditFails d (toTenantAuditRecord e) of Some err \<Rightarrow> io_throw err
         | None \<Rightarrow> io_modify (\<lambda>w. w\<lparr>aw_tenant := writeTenantAudit e (aw_tenant w)\<rparr>)))"

section \<open>Admission: rate limit and delay\<close>

record limit_keys =
  lk_identity :: string
  lk_ip :: string

definition createRateLimitKeys :: "crypto \<Rightarrow> (string \<Rightarrow> string option) \<Rightarrow> string \<Rightarrow> string \<Rightarrow> string \<Rightarrow> string \<Rightarrow> js_error + limit_keys" where
  "createRateLimitKeys c ip email address ipSecret identitySecret =
    (case deriveIdentityRateLimitKey c email identitySecret of Inl e \<Rightarrow> Inl e
     | Inr i \<Rightarrow> (case deriveIpRateLimitKey c ip address ipSecret of Inl e \<Rightarrow> Inl e
       | Inr a \<Rightarrow> Inr \<lparr>lk_identity = ''identity:'' @ i, lk_ip = ''ip:'' @ a\<rparr>))"

definition createSelectionRateLimitKeys :: "crypto \<Rightarrow> (string \<Rightarrow> string option) \<Rightarrow> string \<Rightarrow> string \<Rightarrow> string \<Rightarrow> string \<Rightarrow> js_error + limit_keys" where
  "createSelectionRateLimitKeys c ip token address ipSecret identitySecret =
    (if length identitySecret < 32 then Inl (PlainError ''HMAC secret must contain at least 32 bytes'')
     else (case deriveIpRateLimitKey c ip address ipSecret of Inl e \<Rightarrow> Inl e
       | Inr a \<Rightarrow> Inr \<lparr>lk_identity = ''identity:'' @ to_hex (cr_hmac c identitySecret token), lk_ip = ''ip:'' @ a\<rparr>))"

record audit_digests =
  dg_identity :: string
  dg_ip :: string

definition digests :: "limit_keys \<Rightarrow> js_error + audit_digests" where
  "digests k = (case createAuditDigest (drop (length ''identity:'') (lk_identity k)) of Inl e \<Rightarrow> Inl e
     | Inr i \<Rightarrow> (case createAuditDigest (drop (length ''ip:'') (lk_ip k)) of Inl e \<Rightarrow> Inl e
       | Inr a \<Rightarrow> Inr \<lparr>dg_identity = i, dg_ip = a\<rparr>))"

definition auth_event :: "security_event_type \<Rightarrow> string \<Rightarrow> audit_digests \<Rightarrow> security_event" where
  "auth_event ty requestId g = \<lparr>se_type = ty, se_requestId = requestId, se_identityDigest = Some (dg_identity g), se_ipDigest = Some (dg_ip g)\<rparr>"

definition seconds_value :: "int \<Rightarrow> js_val" where
  "seconds_value ms = (if ms mod 1000 = 0 then VInt (ms div 1000)
     else VFloat (show_int (ms div 1000) @ ''.'' @ rev (dropWhile (\<lambda>ch. ch = CHR ''0'')
       (rev (drop 1 (show_int (1000 + ms mod 1000)))))))"

text \<open>Both consumptions run, whatever the other answers; either failure is the failure of both.\<close>

definition consume_both :: "('l, 't) auth_deps \<Rightarrow> limit_keys \<Rightarrow> ('l auth_world, decision \<times> decision) io" where
  "consume_both d k w =
    (let (r1, l1) = ad_consume d (lk_ip k) (ad_limit d) (ad_ttlMs d) (aw_limits w);
         (r2, l2) = ad_consume d (lk_identity k) (ad_limit d) (ad_ttlMs d) l1;
         w' = w\<lparr>aw_limits := l2\<rparr>
     in (case (r1, r2) of (Inr d1, Inr d2) \<Rightarrow> (Inr (d1, d2), w') | (Inl e, _) \<Rightarrow> (Inl e, w') | (_, Inl e) \<Rightarrow> (Inl e, w')))"

definition ceil_seconds :: "int \<Rightarrow> int" where
  "ceil_seconds ms = - ((- ms) div 1000)"

definition admission :: "('l, 't) auth_deps \<Rightarrow> string \<Rightarrow> limit_keys \<Rightarrow> audit_digests \<Rightarrow> ('l auth_world, unit) io" where
  "admission d requestId k g =
    io_bind (io_catch (consume_both d k) (\<lambda>_. io_bind (writeSecurityAudit d (auth_event AUTH_RATE_LIMIT_UNAVAILABLE requestId g))
      (\<lambda>_. io_throw (AuthServiceError ''AUTH_TEMPORARILY_UNAVAILABLE'' 503 (Some 1))))) (\<lambda>(d1, d2).
    case find (\<lambda>x. \<not> de_allowed x) [d1, d2] of
      Some blocked \<Rightarrow> io_bind (writeSecurityAudit d (auth_event AUTH_RATE_LIMITED requestId g)) (\<lambda>_.
        io_throw (AuthServiceError ''AUTH_RATE_LIMITED'' 429 (Some (max 1 (ceil_seconds (de_retryAfterMs blocked))))))
    | None \<Rightarrow>
      io_bind (io_when (de_released d1 \<or> de_released d2) (writeSecurityAudit d (auth_event AUTH_RATE_LIMIT_RELEASED requestId g))) (\<lambda>_.
      let delayMs = calculateProgressiveDelayMs (max (de_count d1) (de_count d2)) (ad_baseDelayMs d) (ad_maximumDelayMs d)
      in io_when (delayMs > 0) (io_bind (writeSecurityAudit d (auth_event (AUTH_PROGRESSIVE_DELAY_APPLIED (seconds_value delayMs)) requestId g))
           (\<lambda>_. io_modify (\<lambda>w. w\<lparr>aw_slept := aw_slept w @ [delayMs]\<rparr>)))))"

section \<open>Login\<close>

record login_command =
  lc_email :: string
  lc_password :: string
  lc_ipAddress :: string
  lc_requestId :: string

record login_result =
  lr_organizations :: "login_org list"
  lr_selectionToken :: string
  lr_expiresAt :: int

definition auth_part :: "(auth_db \<Rightarrow> (js_error + 'a) \<times> auth_db) \<Rightarrow> ('l auth_world, 'a) io" where
  "auth_part = io_part aw_db (\<lambda>s w. w\<lparr>aw_db := s\<rparr>)"

definition deny_login :: "('l, 't) auth_deps \<Rightarrow> string \<Rightarrow> audit_digests \<Rightarrow> ('l auth_world, 'a) io" where
  "deny_login d requestId g = io_bind (writeSecurityAudit d (auth_event AUTH_LOGIN_DENIED requestId g))
     (\<lambda>_. io_throw (AuthServiceError ''INVALID_CREDENTIALS'' 401 None))"

definition login_identified ::
  "('l, 't) auth_deps \<Rightarrow> login_command \<Rightarrow> (auth_db \<Rightarrow> auth_db) \<Rightarrow> bytes \<Rightarrow> int \<Rightarrow> audit_digests \<Rightarrow> ('l auth_world, login_result) io" where
  "login_identified d cmd between random issuedAt g =
    io_bind (io_gets (\<lambda>w. findLoginIdentity (map to_lower (js_trim (lc_email cmd))) (aw_db w))) (\<lambda>identity.
    let matches = verifyPasswordOrDummy (ad_passwords d) (lc_password cmd) (map_option li_passwordHash identity)
    in case identity of None \<Rightarrow> deny_login d (lc_requestId cmd) g
       | Some i \<Rightarrow>
         if li_status i \<noteq> ACTIVE \<or> \<not> matches \<or> li_orgs i = [] then deny_login d (lc_requestId cmd) g
         else
           (let selectionToken = createOpaqueToken random; expiresAt = issuedAt + SELECTION_TOKEN_TTL_MS
            in io_bind (io_modify (\<lambda>w. w\<lparr>aw_db := between (aw_db w)\<rparr>)) (\<lambda>_.
               io_bind (auth_part (createSelectionSession (li_id i) (hashOpaqueToken (ad_crypto d) selectionToken) expiresAt (li_version i))) (\<lambda>created.
               if \<not> created then deny_login d (lc_requestId cmd) g
               else io_bind (writeSecurityAudit d (auth_event AUTH_LOGIN_ACCEPTED (lc_requestId cmd) g)) (\<lambda>_.
                 io_return \<lparr>lr_organizations = li_orgs i, lr_selectionToken = selectionToken, lr_expiresAt = expiresAt\<rparr>)))))"

definition login ::
  "('l, 't) auth_deps \<Rightarrow> login_command \<Rightarrow> (auth_db \<Rightarrow> auth_db) \<Rightarrow> bytes \<Rightarrow> int \<Rightarrow> ('l auth_world, login_result) io" where
  "login d cmd between random issuedAt =
    io_bind (io_lift (createRateLimitKeys (ad_crypto d) (ad_ip d) (map to_lower (js_trim (lc_email cmd))) (lc_ipAddress cmd)
      (ad_ipSecret d) (ad_identitySecret d))) (\<lambda>keys.
    io_bind (io_lift (digests keys)) (\<lambda>g.
    io_bind (admission d (lc_requestId cmd) keys g) (\<lambda>_.
    login_identified d cmd between random issuedAt g)))"

section \<open>Tokens\<close>

record 't auth_tokens =
  at_accessToken :: 't
  at_refreshToken :: string
  at_expiresIn :: int

record select_command =
  sc_org :: string
  sc_selectionToken :: string
  sc_requestId :: string
  sc_ipAddress :: string

text \<open>What a request draws: random bytes, identifiers and the time.\<close>

record draws =
  dr_random :: bytes
  dr_tokenId :: string
  dr_familyId :: string
  dr_jti :: string
  dr_nowMs :: int

definition next_token :: "draws \<Rightarrow> string \<Rightarrow> new_token" where
  "next_token x hash = \<lparr>nt_id = dr_tokenId x, nt_family = dr_familyId x, nt_hash = hash, nt_expires = dr_nowMs x + REFRESH_TOKEN_TTL_MS\<rparr>"

definition issue_for :: "('l, 't) auth_deps \<Rightarrow> draws \<Rightarrow> string \<Rightarrow> string \<Rightarrow> auth_role \<Rightarrow> nat \<Rightarrow> js_error + 't" where
  "issue_for d x uid org role v = issueAccessToken (ad_jose d)
     \<lparr>ai_user = uid, ai_version = Some (int v), ai_org = org, ai_role = role\<rparr> (dr_jti x) (ad_jwtSecret d) (dr_nowMs x)"

definition tokens_of :: "'t \<Rightarrow> string \<Rightarrow> 't auth_tokens" where
  "tokens_of access refresh = \<lparr>at_accessToken = access, at_refreshToken = refresh, at_expiresIn = 600\<rparr>"

definition selectOrganization :: "('l, 't) auth_deps \<Rightarrow> select_command \<Rightarrow> draws \<Rightarrow> ('l auth_world, 't auth_tokens) io" where
  "selectOrganization d cmd x =
    io_bind (io_lift (createSelectionRateLimitKeys (ad_crypto d) (ad_ip d) (sc_selectionToken cmd) (sc_ipAddress cmd)
      (ad_ipSecret d) (ad_identitySecret d))) (\<lambda>keys.
    io_bind (io_lift (digests keys)) (\<lambda>g.
    io_bind (admission d (sc_requestId cmd) keys g) (\<lambda>_.
    let refreshToken = createOpaqueToken (dr_random x) in
    io_bind (io_lift (hashRefreshToken (ad_crypto d) refreshToken (ad_refreshSecret d))) (\<lambda>hash.
    io_bind (auth_part (consumeSelection (hashOpaqueToken (ad_crypto d) (sc_selectionToken cmd)) (sc_org cmd) (dr_nowMs x) (next_token x hash))) (\<lambda>selected.
    case selected of
      Refused r \<Rightarrow> io_bind (writeSecurityAudit d (auth_event (if r = REUSED then AUTH_SELECTION_TOKEN_REUSED else AUTH_SELECTION_TOKEN_INVALID)
          (sc_requestId cmd) g)) (\<lambda>_. io_throw (AuthServiceError ''INVALID_CREDENTIALS'' 401 None))
    | Granted uid org role v \<Rightarrow>
        io_bind (io_lift (issue_for d x uid org role v)) (\<lambda>access.
        io_bind (writeOrganizationSelectedAudit d org uid (sc_requestId cmd)) (\<lambda>_.
        io_return (tokens_of access refreshToken))))))))"

definition token_event :: "security_event_type \<Rightarrow> string \<Rightarrow> string \<Rightarrow> security_event" where
  "token_event ty requestId identityDigest = \<lparr>se_type = ty, se_requestId = requestId, se_identityDigest = Some identityDigest, se_ipDigest = None\<rparr>"

definition refreshSession :: "('l, 't) auth_deps \<Rightarrow> string \<Rightarrow> string \<Rightarrow> draws \<Rightarrow> ('l auth_world, 't auth_tokens) io" where
  "refreshSession d rawToken requestId x =
    (let nextRefreshToken = createOpaqueToken (dr_random x) in
    io_bind (io_lift (hashRefreshToken (ad_crypto d) rawToken (ad_refreshSecret d))) (\<lambda>currentHash.
    io_bind (io_lift (hashRefreshToken (ad_crypto d) nextRefreshToken (ad_refreshSecret d))) (\<lambda>nextHash.
    io_bind (auth_part (run_tx (rotateRefreshToken currentHash (next_token x nextHash) (dr_nowMs x)))) (\<lambda>rotation.
    io_bind (io_lift (createAuditDigest currentHash)) (\<lambda>identityDigest.
    case rotation of
      Refused r \<Rightarrow> io_bind (writeSecurityAudit d (token_event (if r = REUSED then AUTH_REFRESH_REUSED else AUTH_REFRESH_INVALID) requestId identityDigest))
        (\<lambda>_. io_throw (AuthServiceError ''INVALID_SESSION'' 401 None))
    | Granted uid org role v \<Rightarrow>
        io_bind (io_lift (issue_for d x uid org role v)) (\<lambda>access.
        io_bind (writeSecurityAudit d (token_event AUTH_REFRESH_ROTATED requestId identityDigest)) (\<lambda>_.
        io_return (tokens_of access nextRefreshToken))))))))"

definition logout :: "('l, 't) auth_deps \<Rightarrow> string \<Rightarrow> string \<Rightarrow> int \<Rightarrow> ('l auth_world, unit) io" where
  "logout d rawToken requestId nowMs =
    io_bind (io_lift (hashRefreshToken (ad_crypto d) rawToken (ad_refreshSecret d))) (\<lambda>hash.
    io_bind (auth_part (run_tx (revokeRefreshFamily hash nowMs))) (\<lambda>outcome.
    io_bind (io_lift (createAuditDigest hash)) (\<lambda>digest.
    writeSecurityAudit d (token_event (if outcome = LOGOUT_INVALID then AUTH_LOGOUT_INVALID else AUTH_LOGOUT_COMPLETED) requestId digest))))"

section \<open>The browser session\<close>

record 't browser_result =
  br_refreshToken :: string
  br_accessToken :: 't
  br_user :: "string \<times> string"
  br_activeOrganization :: login_org
  br_organizations :: "login_org list"

text \<open>A session that cannot be shown is logged out before the error is thrown.\<close>

definition project :: "('l, 't) auth_deps \<Rightarrow> 't auth_tokens \<Rightarrow> string \<Rightarrow> int \<Rightarrow> ('l auth_world, 't browser_result) io" where
  "project d tokens requestId nowMs = io_catch
    (io_bind (io_lift (verifyAccessToken (ad_jose d) (at_accessToken tokens) (ad_jwtSecret d) nowMs)) (\<lambda>claims.
     io_bind (io_gets (\<lambda>w. findBrowserSessionIdentity (ap_sub claims) (aw_db w))) (\<lambda>identity.
     case identity of None \<Rightarrow> io_throw (AuthServiceError ''INVALID_SESSION'' 401 None)
     | Some i \<Rightarrow> (case find (\<lambda>x. lo_id x = ap_org claims) (bs_orgs i) of
         None \<Rightarrow> io_throw (AuthServiceError ''INVALID_SESSION'' 401 None)
       | Some active \<Rightarrow>
           if int (bs_version i) \<noteq> ap_version claims \<or> JStr (role_name (lo_role active)) \<noteq> ap_role claims
           then io_throw (AuthServiceError ''INVALID_SESSION'' 401 None)
           else io_return \<lparr>br_refreshToken = at_refreshToken tokens, br_accessToken = at_accessToken tokens,
             br_user = (bs_user i, bs_email i), br_activeOrganization = active, br_organizations = bs_orgs i\<rparr>))))
    (\<lambda>e. io_bind (logout d (at_refreshToken tokens) requestId nowMs) (\<lambda>_.
       case e of AuthServiceError _ _ _ \<Rightarrow> io_throw e | _ \<Rightarrow> io_throw (AuthServiceError ''INVALID_SESSION'' 401 None)))"

definition browser_select :: "('l, 't) auth_deps \<Rightarrow> select_command \<Rightarrow> draws \<Rightarrow> int \<Rightarrow> ('l auth_world, 't browser_result) io" where
  "browser_select d cmd x laterMs = io_bind (selectOrganization d cmd x) (\<lambda>t. project d t (sc_requestId cmd) laterMs)"

definition browser_restore :: "('l, 't) auth_deps \<Rightarrow> string \<Rightarrow> string \<Rightarrow> draws \<Rightarrow> int \<Rightarrow> ('l auth_world, 't browser_result) io" where
  "browser_restore d raw requestId x laterMs = io_bind (refreshSession d raw requestId x) (\<lambda>t. project d t requestId laterMs)"

record switch_command =
  wc_rawRefreshToken :: string
  wc_userId :: string
  wc_org :: string
  wc_target :: string
  wc_requestId :: string

definition browser_switch :: "('l, 't) auth_deps \<Rightarrow> switch_command \<Rightarrow> draws \<Rightarrow> int \<Rightarrow> ('l auth_world, 't browser_result) io" where
  "browser_switch d cmd x laterMs =
    (let nextRefreshToken = createOpaqueToken (dr_random x) in
    io_bind (io_lift (hashRefreshToken (ad_crypto d) (wc_rawRefreshToken cmd) (ad_refreshSecret d))) (\<lambda>currentHash.
    io_bind (io_lift (hashRefreshToken (ad_crypto d) nextRefreshToken (ad_refreshSecret d))) (\<lambda>nextHash.
    io_bind (auth_part (switchOrganization currentHash (wc_userId cmd) (wc_org cmd) (wc_target cmd) (dr_nowMs x) (next_token x nextHash))) (\<lambda>switched.
    io_bind (io_lift (createAuditDigest currentHash)) (\<lambda>identityDigest.
    case switched of
      Refused r \<Rightarrow> io_bind (writeSecurityAudit d (token_event (if r = REUSED then AUTH_REFRESH_REUSED else AUTH_REFRESH_INVALID) (wc_requestId cmd) identityDigest))
        (\<lambda>_. io_throw (if r = PRESERVE_SOURCE then BrowserSessionPreservedError else AuthServiceError ''INVALID_SESSION'' 401 None))
    | Granted uid org role v \<Rightarrow>
        io_bind (io_lift (issue_for d x uid org role v)) (\<lambda>access.
        io_bind (project d (tokens_of access nextRefreshToken) (wc_requestId cmd) laterMs) (\<lambda>result.
        io_bind (writeSecurityAudit d (token_event AUTH_REFRESH_ROTATED (wc_requestId cmd) identityDigest)) (\<lambda>_.
        io_bind (writeOrganizationSelectedAudit d org uid (wc_requestId cmd)) (\<lambda>_.
        io_return result)))))))))"

end
