(* ===== verification/Auth_Sessions.thy ===== *)
theory Auth_Sessions
  imports Auth_Repository
begin

text \<open>
  What the sessions of Auth_Repository keep in every interleaving of their transactions: every
  operation changes the refresh tokens in one of four ways (\<open>tokens_next\<close>), a family has at most
  one live token, a family that died stays dead, and a login session is consumed once.
\<close>

section \<open>How operations change the tokens\<close>

definition live_token :: "refresh_row \<Rightarrow> bool" where
  "live_token t \<longleftrightarrow> rt_revoked t = None"

definition revoke_row :: "int \<Rightarrow> refresh_row \<Rightarrow> refresh_row" where
  "revoke_row now t = t\<lparr>rt_revoked := (case rt_revoked t of Some r \<Rightarrow> Some r | None \<Rightarrow> Some now)\<rparr>"

definition fresh_row :: "refresh_row \<Rightarrow> refresh_row list \<Rightarrow> bool" where
  "fresh_row n ts \<longleftrightarrow> rt_id n \<notin> rt_id ` set ts \<and> rt_hash n \<notin> rt_hash ` set ts \<and> rt_revoked n = None \<and> rt_replacedBy n = None"

inductive tokens_next :: "refresh_row list \<Rightarrow> refresh_row list \<Rightarrow> bool" where
  keep: "tokens_next ts ts"
| revoke: "tokens_next ts (update_rows p (revoke_row now) ts)"
| rotate: "cur \<in> set ts \<Longrightarrow> live_token cur \<Longrightarrow> rt_replacedBy cur = None \<Longrightarrow> fresh_row n ts \<Longrightarrow>
    rt_family n = rt_family cur \<Longrightarrow> rt_org n = rt_org cur \<Longrightarrow> rt_user n = rt_user cur \<Longrightarrow>
    tokens_next ts (update_rows (\<lambda>t. rt_id t = rt_id cur \<and> rt_org t = rt_org cur)
      (\<lambda>t. t\<lparr>rt_revoked := Some now, rt_replacedBy := Some (rt_id n)\<rparr>) ts @ [n])"
| start: "fresh_row n ts \<Longrightarrow> rt_family n \<notin> rt_family ` set ts \<Longrightarrow> tokens_next ts (update_rows p (revoke_row now) ts @ [n])"

lemma revoke_row_simps [simp]:
  "rt_id (revoke_row now t) = rt_id t" "rt_hash (revoke_row now t) = rt_hash t" "rt_org (revoke_row now t) = rt_org t"
  "rt_user (revoke_row now t) = rt_user t" "rt_family (revoke_row now t) = rt_family t"
  "rt_replacedBy (revoke_row now t) = rt_replacedBy t" "rt_version (revoke_row now t) = rt_version t"
  "\<not> live_token (revoke_row now t)"
  by (simp_all add: revoke_row_def live_token_def split: option.splits)

lemma revoke_family_tokens: "au_tokens (revoke_family now org fam s) = update_rows (in_family org fam) (revoke_row now) (au_tokens s)"
  by (simp add: revoke_family_def update_rows_def revoke_row_def)

lemma revoke_family_rest [simp]:
  "au_logins (revoke_family now org fam s) = au_logins s" "au_users (revoke_family now org fam s) = au_users s"
  "au_orgs (revoke_family now org fam s) = au_orgs s" "au_members (revoke_family now org fam s) = au_members s"
  by (simp_all add: revoke_family_def)

lemma insert_token_eq_Inr:
  "insert_token n s = Inr (a, s') \<longleftrightarrow> rt_id n \<notin> rt_id ` set (au_tokens s) \<and> rt_hash n \<notin> rt_hash ` set (au_tokens s)
     \<and> s' = s\<lparr>au_tokens := au_tokens s @ [n]\<rparr>"
proof -
  have "list_ex (\<lambda>t. g t = g n) ts \<longleftrightarrow> g n \<in> g ` set ts" for g :: "refresh_row \<Rightarrow> string" and ts
    by (induction ts) auto
  then show ?thesis by (auto simp: insert_token_def)
qed

lemma image_rt_update: "(\<And>t. g (f t) = g t) \<Longrightarrow> g ` set (update_rows p f ts) = g ` set ts"
  by (metis map_update_rows set_map)

definition new_row :: "new_token \<Rightarrow> string \<Rightarrow> string \<Rightarrow> string \<Rightarrow> nat \<Rightarrow> refresh_row" where
  "new_row nt org uid fam v = \<lparr>rt_id = nt_id nt, rt_org = org, rt_user = uid, rt_family = fam, rt_hash = nt_hash nt,
     rt_version = v, rt_expires = nt_expires nt, rt_revoked = None, rt_replacedBy = None\<rparr>"

lemma new_row_simps [simp]:
  "rt_id (new_row nt org uid fam v) = nt_id nt" "rt_hash (new_row nt org uid fam v) = nt_hash nt"
  "rt_family (new_row nt org uid fam v) = fam" "rt_org (new_row nt org uid fam v) = org" "rt_user (new_row nt org uid fam v) = uid"
  "rt_version (new_row nt org uid fam v) = v" "rt_revoked (new_row nt org uid fam v) = None" "rt_replacedBy (new_row nt org uid fam v) = None"
  "live_token (new_row nt org uid fam v)"
  by (simp_all add: new_row_def live_token_def)

section \<open>The operations case by case\<close>

text \<open>A rotation finds nothing, kills the family, or replaces the live token it was given.\<close>

lemma rotate_cases:
  assumes "rotateRefreshToken h nt now s = Inr (r, s')"
  obtains (nothing) "r = Refused INVALID" "s' = s"
  | (killed) cur x where "find (\<lambda>t. rt_hash t = h) (au_tokens s) = Some cur" "r = Refused x"
      "x = REUSED \<longleftrightarrow> rt_revoked cur \<noteq> None \<or> rt_replacedBy cur \<noteq> None" "s' = revoke_family now (rt_org cur) (rt_family cur) s"
  | (rotated) cur v role n where "find (\<lambda>t. rt_hash t = h) (au_tokens s) = Some cur" "rt_revoked cur = None" "rt_replacedBy cur = None"
      "rt_version cur = v" "now < rt_expires cur" "lock_user_authentication (rt_user cur) s = Some v"
      "token_statuses cur s = Some (role, ACTIVE, ACTIVE, ACTIVE)"
      "n = new_row nt (rt_org cur) (rt_user cur) (rt_family cur) v" "fresh_row n (au_tokens s)"
      "s' = s\<lparr>au_tokens := update_rows (\<lambda>t. rt_id t = rt_id cur \<and> rt_org t = rt_org cur)
        (\<lambda>t. t\<lparr>rt_revoked := Some now, rt_replacedBy := Some (nt_id nt)\<rparr>) (au_tokens s) @ [n]\<rparr>"
      "r = Granted (rt_user cur) (rt_org cur) role v"
proof (cases "find (\<lambda>t. rt_hash t = h) (au_tokens s)")
  case None
  with assms have "r = Refused INVALID \<and> s' = s" by (auto simp: rotateRefreshToken_def)
  with that(1) show thesis by blast
next
  case (Some cur)
  show thesis
  proof (cases "lock_user_authentication (rt_user cur) s")
    case None
    with assms Some have "r = Refused INVALID \<and> s' = s" by (auto simp: rotateRefreshToken_def)
    with that(1) show thesis by blast
  next
    case v: (Some v)
    show thesis
    proof (cases "token_statuses cur s")
      case None
      with assms Some v have "r = Refused INVALID \<and> s' = s" by (auto simp: rotateRefreshToken_def)
      with that(1) show thesis by blast
    next
      case st: (Some st)
      obtain role member user org where st': "st = (role, member, user, org)" by (cases st)
      note d = assms[unfolded rotateRefreshToken_def, simplified Some v st st' option.case prod.case]
      consider "rt_revoked cur \<noteq> None \<or> rt_replacedBy cur \<noteq> None"
        | "rt_revoked cur = None" "rt_replacedBy cur = None"
          "rt_version cur \<noteq> v \<or> rt_expires cur \<le> now \<or> member \<noteq> ACTIVE \<or> user \<noteq> ACTIVE \<or> org \<noteq> ACTIVE"
        | "rt_revoked cur = None" "rt_replacedBy cur = None"
          "\<not> (rt_version cur \<noteq> v \<or> rt_expires cur \<le> now \<or> member \<noteq> ACTIVE \<or> user \<noteq> ACTIVE \<or> org \<noteq> ACTIVE)" by blast
      then show thesis
      proof cases
        case 1
        with d show thesis by (intro that(2)[OF Some]) auto
      next
        case 2
        with d show thesis by (intro that(2)[OF Some]) auto
      next
        case 3
        with d show thesis
          by (intro that(3)[OF Some _ _ _ _ v, of role "new_row nt (rt_org cur) (rt_user cur) (rt_family cur) v"])
            (auto simp: st st' tx_bind_eq_Inr insert_token_eq_Inr new_row_def fresh_row_def image_rt_update)
      qed
    qed
  qed
qed


lemma switch_cases:
  assumes "switch_refresh_organization h eu eo target now nt s = Inr (r, s')"
  obtains (same) x where "r = Refused x" "s' = s"
  | (killed) cur x where "find (\<lambda>t. rt_hash t = h) (au_tokens s) = Some cur" "r = Refused x"
      "s' = revoke_family now (rt_org cur) (rt_family cur) s"
  | (switched) cur v role where "find (\<lambda>t. rt_hash t = h) (au_tokens s) = Some cur" "rt_revoked cur = None" "rt_replacedBy cur = None"
      "rt_version cur = v" "now < rt_expires cur" "lock_user_authentication (rt_user cur) s = Some v"
      "rt_user cur = eu" "rt_org cur = eo" "active_role target eu s = Some role"
      "fresh_row (new_row nt target eu (nt_family nt) v) (au_tokens s)"
      "s' = s\<lparr>au_tokens := update_rows (in_family eo (rt_family cur)) (revoke_row now) (au_tokens s) @ [new_row nt target eu (nt_family nt) v]\<rparr>"
      "r = Granted eu target role v"
proof (cases "find (\<lambda>t. rt_hash t = h) (au_tokens s)")
  case None
  with assms have "r = Refused INVALID \<and> s' = s" by (auto simp: switch_refresh_organization_def)
  with that(1) show thesis by blast
next
  case (Some cur)
  show thesis
  proof (cases "lock_user_authentication (rt_user cur) s")
    case None
    with assms Some have "r = Refused INVALID \<and> s' = s" by (auto simp: switch_refresh_organization_def)
    with that(1) show thesis by blast
  next
    case v: (Some v)
    show thesis
    proof (cases "token_statuses cur s")
      case None
      with assms Some v have "r = Refused INVALID \<and> s' = s" by (auto simp: switch_refresh_organization_def)
      with that(1) show thesis by blast
    next
      case st: (Some st)
      obtain role0 member user org where st': "st = (role0, member, user, org)" by (cases st)
      note d = assms[unfolded switch_refresh_organization_def, simplified Some v st st' option.case prod.case]
      consider "rt_user cur \<noteq> eu \<or> rt_org cur \<noteq> eo"
        | "rt_user cur = eu" "rt_org cur = eo" "rt_revoked cur \<noteq> None \<or> rt_replacedBy cur \<noteq> None \<or>
          rt_version cur \<noteq> v \<or> rt_expires cur \<le> now \<or> user \<noteq> ACTIVE \<or> member \<noteq> ACTIVE \<or> org \<noteq> ACTIVE"
        | "rt_user cur = eu" "rt_org cur = eo" "rt_revoked cur = None" "rt_replacedBy cur = None"
          "\<not> (rt_version cur \<noteq> v \<or> rt_expires cur \<le> now \<or> user \<noteq> ACTIVE \<or> member \<noteq> ACTIVE \<or> org \<noteq> ACTIVE)" by blast
      then show thesis
      proof cases
        case 1
        with d show thesis by (intro that(1)) auto
      next
        case 2
        with d show thesis by (cases "rt_revoked cur \<noteq> None \<or> rt_replacedBy cur \<noteq> None") (auto intro!: that(2)[OF Some])
      next
        case 3
        show thesis
        proof (cases "active_role target eu s")
          case None
          with 3 d show thesis by (intro that(1)) auto
        next
          case role: (Some role)
          with 3 d show thesis
            by (intro that(3)[OF Some _ _ _ _ v])
              (auto simp: tx_bind_eq_Inr insert_token_eq_Inr new_row_def fresh_row_def image_rt_update revoke_family_def revoke_row_def [abs_def])
        qed
      qed
    qed
  qed
qed

lemma consume_cases:
  assumes "consume_login_selection h org now nt s = Inr (r, s')"
  obtains (same) x where "r = Refused x" "s' = s" "r \<noteq> Refused REUSED \<or> (\<exists>l \<in> set (au_logins s). ls_hash l = h \<and> ls_consumed l \<noteq> None)"
  | (spent) l0 v l where "find (\<lambda>l. ls_hash l = h) (au_logins s) = Some l0" "lock_user_authentication (ls_user l0) s = Some v"
      "l \<in> set (au_logins s)" "ls_hash l = h" "ls_version l = v" "ls_consumed l = None" "now < ls_expires l" "r = Refused INVALID"
      "s' = s\<lparr>au_logins := update_rows (\<lambda>l. ls_hash l = h \<and> ls_version l = v \<and> ls_consumed l = None \<and> ls_expires l > now)
        (\<lambda>l. l\<lparr>ls_consumed := Some now\<rparr>) (au_logins s)\<rparr>"
  | (selected) l0 v l role where "find (\<lambda>l. ls_hash l = h) (au_logins s) = Some l0" "lock_user_authentication (ls_user l0) s = Some v"
      "l \<in> set (au_logins s)" "ls_hash l = h" "ls_version l = v" "ls_consumed l = None" "now < ls_expires l"
      "active_role org (ls_user l) s = Some role" "fresh_row (new_row nt org (ls_user l) (nt_family nt) v) (au_tokens s)"
      "s' = s\<lparr>au_logins := update_rows (\<lambda>l. ls_hash l = h \<and> ls_version l = v \<and> ls_consumed l = None \<and> ls_expires l > now)
        (\<lambda>l. l\<lparr>ls_consumed := Some now\<rparr>) (au_logins s), au_tokens := au_tokens s @ [new_row nt org (ls_user l) (nt_family nt) v]\<rparr>"
      "r = Granted (ls_user l) org role v"
proof (cases "find (\<lambda>l. ls_hash l = h) (au_logins s)")
  case None
  with assms have "r = Refused INVALID \<and> s' = s" by (auto simp: consume_login_selection_def)
  with that(1) show thesis by blast
next
  case l0: (Some l0)
  show thesis
  proof (cases "lock_user_authentication (ls_user l0) s")
    case None
    with assms l0 have "r = Refused INVALID \<and> s' = s" by (auto simp: consume_login_selection_def)
    with that(1) show thesis by blast
  next
    case v: (Some v)
    let ?live = "\<lambda>l. ls_hash l = h \<and> ls_version l = v \<and> ls_consumed l = None \<and> ls_expires l > now"
    note d = assms[unfolded consume_login_selection_def Let_def, simplified l0 v option.case]
    show thesis
    proof (cases "find ?live (au_logins s)")
      case None
      with d show thesis
        by (intro that(1)[of "if list_ex (\<lambda>l. ls_hash l = h \<and> ls_consumed l \<noteq> None) (au_logins s) then REUSED else INVALID"])
          (auto simp: list_ex_iff split: if_splits)
    next
      case l: (Some l)
      from find_mem[OF l] have m: "l \<in> set (au_logins s)" "ls_hash l = h" "ls_version l = v" "ls_consumed l = None" "now < ls_expires l" by auto
      show thesis
      proof (cases "active_role org (ls_user l) s")
        case None
        with d l show thesis by (intro that(2)[OF l0 v m]) auto
      next
        case role: (Some role)
        with d l show thesis
          by (intro that(3)[OF l0 v m role]) (auto simp: tx_bind_eq_Inr insert_token_eq_Inr new_row_def fresh_row_def)
      qed
    qed
  qed
qed


section \<open>Steps\<close>

text \<open>
  One transaction at a time. New families and users have fresh identifiers (random UUIDs);
  administration changes names, statuses and roles, and adds users, but keeps sessions and the
  generation of a user.
\<close>

inductive auth_step :: "auth_db \<Rightarrow> auth_db \<Rightarrow> bool" where
  login: "create_login_selection uid h e v s = Inr (b, s') \<Longrightarrow> auth_step s s'"
| select: "consume_login_selection h org now nt s = Inr (r, s') \<Longrightarrow> nt_family nt \<notin> rt_family ` set (au_tokens s) \<Longrightarrow> auth_step s s'"
| refresh: "rotateRefreshToken h nt now s = Inr (r, s') \<Longrightarrow> auth_step s s'"
| logout: "revokeRefreshFamily h now s = Inr (q, s') \<Longrightarrow> auth_step s s'"
| switch: "switch_refresh_organization h eu eo target now nt s = Inr (r, s') \<Longrightarrow> nt_family nt \<notin> rt_family ` set (au_tokens s) \<Longrightarrow>
    auth_step s s'"
| reset: "revoke_user_authentication uid at s = Inr (v, s') \<Longrightarrow> auth_step s s'"
| administer: "au_tokens s' = au_tokens s \<Longrightarrow> au_logins s' = au_logins s \<Longrightarrow>
    map us_id (au_users s') = map us_id (au_users s) @ new_ids \<Longrightarrow> distinct (map us_id (au_users s')) \<Longrightarrow>
    take (length (au_users s)) (map us_version (au_users s')) = map us_version (au_users s) \<Longrightarrow> auth_step s s'"

inductive auth_reachable :: "auth_db \<Rightarrow> bool" where
  initial: "au_tokens s = [] \<Longrightarrow> au_logins s = [] \<Longrightarrow> distinct (map us_id (au_users s)) \<Longrightarrow> auth_reachable s"
| later: "auth_reachable s \<Longrightarrow> auth_step s s' \<Longrightarrow> auth_reachable s'"

lemma create_eq_Inr:
  "create_login_selection uid h e v s = Inr (b, s') \<Longrightarrow> s' = s \<or> (h \<notin> ls_hash ` set (au_logins s) \<and>
     s' = s\<lparr>au_logins := au_logins s @ [\<lparr>ls_user = uid, ls_hash = h, ls_version = v, ls_expires = e, ls_consumed = None\<rparr>]\<rparr>)"
  by (auto simp: create_login_selection_def list_ex_iff split: option.splits if_splits)

lemma logout_eq_Inr:
  "revokeRefreshFamily h now s = Inr (q, s') \<Longrightarrow> s' = s \<or> (\<exists>t. find (\<lambda>t. rt_hash t = h) (au_tokens s) = Some t \<and>
     s' = revoke_family now (rt_org t) (rt_family t) s)"
  by (auto simp: revokeRefreshFamily_def split: option.splits)

lemma reset_eq_Inr:
  "revoke_user_authentication uid at s = Inr (v, s') \<Longrightarrow>
     au_tokens s' = update_rows (\<lambda>t. rt_user t = uid) (revoke_row at) (au_tokens s)
   \<and> au_logins s' = update_rows (\<lambda>l. ls_user l = uid) (\<lambda>l. l\<lparr>ls_consumed := (case ls_consumed l of Some c \<Rightarrow> Some c | None \<Rightarrow> Some at)\<rparr>) (au_logins s)
   \<and> au_users s' = update_rows (\<lambda>u. us_id u = uid) (\<lambda>u. u\<lparr>us_version := us_version u + 1\<rparr>) (au_users s)"
  by (auto simp: revoke_user_authentication_def revoke_row_def [abs_def] split: option.splits)

lemma tokens_start: "fresh_row n ts \<Longrightarrow> rt_family n \<notin> rt_family ` set ts \<Longrightarrow> tokens_next ts (ts @ [n])"
  using tokens_next.start[where p = "\<lambda>_. False"] by (simp add: update_rows_def)

lemma auth_step_tokens: "auth_step s s' \<Longrightarrow> tokens_next (au_tokens s) (au_tokens s')"
proof (induction rule: auth_step.induct)
  case (login uid h e v s b s')
  then show ?case by (auto dest!: create_eq_Inr intro: tokens_next.keep)
next
  case (select h org now nt s r s')
  from select(1) show ?case
    by (cases rule: consume_cases) (use select(2) in \<open>auto intro: tokens_next.keep tokens_start\<close>)
next
  case (refresh h nt now s r s')
  from this show ?case
  proof (cases rule: rotate_cases)
    case (rotated cur v role n)
    with find_mem[OF rotated(1)] tokens_next.rotate[of cur "au_tokens s" n now] show ?thesis by (simp add: live_token_def)
  qed (auto simp: revoke_family_tokens intro: tokens_next.keep tokens_next.revoke)
next
  case (logout h now s q s')
  then show ?case by (auto dest!: logout_eq_Inr simp: revoke_family_tokens intro: tokens_next.keep tokens_next.revoke)
next
  case (switch h eu eo target now nt s r s')
  from switch(1) show ?case
    by (cases rule: switch_cases)
      (use switch(2) in \<open>auto simp: revoke_family_tokens intro: tokens_next.keep tokens_next.revoke tokens_next.start\<close>)
next
  case (reset uid at s v s')
  then show ?case by (auto dest!: reset_eq_Inr intro: tokens_next.revoke)
next
  case (administer s' s new_ids)
  then show ?case by (simp add: tokens_next.keep)
qed

section \<open>The invariant of the tokens\<close>

definition tokens_ok :: "refresh_row list \<Rightarrow> bool" where
  "tokens_ok ts \<longleftrightarrow> distinct (map rt_id ts) \<and> distinct (map rt_hash ts) \<and> distinct (map rt_family (filter live_token ts))
     \<and> (\<forall>t \<in> set ts. live_token t \<longrightarrow> rt_replacedBy t = None)
     \<and> (\<forall>t \<in> set ts. \<forall>u \<in> set ts. rt_family t = rt_family u \<longrightarrow> rt_org t = rt_org u \<and> rt_user t = rt_user u)"

lemma live_after:
  assumes "\<And>t. \<not> live_token (f t)"
  shows "filter live_token (update_rows p f ts) = filter (\<lambda>t. live_token t \<and> \<not> p t) ts"
  using assms by (induction ts) auto

lemma distinct_live_part: "distinct (map f (filter P ts)) \<Longrightarrow> distinct (map f (filter (\<lambda>t. P t \<and> Q t) ts))"
  using distinct_map_filter[of f "filter P ts" Q] by (simp add: conj_commute)

lemma tokens_ok_update:
  assumes ok: "tokens_ok ts" and dead: "\<And>t. \<not> live_token (f t)"
    and same: "\<And>t. rt_id (f t) = rt_id t \<and> rt_hash (f t) = rt_hash t \<and> rt_family (f t) = rt_family t \<and> rt_org (f t) = rt_org t \<and> rt_user (f t) = rt_user t"
  shows "tokens_ok (update_rows p f ts)"
  unfolding tokens_ok_def live_after[OF dead]
proof (intro conjI)
  show "distinct (map rt_id (update_rows p f ts))" "distinct (map rt_hash (update_rows p f ts))"
    using ok same by (simp_all add: map_update_rows tokens_ok_def)
  show "distinct (map rt_family (filter (\<lambda>t. live_token t \<and> \<not> p t) ts))"
    using ok by (simp add: tokens_ok_def distinct_live_part)
  show "\<forall>t \<in> set (update_rows p f ts). live_token t \<longrightarrow> rt_replacedBy t = None"
    using ok dead by (auto simp: tokens_ok_def dest!: set_update_rows)
  show "\<forall>t \<in> set (update_rows p f ts). \<forall>u \<in> set (update_rows p f ts). rt_family t = rt_family u \<longrightarrow> rt_org t = rt_org u \<and> rt_user t = rt_user u"
  proof (intro ballI impI)
    have old: "\<exists>q \<in> set ts. rt_family t = rt_family q \<and> rt_org t = rt_org q \<and> rt_user t = rt_user q" if "t \<in> set (update_rows p f ts)" for t
      using set_update_rows[OF that] same by metis
    fix t u assume "t \<in> set (update_rows p f ts)" "u \<in> set (update_rows p f ts)" "rt_family t = rt_family u"
    with old[of t] old[of u] ok show "rt_org t = rt_org u \<and> rt_user t = rt_user u" unfolding tokens_ok_def by metis
  qed
qed

lemma image_same: "(\<And>t. g (f t) = g t) \<Longrightarrow> x \<in> g ` set (update_rows p f ts) \<longleftrightarrow> x \<in> g ` set ts"
  by (simp add: image_rt_update)

lemma tokens_ok_append:
  assumes "tokens_ok ts" and "rt_id n \<notin> rt_id ` set ts" and "rt_hash n \<notin> rt_hash ` set ts"
    and "rt_replacedBy n = None" and "rt_family n \<notin> rt_family ` set (filter live_token ts)"
    and "\<And>t. t \<in> set ts \<Longrightarrow> rt_family t = rt_family n \<Longrightarrow> rt_org t = rt_org n \<and> rt_user t = rt_user n"
  shows "tokens_ok (ts @ [n])"
  unfolding tokens_ok_def
proof (intro conjI)
  show "distinct (map rt_id (ts @ [n]))" "distinct (map rt_hash (ts @ [n]))" "distinct (map rt_family (filter live_token (ts @ [n])))"
    using assms(1-3,5) by (simp_all add: tokens_ok_def)
  show "\<forall>t \<in> set (ts @ [n]). live_token t \<longrightarrow> rt_replacedBy t = None"
    using assms(1,4) by (simp add: tokens_ok_def)
  have h: "\<forall>t \<in> set ts. \<forall>u \<in> set ts. rt_family t = rt_family u \<longrightarrow> rt_org t = rt_org u \<and> rt_user t = rt_user u"
    using assms(1) unfolding tokens_ok_def by (elim conjE)
  show "\<forall>t \<in> set (ts @ [n]). \<forall>u \<in> set (ts @ [n]). rt_family t = rt_family u \<longrightarrow> rt_org t = rt_org u \<and> rt_user t = rt_user u"
  proof (intro ballI impI)
    fix t u assume e: "t \<in> set (ts @ [n])" "u \<in> set (ts @ [n])" "rt_family t = rt_family u"
    then consider "t \<in> set ts" "u \<in> set ts" | "t = n" "u \<in> set ts" | "t \<in> set ts" "u = n" | "t = n" "u = n" by auto
    then show "rt_org t = rt_org u \<and> rt_user t = rt_user u"
    proof cases
      case 1
      with h e(3) show ?thesis by blast
    next
      case 2
      with assms(6)[of u] e(3) show ?thesis by simp
    next
      case 3
      with assms(6)[of t] e(3) show ?thesis by simp
    qed simp
  qed
qed


lemma tokens_ok_next: "tokens_next ts ts' \<Longrightarrow> tokens_ok ts \<Longrightarrow> tokens_ok ts'"
proof (induction rule: tokens_next.induct)
  case (rotate cur ts n now)
  let ?p = "\<lambda>t. rt_id t = rt_id cur \<and> rt_org t = rt_org cur" and ?f = "\<lambda>t. t\<lparr>rt_revoked := Some now, rt_replacedBy := Some (rt_id n)\<rparr>"
  have dead: "\<not> live_token (?f t)" for t by (simp add: live_token_def)
  show ?case
  proof (rule tokens_ok_append)
    show "tokens_ok (update_rows ?p ?f ts)" using rotate by (intro tokens_ok_update) (auto simp: live_token_def)
    show "rt_id n \<notin> rt_id ` set (update_rows ?p ?f ts)" "rt_hash n \<notin> rt_hash ` set (update_rows ?p ?f ts)" "rt_replacedBy n = None"
      using rotate(4) by (simp_all add: image_rt_update fresh_row_def)
    show "rt_family n \<notin> rt_family ` set (filter live_token (update_rows ?p ?f ts))"
    proof
      assume "rt_family n \<in> rt_family ` set (filter live_token (update_rows ?p ?f ts))"
      then obtain t where t: "t \<in> set ts" "live_token t" "\<not> ?p t" "rt_family t = rt_family cur"
        using rotate(5) unfolding live_after[OF dead] by auto
      moreover have "inj_on rt_family (set (filter live_token ts))"
        using rotate(8) by (simp add: tokens_ok_def distinct_map)
      ultimately have "t = cur" using rotate(1,2) by (auto simp: inj_on_def)
      with t show False by simp
    qed
    show "rt_org t = rt_org n \<and> rt_user t = rt_user n" if "t \<in> set (update_rows ?p ?f ts)" "rt_family t = rt_family n" for t
    proof -
      from set_update_rows[OF that(1)] obtain q where "q \<in> set ts" "rt_family q = rt_family t" "rt_org q = rt_org t" "rt_user q = rt_user t" by auto
      with that rotate(1,5,6,7,8) show ?thesis unfolding tokens_ok_def by metis
    qed
  qed
next
  case (start n ts p now)
  then have "tokens_ok (update_rows p (revoke_row now) ts)" by (intro tokens_ok_update) auto
  with start show ?case
  proof (intro tokens_ok_append)
    have "rt_family n \<notin> rt_family ` set (update_rows p (revoke_row now) ts)" using start by (simp add: image_rt_update)
    then show "rt_family n \<notin> rt_family ` set (filter live_token (update_rows p (revoke_row now) ts))"
      "\<And>t. t \<in> set (update_rows p (revoke_row now) ts) \<Longrightarrow> rt_family t = rt_family n \<Longrightarrow> rt_org t = rt_org n \<and> rt_user t = rt_user n"
      by (auto intro: image_eqI dest: sym)
  qed (simp_all add: image_rt_update fresh_row_def)
qed (auto intro!: tokens_ok_update)

lemma reachable_tokens_ok: "auth_reachable s \<Longrightarrow> tokens_ok (au_tokens s)"
  by (induction rule: auth_reachable.induct) (auto simp: tokens_ok_def[of "[]"] intro: tokens_ok_next auth_step_tokens)


end
