(* ===== verification/Auth_Families.thy ===== *)
theory Auth_Families
  imports Auth_Sessions
begin

text \<open>
  A session as a state machine: a refresh-token family is unborn, live under exactly one token, or
  dead. The transactions of Auth_Repository implement that machine; rotation, replay, password
  reset and selection are stated against it.
\<close>

section \<open>A session as a family\<close>

text \<open>The contract of a session: not yet born, live under one token, or dead for good.\<close>

datatype family_state = Unborn | Live string | Dead

inductive family_step :: "family_state \<Rightarrow> family_state \<Rightarrow> bool" where
  stays: "family_step x x"
| born: "family_step Unborn (Live h)"
| rotates: "family_step (Live h) (Live h')"
| dies: "family_step (Live h) Dead"

definition family_state :: "string \<Rightarrow> refresh_row list \<Rightarrow> family_state" where
  "family_state fam ts = (if fam \<notin> rt_family ` set ts then Unborn
     else case find (\<lambda>t. rt_family t = fam \<and> live_token t) ts of None \<Rightarrow> Dead | Some t \<Rightarrow> Live (rt_hash t))"

lemma family_state_Unborn [simp]: "family_state fam ts = Unborn \<longleftrightarrow> fam \<notin> rt_family ` set ts"
  by (simp add: family_state_def split: option.splits)

lemma family_state_Dead:
  "family_state fam ts = Dead \<longleftrightarrow> fam \<in> rt_family ` set ts \<and> (\<forall>t \<in> set ts. rt_family t = fam \<longrightarrow> \<not> live_token t)"
  by (auto simp: family_state_def find_None_iff find_Some_iff split: option.splits)

lemma family_state_DeadD: "family_state fam ts = Dead \<Longrightarrow> t \<in> set ts \<Longrightarrow> rt_family t = fam \<Longrightarrow> \<not> live_token t"
  by (simp add: family_state_Dead)

lemma family_state_LiveD: "family_state fam ts = Live h \<Longrightarrow> \<exists>t \<in> set ts. rt_family t = fam \<and> live_token t \<and> rt_hash t = h"
  by (auto simp: family_state_def dest!: find_mem split: option.splits if_splits)

lemmas family_state_DeadI = iffD2[OF family_state_Dead, OF conjI, OF _ ballI, OF _ impI]

lemma family_state_LiveI:
  assumes "tokens_ok ts" "t \<in> set ts" "live_token t"
  shows "family_state (rt_family t) ts = Live (rt_hash t)"
proof (cases "family_state (rt_family t) ts")
  case Unborn
  with assms show ?thesis by auto
next
  case Dead
  with assms show ?thesis by (auto dest: family_state_DeadD)
next
  case (Live h)
  then obtain u where u: "u \<in> set ts" "rt_family u = rt_family t" "live_token u" "rt_hash u = h" by (auto dest: family_state_LiveD)
  moreover have "inj_on rt_family (set (filter live_token ts))" using assms(1) by (auto simp: tokens_ok_def distinct_map)
  ultimately have "u = t" using assms by (auto simp: inj_on_def)
  with Live u show ?thesis by simp
qed

lemma family_of_update:
  assumes "\<And>t. rt_family (f t) = rt_family t"
  shows "fam \<in> rt_family ` set (update_rows p f ts @ ns) \<longleftrightarrow> fam \<in> rt_family ` set ts \<union> rt_family ` set ns"
  using assms by (simp add: image_rt_update image_Un)

text \<open>A dead family stays dead, since no transaction gives a revoked token back.\<close>

lemma dead_stays: "tokens_next ts ts' \<Longrightarrow> family_state fam ts = Dead \<Longrightarrow> family_state fam ts' = Dead"
proof (induction rule: tokens_next.induct)
  case (revoke ts p now)
  then have "fam \<in> rt_family ` set ts" by (metis family_state.distinct(3) family_state_Unborn)
  with revoke show ?case
    by (intro family_state_DeadI) (auto simp: image_rt_update dest!: set_update_rows dest: family_state_DeadD)
next
  case (rotate cur ts n now)
  then have "rt_family cur \<noteq> fam" by (auto dest: family_state_DeadD)
  moreover have "fam \<in> rt_family ` set ts" using rotate(8) by (metis family_state.distinct(3) family_state_Unborn)
  ultimately show ?case using rotate
    by (intro family_state_DeadI) (auto simp: image_Un image_rt_update live_token_def dest!: set_update_rows dest: family_state_DeadD[unfolded live_token_def])
next
  case (start n ts p now)
  then have f: "fam \<in> rt_family ` set ts" by (metis family_state.distinct(3) family_state_Unborn)
  with start have "rt_family n \<noteq> fam" by auto
  with start f show ?case
    by (intro family_state_DeadI) (auto simp: image_Un image_rt_update dest!: set_update_rows dest: family_state_DeadD)
qed simp

lemma family_born_once:
  assumes "tokens_next ts ts'" and "tokens_ok ts'" and "fam \<in> rt_family ` set ts"
  shows "fam \<in> rt_family ` set ts'"
  using assms by (induction rule: tokens_next.induct) (auto simp: image_Un image_rt_update)

lemma family_steps:
  assumes nx: "tokens_next ts ts'" and ok: "tokens_ok ts" "tokens_ok ts'"
  shows "family_step (family_state fam ts) (family_state fam ts')"
proof (cases "family_state fam ts")
  case Dead
  with dead_stays[OF nx] show ?thesis by (auto intro: family_step.stays)
next
  case (Live h)
  then have "fam \<in> rt_family ` set ts'" using family_born_once[OF nx ok(2)] by (metis family_state.distinct(1) family_state_Unborn)
  then have "family_state fam ts' \<noteq> Unborn" by simp
  with Live show ?thesis by (cases "family_state fam ts'") (auto intro: family_step.intros)
next
  case Unborn
  have "family_state fam ts' \<noteq> Dead"
  proof
    assume d: "family_state fam ts' = Dead"
    from nx Unborn d show False
    proof (induction rule: tokens_next.induct)
      case (start n ts p now)
      then show False
        using family_state_DeadD[OF start(4), of n] by (auto simp: family_state_Dead image_Un image_rt_update fresh_row_def live_token_def)
    qed (auto simp: family_state_Dead image_Un image_rt_update)
  qed
  then show ?thesis unfolding Unborn by (cases "family_state fam ts'") (simp_all only: family_step.stays family_step.born simp_thms)
qed


section \<open>Properties\<close>


lemma find_hash: "tokens_ok ts \<Longrightarrow> t \<in> set ts \<Longrightarrow> rt_hash t = h \<Longrightarrow> find (\<lambda>t. rt_hash t = h) ts = Some t"
proof -
  assume ok: "tokens_ok ts" and t: "t \<in> set ts" "rt_hash t = h"
  then obtain u where u: "find (\<lambda>t. rt_hash t = h) ts = Some u" by (cases "find (\<lambda>t. rt_hash t = h) ts") (auto simp: find_None_iff)
  moreover from find_mem[OF u] t ok have "u = t" by (auto simp: tokens_ok_def distinct_map inj_on_def)
  ultimately show ?thesis by simp
qed

lemma same_family:
  assumes "tokens_ok ts" "t \<in> set ts" "u \<in> set ts" "rt_family t = rt_family u"
  shows "rt_org t = rt_org u" "rt_user t = rt_user u"
  using assms unfolding tokens_ok_def by metis+

lemma revoked_family_dead:
  assumes "t \<in> set (au_tokens s)" "rt_org t = org" "rt_family t = fam" and ok: "tokens_ok (au_tokens s)"
  shows "family_state fam (au_tokens (revoke_family now org fam s)) = Dead"
proof (rule family_state_DeadI)
  show "fam \<in> rt_family ` set (au_tokens (revoke_family now org fam s))"
    using assms(1,3) by (auto simp: revoke_family_tokens image_rt_update)
  have org: "rt_org u = org" if "u \<in> set (au_tokens s)" "rt_family u = fam" for u
    using same_family(1)[OF ok that(1) assms(1)] that assms by simp
  fix u assume "u \<in> set (au_tokens (revoke_family now org fam s))" "rt_family u = fam"
  then show "\<not> live_token u"
    unfolding revoke_family_tokens using org by (auto simp: in_family_def dest!: set_update_rows)
qed

lemma steps_tokens:
  assumes "auth_step\<^sup>*\<^sup>* s s'" and "auth_reachable s"
  shows "auth_reachable s' \<and> (family_state fam (au_tokens s) = Dead \<longrightarrow> family_state fam (au_tokens s') = Dead)"
  using assms by (induction rule: rtranclp_induct) (auto intro: auth_reachable.later dest: dead_stays[OF auth_step_tokens])

text \<open>What a rotation answers for a token, in terms of its family.\<close>

lemma rotation_of_member:
  assumes ok: "tokens_ok (au_tokens s)" and t: "t \<in> set (au_tokens s)" "rt_hash t = h"
    and r: "rotateRefreshToken h nt now s = Inr (Granted uid org role v, s')"
  shows "live_token t" "uid = rt_user t" "org = rt_org t" "v = rt_version t" "now < rt_expires t"
    "lock_user_authentication uid s = Some v" "token_statuses t s = Some (role, ACTIVE, ACTIVE, ACTIVE)"
    "new_row nt org uid (rt_family t) v \<in> set (au_tokens s')"
  using r find_hash[OF ok t] by (auto elim!: rotate_cases simp: live_token_def)

lemma dead_not_rotated:
  assumes "tokens_ok (au_tokens s)" and "family_state (rt_family t) (au_tokens s) = Dead" and "t \<in> set (au_tokens s)" "rt_hash t = h"
  shows "rotateRefreshToken h nt now s \<noteq> Inr (Granted uid org role v, s')"
  using rotation_of_member(1)[OF assms(1,3,4)] family_state_DeadD[OF assms(2,3)] by blast

lemma tokens_persist:
  assumes "tokens_next ts ts'" and "t \<in> set ts"
  shows "\<exists>u \<in> set ts'. rt_hash u = rt_hash t \<and> rt_family u = rt_family t"
proof -
  let ?key = "\<lambda>u. (rt_hash u, rt_family u)"
  from assms(2) have "?key t \<in> ?key ` set ts" by (rule imageI)
  with assms(1) have "?key t \<in> ?key ` set ts'"
    by (induction rule: tokens_next.induct) (simp_all add: image_rt_update image_Un)
  then show ?thesis by auto
qed

lemma tokens_persist_steps:
  "auth_step\<^sup>*\<^sup>* s s' \<Longrightarrow> t \<in> set (au_tokens s) \<Longrightarrow> \<exists>u \<in> set (au_tokens s'). rt_hash u = rt_hash t \<and> rt_family u = rt_family t"
proof (induction rule: rtranclp_induct)
  case (step y z)
  then show ?case using tokens_persist[OF auth_step_tokens[OF step(2)]] by metis
qed blast



end
