(* ===== verification/Auth_Grants.thy ===== *)
theory Auth_Grants
  imports Auth_Families
begin

text \<open>
  Who gets a session: every granted session belongs to an active user with an active membership of
  an active organization in the current generation, and a selection token buys one session. The
  last section runs a login, a selection, a rotation and a replay.
\<close>

section \<open>Users and login sessions\<close>

definition logins_ok :: "auth_db \<Rightarrow> bool" where
  "logins_ok s \<longleftrightarrow> distinct (map us_id (au_users s)) \<and> distinct (map ls_hash (au_logins s))"

lemma auth_step_people:
  assumes "auth_step s s'" and "distinct (map us_id (au_users s))"
  shows "distinct (map us_id (au_users s')) \<and> us_id ` set (au_users s) \<subseteq> us_id ` set (au_users s')"
  using assms
proof (induction rule: auth_step.induct)
  case (login uid h e v s b s')
  then show ?case by (auto dest!: create_eq_Inr)
next
  case (select h org now nt s r s')
  from select(1) show ?case by (cases rule: consume_cases) (use select(3) in auto)
next
  case (refresh h nt now s r s')
  from refresh(1) show ?case by (cases rule: rotate_cases) (use refresh(2) in auto)
next
  case (logout h now s q s')
  then show ?case by (auto dest!: logout_eq_Inr)
next
  case (switch h eu eo target now nt s r s')
  from switch(1) show ?case by (cases rule: switch_cases) (use switch(3) in auto)
next
  case (reset uid at s v s')
  then have u: "au_users s' = update_rows (\<lambda>u. us_id u = uid) (\<lambda>u. u\<lparr>us_version := us_version u + 1\<rparr>) (au_users s)"
    by (auto dest!: reset_eq_Inr)
  then have "map us_id (au_users s') = map us_id (au_users s)" by (simp add: map_update_rows)
  with reset(2) show ?case by (simp flip: set_map)
next
  case (administer s' s new_ids)
  then show ?case by (simp flip: set_map)
qed

definition spent_selection :: "string \<Rightarrow> auth_db \<Rightarrow> bool" where
  "spent_selection h s \<longleftrightarrow> h \<in> ls_hash ` set (au_logins s) \<and>
     (\<forall>l \<in> set (au_logins s). ls_hash l = h \<longrightarrow> ls_consumed l \<noteq> None \<and> ls_user l \<in> us_id ` set (au_users s))"

lemma spend_rows:
  assumes "\<And>l. ls_hash (f l) = ls_hash l \<and> ls_user (f l) = ls_user l \<and> ls_consumed (f l) \<noteq> None"
  shows "ls_hash ` set (update_rows p f ls) = ls_hash ` set ls"
    and "map ls_hash (update_rows p f ls) = map ls_hash ls"
    and "l \<in> set (update_rows p f ls) \<Longrightarrow> \<exists>q \<in> set ls. ls_hash q = ls_hash l \<and> ls_user q = ls_user l \<and> (ls_consumed q \<noteq> None \<longrightarrow> ls_consumed l \<noteq> None)"
proof -
  show m: "map ls_hash (update_rows p f ls) = map ls_hash ls" using assms by (simp add: map_update_rows)
  then show "ls_hash ` set (update_rows p f ls) = ls_hash ` set ls" by (metis set_map)
  show "\<exists>q \<in> set ls. ls_hash q = ls_hash l \<and> ls_user q = ls_user l \<and> (ls_consumed q \<noteq> None \<longrightarrow> ls_consumed l \<noteq> None)" if "l \<in> set (update_rows p f ls)"
    using set_update_rows[OF that] assms by metis
qed

text \<open>An operation adds a login session under a new hash, or marks some as consumed.\<close>

inductive logins_next :: "login_row list \<Rightarrow> login_row list \<Rightarrow> bool" where
  same: "logins_next ls ls"
| add: "ls_hash l \<notin> ls_hash ` set ls \<Longrightarrow> logins_next ls (ls @ [l])"
| spend: "(\<And>l. ls_hash (f l) = ls_hash l \<and> ls_user (f l) = ls_user l \<and> ls_consumed (f l) \<noteq> None) \<Longrightarrow> logins_next ls (update_rows p f ls)"

lemma auth_step_logins: "auth_step s s' \<Longrightarrow> logins_next (au_logins s) (au_logins s')"
proof (induction rule: auth_step.induct)
  case (login uid h e v s b s')
  then show ?case by (auto dest!: create_eq_Inr intro: logins_next.same intro!: logins_next.add)
next
  case (select h org now nt s r s')
  from select(1) show ?case by (cases rule: consume_cases) (auto intro: logins_next.intros)
next
  case (refresh h nt now s r s')
  then show ?case by (cases rule: rotate_cases) (auto intro: logins_next.same)
next
  case (logout h now s q s')
  then show ?case by (auto dest!: logout_eq_Inr intro: logins_next.same)
next
  case (switch h eu eo target now nt s r s')
  from switch(1) show ?case by (cases rule: switch_cases) (auto intro: logins_next.same)
next
  case (reset uid at s v s')
  then show ?case by (auto dest!: reset_eq_Inr intro!: logins_next.spend split: option.splits)
next
  case (administer s' s new_ids)
  then show ?case by (simp add: logins_next.same)
qed

lemma distinct_logins_next: "logins_next ls ls' \<Longrightarrow> distinct (map ls_hash ls) \<Longrightarrow> distinct (map ls_hash ls')"
  by (induction rule: logins_next.induct) (auto simp: spend_rows(2))

lemma reachable_logins_ok: "auth_reachable s \<Longrightarrow> logins_ok s"
  by (induction rule: auth_reachable.induct)
    (auto simp: logins_ok_def dest: auth_step_people distinct_logins_next[OF auth_step_logins])

lemma spent_logins_next:
  assumes "logins_next ls ls'" and "h \<in> ls_hash ` set ls" and "\<And>l. l \<in> set ls \<Longrightarrow> ls_hash l = h \<Longrightarrow> ls_consumed l \<noteq> None \<and> ls_user l \<in> U"
  shows "h \<in> ls_hash ` set ls' \<and> (\<forall>l \<in> set ls'. ls_hash l = h \<longrightarrow> ls_consumed l \<noteq> None \<and> ls_user l \<in> U)"
  using assms
proof (induction rule: logins_next.induct)
  case (spend f ls p)
  show ?case
  proof (intro conjI ballI impI)
    show "h \<in> ls_hash ` set (update_rows p f ls)" using spend(2) by (simp add: spend_rows(1)[OF spend(1)])
    fix l assume "l \<in> set (update_rows p f ls)" "ls_hash l = h"
    with spend_rows(3)[OF spend(1)] spend(3) show "ls_consumed l \<noteq> None" "ls_user l \<in> U" by metis+
  qed
qed auto

lemma spent_selection_stays:
  assumes "auth_step s s'" and "logins_ok s" and "spent_selection h s"
  shows "spent_selection h s'"
  using spent_logins_next[OF auth_step_logins[OF assms(1)], of h "us_id ` set (au_users s)"] assms(2,3)
    auth_step_people[OF assms(1)] unfolding spent_selection_def logins_ok_def by blast

lemma spent_selection_steps:
  "auth_step\<^sup>*\<^sup>* s s' \<Longrightarrow> auth_reachable s \<Longrightarrow> spent_selection h s \<Longrightarrow> spent_selection h s'"
proof (induction rule: rtranclp_induct)
  case (step y z)
  then show ?case using steps_tokens[OF step(1,4)] by (auto intro: spent_selection_stays reachable_logins_ok)
qed simp

lemma find_user: "us_id u = uid \<Longrightarrow> u \<in> set us \<Longrightarrow> find (\<lambda>u. us_id u = uid) us \<noteq> None"
  by (auto simp: find_None_iff)

lemma spent_selection_refused:
  assumes "spent_selection h s"
  shows "consume_login_selection h org now nt s = Inr (Refused REUSED, s)"
proof -
  from assms obtain l where l: "find (\<lambda>l. ls_hash l = h) (au_logins s) = Some l"
    by (cases "find (\<lambda>l. ls_hash l = h) (au_logins s)") (auto simp: spent_selection_def find_None_iff)
  have m: "l \<in> set (au_logins s)" "ls_hash l = h" using find_mem[OF l] by auto
  with assms obtain u where "u \<in> set (au_users s)" "us_id u = ls_user l" and c: "ls_consumed l \<noteq> None" by (auto simp: spent_selection_def)
  then obtain v where v: "lock_user_authentication (ls_user l) s = Some v"
    using find_user[of u "ls_user l" "au_users s"] by (auto simp: lock_user_authentication_def)
  have none: "find (\<lambda>l. ls_hash l = h \<and> ls_version l = v \<and> ls_consumed l = None \<and> ls_expires l > now) (au_logins s) = None"
    using assms by (auto simp: find_None_iff spent_selection_def)
  have "list_ex (\<lambda>l. ls_hash l = h \<and> ls_consumed l \<noteq> None) (au_logins s)" using m c by (auto simp: list_ex_iff)
  with l v none show ?thesis by (simp add: consume_login_selection_def Let_def)
qed


section \<open>Properties\<close>

text \<open> C26: a selection token buys one session: once it was exchanged, every later presentation of it
  answers REUSED and changes nothing, whatever happened in between. \<close>

theorem selection_is_consumed_once:
  assumes "auth_reachable s" and "consume_login_selection h org now nt s = Inr (Granted uid org role v, s')"
    and "nt_family nt \<notin> rt_family ` set (au_tokens s)" and "auth_step\<^sup>*\<^sup>* s' s''"
  shows "consume_login_selection h org' now' nt' s'' = Inr (Refused REUSED, s'')"
proof -
  from assms(2) have "spent_selection h s'"
  proof (cases rule: consume_cases)
    case (selected l0 w l role')
    have d: "inj_on ls_hash (set (au_logins s))" using reachable_logins_ok[OF assms(1)] by (simp add: logins_ok_def distinct_map)
    from selected(1) have "l0 \<in> set (au_logins s)" "ls_hash l0 = h" by (auto dest: find_mem)
    with d selected(3,4) have "l0 = l" by (auto simp: inj_on_def)
    with selected(2) have u: "ls_user l \<in> us_id ` set (au_users s)"
      by (auto simp: lock_user_authentication_def dest!: find_mem intro: sym)
    have only: "q = l" if "q \<in> set (au_logins s)" "ls_hash q = h" for q using d that selected(3,4) by (auto simp: inj_on_def)
    show ?thesis
      unfolding spent_selection_def
    proof (intro conjI ballI impI)
      show "h \<in> ls_hash ` set (au_logins s')" using selected(3,4,10) by (auto simp: image_rt_update)
      fix q assume q: "q \<in> set (au_logins s')" "ls_hash q = h"
      let ?p = "\<lambda>l. ls_hash l = h \<and> ls_version l = w \<and> ls_consumed l = None \<and> ls_expires l > now"
      from q(1) selected(10) have "q \<in> set (update_rows ?p (\<lambda>l. l\<lparr>ls_consumed := Some now\<rparr>) (au_logins s))" by simp
      then have "q = l\<lparr>ls_consumed := Some now\<rparr>"
      proof (rule set_update_rows[THEN disjE])
        assume "q \<in> set (au_logins s) \<and> \<not> ?p q"
        with only[of q] q(2) selected(4-7) show ?thesis by blast
      next
        assume "\<exists>r \<in> set (au_logins s). ?p r \<and> q = r\<lparr>ls_consumed := Some now\<rparr>"
        with only show ?thesis by blast
      qed
      with u selected(10) show "ls_consumed q \<noteq> None" "ls_user q \<in> us_id ` set (au_users s')" by simp_all
    qed
  qed auto
  moreover have "auth_reachable s'" by (rule auth_reachable.later[OF assms(1) auth_step.select[OF assms(2,3)]])
  ultimately have "spent_selection h s''" by (intro spent_selection_steps[OF assms(4)])
  then show ?thesis by (rule spent_selection_refused)
qed

lemma find_weaker: "find p xs = Some x \<Longrightarrow> q x \<Longrightarrow> (\<And>y. q y \<Longrightarrow> p y) \<Longrightarrow> find q xs = Some x"
  by (induction xs) (auto split: if_splits)

lemma token_statuses_active:
  assumes "token_statuses t s = Some (role, ACTIVE, ACTIVE, ACTIVE)"
  shows "active_role (rt_org t) (rt_user t) s = Some role"
proof -
  obtain m u x where m: "find (\<lambda>m. mb_org m = rt_org t \<and> mb_user m = rt_user t) (au_members s) = Some m"
    and u: "find (\<lambda>u. us_id u = rt_user t) (au_users s) = Some u" and x: "find (\<lambda>x. or_id x = rt_org t) (au_orgs s) = Some x"
    and st: "mb_role m = role" "mb_status m = ACTIVE" "us_status u = ACTIVE" "or_status x = ACTIVE"
    using assms by (auto simp: token_statuses_def split: option.splits)
  have "find (\<lambda>m. mb_org m = rt_org t \<and> mb_user m = rt_user t \<and> mb_status m = ACTIVE) (au_members s) = Some m"
    by (rule find_weaker[OF m]) (use find_mem[OF m] st in auto)
  with find_mem[OF u] find_mem[OF x] st show ?thesis by (auto simp: active_role_def list_ex_iff)
qed

lemma role_is_current:
  assumes "distinct (map us_id (au_users s))" "active_role org uid s = Some role" "lock_user_authentication uid s = Some v"
  shows "isUserAuthenticationCurrent uid v s"
proof -
  from assms(2) obtain u where u: "u \<in> set (au_users s)" "us_id u = uid" "us_status u = ACTIVE"
    by (auto simp: active_role_def list_ex_iff split: if_splits)
  from assms(3) obtain w where w: "w \<in> set (au_users s)" "us_id w = uid" "us_version w = v"
    by (auto simp: lock_user_authentication_def dest: find_mem)
  from assms(1) u w have "u = w" by (auto simp: distinct_map inj_on_def)
  with u w show ?thesis by (auto simp: isUserAuthenticationCurrent_def list_ex_iff)
qed

lemma read_again [simp]:
  "active_role org uid (s\<lparr>au_tokens := ts\<rparr>) = active_role org uid s" "active_role org uid (s\<lparr>au_logins := ls\<rparr>) = active_role org uid s"
  "isUserAuthenticationCurrent uid v (s\<lparr>au_tokens := ts\<rparr>) = isUserAuthenticationCurrent uid v s"
  "isUserAuthenticationCurrent uid v (s\<lparr>au_logins := ls\<rparr>) = isUserAuthenticationCurrent uid v s"
  by (simp_all add: active_role_def isUserAuthenticationCurrent_def)

definition holds_session :: "string \<Rightarrow> string \<Rightarrow> auth_role \<Rightarrow> nat \<Rightarrow> string \<Rightarrow> auth_db \<Rightarrow> bool" where
  "holds_session uid org role v hash s \<longleftrightarrow> isUserAuthenticationCurrent uid v s \<and> active_role org uid s = Some role \<and>
     list_ex (\<lambda>t. rt_hash t = hash \<and> live_token t \<and> rt_user t = uid \<and> rt_org t = org \<and> rt_version t = v) (au_tokens s)"

text \<open> C24: whenever a selection, a rotation or a switch of organization grants a session, the user is
  active in the current generation, the role is the one of an active membership in an active
  organization, and the stored token is live and carries that user, organization and generation. \<close>

theorem granted_sessions_are_current:
  assumes "auth_reachable s"
    and "consume_login_selection h org now nt s = Inr (Granted uid org role v, s')
      \<or> rotateRefreshToken h nt now s = Inr (Granted uid org role v, s')
      \<or> switch_refresh_organization h eu eo org now nt s = Inr (Granted uid org role v, s')"
  shows "holds_session uid org role v (nt_hash nt) s'"
proof -
  note ok = reachable_logins_ok[OF assms(1)]
  then have us: "distinct (map us_id (au_users s))" by (simp add: logins_ok_def)
  from assms(2) show ?thesis
  proof (elim disjE)
    assume "consume_login_selection h org now nt s = Inr (Granted uid org role v, s')"
    then show ?thesis
    proof (cases rule: consume_cases)
      case (selected l0 w l role')
      have d: "inj_on ls_hash (set (au_logins s))" using ok by (simp add: logins_ok_def distinct_map)
      from selected(1) have "l0 \<in> set (au_logins s)" "ls_hash l0 = h" by (auto dest: find_mem)
      with d selected(3,4) have "l0 = l" by (auto simp: inj_on_def)
      with role_is_current[OF us selected(8)] selected show ?thesis by (auto simp: holds_session_def)
    qed auto
  next
    assume "rotateRefreshToken h nt now s = Inr (Granted uid org role v, s')"
    then show ?thesis
    proof (cases rule: rotate_cases)
      case (rotated cur w role' n)
      note a = token_statuses_active[OF rotated(7)]
      from role_is_current[OF us a rotated(6)] a rotated show ?thesis by (auto simp: holds_session_def)
    qed auto
  next
    assume "switch_refresh_organization h eu eo org now nt s = Inr (Granted uid org role v, s')"
    then show ?thesis
    proof (cases rule: switch_cases)
      case (switched cur w role')
      with role_is_current[OF us, of org eu role w] show ?thesis by (auto simp: holds_session_def)
    qed auto
  qed
qed

end
