(* ===== verification/Auth_Service_Properties.thy ===== *)
theory Auth_Service_Properties
  imports Auth_Service Auth_Grants
begin

text \<open>
  What the authentication services promise: a refused login looks the same whatever the database
  holds, a login belongs to the generation whose password was verified, the delay grows and stays
  bounded, and a browser session that cannot be shown leaves no live token behind.
\<close>

section \<open>Steps that do not look at the database\<close>

definition blind :: "('l auth_world, 'a) io \<Rightarrow> bool" where
  "blind m \<longleftrightarrow> (\<forall>w x. m (w\<lparr>aw_db := x\<rparr>) = (fst (m w), (snd (m w))\<lparr>aw_db := x\<rparr>))"

lemma blindD: "blind m \<Longrightarrow> m (w\<lparr>aw_db := x\<rparr>) = (fst (m w), (snd (m w))\<lparr>aw_db := x\<rparr>)"
  by (simp add: blind_def)

lemma blind_keeps_db: "blind m \<Longrightarrow> aw_db (snd (m w)) = aw_db w"
proof -
  assume "blind m"
  then have "m (w\<lparr>aw_db := aw_db w\<rparr>) = (fst (m w), (snd (m w))\<lparr>aw_db := aw_db w\<rparr>)" by (rule blindD)
  then have "snd (m w) = (snd (m w))\<lparr>aw_db := aw_db w\<rparr>" by simp (metis snd_conv)
  then have "aw_db (snd (m w)) = aw_db ((snd (m w))\<lparr>aw_db := aw_db w\<rparr>)" by (rule arg_cong)
  then show ?thesis by simp
qed

lemma blind_basic [intro]: "blind (io_return a)" "blind (io_throw e)" "blind (io_lift r)"
  by (simp_all add: blind_def)

lemma blind_bind [intro]: "blind m \<Longrightarrow> (\<And>a. blind (f a)) \<Longrightarrow> blind (io_bind m f)"
  by (auto simp: blind_def io_bind_def split: prod.splits sum.splits)

lemma blind_catch [intro]: "blind m \<Longrightarrow> (\<And>e. blind (h e)) \<Longrightarrow> blind (io_catch m h)"
  by (auto simp: blind_def io_catch_def split: prod.splits sum.splits)

lemma blind_when [intro]: "blind m \<Longrightarrow> blind (io_when b m)"
  by (cases b) auto

lemma blind_option [intro]: "blind m \<Longrightarrow> (\<And>a. blind (f a)) \<Longrightarrow> blind (case x of None \<Rightarrow> m | Some a \<Rightarrow> f a)"
  by (cases x) auto

lemma blind_prod [intro]: "(\<And>a b. blind (f a b)) \<Longrightarrow> blind (case x of (a, b) \<Rightarrow> f a b)"
  by (cases x) auto

lemma blind_audit [intro]: "blind (writeSecurityAudit d e)"
  unfolding writeSecurityAudit_def by (intro blind_bind blind_basic blind_option) (simp add: blind_def)

lemma blind_consume [intro]: "blind (consume_both d k)"
  by (auto simp: blind_def consume_both_def Let_def split: prod.splits sum.splits)

lemma blind_sleep [intro]: "blind (io_modify (\<lambda>w. w\<lparr>aw_slept := aw_slept w @ [ms]\<rparr>))"
  by (simp add: blind_def)

lemma blind_admission [intro]: "blind (admission d requestId k g)"
  unfolding admission_def Let_def by (intro blind_bind blind_catch blind_prod blind_option blind_when blind_basic blind_audit blind_consume blind_sleep)

lemma blind_deny [intro]: "blind (deny_login d requestId g)"
  unfolding deny_login_def by (intro blind_bind blind_audit blind_basic)

section \<open>Login\<close>

definition admits_login :: "('l, 't) auth_deps \<Rightarrow> login_command \<Rightarrow> auth_db \<Rightarrow> bool" where
  "admits_login d cmd s \<longleftrightarrow> (case findLoginIdentity (map to_lower (js_trim (lc_email cmd))) s of None \<Rightarrow> False
     | Some i \<Rightarrow> li_status i = ACTIVE \<and> verifyPasswordOrDummy (ad_passwords d) (lc_password cmd) (Some (li_passwordHash i)) \<and> li_orgs i \<noteq> [])"

text \<open>The login with the identity left out.\<close>

definition refused_login :: "('l, 't) auth_deps \<Rightarrow> login_command \<Rightarrow> ('l auth_world, login_result) io" where
  "refused_login d cmd =
    io_bind (io_lift (createRateLimitKeys (ad_crypto d) (ad_ip d) (map to_lower (js_trim (lc_email cmd))) (lc_ipAddress cmd)
      (ad_ipSecret d) (ad_identitySecret d))) (\<lambda>keys.
    io_bind (io_lift (digests keys)) (\<lambda>g.
    io_bind (admission d (lc_requestId cmd) keys g) (\<lambda>_. deny_login d (lc_requestId cmd) g)))"

lemma blind_refused: "blind (refused_login d cmd)"
  unfolding refused_login_def by (intro blind_bind blind_basic blind_admission blind_deny)

lemma identified_denied:
  assumes "\<not> admits_login d cmd (aw_db w)"
  shows "login_identified d cmd between random issuedAt g w = deny_login d (lc_requestId cmd) g w"
  using assms by (cases "findLoginIdentity (map to_lower (js_trim (lc_email cmd))) (aw_db w)")
    (auto simp: login_identified_def admits_login_def Let_def)

lemma bind_after_blind: "blind m \<Longrightarrow> (\<And>a v. aw_db v = aw_db w \<Longrightarrow> f a v = g a v) \<Longrightarrow> io_bind m f w = io_bind m g w"
  using blind_keeps_db[of m w] by (auto simp: io_bind_def split: prod.splits sum.splits)

lemma refused_login: "\<not> admits_login d cmd (aw_db w) \<Longrightarrow> login d cmd between random issuedAt w = refused_login d cmd w"
  unfolding login_def refused_login_def by (intro bind_after_blind blind_basic blind_admission identified_denied) auto

text \<open> C28: a refused login tells nothing about the database: whether the account is unknown, disabled,
  without an active organization or the password is wrong, the answer, the audit rows, the rate
  limiter and the delay are the same, and the database stays as it was. \<close>

theorem refused_logins_are_alike:
  assumes "\<not> admits_login d cmd db1" and "\<not> admits_login d cmd db2"
  shows "fst (login d cmd between1 random1 issued1 (w\<lparr>aw_db := db1\<rparr>)) = fst (login d cmd between2 random2 issued2 (w\<lparr>aw_db := db2\<rparr>))
    \<and> (snd (login d cmd between1 random1 issued1 (w\<lparr>aw_db := db1\<rparr>)))\<lparr>aw_db := db2\<rparr> = snd (login d cmd between2 random2 issued2 (w\<lparr>aw_db := db2\<rparr>))
    \<and> aw_db (snd (login d cmd between1 random1 issued1 (w\<lparr>aw_db := db1\<rparr>))) = db1
    \<and> (\<forall>r. fst (login d cmd between1 random1 issued1 (w\<lparr>aw_db := db1\<rparr>)) \<noteq> Inr r)"
proof -
  have 1: "login d cmd between1 random1 issued1 (w\<lparr>aw_db := db1\<rparr>) = refused_login d cmd (w\<lparr>aw_db := db1\<rparr>)"
    and 2: "login d cmd between2 random2 issued2 (w\<lparr>aw_db := db2\<rparr>) = refused_login d cmd (w\<lparr>aw_db := db2\<rparr>)"
    using assms by (intro refused_login; simp)+
  have "fst (refused_login d cmd v) \<noteq> Inr r" for v r
    by (auto simp: refused_login_def deny_login_def io_bind_def split: prod.splits sum.splits)
  then show ?thesis unfolding 1 2 blindD[OF blind_refused] by simp
qed

text \<open> A login belongs to the generation whose password was verified: when it succeeds, the user it
  read was active with that password, and at the moment the session was stored the user's generation
  was still the one read, so a password reset in between makes the login fail. \<close>

theorem login_belongs_to_the_verified_generation:
  assumes "login d cmd between random issuedAt w = (Inr r, w')"
  shows "\<exists>i. findLoginIdentity (map to_lower (js_trim (lc_email cmd))) (aw_db w) = Some i \<and> li_status i = ACTIVE
    \<and> verifyPasswordOrDummy (ad_passwords d) (lc_password cmd) (Some (li_passwordHash i))
    \<and> lock_user_authentication (li_id i) (between (aw_db w)) = Some (li_version i)
    \<and> lr_organizations r = li_orgs i \<and> lr_expiresAt r = issuedAt + 300000"
proof -
  from assms obtain keys g u v where v: "admission d (lc_requestId cmd) keys g w = (Inr u, v)"
    and i: "login_identified d cmd between random issuedAt g v = (Inr r, w')"
    by (auto simp: login_def io_bind_Inr)
  have db: "aw_db v = aw_db w" using blind_keeps_db[OF blind_admission, of d "lc_requestId cmd" keys g w] v by simp
  have nodeny: "deny_login d rid g x \<noteq> (Inr y, z)" for rid x and y :: login_result and z
    by (auto simp: deny_login_def io_bind_Inr)
  from i show ?thesis
    by (auto simp: login_identified_def db nodeny io_bind_Inr Let_def auth_part_def io_part_def createSelectionSession_def run_tx_def
      create_login_selection_def SELECTION_TOKEN_TTL_MS_def split: option.splits if_splits prod.splits sum.splits)
qed


section \<open>The delay\<close>

lemma delay_power_mono: "0 \<le> (b::int) \<Longrightarrow> m \<le> n \<Longrightarrow> b * 2 ^ m \<le> b * 2 ^ n"
  by (intro mult_left_mono power_increasing) auto

interpretation sleepless: io_frame "\<lambda>w w'. aw_slept w' = aw_slept w"
  by unfold_locales auto

lemma sleepless_steps:
  "io_respects (\<lambda>w w'. aw_slept w' = aw_slept w) (writeSecurityAudit d ev)"
  "io_respects (\<lambda>w w'. aw_slept w' = aw_slept w) (consume_both d k)"
  "io_respects (\<lambda>w w'. aw_slept w' = aw_slept w) (auth_part m)"
  by (auto simp: io_respects_def writeSecurityAudit_def io_bind_def consume_both_def auth_part_def io_part_def Let_def split: prod.splits sum.splits option.splits)

lemma sleepless_deny: "io_respects (\<lambda>w w'. aw_slept w' = aw_slept w) (deny_login d rid g)"
  unfolding deny_login_def by (intro sleepless.io_respects_bind sleepless_steps sleepless.io_respects_throw)

lemma sleepless_identified: "io_respects (\<lambda>w w'. aw_slept w' = aw_slept w) (login_identified d cmd between random issuedAt g)"
proof -
  have m: "io_respects (\<lambda>w w'. aw_slept w' = aw_slept w) (io_modify (\<lambda>w. w\<lparr>aw_db := between (aw_db w)\<rparr>))" by (simp add: io_respects_def)
  show ?thesis unfolding login_identified_def Let_def
    by (intro sleepless.io_respects_bind sleepless.io_respects_gets sleepless.io_respects_option sleepless.io_respects_if sleepless_deny m sleepless_steps
      sleepless.io_respects_return)
qed

definition slept_within :: "int \<Rightarrow> int list \<Rightarrow> int list \<Rightarrow> bool" where
  "slept_within limit before after \<longleftrightarrow> after = before \<or> (\<exists>ms. after = before @ [ms] \<and> 0 < ms \<and> ms \<le> limit)"

lemma delay_limits:
  assumes "0 \<le> base" and "0 \<le> limit"
  shows "0 \<le> calculateProgressiveDelayMs n base limit" and "calculateProgressiveDelayMs n base limit \<le> limit"
  using assms by (auto simp: calculateProgressiveDelayMs_def)

lemma admission_sleeps:
  assumes "0 \<le> ad_baseDelayMs d" and "0 \<le> ad_maximumDelayMs d"
  shows "slept_within (ad_maximumDelayMs d) (aw_slept w) (aw_slept (snd (admission d rid k g w)))"
proof -
  have limit: "calculateProgressiveDelayMs n (ad_baseDelayMs d) (ad_maximumDelayMs d) \<le> ad_maximumDelayMs d" for n
    by (rule delay_limits(2)[OF assms])
  have audit: "aw_slept (snd (writeSecurityAudit d ev v)) = aw_slept v" for ev v
    using sleepless_steps(1)[of d ev] by (simp add: io_respects_def)
  have both: "aw_slept (snd (consume_both d k w)) = aw_slept w" using sleepless_steps(2)[of d k] by (simp add: io_respects_def)
  obtain r v where c: "consume_both d k w = (r, v)" by fastforce
  with both have v: "aw_slept v = aw_slept w" by simp
  show ?thesis
  proof (cases r)
    case (Inl err)
    with c v audit[of "auth_event AUTH_RATE_LIMIT_UNAVAILABLE rid g" v] show ?thesis
      by (auto simp: admission_def io_catch_def io_bind_def slept_within_def split: prod.splits sum.splits)
  next
    case (Inr ds)
    obtain d1 d2 where ds: "ds = (d1, d2)" by (cases ds)
    show ?thesis
    proof (cases "find (\<lambda>x. \<not> de_allowed x) [d1, d2]")
      case (Some b)
      with c v Inr ds audit[of "auth_event AUTH_RATE_LIMITED rid g" v] show ?thesis
        by (auto simp: admission_def io_catch_def io_bind_def slept_within_def split: prod.splits sum.splits)
    next
      case None
      let ?ms = "calculateProgressiveDelayMs (max (de_count d1) (de_count d2)) (ad_baseDelayMs d) (ad_maximumDelayMs d)"
      let ?rel = "io_when (de_released d1 \<or> de_released d2) (writeSecurityAudit d (auth_event AUTH_RATE_LIMIT_RELEASED rid g))"
      obtain q u where q: "?rel v = (q, u)" by fastforce
      have u: "aw_slept u = aw_slept w"
        using q v audit[of "auth_event AUTH_RATE_LIMIT_RELEASED rid g" v] by (cases "de_released d1 \<or> de_released d2") auto
      obtain z y where z: "writeSecurityAudit d (auth_event (AUTH_PROGRESSIVE_DELAY_APPLIED (seconds_value ?ms)) rid g) u = (z, y)" by fastforce
      have y: "aw_slept y = aw_slept w" using audit[of "auth_event (AUTH_PROGRESSIVE_DELAY_APPLIED (seconds_value ?ms)) rid g" u] z u by simp
      have "admission d rid k g w = io_bind ?rel (\<lambda>_. io_when (?ms > 0) (io_bind (writeSecurityAudit d
          (auth_event (AUTH_PROGRESSIVE_DELAY_APPLIED (seconds_value ?ms)) rid g)) (\<lambda>_. io_modify (\<lambda>w. w\<lparr>aw_slept := aw_slept w @ [?ms]\<rparr>)))) v"
        using c Inr ds None by (simp add: admission_def io_catch_def io_bind_def Let_def)
      with q z u y limit show ?thesis
        by (cases q; cases z; cases "?ms > 0") (simp_all add: io_bind_def slept_within_def)
    qed
  qed
qed

text \<open> The progressive delay is bounded and never shrinks with the number of attempts, and a login
  waits at most once, for no longer than the maximum, however often it is tried. \<close>

theorem delay_is_bounded:
  assumes "0 \<le> ad_baseDelayMs d" and "0 \<le> ad_maximumDelayMs d"
  shows "slept_within (ad_maximumDelayMs d) (aw_slept w) (aw_slept (snd (login d cmd between random issuedAt w)))
    \<and> 0 \<le> calculateProgressiveDelayMs n (ad_baseDelayMs d) (ad_maximumDelayMs d)
    \<and> calculateProgressiveDelayMs n (ad_baseDelayMs d) (ad_maximumDelayMs d) \<le> calculateProgressiveDelayMs (n + int m) (ad_baseDelayMs d) (ad_maximumDelayMs d)"
proof (intro conjI)
  show "0 \<le> calculateProgressiveDelayMs n (ad_baseDelayMs d) (ad_maximumDelayMs d)" by (rule delay_limits(1)[OF assms])
  show "calculateProgressiveDelayMs n (ad_baseDelayMs d) (ad_maximumDelayMs d) \<le> calculateProgressiveDelayMs (n + int m) (ad_baseDelayMs d) (ad_maximumDelayMs d)"
    using assms delay_power_mono[OF assms(1) nat_mono, of "n - 2" "n + int m - 2"] by (auto simp: calculateProgressiveDelayMs_def min_le_iff_disj)
  have keep: "aw_slept (snd (login_identified d cmd between random issuedAt g v)) = aw_slept v" for g v
    using sleepless_identified[of d cmd between random issuedAt g] by (simp add: io_respects_def)
  show "slept_within (ad_maximumDelayMs d) (aw_slept w) (aw_slept (snd (login d cmd between random issuedAt w)))"
  proof (cases "\<exists>keys g. createRateLimitKeys (ad_crypto d) (ad_ip d) (map to_lower (js_trim (lc_email cmd))) (lc_ipAddress cmd)
      (ad_ipSecret d) (ad_identitySecret d) = Inr keys \<and> digests keys = Inr g")
    case True
    then obtain keys g where k: "createRateLimitKeys (ad_crypto d) (ad_ip d) (map to_lower (js_trim (lc_email cmd))) (lc_ipAddress cmd)
      (ad_ipSecret d) (ad_identitySecret d) = Inr keys" "digests keys = Inr g" by blast
    obtain r v where v: "admission d (lc_requestId cmd) keys g w = (r, v)" by fastforce
    with admission_sleeps[OF assms, of w "lc_requestId cmd" keys g] keep[of g v] k show ?thesis
      by (cases r) (simp_all add: login_def io_bind_def)
  next
    case False
    then show ?thesis by (auto simp: login_def io_bind_def slept_within_def split: sum.splits)
  qed
qed


section \<open>The browser session\<close>

lemma nibble_hex: "list_all (\<lambda>n. hex_char (nibble_char n)) [0..<16]"
  by code_simp

lemma digest_of_bytes: "length bs = 32 \<Longrightarrow> createAuditDigest (to_hex bs) = Inr (to_hex bs)"
proof -
  have "hex_char (nibble_char n)" if "n < 16" for n using nibble_hex that by (simp add: list_all_iff)
  then have "list_all hex_char (to_hex bs)"
    using byte_bound by (induction bs) (auto simp: less_mult_imp_div_less)
  moreover have "length (to_hex bs) = 2 * length bs" by (induction bs) auto
  ultimately show "length bs = 32 \<Longrightarrow> createAuditDigest (to_hex bs) = Inr (to_hex bs)"
    by (simp add: createAuditDigest_def valid_digest_def)
qed

lemma token_event_recorded:
  assumes "ty \<in> {AUTH_LOGOUT_INVALID, AUTH_LOGOUT_COMPLETED}" and "createAuditDigest g = Inr g"
  shows "\<exists>r. toSecurityAuditRecord (token_event ty rid g) = Inr r"
  using assms by (auto simp: toSecurityAuditRecord_def token_event_def security_row_def optionalAuditDigest_def)

lemma logout_kills:
  assumes "auth_reachable (aw_db w)" and "\<And>r. ad_auditFails d r = None" and "\<And>s m. length (cr_hmac (ad_crypto d) s m) = 32"
    and "hashRefreshToken (ad_crypto d) raw (ad_refreshSecret d) = Inr h" and "t \<in> set (au_tokens (aw_db w))" and "rt_hash t = h"
  shows "\<exists>w'. logout d raw rid ms w = (Inr (), w') \<and> family_state (rt_family t) (au_tokens (aw_db w')) = Dead"
proof -
  note ok = reachable_tokens_ok[OF assms(1)]
  have f: "find (\<lambda>t. rt_hash t = h) (au_tokens (aw_db w)) = Some t" using find_hash[OF ok assms(5,6)] .
  obtain out where r: "run_tx (revokeRefreshFamily h ms) (aw_db w) = (Inr out, revoke_family ms (rt_org t) (rt_family t) (aw_db w))"
    using f by (simp add: revokeRefreshFamily_def run_tx_def)
  have g: "createAuditDigest h = Inr h" using assms(3,4) digest_of_bytes by (auto simp: hashRefreshToken_def split: if_splits)
  obtain rec where rec: "toSecurityAuditRecord (token_event (if out = LOGOUT_INVALID then AUTH_LOGOUT_INVALID else AUTH_LOGOUT_COMPLETED) rid h) = Inr rec"
    using token_event_recorded[OF _ g] by fastforce
  have "logout d raw rid ms w = (Inr (), w\<lparr>aw_db := revoke_family ms (rt_org t) (rt_family t) (aw_db w), aw_trace := aw_trace w @ [rec]\<rparr>)"
    using r g rec assms(2,4) by (simp add: logout_def auth_part_def io_part_def io_bind_def writeSecurityAudit_def)
  then show ?thesis using revoked_family_dead[OF assms(5) refl refl ok, of ms] by simp
qed

text \<open> A browser session that cannot be shown is ended: when the projection of fresh tokens fails, for
  whatever reason, the caller gets an authentication error and the family of the refresh token is dead. \<close>

theorem hidden_sessions_are_ended:
  assumes "auth_reachable (aw_db w)" and "\<And>r. ad_auditFails d r = None" and "\<And>s m. length (cr_hmac (ad_crypto d) s m) = 32"
    and "hashRefreshToken (ad_crypto d) (at_refreshToken tokens) (ad_refreshSecret d) = Inr h"
    and "t \<in> set (au_tokens (aw_db w))" and "rt_hash t = h" and "project d tokens rid ms w = (Inl e, w')"
  shows "e = AuthServiceError ''INVALID_SESSION'' 401 None \<and> family_state (rt_family t) (au_tokens (aw_db w')) = Dead"
proof -
  let ?body = "io_bind (io_lift (verifyAccessToken (ad_jose d) (at_accessToken tokens) (ad_jwtSecret d) ms)) (\<lambda>claims.
     io_bind (io_gets (\<lambda>w. findBrowserSessionIdentity (ap_sub claims) (aw_db w))) (\<lambda>identity.
     case identity of None \<Rightarrow> io_throw (AuthServiceError ''INVALID_SESSION'' 401 None)
     | Some i \<Rightarrow> (case find (\<lambda>x. lo_id x = ap_org claims) (bs_orgs i) of
         None \<Rightarrow> io_throw (AuthServiceError ''INVALID_SESSION'' 401 None)
       | Some active \<Rightarrow>
           if int (bs_version i) \<noteq> ap_version claims \<or> JStr (role_name (lo_role active)) \<noteq> ap_role claims
           then io_throw (AuthServiceError ''INVALID_SESSION'' 401 None)
           else io_return \<lparr>br_refreshToken = at_refreshToken tokens, br_accessToken = at_accessToken tokens,
             br_user = (bs_user i, bs_email i), br_activeOrganization = active, br_organizations = bs_orgs i\<rparr>)))"
  obtain r v where b: "?body w = (r, v)" by fastforce
  have errors: "verifyAccessToken j t' s' n = Inl x \<Longrightarrow> \<exists>y. x = PlainError y" for j :: "'b jose" and t' s' n x
    by (auto simp: verifyAccessToken_def secretKey_def split: sum.splits option.splits if_splits prod.splits json.splits)
  have v: "v = w" and r: "r = Inl x \<Longrightarrow> x = AuthServiceError ''INVALID_SESSION'' 401 None \<or> (\<exists>y. x = PlainError y)" for x
    using b errors by (auto simp: io_bind_def split: sum.splits option.splits if_splits prod.splits)
  from assms(7) b obtain x where x: "r = Inl x" by (cases r) (auto simp: project_def io_catch_def)
  from logout_kills[OF assms(1-6), of rid ms] obtain w2 where l: "logout d (at_refreshToken tokens) rid ms w = (Inr (), w2)"
    and dead: "family_state (rt_family t) (au_tokens (aw_db w2)) = Dead" by blast
  from assms(7) b x v l r[OF x] have "e = AuthServiceError ''INVALID_SESSION'' 401 None \<and> w' = w2"
    by (auto simp: project_def io_catch_def io_bind_def)
  with dead show ?thesis by simp
qed

end
