(* ===== verification/Auth_Demo.thy ===== *)
theory Auth_Demo
  imports Auth_Grants
begin

text \<open>
  A concrete login, selection, rotation, replay and password reset: the properties of the
  authentication repository applied to them.
\<close>

definition demo_auth :: auth_db where
  "demo_auth = \<lparr>au_users = [\<lparr>us_id = ''u'', us_email = ''a@b'', us_passwordHash = ''p'', us_version = 3, us_status = ACTIVE\<rparr>],
     au_orgs = [\<lparr>or_id = ''o'', or_name = ''Org'', or_slug = ''org'', or_status = ACTIVE\<rparr>],
     au_members = [\<lparr>mb_org = ''o'', mb_user = ''u'', mb_role = OWNER, mb_status = ACTIVE\<rparr>], au_logins = [], au_tokens = []\<rparr>"

definition demo_login :: auth_db where
  "demo_login = demo_auth\<lparr>au_logins := [\<lparr>ls_user = ''u'', ls_hash = ''s'', ls_version = 3, ls_expires = 100, ls_consumed = None\<rparr>]\<rparr>"

definition demo_new :: "nat \<Rightarrow> new_token" where
  "demo_new n = \<lparr>nt_id = replicate n CHR ''i'', nt_family = ''f'', nt_hash = replicate n CHR ''h'', nt_expires = 1000\<rparr>"

definition demo_selected :: auth_db where
  "demo_selected = demo_auth\<lparr>au_logins := [\<lparr>ls_user = ''u'', ls_hash = ''s'', ls_version = 3, ls_expires = 100, ls_consumed = Some 5\<rparr>],
     au_tokens := [new_row (demo_new 1) ''o'' ''u'' ''f'' 3]\<rparr>"

definition demo_rotated :: auth_db where
  "demo_rotated = demo_selected\<lparr>au_tokens := [(new_row (demo_new 1) ''o'' ''u'' ''f'' 3)\<lparr>rt_revoked := Some 10, rt_replacedBy := Some ''ii''\<rparr>,
     new_row (demo_new 2) ''o'' ''u'' ''f'' 3]\<rparr>"

definition demo_replayed :: auth_db where
  "demo_replayed = demo_rotated\<lparr>au_tokens := [(new_row (demo_new 1) ''o'' ''u'' ''f'' 3)\<lparr>rt_revoked := Some 10, rt_replacedBy := Some ''ii''\<rparr>,
     (new_row (demo_new 2) ''o'' ''u'' ''f'' 3)\<lparr>rt_revoked := Some 20\<rparr>]\<rparr>"

lemmas demo_defs = demo_auth_def demo_login_def demo_new_def demo_selected_def demo_rotated_def demo_replayed_def new_row_def

lemma demo_runs:
  "create_login_selection ''u'' ''s'' 100 3 demo_auth = Inr (True, demo_login)"
  "consume_login_selection ''s'' ''o'' 5 (demo_new 1) demo_login = Inr (Granted ''u'' ''o'' OWNER 3, demo_selected)"
  "rotateRefreshToken ''h'' (demo_new 2) 10 demo_selected = Inr (Granted ''u'' ''o'' OWNER 3, demo_rotated)"
  "rotateRefreshToken ''h'' (demo_new 3) 20 demo_rotated = Inr (Refused REUSED, demo_replayed)"
  by code_simp+

lemma demo_reset: "\<exists>s'. revoke_user_authentication ''u'' 30 demo_rotated = Inr (4, s')"
  by (simp add: revoke_user_authentication_def demo_defs)

lemma demo_fresh: "nt_family (demo_new 1) \<notin> rt_family ` set (au_tokens demo_login)"
  by (simp add: demo_defs)

lemma demo_sessions_reachable:
  "auth_reachable demo_login" "auth_reachable demo_selected" "auth_reachable demo_rotated"
proof -
  have "auth_reachable demo_auth" by (rule auth_reachable.initial) (simp_all add: demo_auth_def)
  then show l: "auth_reachable demo_login" by (rule auth_reachable.later[OF _ auth_step.login[OF demo_runs(1)]])
  then show s: "auth_reachable demo_selected" by (rule auth_reachable.later[OF _ auth_step.select[OF demo_runs(2) demo_fresh]])
  then show "auth_reachable demo_rotated" by (rule auth_reachable.later[OF _ auth_step.refresh[OF demo_runs(3)]])
qed




theorem selection_is_consumed_once_witness:
  "consume_login_selection ''s'' ''o'' 6 (demo_new 4) demo_rotated = Inr (Refused REUSED, demo_rotated)"
  by (rule selection_is_consumed_once[OF demo_sessions_reachable(1) demo_runs(2) demo_fresh r_into_rtranclp[where r = auth_step, OF auth_step.refresh[OF demo_runs(3)]]])

theorem granted_sessions_are_current_witness:
  "holds_session ''u'' ''o'' OWNER 3 ''hh'' demo_rotated"
  using granted_sessions_are_current[OF demo_sessions_reachable(2) disjI2[OF disjI1[OF demo_runs(3)]]] by (simp add: demo_new_def numeral_2_eq_2)

end
