(* ===== verification/Auth_Service_Demo.thy ===== *)
theory Auth_Service_Demo
  imports Auth_Service_Properties Auth_Demo
begin

text \<open>A configured service over the in-memory rate limiter, and the properties of the services applied to it.\<close>

definition demo_deps :: "(memory_store, claims \<times> string) auth_deps" where
  "demo_deps = \<lparr>ad_consume = (\<lambda>key limit ttl m. memory_consume 0 key limit ttl m), ad_limit = 10, ad_ttlMs = 60000, ad_baseDelayMs = 100,
     ad_maximumDelayMs = 2000, ad_crypto = demo_crypto, ad_ip = (\<lambda>a. Some a),
     ad_passwords = \<lparr>pw_dummy = ''x'', pw_verify = (\<lambda>h c. Some (h = c))\<rparr>, ad_jose = demo_jose,
     ad_ipSecret = replicate 32 CHR ''i'', ad_identitySecret = replicate 32 CHR ''d'', ad_jwtSecret = replicate 32 CHR ''s'',
     ad_refreshSecret = replicate 32 CHR ''r'', ad_auditFails = (\<lambda>_. None), ad_tenantAuditFails = (\<lambda>_. None)\<rparr>"

definition demo_world :: "auth_db \<Rightarrow> memory_store auth_world" where
  "demo_world s = \<lparr>aw_db = s, aw_limits = \<lparr>me_entries = (\<lambda>_. None), me_blocked = (\<lambda>_. None)\<rparr>, aw_trace = [], aw_tenant = [], aw_slept = []\<rparr>"

definition demo_command :: "string \<Rightarrow> login_command" where
  "demo_command password = \<lparr>lc_email = '' A@b'', lc_password = password, lc_ipAddress = ''1.2.3.4'', lc_requestId = ''r''\<rparr>"

theorem refused_logins_are_alike_witness:
  "fst (login demo_deps (demo_command ''wrong'') id [] 0 (demo_world demo_auth))
   = fst (login demo_deps (demo_command ''wrong'') id [] 0 (demo_world (demo_auth\<lparr>au_users := []\<rparr>)))"
proof -
  have "\<not> admits_login demo_deps (demo_command ''wrong'') demo_auth" by code_simp
  moreover have "\<not> admits_login demo_deps (demo_command ''wrong'') (demo_auth\<lparr>au_users := []\<rparr>)" by code_simp
  ultimately show ?thesis
    using refused_logins_are_alike[of demo_deps "demo_command ''wrong''" demo_auth "demo_auth\<lparr>au_users := []\<rparr>" id "[]" 0 "demo_world demo_auth" id "[]" 0]
    by (simp add: demo_world_def)
qed

theorem login_belongs_to_the_verified_generation_witness:
  "lock_user_authentication ''u'' (id demo_auth) = Some 3 \<and> \<not> isl (fst (login demo_deps (demo_command ''p'') id (replicate 32 0) 0 (demo_world demo_auth)))"
proof -
  have ok: "\<not> isl (fst (login demo_deps (demo_command ''p'') id (replicate 32 0) 0 (demo_world demo_auth)))" by code_simp
  obtain q w' where q: "login demo_deps (demo_command ''p'') id (replicate 32 0) 0 (demo_world demo_auth) = (q, w')" by fastforce
  with ok obtain r where r: "login demo_deps (demo_command ''p'') id (replicate 32 0) 0 (demo_world demo_auth) = (Inr r, w')" by (cases q) auto
  have find: "map_option (\<lambda>i. (li_id i, li_version i)) (findLoginIdentity (map to_lower (js_trim (lc_email (demo_command ''p'')))) demo_auth) = Some (''u'', 3)"
    by code_simp
  from login_belongs_to_the_verified_generation[OF r] find ok show ?thesis by (auto simp: demo_world_def)
qed

theorem delay_is_bounded_witness:
  "slept_within 2000 [] (aw_slept (snd (login demo_deps (demo_command ''p'') id [] 0 (demo_world demo_auth))))
   \<and> calculateProgressiveDelayMs 3 100 2000 = 200"
  using delay_is_bounded[of demo_deps "demo_world demo_auth" "demo_command ''p''" id "[]" 0 3 1]
  by (simp add: demo_deps_def demo_world_def calculateProgressiveDelayMs_def)

text \<open>A refresh token of the user, and tokens whose access token does not verify.\<close>

definition demo_hash :: string where "demo_hash = to_hex (cr_hmac demo_crypto (replicate 32 CHR ''r'') ''raw'')"

definition demo_session :: auth_db where
  "demo_session = demo_selected\<lparr>au_tokens := [(new_row (demo_new 1) ''o'' ''u'' ''f'' 3)\<lparr>rt_hash := demo_hash\<rparr>]\<rparr>"

lemma demo_session_reachable: "auth_reachable demo_session"
proof -
  let ?n = "\<lparr>nt_id = ''i'', nt_family = ''f'', nt_hash = demo_hash, nt_expires = 1000\<rparr>"
  have "consume_login_selection ''s'' ''o'' 5 ?n demo_login = Inr (Granted ''u'' ''o'' OWNER 3, demo_session)" by code_simp
  moreover have "nt_family ?n \<notin> rt_family ` set (au_tokens demo_login)" by (simp add: demo_defs)
  ultimately show ?thesis by (rule auth_reachable.later[OF demo_sessions_reachable(1) auth_step.select])
qed

theorem hidden_sessions_are_ended_witness:
  "\<exists>w'. project demo_deps \<lparr>at_accessToken = ([], ''''), at_refreshToken = ''raw'', at_expiresIn = 600\<rparr> ''r'' 20 (demo_world demo_session)
      = (Inl (AuthServiceError ''INVALID_SESSION'' 401 None), w') \<and> family_state ''f'' (au_tokens (aw_db w')) = Dead"
proof -
  let ?t = "\<lparr>at_accessToken = ([], ''''), at_refreshToken = ''raw'', at_expiresIn = 600\<rparr> :: (claims \<times> string) auth_tokens"
  let ?row = "(new_row (demo_new 1) ''o'' ''u'' ''f'' 3)\<lparr>rt_hash := demo_hash\<rparr>"
  have isl: "isl (fst (project demo_deps ?t ''r'' 20 (demo_world demo_session)))" by code_simp
  obtain q w' where "project demo_deps ?t ''r'' 20 (demo_world demo_session) = (q, w')" by fastforce
  with isl obtain e where p: "project demo_deps ?t ''r'' 20 (demo_world demo_session) = (Inl e, w')" by (cases q) auto
  have r: "auth_reachable (aw_db (demo_world demo_session))" using demo_session_reachable by (simp add: demo_world_def)
  have a: "\<And>r. ad_auditFails demo_deps r = None" and len: "\<And>s m. length (cr_hmac (ad_crypto demo_deps) s m) = 32"
    by (simp_all add: demo_deps_def demo_crypto_def)
  have h: "hashRefreshToken (ad_crypto demo_deps) (at_refreshToken ?t) (ad_refreshSecret demo_deps) = Inr demo_hash"
    by (simp add: hashRefreshToken_def demo_deps_def demo_hash_def)
  have t: "?row \<in> set (au_tokens (aw_db (demo_world demo_session)))" by (simp add: demo_world_def demo_session_def)
  from hidden_sessions_are_ended[OF r a len h t _ p] p show ?thesis by simp
qed

end
