(* ===== verification/Api_Key_Properties.thy ===== *)
theory Api_Key_Properties
  imports Api_Keys
begin

text \<open>
  What the API keys promise: an issued key authenticates as itself until it expires or is revoked,
  a revoked one never again, and a key passes on only the partner scopes it holds.
\<close>

section \<open>The text of a key\<close>

lemma uuid_parts_SomeE:
  assumes "uuid_parts s = Some ps"
  obtains a b c d e where "ps = [a, b, c, d, e]" "s = a @ ''-'' @ b @ ''-'' @ c @ ''-'' @ d @ ''-'' @ e"
    "length a = 8" "length b = 4" "length c = 4" "length d = 4" "length e = 12"
    "list_all (\<lambda>ch. hex_letter (to_lower ch)) (a @ b @ c @ d @ e)"
proof -
  from assms have len: "length s = 36" and d: "s ! 8 = CHR ''-''" "s ! 13 = CHR ''-''" "s ! 18 = CHR ''-''" "s ! 23 = CHR ''-''"
    and hex: "list_all (\<lambda>ch. hex_letter (to_lower ch)) (take 8 s @ take 4 (drop 9 s) @ take 4 (drop 14 s) @ take 4 (drop 19 s) @ drop 24 s)"
    and ps: "ps = [take 8 s, take 4 (drop 9 s), take 4 (drop 14 s), take 4 (drop 19 s), drop 24 s]"
    by (auto simp: uuid_parts_def split: if_splits)
  have cut: "n < 36 \<Longrightarrow> s ! n = CHR ''-'' \<Longrightarrow> drop n s = CHR ''-'' # drop (Suc n) s" for n
    using len by (metis Cons_nth_drop_Suc)
  have t: "drop n s = take 4 (drop n s) @ drop (n + 4) s" for n
    by (metis append_take_drop_id drop_drop add.commute)
  have "s = take 8 s @ drop 8 s" by simp
  also have "drop 8 s = ''-'' @ take 4 (drop 9 s) @ drop 13 s" using cut[of 8] d(1) t[of 9] by simp
  also have "drop 13 s = ''-'' @ take 4 (drop 14 s) @ drop 18 s" using cut[of 13] d(2) t[of 14] by simp
  also have "drop 18 s = ''-'' @ take 4 (drop 19 s) @ drop 23 s" using cut[of 18] d(3) t[of 19] by simp
  also have "drop 23 s = ''-'' @ drop 24 s" using cut[of 23] d(4) by simp
  finally show thesis using that[OF ps _ _ _ _ _ _ hex] len by simp
qed

lemma parse_parts:
  assumes "length l = 32" "list_all hex_letter l" "length e = 12" "list_all b64url_char e" "length m = 43" "list_all b64url_char m"
  shows "parseOrganizationApiKey (''jrc_'' @ l @ ''-'' @ e @ ''_'' @ m) = Some \<lparr>pk_org = take 8 l @ ''-'' @ take 4 (drop 8 l) @ ''-''
    @ take 4 (drop 12 l) @ ''-'' @ take 4 (drop 16 l) @ ''-'' @ drop 20 l, pk_prefix = l @ ''-'' @ e\<rparr>"
proof -
  let ?s = "''jrc_'' @ l @ ''-'' @ e @ ''_'' @ m"
  have "length ?s = 93" "take 4 ?s = ''jrc_''" "take 32 (drop 4 ?s) = l" "?s ! 36 = CHR ''-''" "take 12 (drop 37 ?s) = e"
    "?s ! 49 = CHR ''_''" "drop 50 ?s = m" "take 45 (drop 4 ?s) = l @ ''-'' @ e" "take 32 (l @ ''-'' @ e) = l"
    using assms by (simp_all add: nth_append nth_Cons')
  with assms show ?thesis unfolding parseOrganizationApiKey_def Let_def by simp
qed

lemma created_key_parses:
  assumes "createOrganizationApiKey c org secret r9 r32 = Inr k" and "map to_lower org = org" and "length r9 = 9" and "length r32 = 32"
  shows "parseOrganizationApiKey (ck_secret k) = Some \<lparr>pk_org = org, pk_prefix = ck_prefix k\<rparr>"
    and "deriveHmac c (ck_secret k) secret = Inr (ck_hmac k)"
proof -
  from assms(1) obtain ps where ps: "uuid_parts org = Some ps" by (auto simp: createOrganizationApiKey_def split: option.splits)
  let ?l = "map to_lower (concat ps)"
  from assms(1) ps have secret: "ck_secret k = ''jrc_'' @ ?l @ ''-'' @ to_base64url r9 @ ''_'' @ to_base64url r32"
    and prefix: "ck_prefix k = ?l @ ''-'' @ to_base64url r9" and "deriveHmac c (ck_secret k) secret = Inr (ck_hmac k)"
    by (auto simp: createOrganizationApiKey_def Let_def split: sum.splits)
  then show "deriveHmac c (ck_secret k) secret = Inr (ck_hmac k)" by simp
  from ps show "parseOrganizationApiKey (ck_secret k) = Some \<lparr>pk_org = org, pk_prefix = ck_prefix k\<rparr>"
  proof (rule uuid_parts_SomeE)
    fix a b c' d e
    assume parts: "ps = [a, b, c', d, e]" and org: "org = a @ ''-'' @ b @ ''-'' @ c' @ ''-'' @ d @ ''-'' @ e"
      and len: "length a = 8" "length b = 4" "length c' = 4" "length d = 4" "length e = 12"
      and hex: "list_all (\<lambda>ch. hex_letter (to_lower ch)) (a @ b @ c' @ d @ e)"
    have low: "map to_lower a = a" "map to_lower b = b" "map to_lower c' = c'" "map to_lower d = d" "map to_lower e = e"
      using assms(2) len unfolding org by simp_all
    have l: "?l = a @ b @ c' @ d @ e" by (simp add: parts low)
    have hl: "list_all hex_letter ?l" using hex by (simp add: parts list.pred_map comp_def)
    have "length ?l = 32" "length (to_base64url r9) = 12" "length (to_base64url r32) = 43"
      using len assms(3,4) by (simp_all add: l length_base64url)
    from parse_parts[OF this(1) hl this(2) base64url_chars this(3) base64url_chars] len
    show ?thesis unfolding secret prefix org by (simp add: l)
  qed
qed

section \<open>The issuing transaction\<close>

definition issuer_holds :: "key_env \<Rightarrow> key_ctx \<Rightarrow> string list \<Rightarrow> nat \<Rightarrow> key_db \<Rightarrow> bool" where
  "issuer_holds env ctx partner n s \<longleftrightarrow> (case kx_cred ctx of JwtActor _ \<Rightarrow> True | KeyActor kid \<Rightarrow> partner = [] \<or>
     list_ex (\<lambda>k. ky_org k = kx_org ctx \<and> ky_id k = kid \<and> ky_revoked k = None
       \<and> (case ky_expires k of None \<Rightarrow> True | Some e \<Rightarrow> ke_clock env n < e) \<and> set (''api_keys:manage'' # partner) \<subseteq> set (ky_scopes k)) (kd_keys s))"

lemma assertIssuer_eq_Inr: "assertIssuer env ctx partner n s = Inr (u, s') \<longleftrightarrow> s' = s \<and> issuer_holds env ctx partner n s"
  by (auto simp: assertIssuer_def issuer_holds_def split: key_credential.splits if_splits)

lemma insert_key_eq_Inr:
  assumes "insert_key env i s = Inr (row, s')"
  shows "s' = s\<lparr>kd_keys := kd_keys s @ [row]\<rparr>" "ky_org row = ki_org i" "ky_prefix row = ki_prefix i" "ky_hmac row = ki_hmac i"
    "ky_scopes row = ki_scopes i" "ky_revoked row = None" "ky_expires row = map_option db_us (ki_expires i)"
    "ky_prefix row \<notin> ky_prefix ` set (kd_keys s)" "ky_id row \<notin> ky_id ` set (kd_keys s)"
  using assms by (auto simp: insert_key_def Let_def list_ex_iff image_iff split: option.splits if_splits)

lemma issue_transaction_eq_Inr:
  assumes "issue_transaction env ctx input cred s = Inr (row, s')"
  obtains entry where "s' = s\<lparr>kd_keys := kd_keys s @ [row], kd_audit := kd_audit s @ [entry]\<rparr>" "ky_org row = kx_org ctx"
    "ky_prefix row = ck_prefix cred" "ky_hmac row = ck_hmac cred" "ky_scopes row = unique_of (ir_scopes input)" "ky_revoked row = None"
    "ky_expires row = map_option db_us (ir_expires input)" "ky_prefix row \<notin> ky_prefix ` set (kd_keys s)"
    "ky_id row \<notin> ky_id ` set (kd_keys s)" "issuer_holds env ctx (requestedPartnerScopes (ir_scopes input)) 0 s"
proof -
  from assms obtain s1 s2 where a: "issuer_holds env ctx (requestedPartnerScopes (ir_scopes input)) 0 s"
    and i: "insert_key env \<lparr>ki_org = kx_org ctx, ki_name = ir_name input, ki_prefix = ck_prefix cred, ki_hmac = ck_hmac cred,
       ki_scopes = unique_of (ir_scopes input), ki_expires = ir_expires input\<rparr> s = Inr (row, s1)"
    and w: "key_audit ctx API_KEY_ISSUED (ky_id row) s1 = Inr ((), s2)" and "s' = s2"
    by (auto simp: issue_transaction_def Let_def tx_bind_eq_Inr assertIssuer_eq_Inr)
  with insert_key_eq_Inr[OF i] show thesis by (intro that) (auto simp: key_audit_def writeTenantAudit_def)
qed

lemma issue_attempts_eq_Inr:
  assumes "issue_attempts c secret env random ctx input n s = (Inr v, s')"
  obtains left cred row where "createOrganizationApiKey c (kx_org ctx) secret (fst (random left)) (snd (random left)) = Inr cred"
    "issue_transaction (env left) ctx input cred s = Inr (row, s')" "iv_id v = ky_id row" "iv_scopes v = ky_scopes row" "iv_secret v = ck_secret cred"
  using assms
proof (induction n arbitrary: thesis)
  case (Suc n)
  obtain cred where cred: "createOrganizationApiKey c (kx_org ctx) secret (fst (random n)) (snd (random n)) = Inr cred"
    using Suc(3) by (auto split: sum.splits)
  show ?case
  proof (cases "issue_transaction (env n) ctx input cred s")
    case (Inl e)
    with Suc(3) cred have "issue_attempts c secret env random ctx input n s = (Inr v, s')"
      by (auto simp: run_tx_def split: if_splits)
    with Suc(1,2) show ?thesis by metis
  next
    case (Inr r)
    with Suc(3) cred show ?thesis by (intro Suc(2)[OF cred, of "fst r"]) (auto simp: run_tx_def Let_def key_to_view_def split: prod.splits)
  qed
qed simp

lemma issueApiKey_eq_Inr:
  assumes "issueApiKey c secret env random nowMs ctx input s = (Inr v, s')"
  shows "issue_attempts c secret env random ctx input 5 s = (Inr v, s')"
  using assms by (simp add: issueApiKey_def split: if_splits)


lemma find_last: "find p (xs @ [x]) = (case find p xs of Some y \<Rightarrow> Some y | None \<Rightarrow> if p x then Some x else None)"
  by (induction xs) auto

section \<open>Properties\<close>

text \<open> C29: an issued key authenticates as itself: whoever presents the secret that was returned is
  recognised, before the expiry of the key, as that key of that organization with the scopes it was
  issued with, unless the organization is disabled. \<close>

theorem issued_key_authenticates:
  assumes "issueApiKey c secret env random nowMs ctx input s = (Inr v, s')" and "map to_lower (kx_org ctx) = kx_org ctx"
    and "\<And>n. length (fst (random n)) = 9 \<and> length (snd (random n)) = 32"
    and "list_ex (\<lambda>x. fst x = kx_org ctx \<and> snd x \<noteq> DISABLED) (kd_orgs s)"
    and "case ir_expires input of None \<Rightarrow> True | Some e \<Rightarrow> laterMs < e"
  shows "fst (authenticateApiKey c secret laterMs (iv_secret v) s')
    = Inr (Some \<lparr>kp_id = iv_id v, kp_org = kx_org ctx, kp_scopes = iv_scopes v\<rparr>)"
proof -
  obtain left cred row where cred: "createOrganizationApiKey c (kx_org ctx) secret (fst (random left)) (snd (random left)) = Inr cred"
    and tx: "issue_transaction (env left) ctx input cred s = Inr (row, s')"
    and v: "iv_id v = ky_id row" "iv_scopes v = ky_scopes row" "iv_secret v = ck_secret cred"
    using issue_attempts_eq_Inr[OF issueApiKey_eq_Inr[OF assms(1)]] by metis
  obtain entry where s': "s' = s\<lparr>kd_keys := kd_keys s @ [row], kd_audit := kd_audit s @ [entry]\<rparr>"
    and row: "ky_org row = kx_org ctx" "ky_prefix row = ck_prefix cred" "ky_hmac row = ck_hmac cred" "ky_revoked row = None"
      "ky_expires row = map_option db_us (ir_expires input)" "ky_prefix row \<notin> ky_prefix ` set (kd_keys s)"
    using issue_transaction_eq_Inr[OF tx] by metis
  note parsed = created_key_parses[OF cred assms(2)] assms(3)[of left]
  have "find (\<lambda>k. ky_org k = kx_org ctx \<and> ky_prefix k = ck_prefix cred \<and> list_ex (\<lambda>x. fst x = ky_org k \<and> snd x \<noteq> DISABLED) (kd_orgs s)) (kd_keys s) = None"
    using row(2,6) by (force simp: find_None_iff)
  then have found: "findActiveByPrefix (kx_org ctx) (ck_prefix cred) s' = Some row"
    using row assms(4) by (simp add: findActiveByPrefix_def s' find_last)
  have "\<not> (case ky_expires row of None \<Rightarrow> False | Some e \<Rightarrow> js_ms e \<le> laterMs)"
    using assms(5) by (auto simp: row split: option.splits)
  with found parsed row show ?thesis
    by (simp add: authenticateApiKey_def v run_tx_def verifyApiKey_def timingSafeEqual_def tx_bind_def markUsed_def)
qed

lemma unique_of_set [simp]: "set (unique_of xs) = set xs"
  by (induction xs) auto

text \<open> C31: a key cannot hand out what it does not hold: a key issued by another key carries only partner
  scopes of its issuer, which was unrevoked, unexpired and allowed to manage keys. \<close>

theorem delegated_scopes_are_held:
  assumes "issueApiKey c secret env random nowMs ctx input s = (Inr v, s')" and "kx_cred ctx = KeyActor kid"
  shows "requestedPartnerScopes (iv_scopes v) = [] \<or> (\<exists>k \<in> set (kd_keys s). ky_org k = kx_org ctx \<and> ky_id k = kid \<and> ky_revoked k = None
     \<and> (\<exists>n. case ky_expires k of None \<Rightarrow> True | Some e \<Rightarrow> ke_clock (env n) 0 < e)
     \<and> ''api_keys:manage'' \<in> set (ky_scopes k) \<and> set (requestedPartnerScopes (iv_scopes v)) \<subseteq> set (ky_scopes k))"
proof -
  obtain left cred row where tx: "issue_transaction (env left) ctx input cred s = Inr (row, s')" and v: "iv_scopes v = ky_scopes row"
    using issue_attempts_eq_Inr[OF issueApiKey_eq_Inr[OF assms(1)]] by metis
  have scopes: "ky_scopes row = unique_of (ir_scopes input)" and held: "issuer_holds (env left) ctx (requestedPartnerScopes (ir_scopes input)) 0 s"
    using issue_transaction_eq_Inr[OF tx] by metis+
  have same: "set (requestedPartnerScopes (iv_scopes v)) = set (requestedPartnerScopes (ir_scopes input))"
    by (simp add: v scopes requestedPartnerScopes_def)
  show ?thesis
  proof (cases "requestedPartnerScopes (ir_scopes input) = []")
    case True
    with same show ?thesis by simp
  next
    case False
    with held assms(2) obtain k where "k \<in> set (kd_keys s)" "ky_org k = kx_org ctx" "ky_id k = kid" "ky_revoked k = None"
      "case ky_expires k of None \<Rightarrow> True | Some e \<Rightarrow> ke_clock (env left) 0 < e"
      "''api_keys:manage'' \<in> set (ky_scopes k)" "set (requestedPartnerScopes (ir_scopes input)) \<subseteq> set (ky_scopes k)"
      by (auto simp: issuer_holds_def list_ex_iff)
    with same show ?thesis by blast
  qed
qed

section \<open>Revocation\<close>

inductive key_step :: "crypto \<Rightarrow> string \<Rightarrow> key_db \<Rightarrow> key_db \<Rightarrow> bool" for c secret where
  issued: "issueApiKey c secret env random nowMs ctx input s = (r, s') \<Longrightarrow> key_step c secret s s'"
| revoked: "revokeApiKey ctx kid nowMs s = (b, s') \<Longrightarrow> key_step c secret s s'"
| used: "authenticateApiKey c secret nowMs raw s = (p, s') \<Longrightarrow> key_step c secret s s'"

definition revoked_key :: "string \<Rightarrow> string \<Rightarrow> key_db \<Rightarrow> bool" where
  "revoked_key org kid s \<longleftrightarrow> kid \<in> ky_id ` set (kd_keys s) \<and> (\<forall>k \<in> set (kd_keys s). ky_org k = org \<and> ky_id k = kid \<longrightarrow> ky_revoked k \<noteq> None)"

lemma revoked_key_update:
  assumes "revoked_key org kid s" and "\<And>k. ky_id (f k) = ky_id k \<and> ky_org (f k) = ky_org k \<and> (ky_revoked k \<noteq> None \<longrightarrow> ky_revoked (f k) \<noteq> None)"
    and "kd_keys s' = update_rows p f (kd_keys s)"
  shows "revoked_key org kid s'"
  unfolding revoked_key_def assms(3)
proof (intro conjI ballI impI)
  have "map ky_id (update_rows p f (kd_keys s)) = map ky_id (kd_keys s)" using assms(2) by (simp add: map_update_rows)
  with assms(1) show "kid \<in> ky_id ` set (update_rows p f (kd_keys s))" unfolding revoked_key_def by (metis set_map)
  fix k assume "k \<in> set (update_rows p f (kd_keys s))" "ky_org k = org \<and> ky_id k = kid"
  with set_update_rows[OF this(1)] assms(1,2) show "ky_revoked k \<noteq> None" unfolding revoked_key_def by metis
qed

lemma issue_attempts_Inl: "issue_attempts c secret env random ctx input n s = (Inl e, s') \<Longrightarrow> s' = s"
  by (induction n) (auto simp: run_tx_def Let_def split: sum.splits if_splits prod.splits)

lemma revoke_eq:
  "revokeApiKey ctx kid nowMs s = (b, s') \<Longrightarrow> kd_keys s' = update_rows (\<lambda>k. ky_org k = kx_org ctx \<and> ky_id k = kid)
     (\<lambda>k. k\<lparr>ky_revoked := (case ky_revoked k of Some r \<Rightarrow> Some r | None \<Rightarrow> Some (db_us nowMs))\<rparr>) (kd_keys s)"
  by (auto simp: revokeApiKey_def run_tx_def tx_bind_def revoke_key_def key_audit_def Let_def split: option.splits)

lemma authenticate_cases:
  assumes "authenticateApiKey c secret nowMs raw s = (p, s')"
  shows "(s' = s \<and> (\<forall>q. p \<noteq> Inr (Some q))) \<or> (\<exists>org prefix k. findActiveByPrefix org prefix s = Some k \<and> ky_revoked k = None
    \<and> p = Inr (Some \<lparr>kp_id = ky_id k, kp_org = ky_org k, kp_scopes = ky_scopes k\<rparr>)
    \<and> s' = s\<lparr>kd_keys := update_rows (\<lambda>r. ky_org r = org \<and> ky_id r = ky_id k) (\<lambda>r. r\<lparr>ky_lastUsed := Some (db_us nowMs)\<rparr>) (kd_keys s)\<rparr>)"
proof (cases "parseOrganizationApiKey raw")
  case None
  with assms show ?thesis by (auto simp: authenticateApiKey_def)
next
  case (Some q)
  show ?thesis
  proof (cases "findActiveByPrefix (pk_org q) (pk_prefix q) s")
    case None
    with assms Some show ?thesis by (auto simp: authenticateApiKey_def run_tx_def tx_bind_def)
  next
    case k: (Some k)
    show ?thesis
    proof (cases "ky_revoked k \<noteq> None \<or> (case ky_expires k of None \<Rightarrow> False | Some e \<Rightarrow> js_ms e \<le> nowMs)")
      case True
      with assms Some k show ?thesis by (auto simp: authenticateApiKey_def run_tx_def tx_bind_def)
    next
      case False
      note u = assms[unfolded authenticateApiKey_def Some option.case run_tx_def tx_bind_def tx_gets_simp sum.case prod.case k if_not_P[OF False]]
      consider e where "verifyApiKey c raw (ky_hmac k) secret = Inl e" | "verifyApiKey c raw (ky_hmac k) secret = Inr False"
        | "verifyApiKey c raw (ky_hmac k) secret = Inr True" by (cases "verifyApiKey c raw (ky_hmac k) secret") auto
      then show ?thesis
      proof cases
        case 3
        with u False show ?thesis
          by (intro disjI2 exI[of _ "pk_org q"] exI[of _ "pk_prefix q"] exI[of _ k]) (simp add: k tx_bind_def markUsed_def)
      qed (use u in auto)
    qed
  qed
qed

lemma revoked_key_stays:
  assumes "key_step c secret s s'" and "revoked_key org kid s"
  shows "revoked_key org kid s'"
  using assms
proof (induction rule: key_step.induct)
  case (issued env random nowMs ctx input s r s')
  show ?case
  proof (cases r)
    case (Inl e)
    with issued issue_attempts_Inl show ?thesis by (fastforce simp: issueApiKey_def split: if_splits)
  next
    case (Inr v)
    obtain left cred row where tx: "issue_transaction (env left) ctx input cred s = Inr (row, s')"
      using issue_attempts_eq_Inr[OF issueApiKey_eq_Inr[OF issued(1)[unfolded Inr]]] by metis
    then obtain entry where "s' = s\<lparr>kd_keys := kd_keys s @ [row], kd_audit := kd_audit s @ [entry]\<rparr>" "ky_id row \<notin> ky_id ` set (kd_keys s)"
      by (rule issue_transaction_eq_Inr)
    with issued(2) show ?thesis by (auto simp: revoked_key_def)
  qed
next
  case (revoked ctx kid' nowMs s b s')
  show ?case by (rule revoked_key_update[OF revoked(2) _ revoke_eq[OF revoked(1)]]) (auto split: option.splits)
next
  case (used nowMs raw s p s')
  from authenticate_cases[OF used(1)] show ?case
  proof (elim disjE exE conjE)
    fix org' prefix k assume "s' = s\<lparr>kd_keys := update_rows (\<lambda>r. ky_org r = org' \<and> ky_id r = ky_id k)
      (\<lambda>r. r\<lparr>ky_lastUsed := Some (db_us nowMs)\<rparr>) (kd_keys s)\<rparr>"
    then have keys: "kd_keys s' = update_rows (\<lambda>r. ky_org r = org' \<and> ky_id r = ky_id k) (\<lambda>r. r\<lparr>ky_lastUsed := Some (db_us nowMs)\<rparr>) (kd_keys s)" by simp
    show ?thesis by (rule revoked_key_update[OF used(2) _ keys]) simp
  qed (use used(2) in simp)
qed

text \<open> C30: a revoked key is dead: from the moment the revocation is answered, no presented secret is
  recognised as that key, whatever keys are issued, revoked and used in between. \<close>

theorem revoked_key_never_authenticates:
  assumes "revokeApiKey ctx kid nowMs s = (Inr True, s1)" and "(key_step c secret)\<^sup>*\<^sup>* s1 s2"
  shows "fst (authenticateApiKey c secret laterMs raw s2) \<noteq> Inr (Some \<lparr>kp_id = kid, kp_org = kx_org ctx, kp_scopes = scopes\<rparr>)"
proof -
  note keys = revoke_eq[OF assms(1)]
  have hit: "kid \<in> ky_id ` set (kd_keys s1)"
  proof -
    from assms(1) obtain k where "find (\<lambda>k. ky_org k = kx_org ctx \<and> ky_id k = kid) (kd_keys s1) = Some k"
      by (auto simp: keys revokeApiKey_def run_tx_def tx_bind_def revoke_key_def Let_def split: option.splits)
    from find_mem[OF this] show ?thesis by (auto simp: image_iff)
  qed
  have "revoked_key (kx_org ctx) kid s1"
    unfolding revoked_key_def
  proof (intro conjI ballI impI)
    fix k assume k: "k \<in> set (kd_keys s1)" "ky_org k = kx_org ctx \<and> ky_id k = kid"
    from set_update_rows[OF k(1)[unfolded keys]] show "ky_revoked k \<noteq> None"
    proof (elim disjE bexE conjE)
      fix q assume "k = q\<lparr>ky_revoked := (case ky_revoked q of Some r \<Rightarrow> Some r | None \<Rightarrow> Some (db_us nowMs))\<rparr>"
      then show ?thesis by (cases "ky_revoked q") simp_all
    qed (use k(2) in blast)
  qed (rule hit)
  with assms(2) have "revoked_key (kx_org ctx) kid s2"
    by (induction rule: rtranclp_induct) (auto intro: revoked_key_stays)
  then have dead: "\<And>k. k \<in> set (kd_keys s2) \<Longrightarrow> ky_org k = kx_org ctx \<Longrightarrow> ky_id k = kid \<Longrightarrow> ky_revoked k \<noteq> None" by (simp add: revoked_key_def)
  obtain p s3 where a: "authenticateApiKey c secret laterMs raw s2 = (p, s3)" by fastforce
  show ?thesis
  proof
    assume "fst (authenticateApiKey c secret laterMs raw s2) = Inr (Some \<lparr>kp_id = kid, kp_org = kx_org ctx, kp_scopes = scopes\<rparr>)"
    with authenticate_cases[OF a] a obtain k org prefix where "findActiveByPrefix org prefix s2 = Some k" "ky_revoked k = None"
      "ky_id k = kid" "ky_org k = kx_org ctx" by auto
    with dead[of k] show False by (auto simp: findActiveByPrefix_def dest!: find_mem)
  qed
qed

end
