(* ===== verification/Api_Key_Demo.thy ===== *)
theory Api_Key_Demo
  imports Api_Key_Properties
begin

text \<open>One key that manages keys, a second one it issues, and the properties of API keys applied to them.\<close>

definition demo_org :: string where "demo_org = ''01234567-89ab-4cde-8f01-23456789abcd''"

definition demo_secret :: string where "demo_secret = replicate 32 CHR ''k''"

definition demo_manager :: key_row where
  "demo_manager = \<lparr>ky_id = ''m'', ky_org = demo_org, ky_name = ''manager'', ky_prefix = ''p'', ky_hmac = '''',
     ky_scopes = [''api_keys:manage'', ''messaging:send''], ky_expires = None, ky_revoked = None, ky_lastUsed = None, ky_created = 0\<rparr>"

definition demo_keys :: key_db where
  "demo_keys = \<lparr>kd_keys = [demo_manager], kd_orgs = [(demo_org, ACTIVE)], kd_audit = []\<rparr>"

definition demo_key_ctx :: key_ctx where
  "demo_key_ctx = \<lparr>kx_org = demo_org, kx_request = ''r'', kx_cred = KeyActor ''m''\<rparr>"

definition demo_request :: issue_request where
  "demo_request = \<lparr>ir_name = ''sender'', ir_scopes = [''messaging:send'', ''messaging:send''], ir_expires = Some 9000\<rparr>"

definition demo_key_env :: "nat \<Rightarrow> key_env" where
  "demo_key_env n = \<lparr>ke_now = 5000000, ke_id = ''n'', ke_clock = (\<lambda>_. 5000000), ke_admit = (\<lambda>_ _. None)\<rparr>"

definition demo_random :: "nat \<Rightarrow> bytes \<times> bytes" where
  "demo_random n = (replicate 9 1, replicate 32 2)"

definition demo_issued :: "(js_error + issued_view) \<times> key_db" where
  "demo_issued = issueApiKey demo_crypto demo_secret demo_key_env demo_random 5000 demo_key_ctx demo_request demo_keys"

lemma demo_issued_ok: "isl (fst demo_issued) = False \<and> iv_id (projr (fst demo_issued)) = ''n'' \<and> iv_scopes (projr (fst demo_issued)) = [''messaging:send'']"
  by code_simp

lemma demo_issued_eq: "issueApiKey demo_crypto demo_secret demo_key_env demo_random 5000 demo_key_ctx demo_request demo_keys
    = (Inr (projr (fst demo_issued)), snd demo_issued)"
  using demo_issued_ok by (cases "fst demo_issued") (auto simp: demo_issued_def prod_eq_iff)

theorem issued_key_authenticates_witness:
  "fst (authenticateApiKey demo_crypto demo_secret 8000 (iv_secret (projr (fst demo_issued))) (snd demo_issued))
    = Inr (Some \<lparr>kp_id = ''n'', kp_org = demo_org, kp_scopes = [''messaging:send'']\<rparr>)"
proof -
  have low: "map to_lower (kx_org demo_key_ctx) = kx_org demo_key_ctx" by code_simp
  have org: "list_ex (\<lambda>x. fst x = kx_org demo_key_ctx \<and> snd x \<noteq> DISABLED) (kd_orgs demo_keys)" by code_simp
  have bytes: "\<And>n. length (fst (demo_random n)) = 9 \<and> length (snd (demo_random n)) = 32" by (simp add: demo_random_def)
  show ?thesis
    using issued_key_authenticates[OF demo_issued_eq low bytes org, of 8000] demo_issued_ok
    by (simp add: demo_request_def) (simp add: demo_key_ctx_def)
qed

theorem delegated_scopes_are_held_witness:
  "requestedPartnerScopes (iv_scopes (projr (fst demo_issued))) = [''messaging:send'']
    \<and> set [''messaging:send''] \<subseteq> set (ky_scopes demo_manager)"
proof -
  have ps: "requestedPartnerScopes (iv_scopes (projr (fst demo_issued))) = [''messaging:send'']"
    using demo_issued_ok by (simp add: requestedPartnerScopes_def)
  have actor: "kx_cred demo_key_ctx = KeyActor ''m''" by (simp add: demo_key_ctx_def)
  from delegated_scopes_are_held[OF demo_issued_eq actor] ps show ?thesis by (simp add: demo_keys_def)
qed

theorem revoked_key_never_authenticates_witness:
  "\<exists>s1. revokeApiKey demo_key_ctx ''m'' 6000 demo_keys = (Inr True, s1)
    \<and> fst (authenticateApiKey demo_crypto demo_secret 7000 ''jrc_'' s1) \<noteq> Inr (Some \<lparr>kp_id = ''m'', kp_org = demo_org, kp_scopes = []\<rparr>)"
proof -
  obtain b s1 where r: "revokeApiKey demo_key_ctx ''m'' 6000 demo_keys = (b, s1)" by fastforce
  have "fst (revokeApiKey demo_key_ctx ''m'' 6000 demo_keys) = Inr True" by code_simp
  with r have t: "revokeApiKey demo_key_ctx ''m'' 6000 demo_keys = (Inr True, s1)" by simp
  with revoked_key_never_authenticates[OF t rtranclp.rtrancl_refl, of demo_crypto demo_secret 7000 "''jrc_''" "[]"]
  show ?thesis by (auto simp: demo_key_ctx_def)
qed

end
