(* ===== verification/Message_State.thy ===== *)
theory Message_State
  imports Prelude
begin

text \<open>
  The states of a message and the table of the moves a status may make,
  apps/api/src/modules/messaging/message-state.ts. A message that has failed, or that the
  contact has read, moves no further.
\<close>

datatype message_state = ACCEPTED | SENDING | SENT | DELIVERED | READ | FAILED | UNKNOWN

fun transitions :: "message_state \<Rightarrow> message_state list" where
  "transitions ACCEPTED = [ACCEPTED, SENDING, FAILED]"
| "transitions SENDING = [SENDING, SENT, FAILED, UNKNOWN]"
| "transitions SENT = [SENT, DELIVERED, READ, FAILED]"
| "transitions DELIVERED = [DELIVERED, READ]"
| "transitions READ = [READ]"
| "transitions FAILED = [FAILED]"
| "transitions UNKNOWN = [UNKNOWN, SENT, DELIVERED, READ, FAILED]"

definition canAdvanceMessageState :: "message_state \<Rightarrow> message_state \<Rightarrow> bool" where
  "canAdvanceMessageState a b \<longleftrightarrow> b \<in> set (transitions a)"

lemma canAdvance_simps [simp]: "canAdvanceMessageState a b = List.member (transitions a) b"
  by (simp add: canAdvanceMessageState_def)

text \<open>The statuses of a message, applied in the order of their events: each moves the state or is passed over.\<close>

definition reconcile_statuses :: "message_state \<Rightarrow> message_state list \<Rightarrow> message_state" where
  "reconcile_statuses = foldl (\<lambda>cur st. if canAdvanceMessageState cur st then st else cur)"

text \<open>How far a message has come; the two ends have no step beyond them.\<close>

fun progress :: "message_state \<Rightarrow> nat" where
  "progress ACCEPTED = 0"
| "progress SENDING = 1"
| "progress UNKNOWN = 2"
| "progress SENT = 3"
| "progress DELIVERED = 4"
| "progress READ = 5"
| "progress FAILED = 5"

lemma advance_progress: "canAdvanceMessageState a b \<Longrightarrow> a \<noteq> b \<Longrightarrow> progress a < progress b"
  by (cases a; cases b) auto

lemma reconcile_statuses_Nil [simp]: "reconcile_statuses a [] = a"
  by (simp add: reconcile_statuses_def)

lemma reconcile_statuses_Cons [simp]:
  "reconcile_statuses a (b # bs) = reconcile_statuses (if canAdvanceMessageState a b then b else a) bs"
  by (simp add: reconcile_statuses_def)

lemma reconcile_progress: "progress a \<le> progress (reconcile_statuses a bs)"
proof (induction bs arbitrary: a)
  case (Cons b bs)
  show ?case
  proof (cases "canAdvanceMessageState a b")
    case True
    then have "progress a \<le> progress b" using advance_progress [OF True] by (cases "a = b") auto
    with Cons.IH [of b] True show ?thesis by simp
  next
    case False
    with Cons.IH [of a] show ?thesis by simp
  qed
qed simp

lemma reconcile_sent: "reconcile_statuses SENT bs \<in> {SENT, DELIVERED, READ, FAILED}"
proof -
  have "a \<in> {SENT, DELIVERED, READ, FAILED} \<Longrightarrow> reconcile_statuses a bs \<in> {SENT, DELIVERED, READ, FAILED}" for a
  proof (induction bs arbitrary: a)
    case (Cons b bs)
    have "(if canAdvanceMessageState a b then b else a) \<in> {SENT, DELIVERED, READ, FAILED}"
      using Cons.prems by (cases a; cases b) auto
    from Cons.IH [OF this] show ?case by simp
  qed simp
  then show ?thesis by simp
qed

text \<open>
  Delivery receipts may come in any order and more than once: the state a sequence of them
  leaves a sent message in depends only on the highest receipt when none of them is a failure.
\<close>

lemma reconcile_receipts:
  assumes "set bs \<subseteq> {SENT, DELIVERED, READ}"
  shows "reconcile_statuses SENT bs = (if READ \<in> set bs then READ else if DELIVERED \<in> set bs then DELIVERED else SENT)"
proof -
  have r: "set bs \<subseteq> {SENT, DELIVERED, READ} \<Longrightarrow> reconcile_statuses READ bs = READ" for bs
    by (induction bs) auto
  have d: "set bs \<subseteq> {SENT, DELIVERED, READ} \<Longrightarrow>
      reconcile_statuses DELIVERED bs = (if READ \<in> set bs then READ else DELIVERED)" for bs
    by (induction bs) (auto simp: r)
  from assms show ?thesis
    by (induction bs) (auto simp: r d)
qed

end
