(* ===== verification/Messaging.thy ===== *)
theory Messaging
  imports Message_State Instance_Repository Api_Keys
begin

text \<open>
  The tables of the messaging module as apps/api/src/modules/messaging/types.ts and
  messaging/repository.ts use them: channels, contacts, conversations, messages, the outbox, the
  inbox and status events, the jobs of the bots, and the ledger of the attempts and observations
  of QR channels. Times are microseconds. The triggers of the message table are \<open>me_admit\<close>,
  which may refuse a row a statement writes; the SQL functions and the tables of other modules
  the statements consult are fields of the environment.
\<close>

section \<open>Rows\<close>

datatype conversation_mode = BOT | HUMAN

datatype consent_status = CONSENT_UNKNOWN | OPTED_IN | OPTED_OUT

datatype message_direction = INCOMING | OUTGOING

datatype message_source = SRC_OPERATOR | SRC_AUTOMATION | SRC_CONTACT | SRC_EXTERNAL_OBSERVED

datatype media_kind = image | audio | video | document | sticker

datatype message_content =
    TEXT string
  | TEMPLATE string string "string list"
  | MEDIA string media_kind string "string option"

datatype transport = BROKER_TRANSPORT | CENTRAL_TRANSPORT

datatype job_status = JOB_PENDING | JOB_RUNNING | JOB_COMPLETED | JOB_FAILED | JOB_UNKNOWN | JOB_PAUSED

datatype attempt_state = DISPATCHED | CONFIRMED | REJECTED | ATTEMPT_UNKNOWN | ATTEMPT_ABANDONED

datatype disposition = RECONCILE | BROKER_ECHO | EXTERNAL_OBSERVED | OBSERVATION_ABANDONED

record channel_row =
  cn_id :: string
  cn_org :: string
  cn_account :: "string option"
  cn_provider :: "provider_kind option"
  cn_transport :: transport
  cn_instance :: "string option"
  cn_phone :: "string option"
  cn_waba :: "string option"
  cn_credential :: string
  cn_botPublicId :: "string option"
  cn_botOrigin :: "string option"

record contact_row =
  ct_id :: string
  ct_org :: string
  ct_external :: string
  ct_name :: "string option"
  ct_consent :: consent_status
  ct_consentUpdated :: "int option"
  ct_suppressed :: "int option"
  ct_updated :: int

record conversation_row =
  cv_id :: string
  cv_org :: string
  cv_channel :: string
  cv_contact :: string
  cv_mode :: conversation_mode
  cv_botPublicId :: "string option"
  cv_botOrigin :: "string option"
  cv_session :: "string option"
  cv_remoteKey :: "string option"
  cv_attendance :: nat
  cv_updated :: int

record message_row =
  mg_id :: string
  mg_org :: string
  mg_channel :: string
  mg_conversation :: string
  mg_direction :: message_direction
  mg_source :: message_source
  mg_scope :: string
  mg_upstream :: "string option"
  mg_content :: message_content
  mg_state :: message_state
  mg_error :: "string option"
  mg_key :: "(string \<times> string) option"
  mg_optIn :: bool
  mg_apiKey :: "string option"
  mg_campaign :: "string option"
  mg_seq :: nat
  mg_created :: int
  mg_updated :: int
  mg_historical :: bool

text \<open>A lease is a token with its end: the table keeps both or neither.\<close>

record outbox_row =
  ob_org :: string
  ob_message :: string
  ob_available :: int
  ob_lease :: "(string \<times> int) option"
  ob_attempts :: nat
  ob_retrySafe :: bool
  ob_updated :: int

record inbox_event =
  ie_org :: string
  ie_channel :: string
  ie_key :: string
  ie_message :: "string option"

record status_event =
  se_id :: string
  se_org :: string
  se_channel :: string
  se_scope :: string
  se_upstream :: string
  se_state :: message_state
  se_error :: "string option"
  se_occurred :: int

record bot_job =
  bj_org :: string
  bj_message :: string
  bj_conversation :: string
  bj_status :: job_status
  bj_lease :: "(string \<times> int) option"
  bj_error :: "string option"

record attempt_row =
  qa_id :: string
  qa_org :: string
  qa_channel :: string
  qa_conversation :: string
  qa_message :: string
  qa_lease :: string
  qa_leaseExpires :: int
  qa_provider :: "string option"
  qa_state :: attempt_state
  qa_revision :: nat
  qa_updated :: int

record observation_row =
  qo_id :: string
  qo_org :: string
  qo_channel :: string
  qo_conversation :: string
  qo_scope :: string
  qo_provider :: string
  qo_content :: message_content
  qo_occurred :: int
  qo_disposition :: disposition
  qo_blocking :: bool
  qo_message :: "string option"
  qo_reason :: string
  qo_revision :: nat
  qo_created :: int
  qo_updated :: int

record msg_state =
  ms_channels :: "channel_row list"
  ms_contacts :: "contact_row list"
  ms_conversations :: "conversation_row list"
  ms_messages :: "message_row list"
  ms_outbox :: "outbox_row list"
  ms_inbox :: "inbox_event list"
  ms_statuses :: "status_event list"
  ms_jobs :: "bot_job list"
  ms_attempts :: "attempt_row list"
  ms_observations :: "observation_row list"
  ms_seq :: nat

section \<open>What a transaction reads outside these tables\<close>

text \<open>
  \<open>me_now\<close> is \<open>now()\<close> and \<open>me_clock\<close> is \<open>clock_timestamp()\<close>; \<open>me_fresh\<close> the identifiers drawn; \<open>me_active\<close> is \<open>tenant_is_active\<close>;
  \<open>me_instances\<close> and \<open>me_keys\<close> are the tables of the instance and API-key modules; \<open>me_scope\<close> is
  \<open>whatsapp_group_provider_scope\<close>; \<open>me_identityReady\<close>, \<open>me_flowAllowed\<close>, \<open>me_campaign\<close> and
  \<open>me_privateOpen\<close> are the SQL functions \<open>chatwoot_channel_identity_ready\<close>,
  \<open>flow_output_allowed\<close>, \<open>campaign_intent_authorized\<close> and \<open>media_private_channel_open\<close>;
  \<open>me_metaReady\<close> tells that a channel has a ready Meta connection; \<open>me_mediaUsable\<close> that an
  asset is READY or FAILED; \<open>me_mediaAuthority\<close> is what assertQueuedMediaAuthority throws;
  \<open>me_writable\<close> tells that \<open>resolve_qr_channel\<close> finds the channel, \<open>me_groupChanged\<close> that a group's
  identity no longer agrees with its catalogue.
\<close>

record msg_env =
  me_now :: int
  me_clock :: int
  me_fresh :: "nat \<Rightarrow> string"
  me_active :: "string \<Rightarrow> bool"
  me_instances :: "inst_db list"
  me_keys :: "key_row list"
  me_admit :: "message_row list \<Rightarrow> message_row option \<Rightarrow> message_row \<Rightarrow> js_error option"
  me_scope :: "string \<Rightarrow> string \<Rightarrow> string"
  me_identityReady :: "string \<Rightarrow> string \<Rightarrow> bool"
  me_flowAllowed :: "string \<Rightarrow> string \<Rightarrow> bool"
  me_campaign :: "string \<Rightarrow> string \<Rightarrow> bool"
  me_privateOpen :: "string \<Rightarrow> string \<Rightarrow> bool"
  me_metaReady :: "channel_row \<Rightarrow> bool"
  me_mediaUsable :: "string \<Rightarrow> string \<Rightarrow> bool"
  me_mediaAuthority :: "string \<Rightarrow> string \<Rightarrow> js_error option"
  me_writable :: "string \<Rightarrow> string \<Rightarrow> bool"
  me_groupChanged :: "string \<Rightarrow> string \<Rightarrow> bool"

section \<open>Keys and joins\<close>

definition msg_at :: "string \<Rightarrow> string \<Rightarrow> message_row \<Rightarrow> bool" where
  "msg_at org mid m \<longleftrightarrow> mg_org m = org \<and> mg_id m = mid"

definition out_at :: "string \<Rightarrow> string \<Rightarrow> outbox_row \<Rightarrow> bool" where
  "out_at org mid ob \<longleftrightarrow> ob_org ob = org \<and> ob_message ob = mid"

definition find_message :: "msg_state \<Rightarrow> string \<Rightarrow> string \<Rightarrow> message_row option" where
  "find_message s org mid = find (msg_at org mid) (ms_messages s)"

definition find_channel :: "msg_state \<Rightarrow> string \<Rightarrow> string \<Rightarrow> channel_row option" where
  "find_channel s org c = find (\<lambda>r. cn_org r = org \<and> cn_id r = c) (ms_channels s)"

definition find_conversation :: "msg_state \<Rightarrow> string \<Rightarrow> string \<Rightarrow> conversation_row option" where
  "find_conversation s org c = find (\<lambda>r. cv_org r = org \<and> cv_id r = c) (ms_conversations s)"

definition find_contact :: "msg_state \<Rightarrow> string \<Rightarrow> string \<Rightarrow> contact_row option" where
  "find_contact s org c = find (\<lambda>r. ct_org r = org \<and> ct_id r = c) (ms_contacts s)"

definition find_outbox :: "msg_state \<Rightarrow> string \<Rightarrow> string \<Rightarrow> outbox_row option" where
  "find_outbox s org mid = find (out_at org mid) (ms_outbox s)"

text \<open>The conversation and the contact of a message, joined as the claim statements join them.\<close>

definition parties :: "msg_state \<Rightarrow> message_row \<Rightarrow> (conversation_row \<times> contact_row) option" where
  "parties s m = (case find_conversation s (mg_org m) (mg_conversation m) of None \<Rightarrow> None
     | Some cv \<Rightarrow> (case find_contact s (mg_org m) (cv_contact cv) of None \<Rightarrow> None | Some ct \<Rightarrow> Some (cv, ct)))"

definition channel_is :: "msg_state \<Rightarrow> message_row \<Rightarrow> (channel_row \<Rightarrow> bool) \<Rightarrow> bool" where
  "channel_is s m p = (case find_channel s (mg_org m) (mg_channel m) of None \<Rightarrow> False | Some c \<Rightarrow> p c)"

definition is_template :: "message_content \<Rightarrow> bool" where
  "is_template c = (case c of TEMPLATE _ _ _ \<Rightarrow> True | _ \<Rightarrow> False)"

definition is_media :: "message_content \<Rightarrow> bool" where
  "is_media c = (case c of MEDIA _ _ _ _ \<Rightarrow> True | _ \<Rightarrow> False)"

definition is_text :: "message_content \<Rightarrow> bool" where
  "is_text c = (case c of TEXT _ \<Rightarrow> True | _ \<Rightarrow> False)"

definition DAY_US :: int where "DAY_US = 24 * 60 * 60 * 1000000"

text \<open>An inbound message of the conversation in the day before \<open>now\<close>.\<close>

definition inbound_within_day :: "msg_state \<Rightarrow> int \<Rightarrow> message_row \<Rightarrow> bool" where
  "inbound_within_day s now m = list_ex (\<lambda>i. mg_org i = mg_org m \<and> mg_conversation i = mg_conversation m
     \<and> mg_direction i = INCOMING \<and> mg_created i \<le> now \<and> mg_created i > now - DAY_US) (ms_messages s)"

definition blocking_observation :: "msg_state \<Rightarrow> string \<Rightarrow> string \<Rightarrow> bool" where
  "blocking_observation s org conv = list_ex (\<lambda>r. qo_org r = org \<and> qo_conversation r = conv \<and> qo_blocking r) (ms_observations s)"

definition isCustomerServiceWindowOpen :: "int option \<Rightarrow> int \<Rightarrow> bool" where
  "isCustomerServiceWindowOpen latest now = (case latest of None \<Rightarrow> False
     | Some t \<Rightarrow> \<not> t > now \<and> t > now - 24 * 60 * 60 * 1000)"

section \<open>Writing the message table\<close>

text \<open>
  An update of the message table visits its rows one after another; the triggers see the rows
  already updated, and a refusal rolls the whole transaction back.
\<close>

fun sweep :: "(message_row list \<Rightarrow> message_row option \<Rightarrow> message_row \<Rightarrow> js_error option) \<Rightarrow> (message_row \<Rightarrow> bool)
  \<Rightarrow> (message_row \<Rightarrow> message_row) \<Rightarrow> message_row list \<Rightarrow> message_row list \<Rightarrow> js_error + message_row list" where
  "sweep adm p f done [] = Inr done"
| "sweep adm p f done (r # rs) = (if p r then (case adm (done @ r # rs) (Some r) (f r) of
       Some e \<Rightarrow> Inl e | None \<Rightarrow> sweep adm p f (done @ [f r]) rs) else sweep adm p f (done @ [r]) rs)"

definition update_messages :: "msg_env \<Rightarrow> (message_row \<Rightarrow> bool) \<Rightarrow> (message_row \<Rightarrow> message_row) \<Rightarrow> (msg_state, unit) tx" where
  "update_messages env p f s = (case sweep (me_admit env) p f [] (ms_messages s) of
     Inl e \<Rightarrow> Inl e | Inr ms \<Rightarrow> Inr ((), s\<lparr>ms_messages := ms\<rparr>))"

text \<open>A new message: its identifier and its provider identifier must be new, its conversation must exist.\<close>

definition insert_message :: "msg_env \<Rightarrow> message_row \<Rightarrow> (msg_state, message_row) tx" where
  "insert_message env r s =
    (let row = r\<lparr>mg_seq := ms_seq s, mg_scope := me_scope env (mg_org r) (mg_conversation r)\<rparr>
     in case me_admit env (ms_messages s) None row of Some e \<Rightarrow> Inl e | None \<Rightarrow>
        if list_ex (\<lambda>m. mg_id m = mg_id row) (ms_messages s) then Inl (DatabaseError ''23505'' ''messaging_messages_pkey'')
        else if list_ex (\<lambda>m. mg_org m = mg_org row \<and> mg_channel m = mg_channel row \<and> mg_scope m = mg_scope row
               \<and> mg_upstream m = mg_upstream row \<and> mg_upstream row \<noteq> None) (ms_messages s)
             then Inl (DatabaseError ''23505'' ''messaging_messages_upstream_unique'')
        else if \<not> list_ex (\<lambda>c. cv_org c = mg_org row \<and> cv_id c = mg_conversation row \<and> cv_channel c = mg_channel row) (ms_conversations s)
             then Inl (DatabaseError ''23503'' ''messaging_messages_conversation_fk'')
        else Inr (row, s\<lparr>ms_messages := ms_messages s @ [row], ms_seq := Suc (ms_seq s)\<rparr>))"

text \<open>A new outgoing message with its row in the outbox, inserted by one statement.\<close>

definition queue_message :: "msg_env \<Rightarrow> message_row \<Rightarrow> (msg_state, message_row) tx" where
  "queue_message env r = tx_bind (insert_message env r) (\<lambda>m.
     tx_bind (tx_modify (\<lambda>s. s\<lparr>ms_outbox := ms_outbox s @ [\<lparr>ob_org = mg_org m, ob_message = mg_id m, ob_available = me_now env,
       ob_lease = None, ob_attempts = 0, ob_retrySafe = False, ob_updated = me_now env\<rparr>]\<rparr>)) (\<lambda>_. tx_return m))"

fun tx_each :: "('a \<Rightarrow> ('s, unit) tx) \<Rightarrow> 'a list \<Rightarrow> ('s, unit) tx" where
  "tx_each f [] = tx_return ()"
| "tx_each f (x # xs) = tx_bind (f x) (\<lambda>_. tx_each f xs)"

definition delete_outbox :: "(outbox_row \<Rightarrow> bool) \<Rightarrow> (msg_state, unit) tx" where
  "delete_outbox p = tx_modify (\<lambda>s. s\<lparr>ms_outbox := filter (\<lambda>r. \<not> p r) (ms_outbox s)\<rparr>)"

definition update_outbox :: "(outbox_row \<Rightarrow> bool) \<Rightarrow> (outbox_row \<Rightarrow> outbox_row) \<Rightarrow> (msg_state, unit) tx" where
  "update_outbox p f = tx_modify (\<lambda>s. s\<lparr>ms_outbox := update_rows p f (ms_outbox s)\<rparr>)"

lemma sweep_Inr: "sweep adm p f ds rs = Inr out \<Longrightarrow> out = ds @ update_rows p f rs"
proof (induction rs arbitrary: ds)
  case (Cons a rs)
  show ?case
  proof (cases "p a")
    case True
    with Cons.prems have "sweep adm p f (ds @ [f a]) rs = Inr out" by (simp split: option.splits)
    from Cons.IH [OF this] True show ?thesis by simp
  next
    case False
    with Cons.prems have "sweep adm p f (ds @ [a]) rs = Inr out" by simp
    from Cons.IH [OF this] False show ?thesis by simp
  qed
qed simp

lemma sweep_free: "(\<And>t o' r. adm t o' r = None) \<Longrightarrow> sweep adm p f ds rs = Inr (ds @ update_rows p f rs)"
  by (induction rs arbitrary: ds) auto

lemma sweep_refused:
  assumes "r \<in> set rs" "p r" "\<And>t. adm t (Some r) (f r) \<noteq> None"
  shows "\<exists>e. sweep adm p f ds rs = Inl e"
  using assms(1)
proof (induction rs arbitrary: ds)
  case (Cons a rs)
  show ?case
  proof (cases "a = r")
    case True
    with assms(2) assms(3) [of "ds @ r # rs"] show ?thesis by (auto split: option.splits)
  next
    case False
    with Cons.prems have "r \<in> set rs" by simp
    from Cons.IH [OF this] show ?thesis by (auto split: option.splits)
  qed
qed simp

lemma update_messages_Inr:
  "update_messages env p f s = Inr (u, s') \<Longrightarrow> s' = s\<lparr>ms_messages := update_rows p f (ms_messages s)\<rparr>"
  by (auto simp: update_messages_def dest: sweep_Inr split: sum.splits)

lemma insert_message_Inr:
  "insert_message env r s = Inr (row, s') \<Longrightarrow> row = r\<lparr>mg_seq := ms_seq s, mg_scope := me_scope env (mg_org r) (mg_conversation r)\<rparr>
    \<and> s' = s\<lparr>ms_messages := ms_messages s @ [row], ms_seq := Suc (ms_seq s)\<rparr> \<and> mg_id row \<notin> mg_id ` set (ms_messages s)"
  by (auto simp: insert_message_def Let_def list_ex_iff split: option.splits if_splits)

text \<open>The messages picked by \<open>p\<close> end in a state with an error, and leave the outbox.\<close>

definition settle_messages ::
  "msg_env \<Rightarrow> (message_row \<Rightarrow> bool) \<Rightarrow> message_state \<Rightarrow> (message_row \<Rightarrow> string) \<Rightarrow> int \<Rightarrow> (msg_state, unit) tx" where
  "settle_messages env p st err now s =
    (let gone = filter p (ms_messages s)
     in tx_bind (update_messages env p (\<lambda>m. m\<lparr>mg_state := st, mg_error := Some (err m), mg_updated := now\<rparr>))
          (\<lambda>_. delete_outbox (\<lambda>ob. list_ex (\<lambda>m. out_at (mg_org m) (mg_id m) ob) gone)) s)"

definition pending_automation :: "string \<Rightarrow> string \<Rightarrow> message_row \<Rightarrow> bool" where
  "pending_automation org conv m \<longleftrightarrow> mg_org m = org \<and> mg_conversation m = conv \<and> mg_direction m = OUTGOING
     \<and> mg_source m = SRC_AUTOMATION \<and> mg_state m = ACCEPTED"

text \<open>
  interruptChatwootAttendance of attendance/control-service.ts, its statements on these tables: the
  automation's waiting messages are dropped, its jobs stop, and the conversation is a human's.
\<close>

definition interruptChatwootAttendance :: "msg_env \<Rightarrow> string \<Rightarrow> string \<Rightarrow> (msg_state, unit) tx" where
  "interruptChatwootAttendance env org conv =
    tx_bind (settle_messages env (pending_automation org conv) FAILED (\<lambda>_. ''CHATWOOT_ATTENDANCE_CONTROL'') (me_now env)) (\<lambda>_.
    tx_bind (tx_modify (\<lambda>s. s\<lparr>ms_jobs := update_rows
        (\<lambda>j. bj_org j = org \<and> bj_conversation j = conv \<and> (bj_status j = JOB_PENDING \<or> bj_status j = JOB_RUNNING))
        (\<lambda>j. j\<lparr>bj_status := (if bj_status j = JOB_RUNNING then JOB_UNKNOWN else JOB_PAUSED), bj_lease := None,
              bj_error := Some ''CHATWOOT_ATTENDANCE_CONTROL''\<rparr>) (ms_jobs s)\<rparr>)) (\<lambda>_.
    tx_modify (\<lambda>s. s\<lparr>ms_conversations := update_rows (\<lambda>c. cv_org c = org \<and> cv_id c = conv)
        (\<lambda>c. c\<lparr>cv_mode := HUMAN, cv_attendance := cv_attendance c + 1, cv_updated := me_now env\<rparr>) (ms_conversations s)\<rparr>)))"

end
