(* ===== verification/Qr_Dispatch.thy ===== *)
theory Qr_Dispatch
  imports Messaging
begin

text \<open>
  The ledger of QR channels, apps/api/src/modules/messaging/qr-outbound-observation.ts: an attempt is
  recorded before a QR channel is asked to send, and an outgoing message the channel reports is an
  observation that is settled against the messages and the attempts. The rows of the group
  ledger and of the attendance controls that the code also updates are not part of these tables.
\<close>

definition uncertain_attempt :: "string \<Rightarrow> string \<Rightarrow> attempt_row \<Rightarrow> bool" where
  "uncertain_attempt org conv a \<longleftrightarrow> qa_org a = org \<and> qa_conversation a = conv \<and> qa_state a \<in> {DISPATCHED, ATTEMPT_UNKNOWN}"

definition has_uncertain :: "msg_state \<Rightarrow> string \<Rightarrow> string \<Rightarrow> bool" where
  "has_uncertain s org conv = list_ex (uncertain_attempt org conv) (ms_attempts s)"

definition beginQrDispatchAttempt :: "msg_env \<Rightarrow> message_row \<Rightarrow> string \<Rightarrow> (msg_state, unit) tx" where
  "beginQrDispatchAttempt env m lease s =
    (case (find_outbox s (mg_org m) (mg_id m), channel_is s m (\<lambda>c. cn_provider c = Some BAILEYS)) of
       (Some ob, True) \<Rightarrow> (case ob_lease ob of
           Some (tok, exp) \<Rightarrow>
             if tok = lease \<and> \<not> list_ex (\<lambda>a. qa_org a = mg_org m \<and> qa_message a = mg_id m \<and> qa_lease a = lease) (ms_attempts s)
             then Inr ((), s\<lparr>ms_attempts := ms_attempts s @ [\<lparr>qa_id = me_fresh env (length (ms_attempts s)), qa_org = mg_org m,
               qa_channel = mg_channel m, qa_conversation = mg_conversation m, qa_message = mg_id m, qa_lease = lease,
               qa_leaseExpires = exp, qa_provider = None, qa_state = DISPATCHED, qa_revision = 1, qa_updated = me_now env\<rparr>]\<rparr>)
             else Inr ((), s)
         | None \<Rightarrow> Inr ((), s))
     | _ \<Rightarrow> Inr ((), s))"

section \<open>Observations\<close>

definition group_scope :: "string \<Rightarrow> bool" where
  "group_scope sc \<longleftrightarrow> take 3 sc = ''g3:''"

definition hasAmbiguousGroupProviderId :: "msg_state \<Rightarrow> observation_row \<Rightarrow> bool" where
  "hasAmbiguousGroupProviderId s ob \<longleftrightarrow>
     list_ex (\<lambda>m. mg_org m = qo_org ob \<and> mg_channel m = qo_channel ob \<and> mg_conversation m = qo_conversation ob
       \<and> mg_upstream m = Some (qo_provider ob) \<and> mg_scope m \<noteq> qo_scope ob \<and> group_scope (mg_scope m)) (ms_messages s)
   \<or> list_ex (\<lambda>p. qo_org p = qo_org ob \<and> qo_channel p = qo_channel ob \<and> qo_conversation p = qo_conversation ob
       \<and> qo_provider p = qo_provider ob \<and> qo_scope p \<noteq> qo_scope ob \<and> group_scope (qo_scope p)) (ms_observations s)"

definition set_observation :: "string \<Rightarrow> string \<Rightarrow> (observation_row \<Rightarrow> observation_row) \<Rightarrow> (msg_state, unit) tx" where
  "set_observation org oid f = tx_modify (\<lambda>s. s\<lparr>ms_observations :=
     update_rows (\<lambda>r. qo_org r = org \<and> qo_id r = oid) f (ms_observations s)\<rparr>)"

definition observed_statuses :: "msg_state \<Rightarrow> string \<Rightarrow> string \<Rightarrow> string \<Rightarrow> string \<Rightarrow> message_state list" where
  "observed_statuses s org chan scope provider = map se_state (sort_key (\<lambda>e. (se_occurred e, se_id e))
     (filter (\<lambda>e. se_org e = org \<and> se_channel e = chan \<and> se_upstream e = provider \<and> se_scope e = scope) (ms_statuses s)))"

definition adopt_observation :: "msg_env \<Rightarrow> observation_row \<Rightarrow> (msg_state, unit) tx" where
  "adopt_observation env ob =
    tx_bind (interruptChatwootAttendance env (qo_org ob) (qo_conversation ob)) (\<lambda>_.
    tx_bind (tx_gets (\<lambda>s. (me_fresh env (ms_seq s), reconcile_statuses SENT
        (observed_statuses s (qo_org ob) (qo_channel ob) (qo_scope ob) (qo_provider ob))))) (\<lambda>(mid, st).
    tx_bind (insert_message env \<lparr>mg_id = mid, mg_org = qo_org ob, mg_channel = qo_channel ob, mg_conversation = qo_conversation ob,
        mg_direction = OUTGOING, mg_source = SRC_EXTERNAL_OBSERVED, mg_scope = '''', mg_upstream = Some (qo_provider ob),
        mg_content = qo_content ob, mg_state = st, mg_error = None, mg_key = None, mg_optIn = False, mg_apiKey = None,
        mg_campaign = None, mg_seq = 0, mg_created = qo_occurred ob, mg_updated = me_now env, mg_historical = False\<rparr>) (\<lambda>_.
    set_observation (qo_org ob) (qo_id ob) (\<lambda>r. r\<lparr>qo_disposition := EXTERNAL_OBSERVED, qo_blocking := False,
        qo_message := Some mid, qo_reason := ''QR_EXTERNAL_OBSERVED'', qo_revision := qo_revision r + 1, qo_updated := me_now env\<rparr>))))"

text \<open>The time of the update is \<open>None\<close> where the statement leaves \<open>updated_at\<close> as it is.\<close>

definition settle_as :: "observation_row \<Rightarrow> bool \<Rightarrow> string \<Rightarrow> int option \<Rightarrow> (msg_state, unit) tx" where
  "settle_as ob blocking reason touched = set_observation (qo_org ob) (qo_id ob)
     (\<lambda>r. r\<lparr>qo_blocking := blocking, qo_reason := reason, qo_revision := qo_revision r + 1,
           qo_updated := (case touched of None \<Rightarrow> qo_updated r | Some t \<Rightarrow> t)\<rparr>)"

definition settle_observation :: "msg_env \<Rightarrow> observation_row \<Rightarrow> (msg_state, unit) tx" where
  "settle_observation env ob s =
    (let org = qo_org ob; conv = qo_conversation ob; pending = has_uncertain s org conv;
         abandoned = list_ex (\<lambda>a. qa_org a = org \<and> qa_conversation a = conv \<and> qa_state a = ATTEMPT_ABANDONED) (ms_attempts s);
         canonical = find (\<lambda>m. mg_org m = org \<and> mg_channel m = qo_channel ob \<and> mg_upstream m = Some (qo_provider ob)
           \<and> mg_scope m = qo_scope ob) (ms_messages s);
         echo = (case canonical of None \<Rightarrow> None | Some m \<Rightarrow> if mg_direction m = OUTGOING \<and> mg_conversation m = conv then Some m else None)
     in if group_scope (qo_scope ob) \<and> hasAmbiguousGroupProviderId s ob then settle_as ob pending ''QR_GROUP_IDENTITY_RECONCILE'' (Some (me_clock env)) s
        else case echo of
          Some m \<Rightarrow> set_observation org (qo_id ob) (\<lambda>r. r\<lparr>qo_disposition := (if mg_source m = SRC_EXTERNAL_OBSERVED
              then EXTERNAL_OBSERVED else BROKER_ECHO), qo_blocking := False, qo_message := Some (mg_id m),
              qo_reason := ''QR_PROVIDER_ID_CONFIRMED'', qo_revision := qo_revision r + 1, qo_updated := me_now env\<rparr>) s
        | None \<Rightarrow>
          (if canonical \<noteq> None \<or> pending \<or> abandoned
           then set_observation org (qo_id ob) (\<lambda>r. r\<lparr>qo_blocking := canonical \<noteq> None \<or> pending,
             qo_reason := (if canonical \<noteq> None then ''QR_PROVIDER_ID_CONFLICT'' else if pending then ''QR_ACK_PENDING''
               else ''QR_ABANDONED_ATTEMPT_UNRESOLVED''), qo_updated := me_now env\<rparr>) s
           else if \<not> me_writable env org (qo_channel ob) then settle_as ob False ''QR_LIFECYCLE_RECONCILE'' (Some (me_now env)) s
           else if group_scope (qo_scope ob) \<and> qo_scope ob \<noteq> me_scope env org conv then settle_as ob False ''QR_GROUP_IDENTITY_RECONCILE'' None s
           else if group_scope (qo_scope ob) \<and> me_groupChanged env org conv then settle_as ob False ''QR_GROUP_IDENTITY_RECONCILE'' None s
           else adopt_observation env ob s))"

definition settleQrOutboundObservation :: "msg_env \<Rightarrow> string \<Rightarrow> string \<Rightarrow> (msg_state, unit) tx" where
  "settleQrOutboundObservation env org oid s =
    (case find (\<lambda>r. qo_org r = org \<and> qo_id r = oid) (ms_observations s) of
       None \<Rightarrow> Inr ((), s)
     | Some ob \<Rightarrow> if qo_disposition ob \<noteq> RECONCILE then Inr ((), s) else settle_observation env ob s)"

definition recordQrOutboundObservation ::
  "msg_env \<Rightarrow> string \<Rightarrow> string \<Rightarrow> string \<Rightarrow> string \<Rightarrow> message_content \<Rightarrow> int \<Rightarrow> (msg_state, unit) tx" where
  "recordQrOutboundObservation env org chan conv provider content occurred s =
    (let scope = me_scope env org conv;
         oid = (case find (\<lambda>r. qo_org r = org \<and> qo_channel r = chan \<and> qo_scope r = scope \<and> qo_provider r = provider) (ms_observations s) of
           Some r \<Rightarrow> qo_id r | None \<Rightarrow> me_fresh env (length (ms_observations s)));
         new = \<lparr>qo_id = oid, qo_org = org, qo_channel = chan, qo_conversation = conv, qo_scope = scope, qo_provider = provider,
           qo_content = content, qo_occurred = occurred, qo_disposition = RECONCILE, qo_blocking = True, qo_message = None,
           qo_reason = ''QR_ACK_PENDING'', qo_revision = 1, qo_created = me_now env, qo_updated = me_now env\<rparr>;
         s1 = (if list_ex (\<lambda>r. qo_org r = org \<and> qo_channel r = chan \<and> qo_scope r = scope \<and> qo_provider r = provider) (ms_observations s)
           then s else s\<lparr>ms_observations := ms_observations s @ [new]\<rparr>)
     in settleQrOutboundObservation env org oid s1)"

section \<open>The end of an attempt\<close>

datatype send_outcome = OutSent string | OutFailed string bool | OutUnknown string

definition attempt_end :: "send_outcome \<Rightarrow> attempt_state" where
  "attempt_end out = (case out of OutSent _ \<Rightarrow> CONFIRMED | OutFailed _ _ \<Rightarrow> REJECTED | OutUnknown _ \<Rightarrow> ATTEMPT_UNKNOWN)"

definition attempt_provider :: "send_outcome \<Rightarrow> string option" where
  "attempt_provider out = (case out of OutSent u \<Rightarrow> Some u | _ \<Rightarrow> None)"

definition pending_observations :: "msg_state \<Rightarrow> (observation_row \<Rightarrow> bool) \<Rightarrow> (observation_row \<Rightarrow> int) \<Rightarrow> string list" where
  "pending_observations s p time = map qo_id (sort_key (\<lambda>r. (time r, qo_id r))
     (filter (\<lambda>r. p r \<and> qo_disposition r = RECONCILE) (ms_observations s)))"

definition completeQrDispatchAttempt ::
  "msg_env \<Rightarrow> message_row \<Rightarrow> string \<Rightarrow> send_outcome \<Rightarrow> (msg_state, unit) tx" where
  "completeQrDispatchAttempt env m lease out =
    tx_bind (tx_modify (\<lambda>s. s\<lparr>ms_attempts := update_rows
        (\<lambda>a. qa_org a = mg_org m \<and> qa_message a = mg_id m \<and> qa_lease a = lease \<and> qa_state a = DISPATCHED)
        (\<lambda>a. a\<lparr>qa_state := attempt_end out, qa_provider := attempt_provider out, qa_revision := qa_revision a + 1, qa_updated := me_now env\<rparr>)
        (ms_attempts s)\<rparr>)) (\<lambda>_.
    tx_bind (tx_gets (\<lambda>s. pending_observations s (\<lambda>r. qo_org r = mg_org m \<and> qo_conversation r = mg_conversation m) qo_created)) (\<lambda>ids.
    tx_each (settleQrOutboundObservation env (mg_org m)) ids))"

section \<open>Recovery\<close>

definition recover_channel :: "msg_env \<Rightarrow> string \<Rightarrow> nat \<Rightarrow> string \<Rightarrow> (msg_state, unit) tx" where
  "recover_channel env org lim chan s =
    (let expired = filter (\<lambda>a. qa_org a = org \<and> qa_channel a = chan \<and> qa_state a = DISPATCHED \<and> qa_leaseExpires a \<le> me_now env) (ms_attempts s)
     in tx_bind (tx_modify (\<lambda>s. s\<lparr>ms_attempts := update_rows
            (\<lambda>a. qa_org a = org \<and> qa_channel a = chan \<and> qa_state a = DISPATCHED \<and> qa_leaseExpires a \<le> me_now env)
            (\<lambda>a. a\<lparr>qa_state := ATTEMPT_UNKNOWN, qa_revision := qa_revision a + 1, qa_updated := me_now env\<rparr>) (ms_attempts s)\<rparr>)) (\<lambda>_.
        tx_bind (update_messages env (\<lambda>m. mg_org m = org \<and> list_ex (\<lambda>a. qa_message a = mg_id m) expired \<and> mg_state m = SENDING)
            (\<lambda>m. m\<lparr>mg_state := UNKNOWN, mg_error := Some ''QR_ACK_NOT_PERSISTED'', mg_updated := me_now env\<rparr>)) (\<lambda>_.
        tx_bind (tx_gets ms_messages) (\<lambda>ms.
        tx_bind (delete_outbox (\<lambda>ob. ob_org ob = org \<and> list_ex (\<lambda>m. out_at (mg_org m) (mg_id m) ob \<and> mg_channel m = chan \<and> mg_state m = UNKNOWN) ms)) (\<lambda>_.
        tx_bind (tx_gets (\<lambda>s. take lim (pending_observations s (\<lambda>r. qo_org r = org \<and> qo_channel r = chan) qo_updated))) (\<lambda>ids.
        tx_each (settleQrOutboundObservation env org) ids))))) s)"

text \<open>The channels with work, the longest untouched first, at most \<open>lim\<close> of them, visited in the order of their identifiers.\<close>

definition fair_channels :: "msg_env \<Rightarrow> string \<Rightarrow> nat \<Rightarrow> msg_state \<Rightarrow> string list" where
  "fair_channels env org lim s =
    (let work = map (\<lambda>a. (qa_channel a, qa_updated a)) (filter (\<lambda>a. qa_org a = org \<and> qa_state a = DISPATCHED \<and> qa_leaseExpires a \<le> me_now env) (ms_attempts s))
           @ map (\<lambda>r. (qo_channel r, qo_updated r)) (filter (\<lambda>r. qo_org r = org \<and> qo_disposition r = RECONCILE) (ms_observations s));
         oldest = (\<lambda>c. Min (set (map snd (filter (\<lambda>w. fst w = c) work))))
     in sort (take lim (sort_key (\<lambda>c. (oldest c, c)) (remdups (map fst work)))))"

definition recoverQrOutboundObservations :: "msg_env \<Rightarrow> string \<Rightarrow> nat \<Rightarrow> (msg_state, unit) tx" where
  "recoverQrOutboundObservations env org lim s =
    (if \<not> me_active env org then Inr ((), s) else tx_each (recover_channel env org lim) (fair_channels env org lim s) s)"

end
