(* ===== verification/Outbox.thy ===== *)
theory Outbox
  imports Qr_Dispatch
begin

text \<open>
  The outgoing side of apps/api/src/modules/messaging/repository.ts: a message is enqueued once per
  idempotency key, leased to a worker, validated right before the provider is asked to send it,
  and completed with what the provider answered.
\<close>

section \<open>Contacts and conversations\<close>

definition upsertContact ::
  "msg_env \<Rightarrow> string \<Rightarrow> string \<Rightarrow> string \<Rightarrow> string option \<Rightarrow> consent_status \<Rightarrow> int option \<Rightarrow> (msg_state, contact_row) tx" where
  "upsertContact env cid org external name consent consentAt s =
    (case find (\<lambda>c. ct_org c = org \<and> ct_external c = external) (ms_contacts s) of
       Some c \<Rightarrow> (let c' = c\<lparr>ct_name := (if name = None then ct_name c else name), ct_updated := me_now env\<rparr>
         in Inr (c', s\<lparr>ms_contacts := update_rows (\<lambda>r. ct_org r = org \<and> ct_external r = external) (\<lambda>_. c') (ms_contacts s)\<rparr>))
     | None \<Rightarrow>
        if list_ex (\<lambda>c. ct_id c = cid) (ms_contacts s) then Inl (DatabaseError ''23505'' ''messaging_contacts_pkey'')
        else (let c = \<lparr>ct_id = cid, ct_org = org, ct_external = external, ct_name = name, ct_consent = consent,
                ct_consentUpdated = map_option db_us consentAt, ct_suppressed = None, ct_updated = me_now env\<rparr>
              in Inr (c, s\<lparr>ms_contacts := ms_contacts s @ [c]\<rparr>)))"

definition setContactMessagingPolicy ::
  "msg_env \<Rightarrow> string \<Rightarrow> string \<Rightarrow> consent_status \<Rightarrow> int option \<Rightarrow> int option \<Rightarrow> (msg_state, contact_row) tx" where
  "setContactMessagingPolicy env org cid consent consentAt suppressedAt s =
    (case find_contact s org cid of
       None \<Rightarrow> Inl (MessagingRepositoryError ''CONVERSATION_NOT_FOUND'' 404)
     | Some c \<Rightarrow> (let c' = c\<lparr>ct_consent := consent, ct_consentUpdated := map_option db_us consentAt,
           ct_suppressed := map_option db_us suppressedAt, ct_updated := me_now env\<rparr>
         in Inr (c', s\<lparr>ms_contacts := update_rows (\<lambda>r. ct_org r = org \<and> ct_id r = cid) (\<lambda>_. c') (ms_contacts s)\<rparr>)))"

definition getOrCreateConversation ::
  "msg_env \<Rightarrow> string \<Rightarrow> string \<Rightarrow> string \<Rightarrow> string \<Rightarrow> (msg_state, conversation_row) tx" where
  "getOrCreateConversation env vid org chan cont s =
    (case (find_channel s org chan, find_contact s org cont) of
       (Some c, Some _) \<Rightarrow>
         (case find (\<lambda>v. cv_org v = org \<and> cv_channel v = chan \<and> cv_contact v = cont \<and> cv_remoteKey v = None) (ms_conversations s) of
            Some v \<Rightarrow> Inr (v, s)
          | None \<Rightarrow>
             if list_ex (\<lambda>v. cv_id v = vid) (ms_conversations s) then Inl (DatabaseError ''23505'' ''messaging_conversations_pkey'')
             else (let v = \<lparr>cv_id = vid, cv_org = org, cv_channel = chan, cv_contact = cont, cv_mode = BOT,
                     cv_botPublicId = cn_botPublicId c, cv_botOrigin = cn_botOrigin c, cv_session = None, cv_remoteKey = None,
                     cv_attendance = 0, cv_updated = me_now env\<rparr>
                   in Inr (v, s\<lparr>ms_conversations := ms_conversations s @ [v]\<rparr>)))
     | _ \<Rightarrow> Inl (MessagingRepositoryError ''CHANNEL_NOT_FOUND'' 404))"

definition setConversationMode :: "msg_env \<Rightarrow> string \<Rightarrow> string \<Rightarrow> conversation_mode \<Rightarrow> (msg_state, conversation_row) tx" where
  "setConversationMode env org conv mode s =
    (case find_conversation s org conv of
       None \<Rightarrow> Inl (MessagingRepositoryError ''CONVERSATION_NOT_FOUND'' 404)
     | Some v \<Rightarrow>
        tx_bind (tx_modify (\<lambda>s. s\<lparr>ms_conversations := update_rows (\<lambda>r. cv_org r = org \<and> cv_id r = conv)
            (\<lambda>r. r\<lparr>cv_mode := mode, cv_updated := me_now env\<rparr>) (ms_conversations s)\<rparr>)) (\<lambda>_.
        tx_bind (tx_when (mode = HUMAN)
            (settle_messages env (pending_automation org conv) FAILED (\<lambda>_. ''CONVERSATION_PAUSED'') (me_now env))) (\<lambda>_.
        tx_return (v\<lparr>cv_mode := mode, cv_updated := me_now env\<rparr>))) s)"

definition bindTypebotSession ::
  "msg_env \<Rightarrow> string \<Rightarrow> string \<Rightarrow> string \<Rightarrow> string \<Rightarrow> string \<Rightarrow> (msg_state, conversation_row) tx" where
  "bindTypebotSession env org conv publicId origin session s =
    (case find_conversation s org conv of
       None \<Rightarrow> Inl (MessagingRepositoryError ''CONVERSATION_NOT_FOUND'' 404)
     | Some v \<Rightarrow>
        if (cv_botPublicId v = None \<and> cv_botOrigin v = None) \<or> (cv_botPublicId v = Some publicId \<and> cv_botOrigin v = Some origin)
        then (let v' = v\<lparr>cv_botPublicId := Some publicId, cv_botOrigin := Some origin, cv_session := Some session, cv_updated := me_now env\<rparr>
              in Inr (v', s\<lparr>ms_conversations := update_rows (\<lambda>r. cv_org r = org \<and> cv_id r = conv) (\<lambda>_. v') (ms_conversations s)\<rparr>))
        else Inl (MessagingRepositoryError ''BOT_OWNERSHIP_CONFLICT'' 409))"

section \<open>Superseded cycles\<close>

definition CYCLE_PREFIX :: string where "CYCLE_PREFIX = ''chatwoot-cycle:''"

definition has_prefix :: "string \<Rightarrow> string \<Rightarrow> bool" where
  "has_prefix p t \<longleftrightarrow> take (length p) t = p"

definition superseded_key :: "conversation_row \<Rightarrow> bool" where
  "superseded_key v \<longleftrightarrow> (case cv_remoteKey v of None \<Rightarrow> False | Some k \<Rightarrow> has_prefix CYCLE_PREFIX k)"

definition broker_channel :: "msg_state \<Rightarrow> string \<Rightarrow> string \<Rightarrow> bool" where
  "broker_channel s org chan \<longleftrightarrow> (case find_channel s org chan of None \<Rightarrow> False | Some c \<Rightarrow> cn_transport c = BROKER_TRANSPORT)"

definition isSupersededPhysicalCycle :: "msg_state \<Rightarrow> string \<Rightarrow> string \<Rightarrow> bool" where
  "isSupersededPhysicalCycle s org conv \<longleftrightarrow> (case find_conversation s org conv of None \<Rightarrow> False
     | Some v \<Rightarrow> broker_channel s org (cv_channel v) \<and> superseded_key v)"

definition currentPhysicalCycle :: "msg_state \<Rightarrow> string \<Rightarrow> string \<Rightarrow> conversation_row option" where
  "currentPhysicalCycle s org conv = (case find_conversation s org conv of None \<Rightarrow> None
     | Some v \<Rightarrow> if \<not> (broker_channel s org (cv_channel v) \<and> superseded_key v) then None
        else find (\<lambda>c. cv_org c = org \<and> cv_channel c = cv_channel v \<and> cv_contact c = cv_contact v
               \<and> cv_remoteKey c = None \<and> cv_id c \<noteq> conv) (ms_conversations s))"

section \<open>Enqueueing\<close>

text \<open>
  \<open>en_proof\<close> is whether a proof was given and the statement that checks it found the running,
  leased reply job for this conversation and channel.
\<close>

record enqueue_input =
  en_id :: string
  en_org :: string
  en_channel :: string
  en_conversation :: string
  en_source :: message_source
  en_content :: message_content
  en_key :: string
  en_hash :: string
  en_requireOptIn :: bool
  en_apiKey :: "string option"
  en_campaign :: "string option"
  en_proof :: bool

datatype enqueue_result = Created message_row | Replayed message_row

definition keyed :: "string \<Rightarrow> string \<Rightarrow> string \<Rightarrow> message_row \<Rightarrow> bool" where
  "keyed org chan key m \<longleftrightarrow> mg_org m = org \<and> mg_channel m = chan \<and> map_option fst (mg_key m) = Some key"

definition fence_superseded :: "msg_env \<Rightarrow> enqueue_input \<Rightarrow> (msg_state, unit) tx" where
  "fence_superseded env i s =
    (if \<not> isSupersededPhysicalCycle s (en_org i) (en_conversation i) then Inr ((), s)
     else if en_source i \<noteq> SRC_OPERATOR \<or> \<not> en_proof i then Inl (MessagingRepositoryError ''CONVERSATION_SUPERSEDED'' 409)
     else case currentPhysicalCycle s (en_org i) (en_conversation i) of
       None \<Rightarrow> Inl (MessagingRepositoryError ''CONVERSATION_SUPERSEDED'' 409)
     | Some cur \<Rightarrow> interruptChatwootAttendance env (en_org i) (cv_id cur) s)"

definition policy_failure :: "enqueue_input \<Rightarrow> bool \<Rightarrow> conversation_row \<Rightarrow> contact_row \<Rightarrow> js_error option" where
  "policy_failure i requireOptIn v c =
    (if ct_suppressed c \<noteq> None then Some (MessagingRepositoryError ''CONTACT_SUPPRESSED'' 422)
     else if ct_consent c = OPTED_OUT \<or> (requireOptIn \<and> ct_consent c \<noteq> OPTED_IN) then Some (MessagingRepositoryError ''CONTACT_CONSENT_REQUIRED'' 422)
     else if en_source i = SRC_AUTOMATION \<and> cv_mode v = HUMAN then Some (MessagingRepositoryError ''CONVERSATION_PAUSED'' 422)
     else None)"

definition enqueueOutgoing :: "msg_env \<Rightarrow> enqueue_input \<Rightarrow> (msg_state, enqueue_result) tx" where
  "enqueueOutgoing env i s =
    (let requireOptIn = (is_template (en_content i) \<or> en_requireOptIn i)
     in case find (keyed (en_org i) (en_channel i) (en_key i)) (ms_messages s) of
       Some m \<Rightarrow> if map_option snd (mg_key m) \<noteq> Some (en_hash i) then Inl (MessagingRepositoryError ''IDEMPOTENCY_CONFLICT'' 409)
         else Inr (Replayed m, s)
     | None \<Rightarrow>
       (case find (\<lambda>v. cv_org v = en_org i \<and> cv_id v = en_conversation i \<and> cv_channel v = en_channel i) (ms_conversations s) of
          None \<Rightarrow> Inl (MessagingRepositoryError ''CONVERSATION_NOT_FOUND'' 404)
        | Some v \<Rightarrow> (case find_contact s (en_org i) (cv_contact v) of
            None \<Rightarrow> Inl (MessagingRepositoryError ''CONVERSATION_NOT_FOUND'' 404)
          | Some c \<Rightarrow>
             tx_bind (fence_superseded env i) (\<lambda>_.
             (case policy_failure i requireOptIn v c of Some e \<Rightarrow> tx_throw e | None \<Rightarrow>
             tx_bind (queue_message env \<lparr>mg_id = en_id i, mg_org = en_org i, mg_channel = en_channel i, mg_conversation = en_conversation i,
                mg_direction = OUTGOING, mg_source = en_source i, mg_scope = '''', mg_upstream = None, mg_content = en_content i,
                mg_state = ACCEPTED, mg_error = None, mg_key = Some (en_key i, en_hash i), mg_optIn = requireOptIn,
                mg_apiKey = en_apiKey i, mg_campaign = en_campaign i, mg_seq = 0, mg_created = me_now env, mg_updated = me_now env,
                mg_historical = False\<rparr>) (\<lambda>row. tx_return (Created row)))) s)))"

section \<open>Claiming\<close>

text \<open>Seconds before a safe retry of a message attempted \<open>n\<close> times.\<close>

definition retry_backoff :: "nat \<Rightarrow> int" where
  "retry_backoff n = min 300 (5 * 2 ^ n)"

definition MAX_ATTEMPTS :: nat where "MAX_ATTEMPTS = 6"

definition retry_due :: "string \<Rightarrow> int \<Rightarrow> outbox_row \<Rightarrow> message_row \<Rightarrow> bool" where
  "retry_due org now ob m \<longleftrightarrow> ob_org ob = org \<and> out_at (mg_org m) (mg_id m) ob \<and> mg_state m = FAILED \<and> ob_retrySafe ob
     \<and> ob_attempts ob < MAX_ATTEMPTS \<and> ob_lease ob = None \<and> ob_updated ob \<le> now - retry_backoff (ob_attempts ob) * 1000000"

definition retry_messages :: "msg_env \<Rightarrow> string \<Rightarrow> int \<Rightarrow> (msg_state, unit) tx" where
  "retry_messages env org now s =
    (let obs = ms_outbox s; ms = ms_messages s
     in tx_bind (update_outbox (\<lambda>ob. list_ex (retry_due org now ob) ms)
          (\<lambda>ob. ob\<lparr>ob_retrySafe := False, ob_available := now, ob_updated := now\<rparr>)) (\<lambda>_.
        update_messages env (\<lambda>m. list_ex (\<lambda>ob. retry_due org now ob m) obs)
          (\<lambda>m. m\<lparr>mg_state := ACCEPTED, mg_error := None, mg_updated := now\<rparr>)) s)"

definition lease_over :: "int \<Rightarrow> outbox_row \<Rightarrow> bool" where
  "lease_over now ob \<longleftrightarrow> (case ob_lease ob of None \<Rightarrow> False | Some (_, e) \<Rightarrow> e \<le> now)"

definition expire_sending :: "msg_env \<Rightarrow> string \<Rightarrow> int \<Rightarrow> (msg_state, unit) tx" where
  "expire_sending env org now s = settle_messages env
    (\<lambda>m. mg_org m = org \<and> mg_state m = SENDING \<and> list_ex (\<lambda>ob. out_at (mg_org m) (mg_id m) ob \<and> lease_over now ob) (ms_outbox s)
       \<and> \<not> channel_is s m (\<lambda>c. cn_provider c = Some BAILEYS)) UNKNOWN (\<lambda>_. ''SEND_LEASE_EXPIRED'') now s"

definition release_accepted :: "string \<Rightarrow> int \<Rightarrow> (msg_state, unit) tx" where
  "release_accepted org now s = update_outbox (\<lambda>ob. ob_org ob = org \<and> lease_over now ob
      \<and> list_ex (\<lambda>m. out_at (mg_org m) (mg_id m) ob \<and> mg_state m = ACCEPTED) (ms_messages s))
    (\<lambda>ob. ob\<lparr>ob_lease := None, ob_updated := now\<rparr>) s"

definition unconsented :: "message_row \<Rightarrow> contact_row \<Rightarrow> bool" where
  "unconsented m c \<longleftrightarrow> ct_consent c = OPTED_OUT \<or> (mg_optIn m \<and> ct_consent c \<noteq> OPTED_IN)"

definition policy_code :: "message_row \<Rightarrow> contact_row \<Rightarrow> string" where
  "policy_code m c = (if ct_suppressed c \<noteq> None then ''CONTACT_SUPPRESSED''
     else if unconsented m c then ''CONTACT_CONSENT_REQUIRED'' else ''CUSTOMER_SERVICE_WINDOW_CLOSED'')"

definition refused_by_policy :: "msg_state \<Rightarrow> string \<Rightarrow> int \<Rightarrow> message_row \<Rightarrow> bool" where
  "refused_by_policy s org now m \<longleftrightarrow> mg_org m = org \<and> mg_state m = ACCEPTED
     \<and> list_ex (\<lambda>ob. out_at (mg_org m) (mg_id m) ob \<and> ob_lease ob = None) (ms_outbox s)
     \<and> channel_is s m (\<lambda>c. cn_transport c = BROKER_TRANSPORT)
     \<and> (case parties s m of None \<Rightarrow> False | Some (v, c) \<Rightarrow> ct_suppressed c \<noteq> None \<or> unconsented m c
          \<or> (\<not> is_template (mg_content m) \<and> channel_is s m (\<lambda>c. cn_provider c = Some META) \<and> \<not> inbound_within_day s now m))"

definition reject_refused :: "msg_env \<Rightarrow> string \<Rightarrow> int \<Rightarrow> (msg_state, unit) tx" where
  "reject_refused env org now s = settle_messages env (refused_by_policy s org now) FAILED
    (\<lambda>m. case parties s m of None \<Rightarrow> '''' | Some (v, c) \<Rightarrow> policy_code m c) now s"

definition abandoned_attempt :: "msg_state \<Rightarrow> message_row \<Rightarrow> bool" where
  "abandoned_attempt s m = list_ex (\<lambda>a. qa_org a = mg_org m \<and> qa_message a = mg_id m \<and> qa_state a = ATTEMPT_ABANDONED) (ms_attempts s)"

text \<open>An earlier outgoing message of the conversation that is not settled keeps the later ones back.\<close>

definition holds_back :: "msg_state \<Rightarrow> message_row \<Rightarrow> message_row \<Rightarrow> bool" where
  "holds_back s m e \<longleftrightarrow> mg_org e = mg_org m \<and> mg_conversation e = mg_conversation m \<and> mg_direction e = OUTGOING \<and> mg_seq e < mg_seq m
     \<and> (mg_state e = ACCEPTED \<or> mg_state e = SENDING \<or> (mg_state e = UNKNOWN \<and> \<not> abandoned_attempt s e)
        \<or> find_outbox s (mg_org e) (mg_id e) \<noteq> None)"

definition instance_blocks :: "msg_env \<Rightarrow> channel_row \<Rightarrow> bool" where
  "instance_blocks env c \<longleftrightarrow> cn_provider c = Some BAILEYS
     \<and> list_ex (\<lambda>i. in_org i = cn_org c \<and> Some (in_id i) = cn_instance c \<and> in_status i \<noteq> CONNECTED) (me_instances env)"

definition claimable_row :: "msg_env \<Rightarrow> string \<Rightarrow> int \<Rightarrow> msg_state \<Rightarrow> outbox_row \<Rightarrow> message_row \<Rightarrow> bool" where
  "claimable_row env org now s ob m \<longleftrightarrow>
     ob_org ob = org \<and> out_at (mg_org m) (mg_id m) ob \<and> ob_lease ob = None \<and> ob_available ob \<le> now \<and> mg_state m = ACCEPTED
   \<and> channel_is s m (\<lambda>c. cn_transport c = BROKER_TRANSPORT)
   \<and> (case mg_content m of MEDIA i _ _ _ \<Rightarrow> me_mediaUsable env (mg_org m) i | _ \<Rightarrow> True)
   \<and> (case parties s m of None \<Rightarrow> False | Some (v, c) \<Rightarrow> ct_suppressed c = None \<and> \<not> unconsented m c
        \<and> (mg_source m \<noteq> SRC_AUTOMATION \<or> cv_mode v = BOT))
   \<and> (is_template (mg_content m) \<or> channel_is s m (\<lambda>c. cn_provider c = Some BAILEYS) \<or> inbound_within_day s now m)
   \<and> \<not> blocking_observation s (mg_org m) (mg_conversation m)
   \<and> me_identityReady env (mg_org m) (mg_channel m)
   \<and> \<not> channel_is s m (instance_blocks env)
   \<and> \<not> list_ex (holds_back s m) (ms_messages s)"

record outbox_claim =
  oc_message :: message_row
  oc_contact :: contact_row
  oc_channel :: channel_row
  oc_lease :: string
  oc_attempts :: nat

definition claim_of :: "msg_state \<Rightarrow> string \<Rightarrow> nat \<Rightarrow> message_row \<Rightarrow> outbox_claim option" where
  "claim_of s lease n m = (case (parties s m, find_channel s (mg_org m) (mg_channel m)) of
     (Some (v, c), Some ch) \<Rightarrow> Some \<lparr>oc_message = m, oc_contact = c, oc_channel = ch, oc_lease = lease, oc_attempts = n\<rparr>
   | _ \<Rightarrow> None)"

definition candidates :: "msg_env \<Rightarrow> string \<Rightarrow> int \<Rightarrow> nat \<Rightarrow> msg_state \<Rightarrow> (outbox_row \<times> message_row) list" where
  "candidates env org now lim s = take lim (sort_key (\<lambda>(ob, m). (ob_available ob, mg_seq m))
     (filter (\<lambda>(ob, m). claimable_row env org now s ob m) (List.product (ms_outbox s) (ms_messages s))))"

definition lease_candidates :: "msg_env \<Rightarrow> string \<Rightarrow> string \<Rightarrow> int \<Rightarrow> int \<Rightarrow> nat \<Rightarrow> (msg_state, outbox_claim list) tx" where
  "lease_candidates env org worker now leaseMs lim s =
    (let cs = candidates env org now lim s
     in tx_bind (update_outbox (\<lambda>ob. list_ex (\<lambda>(o', m). ob_org ob = ob_org o' \<and> ob_message ob = ob_message o') cs)
          (\<lambda>ob. ob\<lparr>ob_lease := Some (worker, now + leaseMs * 1000), ob_attempts := ob_attempts ob + 1, ob_updated := now\<rparr>)) (\<lambda>_.
        tx_return (List.map_filter (\<lambda>(ob, m). claim_of s worker (ob_attempts ob + 1) m) cs)) s)"

definition claimOutgoing :: "msg_env \<Rightarrow> string \<Rightarrow> string \<Rightarrow> int \<Rightarrow> int \<Rightarrow> nat \<Rightarrow> (msg_state, outbox_claim list) tx" where
  "claimOutgoing env org worker nowMs leaseMs lim s =
    (if \<not> me_active env org then Inr ([], s)
     else (let now = db_us nowMs
       in tx_bind (retry_messages env org now) (\<lambda>_.
          tx_bind (expire_sending env org now) (\<lambda>_.
          tx_bind (release_accepted org now) (\<lambda>_.
          tx_bind (reject_refused env org now) (\<lambda>_.
          lease_candidates env org worker now leaseMs lim)))) s))"

end
