(* ===== verification/Outbox_Send.thy ===== *)
theory Outbox_Send
  imports Outbox
begin

text \<open>
  The rest of the outgoing side of messaging/repository.ts: the check made right before the
  provider is asked to send, the record of what it answered, the retry an operator asks for, and
  the statuses the provider reports.
\<close>

section \<open>Validation\<close>

datatype ineligibility = PARTNER_CREDENTIAL_REVOKED | CAMPAIGN_AUTHORITY_REVOKED | QR_OBSERVATION_RECONCILE_REQUIRED
  | FLOW_REVOKED | IDENTITY_CONFIRMATION_REQUIRED | ORGANIZATION_NOT_ACTIVE | META_CHANNEL_NOT_READY | QR_CHANNEL_DISCONNECTED
  | CONTACT_SUPPRESSED | CONTACT_CONSENT_REQUIRED | CUSTOMER_SERVICE_WINDOW_CLOSED | CONVERSATION_PAUSED | INVALID_OUTBOX_CLAIM

fun reason_code :: "ineligibility \<Rightarrow> string" where
  "reason_code PARTNER_CREDENTIAL_REVOKED = ''PARTNER_CREDENTIAL_REVOKED''"
| "reason_code CAMPAIGN_AUTHORITY_REVOKED = ''CAMPAIGN_AUTHORITY_REVOKED''"
| "reason_code QR_OBSERVATION_RECONCILE_REQUIRED = ''QR_OBSERVATION_RECONCILE_REQUIRED''"
| "reason_code FLOW_REVOKED = ''FLOW_REVOKED''"
| "reason_code IDENTITY_CONFIRMATION_REQUIRED = ''IDENTITY_CONFIRMATION_REQUIRED''"
| "reason_code ORGANIZATION_NOT_ACTIVE = ''ORGANIZATION_NOT_ACTIVE''"
| "reason_code META_CHANNEL_NOT_READY = ''META_CHANNEL_NOT_READY''"
| "reason_code QR_CHANNEL_DISCONNECTED = ''QR_CHANNEL_DISCONNECTED''"
| "reason_code CONTACT_SUPPRESSED = ''CONTACT_SUPPRESSED''"
| "reason_code CONTACT_CONSENT_REQUIRED = ''CONTACT_CONSENT_REQUIRED''"
| "reason_code CUSTOMER_SERVICE_WINDOW_CLOSED = ''CUSTOMER_SERVICE_WINDOW_CLOSED''"
| "reason_code CONVERSATION_PAUSED = ''CONVERSATION_PAUSED''"
| "reason_code INVALID_OUTBOX_CLAIM = ''INVALID_OUTBOX_CLAIM''"

datatype claim_validation = Eligible outbox_claim | Ineligible ineligibility

text \<open>The message of a thrown error: a service error carries its code.\<close>

definition thrown_message :: "js_error \<Rightarrow> string" where
  "thrown_message e = (case e of PlainError m \<Rightarrow> m | _ \<Rightarrow> (case thrown_code e of None \<Rightarrow> '''' | Some c \<Rightarrow> c))"

definition queued_media_allowed :: "msg_env \<Rightarrow> string \<Rightarrow> string \<Rightarrow> js_error + bool" where
  "queued_media_allowed env org mid = (case me_mediaAuthority env org mid of None \<Rightarrow> Inr True
     | Some e \<Rightarrow> if has_prefix ''AUTOMATION_'' (thrown_message e) then Inr False else Inl e)"

definition connected_instance :: "msg_env \<Rightarrow> channel_row \<Rightarrow> bool" where
  "connected_instance env c \<longleftrightarrow> list_ex (\<lambda>i. in_org i = cn_org c \<and> Some (in_id i) = cn_instance c \<and> in_status i = CONNECTED) (me_instances env)"

definition partner_allowed :: "msg_env \<Rightarrow> channel_row \<Rightarrow> message_row \<Rightarrow> bool" where
  "partner_allowed env c m = (case mg_apiKey m of None \<Rightarrow> True
     | Some k \<Rightarrow> list_ex (\<lambda>r. ky_org r = mg_org m \<and> ky_id r = k \<and> ky_revoked r = None
         \<and> (case ky_expires r of None \<Rightarrow> True | Some e \<Rightarrow> e > me_now env)
         \<and> set (if is_media (mg_content m) then [''messaging:send'', ''media:send''] else [''messaging:send'']) \<subseteq> set (ky_scopes r)
         \<and> (is_media (mg_content m) \<longrightarrow> cn_provider c = Some BAILEYS \<and> cn_transport c = BROKER_TRANSPORT
              \<and> list_ex (\<lambda>i. in_org i = cn_org c \<and> Some (in_id i) = cn_instance c \<and> in_archived i = None) (me_instances env)
              \<and> me_privateOpen env (mg_org m) (mg_channel m))) (me_keys env))"

definition META_DB_PREFIX :: string where "META_DB_PREFIX = ''meta-db:''"

text \<open>Why a leased message may not be sent now, in the order the code asks; \<open>None\<close> where it may.\<close>

definition ineligible_reason ::
  "msg_env \<Rightarrow> int \<Rightarrow> bool \<Rightarrow> msg_state \<Rightarrow> message_row \<Rightarrow> conversation_row \<Rightarrow> contact_row \<Rightarrow> channel_row \<Rightarrow> ineligibility option" where
  "ineligible_reason env at mediaAllowed s m v c ch =
    (if (case mg_campaign m of None \<Rightarrow> False | Some k \<Rightarrow> \<not> me_campaign env (mg_org m) k) then Some CAMPAIGN_AUTHORITY_REVOKED
     else if \<not> partner_allowed env ch m then Some PARTNER_CREDENTIAL_REVOKED
     else if blocking_observation s (mg_org m) (mg_conversation m) then Some QR_OBSERVATION_RECONCILE_REQUIRED
     else if cn_provider ch = Some BAILEYS \<and> \<not> connected_instance env ch then Some QR_CHANNEL_DISCONNECTED
     else if \<not> me_identityReady env (cn_org ch) (cn_id ch) then Some IDENTITY_CONFIRMATION_REQUIRED
     else if has_prefix META_DB_PREFIX (cn_credential ch) \<and> \<not> me_metaReady env ch then Some META_CHANNEL_NOT_READY
     else if ct_suppressed c \<noteq> None then Some CONTACT_SUPPRESSED
     else if unconsented m c then Some CONTACT_CONSENT_REQUIRED
     else if \<not> (cn_provider ch = Some BAILEYS \<or> is_template (mg_content m) \<or> inbound_within_day s at m) then Some CUSTOMER_SERVICE_WINDOW_CLOSED
     else if mg_source m = SRC_AUTOMATION \<and> cv_mode v = HUMAN then Some CONVERSATION_PAUSED
     else if \<not> mediaAllowed \<or> \<not> me_flowAllowed env (mg_org m) (mg_id m) then Some FLOW_REVOKED
     else None)"

definition held_by :: "string \<Rightarrow> string \<Rightarrow> string \<Rightarrow> outbox_row \<Rightarrow> bool" where
  "held_by org mid lease ob \<longleftrightarrow> out_at org mid ob \<and> map_option fst (ob_lease ob) = Some lease"

definition release_lease :: "string \<Rightarrow> string \<Rightarrow> string \<Rightarrow> int option \<Rightarrow> (msg_state, unit) tx" where
  "release_lease org mid lease touched = update_outbox (held_by org mid lease)
     (\<lambda>ob. ob\<lparr>ob_lease := None, ob_updated := (case touched of None \<Rightarrow> ob_updated ob | Some t \<Rightarrow> t)\<rparr>)"

definition ineligible_waits :: "ineligibility \<Rightarrow> bool" where
  "ineligible_waits r \<longleftrightarrow> r = QR_OBSERVATION_RECONCILE_REQUIRED \<or> r = IDENTITY_CONFIRMATION_REQUIRED \<or> r = CONVERSATION_PAUSED \<or> r = QR_CHANNEL_DISCONNECTED"

definition refuse_claim :: "msg_env \<Rightarrow> string \<Rightarrow> string \<Rightarrow> string \<Rightarrow> ineligibility \<Rightarrow> (msg_state, claim_validation) tx" where
  "refuse_claim env org mid lease r =
    tx_bind (if ineligible_waits r then release_lease org mid lease (Some (me_now env))
       else (\<lambda>s. (let marked = list_ex (\<lambda>m. msg_at org mid m \<and> mg_state m = ACCEPTED) (ms_messages s)
         in tx_bind (update_messages env (\<lambda>m. msg_at org mid m \<and> mg_state m = ACCEPTED)
              (\<lambda>m. m\<lparr>mg_state := FAILED, mg_error := Some (reason_code r), mg_updated := me_now env\<rparr>)) (\<lambda>_.
            delete_outbox (\<lambda>ob. marked \<and> held_by org mid lease ob)) s))) (\<lambda>_.
    tx_return (Ineligible r))"

definition begin_sending :: "msg_env \<Rightarrow> string \<Rightarrow> outbox_claim \<Rightarrow> (msg_state, claim_validation) tx" where
  "begin_sending env lease cl =
    (let m = oc_message cl; m' = m\<lparr>mg_state := SENDING, mg_updated := me_now env\<rparr>
     in tx_bind (update_messages env (\<lambda>r. msg_at (mg_org m) (mg_id m) r \<and> mg_state r = ACCEPTED)
          (\<lambda>r. r\<lparr>mg_state := SENDING, mg_updated := me_now env\<rparr>)) (\<lambda>_.
        tx_bind (beginQrDispatchAttempt env m lease) (\<lambda>_.
        tx_return (Eligible (cl\<lparr>oc_message := m'\<rparr>)))))"

definition selected_claim :: "msg_env \<Rightarrow> string \<Rightarrow> string \<Rightarrow> string \<Rightarrow> msg_state
    \<Rightarrow> (outbox_row \<times> message_row \<times> conversation_row \<times> contact_row \<times> channel_row) option" where
  "selected_claim env org mid lease s =
    (case (find_outbox s org mid, find_message s org mid) of
       (Some ob, Some m) \<Rightarrow>
         (if held_by org mid lease ob \<and> \<not> lease_over (me_now env) ob \<and> mg_state m = ACCEPTED
          then (case (parties s m, find_channel s org (mg_channel m)) of
             (Some (v, c), Some ch) \<Rightarrow> if cn_transport ch = BROKER_TRANSPORT then Some (ob, m, v, c, ch) else None
           | _ \<Rightarrow> None) else None)
     | _ \<Rightarrow> None)"

definition validateClaim :: "msg_env \<Rightarrow> string \<Rightarrow> string \<Rightarrow> string \<Rightarrow> int option \<Rightarrow> (msg_state, claim_validation) tx" where
  "validateClaim env org mid lease now s =
    (if \<not> me_active env org
     then tx_bind (release_lease org mid lease None) (\<lambda>_. tx_return (Ineligible ORGANIZATION_NOT_ACTIVE)) s
     else case queued_media_allowed env org mid of Inl e \<Rightarrow> Inl e
     | Inr mediaAllowed \<Rightarrow>
       (case selected_claim env org mid lease s of
          None \<Rightarrow> Inr (Ineligible INVALID_OUTBOX_CLAIM, s)
        | Some (ob, m, v, c, ch) \<Rightarrow>
           (case ineligible_reason env (case now of None \<Rightarrow> me_now env | Some t \<Rightarrow> db_us t) mediaAllowed s m v c ch of
              Some r \<Rightarrow> refuse_claim env org mid lease r s
            | None \<Rightarrow> begin_sending env lease
                \<lparr>oc_message = m, oc_contact = c, oc_channel = ch, oc_lease = lease, oc_attempts = ob_attempts ob\<rparr> s)))"

section \<open>Completion\<close>

definition outcome_state :: "send_outcome \<Rightarrow> message_state" where
  "outcome_state out = (case out of OutSent _ \<Rightarrow> SENT | OutFailed _ _ \<Rightarrow> FAILED | OutUnknown _ \<Rightarrow> UNKNOWN)"

definition outcome_error :: "send_outcome \<Rightarrow> string option" where
  "outcome_error out = (case out of OutSent _ \<Rightarrow> None | OutFailed c _ \<Rightarrow> Some c | OutUnknown c \<Rightarrow> Some c)"

definition outcome_retry :: "send_outcome \<Rightarrow> bool" where
  "outcome_retry out = (case out of OutFailed _ r \<Rightarrow> r | _ \<Rightarrow> False)"

definition or_else :: "'a option \<Rightarrow> 'a option \<Rightarrow> 'a option" where
  "or_else x y = (case x of None \<Rightarrow> y | Some _ \<Rightarrow> x)"

definition answered :: "msg_env \<Rightarrow> send_outcome \<Rightarrow> message_row \<Rightarrow> message_row" where
  "answered env out m = m\<lparr>mg_state := outcome_state out, mg_upstream := or_else (attempt_provider out) (mg_upstream m),
     mg_error := outcome_error out, mg_updated := me_now env\<rparr>"

text \<open>Where the statuses already reported for the identifier the provider gave lead; SENT where none did.\<close>

definition reported_state :: "msg_state \<Rightarrow> send_outcome \<Rightarrow> message_row \<Rightarrow> message_state" where
  "reported_state s out m = (case out of
     OutSent u \<Rightarrow> reconcile_statuses SENT (observed_statuses s (mg_org m) (mg_channel m) (mg_scope m) u)
   | _ \<Rightarrow> outcome_state out)"

definition reconcile_completed :: "msg_env \<Rightarrow> string \<Rightarrow> string \<Rightarrow> send_outcome \<Rightarrow> message_row \<Rightarrow> (msg_state, message_row) tx" where
  "reconcile_completed env org mid out m s =
    (let st = reported_state s out m; done = answered env out m
     in if st = outcome_state out then Inr (done, s)
        else tx_bind (update_messages env (msg_at org mid) (\<lambda>r. r\<lparr>mg_state := st, mg_updated := me_now env\<rparr>)) (\<lambda>_.
             tx_return (done\<lparr>mg_state := st, mg_updated := me_now env\<rparr>)) s)"

definition upstream_taken :: "msg_state \<Rightarrow> message_row \<Rightarrow> send_outcome \<Rightarrow> bool" where
  "upstream_taken s m out = (case out of OutSent u \<Rightarrow> list_ex (\<lambda>r. mg_org r = mg_org m \<and> mg_channel r = mg_channel m
      \<and> mg_scope r = mg_scope m \<and> mg_upstream r = Some u \<and> \<not> msg_at (mg_org m) (mg_id m) r) (ms_messages s) | _ \<Rightarrow> False)"

definition completeSend :: "msg_env \<Rightarrow> string \<Rightarrow> string \<Rightarrow> string \<Rightarrow> send_outcome \<Rightarrow> (msg_state, message_row) tx" where
  "completeSend env org mid lease out s =
    (case (find_message s org mid, find_outbox s org mid) of
       (Some m, Some ob) \<Rightarrow>
         (if \<not> (held_by org mid lease ob \<and> (mg_state m = SENDING \<or> (mg_state m = ACCEPTED \<and> outcome_state out = FAILED)))
          then Inl (MessagingRepositoryError ''INVALID_OUTBOX_CLAIM'' 409)
          else if upstream_taken s m out then Inl (DatabaseError ''23505'' ''messaging_messages_upstream_unique'')
          else
           tx_bind (update_messages env (msg_at org mid) (answered env out)) (\<lambda>_.
           tx_bind (reconcile_completed env org mid out m) (\<lambda>completed.
           tx_bind (completeQrDispatchAttempt env m lease out) (\<lambda>_.
           tx_bind (if outcome_retry out
              then update_outbox (out_at org mid) (\<lambda>ob. ob\<lparr>ob_retrySafe := True, ob_lease := None, ob_updated := me_now env\<rparr>)
              else delete_outbox (out_at org mid)) (\<lambda>_.
           tx_return completed)))) s)
     | _ \<Rightarrow> Inl (MessagingRepositoryError ''INVALID_OUTBOX_CLAIM'' 409))"

section \<open>Retry and statuses\<close>

definition retrySafeFailure :: "msg_env \<Rightarrow> string \<Rightarrow> string \<Rightarrow> int \<Rightarrow> (msg_state, message_row) tx" where
  "retrySafeFailure env org mid notBefore s =
    (case (find_outbox s org mid, find_message s org mid) of
       (Some ob, Some m) \<Rightarrow>
         (if ob_retrySafe ob \<and> mg_state m = FAILED
          then tx_bind (update_outbox (\<lambda>r. out_at org mid r \<and> ob_retrySafe r)
                 (\<lambda>r. r\<lparr>ob_retrySafe := False, ob_available := db_us notBefore, ob_lease := None, ob_updated := me_now env\<rparr>)) (\<lambda>_.
               tx_bind (update_messages env (\<lambda>r. msg_at org mid r \<and> mg_state r = FAILED)
                 (\<lambda>r. r\<lparr>mg_state := ACCEPTED, mg_error := None, mg_updated := me_now env\<rparr>)) (\<lambda>_.
               tx_return (m\<lparr>mg_state := ACCEPTED, mg_error := None, mg_updated := me_now env\<rparr>))) s
          else Inl (MessagingRepositoryError ''INVALID_MESSAGE_TRANSITION'' 409))
     | _ \<Rightarrow> Inl (MessagingRepositoryError ''INVALID_MESSAGE_TRANSITION'' 409))"

definition advanceMessageState ::
  "msg_env \<Rightarrow> string \<Rightarrow> string \<Rightarrow> message_state \<Rightarrow> string option \<Rightarrow> (msg_state, message_row) tx" where
  "advanceMessageState env org mid st err s =
    (case find_message s org mid of
       None \<Rightarrow> Inl (MessagingRepositoryError ''MESSAGE_NOT_FOUND'' 404)
     | Some m \<Rightarrow>
        if \<not> canAdvanceMessageState (mg_state m) st then Inl (MessagingRepositoryError ''INVALID_MESSAGE_TRANSITION'' 409)
        else if mg_state m = st then Inr (m, s)
        else tx_bind (update_messages env (msg_at org mid) (\<lambda>r. r\<lparr>mg_state := st, mg_error := err, mg_updated := me_now env\<rparr>)) (\<lambda>_.
             tx_return (m\<lparr>mg_state := st, mg_error := err, mg_updated := me_now env\<rparr>)) s)"

text \<open>The provider scope of a status event takes its default, the empty scope.\<close>

record status_input =
  si_org :: string
  si_channel :: string
  si_upstream :: string
  si_state :: message_state
  si_error :: "string option"
  si_occurred :: "int option"

definition status_at :: "status_input \<Rightarrow> status_event \<Rightarrow> bool" where
  "status_at i e \<longleftrightarrow> se_org e = si_org i \<and> se_channel e = si_channel i \<and> se_scope e = '''' \<and> se_upstream e = si_upstream i
     \<and> se_state e = si_state i"

definition log_status :: "msg_env \<Rightarrow> status_input \<Rightarrow> msg_state \<Rightarrow> msg_state" where
  "log_status env i s = (if list_ex (status_at i) (ms_statuses s) then s
     else s\<lparr>ms_statuses := ms_statuses s @ [\<lparr>se_id = me_fresh env (length (ms_statuses s)), se_org = si_org i, se_channel = si_channel i,
       se_scope = '''', se_upstream = si_upstream i, se_state = si_state i, se_error = si_error i,
       se_occurred = (case si_occurred i of None \<Rightarrow> me_now env | Some t \<Rightarrow> db_us t)\<rparr>]\<rparr>)"

definition reported_message :: "status_input \<Rightarrow> msg_state \<Rightarrow> message_row option" where
  "reported_message i s = find (\<lambda>m. mg_org m = si_org i \<and> mg_channel m = si_channel i \<and> mg_scope m = ''''
     \<and> mg_upstream m = Some (si_upstream i)) (ms_messages s)"

definition recordStatusEvent :: "msg_env \<Rightarrow> status_input \<Rightarrow> (msg_state, bool \<times> message_row option) tx" where
  "recordStatusEvent env i s =
    (let recorded = (\<not> list_ex (status_at i) (ms_statuses s)); s1 = log_status env i s
     in case reported_message i s1 of
          None \<Rightarrow> Inr ((recorded, None), s1)
        | Some m \<Rightarrow>
           if \<not> canAdvanceMessageState (mg_state m) (si_state i) \<or> mg_state m = si_state i then Inr ((recorded, Some m), s1)
           else tx_bind (update_messages env (\<lambda>r. msg_at (si_org i) (mg_id m) r \<and> mg_channel r = si_channel i)
                  (\<lambda>r. r\<lparr>mg_state := si_state i, mg_error := si_error i, mg_updated := me_now env\<rparr>)) (\<lambda>_.
                tx_return (recorded, Some (m\<lparr>mg_state := si_state i, mg_error := si_error i, mg_updated := me_now env\<rparr>))) s1)"

lemma log_status_same [simp]: "ms_messages (log_status env i s) = ms_messages s" "ms_outbox (log_status env i s) = ms_outbox s"
  by (simp_all add: log_status_def)

end
