(* ===== verification/Dispatcher.thy ===== *)
theory Dispatcher
  imports Outbox_Send Effects Js_Text
begin

text \<open>
  The dispatcher of apps/api/src/modules/messaging/dispatcher.ts: what a template may contain, how
  a provider's error is classified, and the order in which a claimed message is prepared, validated,
  sent and completed. The provider client and the transactions behind the ports are parameters.
\<close>

section \<open>Templates\<close>

record template =
  te_name :: string
  te_language :: string
  te_status :: string
  te_components :: "json list"

text \<open>The parameters of the body; with none the input has no components.\<close>

record template_input =
  ti_name :: string
  ti_language :: string
  ti_parameters :: "string list"

datatype positions = Positions "int list" | P_UNSUPPORTED | P_MISMATCH

datatype components_check = VariableCount nat | VARIABLE_MISMATCH | UNSUPPORTED

definition MAX_TEMPLATE_VARIABLES :: nat where "MAX_TEMPLATE_VARIABLES = 100"

text \<open>The markers of a text from left to right, and the text without them.\<close>

function scan_markers :: "string \<Rightarrow> string list \<times> string" where
  "scan_markers [] = ([], [])"
| "scan_markers (c # cs) = (case match_marker (c # cs) of
     Some (b, rest) \<Rightarrow> (case scan_markers rest of (bs, out) \<Rightarrow> (b # bs, out))
   | None \<Rightarrow> (case scan_markers cs of (bs, out) \<Rightarrow> (bs, c # out)))"
  by pat_completeness auto
termination by (relation "measure length") (auto dest: match_marker_shorter)

fun has_variable :: "string \<Rightarrow> bool" where
  "has_variable [] = False"
| "has_variable (c # cs) = ((case match_marker (c # cs) of Some (b, _) \<Rightarrow> b \<noteq> [] | None \<Rightarrow> False) \<or> has_variable cs)"

fun includesTemplateVariable :: "json \<Rightarrow> bool" where
  "includesTemplateVariable (JStr t) = has_variable t"
| "includesTemplateVariable (JArr xs) = (\<exists>x \<in> set xs. includesTemplateVariable x)"
| "includesTemplateVariable (JObj kvs) = (\<exists>kv \<in> set kvs. includesTemplateVariable (snd kv))"
| "includesTemplateVariable JNull = False"
| "includesTemplateVariable (JBool b) = False"
| "includesTemplateVariable (JNum n) = False"

fun read_digits :: "int \<Rightarrow> string \<Rightarrow> int" where
  "read_digits n [] = n"
| "read_digits n (c # cs) = read_digits (10 * n + (of_char c - 48)) cs"

definition MAX_SAFE_POSITION :: int where "MAX_SAFE_POSITION = 9007199254740991"

text \<open>A position: digits, the first not zero, with white space around them.\<close>

definition position_text :: "string \<Rightarrow> bool" where
  "position_text t = (case js_trim t of [] \<Rightarrow> False | c # cs \<Rightarrow> digit_char c \<and> c \<noteq> CHR ''0'' \<and> list_all digit_char cs)"

fun read_positions :: "string list \<Rightarrow> positions" where
  "read_positions [] = Positions []"
| "read_positions (b # bs) = (if \<not> position_text b then P_UNSUPPORTED
     else let n = read_digits 0 (js_trim b)
          in if n > MAX_SAFE_POSITION \<or> n \<le> 0 then P_MISMATCH
             else case read_positions bs of Positions ns \<Rightarrow> Positions (n # ns) | e \<Rightarrow> e)"

fun numbered_from :: "int \<Rightarrow> int list \<Rightarrow> bool" where
  "numbered_from k [] = True"
| "numbered_from k (n # ns) = (n = k \<and> numbered_from (k + 1) ns)"

definition readBodyPositions :: "string \<Rightarrow> positions" where
  "readBodyPositions t = (case scan_markers t of (markers, out) \<Rightarrow>
     if occurs_in ''{{'' out \<or> occurs_in ''}}'' out then P_UNSUPPORTED
     else case read_positions markers of
       Positions ns \<Rightarrow> (let ordered = sort (remdups ns)
         in if \<not> numbered_from 1 ordered then P_MISMATCH
            else if length ordered > MAX_TEMPLATE_VARIABLES then P_MISMATCH else Positions ordered)
     | e \<Rightarrow> e)"

definition to_upper :: "char \<Rightarrow> char" where
  "to_upper c = (if lower_char c then char_of ((of_char c :: nat) - 32) else c)"

fun inspect_from :: "nat option \<Rightarrow> json list \<Rightarrow> components_check" where
  "inspect_from body [] = (case body of None \<Rightarrow> UNSUPPORTED | Some n \<Rightarrow> VariableCount n)"
| "inspect_from body (c # cs) = (case (c, json_field c ''type'') of
     (JObj _, Some (JStr ty)) \<Rightarrow>
       (let type = map to_upper ty
        in if type = ''BODY'' then
             (case (body, json_field c ''text'') of
                (None, Some (JStr t)) \<Rightarrow> (case readBodyPositions t of
                    P_UNSUPPORTED \<Rightarrow> UNSUPPORTED | P_MISMATCH \<Rightarrow> VARIABLE_MISMATCH
                  | Positions ns \<Rightarrow> inspect_from (Some (length ns)) cs)
              | _ \<Rightarrow> UNSUPPORTED)
           else if type = ''HEADER'' then
             (if json_field c ''format'' \<noteq> Some (JStr ''TEXT'') \<or> includesTemplateVariable c then UNSUPPORTED else inspect_from body cs)
           else if type = ''FOOTER'' \<or> type = ''BUTTONS'' then
             (if includesTemplateVariable c then UNSUPPORTED else inspect_from body cs)
           else UNSUPPORTED)
   | _ \<Rightarrow> UNSUPPORTED)"

definition inspectTemplateComponents :: "template \<Rightarrow> components_check" where
  "inspectTemplateComponents t = inspect_from None (te_components t)"

definition preflightTemplate :: "string \<Rightarrow> string \<Rightarrow> string list \<Rightarrow> template list \<Rightarrow> string + template_input" where
  "preflightTemplate name language variables templates =
    (case filter (\<lambda>t. te_name t = name \<and> te_language t = language) templates of
       [t] \<Rightarrow> if te_status t \<noteq> ''APPROVED'' then Inl ''META_TEMPLATE_NOT_APPROVED''
         else (case inspectTemplateComponents t of
           UNSUPPORTED \<Rightarrow> Inl ''META_TEMPLATE_UNSUPPORTED_COMPONENTS''
         | VARIABLE_MISMATCH \<Rightarrow> Inl ''META_TEMPLATE_VARIABLE_MISMATCH''
         | VariableCount n \<Rightarrow> if length variables \<noteq> n then Inl ''META_TEMPLATE_VARIABLE_MISMATCH''
             else Inr \<lparr>ti_name = name, ti_language = language, ti_parameters = variables\<rparr>)
     | _ \<Rightarrow> Inl ''META_TEMPLATE_NOT_APPROVED'')"

section \<open>Classifying an error\<close>

text \<open>The flag of a provider error is false; other errors have no such flag.\<close>

definition certain_error :: "js_error \<Rightarrow> bool" where
  "certain_error e = (case e of ProviderError _ u \<Rightarrow> \<not> u | _ \<Rightarrow> False)"

definition ENGINE_PREFIX :: string where "ENGINE_PREFIX = ''EVOLUTION_ENGINE_''"

definition REJECTED_CODES :: "string list" where
  "REJECTED_CODES = [''META_REQUEST_REJECTED'', ''INVALID_META_INPUT'', ''QR_REQUEST_REJECTED'', ''INVALID_QR_INPUT'']"

definition providerOutcome :: "js_error \<Rightarrow> bool \<Rightarrow> send_outcome" where
  "providerOutcome e qr =
    (let unknown = OutUnknown (if qr then ''QR_SEND_UNKNOWN'' else ''META_SEND_UNKNOWN'')
     in case thrown_code e of None \<Rightarrow> unknown
     | Some code \<Rightarrow>
        if qr \<and> certain_error e \<and> has_prefix ENGINE_PREFIX code then OutFailed code (code = ''EVOLUTION_ENGINE_RETRY_LATER'')
        else if code = ''QR_RATE_LIMITED'' then OutFailed code True
        else if code \<in> set REJECTED_CODES then OutFailed code False else unknown)"

section \<open>Dispatching\<close>

record 'w send_client =
  cl_sendText :: "string \<Rightarrow> string \<Rightarrow> ('w, string) io"
  cl_sendTemplate :: "string \<Rightarrow> template_input \<Rightarrow> ('w, string) io"
  cl_listTemplates :: "('w, template list) io"

record 'w dispatch_ports =
  dp_validate :: "outbox_claim \<Rightarrow> ('w, bool) io"
  dp_resolve :: "outbox_claim \<Rightarrow> ('w, 'w send_client) io"
  dp_prepare :: "(outbox_claim \<Rightarrow> ('w, ('w, string) io) io) option"
  dp_complete :: "outbox_claim \<Rightarrow> send_outcome \<Rightarrow> ('w, unit) io"

definition resolve_failure :: "bool \<Rightarrow> js_error \<Rightarrow> send_outcome" where
  "resolve_failure qr e = (let disconnected = qr \<and> thrown_code e = Some ''QR_CHANNEL_DISCONNECTED''
     in OutFailed (if disconnected then ''QR_CHANNEL_DISCONNECTED'' else if qr then ''QR_CHANNEL_UNAVAILABLE''
          else ''META_CREDENTIAL_UNAVAILABLE'') disconnected)"

definition media_failure :: "js_error \<Rightarrow> send_outcome" where
  "media_failure e = (case e of MediaError c r \<Rightarrow> OutFailed c r | _ \<Rightarrow> OutFailed ''MEDIA_PREPARATION_FAILED'' True)"

definition prepare_media :: "'w dispatch_ports \<Rightarrow> outbox_claim \<Rightarrow> ('w, ('w, string) io) io" where
  "prepare_media p cl = (case dp_prepare p of None \<Rightarrow> io_throw (MediaError ''MEDIA_NOT_CONFIGURED'' False) | Some f \<Rightarrow> f cl)"

text \<open>The validated send and the record of its outcome; nothing is recorded when the claim is not valid.\<close>

definition send_validated :: "'w dispatch_ports \<Rightarrow> outbox_claim \<Rightarrow> bool \<Rightarrow> ('w, string) io \<Rightarrow> ('w, unit) io" where
  "send_validated p cl qr send =
    io_bind (dp_validate p cl) (\<lambda>ok.
    if \<not> ok then io_return ()
    else io_bind (io_try send) (\<lambda>r.
      dp_complete p cl (case r of Inl e \<Rightarrow> providerOutcome e qr | Inr u \<Rightarrow> OutSent u)))"

definition dispatchClaim :: "outbox_claim \<Rightarrow> 'w dispatch_ports \<Rightarrow> ('w, unit) io" where
  "dispatchClaim cl p =
    (let qr = (cn_provider (oc_channel cl) = Some BAILEYS); content = mg_content (oc_message cl); recipient = ct_external (oc_contact cl)
     in if qr \<and> is_template content then dp_complete p cl (OutFailed ''CHANNEL_CAPABILITY_UNSUPPORTED'' False)
        else io_bind (io_try (dp_resolve p cl)) (\<lambda>rc. case rc of
          Inl e \<Rightarrow> dp_complete p cl (resolve_failure qr e)
        | Inr client \<Rightarrow> (case content of
            MEDIA _ _ _ _ \<Rightarrow> io_bind (io_try (prepare_media p cl)) (\<lambda>rm. case rm of
                Inl e \<Rightarrow> dp_complete p cl (media_failure e)
              | Inr send \<Rightarrow> send_validated p cl qr send)
          | TEMPLATE name language variables \<Rightarrow> io_bind (io_try (cl_listTemplates client)) (\<lambda>rt. case rt of
                Inl _ \<Rightarrow> dp_complete p cl (OutFailed ''META_TEMPLATE_LOOKUP_FAILED'' True)
              | Inr templates \<Rightarrow> (case preflightTemplate name language variables templates of
                  Inl code \<Rightarrow> dp_complete p cl (OutFailed code False)
                | Inr input \<Rightarrow> send_validated p cl qr (cl_sendTemplate client recipient input)))
          | TEXT t \<Rightarrow> send_validated p cl qr (cl_sendText client recipient t))))"

end
