(* ===== verification/Inbox.thy ===== *)
theory Inbox
  imports Outbox_Send
begin

text \<open>
  The incoming side of messaging/repository.ts: a message of a contact is recorded once per
  webhook event, schedules a job for the conversation's bot, and a worker claims, completes or
  fails that job.
\<close>

definition AUTOMATION_ORIGIN :: string where "AUTOMATION_ORIGIN = ''jrc-automation-v2''"

section \<open>Recording a message\<close>

record incoming_input =
  ic_id :: string
  ic_org :: string
  ic_channel :: string
  ic_conversation :: string
  ic_event :: string
  ic_upstream :: string
  ic_content :: message_content
  ic_occurred :: "int option"
  ic_schedule :: bool
  ic_historical :: bool

datatype incoming_kind = Recorded | Duplicate

definition event_at :: "incoming_input \<Rightarrow> inbox_event \<Rightarrow> bool" where
  "event_at i e \<longleftrightarrow> ie_org e = ic_org i \<and> ie_channel e = ic_channel i \<and> ie_key e = ic_event i"

definition incoming_row :: "msg_env \<Rightarrow> incoming_input \<Rightarrow> message_row" where
  "incoming_row env i = (let t = (case ic_occurred i of None \<Rightarrow> me_now env | Some d \<Rightarrow> db_us d) in
     \<lparr>mg_id = ic_id i, mg_org = ic_org i, mg_channel = ic_channel i, mg_conversation = ic_conversation i,
      mg_direction = INCOMING, mg_source = SRC_CONTACT, mg_scope = '''', mg_upstream = Some (ic_upstream i),
      mg_content = ic_content i, mg_state = DELIVERED, mg_error = None, mg_key = None, mg_optIn = False, mg_apiKey = None,
      mg_campaign = None, mg_seq = 0, mg_created = t, mg_updated = t, mg_historical = ic_historical i\<rparr>)"

definition stored_incoming :: "msg_env \<Rightarrow> incoming_input \<Rightarrow> msg_state \<Rightarrow> message_row option" where
  "stored_incoming env i s = find (\<lambda>m. mg_org m = ic_org i \<and> mg_channel m = ic_channel i \<and> mg_upstream m = Some (ic_upstream i)
     \<and> mg_scope m = me_scope env (ic_org i) (ic_conversation i)) (ms_messages s)"

text \<open>Whether the message's conversation has a bot that takes it.\<close>

definition bot_takes :: "msg_state \<Rightarrow> bool \<Rightarrow> message_row \<Rightarrow> bool" where
  "bot_takes s schedule m \<longleftrightarrow> (case find_conversation s (mg_org m) (mg_conversation m) of None \<Rightarrow> False
     | Some v \<Rightarrow> cv_mode v = BOT \<and> cv_botPublicId v \<noteq> None \<and> cv_botOrigin v \<noteq> None
         \<and> (is_text (mg_content m) \<or> (is_media (mg_content m) \<and> cv_botOrigin v = Some AUTOMATION_ORIGIN))
         \<and> schedule \<and> channel_is s m (\<lambda>c. cn_transport c = BROKER_TRANSPORT))"

definition job_at :: "string \<Rightarrow> string \<Rightarrow> bot_job \<Rightarrow> bool" where
  "job_at org mid j \<longleftrightarrow> bj_org j = org \<and> bj_message j = mid"

definition schedule_bot :: "bool \<Rightarrow> message_row \<Rightarrow> (msg_state, bool) tx" where
  "schedule_bot schedule m s =
    (if bot_takes s schedule m \<and> \<not> list_ex (job_at (mg_org m) (mg_id m)) (ms_jobs s)
     then Inr (True, s\<lparr>ms_jobs := ms_jobs s @ [\<lparr>bj_org = mg_org m, bj_message = mg_id m, bj_conversation = mg_conversation m,
            bj_status = JOB_PENDING, bj_lease = None, bj_error = None\<rparr>]\<rparr>)
     else Inr (False, s))"

definition recordIncoming :: "msg_env \<Rightarrow> incoming_input \<Rightarrow> (msg_state, incoming_kind \<times> message_row \<times> bool) tx" where
  "recordIncoming env i s =
    (case find (event_at i) (ms_inbox s) of
       Some e \<Rightarrow>
         (case Option.bind (ie_message e) (find_message s (ic_org i)) of
            None \<Rightarrow> Inl (MessagingRepositoryError ''MESSAGE_NOT_FOUND'' 404)
          | Some m \<Rightarrow> if mg_channel m \<noteq> ie_channel e then Inl (MessagingRepositoryError ''MESSAGE_NOT_FOUND'' 404)
              else Inr ((Duplicate, m, list_ex (job_at (ic_org i) (mg_id m)) (ms_jobs s)), s))
     | None \<Rightarrow>
         tx_bind (case stored_incoming env i s of
             Some m \<Rightarrow> tx_return (Duplicate, m)
           | None \<Rightarrow> tx_bind (insert_message env (incoming_row env i)) (\<lambda>m. tx_return (Recorded, m))) (\<lambda>(kind, m).
         tx_bind (tx_modify (\<lambda>s. s\<lparr>ms_inbox := ms_inbox s @ [\<lparr>ie_org = ic_org i, ie_channel = ic_channel i, ie_key = ic_event i,
             ie_message = Some (mg_id m)\<rparr>]\<rparr>)) (\<lambda>_.
         tx_bind (schedule_bot (ic_schedule i) m) (\<lambda>scheduled.
         tx_return (kind, m, scheduled)))) s)"

section \<open>Bot turns\<close>

record bot_claim =
  bc_message :: message_row
  bc_conversation :: conversation_row
  bc_contact :: contact_row
  bc_channel :: channel_row
  bc_lease :: string

definition update_jobs :: "(bot_job \<Rightarrow> bool) \<Rightarrow> (bot_job \<Rightarrow> bot_job) \<Rightarrow> (msg_state, unit) tx" where
  "update_jobs p f = tx_modify (\<lambda>s. s\<lparr>ms_jobs := update_rows p f (ms_jobs s)\<rparr>)"

definition job_lease_over :: "int \<Rightarrow> bot_job \<Rightarrow> bool" where
  "job_lease_over now j \<longleftrightarrow> (case bj_lease j of None \<Rightarrow> False | Some (_, e) \<Rightarrow> e \<le> now)"

definition job_mode :: "msg_state \<Rightarrow> bot_job \<Rightarrow> conversation_mode option" where
  "job_mode s j = map_option cv_mode (find_conversation s (bj_org j) (bj_conversation j))"

definition job_failure :: "msg_state \<Rightarrow> int \<Rightarrow> bot_job \<Rightarrow> string option" where
  "job_failure s now j = (case find_message s (bj_org j) (bj_message j) of None \<Rightarrow> None
     | Some m \<Rightarrow> (if mg_conversation m \<noteq> bj_conversation j then None else case parties s m of None \<Rightarrow> None
         | Some (v, c) \<Rightarrow> if ct_suppressed c \<noteq> None then Some ''CONTACT_SUPPRESSED''
             else if ct_consent c = OPTED_OUT then Some ''CONTACT_OPTED_OUT''
             else if mg_created m > now \<or> (mg_created m \<le> now - DAY_US \<and> channel_is s m (\<lambda>c. cn_provider c = Some META))
             then Some ''CUSTOMER_SERVICE_WINDOW_CLOSED'' else None))"

text \<open>\<open>features\<close> tells whether the organization's flow feature is enabled.\<close>

definition turn_ready :: "(string \<Rightarrow> bool) \<Rightarrow> bool \<Rightarrow> string \<Rightarrow> int \<Rightarrow> msg_state \<Rightarrow> bot_job \<Rightarrow> message_row \<Rightarrow> bool" where
  "turn_ready features runtime org now s j m \<longleftrightarrow>
     bj_org j = org \<and> bj_status j = JOB_PENDING \<and> msg_at (bj_org j) (bj_message j) m \<and> mg_created m \<le> now
   \<and> \<not> blocking_observation s (bj_org j) (bj_conversation j)
   \<and> (case find_conversation s (bj_org j) (bj_conversation j) of None \<Rightarrow> False
        | Some v \<Rightarrow> cv_botOrigin v \<noteq> Some AUTOMATION_ORIGIN \<or> (runtime \<and> features (bj_org j)))
   \<and> (mg_created m > now - DAY_US \<or> channel_is s m (\<lambda>c. cn_provider c = Some BAILEYS))
   \<and> \<not> list_ex (\<lambda>b. bj_org b = bj_org j \<and> bj_conversation b = bj_conversation j \<and> bj_status b \<in> {JOB_RUNNING, JOB_UNKNOWN}) (ms_jobs s)
   \<and> \<not> list_ex (\<lambda>e. bj_org e = bj_org j \<and> bj_conversation e = bj_conversation j \<and> bj_status e = JOB_PENDING
        \<and> list_ex (\<lambda>q. msg_at (bj_org e) (bj_message e) q \<and> mg_seq q < mg_seq m) (ms_messages s)) (ms_jobs s)"

definition next_turn :: "(string \<Rightarrow> bool) \<Rightarrow> bool \<Rightarrow> string \<Rightarrow> int \<Rightarrow> msg_state \<Rightarrow> (bot_job \<times> message_row) option" where
  "next_turn features runtime org now s = (case sort_key (\<lambda>(j, m). mg_seq m)
     (filter (\<lambda>(j, m). turn_ready features runtime org now s j m) (List.product (ms_jobs s) (ms_messages s))) of
     [] \<Rightarrow> None | x # _ \<Rightarrow> Some x)"

definition expire_turns :: "string \<Rightarrow> int \<Rightarrow> (msg_state, unit) tx" where
  "expire_turns org now = update_jobs (\<lambda>j. bj_org j = org \<and> bj_status j = JOB_RUNNING \<and> job_lease_over now j)
     (\<lambda>j. j\<lparr>bj_status := JOB_UNKNOWN, bj_lease := None, bj_error := Some ''BOT_LEASE_EXPIRED''\<rparr>)"

definition pause_turns :: "string \<Rightarrow> (msg_state, unit) tx" where
  "pause_turns org s = update_jobs (\<lambda>j. bj_org j = org \<and> bj_status j = JOB_PENDING \<and> job_mode s j = Some HUMAN)
     (\<lambda>j. j\<lparr>bj_status := JOB_PAUSED\<rparr>) s"

definition fail_turns :: "string \<Rightarrow> int \<Rightarrow> (msg_state, unit) tx" where
  "fail_turns org now s = update_jobs (\<lambda>j. bj_org j = org \<and> bj_status j = JOB_PENDING \<and> job_failure s now j \<noteq> None)
     (\<lambda>j. j\<lparr>bj_status := JOB_FAILED, bj_lease := None, bj_error := job_failure s now j\<rparr>) s"

definition lease_turn ::
  "(string \<Rightarrow> bool) \<Rightarrow> bool \<Rightarrow> string \<Rightarrow> string \<Rightarrow> int \<Rightarrow> int \<Rightarrow> (msg_state, bot_claim option) tx" where
  "lease_turn features runtime org worker now leaseMs s =
    (case next_turn features runtime org now s of
       None \<Rightarrow> Inr (None, s)
     | Some (j, m) \<Rightarrow>
        tx_bind (update_jobs (job_at (bj_org j) (bj_message j))
          (\<lambda>r. r\<lparr>bj_status := JOB_RUNNING, bj_lease := Some (worker, now + leaseMs * 1000)\<rparr>)) (\<lambda>_.
        tx_return (case (find_conversation s (bj_org j) (bj_conversation j)) of None \<Rightarrow> None | Some v \<Rightarrow>
          (case (find_contact s (cv_org v) (cv_contact v), find_channel s (cv_org v) (cv_channel v)) of
             (Some c, Some ch) \<Rightarrow> Some \<lparr>bc_message = m, bc_conversation = v, bc_contact = c, bc_channel = ch, bc_lease = worker\<rparr>
           | _ \<Rightarrow> None))) s)"

definition claimBotTurn ::
  "msg_env \<Rightarrow> (string \<Rightarrow> bool) \<Rightarrow> bool \<Rightarrow> string \<Rightarrow> string \<Rightarrow> int \<Rightarrow> int \<Rightarrow> (msg_state, bot_claim option) tx" where
  "claimBotTurn env features runtime org worker nowMs leaseMs s =
    (if \<not> me_active env org then Inr (None, s)
     else (let now = db_us nowMs
       in tx_bind (expire_turns org now) (\<lambda>_.
          tx_bind (pause_turns org) (\<lambda>_.
          tx_bind (fail_turns org now) (\<lambda>_.
          lease_turn features runtime org worker now leaseMs))) s))"

definition runs_under :: "string \<Rightarrow> string \<Rightarrow> string \<Rightarrow> bot_job \<Rightarrow> bool" where
  "runs_under org mid lease j \<longleftrightarrow> job_at org mid j \<and> bj_status j = JOB_RUNNING \<and> map_option fst (bj_lease j) = Some lease"

definition end_turn :: "string \<Rightarrow> string \<Rightarrow> string \<Rightarrow> job_status \<Rightarrow> string option \<Rightarrow> (msg_state, unit) tx" where
  "end_turn org mid lease st err = update_jobs (runs_under org mid lease)
     (\<lambda>j. j\<lparr>bj_status := st, bj_lease := None, bj_error := err\<rparr>)"

text \<open>The identifier, the key and the digest of the \<open>n\<close>th reply to a message; \<open>sha\<close> is the SHA-256 of the text in hexadecimal.\<close>

definition reply_row :: "msg_env \<Rightarrow> (string \<Rightarrow> string) \<Rightarrow> conversation_row \<Rightarrow> string \<Rightarrow> nat \<Rightarrow> string \<Rightarrow> nat \<Rightarrow> message_row" where
  "reply_row env sha v mid n text k =
     \<lparr>mg_id = me_fresh env k, mg_org = cv_org v, mg_channel = cv_channel v, mg_conversation = cv_id v, mg_direction = OUTGOING,
      mg_source = SRC_AUTOMATION, mg_scope = '''', mg_upstream = None, mg_content = TEXT text, mg_state = ACCEPTED, mg_error = None,
      mg_key = Some (''bot:'' @ mid @ '':'' @ show_nat n, sha text), mg_optIn = False, mg_apiKey = None, mg_campaign = None,
      mg_seq = 0, mg_created = me_now env, mg_updated = me_now env, mg_historical = False\<rparr>"

definition queue_reply :: "msg_env \<Rightarrow> (string \<Rightarrow> string) \<Rightarrow> conversation_row \<Rightarrow> string \<Rightarrow> nat \<times> string \<Rightarrow> (msg_state, message_row option) tx" where
  "queue_reply env sha v mid nt s =
    (let row = reply_row env sha v mid (fst nt) (snd nt) (ms_seq s)
     in if list_ex (\<lambda>m. mg_org m = mg_org row \<and> mg_channel m = mg_channel row \<and> map_option fst (mg_key m) = map_option fst (mg_key row)) (ms_messages s)
        then Inr (None, s)
        else tx_bind (queue_message env row) (\<lambda>m. tx_return (Some m)) s)"

fun queue_replies :: "msg_env \<Rightarrow> (string \<Rightarrow> string) \<Rightarrow> conversation_row \<Rightarrow> string \<Rightarrow> (nat \<times> string) list \<Rightarrow> (msg_state, message_row list) tx" where
  "queue_replies env sha v mid [] = tx_return []"
| "queue_replies env sha v mid (nt # nts) =
    tx_bind (queue_reply env sha v mid nt) (\<lambda>r.
    tx_bind (queue_replies env sha v mid nts) (\<lambda>rs.
    tx_return (case r of None \<Rightarrow> rs | Some m \<Rightarrow> m # rs)))"

text \<open>PostgreSQL's btrim removes spaces only; a text of spaces is not a reply.\<close>

definition reply_texts :: "string list \<Rightarrow> (nat \<times> string) list" where
  "reply_texts texts = filter (\<lambda>(n, t). dropWhile (\<lambda>c. c = CHR '' '') t \<noteq> '''') (zip [1..<length texts + 1] texts)"

datatype turn_completion = TurnCompleted "message_row list" | TurnPaused

definition turn_failure :: "int \<Rightarrow> msg_state \<Rightarrow> message_row \<Rightarrow> contact_row \<Rightarrow> string option" where
  "turn_failure nowMs s m c = (if ct_suppressed c \<noteq> None then Some ''CONTACT_SUPPRESSED''
     else if ct_consent c = OPTED_OUT then Some ''CONTACT_OPTED_OUT''
     else if \<not> channel_is s m (\<lambda>ch. cn_provider ch = Some BAILEYS) \<and> \<not> isCustomerServiceWindowOpen (Some (js_ms (mg_created m))) nowMs
     then Some ''CUSTOMER_SERVICE_WINDOW_CLOSED'' else None)"

definition completeBotTurn ::
  "msg_env \<Rightarrow> (string \<Rightarrow> string) \<Rightarrow> string \<Rightarrow> string \<Rightarrow> string \<Rightarrow> string \<Rightarrow> string list \<Rightarrow> int \<Rightarrow> (msg_state, turn_completion) tx" where
  "completeBotTurn env sha org mid lease session texts nowMs s =
    (case (find (runs_under org mid lease) (ms_jobs s), find_message s org mid) of
       (Some j, Some m) \<Rightarrow>
         (case find_conversation s org (bj_conversation j) of None \<Rightarrow> Inl (MessagingRepositoryError ''INVALID_OUTBOX_CLAIM'' 409)
          | Some v \<Rightarrow> (case find_contact s org (cv_contact v) of None \<Rightarrow> Inl (MessagingRepositoryError ''INVALID_OUTBOX_CLAIM'' 409)
          | Some c \<Rightarrow>
             if blocking_observation s org (mg_conversation m)
             then tx_bind (end_turn org mid lease JOB_PENDING (Some ''QR_OBSERVATION_RECONCILE_REQUIRED'')) (\<lambda>_. tx_return TurnPaused) s
             else if cv_mode v = HUMAN
             then tx_bind (end_turn org mid lease JOB_PAUSED (Some ''CONVERSATION_PAUSED'')) (\<lambda>_. tx_return TurnPaused) s
             else (case turn_failure nowMs s m c of
               Some code \<Rightarrow> tx_bind (end_turn org mid lease JOB_FAILED (Some code)) (\<lambda>_. tx_return TurnPaused) s
             | None \<Rightarrow>
                tx_bind (tx_modify (\<lambda>s. s\<lparr>ms_conversations := update_rows (\<lambda>r. cv_org r = org \<and> cv_id r = cv_id v)
                   (\<lambda>r. r\<lparr>cv_session := Some session, cv_updated := me_now env\<rparr>) (ms_conversations s)\<rparr>)) (\<lambda>_.
                tx_bind (queue_replies env sha v mid (reply_texts texts)) (\<lambda>ms.
                tx_bind (end_turn org mid lease JOB_COMPLETED None) (\<lambda>_.
                tx_return (TurnCompleted ms)))) s)))
     | _ \<Rightarrow> Inl (MessagingRepositoryError ''INVALID_OUTBOX_CLAIM'' 409))"

definition failBotTurn :: "string \<Rightarrow> string \<Rightarrow> string \<Rightarrow> string \<Rightarrow> bool \<Rightarrow> (msg_state, job_status) tx" where
  "failBotTurn org mid lease code uncertain s =
    (let st = (if uncertain then JOB_UNKNOWN else JOB_FAILED)
     in if \<not> list_ex (runs_under org mid lease) (ms_jobs s) then Inl (MessagingRepositoryError ''INVALID_OUTBOX_CLAIM'' 409)
        else tx_bind (end_turn org mid lease st (Some code)) (\<lambda>_. tx_return st) s)"

end
