(* ===== verification/Outbox_Frames.thy ===== *)
theory Outbox_Frames
  imports Inbox
begin

text \<open>
  What every statement of the messaging module keeps: the outbox refers to messages, one row each,
  a row marked safe to retry is not that of a message waiting to be sent, and a message that is
  spent (it is no longer waiting and nothing marks it for a retry) stays spent_message. The two operations
  that retry a message, and the completion that marks one for a retry, are treated apart.
\<close>

section \<open>The invariant and the relation\<close>

definition out_key :: "outbox_row \<Rightarrow> string \<times> string" where
  "out_key ob = (ob_org ob, ob_message ob)"

definition msg_key :: "message_row \<Rightarrow> string \<times> string" where
  "msg_key m = (mg_org m, mg_id m)"

lemma out_at_key: "out_at org mid ob \<longleftrightarrow> out_key ob = (org, mid)"
  by (auto simp: out_at_def out_key_def)

lemma msg_at_key: "msg_at org mid m \<longleftrightarrow> msg_key m = (org, mid)"
  by (auto simp: msg_at_def msg_key_def)

definition outbox_ok :: "msg_state \<Rightarrow> bool" where
  "outbox_ok s \<longleftrightarrow> distinct (map out_key (ms_outbox s)) \<and> out_key ` set (ms_outbox s) \<subseteq> msg_key ` set (ms_messages s)
     \<and> (\<forall>ob \<in> set (ms_outbox s). ob_retrySafe ob \<longrightarrow> (\<forall>m \<in> set (ms_messages s). msg_key m = out_key ob \<longrightarrow> mg_state m \<noteq> ACCEPTED))"

definition idle :: "string \<times> string \<Rightarrow> msg_state \<Rightarrow> bool" where
  "idle k s \<longleftrightarrow> k \<in> msg_key ` set (ms_messages s) \<and> (\<forall>m \<in> set (ms_messages s). msg_key m = k \<longrightarrow> mg_state m \<noteq> ACCEPTED)"

definition spent_message :: "string \<times> string \<Rightarrow> msg_state \<Rightarrow> bool" where
  "spent_message k s \<longleftrightarrow> idle k s \<and> (\<forall>ob \<in> set (ms_outbox s). out_key ob = k \<longrightarrow> \<not> ob_retrySafe ob)"

definition keeps_spent :: "msg_state \<Rightarrow> msg_state \<Rightarrow> bool" where
  "keeps_spent s s' \<longleftrightarrow> (outbox_ok s \<longrightarrow> outbox_ok s' \<and> (\<forall>k. spent_message k s \<longrightarrow> spent_message k s'))"

text \<open>Most operations also keep a message marked for a retry from waiting again.\<close>

definition keeps_idle :: "msg_state \<Rightarrow> msg_state \<Rightarrow> bool" where
  "keeps_idle s s' \<longleftrightarrow> (outbox_ok s \<longrightarrow> outbox_ok s' \<and> (\<forall>k. idle k s \<longrightarrow> idle k s') \<and> (\<forall>k. spent_message k s \<longrightarrow> spent_message k s'))"

lemma keeps_idle_spent: "keeps_idle s s' \<Longrightarrow> keeps_spent s s'"
  by (auto simp: keeps_idle_def keeps_spent_def)

interpretation spent_frame: tx_frame keeps_spent
  by unfold_locales (auto simp: keeps_spent_def)

interpretation idle_frame: tx_frame keeps_idle
  by unfold_locales (auto simp: keeps_idle_def)

lemma respects_idle_spent: "tx_respects keeps_idle m \<Longrightarrow> tx_respects keeps_spent m"
  by (auto simp: tx_respects_def intro: keeps_idle_spent)

lemma keeps_idle_same:
  "ms_messages s' = ms_messages s \<Longrightarrow> ms_outbox s' = ms_outbox s \<Longrightarrow> keeps_idle s s'"
  by (simp add: keeps_idle_def outbox_ok_def idle_def spent_message_def)

section \<open>Statements\<close>

definition keeps_key :: "(message_row \<Rightarrow> message_row) \<Rightarrow> bool" where
  "keeps_key f \<longleftrightarrow> (\<forall>m. msg_key (f m) = msg_key m)"

lemma msg_key_update [simp]:
  "msg_key (m\<lparr>mg_state := st\<rparr>) = msg_key m" "msg_key (m\<lparr>mg_error := e\<rparr>) = msg_key m"
  "msg_key (m\<lparr>mg_updated := t\<rparr>) = msg_key m" "msg_key (m\<lparr>mg_upstream := u\<rparr>) = msg_key m"
  "msg_key (m\<lparr>mg_seq := n\<rparr>) = msg_key m" "msg_key (m\<lparr>mg_scope := sc\<rparr>) = msg_key m"
  by (simp_all add: msg_key_def)

lemma out_key_update [simp]:
  "out_key (ob\<lparr>ob_lease := l\<rparr>) = out_key ob" "out_key (ob\<lparr>ob_updated := t\<rparr>) = out_key ob"
  "out_key (ob\<lparr>ob_available := t\<rparr>) = out_key ob" "out_key (ob\<lparr>ob_attempts := n\<rparr>) = out_key ob"
  "out_key (ob\<lparr>ob_retrySafe := b\<rparr>) = out_key ob"
  by (simp_all add: out_key_def)

lemma keys_update_rows: "keeps_key f \<Longrightarrow> msg_key ` set (update_rows p f ms) = msg_key ` set ms"
  by (induction ms) (auto simp: keeps_key_def)

lemma idle_update_messages:
  assumes f: "keeps_key f" and st: "\<And>m. p m \<Longrightarrow> mg_state (f m) = ACCEPTED \<Longrightarrow> mg_state m = ACCEPTED"
  shows "tx_respects keeps_idle (update_messages env p f)"
proof (rule tx_respectsI)
  fix s u s'
  assume "update_messages env p f s = Inr (u, s')"
  from update_messages_Inr [OF this] have s': "s' = s\<lparr>ms_messages := update_rows p f (ms_messages s)\<rparr>" .
  have origin: "\<exists>m \<in> set (ms_messages s). msg_key m = msg_key m' \<and> (mg_state m' = ACCEPTED \<longrightarrow> mg_state m = ACCEPTED)"
    if "m' \<in> set (ms_messages s')" for m'
    using that set_update_rows [of m' p f "ms_messages s"] f st unfolding s' keeps_key_def by auto
  have keys: "msg_key ` set (ms_messages s') = msg_key ` set (ms_messages s)"
    using keys_update_rows [OF f] by (simp add: s')
  have idle: "idle k s'" if "idle k s" for k
    using that origin keys unfolding idle_def by metis
  moreover have "spent_message k s'" if "spent_message k s" for k
    using that idle unfolding spent_message_def by (simp add: s')
  moreover have "outbox_ok s'" if "outbox_ok s"
    using that origin keys unfolding outbox_ok_def by (simp add: s') metis
  ultimately show "keeps_idle s s'" by (simp add: keeps_idle_def)
qed

lemma idle_delete_outbox: "tx_respects keeps_idle (delete_outbox p)"
  by (rule tx_respectsI) (auto simp: delete_outbox_def keeps_idle_def outbox_ok_def idle_def spent_message_def distinct_map inj_on_def)

lemma idle_update_outbox:
  assumes "\<And>ob. out_key (f ob) = out_key ob" "\<And>ob. p ob \<Longrightarrow> ob_retrySafe (f ob) \<Longrightarrow> ob_retrySafe ob"
  shows "tx_respects keeps_idle (update_outbox p f)"
proof (rule tx_respectsI)
  fix s u s'
  assume "update_outbox p f s = Inr (u, s')"
  then have s': "s' = s\<lparr>ms_outbox := update_rows p f (ms_outbox s)\<rparr>" by (simp add: update_outbox_def)
  have keys: "map out_key (ms_outbox s') = map out_key (ms_outbox s)"
    unfolding s' using assms(1) by (auto simp: update_rows_def)
  have origin: "\<exists>q \<in> set (ms_outbox s). out_key q = out_key q' \<and> (ob_retrySafe q' \<longrightarrow> ob_retrySafe q)"
    if "q' \<in> set (ms_outbox s')" for q'
    using that set_update_rows [of q' p f "ms_outbox s"] assms unfolding s' by auto
  have "outbox_ok s'" if "outbox_ok s"
  proof -
    have "out_key ` set (ms_outbox s') = out_key ` set (ms_outbox s)" using keys by (metis list.set_map)
    with that origin keys show ?thesis unfolding outbox_ok_def by (simp add: s') metis
  qed
  moreover have "spent_message k s'" if "spent_message k s" for k
    using that origin unfolding spent_message_def idle_def by (simp add: s') metis
  ultimately show "keeps_idle s s'" by (simp add: keeps_idle_def idle_def s')
qed

lemma idle_modify:
  assumes "\<And>s. ms_messages (f s) = ms_messages s" "\<And>s. ms_outbox (f s) = ms_outbox s"
  shows "tx_respects keeps_idle (tx_modify f)"
  by (rule tx_respectsI) (auto intro: keeps_idle_same simp: assms)

lemma insert_message_new:
  assumes "insert_message env r s = Inr (row, s')"
  shows "ms_messages s' = ms_messages s @ [row]" "ms_outbox s' = ms_outbox s" "msg_key row \<notin> msg_key ` set (ms_messages s)"
    "mg_state row = mg_state r" "msg_key row = msg_key r"
  using insert_message_Inr [OF assms] by (auto simp: msg_key_def)

lemma idle_insert_message: "tx_respects keeps_idle (insert_message env r)"
proof (rule tx_respectsI)
  fix s row s'
  assume "insert_message env r s = Inr (row, s')"
  note new = insert_message_new [OF this]
  have idle: "idle k s'" if "idle k s" for k
    using that new unfolding idle_def by auto
  have "outbox_ok s'" if "outbox_ok s"
    using that new unfolding outbox_ok_def by auto
  moreover have "spent_message k s'" if "spent_message k s" for k
    using that idle new(2) unfolding spent_message_def by simp
  ultimately show "keeps_idle s s'" using idle by (simp add: keeps_idle_def)
qed

lemma idle_queue_message: "tx_respects keeps_idle (queue_message env r)"
proof (rule tx_respectsI)
  fix s row s'
  assume "queue_message env r s = Inr (row, s')"
  then obtain s1 where ins: "insert_message env r s = Inr (row, s1)"
    and s': "s' = s1\<lparr>ms_outbox := ms_outbox s1 @ [\<lparr>ob_org = mg_org row, ob_message = mg_id row, ob_available = me_now env,
      ob_lease = None, ob_attempts = 0, ob_retrySafe = False, ob_updated = me_now env\<rparr>]\<rparr>"
    by (auto simp: queue_message_def tx_bind_eq_Inr)
  note new = insert_message_new [OF ins]
  have step: "keeps_idle s s1" by (rule tx_respectsD [OF idle_insert_message ins])
  have key: "out_key \<lparr>ob_org = mg_org row, ob_message = mg_id row, ob_available = me_now env,
      ob_lease = None, ob_attempts = 0, ob_retrySafe = False, ob_updated = me_now env\<rparr> = msg_key row"
    by (simp add: out_key_def msg_key_def)
  show "keeps_idle s s'"
    unfolding keeps_idle_def
  proof (intro impI conjI allI)
    assume ok: "outbox_ok s"
    with step have ok1: "outbox_ok s1" by (simp add: keeps_idle_def)
    have "msg_key row \<notin> out_key ` set (ms_outbox s)" using ok new(3) unfolding outbox_ok_def by blast
    with ok1 new key show "outbox_ok s'" unfolding outbox_ok_def s' by auto
    fix k
    show "idle k s'" if "idle k s"
    proof -
      have "idle k s1" using that step ok unfolding keeps_idle_def by blast
      then show ?thesis by (simp add: idle_def s')
    qed
    show "spent_message k s'" if "spent_message k s"
    proof -
      have "spent_message k s1" using that step ok unfolding keeps_idle_def by blast
      then show ?thesis using key by (auto simp: spent_message_def idle_def s')
    qed
  qed
qed

lemma idle_settle_messages:
  assumes "st \<noteq> ACCEPTED"
  shows "tx_respects keeps_idle (settle_messages env p st err now)"
proof (rule tx_respectsI)
  fix s u s'
  assume run: "settle_messages env p st err now s = Inr (u, s')"
  have "tx_respects keeps_idle (tx_bind (update_messages env p (\<lambda>m. m\<lparr>mg_state := st, mg_error := Some (err m), mg_updated := now\<rparr>))
      (\<lambda>_. delete_outbox (\<lambda>ob. list_ex (\<lambda>m. out_at (mg_org m) (mg_id m) ob) (filter p (ms_messages s)))))"
    using assms by (intro idle_frame.respects_bind idle_update_messages idle_delete_outbox) (simp_all add: keeps_key_def)
  from tx_respectsD [OF this run [unfolded settle_messages_def Let_def]] show "keeps_idle s s'" .
qed

lemma idle_each: "(\<And>x. tx_respects keeps_idle (f x)) \<Longrightarrow> tx_respects keeps_idle (tx_each f xs)"
  by (induction xs) (auto intro: idle_frame.respects_bind idle_frame.respects_return)

lemmas idle_intros = idle_frame.respects_intros idle_delete_outbox idle_modify idle_queue_message
  idle_insert_message idle_settle_messages idle_each

section \<open>Operations that retry nothing\<close>

lemma idle_interrupt: "tx_respects keeps_idle (interruptChatwootAttendance env org conv)"
  unfolding interruptChatwootAttendance_def by (intro idle_intros) auto

lemma idle_set_observation: "tx_respects keeps_idle (set_observation org oid f)"
  unfolding set_observation_def by (intro idle_modify) auto

lemma idle_adopt: "tx_respects keeps_idle (adopt_observation env ob)"
  unfolding adopt_observation_def
proof (intro idle_frame.respects_bind idle_interrupt idle_frame.respects_gets)
  fix x :: "string \<times> message_state"
  show "tx_respects keeps_idle (case x of (mid, st) \<Rightarrow> tx_bind (insert_message env
      \<lparr>mg_id = mid, mg_org = qo_org ob, mg_channel = qo_channel ob, mg_conversation = qo_conversation ob,
        mg_direction = OUTGOING, mg_source = SRC_EXTERNAL_OBSERVED, mg_scope = '''', mg_upstream = Some (qo_provider ob),
        mg_content = qo_content ob, mg_state = st, mg_error = None, mg_key = None, mg_optIn = False, mg_apiKey = None,
        mg_campaign = None, mg_seq = 0, mg_created = qo_occurred ob, mg_updated = me_now env, mg_historical = False\<rparr>)
      (\<lambda>_. set_observation (qo_org ob) (qo_id ob) (\<lambda>r. r\<lparr>qo_disposition := EXTERNAL_OBSERVED, qo_blocking := False,
        qo_message := Some mid, qo_reason := ''QR_EXTERNAL_OBSERVED'', qo_revision := qo_revision r + 1, qo_updated := me_now env\<rparr>)))"
    by (cases x) (simp, intro idle_frame.respects_bind idle_insert_message idle_set_observation)
qed

lemma idle_settle_observation: "tx_respects keeps_idle (settle_observation env ob)"
  by (rule tx_respectsI) (auto simp: settle_observation_def settle_as_def Let_def split: if_splits option.splits
      intro: tx_respectsD [OF idle_set_observation] tx_respectsD [OF idle_adopt])

lemma idle_settleQr: "tx_respects keeps_idle (settleQrOutboundObservation env org oid)"
  by (rule tx_respectsI) (auto simp: settleQrOutboundObservation_def split: if_splits option.splits
      intro: tx_respectsD [OF idle_settle_observation] keeps_idle_same)

lemma idle_recordQr: "tx_respects keeps_idle (recordQrOutboundObservation env org chan conv prov content occ)"
proof (rule tx_respectsI)
  fix s a s'
  assume rec: "recordQrOutboundObservation env org chan conv prov content occ s = Inr (a, s')"
  have step: "keeps_idle s s'" if "settleQrOutboundObservation env org oid s1 = Inr (a, s')"
      "ms_messages s1 = ms_messages s" "ms_outbox s1 = ms_outbox s" for oid s1
    using tx_respectsD [OF idle_settleQr that(1)] keeps_idle_same [OF that(2,3)] by (rule idle_frame.R_trans [rotated])
  from rec show "keeps_idle s s'"
    unfolding recordQrOutboundObservation_def Let_def by (rule step) simp_all
qed

lemma idle_beginQr: "tx_respects keeps_idle (beginQrDispatchAttempt env m lease)"
  by (rule tx_respectsI) (auto simp: beginQrDispatchAttempt_def split: option.splits bool.splits if_splits intro!: keeps_idle_same)

lemma idle_completeQr: "tx_respects keeps_idle (completeQrDispatchAttempt env m lease out)"
  unfolding completeQrDispatchAttempt_def by (intro idle_intros idle_settleQr) auto

lemma idle_recover_channel: "tx_respects keeps_idle (recover_channel env org lim chan)"
proof (rule tx_respectsI)
  fix s u s'
  assume "recover_channel env org lim chan s = Inr (u, s')"
  then show "keeps_idle s s'"
    unfolding recover_channel_def Let_def
    by (rule tx_respectsD [rotated]) (intro idle_intros idle_settleQr idle_update_messages, auto simp: keeps_key_def)
qed

lemma idle_recoverQr: "tx_respects keeps_idle (recoverQrOutboundObservations env org lim)"
  by (rule tx_respectsI) (auto simp: recoverQrOutboundObservations_def split: if_splits intro: keeps_idle_same
      tx_respectsD [OF idle_each [OF idle_recover_channel]])

end
