(* ===== verification/Outbox_Steps.thy ===== *)
theory Outbox_Steps
  imports Outbox_Frames
begin

text \<open>
  The runs of the messaging module: every operation of the repository is a step, in any order,
  each with an environment of its own. A step's label tells what matters about sending: that a
  message was cleared to be sent, or that its provider refused it in a way that allows a retry.
\<close>

section \<open>Operations that retry nothing, continued\<close>

lemma idle_upsertContact: "tx_respects keeps_idle (upsertContact env cid org ext name consent at)"
  by (rule tx_respectsI) (auto simp: upsertContact_def Let_def split: option.splits if_splits intro!: keeps_idle_same)

lemma idle_setContactPolicy: "tx_respects keeps_idle (setContactMessagingPolicy env org cid consent at sp)"
  by (rule tx_respectsI) (auto simp: setContactMessagingPolicy_def Let_def split: option.splits intro!: keeps_idle_same)

lemma idle_getOrCreate: "tx_respects keeps_idle (getOrCreateConversation env vid org chan cont)"
  by (rule tx_respectsI) (auto simp: getOrCreateConversation_def Let_def split: option.splits if_splits intro!: keeps_idle_same)

lemma idle_bindTypebot: "tx_respects keeps_idle (bindTypebotSession env org conv pid origin ses)"
  by (rule tx_respectsI) (auto simp: bindTypebotSession_def Let_def split: option.splits if_splits intro!: keeps_idle_same)

lemma idle_setMode: "tx_respects keeps_idle (setConversationMode env org conv mode)"
proof (rule tx_respectsI)
  fix s a s'
  assume "setConversationMode env org conv mode s = Inr (a, s')"
  then obtain v where "tx_bind (tx_modify (\<lambda>s. s\<lparr>ms_conversations := update_rows (\<lambda>r. cv_org r = org \<and> cv_id r = conv)
            (\<lambda>r. r\<lparr>cv_mode := mode, cv_updated := me_now env\<rparr>) (ms_conversations s)\<rparr>)) (\<lambda>_.
        tx_bind (tx_when (mode = HUMAN)
            (settle_messages env (pending_automation org conv) FAILED (\<lambda>_. ''CONVERSATION_PAUSED'') (me_now env))) (\<lambda>_.
        tx_return (v\<lparr>cv_mode := mode, cv_updated := me_now env\<rparr>))) s = Inr (a, s')"
    unfolding setConversationMode_def by (auto split: option.splits)
  moreover have "tx_respects keeps_idle (tx_bind (tx_modify (\<lambda>s. s\<lparr>ms_conversations := update_rows (\<lambda>r. cv_org r = org \<and> cv_id r = conv)
            (\<lambda>r. r\<lparr>cv_mode := mode, cv_updated := me_now env\<rparr>) (ms_conversations s)\<rparr>)) (\<lambda>_.
        tx_bind (tx_when (mode = HUMAN)
            (settle_messages env (pending_automation org conv) FAILED (\<lambda>_. ''CONVERSATION_PAUSED'') (me_now env))) (\<lambda>_.
        tx_return (v\<lparr>cv_mode := mode, cv_updated := me_now env\<rparr>))))"
    by (intro idle_intros) auto
  ultimately show "keeps_idle s s'" by (rule tx_respectsD [rotated])
qed

lemma idle_fence: "tx_respects keeps_idle (fence_superseded env i)"
  by (rule tx_respectsI) (auto simp: fence_superseded_def split: if_splits option.splits
      intro: keeps_idle_same tx_respectsD [OF idle_interrupt])

lemma idle_enqueue: "tx_respects keeps_idle (enqueueOutgoing env i)"
proof (rule tx_respectsI)
  fix s a s'
  assume run: "enqueueOutgoing env i s = Inr (a, s')"
  have new: "keeps_idle s s'" if "fence_superseded env i s = Inr ((), t)" "queue_message env r t = Inr (m, s')" for t r m
    using tx_respectsD [OF idle_fence that(1)] tx_respectsD [OF idle_queue_message that(2)] by (rule idle_frame.R_trans)
  from run show "keeps_idle s s'"
    unfolding enqueueOutgoing_def Let_def
    by (auto split: option.splits if_splits simp: tx_bind_eq_Inr intro: keeps_idle_same new)
qed

lemma idle_expire: "tx_respects keeps_idle (expire_sending env org now)"
  by (rule tx_respectsI, unfold expire_sending_def) (erule tx_respectsD [OF idle_settle_messages, rotated], simp)

lemma idle_release: "tx_respects keeps_idle (release_accepted org now)"
  by (rule tx_respectsI, unfold release_accepted_def) (erule tx_respectsD [OF idle_update_outbox, rotated 2], auto)

lemma idle_reject: "tx_respects keeps_idle (reject_refused env org now)"
  by (rule tx_respectsI, unfold reject_refused_def) (erule tx_respectsD [OF idle_settle_messages, rotated], simp)

lemma idle_lease: "tx_respects keeps_idle (lease_candidates env org worker now ms lim)"
proof (rule tx_respectsI)
  fix s a s'
  assume "lease_candidates env org worker now ms lim s = Inr (a, s')"
  then show "keeps_idle s s'"
    unfolding lease_candidates_def Let_def
    by (rule tx_respectsD [rotated]) (intro idle_intros idle_update_outbox, auto)
qed

lemma idle_release_lease: "tx_respects keeps_idle (release_lease org mid lease touched)"
  unfolding release_lease_def by (intro idle_update_outbox) auto

lemma idle_refuse: "tx_respects keeps_idle (refuse_claim env org mid lease r)"
  unfolding refuse_claim_def
proof (intro idle_frame.respects_bind idle_frame.respects_if idle_release_lease idle_frame.respects_return tx_respectsI)
  fix s a s'
  assume "(let marked = list_ex (\<lambda>m. msg_at org mid m \<and> mg_state m = ACCEPTED) (ms_messages s)
         in tx_bind (update_messages env (\<lambda>m. msg_at org mid m \<and> mg_state m = ACCEPTED)
              (\<lambda>m. m\<lparr>mg_state := FAILED, mg_error := Some (reason_code r), mg_updated := me_now env\<rparr>)) (\<lambda>_.
            delete_outbox (\<lambda>ob. marked \<and> held_by org mid lease ob)) s) = Inr (a, s')"
  then show "keeps_idle s s'"
    unfolding Let_def
    by (rule tx_respectsD [rotated]) (intro idle_intros idle_update_messages, auto simp: keeps_key_def)
qed

lemma idle_begin_sending: "tx_respects keeps_idle (begin_sending env lease cl)"
  unfolding begin_sending_def Let_def
  by (intro idle_intros idle_update_messages idle_beginQr) (auto simp: keeps_key_def)

lemma idle_validate: "tx_respects keeps_idle (validateClaim env org mid lease now)"
proof (rule tx_respectsI)
  fix s a s'
  assume "validateClaim env org mid lease now s = Inr (a, s')"
  then show "keeps_idle s s'"
    unfolding validateClaim_def
    by (auto split: if_splits sum.splits option.splits simp: tx_bind_eq_Inr intro: keeps_idle_same
        tx_respectsD [OF idle_release_lease] tx_respectsD [OF idle_refuse] tx_respectsD [OF idle_begin_sending])
qed

lemma idle_advance: "tx_respects keeps_idle (advanceMessageState env org mid st err)"
proof (rule tx_respectsI)
  fix s a s'
  assume run: "advanceMessageState env org mid st err s = Inr (a, s')"
  have step: "keeps_idle s s'"
    if m: "canAdvanceMessageState (mg_state m) st" "mg_state m \<noteq> st"
      and upd: "update_messages env (msg_at org mid) (\<lambda>r. r\<lparr>mg_state := st, mg_error := err, mg_updated := me_now env\<rparr>) s = Inr ((), s')" for m
  proof -
    from m have "st \<noteq> ACCEPTED" by (cases "mg_state m") auto
    then show ?thesis by (intro tx_respectsD [OF idle_update_messages upd]) (auto simp: keeps_key_def)
  qed
  from run show "keeps_idle s s'"
    unfolding advanceMessageState_def
    by (auto split: option.splits if_splits simp: tx_bind_eq_Inr intro: keeps_idle_same step)
qed

lemma idle_recordStatus: "tx_respects keeps_idle (recordStatusEvent env i)"
proof (rule tx_respectsI)
  fix s a s'
  assume run: "recordStatusEvent env i s = Inr (a, s')"
  have logged: "keeps_idle s (log_status env i s)" by (rule keeps_idle_same) simp_all
  have step: "keeps_idle s s'"
    if m: "canAdvanceMessageState (mg_state m) (si_state i)" "mg_state m \<noteq> si_state i"
      and upd: "update_messages env p (\<lambda>r. r\<lparr>mg_state := si_state i, mg_error := si_error i, mg_updated := me_now env\<rparr>) (log_status env i s) = Inr ((), s')"
    for m p
  proof -
    from m have "si_state i \<noteq> ACCEPTED" by (cases "mg_state m") auto
    then have "keeps_idle (log_status env i s) s'" by (intro tx_respectsD [OF idle_update_messages upd]) (auto simp: keeps_key_def)
    with logged show ?thesis by (rule idle_frame.R_trans)
  qed
  from run logged show "keeps_idle s s'"
    unfolding recordStatusEvent_def Let_def
    by (auto split: option.splits if_splits simp: tx_bind_eq_Inr intro: step)
qed

lemma idle_schedule: "tx_respects keeps_idle (schedule_bot b m)"
  by (rule tx_respectsI) (auto simp: schedule_bot_def split: if_splits intro!: keeps_idle_same)

lemma idle_recordIncoming: "tx_respects keeps_idle (recordIncoming env i)"
proof (rule tx_respectsI)
  fix s a s'
  assume run: "recordIncoming env i s = Inr (a, s')"
  have step: "keeps_idle s s'"
    if "(case stored_incoming env i s of Some m \<Rightarrow> tx_return (Duplicate, m)
           | None \<Rightarrow> tx_bind (insert_message env (incoming_row env i)) (\<lambda>m. tx_return (Recorded, m))) s = Inr (km, s1)"
      and "ms_messages s2 = ms_messages s1" "ms_outbox s2 = ms_outbox s1" "schedule_bot b m s2 = Inr (v, s')"
    for km s1 s2 b m v
  proof -
    from that(1) have "keeps_idle s s1"
      by (auto split: option.splits simp: tx_bind_eq_Inr intro: keeps_idle_same tx_respectsD [OF idle_insert_message])
    with keeps_idle_same [OF that(2,3)] tx_respectsD [OF idle_schedule that(4)] show ?thesis by (blast intro: idle_frame.R_trans)
  qed
  show "keeps_idle s s'"
  proof (cases "find (event_at i) (ms_inbox s)")
    case None
    with run obtain km s1 where one: "(case stored_incoming env i s of Some m \<Rightarrow> tx_return (Duplicate, m)
           | None \<Rightarrow> tx_bind (insert_message env (incoming_row env i)) (\<lambda>m. tx_return (Recorded, m))) s = Inr (km, s1)"
      and rest: "(case km of (kind, m) \<Rightarrow> tx_bind (tx_modify (\<lambda>s. s\<lparr>ms_inbox := ms_inbox s @ [\<lparr>ie_org = ic_org i, ie_channel = ic_channel i, ie_key = ic_event i,
             ie_message = Some (mg_id m)\<rparr>]\<rparr>)) (\<lambda>_.
         tx_bind (schedule_bot (ic_schedule i) m) (\<lambda>scheduled.
         tx_return (kind, m, scheduled)))) s1 = Inr (a, s')"
      unfolding recordIncoming_def by (auto simp: tx_bind_eq_Inr [where m = "case stored_incoming env i s of None \<Rightarrow> _ | Some m \<Rightarrow> _ m"])
    from rest show ?thesis by (cases km) (auto simp: tx_bind_eq_Inr intro: step [OF one, rotated 2])
  next
    case (Some e)
    with run show ?thesis unfolding recordIncoming_def by (auto split: option.splits if_splits intro: keeps_idle_same)
  qed
qed

lemma idle_update_jobs: "tx_respects keeps_idle (update_jobs p f)"
  unfolding update_jobs_def by (intro idle_modify) auto

lemma idle_lease_turn: "tx_respects keeps_idle (lease_turn ft rt org w now ms)"
  by (rule tx_respectsI) (auto simp: lease_turn_def tx_bind_eq_Inr update_jobs_def split: option.splits prod.splits intro!: keeps_idle_same)

lemma idle_claimBotTurn: "tx_respects keeps_idle (claimBotTurn env ft rt org w now ms)"
proof (rule tx_respectsI)
  fix s a s'
  assume run: "claimBotTurn env ft rt org w now ms s = Inr (a, s')"
  have "tx_respects keeps_idle (pause_turns org)"
    by (rule tx_respectsI, unfold pause_turns_def, erule tx_respectsD [OF idle_update_jobs])
  moreover have "tx_respects keeps_idle (fail_turns org t)" for t
    by (rule tx_respectsI, unfold fail_turns_def, erule tx_respectsD [OF idle_update_jobs])
  ultimately have "tx_respects keeps_idle (tx_bind (expire_turns org t) (\<lambda>_. tx_bind (pause_turns org) (\<lambda>_. tx_bind (fail_turns org t) (\<lambda>_.
      lease_turn ft rt org w t ms))))" for t
    unfolding expire_turns_def by (intro idle_frame.respects_bind idle_update_jobs idle_lease_turn)
  with run show "keeps_idle s s'"
    unfolding claimBotTurn_def Let_def by (auto split: if_splits intro: keeps_idle_same tx_respectsD)
qed

lemma idle_queue_reply: "tx_respects keeps_idle (queue_reply env sha v mid nt)"
  by (rule tx_respectsI) (auto simp: queue_reply_def Let_def tx_bind_eq_Inr split: if_splits
      intro: keeps_idle_same tx_respectsD [OF idle_queue_message])

lemma idle_queue_replies: "tx_respects keeps_idle (queue_replies env sha v mid nts)"
  by (induction nts) (auto intro!: idle_frame.respects_bind idle_frame.respects_return idle_queue_reply simp del: tx_return_simp)

lemma idle_end_turn: "tx_respects keeps_idle (end_turn org mid lease st err)"
  unfolding end_turn_def by (rule idle_update_jobs)

lemma idle_failBotTurn: "tx_respects keeps_idle (failBotTurn org mid lease code unc)"
  by (rule tx_respectsI) (auto simp: failBotTurn_def Let_def tx_bind_eq_Inr split: if_splits intro: tx_respectsD [OF idle_end_turn])

lemma idle_completeBotTurn: "tx_respects keeps_idle (completeBotTurn env sha org mid lease ses texts now)"
proof (rule tx_respectsI)
  fix s a s'
  assume run: "completeBotTurn env sha org mid lease ses texts now s = Inr (a, s')"
  have whole: "keeps_idle s s'" if "queue_replies env sha v mid nts s1 = Inr (ms, s2)" "end_turn org mid lease JOB_COMPLETED None s2 = Inr ((), s')"
      "ms_messages s1 = ms_messages s" "ms_outbox s1 = ms_outbox s" for v nts s1 ms s2
    using keeps_idle_same [OF that(3,4)] tx_respectsD [OF idle_queue_replies that(1)] tx_respectsD [OF idle_end_turn that(2)]
    by (blast intro: idle_frame.R_trans)
  from run show "keeps_idle s s'"
    unfolding completeBotTurn_def
    by (auto split: option.splits if_splits simp: tx_bind_eq_Inr intro: tx_respectsD [OF idle_end_turn] whole)
qed

end
