(* ===== verification/Outbox_Safety.thy ===== *)
theory Outbox_Safety
  imports Outbox_Steps
begin

text \<open>
  What the runs of the messaging module guarantee about sending: a message cleared to be sent is
  not cleared again unless its provider refused it in a way that allows a retry; what is cleared
  has passed every policy; a retry the database refuses stops the organization's outbox.
\<close>

section \<open>The operations that retry\<close>

lemma retry_messages_run:
  assumes "retry_messages env org now s = Inr (u, s')"
  shows "s' = s\<lparr>ms_outbox := update_rows (\<lambda>ob. list_ex (retry_due org now ob) (ms_messages s))
        (\<lambda>ob. ob\<lparr>ob_retrySafe := False, ob_available := now, ob_updated := now\<rparr>) (ms_outbox s),
      ms_messages := update_rows (\<lambda>m. list_ex (\<lambda>ob. retry_due org now ob m) (ms_outbox s))
        (\<lambda>m. m\<lparr>mg_state := ACCEPTED, mg_error := None, mg_updated := now\<rparr>) (ms_messages s)\<rparr>"
  using assms unfolding retry_messages_def Let_def tx_bind_eq_Inr update_outbox_def
  by (auto dest!: update_messages_Inr)

lemma retry_due_key: "retry_due org now ob m \<Longrightarrow> out_key ob = msg_key m \<and> ob_retrySafe ob"
  by (auto simp: retry_due_def out_at_key msg_key_def)

text \<open>Clearing the mark of a row and putting its message back is safe when each message has one row.\<close>

lemma unmark_and_accept:
  assumes due: "\<And>ob m. D ob m \<Longrightarrow> out_key ob = msg_key m \<and> ob_retrySafe ob"
    and f: "\<And>ob. out_key (f ob) = out_key ob \<and> \<not> ob_retrySafe (f ob)" and g: "\<And>m. msg_key (g m) = msg_key m"
    and s': "ms_outbox s' = update_rows (\<lambda>ob. list_ex (D ob) (ms_messages s)) f (ms_outbox s)"
      "ms_messages s' = update_rows (\<lambda>m. list_ex (\<lambda>ob. D ob m) (ms_outbox s)) g (ms_messages s)"
  shows "keeps_spent s s'"
proof -
  have mfrom: "\<exists>m \<in> set (ms_messages s). msg_key m' = msg_key m \<and> (m' = m \<or> (\<exists>ob \<in> set (ms_outbox s). D ob m))"
    if "m' \<in> set (ms_messages s')" for m'
    using set_update_rows [OF that [unfolded s'(2)]] g by (auto simp: list_ex_iff)
  have ofrom: "\<exists>q \<in> set (ms_outbox s). out_key q' = out_key q \<and> (ob_retrySafe q' \<longrightarrow> q' = q \<and> \<not> list_ex (D q) (ms_messages s))"
    if "q' \<in> set (ms_outbox s')" for q'
    using set_update_rows [OF that [unfolded s'(1)]] f by auto
  have mkeys: "msg_key ` set (ms_messages s') = msg_key ` set (ms_messages s)"
    unfolding s' by (rule keys_update_rows) (simp add: keeps_key_def g)
  have okeys: "map out_key (ms_outbox s') = map out_key (ms_outbox s)"
    unfolding s' using f by (auto simp: update_rows_def)
  have oset: "out_key ` set (ms_outbox s') = out_key ` set (ms_outbox s)"
    using okeys by (metis list.set_map)
  show ?thesis
    unfolding keeps_spent_def
  proof (intro impI conjI allI)
    assume ok: "outbox_ok s"
    have one: "q = q'" if "q \<in> set (ms_outbox s)" "q' \<in> set (ms_outbox s)" "out_key q = out_key q'" for q q'
      using ok that unfolding outbox_ok_def by (meson distinct_map inj_onD)
    have "mg_state m' \<noteq> ACCEPTED" if "q' \<in> set (ms_outbox s')" "ob_retrySafe q'" "m' \<in> set (ms_messages s')" "msg_key m' = out_key q'" for q' m'
    proof -
      from ofrom [OF that(1)] that(2) have q: "q' \<in> set (ms_outbox s)" "\<not> list_ex (D q') (ms_messages s)" by auto
      from mfrom [OF that(3)] obtain m where m: "m \<in> set (ms_messages s)" "msg_key m' = msg_key m"
        and c: "m' = m \<or> (\<exists>ob \<in> set (ms_outbox s). D ob m)" by auto
      have "\<not> (\<exists>ob \<in> set (ms_outbox s). D ob m)"
        using q m that(4) one due by (metis list_ex_iff)
      with c m(1) q(1) that(2,4) ok show ?thesis unfolding outbox_ok_def by blast
    qed
    with ok okeys oset mkeys show "outbox_ok s'" unfolding outbox_ok_def by metis
    fix k
    assume sp: "spent_message k s"
    have "mg_state m' \<noteq> ACCEPTED" if "m' \<in> set (ms_messages s')" "msg_key m' = k" for m'
      using mfrom [OF that(1)] that(2) sp due unfolding spent_message_def idle_def by metis
    moreover have "\<not> ob_retrySafe q'" if "q' \<in> set (ms_outbox s')" "out_key q' = k" for q'
      using ofrom [OF that(1)] that(2) sp unfolding spent_message_def by metis
    ultimately show "spent_message k s'" using sp mkeys unfolding spent_message_def idle_def by auto
  qed
qed

lemma spent_retry_messages: "tx_respects keeps_spent (retry_messages env org now)"
proof (rule tx_respectsI)
  fix s u s'
  assume "retry_messages env org now s = Inr (u, s')"
  from retry_messages_run [OF this] show "keeps_spent s s'"
    by (intro unmark_and_accept [where D = "retry_due org now"]) (auto dest: retry_due_key)
qed

lemma spent_claimOutgoing: "tx_respects keeps_spent (claimOutgoing env org w now ms lim)"
proof (rule tx_respectsI)
  fix s a s'
  assume run: "claimOutgoing env org w now ms lim s = Inr (a, s')"
  have "tx_respects keeps_spent (tx_bind (retry_messages env org t) (\<lambda>_. tx_bind (expire_sending env org t) (\<lambda>_.
      tx_bind (release_accepted org t) (\<lambda>_. tx_bind (reject_refused env org t) (\<lambda>_. lease_candidates env org w t ms lim)))))" for t
    by (intro spent_frame.respects_bind spent_retry_messages respects_idle_spent idle_expire idle_release idle_reject idle_lease)
  from run tx_respectsD [OF this] show "keeps_spent s s'"
    unfolding claimOutgoing_def Let_def by (auto split: if_splits simp: spent_frame.R_refl)
qed

lemma find_outbox_Some: "find_outbox s org mid = Some ob \<Longrightarrow> ob \<in> set (ms_outbox s) \<and> out_key ob = (org, mid)"
  unfolding find_outbox_def by (auto dest: find_mem simp: out_at_key)

lemma find_message_Some: "find_message s org mid = Some m \<Longrightarrow> m \<in> set (ms_messages s) \<and> msg_key m = (org, mid)"
  unfolding find_message_def by (auto dest: find_mem simp: msg_at_key)

lemma spent_retrySafeFailure: "tx_respects keeps_spent (retrySafeFailure env org mid nb)"
proof (rule tx_respectsI)
  fix s a s'
  assume "retrySafeFailure env org mid nb s = Inr (a, s')"
  then obtain ob m where ob: "find_outbox s org mid = Some ob" "ob_retrySafe ob" and m: "find_message s org mid = Some m" "mg_state m = FAILED"
    and s': "s' = s\<lparr>ms_outbox := update_rows (\<lambda>r. out_at org mid r \<and> ob_retrySafe r)
         (\<lambda>r. r\<lparr>ob_retrySafe := False, ob_available := db_us nb, ob_lease := None, ob_updated := me_now env\<rparr>) (ms_outbox s),
       ms_messages := update_rows (\<lambda>r. msg_at org mid r \<and> mg_state r = FAILED)
         (\<lambda>r. r\<lparr>mg_state := ACCEPTED, mg_error := None, mg_updated := me_now env\<rparr>) (ms_messages s)\<rparr>"
    unfolding retrySafeFailure_def by (auto split: option.splits if_splits simp: tx_bind_eq_Inr update_outbox_def dest!: update_messages_Inr)
  define D where "D = (\<lambda>o' r. out_at org mid o' \<and> ob_retrySafe o' \<and> msg_at org mid r \<and> mg_state r = FAILED)"
  note mem = find_outbox_Some [OF ob(1)] find_message_Some [OF m(1)]
  have "list_ex (D o') (ms_messages s) \<longleftrightarrow> out_at org mid o' \<and> ob_retrySafe o'" for o'
    using mem(2) m(2) unfolding D_def list_ex_iff by (auto simp: msg_at_key)
  moreover have "list_ex (\<lambda>o'. D o' r) (ms_outbox s) \<longleftrightarrow> msg_at org mid r \<and> mg_state r = FAILED" for r
    using mem(1) ob(2) unfolding D_def list_ex_iff by (auto simp: out_at_key)
  ultimately show "keeps_spent s s'"
    by (intro unmark_and_accept [where D = D and s' = s', OF _ _ _ _ _]) (auto simp: s' D_def out_at_key msg_at_key)
qed

section \<open>Completion\<close>

lemma idle_answered: "tx_respects keeps_idle (update_messages env (msg_at org mid) (answered env out))"
  by (intro idle_update_messages) (auto simp: keeps_key_def answered_def outcome_state_def split: send_outcome.splits)

lemma reported_not_accepted: "reported_state s out m \<noteq> ACCEPTED"
  using reconcile_sent [of "observed_statuses s (mg_org m) (mg_channel m) (mg_scope m) _"]
  by (auto simp: reported_state_def outcome_state_def split: send_outcome.splits) (metis empty_iff insert_iff message_state.distinct)+

lemma idle_reconcile_completed: "tx_respects keeps_idle (reconcile_completed env org mid out m)"
  by (rule tx_respectsI) (auto simp: reconcile_completed_def Let_def tx_bind_eq_Inr keeps_key_def reported_not_accepted split: if_splits
      intro: keeps_idle_same tx_respectsD [OF idle_update_messages, rotated 2])

lemma completeSend_run:
  assumes "completeSend env org mid lease out s = Inr (a, s')"
  obtains m ob s1 s2 s3 where "find_message s org mid = Some m" "find_outbox s org mid = Some ob" "held_by org mid lease ob"
    "mg_state m = SENDING \<or> mg_state m = ACCEPTED \<and> outcome_state out = FAILED"
    "update_messages env (msg_at org mid) (answered env out) s = Inr ((), s1)"
    "reconcile_completed env org mid out m s1 = Inr (a, s2)" "completeQrDispatchAttempt env m lease out s2 = Inr ((), s3)"
    "s' = (if outcome_retry out then s3\<lparr>ms_outbox := update_rows (out_at org mid)
        (\<lambda>ob. ob\<lparr>ob_retrySafe := True, ob_lease := None, ob_updated := me_now env\<rparr>) (ms_outbox s3)\<rparr>
      else s3\<lparr>ms_outbox := filter (\<lambda>r. \<not> out_at org mid r) (ms_outbox s3)\<rparr>)"
  using assms that unfolding completeSend_def
  by (auto split: option.splits if_splits simp: tx_bind_eq_Inr update_outbox_def delete_outbox_def)

lemma idle_completeSend:
  assumes run: "completeSend env org mid lease out s = Inr (a, s')" and final: "\<not> outcome_retry out"
  shows "keeps_idle s s'"
proof (rule completeSend_run [OF run])
  fix m ob s1 s2 s3
  assume steps: "update_messages env (msg_at org mid) (answered env out) s = Inr ((), s1)"
    "reconcile_completed env org mid out m s1 = Inr (a, s2)" "completeQrDispatchAttempt env m lease out s2 = Inr ((), s3)"
    and s': "s' = (if outcome_retry out then s3\<lparr>ms_outbox := update_rows (out_at org mid)
        (\<lambda>ob. ob\<lparr>ob_retrySafe := True, ob_lease := None, ob_updated := me_now env\<rparr>) (ms_outbox s3)\<rparr>
      else s3\<lparr>ms_outbox := filter (\<lambda>r. \<not> out_at org mid r) (ms_outbox s3)\<rparr>)"
  have "delete_outbox (out_at org mid) s3 = Inr ((), s')" using s' final by (simp add: delete_outbox_def)
  from tx_respectsD [OF idle_answered steps(1)] tx_respectsD [OF idle_reconcile_completed steps(2)]
    tx_respectsD [OF idle_completeQr steps(3)] tx_respectsD [OF idle_delete_outbox this]
  show ?thesis by (blast intro: idle_frame.R_trans)
qed

lemma completeSend_idle_after:
  assumes run: "completeSend env org mid lease out s = Inr (a, s')" and ok: "outbox_ok s"
  shows "outbox_ok s'" and "k \<noteq> (org, mid) \<Longrightarrow> spent_message k s \<Longrightarrow> spent_message k s'"
proof -
  obtain m ob s1 s2 s3 where m: "find_message s org mid = Some m" and steps: "update_messages env (msg_at org mid) (answered env out) s = Inr ((), s1)"
    "reconcile_completed env org mid out m s1 = Inr (a, s2)" "completeQrDispatchAttempt env m lease out s2 = Inr ((), s3)"
    and s': "s' = (if outcome_retry out then s3\<lparr>ms_outbox := update_rows (out_at org mid)
        (\<lambda>ob. ob\<lparr>ob_retrySafe := True, ob_lease := None, ob_updated := me_now env\<rparr>) (ms_outbox s3)\<rparr>
      else s3\<lparr>ms_outbox := filter (\<lambda>r. \<not> out_at org mid r) (ms_outbox s3)\<rparr>)"
    by (rule completeSend_run [OF run])
  have to3: "keeps_idle s s3" and from1: "keeps_idle s1 s3" and to1: "keeps_idle s s1"
    using tx_respectsD [OF idle_answered steps(1)] tx_respectsD [OF idle_reconcile_completed steps(2)]
      tx_respectsD [OF idle_completeQr steps(3)] by (blast intro: idle_frame.R_trans)+
  have ok1: "outbox_ok s1" and ok3: "outbox_ok s3" using ok to1 to3 by (simp_all add: keeps_idle_def)
  have s1: "ms_messages s1 = update_rows (msg_at org mid) (answered env out) (ms_messages s)"
    using update_messages_Inr [OF steps(1)] by simp
  have "idle (org, mid) s1"
    unfolding idle_def s1
  proof
    show "(org, mid) \<in> msg_key ` set (update_rows (msg_at org mid) (answered env out) (ms_messages s))"
    proof -
      have "keeps_key (answered env out)" by (simp add: keeps_key_def answered_def)
      from keys_update_rows [OF this, of "msg_at org mid" "ms_messages s"] find_message_Some [OF m] show ?thesis
        by (metis image_eqI)
    qed
    show "\<forall>r \<in> set (update_rows (msg_at org mid) (answered env out) (ms_messages s)). msg_key r = (org, mid) \<longrightarrow> mg_state r \<noteq> ACCEPTED"
      by (auto simp: update_rows_def msg_at_key answered_def outcome_state_def split: send_outcome.splits)
  qed
  with from1 ok1 have idle3: "idle (org, mid) s3" by (simp add: keeps_idle_def)
  show "outbox_ok s'"
  proof (cases "outcome_retry out")
    case True
    then have o': "ms_outbox s' = update_rows (out_at org mid) (\<lambda>ob. ob\<lparr>ob_retrySafe := True, ob_lease := None, ob_updated := me_now env\<rparr>) (ms_outbox s3)"
      and m': "ms_messages s' = ms_messages s3" by (simp_all add: s')
    have keys: "map out_key (ms_outbox s') = map out_key (ms_outbox s3)" unfolding o' by (auto simp: update_rows_def)
    have "mg_state r \<noteq> ACCEPTED" if "q' \<in> set (ms_outbox s')" "ob_retrySafe q'" "r \<in> set (ms_messages s')" "msg_key r = out_key q'" for q' r
      using set_update_rows [OF that(1) [unfolded o']] that(2-4) ok3 idle3 unfolding outbox_ok_def idle_def m' out_at_key by auto
    moreover have "out_key ` set (ms_outbox s') = out_key ` set (ms_outbox s3)" using keys by (metis list.set_map)
    ultimately show ?thesis using ok3 keys m' unfolding outbox_ok_def by metis
  next
    case False
    with s' tx_respectsD [OF idle_delete_outbox, of "out_at org mid" s3 "()" s'] ok3 show ?thesis
      by (simp add: keeps_idle_def delete_outbox_def)
  qed
  show "spent_message k s'" if k: "k \<noteq> (org, mid)" "spent_message k s"
  proof -
    have "spent_message k s3" using to3 ok k(2) unfolding keeps_idle_def by blast
    then show ?thesis using k(1) unfolding s' spent_message_def idle_def by (auto simp: update_rows_def out_at_key)
  qed
qed

section \<open>Runs\<close>

datatype send_event = Cleared string string | RefusedForRetry string string | Other

text \<open>
  An operation that commits is a step; one that throws leaves the tables as they are. The
  operations that retry nothing share the rule \<open>quiet\<close>.
\<close>

inductive quiet_step :: "msg_state \<Rightarrow> msg_state \<Rightarrow> bool" where
  upsert: "upsertContact env cid org ext name cons at s = Inr (a, s') \<Longrightarrow> quiet_step s s'"
| policy: "setContactMessagingPolicy env org cid cons at sp s = Inr (b, s') \<Longrightarrow> quiet_step s s'"
| conversation: "getOrCreateConversation env vid org chan cont s = Inr (c, s') \<Longrightarrow> quiet_step s s'"
| mode: "setConversationMode env org conv md s = Inr (d, s') \<Longrightarrow> quiet_step s s'"
| bind: "bindTypebotSession env org conv pid origin ses s = Inr (e, s') \<Longrightarrow> quiet_step s s'"
| enqueue: "enqueueOutgoing env i s = Inr (f, s') \<Longrightarrow> quiet_step s s'"
| incoming: "recordIncoming env j s = Inr (g, s') \<Longrightarrow> quiet_step s s'"
| status: "recordStatusEvent env k s = Inr (h, s') \<Longrightarrow> quiet_step s s'"
| advance: "advanceMessageState env org mid st err s = Inr (l, s') \<Longrightarrow> quiet_step s s'"
| turn: "claimBotTurn env ft rt org w now ms s = Inr (m, s') \<Longrightarrow> quiet_step s s'"
| turned: "completeBotTurn env sha org mid lease ses texts now s = Inr (n, s') \<Longrightarrow> quiet_step s s'"
| failed: "failBotTurn org mid lease code unc s = Inr (p, s') \<Longrightarrow> quiet_step s s'"
| recover: "recoverQrOutboundObservations env org lim s = Inr (q, s') \<Longrightarrow> quiet_step s s'"
| observe: "recordQrOutboundObservation env org chan conv prov content occ s = Inr (r, s') \<Longrightarrow> quiet_step s s'"
| interrupt: "interruptChatwootAttendance env org conv s = Inr (t, s') \<Longrightarrow> quiet_step s s'"
| refused: "validateClaim env org mid lease at s = Inr (Ineligible why, s') \<Longrightarrow> quiet_step s s'"

inductive msg_step :: "msg_state \<Rightarrow> send_event \<Rightarrow> msg_state \<Rightarrow> bool" where
  quiet: "quiet_step s s' \<Longrightarrow> msg_step s Other s'"
| claim: "claimOutgoing env org w now ms lim s = Inr (a, s') \<Longrightarrow> msg_step s Other s'"
| retry: "retrySafeFailure env org mid nb s = Inr (b, s') \<Longrightarrow> msg_step s Other s'"
| cleared: "validateClaim env org mid lease at s = Inr (Eligible cl, s') \<Longrightarrow> msg_step s (Cleared org mid) s'"
| complete: "completeSend env org mid lease out s = Inr (c, s') \<Longrightarrow>
    msg_step s (if outcome_retry out then RefusedForRetry org mid else Other) s'"

inductive msg_run :: "msg_state \<Rightarrow> send_event list \<Rightarrow> msg_state \<Rightarrow> bool" where
  start: "msg_run s [] s"
| more: "msg_run s es t \<Longrightarrow> msg_step t e u \<Longrightarrow> msg_run s (es @ [e]) u"

lemma quiet_idle: "quiet_step s s' \<Longrightarrow> keeps_idle s s'"
  by (induction rule: quiet_step.induct) (blast intro: tx_respectsD idle_upsertContact idle_setContactPolicy idle_getOrCreate idle_setMode
      idle_bindTypebot idle_enqueue idle_recordIncoming idle_recordStatus idle_advance idle_claimBotTurn idle_completeBotTurn
      idle_failBotTurn idle_recoverQr idle_recordQr idle_interrupt idle_validate)+

lemma step_ok: "msg_step s e s' \<Longrightarrow> outbox_ok s \<Longrightarrow> outbox_ok s'"
proof (induction rule: msg_step.induct)
  case (quiet s s') then show ?case using quiet_idle by (simp add: keeps_idle_def)
next
  case claim then show ?case using tx_respectsD [OF spent_claimOutgoing claim.hyps] by (simp add: keeps_spent_def)
next
  case retry then show ?case using tx_respectsD [OF spent_retrySafeFailure retry.hyps] by (simp add: keeps_spent_def)
next
  case cleared then show ?case using tx_respectsD [OF idle_validate cleared.hyps] by (simp add: keeps_idle_def)
next
  case complete then show ?case using completeSend_idle_after(1) by blast
qed

lemma run_ok: "msg_run s es t \<Longrightarrow> outbox_ok s \<Longrightarrow> outbox_ok t"
  by (induction rule: msg_run.induct) (auto intro: step_ok)

lemma step_spent: "msg_step s e s' \<Longrightarrow> outbox_ok s \<Longrightarrow> spent_message (org, mid) s \<Longrightarrow> e \<noteq> RefusedForRetry org mid \<Longrightarrow> spent_message (org, mid) s'"
proof (induction rule: msg_step.induct)
  case (quiet s s') then show ?case using quiet_idle by (simp add: keeps_idle_def)
next
  case claim then show ?case using tx_respectsD [OF spent_claimOutgoing claim.hyps] by (simp add: keeps_spent_def)
next
  case retry then show ?case using tx_respectsD [OF spent_retrySafeFailure retry.hyps] by (simp add: keeps_spent_def)
next
  case cleared then show ?case using tx_respectsD [OF idle_validate cleared.hyps] by (simp add: keeps_idle_def)
next
  case (complete env org' mid' lease out s c s')
  show ?case
  proof (cases "outcome_retry out")
    case True
    with complete.prems(3) have "(org, mid) \<noteq> (org', mid')" by auto
    from completeSend_idle_after(2) [OF complete.hyps complete.prems(1) this complete.prems(2)] show ?thesis .
  next
    case False
    from idle_completeSend [OF complete.hyps this] complete.prems show ?thesis by (simp add: keeps_idle_def)
  qed
qed

lemma run_spent: "msg_run s es t \<Longrightarrow> outbox_ok s \<Longrightarrow> spent_message (org, mid) s \<Longrightarrow> RefusedForRetry org mid \<notin> set es \<Longrightarrow> spent_message (org, mid) t"
proof (induction rule: msg_run.induct)
  case (more s es t e u)
  from more show ?case by (auto intro: step_spent dest: run_ok)
qed

lemma eligible_run:
  assumes "validateClaim env org mid lease at s = Inr (Eligible cl, s')"
  obtains ob m v c ch where "selected_claim env org mid lease s = Some (ob, m, v, c, ch)" "me_active env org"
    "queued_media_allowed env org mid = Inr True \<or> queued_media_allowed env org mid = Inr False"
    "ineligible_reason env (case at of None \<Rightarrow> me_now env | Some t \<Rightarrow> db_us t) (queued_media_allowed env org mid = Inr True) s m v c ch = None"
    "begin_sending env lease \<lparr>oc_message = m, oc_contact = c, oc_channel = ch, oc_lease = lease, oc_attempts = ob_attempts ob\<rparr> s
       = Inr (Eligible cl, s')"
  using assms that unfolding validateClaim_def
  by (auto split: if_splits sum.splits option.splits bool.splits simp: tx_bind_eq_Inr refuse_claim_def Let_def)

lemma selected_claim_Some:
  assumes "selected_claim env org mid lease s = Some (ob, m, v, c, ch)"
  shows "find_outbox s org mid = Some ob" "find_message s org mid = Some m" "held_by org mid lease ob" "\<not> lease_over (me_now env) ob"
    "mg_state m = ACCEPTED" "parties s m = Some (v, c)" "find_channel s org (mg_channel m) = Some ch" "cn_transport ch = BROKER_TRANSPORT"
  using assms unfolding selected_claim_def by (auto split: option.splits if_splits)

lemma begin_sending_run:
  assumes "begin_sending env lease cl s = Inr (r, s')"
  shows "r = Eligible (cl\<lparr>oc_message := (oc_message cl)\<lparr>mg_state := SENDING, mg_updated := me_now env\<rparr>\<rparr>)"
    "ms_messages s' = update_rows (\<lambda>r. msg_at (mg_org (oc_message cl)) (mg_id (oc_message cl)) r \<and> mg_state r = ACCEPTED)
       (\<lambda>r. r\<lparr>mg_state := SENDING, mg_updated := me_now env\<rparr>) (ms_messages s)" "ms_outbox s' = ms_outbox s"
proof -
  from assms obtain s1 where s1: "s1 = s\<lparr>ms_messages := update_rows (\<lambda>r. msg_at (mg_org (oc_message cl)) (mg_id (oc_message cl)) r \<and> mg_state r = ACCEPTED)
       (\<lambda>r. r\<lparr>mg_state := SENDING, mg_updated := me_now env\<rparr>) (ms_messages s)\<rparr>" and q: "beginQrDispatchAttempt env (oc_message cl) lease s1 = Inr ((), s')"
    and r: "r = Eligible (cl\<lparr>oc_message := (oc_message cl)\<lparr>mg_state := SENDING, mg_updated := me_now env\<rparr>\<rparr>)"
    unfolding begin_sending_def Let_def by (auto simp: tx_bind_eq_Inr dest!: update_messages_Inr)
  have "ms_messages s' = ms_messages s1" "ms_outbox s' = ms_outbox s1"
    using q unfolding beginQrDispatchAttempt_def by (auto split: option.splits bool.splits if_splits)
  then show "r = Eligible (cl\<lparr>oc_message := (oc_message cl)\<lparr>mg_state := SENDING, mg_updated := me_now env\<rparr>\<rparr>)"
    "ms_messages s' = update_rows (\<lambda>r. msg_at (mg_org (oc_message cl)) (mg_id (oc_message cl)) r \<and> mg_state r = ACCEPTED)
       (\<lambda>r. r\<lparr>mg_state := SENDING, mg_updated := me_now env\<rparr>) (ms_messages s)" "ms_outbox s' = ms_outbox s"
    using r s1 by simp_all
qed

lemma cleared_is_spent:
  assumes run: "validateClaim env org mid lease at s = Inr (Eligible cl, s')" and ok: "outbox_ok s"
  shows "spent_message (org, mid) s'" and "\<not> spent_message (org, mid) s"
proof -
  obtain ob m v c ch where sel: "selected_claim env org mid lease s = Some (ob, m, v, c, ch)"
    and b: "begin_sending env lease \<lparr>oc_message = m, oc_contact = c, oc_channel = ch, oc_lease = lease, oc_attempts = ob_attempts ob\<rparr> s
       = Inr (Eligible cl, s')"
    by (rule eligible_run [OF run])
  note sc = selected_claim_Some [OF sel]
  note m = find_message_Some [OF sc(2)]
  have key: "mg_org m = org" "mg_id m = mid" using m by (auto simp: msg_key_def)
  note bs = begin_sending_run [OF b, simplified key outbox_claim.simps]
  have "idle (org, mid) s'"
    unfolding idle_def bs(2)
  proof
    have "keeps_key (\<lambda>r. r\<lparr>mg_state := SENDING, mg_updated := me_now env\<rparr>)" by (simp add: keeps_key_def)
    from keys_update_rows [OF this] m show "(org, mid) \<in> msg_key ` set (update_rows (\<lambda>r. msg_at org mid r \<and> mg_state r = ACCEPTED)
        (\<lambda>r. r\<lparr>mg_state := SENDING, mg_updated := me_now env\<rparr>) (ms_messages s))" by (metis image_eqI)
    show "\<forall>r \<in> set (update_rows (\<lambda>r. msg_at org mid r \<and> mg_state r = ACCEPTED)
        (\<lambda>r. r\<lparr>mg_state := SENDING, mg_updated := me_now env\<rparr>) (ms_messages s)). msg_key r = (org, mid) \<longrightarrow> mg_state r \<noteq> ACCEPTED"
      by (auto simp: update_rows_def msg_at_key)
  qed
  moreover have "\<not> ob_retrySafe q" if "q \<in> set (ms_outbox s)" "out_key q = (org, mid)" for q
    using ok that m sc(5) unfolding outbox_ok_def by metis
  ultimately show "spent_message (org, mid) s'" unfolding spent_message_def bs(3) by blast
  show "\<not> spent_message (org, mid) s" using m sc(5) unfolding spent_message_def idle_def by blast
qed

lemma msg_run_append: "msg_run s (xs @ ys) u \<Longrightarrow> \<exists>t. msg_run s xs t \<and> msg_run t ys u"
proof (induction ys arbitrary: u rule: rev_induct)
  case (snoc y ys)
  from snoc.prems obtain t where "msg_run s (xs @ ys) t" "msg_step t y u"
    by (cases rule: msg_run.cases) (auto simp: append_assoc [symmetric] simp del: append_assoc)
  with snoc.IH show ?case by (blast intro: msg_run.more)
qed (auto intro: msg_run.start)

inductive_cases msg_run_one: "msg_run s [e] t"
inductive_cases cleared_step: "msg_step s (Cleared org mid) t"

end
