(* ===== verification/Outbox_Properties.thy ===== *)
theory Outbox_Properties
  imports Outbox_Safety
begin

text \<open>The properties of the outgoing side of the messaging module.\<close>

section \<open>Sending at most once\<close>

text \<open>
  C1: Between two clearings of the same message to be sent to its provider there is a completion
  in which the provider refused it in a way that allows a retry: no order of enqueueing, claiming, lease
  expiry, status events, retries, bot turns and recoveries clears a message twice otherwise.
\<close>

theorem a_message_is_cleared_once:
  assumes "outbox_ok s" and "msg_run s (es @ Cleared org mid # ds @ [Cleared org mid]) t"
  shows "RefusedForRetry org mid \<in> set ds"
proof (rule ccontr)
  assume no: "RefusedForRetry org mid \<notin> set ds"
  from assms(2) msg_run_append [of s es "Cleared org mid # ds @ [Cleared org mid]" t]
  obtain a where a: "msg_run s es a" "msg_run a ([Cleared org mid] @ ds @ [Cleared org mid]) t" by auto
  from msg_run_append [OF a(2)] obtain b where b: "msg_run a [Cleared org mid] b" "msg_run b (ds @ [Cleared org mid]) t" by auto
  from msg_run_append [OF b(2)] obtain c where c: "msg_run b ds c" "msg_run c [Cleared org mid] t" by auto
  have oka: "outbox_ok a" using run_ok [OF a(1) assms(1)] .
  from b(1) have "msg_step a (Cleared org mid) b" by (cases rule: msg_run.cases) (auto elim: msg_run.cases)
  then obtain env lease at cl where one: "validateClaim env org mid lease at a = Inr (Eligible cl, b)"
    by (cases rule: msg_step.cases) (auto split: if_splits)
  from cleared_is_spent(1) [OF one oka] have "spent_message (org, mid) b" .
  with run_spent [OF c(1)] run_ok [OF b(1) oka] no have spent_message: "spent_message (org, mid) c" by blast
  from c(2) have "msg_step c (Cleared org mid) t" by (cases rule: msg_run.cases) (auto elim: msg_run.cases)
  then obtain env' lease' at' cl' where two: "validateClaim env' org mid lease' at' c = Inr (Eligible cl', t)"
    by (cases rule: msg_step.cases) (auto split: if_splits)
  from cleared_is_spent(2) [OF two run_ok [OF c(1) run_ok [OF b(1) oka]]] spent_message show False by blast
qed

section \<open>What is cleared has passed every policy\<close>

lemma eligible_facts:
  assumes "validateClaim env org mid lease at s = Inr (Eligible cl, s')"
  shows "mg_state (oc_message cl) = SENDING" and "ct_suppressed (oc_contact cl) = None"
    and "ct_consent (oc_contact cl) \<noteq> OPTED_OUT" and "mg_optIn (oc_message cl) \<longrightarrow> ct_consent (oc_contact cl) = OPTED_IN"
    and "mg_source (oc_message cl) = SRC_AUTOMATION \<longrightarrow> map_option cv_mode (find_conversation s org (mg_conversation (oc_message cl))) = Some BOT"
    and "cn_provider (oc_channel cl) = Some BAILEYS \<longrightarrow> connected_instance env (oc_channel cl)"
    and "cn_provider (oc_channel cl) \<noteq> Some BAILEYS \<and> \<not> is_template (mg_content (oc_message cl)) \<longrightarrow>
       inbound_within_day s (case at of None \<Rightarrow> me_now env | Some t \<Rightarrow> db_us t) (oc_message cl)"
    and "mg_apiKey (oc_message cl) = Some k \<longrightarrow> (\<exists>r \<in> set (me_keys env). ky_id r = k \<and> ky_revoked r = None \<and> ''messaging:send'' \<in> set (ky_scopes r))"
proof -
  obtain ob m v c ch where sel: "selected_claim env org mid lease s = Some (ob, m, v, c, ch)"
    and none: "ineligible_reason env (case at of None \<Rightarrow> me_now env | Some t \<Rightarrow> db_us t) (queued_media_allowed env org mid = Inr True) s m v c ch = None"
    and b: "begin_sending env lease \<lparr>oc_message = m, oc_contact = c, oc_channel = ch, oc_lease = lease, oc_attempts = ob_attempts ob\<rparr> s
       = Inr (Eligible cl, s')"
    by (rule eligible_run [OF assms])
  note sc = selected_claim_Some [OF sel]
  from begin_sending_run(1) [OF b] have cl: "oc_message cl = m\<lparr>mg_state := SENDING, mg_updated := me_now env\<rparr>" "oc_contact cl = c" "oc_channel cl = ch"
    by simp_all
  have key: "mg_org m = org" using find_message_Some [OF sc(2)] by (auto simp: msg_key_def)
  from sc(6) key have v: "find_conversation s org (mg_conversation m) = Some v"
    unfolding parties_def by (auto split: option.splits)
  have day: "inbound_within_day s t (m\<lparr>mg_state := SENDING, mg_updated := me_now env\<rparr>) = inbound_within_day s t m" for t
    by (simp add: inbound_within_day_def)
  note facts = none [unfolded ineligible_reason_def]
  show "mg_state (oc_message cl) = SENDING" by (simp add: cl)
  show "ct_suppressed (oc_contact cl) = None" using facts by (simp add: cl split: if_splits)
  show "ct_consent (oc_contact cl) \<noteq> OPTED_OUT" using facts by (auto simp: cl unconsented_def split: if_splits)
  show "mg_optIn (oc_message cl) \<longrightarrow> ct_consent (oc_contact cl) = OPTED_IN" using facts by (auto simp: cl unconsented_def split: if_splits)
  show "mg_source (oc_message cl) = SRC_AUTOMATION \<longrightarrow> map_option cv_mode (find_conversation s org (mg_conversation (oc_message cl))) = Some BOT"
    using facts by (cases "cv_mode v") (auto simp: cl v split: if_splits)
  show "cn_provider (oc_channel cl) = Some BAILEYS \<longrightarrow> connected_instance env (oc_channel cl)" using facts by (auto simp: cl split: if_splits)
  show "cn_provider (oc_channel cl) \<noteq> Some BAILEYS \<and> \<not> is_template (mg_content (oc_message cl)) \<longrightarrow>
       inbound_within_day s (case at of None \<Rightarrow> me_now env | Some t \<Rightarrow> db_us t) (oc_message cl)"
    using facts by (auto simp: cl day split: if_splits)
  have "partner_allowed env ch m" using facts by (auto split: if_splits)
  then show "mg_apiKey (oc_message cl) = Some k \<longrightarrow> (\<exists>r \<in> set (me_keys env). ky_id r = k \<and> ky_revoked r = None \<and> ''messaging:send'' \<in> set (ky_scopes r))"
    unfolding partner_allowed_def cl by (auto simp: list_ex_iff split: option.splits if_splits)
qed


section \<open>Claims\<close>

lemma claimOutgoing_run:
  assumes "claimOutgoing env org w now ms lim s = Inr (cls, s')" and "cl \<in> set cls"
  obtains s1 where "lease_candidates env org w (db_us now) ms lim s1 = Inr (cls, s')"
  using assms that unfolding claimOutgoing_def Let_def by (auto split: if_splits simp: tx_bind_eq_Inr)

lemma candidates_claimable: "(ob, m) \<in> set (candidates env org now lim s) \<Longrightarrow>
    claimable_row env org now s ob m \<and> ob \<in> set (ms_outbox s) \<and> m \<in> set (ms_messages s)"
  unfolding candidates_def by (auto dest!: in_set_takeD)

lemma find_update_rows: "(\<And>r. q (f r) = q r) \<Longrightarrow> find q (update_rows p f rs) = map_option (\<lambda>r. if p r then f r else r) (find q rs)"
  by (induction rs) auto

lemma claim_facts:
  assumes "claimOutgoing env org w now ms lim s = Inr (cls, s')" and "cl \<in> set cls"
  shows "oc_message cl \<in> set (ms_messages s')" and "mg_state (oc_message cl) = ACCEPTED" and "oc_lease cl = w"
    and "e \<in> set (ms_messages s') \<Longrightarrow> \<not> holds_back s' (oc_message cl) e"
    and "\<exists>ob \<in> set (ms_outbox s'). out_at org (mg_id (oc_message cl)) ob \<and> ob_lease ob = Some (w, db_us now + ms * 1000)"
proof -
  obtain s1 where run: "lease_candidates env org w (db_us now) ms lim s1 = Inr (cls, s')"
    by (rule claimOutgoing_run [OF assms])
  define cs where "cs = candidates env org (db_us now) lim s1"
  from run have s': "s' = s1\<lparr>ms_outbox := update_rows (\<lambda>ob. list_ex (\<lambda>(o', m). ob_org ob = ob_org o' \<and> ob_message ob = ob_message o') cs)
          (\<lambda>ob. ob\<lparr>ob_lease := Some (w, db_us now + ms * 1000), ob_attempts := ob_attempts ob + 1, ob_updated := db_us now\<rparr>) (ms_outbox s1)\<rparr>"
    and cls: "cls = List.map_filter (\<lambda>(ob, m). claim_of s' w (ob_attempts ob + 1) m) cs
      \<or> cls = List.map_filter (\<lambda>(ob, m). claim_of s1 w (ob_attempts ob + 1) m) cs"
    unfolding lease_candidates_def cs_def Let_def update_outbox_def by (auto simp: tx_bind_eq_Inr)
  have same: "claim_of s' w n m = claim_of s1 w n m" for n m
  proof -
    have "find_contact s' = find_contact s1" "find_channel s' = find_channel s1" "find_conversation s' = find_conversation s1"
      by (simp_all add: s' find_contact_def find_channel_def find_conversation_def fun_eq_iff)
    then show ?thesis by (simp only: claim_of_def parties_def)
  qed
  from cls assms(2) obtain ob m where mem: "(ob, m) \<in> set cs" and cl: "claim_of s1 w (ob_attempts ob + 1) m = Some cl"
    by (auto simp: List.map_filter_def same)
  from cl have oc: "oc_message cl = m" "oc_lease cl = w"
    unfolding claim_of_def by (auto split: option.splits)
  note c = candidates_claimable [OF mem [unfolded cs_def]]
  show "oc_message cl \<in> set (ms_messages s')" using c by (simp add: oc s')
  show "mg_state (oc_message cl) = ACCEPTED" using c by (simp add: oc claimable_row_def)
  show "oc_lease cl = w" by (rule oc)
  have none: "find_outbox s' o' i = None \<longleftrightarrow> find_outbox s1 o' i = None" for o' i
    unfolding find_outbox_def s' by (simp add: find_update_rows out_at_def)
  show "\<not> holds_back s' (oc_message cl) e" if "e \<in> set (ms_messages s')"
    using c that none unfolding claimable_row_def list_ex_iff oc holds_back_def abandoned_attempt_def by (simp add: s')
  show "\<exists>q \<in> set (ms_outbox s'). out_at org (mg_id (oc_message cl)) q \<and> ob_lease q = Some (w, db_us now + ms * 1000)"
  proof
    let ?f = "\<lambda>q. q\<lparr>ob_lease := Some (w, db_us now + ms * 1000), ob_attempts := ob_attempts q + 1, ob_updated := db_us now\<rparr>"
    have "list_ex (\<lambda>(o', m). ob_org ob = ob_org o' \<and> ob_message ob = ob_message o') cs"
      using mem by (auto simp: list_ex_iff)
    with c show "?f ob \<in> set (ms_outbox s')" by (auto simp: s' update_rows_def)
    show "out_at org (mg_id (oc_message cl)) (?f ob) \<and> ob_lease (?f ob) = Some (w, db_us now + ms * 1000)"
      using c by (auto simp: oc claimable_row_def out_at_def)
  qed
qed


text \<open>
  C36: When the database refuses to put a due message back to wait (its channel is archived, or the
  organization is at its limit of pending messages), claimOutgoing fails as a whole: no message of
  the organization is claimed, and the next run meets the same message again.
\<close>

theorem refused_retry_stops_the_outbox:
  assumes "me_active env org" and "m \<in> set (ms_messages s)" and "ob \<in> set (ms_outbox s)" and "retry_due org (db_us now) ob m"
    and "\<And>rows. me_admit env rows (Some m) (m\<lparr>mg_state := ACCEPTED, mg_error := None, mg_updated := db_us now\<rparr>) \<noteq> None"
  shows "\<exists>e. run_tx (claimOutgoing env org w now ms lim) s = (Inl e, s)"
proof -
  have "list_ex (\<lambda>ob. retry_due org (db_us now) ob m) (ms_outbox s)" using assms(3,4) by (auto simp: list_ex_iff)
  with sweep_refused [OF assms(2), of "\<lambda>m. list_ex (\<lambda>ob. retry_due org (db_us now) ob m) (ms_outbox s)" "me_admit env"
      "\<lambda>m. m\<lparr>mg_state := ACCEPTED, mg_error := None, mg_updated := db_us now\<rparr>" "[]"] assms(5)
  obtain e where "sweep (me_admit env) (\<lambda>m. list_ex (\<lambda>ob. retry_due org (db_us now) ob m) (ms_outbox s))
      (\<lambda>m. m\<lparr>mg_state := ACCEPTED, mg_error := None, mg_updated := db_us now\<rparr>) [] (ms_messages s) = Inl e" by blast
  then have "retry_messages env org (db_us now) s = Inl e"
    unfolding retry_messages_def Let_def update_outbox_def by (simp add: tx_bind_def update_messages_def)
  with assms(1) show ?thesis by (simp add: claimOutgoing_def run_tx_def Let_def)
qed

section \<open>Enqueueing\<close>

lemma find_append: "find p (xs @ ys) = (case find p xs of None \<Rightarrow> find p ys | Some x \<Rightarrow> Some x)"
  by (induction xs) auto

lemma keyed_update_rows:
  "(\<And>m. mg_org (f m) = mg_org m \<and> mg_channel (f m) = mg_channel m \<and> mg_key (f m) = mg_key m) \<Longrightarrow>
    find (keyed org chan key) ms = None \<Longrightarrow> find (keyed org chan key) (update_rows p f ms) = None"
  by (simp add: find_update_rows keyed_def)

lemma fence_keeps_keys:
  assumes "fence_superseded env i s = Inr (u, s')" and "find (keyed org chan key) (ms_messages s) = None"
  shows "find (keyed org chan key) (ms_messages s') = None"
proof -
  have "find (keyed org chan key) (ms_messages s') = None"
    if "interruptChatwootAttendance env o' conv s = Inr ((), s')" for o' conv
  proof -
    from that obtain p f where "ms_messages s' = update_rows p f (ms_messages s)"
      and "\<And>m. mg_org (f m) = mg_org m \<and> mg_channel (f m) = mg_channel m \<and> mg_key (f m) = mg_key m"
      unfolding interruptChatwootAttendance_def settle_messages_def delete_outbox_def Let_def
      by (auto simp: tx_bind_eq_Inr dest!: update_messages_Inr)
    with assms(2) show ?thesis by (simp add: keyed_update_rows)
  qed
  with assms show ?thesis unfolding fence_superseded_def by (auto split: if_splits option.splits)
qed

text \<open>
  C37: Enqueueing is idempotent: after a message was created, the same key answers the same message and
  changes nothing, and the same key with another body is a conflict.
\<close>

theorem enqueueing_is_idempotent:
  assumes "enqueueOutgoing env i s = Inr (Created m, s')"
    and "en_org j = en_org i" and "en_channel j = en_channel i" and "en_key j = en_key i"
  shows "enqueueOutgoing env' j s' = (if en_hash j = en_hash i then Inr (Replayed m, s')
    else Inl (MessagingRepositoryError ''IDEMPOTENCY_CONFLICT'' 409))"
proof -
  from assms(1) obtain s1 s2 where new: "find (keyed (en_org i) (en_channel i) (en_key i)) (ms_messages s) = None"
    and fence: "fence_superseded env i s = Inr ((), s1)" and q: "queue_message env \<lparr>mg_id = en_id i, mg_org = en_org i,
                mg_channel = en_channel i, mg_conversation = en_conversation i,
                mg_direction = OUTGOING, mg_source = en_source i, mg_scope = '''', mg_upstream = None, mg_content = en_content i,
                mg_state = ACCEPTED, mg_error = None, mg_key = Some (en_key i, en_hash i), mg_optIn = is_template (en_content i) \<or> en_requireOptIn i,
                mg_apiKey = en_apiKey i, mg_campaign = en_campaign i, mg_seq = 0, mg_created = me_now env, mg_updated = me_now env,
                mg_historical = False\<rparr> s1 = Inr (m, s')"
    unfolding enqueueOutgoing_def Let_def by (auto split: option.splits if_splits simp: tx_bind_eq_Inr)
  from q obtain t where "insert_message env \<lparr>mg_id = en_id i, mg_org = en_org i,
                mg_channel = en_channel i, mg_conversation = en_conversation i,
                mg_direction = OUTGOING, mg_source = en_source i, mg_scope = '''', mg_upstream = None, mg_content = en_content i,
                mg_state = ACCEPTED, mg_error = None, mg_key = Some (en_key i, en_hash i), mg_optIn = is_template (en_content i) \<or> en_requireOptIn i,
                mg_apiKey = en_apiKey i, mg_campaign = en_campaign i, mg_seq = 0, mg_created = me_now env, mg_updated = me_now env,
                mg_historical = False\<rparr> s1 = Inr (m, t)" and "ms_messages s' = ms_messages t"
    unfolding queue_message_def by (auto simp: tx_bind_eq_Inr)
  with insert_message_Inr have ms: "ms_messages s' = ms_messages s1 @ [m]" and m: "mg_org m = en_org i" "mg_channel m = en_channel i"
      "mg_key m = Some (en_key i, en_hash i)" by fastforce+
  have "find (keyed (en_org i) (en_channel i) (en_key i)) (ms_messages s') = Some m"
    using fence_keeps_keys [OF fence new] by (simp add: ms find_append keyed_def m)
  with assms(2-4) m show ?thesis unfolding enqueueOutgoing_def Let_def by simp
qed

end
