(* ===== verification/Outbox_Demo.thy ===== *)
theory Outbox_Demo
  imports Outbox_Properties
begin

text \<open>
  A small organization with a QR channel, and the witnesses of the properties of the outbox: an
  operator's message is enqueued, claimed and cleared; the provider asks to try later; the message is
  put back, claimed and cleared again.
\<close>

definition mx_instance :: inst_db where
  "mx_instance = \<lparr>in_id = ''i'', in_org = ''o'', in_account = ''a'', in_name = ''n'', in_key = ''k'', in_extref = None,
     in_status = CONNECTED, in_caps = [], in_created = 0, in_updated = 0, in_observed = None, in_fingerprint = None, in_archived = None\<rparr>"

definition mx_env :: "int \<Rightarrow> msg_env" where
  "mx_env now = \<lparr>me_now = now, me_clock = now, me_fresh = (\<lambda>n. ''f'' @ replicate n CHR ''x''), me_active = (\<lambda>org. org = ''o''), me_instances = [mx_instance],
     me_keys = [], me_admit = (\<lambda>_ _ _. None), me_scope = (\<lambda>_ _. ''''), me_identityReady = (\<lambda>_ _. True), me_flowAllowed = (\<lambda>_ _. True),
     me_campaign = (\<lambda>_ _. True), me_privateOpen = (\<lambda>_ _. True), me_metaReady = (\<lambda>_. True), me_mediaUsable = (\<lambda>_ _. True),
     me_mediaAuthority = (\<lambda>_ _. None), me_writable = (\<lambda>_ _. True), me_groupChanged = (\<lambda>_ _. False)\<rparr>"

definition mx_state :: msg_state where
  "mx_state = \<lparr>ms_channels = [\<lparr>cn_id = ''c'', cn_org = ''o'', cn_account = Some ''a'', cn_provider = Some BAILEYS, cn_transport = BROKER_TRANSPORT,
       cn_instance = Some ''i'', cn_phone = None, cn_waba = None, cn_credential = '''', cn_botPublicId = None, cn_botOrigin = None\<rparr>],
     ms_contacts = [\<lparr>ct_id = ''k'', ct_org = ''o'', ct_external = ''551'', ct_name = None, ct_consent = CONSENT_UNKNOWN, ct_consentUpdated = None,
       ct_suppressed = None, ct_updated = 0\<rparr>],
     ms_conversations = [\<lparr>cv_id = ''v'', cv_org = ''o'', cv_channel = ''c'', cv_contact = ''k'', cv_mode = HUMAN, cv_botPublicId = None,
       cv_botOrigin = None, cv_session = None, cv_remoteKey = None, cv_attendance = 0, cv_updated = 0\<rparr>],
     ms_messages = [], ms_outbox = [], ms_inbox = [], ms_statuses = [], ms_jobs = [], ms_attempts = [], ms_observations = [], ms_seq = 0\<rparr>"

definition mx_input :: enqueue_input where
  "mx_input = \<lparr>en_id = ''m'', en_org = ''o'', en_channel = ''c'', en_conversation = ''v'', en_source = SRC_OPERATOR, en_content = TEXT ''hi'',
     en_key = ''key'', en_hash = ''h'', en_requireOptIn = False, en_apiKey = None, en_campaign = None, en_proof = False\<rparr>"

text \<open>The state a committed operation leaves.\<close>

definition after :: "js_error + ('a \<times> msg_state) \<Rightarrow> msg_state" where
  "after = end_state mx_state"

lemma commitsD: "commits r p \<Longrightarrow> \<exists>a. r = Inr (a, after r) \<and> p a"
  by (simp add: after_def commits_end)

definition mx1 :: msg_state where "mx1 = after (enqueueOutgoing (mx_env 1000000) mx_input mx_state)"
definition mx2 :: msg_state where "mx2 = after (claimOutgoing (mx_env 1000000) ''o'' ''w'' 1000 120000 1 mx1)"
definition mx3 :: msg_state where "mx3 = after (validateClaim (mx_env 2000000) ''o'' ''m'' ''w'' None mx2)"
definition mx4 :: msg_state where "mx4 = after (completeSend (mx_env 3000000) ''o'' ''m'' ''w'' (OutFailed ''EVOLUTION_ENGINE_RETRY_LATER'' True) mx3)"
definition mx5 :: msg_state where "mx5 = after (claimOutgoing (mx_env 60000000) ''o'' ''x'' 60000 120000 1 mx4)"
definition mx6 :: msg_state where "mx6 = after (validateClaim (mx_env 61000000) ''o'' ''m'' ''x'' None mx5)"

definition is_eligible :: "claim_validation \<Rightarrow> bool" where
  "is_eligible v = (case v of Eligible _ \<Rightarrow> True | _ \<Rightarrow> False)"

definition is_created :: "enqueue_result \<Rightarrow> bool" where
  "is_created r = (case r of Created _ \<Rightarrow> True | _ \<Rightarrow> False)"

lemma is_eligibleD: "is_eligible v \<Longrightarrow> \<exists>cl. v = Eligible cl"
  by (cases v) (auto simp: is_eligible_def)

lemma is_createdD: "is_created r \<Longrightarrow> \<exists>m. r = Created m"
  by (cases r) (auto simp: is_created_def)

lemma mx_commits:
  "commits (enqueueOutgoing (mx_env 1000000) mx_input mx_state) is_created"
  "commits (claimOutgoing (mx_env 1000000) ''o'' ''w'' 1000 120000 1 mx1) (\<lambda>cs. length cs = 1)"
  "commits (validateClaim (mx_env 2000000) ''o'' ''m'' ''w'' None mx2) is_eligible"
  "commits (completeSend (mx_env 3000000) ''o'' ''m'' ''w'' (OutFailed ''EVOLUTION_ENGINE_RETRY_LATER'' True) mx3) (\<lambda>_. True)"
  "commits (claimOutgoing (mx_env 60000000) ''o'' ''x'' 60000 120000 1 mx4) (\<lambda>cs. length cs = 1)"
  "commits (validateClaim (mx_env 61000000) ''o'' ''m'' ''x'' None mx5) is_eligible"
  by code_simp+

lemma mx_ok: "outbox_ok mx_state"
  by (simp add: outbox_ok_def mx_state_def)

lemma mx_run: "msg_run mx_state ([Other, Other] @ Cleared ''o'' ''m'' # [RefusedForRetry ''o'' ''m'', Other] @ [Cleared ''o'' ''m'']) mx6"
proof -
  note start = msg_run.start [of mx_state]
  have "msg_step mx_state Other mx1"
    using commitsD [OF mx_commits(1)] unfolding mx1_def by (blast intro: quiet_step.enqueue msg_step.quiet)
  from msg_run.more [OF start this] have r1: "msg_run mx_state [Other] mx1" by simp
  have "msg_step mx1 Other mx2"
    using commitsD [OF mx_commits(2)] unfolding mx2_def by (blast intro: msg_step.claim)
  from msg_run.more [OF r1 this] have r2: "msg_run mx_state [Other, Other] mx2" by simp
  have "msg_step mx2 (Cleared ''o'' ''m'') mx3"
    using commitsD [OF mx_commits(3)] unfolding mx3_def by (blast dest: is_eligibleD intro: msg_step.cleared)
  from msg_run.more [OF r2 this] have r3: "msg_run mx_state [Other, Other, Cleared ''o'' ''m''] mx3" by simp
  obtain a where "completeSend (mx_env 3000000) ''o'' ''m'' ''w'' (OutFailed ''EVOLUTION_ENGINE_RETRY_LATER'' True) mx3 = Inr (a, mx4)"
    using commitsD [OF mx_commits(4)] unfolding mx4_def by blast
  from msg_step.complete [OF this] have "msg_step mx3 (RefusedForRetry ''o'' ''m'') mx4" by (simp add: outcome_retry_def)
  from msg_run.more [OF r3 this] have r4: "msg_run mx_state [Other, Other, Cleared ''o'' ''m'', RefusedForRetry ''o'' ''m''] mx4" by simp
  have "msg_step mx4 Other mx5"
    using commitsD [OF mx_commits(5)] unfolding mx5_def by (blast intro: msg_step.claim)
  from msg_run.more [OF r4 this] have r5: "msg_run mx_state [Other, Other, Cleared ''o'' ''m'', RefusedForRetry ''o'' ''m'', Other] mx5" by simp
  have "msg_step mx5 (Cleared ''o'' ''m'') mx6"
    using commitsD [OF mx_commits(6)] unfolding mx6_def by (blast dest: is_eligibleD intro: msg_step.cleared)
  from msg_run.more [OF r5 this] show ?thesis by simp
qed

theorem a_message_is_cleared_once_witness:
  "(\<exists>es t. msg_run mx_state es t \<and> length (filter (\<lambda>e. e = Cleared ''o'' ''m'') es) = 2)
    \<and> RefusedForRetry ''o'' ''m'' \<in> set [RefusedForRetry ''o'' ''m'', Other]"
proof
  show "\<exists>es t. msg_run mx_state es t \<and> length (filter (\<lambda>e. e = Cleared ''o'' ''m'') es) = 2"
    using mx_run by (intro exI conjI) (assumption, simp)
  show "RefusedForRetry ''o'' ''m'' \<in> set [RefusedForRetry ''o'' ''m'', Other]"
    by (rule a_message_is_cleared_once [OF mx_ok mx_run])
qed



text \<open>The same tables, with a database that refuses to put the message back: its channel was archived.\<close>

definition mx_archived :: msg_env where
  "mx_archived = (mx_env 60000000)\<lparr>me_admit := (\<lambda>_ old new. if old \<noteq> None \<and> mg_state new = ACCEPTED
     then Some (DatabaseError ''23514'' ''instance_archived'') else None)\<rparr>"

theorem refused_retry_stops_the_outbox_witness:
  "\<exists>e. run_tx (claimOutgoing mx_archived ''o'' ''x'' 60000 120000 1) mx4 = (Inl e, mx4)"
proof (rule refused_retry_stops_the_outbox)
  show "me_active mx_archived ''o''" by (simp add: mx_archived_def mx_env_def)
  show "hd (ms_messages mx4) \<in> set (ms_messages mx4)" by code_simp
  show "hd (ms_outbox mx4) \<in> set (ms_outbox mx4)" by code_simp
  show "retry_due ''o'' (db_us 60000) (hd (ms_outbox mx4)) (hd (ms_messages mx4))" by code_simp
  show "me_admit mx_archived rows (Some (hd (ms_messages mx4)))
      ((hd (ms_messages mx4))\<lparr>mg_state := ACCEPTED, mg_error := None, mg_updated := db_us 60000\<rparr>) \<noteq> None" for rows
    by (simp add: mx_archived_def)
qed

theorem enqueueing_is_idempotent_witness:
  "\<exists>m. enqueueOutgoing (mx_env 1000000) mx_input mx_state = Inr (Created m, mx1)
    \<and> enqueueOutgoing (mx_env 5000000) mx_input mx1 = Inr (Replayed m, mx1)"
proof -
  obtain m where run: "enqueueOutgoing (mx_env 1000000) mx_input mx_state = Inr (Created m, mx1)"
    using commitsD [OF mx_commits(1)] unfolding mx1_def by (blast dest: is_createdD)
  from enqueueing_is_idempotent [OF run, of mx_input "mx_env 5000000"] run show ?thesis by simp
qed

end
