(* ===== verification/Dispatcher_Properties.thy ===== *)
theory Dispatcher_Properties
  imports Dispatcher Outbox_Demo
begin

text \<open>
  The dispatcher asks the provider at most once, right after a successful validation, and records
  exactly what came of it; the variables of an accepted template are numbered from one without gaps.
\<close>

section \<open>The order of the effects\<close>

datatype port_event = EPrepared | EValidated "js_error + bool" | EPosted "js_error + string" | ECompleted send_outcome

definition traced :: "((js_error + 'a) \<Rightarrow> port_event) \<Rightarrow> ('w, 'a) io \<Rightarrow> (port_event list \<times> 'w, 'a) io" where
  "traced ev m tw = (case m (snd tw) of (r, w) \<Rightarrow> (r, (fst tw @ [ev r], w)))"

definition traced_client :: "'w send_client \<Rightarrow> (port_event list \<times> 'w) send_client" where
  "traced_client c = \<lparr>cl_sendText = (\<lambda>to t. traced EPosted (cl_sendText c to t)),
     cl_sendTemplate = (\<lambda>to i. traced EPosted (cl_sendTemplate c to i)), cl_listTemplates = traced (\<lambda>_. EPrepared) (cl_listTemplates c)\<rparr>"

definition map_result :: "('a \<Rightarrow> 'b) \<Rightarrow> ('w, 'a) io \<Rightarrow> ('w, 'b) io" where
  "map_result f m w = (case m w of (r, w') \<Rightarrow> (map_sum id f r, w'))"

text \<open>The same ports, each leaving its event in a trace.\<close>

definition traced_ports :: "'w dispatch_ports \<Rightarrow> (port_event list \<times> 'w) dispatch_ports" where
  "traced_ports p = \<lparr>dp_validate = (\<lambda>cl. traced EValidated (dp_validate p cl)),
     dp_resolve = (\<lambda>cl. map_result traced_client (traced (\<lambda>_. EPrepared) (dp_resolve p cl))),
     dp_prepare = map_option (\<lambda>f cl. map_result (traced EPosted) (traced (\<lambda>_. EPrepared) (f cl))) (dp_prepare p),
     dp_complete = (\<lambda>cl out. traced (\<lambda>_. ECompleted out) (dp_complete p cl out))\<rparr>"

fun well_ordered :: "bool \<Rightarrow> port_event list \<Rightarrow> bool" where
  "well_ordered qr (EPrepared # es) = well_ordered qr es"
| "well_ordered qr [ECompleted (OutFailed _ _)] = True"
| "well_ordered qr [EValidated (Inl _)] = True"
| "well_ordered qr [EValidated (Inr False)] = True"
| "well_ordered qr [EValidated (Inr True), EPosted r, ECompleted out] =
     (out = (case r of Inl e \<Rightarrow> providerOutcome e qr | Inr u \<Rightarrow> OutSent u))"
| "well_ordered qr _ = False"

lemma well_ordered_prepared: "set pre \<subseteq> {EPrepared} \<Longrightarrow> well_ordered qr (pre @ es) = well_ordered qr es"
  by (induction pre) auto

lemma traced_complete: "fst (snd (dp_complete (traced_ports p) cl out (tr, w))) = tr @ [ECompleted out]"
  by (simp add: traced_ports_def traced_def split: prod.splits)

lemma send_validated_trace:
  assumes "set pre \<subseteq> {EPrepared}" and send: "\<And>tw. \<exists>r w'. send tw = (r, (fst tw @ [EPosted r], w'))"
  shows "well_ordered qr (fst (snd (send_validated (traced_ports p) cl qr send (pre, w))))"
proof -
  obtain r1 w1 where "dp_validate p cl w = (r1, w1)" by fastforce
  then have v: "dp_validate (traced_ports p) cl (pre, w) = (r1, (pre @ [EValidated r1], w1))"
    by (simp add: traced_ports_def traced_def)
  show ?thesis
  proof (cases r1)
    case (Inl e)
    with v assms(1) show ?thesis by (simp add: send_validated_def io_bind_def well_ordered_prepared)
  next
    case (Inr ok)
    obtain r2 w2 where s: "send (pre @ [EValidated (Inr ok)], w1) = (r2, ((pre @ [EValidated (Inr ok)]) @ [EPosted r2], w2))"
      using send [of "(pre @ [EValidated (Inr ok)], w1)"] by auto
    have "\<not> ok \<Longrightarrow> fst (snd (send_validated (traced_ports p) cl qr send (pre, w))) = pre @ [EValidated (Inr False)]"
      using v Inr by (simp add: send_validated_def io_bind_def)
    moreover have "ok \<Longrightarrow> fst (snd (send_validated (traced_ports p) cl qr send (pre, w)))
        = pre @ [EValidated (Inr True), EPosted r2, ECompleted (case r2 of Inl e \<Rightarrow> providerOutcome e qr | Inr u \<Rightarrow> OutSent u)]"
      using v s Inr by (simp add: send_validated_def io_bind_def io_try_def traced_complete)
    ultimately show ?thesis using assms(1) by (cases ok) (simp_all add: well_ordered_prepared)
  qed
qed

lemma traced_posts: "\<exists>r w'. traced EPosted m tw = (r, (fst tw @ [EPosted r], w'))"
  by (simp add: traced_def split: prod.splits)

text \<open>
  C3: A dispatch prepares, and then either records a failure without having asked the provider, or
  validates the claim and, only if it is still valid, asks the provider once and records once what
  came of it: the identifier the provider gave, or the classification of its error.
\<close>

theorem dispatch_posts_at_most_once_after_validation:
  "well_ordered (cn_provider (oc_channel cl) = Some BAILEYS) (fst (snd (dispatchClaim cl (traced_ports p) ([], w))))"
proof -
  let ?p = "traced_ports p"
  let ?qr = "cn_provider (oc_channel cl) = Some BAILEYS"
  have fails: "well_ordered ?qr (fst (snd (dp_complete ?p cl (OutFailed c rs) (pre, v))))" if "set pre \<subseteq> {EPrepared}" for c rs pre v
    using that by (simp add: traced_complete well_ordered_prepared)
  have sent: "well_ordered ?qr (fst (snd (send_validated ?p cl ?qr (traced EPosted m) (pre, v))))" if "set pre \<subseteq> {EPrepared}" for m pre v
    using that by (rule send_validated_trace) (rule traced_posts)
  obtain r w1 where raw: "dp_resolve p cl w = (r, w1)" by fastforce
  then have res: "dp_resolve ?p cl ([], w) = (map_sum id traced_client r, ([EPrepared], w1))"
    by (simp add: traced_ports_def map_result_def traced_def)
  show ?thesis
  proof (cases "?qr \<and> is_template (mg_content (oc_message cl))")
    case True
    then show ?thesis using fails [of "[]"] by (simp add: dispatchClaim_def)
  next
    case norm: False
    show ?thesis
    proof (cases r)
      case (Inl e)
      with norm res show ?thesis using fails [of "[EPrepared]"] by (auto simp: dispatchClaim_def io_bind_def io_try_def resolve_failure_def Let_def)
    next
      case (Inr client)
      note start = norm res [unfolded Inr, simplified]
      show ?thesis
      proof (cases "mg_content (oc_message cl)")
        case (TEXT t)
        with start show ?thesis using sent [of "[EPrepared]"]
          by (auto simp: dispatchClaim_def io_bind_def io_try_def traced_client_def Let_def)
      next
        case (TEMPLATE n l vs)
        obtain rt w2 where lt: "cl_listTemplates client w1 = (rt, w2)" by fastforce
        with start TEMPLATE show ?thesis using fails [of "[EPrepared, EPrepared]"] sent [of "[EPrepared, EPrepared]"]
          by (cases rt) (auto simp: dispatchClaim_def io_bind_def io_try_def traced_client_def traced_def [of "\<lambda>_. EPrepared"] Let_def split: sum.split)
      next
        case (MEDIA i k f c)
        show ?thesis
        proof (cases "dp_prepare p")
          case None
          then have "prepare_media ?p cl ([EPrepared], w1) = (Inl (MediaError ''MEDIA_NOT_CONFIGURED'' False), ([EPrepared], w1))"
            by (simp add: prepare_media_def traced_ports_def)
          with start MEDIA show ?thesis using fails [of "[EPrepared]"]
            by (auto simp: dispatchClaim_def io_bind_def io_try_def media_failure_def Let_def)
        next
          case (Some g)
          obtain rm w2 where pm: "g cl w1 = (rm, w2)" by fastforce
          have prep: "prepare_media ?p cl ([EPrepared], w1) = (map_sum id (traced EPosted) rm, ([EPrepared, EPrepared], w2))"
            using Some pm by (simp add: prepare_media_def traced_ports_def map_result_def traced_def)
          with start MEDIA show ?thesis using fails [of "[EPrepared, EPrepared]"] sent [of "[EPrepared, EPrepared]"]
            by (cases rm) (auto simp: dispatchClaim_def io_bind_def io_try_def media_failure_def Let_def split: js_error.split)
        qed
      qed
    qed
  qed
qed

section \<open>Templates\<close>

lemma numbered_from_upto: "numbered_from k ns \<Longrightarrow> ns = [k..k + int (length ns) - 1]"
proof (induction ns arbitrary: k)
  case (Cons n ns)
  then have n: "n = k" by simp
  from Cons.IH [of "k + 1"] Cons.prems have ns: "ns = [k + 1..k + 1 + int (length ns) - 1]" by simp
  have "[k..k + int (length (n # ns)) - 1] = k # [k + 1..k + 1 + int (length ns) - 1]"
    by (subst upto.simps) (simp add: algebra_simps)
  with n ns show ?case by simp
qed simp

lemma readBodyPositions_numbered:
  assumes "readBodyPositions t = Positions ns"
  shows "ns = [1..int (length ns)]" and "length ns \<le> MAX_TEMPLATE_VARIABLES"
proof -
  from assms have num: "numbered_from 1 ns" and len: "length ns \<le> MAX_TEMPLATE_VARIABLES"
    unfolding readBodyPositions_def Let_def by (auto split: prod.splits positions.splits if_splits)
  from numbered_from_upto [OF num] show "ns = [1..int (length ns)]" by simp
  show "length ns \<le> MAX_TEMPLATE_VARIABLES" by (rule len)
qed

definition is_body :: "json \<Rightarrow> string \<Rightarrow> bool" where
  "is_body c t \<longleftrightarrow> (\<exists>ty. json_field c ''type'' = Some (JStr ty) \<and> map to_upper ty = ''BODY'') \<and> json_field c ''text'' = Some (JStr t)"

lemma inspect_from_count:
  "inspect_from body cs = VariableCount n \<Longrightarrow>
    body = Some n \<or> body = None \<and> (\<exists>c \<in> set cs. \<exists>t. is_body c t \<and> readBodyPositions t = Positions [1..int n] \<and> n \<le> MAX_TEMPLATE_VARIABLES)"
proof (induction cs arbitrary: body)
  case Nil
  then show ?case by (auto split: option.splits)
next
  case (Cons c cs)
  obtain ty where ty: "json_field c ''type'' = Some (JStr ty)"
    using Cons.prems by (auto split: json.splits option.splits)
  show ?case
  proof (cases "map to_upper ty = ''BODY''")
    case True
    with Cons.prems ty obtain t ns where b: "body = None" "json_field c ''text'' = Some (JStr t)" "readBodyPositions t = Positions ns"
      and rest: "inspect_from (Some (length ns)) cs = VariableCount n"
      by (auto simp: Let_def split: option.splits json.splits positions.splits)
    have "length ns = n" using Cons.IH [OF rest] by simp
    with readBodyPositions_numbered [OF b(3)] b ty True show ?thesis by (auto simp: is_body_def)
  next
    case False
    with Cons.prems ty have "inspect_from body cs = VariableCount n"
      by (auto simp: Let_def split: if_splits json.splits)
    from Cons.IH [OF this] show ?thesis by auto
  qed
qed

text \<open>
  C38: A template passes the check only if exactly one template has its name and language, that one
  is approved, its body's markers are numbered from 1 without gaps up to the number of variables
  given, and there are at most a hundred of them.
\<close>

theorem accepted_templates_are_numbered:
  assumes "preflightTemplate name language vs ts = Inr input"
  shows "ti_parameters input = vs \<and> length vs \<le> 100 \<and> (\<exists>t c text. filter (\<lambda>t. te_name t = name \<and> te_language t = language) ts = [t]
    \<and> te_status t = ''APPROVED'' \<and> c \<in> set (te_components t) \<and> is_body c text \<and> readBodyPositions text = Positions [1..int (length vs)])"
proof -
  from assms obtain t where t: "filter (\<lambda>t. te_name t = name \<and> te_language t = language) ts = [t]" "te_status t = ''APPROVED''"
    and n: "inspect_from None (te_components t) = VariableCount (length vs)" and i: "ti_parameters input = vs"
    unfolding preflightTemplate_def inspectTemplateComponents_def
    by (auto split: list.splits if_splits components_check.splits)
  from inspect_from_count [OF n] obtain c b where "c \<in> set (te_components t)" "is_body c b"
      "readBodyPositions b = Positions [1..int (length vs)]" and "length vs \<le> MAX_TEMPLATE_VARIABLES" by blast
  with t i show ?thesis unfolding MAX_TEMPLATE_VARIABLES_def by blast
qed

definition mx_template :: template where
  "mx_template = \<lparr>te_name = ''t'', te_language = ''pt'', te_status = ''APPROVED'',
     te_components = [JObj [(''type'', JStr ''body''), (''text'', JStr ''Oi {{2}} e {{ 1 }}'')]]\<rparr>"

theorem accepted_templates_are_numbered_witness:
  "preflightTemplate ''t'' ''pt'' [''a'', ''b''] [mx_template] = Inr \<lparr>ti_name = ''t'', ti_language = ''pt'', ti_parameters = [''a'', ''b'']\<rparr>
    \<and> length [''a'', ''b''] \<le> (100 :: nat)"
proof -
  have run: "preflightTemplate ''t'' ''pt'' [''a'', ''b''] [mx_template] = Inr \<lparr>ti_name = ''t'', ti_language = ''pt'', ti_parameters = [''a'', ''b'']\<rparr>"
    by code_simp
  from accepted_templates_are_numbered [OF this] run show ?thesis by blast
qed

end
