(* ===== verification/Messaging_Worker.thy ===== *)
theory Messaging_Worker
  imports Dispatcher Inbox
begin

text \<open>
  The messaging worker of apps/api/src/modules/messaging/worker.ts and the bot turn of
  bot-runner.ts: one pass over a tenant recovers the QR ledger, runs a claimed bot turn, and
  dispatches a claimed message, each step in a transaction of its own. The providers, the flow and
  automation services and the clocks are parameters.
\<close>

section \<open>The world of a worker\<close>

text \<open>\<open>ww_tick\<close> counts the transactions: each has its own environment and clock.\<close>

record 'x worker_world =
  ww_db :: msg_state
  ww_tick :: nat
  ww_ext :: 'x

type_synonym 'x wio = "'x worker_world"

record typebot_result =
  tr_session :: string
  tr_texts :: "string list"
  tr_incompatibilities :: "string list"

record 'x typebot_client =
  tc_start :: "string \<Rightarrow> string \<Rightarrow> ('x wio, typebot_result) io"
  tc_continue :: "string \<Rightarrow> string \<Rightarrow> ('x wio, typebot_result) io"

text \<open>
  \<open>wo_capture\<close> answers, for a QR channel, what its binding asserts in the transaction that records a
  sent message (\<open>None\<close> where no binding is captured). \<open>wo_route\<close>, \<open>wo_runTurn\<close>, \<open>wo_prepare\<close> are
  \<open>None\<close> where the option is absent.
\<close>

record 'x worker_options =
  wo_env :: "nat \<Rightarrow> msg_env"
  wo_nowMs :: "nat \<Rightarrow> int"
  wo_uuid :: "nat \<Rightarrow> string"
  wo_features :: "string \<Rightarrow> bool"
  wo_sha :: "string \<Rightarrow> string"
  wo_runtime :: bool
  wo_settleHandoffs :: "string \<Rightarrow> ('x wio, unit) io"
  wo_groupDispatch :: "string \<Rightarrow> ('x wio, unit) io"
  wo_route :: "(bot_claim \<Rightarrow> ('x wio, unit) io) option"
  wo_runTurn :: "(bot_claim \<Rightarrow> ('x wio, unit) io) option"
  wo_resolveTypebot :: "string \<Rightarrow> ('x wio, 'x typebot_client) io"
  wo_resolveMeta :: "channel_row \<Rightarrow> ('x wio, 'x wio send_client) io"
  wo_resolveQr :: "(outbox_claim \<Rightarrow> ('x wio, 'x wio send_client) io) option"
  wo_prepare :: "(outbox_claim \<Rightarrow> ('x wio, ('x wio, string) io) io) option"
  wo_capture :: "channel_row \<Rightarrow> ('x wio, (msg_state \<Rightarrow> js_error option) option) io"

definition transact :: "'x worker_options \<Rightarrow> (msg_env \<Rightarrow> int \<Rightarrow> string \<Rightarrow> (msg_state, 'a) tx) \<Rightarrow> ('x wio, 'a) io" where
  "transact opts f w =
    (case run_tx (f (wo_env opts (ww_tick w)) (wo_nowMs opts (ww_tick w)) (wo_uuid opts (ww_tick w))) (ww_db w) of
       (r, s) \<Rightarrow> (r, w\<lparr>ww_db := s, ww_tick := ww_tick w + 1\<rparr>))"

section \<open>A bot turn\<close>

definition DEFINITE_FAILURE_CODES :: "string list" where
  "DEFINITE_FAILURE_CODES = [''INVALID_ARGUMENT'', ''INVALID_CONFIGURATION'', ''UPSTREAM_ERROR'']"

definition isDefiniteFailure :: "js_error \<Rightarrow> bool" where
  "isDefiniteFailure e = (case thrown_code e of None \<Rightarrow> False | Some c \<Rightarrow> c \<in> set DEFINITE_FAILURE_CODES)"

record 'w turn_ports =
  tp_start :: "string \<Rightarrow> string \<Rightarrow> ('w, typebot_result) io"
  tp_continue :: "string \<Rightarrow> string \<Rightarrow> ('w, typebot_result) io"
  tp_complete :: "string \<Rightarrow> string list \<Rightarrow> ('w, unit) io"
  tp_fail :: "string \<Rightarrow> bool \<Rightarrow> ('w, unit) io"

definition ask_bot :: "string \<Rightarrow> string option \<Rightarrow> string \<Rightarrow> 'w turn_ports \<Rightarrow> ('w, typebot_result) io" where
  "ask_bot publicId session msg p = (case session of
     None \<Rightarrow> tp_start p publicId msg
   | Some sid \<Rightarrow> io_catch (tp_continue p sid msg)
       (\<lambda>e. if thrown_code e \<noteq> Some ''SESSION_EXPIRED'' then io_throw e else tp_start p publicId msg))"

definition unsupported_output :: "typebot_result \<Rightarrow> bool" where
  "unsupported_output r \<longleftrightarrow> length (tr_incompatibilities r) > 0 \<or> length (tr_texts r) > 100
     \<or> list_ex (\<lambda>t. length t = 0 \<or> length t > 4096) (tr_texts r)"

definition runBotTurn :: "string \<Rightarrow> string option \<Rightarrow> string \<Rightarrow> 'w turn_ports \<Rightarrow> ('w, unit) io" where
  "runBotTurn publicId session msg p =
    io_bind (io_try (ask_bot publicId session msg p)) (\<lambda>r. case r of
      Inl e \<Rightarrow> tp_fail p (if isDefiniteFailure e then ''TYPEBOT_TURN_FAILED'' else ''TYPEBOT_TURN_UNKNOWN'') (\<not> isDefiniteFailure e)
    | Inr res \<Rightarrow> if unsupported_output res then tp_fail p ''TYPEBOT_UNSUPPORTED_OUTPUT'' True
        else tp_complete p (tr_session res) (tr_texts res))"

definition FLOW_ORIGIN :: string where "FLOW_ORIGIN = ''jrc-flows-native''"

definition fail_turn :: "'x worker_options \<Rightarrow> string \<Rightarrow> bot_claim \<Rightarrow> string \<Rightarrow> bool \<Rightarrow> ('x wio, unit) io" where
  "fail_turn opts org cl code uncertain = transact opts (\<lambda>env now uuid.
     tx_bind (failBotTurn org (mg_id (bc_message cl)) (bc_lease cl) code uncertain) (\<lambda>_. tx_return ()))"

definition complete_turn :: "'x worker_options \<Rightarrow> string \<Rightarrow> bot_claim \<Rightarrow> string \<Rightarrow> string list \<Rightarrow> ('x wio, unit) io" where
  "complete_turn opts org cl session texts = transact opts (\<lambda>env now uuid.
     tx_bind (completeBotTurn env (wo_sha opts) org (mg_id (bc_message cl)) (bc_lease cl) session texts now) (\<lambda>_. tx_return ()))"

definition turn_ports_of :: "'x worker_options \<Rightarrow> string \<Rightarrow> bot_claim \<Rightarrow> 'x typebot_client \<Rightarrow> 'x wio turn_ports" where
  "turn_ports_of opts org cl c = \<lparr>tp_start = tc_start c, tp_continue = tc_continue c, tp_complete = complete_turn opts org cl,
     tp_fail = fail_turn opts org cl\<rparr>"

definition typebot_turn :: "'x worker_options \<Rightarrow> string \<Rightarrow> bot_claim \<Rightarrow> string \<Rightarrow> string \<Rightarrow> string \<Rightarrow> ('x wio, unit) io" where
  "typebot_turn opts org cl publicId origin msg =
    io_bind (io_try (wo_resolveTypebot opts origin)) (\<lambda>r. case r of
      Inl _ \<Rightarrow> fail_turn opts org cl ''TYPEBOT_NOT_CONFIGURED'' False
    | Inr c \<Rightarrow> runBotTurn publicId (cv_session (bc_conversation cl)) msg (turn_ports_of opts org cl c))"

definition run_turn :: "'x worker_options \<Rightarrow> string \<Rightarrow> bot_claim \<Rightarrow> ('x wio, unit) io" where
  "run_turn opts org cl =
    (let v = bc_conversation cl; content = mg_content (bc_message cl)
     in if cv_botOrigin v = Some AUTOMATION_ORIGIN then
          (case wo_route opts of
             Some route \<Rightarrow> if is_text content \<or> is_media content
               then io_catch (io_bind (route cl) (\<lambda>_. complete_turn opts org cl
                      (''automation:'' @ (case cv_botPublicId v of None \<Rightarrow> ''null'' | Some b \<Rightarrow> b)) []))
                      (\<lambda>_. fail_turn opts org cl ''FLOWS_UNAVAILABLE'' False)
               else fail_turn opts org cl ''FLOWS_UNAVAILABLE'' False
           | None \<Rightarrow> fail_turn opts org cl ''FLOWS_UNAVAILABLE'' False)
        else if cv_botOrigin v = Some FLOW_ORIGIN then
          (case wo_runTurn opts of
             Some turn \<Rightarrow> if is_text content then turn cl else fail_turn opts org cl ''FLOWS_UNAVAILABLE'' False
           | None \<Rightarrow> fail_turn opts org cl ''FLOWS_UNAVAILABLE'' False)
        else (case (cv_botPublicId v, cv_botOrigin v, content) of
             (Some b, Some origin, TEXT t) \<Rightarrow> (if b \<noteq> '''' \<and> origin \<noteq> '''' then typebot_turn opts org cl b origin t
               else fail_turn opts org cl ''TYPEBOT_NOT_CONFIGURED'' False)
           | _ \<Rightarrow> fail_turn opts org cl ''TYPEBOT_NOT_CONFIGURED'' False))"

section \<open>Dispatching a claim\<close>

definition complete_claim ::
  "'x worker_options \<Rightarrow> string \<Rightarrow> (msg_state \<Rightarrow> js_error option) option \<Rightarrow> outbox_claim \<Rightarrow> send_outcome \<Rightarrow> ('x wio, unit) io" where
  "complete_claim opts org engine cl out = transact opts (\<lambda>env now uuid s.
     (case (if outcome_state out = SENT then Option.bind engine (\<lambda>check. check s) else None) of
        Some e \<Rightarrow> Inl e
      | None \<Rightarrow> tx_bind (completeSend env org (mg_id (oc_message cl)) (oc_lease cl) out) (\<lambda>_. tx_return ()) s))"

definition is_eligible_answer :: "claim_validation \<Rightarrow> bool" where
  "is_eligible_answer v = (case v of Eligible _ \<Rightarrow> True | Ineligible _ \<Rightarrow> False)"

definition worker_ports :: "'x worker_options \<Rightarrow> string \<Rightarrow> (msg_state \<Rightarrow> js_error option) option \<Rightarrow> 'x wio dispatch_ports" where
  "worker_ports opts org engine = \<lparr>
     dp_validate = (\<lambda>cl. transact opts (\<lambda>env now uuid. tx_bind (validateClaim env org (mg_id (oc_message cl)) (oc_lease cl) None)
       (\<lambda>v. tx_return (is_eligible_answer v)))),
     dp_resolve = (\<lambda>cl. if cn_provider (oc_channel cl) = Some BAILEYS
       then (case wo_resolveQr opts of Some f \<Rightarrow> f cl | None \<Rightarrow> io_throw (PlainError ''QR_CHANNEL_UNAVAILABLE''))
       else wo_resolveMeta opts (oc_channel cl)),
     dp_prepare = wo_prepare opts,
     dp_complete = complete_claim opts org engine\<rparr>"

definition dispatch_one :: "'x worker_options \<Rightarrow> string \<Rightarrow> outbox_claim \<Rightarrow> ('x wio, unit) io" where
  "dispatch_one opts org cl =
    io_bind (if cn_provider (oc_channel cl) = Some BAILEYS then wo_capture opts (oc_channel cl) else io_return None) (\<lambda>engine.
    dispatchClaim cl (worker_ports opts org engine))"

fun dispatch_all :: "'x worker_options \<Rightarrow> string \<Rightarrow> outbox_claim list \<Rightarrow> ('x wio, unit) io" where
  "dispatch_all opts org [] = io_return ()"
| "dispatch_all opts org (cl # cls) = io_bind (dispatch_one opts org cl) (\<lambda>_. dispatch_all opts org cls)"

definition RECOVERY_LIMIT :: nat where "RECOVERY_LIMIT = 20"
definition LEASE_MS :: int where "LEASE_MS = 120000"

definition runOnce :: "'x worker_options \<Rightarrow> string \<Rightarrow> ('x wio, unit) io" where
  "runOnce opts org =
    io_bind (transact opts (\<lambda>env now uuid. recoverQrOutboundObservations env org RECOVERY_LIMIT)) (\<lambda>_.
    io_bind (wo_settleHandoffs opts org) (\<lambda>_.
    io_bind (wo_groupDispatch opts org) (\<lambda>_.
    io_bind (transact opts (\<lambda>env now uuid. claimBotTurn env (wo_features opts) (wo_runtime opts) org uuid now LEASE_MS)) (\<lambda>bot.
    io_bind (case bot of None \<Rightarrow> io_return () | Some cl \<Rightarrow> run_turn opts org cl) (\<lambda>_.
    io_bind (transact opts (\<lambda>env now uuid. claimOutgoing env org uuid now LEASE_MS 1)) (\<lambda>cls.
    dispatch_all opts org cls))))))"

end
