(* ===== verification/Worker_Refinement.thy ===== *)
theory Worker_Refinement
  imports Messaging_Worker Outbox_Demo
begin

text \<open>
  The worker refines the runs of the messaging module: whatever the providers and the other services
  answer or throw, a pass of the worker takes the tables along a run of the repository's
  operations, so that what holds of every run holds of every sequence of passes.
\<close>

section \<open>Dispatch and turns keep what their ports keep\<close>

context io_frame
begin

lemma io_respects_bind_res:
  assumes "io_respects R m" and "\<And>w a w'. m w = (Inr a, w') \<Longrightarrow> io_respects R (f a)"
  shows "io_respects R (io_bind m f)"
  unfolding io_respects_def
proof
  fix w
  obtain r v where m: "m w = (r, v)" by fastforce
  from assms(1) m have "R w v" by (metis io_respects_def snd_conv)
  with m assms(2) show "R w (snd (io_bind m f w))"
    by (cases r) (auto simp: io_bind_def io_respects_def intro: io_trans)
qed

lemma io_respects_catch_res:
  assumes "io_respects R m" and "\<And>e. io_respects R (h e)"
  shows "io_respects R (io_catch m h)"
  using assms by (rule io_respects_catch)

definition client_respects :: "'w send_client \<Rightarrow> bool" where
  "client_respects c \<longleftrightarrow> (\<forall>to t. io_respects R (cl_sendText c to t)) \<and> (\<forall>to i. io_respects R (cl_sendTemplate c to i))
     \<and> io_respects R (cl_listTemplates c)"

definition ports_respect :: "'w dispatch_ports \<Rightarrow> outbox_claim \<Rightarrow> bool" where
  "ports_respect p cl \<longleftrightarrow> io_respects R (dp_validate p cl) \<and> (\<forall>out. io_respects R (dp_complete p cl out))
     \<and> io_respects R (dp_resolve p cl) \<and> (\<forall>w c w'. dp_resolve p cl w = (Inr c, w') \<longrightarrow> client_respects c)
     \<and> (\<forall>f. dp_prepare p = Some f \<longrightarrow> io_respects R (f cl) \<and> (\<forall>w g w'. f cl w = (Inr g, w') \<longrightarrow> io_respects R g))"

lemma send_validated_respects:
  assumes "ports_respect p cl" and "io_respects R send"
  shows "io_respects R (send_validated p cl qr send)"
  using assms unfolding send_validated_def ports_respect_def by auto

lemma io_try_Inr: "io_try m w = (Inr r, w') \<Longrightarrow> m w = (r, w')"
  by (auto simp: io_try_def split: prod.splits)

lemma dispatch_respects:
  assumes "ports_respect p cl"
  shows "io_respects R (dispatchClaim cl p)"
proof -
  note ports = assms [unfolded ports_respect_def]
  have complete: "io_respects R (dp_complete p cl out)" for out using ports by blast
  have media: "io_respects R (io_bind (io_try (prepare_media p cl)) (\<lambda>rm. case rm of
      Inl e \<Rightarrow> dp_complete p cl (media_failure e) | Inr send \<Rightarrow> send_validated p cl qr send))" for qr
  proof (rule io_respects_bind_res)
    show "io_respects R (io_try (prepare_media p cl))"
      using ports by (auto simp: prepare_media_def split: option.split)
    fix w a w'
    assume "io_try (prepare_media p cl) w = (Inr a, w')"
    then have "prepare_media p cl w = (a, w')" by (rule io_try_Inr)
    then have "io_respects R send" if "a = Inr send" for send
      using that ports unfolding prepare_media_def by (auto split: option.splits) blast
    then show "io_respects R (case a of Inl e \<Rightarrow> dp_complete p cl (media_failure e) | Inr send \<Rightarrow> send_validated p cl qr send)"
      using complete send_validated_respects [OF assms] by (auto split: sum.split)
  qed
  have rest: "io_respects R (case content of
            MEDIA _ _ _ _ \<Rightarrow> io_bind (io_try (prepare_media p cl)) (\<lambda>rm. case rm of
                Inl e \<Rightarrow> dp_complete p cl (media_failure e) | Inr send \<Rightarrow> send_validated p cl qr send)
          | TEMPLATE name language variables \<Rightarrow> io_bind (io_try (cl_listTemplates client)) (\<lambda>rt. case rt of
                Inl _ \<Rightarrow> dp_complete p cl (OutFailed ''META_TEMPLATE_LOOKUP_FAILED'' True)
              | Inr templates \<Rightarrow> (case preflightTemplate name language variables templates of
                  Inl code \<Rightarrow> dp_complete p cl (OutFailed code False)
                | Inr input \<Rightarrow> send_validated p cl qr (cl_sendTemplate client recipient input)))
          | TEXT t \<Rightarrow> send_validated p cl qr (cl_sendText client recipient t))"
    if "client_respects client" for content client recipient qr
  proof (cases content)
    case (TEMPLATE name language variables)
    have "io_respects R (io_bind (io_try (cl_listTemplates client)) (\<lambda>rt. case rt of
                Inl _ \<Rightarrow> dp_complete p cl (OutFailed ''META_TEMPLATE_LOOKUP_FAILED'' True)
              | Inr templates \<Rightarrow> (case preflightTemplate name language variables templates of
                  Inl code \<Rightarrow> dp_complete p cl (OutFailed code False)
                | Inr input \<Rightarrow> send_validated p cl qr (cl_sendTemplate client recipient input))))"
      using that complete send_validated_respects [OF assms] unfolding client_respects_def
      by (intro io_respects_bind io_respects_try io_respects_sum) auto
    with TEMPLATE show ?thesis by simp
  qed (use that media send_validated_respects [OF assms] in \<open>auto simp: client_respects_def\<close>)
  have "io_respects R (io_bind (io_try (dp_resolve p cl)) (\<lambda>rc. case rc of
          Inl e \<Rightarrow> dp_complete p cl (resolve_failure qr e)
        | Inr client \<Rightarrow> (case content of
            MEDIA _ _ _ _ \<Rightarrow> io_bind (io_try (prepare_media p cl)) (\<lambda>rm. case rm of
                Inl e \<Rightarrow> dp_complete p cl (media_failure e) | Inr send \<Rightarrow> send_validated p cl qr send)
          | TEMPLATE name language variables \<Rightarrow> io_bind (io_try (cl_listTemplates client)) (\<lambda>rt. case rt of
                Inl _ \<Rightarrow> dp_complete p cl (OutFailed ''META_TEMPLATE_LOOKUP_FAILED'' True)
              | Inr templates \<Rightarrow> (case preflightTemplate name language variables templates of
                  Inl code \<Rightarrow> dp_complete p cl (OutFailed code False)
                | Inr input \<Rightarrow> send_validated p cl qr (cl_sendTemplate client recipient input)))
          | TEXT t \<Rightarrow> send_validated p cl qr (cl_sendText client recipient t))))" for content recipient qr
  proof (rule io_respects_bind_res)
    show "io_respects R (io_try (dp_resolve p cl))" using ports by auto
    fix w a w'
    assume "io_try (dp_resolve p cl) w = (Inr a, w')"
    then have "dp_resolve p cl w = (a, w')" by (rule io_try_Inr)
    with ports have "client_respects c" if "a = Inr c" for c using that by blast
    with rest complete show "io_respects R (case a of
          Inl e \<Rightarrow> dp_complete p cl (resolve_failure qr e)
        | Inr client \<Rightarrow> (case content of
            MEDIA _ _ _ _ \<Rightarrow> io_bind (io_try (prepare_media p cl)) (\<lambda>rm. case rm of
                Inl e \<Rightarrow> dp_complete p cl (media_failure e) | Inr send \<Rightarrow> send_validated p cl qr send)
          | TEMPLATE name language variables \<Rightarrow> io_bind (io_try (cl_listTemplates client)) (\<lambda>rt. case rt of
                Inl _ \<Rightarrow> dp_complete p cl (OutFailed ''META_TEMPLATE_LOOKUP_FAILED'' True)
              | Inr templates \<Rightarrow> (case preflightTemplate name language variables templates of
                  Inl code \<Rightarrow> dp_complete p cl (OutFailed code False)
                | Inr input \<Rightarrow> send_validated p cl qr (cl_sendTemplate client recipient input)))
          | TEXT t \<Rightarrow> send_validated p cl qr (cl_sendText client recipient t)))"
      by (cases a) auto
  qed
  then show ?thesis using complete unfolding dispatchClaim_def Let_def by (intro io_respects_if)
qed

lemma runBotTurn_respects:
  assumes "\<And>b t. io_respects R (tp_start p b t)" "\<And>b t. io_respects R (tp_continue p b t)"
    "\<And>a b. io_respects R (tp_complete p a b)" "\<And>a b. io_respects R (tp_fail p a b)"
  shows "io_respects R (runBotTurn publicId session msg p)"
  using assms unfolding runBotTurn_def ask_bot_def
  by (intro io_respects_bind io_respects_try io_respects_option io_respects_catch io_respects_if io_respects_sum io_respects_throw)

end

section \<open>The worker\<close>

lemma msg_run_trans: "msg_run s xs t \<Longrightarrow> msg_run t ys u \<Longrightarrow> msg_run s (xs @ ys) u"
proof (induction ys arbitrary: u rule: rev_induct)
  case Nil
  then show ?case by (auto elim: msg_run.cases)
next
  case (snoc y ys)
  from snoc.prems(2) obtain v where "msg_run t ys v" "msg_step v y u"
    by (cases rule: msg_run.cases) auto
  with snoc.IH [OF snoc.prems(1)] msg_run.more [of s "xs @ ys" v y u] show ?case by simp
qed

definition run_of :: "'x worker_world \<Rightarrow> 'x worker_world \<Rightarrow> bool" where
  "run_of w w' \<longleftrightarrow> (\<exists>es. msg_run (ww_db w) es (ww_db w'))"

interpretation worker: io_frame run_of
  by unfold_locales (auto simp: run_of_def intro: msg_run.start msg_run_trans)

lemma transact_respects:
  assumes "\<And>env now uuid s a s'. f env now uuid s = Inr (a, s') \<Longrightarrow> \<exists>e. msg_step s e s'"
  shows "io_respects run_of (transact opts f)"
  unfolding io_respects_def
proof
  fix w
  show "run_of w (snd (transact opts f w))"
  proof (cases "f (wo_env opts (ww_tick w)) (wo_nowMs opts (ww_tick w)) (wo_uuid opts (ww_tick w)) (ww_db w)")
    case (Inl e)
    then show ?thesis by (auto simp: transact_def run_tx_def run_of_def intro: msg_run.start)
  next
    case (Inr r)
    obtain a s' where r: "r = (a, s')" by fastforce
    with Inr assms obtain e where "msg_step (ww_db w) e s'" by blast
    from msg_run.more [OF msg_run.start this] show ?thesis
      using Inr r by (auto simp: transact_def run_tx_def run_of_def)
  qed
qed

lemma fail_turn_respects: "io_respects run_of (fail_turn opts org cl code unc)"
  unfolding fail_turn_def by (rule transact_respects) (auto simp: tx_bind_eq_Inr intro: msg_step.quiet quiet_step.failed)

lemma complete_turn_respects: "io_respects run_of (complete_turn opts org cl ses texts)"
  unfolding complete_turn_def by (rule transact_respects) (auto simp: tx_bind_eq_Inr intro: msg_step.quiet quiet_step.turned)

lemma complete_claim_respects: "io_respects run_of (complete_claim opts org engine cl out)"
  unfolding complete_claim_def
  by (rule transact_respects) (auto simp: tx_bind_eq_Inr split: option.splits intro: msg_step.complete)

lemma validate_respects:
  "io_respects run_of (transact opts (\<lambda>env now uuid. tx_bind (validateClaim env org mid lease None) (\<lambda>v. tx_return (is_eligible_answer v))))"
proof (rule transact_respects)
  fix env s a s'
  assume "tx_bind (validateClaim env org mid lease None) (\<lambda>v. tx_return (is_eligible_answer v)) s = Inr (a, s')"
  then obtain v where "validateClaim env org mid lease None s = Inr (v, s')" by (auto simp: tx_bind_eq_Inr)
  then show "\<exists>e. msg_step s e s'"
    by (cases v) (blast intro: msg_step.cleared msg_step.quiet quiet_step.refused)+
qed

text \<open>
  What the worker needs of the services it calls: they leave the messaging tables alone, or change
  them by operations of the repository only.
\<close>

definition services_ok :: "'x worker_options \<Rightarrow> bool" where
  "services_ok opts \<longleftrightarrow> (\<forall>org. io_respects run_of (wo_settleHandoffs opts org) \<and> io_respects run_of (wo_groupDispatch opts org))
     \<and> (\<forall>f cl. wo_route opts = Some f \<or> wo_runTurn opts = Some f \<longrightarrow> io_respects run_of (f cl))
     \<and> (\<forall>origin. io_respects run_of (wo_resolveTypebot opts origin) \<and> (\<forall>w c w'. wo_resolveTypebot opts origin w = (Inr c, w') \<longrightarrow>
          (\<forall>a b. io_respects run_of (tc_start c a b) \<and> io_respects run_of (tc_continue c a b))))
     \<and> (\<forall>ch. io_respects run_of (wo_resolveMeta opts ch) \<and> (\<forall>w c w'. wo_resolveMeta opts ch w = (Inr c, w') \<longrightarrow> worker.client_respects c))
     \<and> (\<forall>f cl. wo_resolveQr opts = Some f \<longrightarrow> io_respects run_of (f cl) \<and> (\<forall>w c w'. f cl w = (Inr c, w') \<longrightarrow> worker.client_respects c))
     \<and> (\<forall>f cl. wo_prepare opts = Some f \<longrightarrow> io_respects run_of (f cl) \<and> (\<forall>w g w'. f cl w = (Inr g, w') \<longrightarrow> io_respects run_of g))
     \<and> (\<forall>ch. io_respects run_of (wo_capture opts ch))"

lemma worker_ports_respect:
  assumes "services_ok opts"
  shows "worker.ports_respect (worker_ports opts org engine) cl"
proof -
  note ok = assms [unfolded services_ok_def]
  have resolve: "io_respects run_of (dp_resolve (worker_ports opts org engine) cl)"
    using ok by (auto simp: worker_ports_def split: option.split)
  have client: "worker.client_respects c" if "dp_resolve (worker_ports opts org engine) cl w = (Inr c, w')" for w c w'
    using that ok by (auto simp: worker_ports_def split: if_splits option.splits) blast+
  show ?thesis
    unfolding worker.ports_respect_def
  proof (intro conjI allI impI)
    show "io_respects run_of (dp_validate (worker_ports opts org engine) cl)" by (simp add: worker_ports_def validate_respects)
    show "io_respects run_of (dp_complete (worker_ports opts org engine) cl out)" for out by (simp add: worker_ports_def complete_claim_respects)
    show "io_respects run_of (f cl)" if "dp_prepare (worker_ports opts org engine) = Some f" for f
      using that ok by (auto simp: worker_ports_def)
    show "io_respects run_of g" if "dp_prepare (worker_ports opts org engine) = Some f" "f cl w = (Inr g, w')" for f w g w'
      using that ok by (auto simp: worker_ports_def) blast
  qed (use resolve client in blast)+
qed

lemma dispatch_all_respects: "services_ok opts \<Longrightarrow> io_respects run_of (dispatch_all opts org cls)"
proof (induction cls)
  case (Cons cl cls)
  have "io_respects run_of (dispatch_one opts org cl)"
    unfolding dispatch_one_def using Cons.prems worker.dispatch_respects [OF worker_ports_respect [OF Cons.prems]]
    by (intro worker.io_respects_bind worker.io_respects_if worker.io_respects_return) (auto simp: services_ok_def)
  with Cons show ?case by auto
qed auto

lemma typebot_turn_respects:
  assumes "services_ok opts"
  shows "io_respects run_of (typebot_turn opts org cl b origin msg)"
  unfolding typebot_turn_def
proof (rule worker.io_respects_bind_res)
  have ok: "\<forall>origin. io_respects run_of (wo_resolveTypebot opts origin) \<and> (\<forall>w c w'. wo_resolveTypebot opts origin w = (Inr c, w') \<longrightarrow>
          (\<forall>a b. io_respects run_of (tc_start c a b) \<and> io_respects run_of (tc_continue c a b)))"
    using assms unfolding services_ok_def by (elim conjE)
  then show "io_respects run_of (io_try (wo_resolveTypebot opts origin))" by (simp add: worker.io_respects_try)
  fix w a w'
  assume "io_try (wo_resolveTypebot opts origin) w = (Inr a, w')"
  then have run: "wo_resolveTypebot opts origin w = (a, w')" by (rule worker.io_try_Inr)
  show "io_respects run_of (case a of Inl _ \<Rightarrow> fail_turn opts org cl ''TYPEBOT_NOT_CONFIGURED'' False
      | Inr c \<Rightarrow> runBotTurn b (cv_session (bc_conversation cl)) msg (turn_ports_of opts org cl c))"
  proof (cases a)
    case (Inr c)
    with ok run have c: "io_respects run_of (tc_start c x y)" "io_respects run_of (tc_continue c x y)" for x y by blast+
    have "io_respects run_of (runBotTurn b (cv_session (bc_conversation cl)) msg (turn_ports_of opts org cl c))"
      by (rule worker.runBotTurn_respects) (simp_all add: turn_ports_of_def c complete_turn_respects fail_turn_respects)
    with Inr show ?thesis by simp
  qed (simp add: fail_turn_respects)
qed

lemma services_turns:
  assumes "services_ok opts"
  shows "wo_route opts = Some f \<Longrightarrow> io_respects run_of (f cl)" and "wo_runTurn opts = Some g \<Longrightarrow> io_respects run_of (g cl)"
proof -
  have "\<forall>f cl. wo_route opts = Some f \<or> wo_runTurn opts = Some f \<longrightarrow> io_respects run_of (f cl)"
    using assms unfolding services_ok_def by (elim conjE)
  then show "wo_route opts = Some f \<Longrightarrow> io_respects run_of (f cl)" and "wo_runTurn opts = Some g \<Longrightarrow> io_respects run_of (g cl)"
    by simp_all
qed

lemma run_turn_respects:
  assumes "services_ok opts"
  shows "io_respects run_of (run_turn opts org cl)"
proof -
  have route: "io_respects run_of (case wo_route opts of
             Some route \<Rightarrow> if b then io_catch (io_bind (route cl) (\<lambda>_. complete_turn opts org cl ses []))
                      (\<lambda>_. fail_turn opts org cl ''FLOWS_UNAVAILABLE'' False)
               else fail_turn opts org cl ''FLOWS_UNAVAILABLE'' False
           | None \<Rightarrow> fail_turn opts org cl ''FLOWS_UNAVAILABLE'' False)" for b ses
  proof (cases "wo_route opts")
    case (Some f)
    show ?thesis
      unfolding Some by (simp, intro worker.io_respects_if worker.io_respects_catch worker.io_respects_bind fail_turn_respects
          complete_turn_respects services_turns(1) [OF assms Some] conjI impI)
  qed (simp add: fail_turn_respects)
  have turn: "io_respects run_of (case wo_runTurn opts of
             Some turn \<Rightarrow> if b then turn cl else fail_turn opts org cl ''FLOWS_UNAVAILABLE'' False
           | None \<Rightarrow> fail_turn opts org cl ''FLOWS_UNAVAILABLE'' False)" for b
    by (cases "wo_runTurn opts") (auto intro: services_turns [OF assms] fail_turn_respects)
  have bot: "io_respects run_of (case (x, y, c) of
             (Some b, Some origin, TEXT t) \<Rightarrow> (if b \<noteq> '''' \<and> origin \<noteq> '''' then typebot_turn opts org cl b origin t
               else fail_turn opts org cl ''TYPEBOT_NOT_CONFIGURED'' False)
           | _ \<Rightarrow> fail_turn opts org cl ''TYPEBOT_NOT_CONFIGURED'' False)" for x y c
    by (auto split: option.split message_content.split intro: fail_turn_respects typebot_turn_respects [OF assms])
  show ?thesis
    unfolding run_turn_def Let_def by (intro worker.io_respects_if route turn bot)
qed


text \<open>A worker whose providers are all unavailable, and a QR message waiting in its tables.\<close>

definition mx_options :: "unit worker_options" where
  "mx_options = \<lparr>wo_env = (\<lambda>n. mx_env (2000000 + int n)), wo_nowMs = (\<lambda>n. 2000 + int n), wo_uuid = (\<lambda>n. ''w''), wo_features = (\<lambda>_. False),
     wo_sha = id, wo_runtime = True, wo_settleHandoffs = (\<lambda>_. io_return ()), wo_groupDispatch = (\<lambda>_. io_return ()), wo_route = None,
     wo_runTurn = None, wo_resolveTypebot = (\<lambda>_. io_throw (PlainError ''down'')), wo_resolveMeta = (\<lambda>_. io_throw (PlainError ''down'')),
     wo_resolveQr = Some (\<lambda>_. io_throw (ProviderError (Some ''QR_CHANNEL_DISCONNECTED'') True)), wo_prepare = None, wo_capture = (\<lambda>_. io_return None)\<rparr>"

definition mx_world :: "unit worker_world" where
  "mx_world = \<lparr>ww_db = mx1, ww_tick = 0, ww_ext = ()\<rparr>"

lemma mx_services: "services_ok mx_options"
  by (auto simp: services_ok_def mx_options_def)


end
