(* ===== verification/Tenancy.thy ===== *)
theory Tenancy
  imports Auth_Repository Api_Keys
begin

text \<open>
  Organizations, users and memberships of apps/api/src/modules/organizations, modules/users,
  modules/memberships and modules/provider-accounts: the bootstrap of the first tenant, the creation
  of further tenants by the administrative command, and the management of memberships. The users,
  organizations and memberships are the tables of the authentication repository. The deferred
  triggers of drizzle/migrations/0002_identity_and_audit.sql queue an organization for the check
  its transaction makes before it commits.
\<close>

section \<open>Tables and their environment\<close>

record tenant_account =
  pa_id :: string
  pa_org :: string
  pa_provider :: string
  pa_name :: string

record tenancy_db =
  td_auth :: auth_db
  td_accounts :: "tenant_account list"
  td_audit :: "tenant_record list"
  td_security :: "security_record list"
  td_deferred :: "string list"

text \<open>
  What the statements take from outside: the identifiers the defaults draw; \<open>ty_normal\<close>, the CHECK
  \<open>users_email_normalized\<close>; \<open>ty_admit\<close>, the trigger \<open>tenant_users_admission\<close> on a new membership;
  \<open>ty_referenced\<close>, the history that keeps a membership as a tombstone (team rows and attendance
  sessions). The zod formats, the hash of a password and the check of the administrative credential
  are parameters too.
\<close>

record tenancy_env =
  ty_fresh :: "nat \<Rightarrow> string"
  ty_normal :: "string \<Rightarrow> bool"
  ty_admit :: "tenancy_db \<Rightarrow> member_row \<Rightarrow> js_error option"
  ty_referenced :: "string \<Rightarrow> string \<Rightarrow> bool"
  ty_lower :: "string \<Rightarrow> string"
  ty_email :: "string \<Rightarrow> bool"
  ty_uuid :: "string \<Rightarrow> bool"
  ty_hash :: "string \<Rightarrow> js_error + string"
  ty_credential :: "string \<Rightarrow> js_error + bool"
  ty_canSetRole :: bool

section \<open>Transactions with deferred constraints\<close>

definition active_owner :: "string \<Rightarrow> member_row \<Rightarrow> bool" where
  "active_owner org m \<longleftrightarrow> mb_org m = org \<and> mb_role m = OWNER \<and> mb_status m = ACTIVE"

definition ensure_organization_has_owner :: "string \<Rightarrow> tenancy_db \<Rightarrow> bool" where
  "ensure_organization_has_owner org s \<longleftrightarrow>
     list_ex (\<lambda>o'. or_id o' = org) (au_orgs (td_auth s)) \<longrightarrow> list_ex (active_owner org) (au_members (td_auth s))"

definition owner_violation :: js_error where
  "owner_violation = DatabaseError ''23514'' ''organizations_require_owner''"

text \<open>The check of the queued organizations, and the commit.\<close>

definition commit_checks :: "(tenancy_db, unit) tx" where
  "commit_checks s = (if list_all (\<lambda>org. ensure_organization_has_owner org s) (td_deferred s)
     then Inr ((), s\<lparr>td_deferred := []\<rparr>) else Inl owner_violation)"

definition committed :: "(tenancy_db, 'a) tx \<Rightarrow> (tenancy_db, 'a) tx" where
  "committed m = tx_bind (tx_modify (\<lambda>s. s\<lparr>td_deferred := []\<rparr>)) (\<lambda>_. tx_bind m (\<lambda>a. tx_bind commit_checks (\<lambda>_. tx_return a)))"

definition runInAdminTransaction :: "tenancy_env \<Rightarrow> (tenancy_db, 'a) tx \<Rightarrow> (tenancy_db, 'a) tx" where
  "runInAdminTransaction env m = (if ty_canSetRole env then committed m
     else tx_throw (PlainError ''Administrative connection cannot SET ROLE jrc_migrator''))"

definition queue_check :: "string \<Rightarrow> (tenancy_db, unit) tx" where
  "queue_check org = tx_modify (\<lambda>s. s\<lparr>td_deferred := td_deferred s @ [org]\<rparr>)"

section \<open>Statements\<close>

definition countOrganizations :: "(tenancy_db, nat) tx" where
  "countOrganizations = tx_gets (\<lambda>s. length (au_orgs (td_auth s)))"

definition on_auth :: "(auth_db \<Rightarrow> auth_db) \<Rightarrow> (tenancy_db, unit) tx" where
  "on_auth f = tx_modify (\<lambda>s. s\<lparr>td_auth := f (td_auth s)\<rparr>)"

definition createOrganization :: "tenancy_env \<Rightarrow> string \<Rightarrow> string \<Rightarrow> (tenancy_db, string) tx" where
  "createOrganization env name slug s =
    (let oid = ty_fresh env (length (au_orgs (td_auth s)))
     in if list_ex (\<lambda>r. or_id r = oid) (au_orgs (td_auth s)) then Inl (DatabaseError ''23505'' ''organizations_pkey'')
        else if list_ex (\<lambda>r. or_slug r = slug) (au_orgs (td_auth s)) then Inl (DatabaseError ''23505'' ''organizations_slug_unique'')
        else tx_bind (on_auth (\<lambda>a. a\<lparr>au_orgs := au_orgs a @ [\<lparr>or_id = oid, or_name = name, or_slug = slug, or_status = ACTIVE\<rparr>]\<rparr>)) (\<lambda>_.
             tx_bind (queue_check oid) (\<lambda>_. tx_return oid)) s)"

definition findUserByEmailForUpdate :: "string \<Rightarrow> (tenancy_db, user_row option) tx" where
  "findUserByEmailForUpdate email = tx_gets (\<lambda>s. find (\<lambda>u. us_email u = email) (au_users (td_auth s)))"

definition createUser :: "tenancy_env \<Rightarrow> string \<Rightarrow> string \<Rightarrow> (tenancy_db, string) tx" where
  "createUser env email hash s =
    (let uid = ty_fresh env (length (au_users (td_auth s)))
     in if \<not> ty_normal env email then Inl (DatabaseError ''23514'' ''users_email_normalized'')
        else if list_ex (\<lambda>u. us_id u = uid) (au_users (td_auth s)) then Inl (DatabaseError ''23505'' ''users_pkey'')
        else if list_ex (\<lambda>u. us_email u = email) (au_users (td_auth s)) then Inl (DatabaseError ''23505'' ''users_email_unique'')
        else tx_bind (on_auth (\<lambda>a. a\<lparr>au_users := au_users a @ [\<lparr>us_id = uid, us_email = email, us_passwordHash = hash,
               us_version = 0, us_status = ACTIVE\<rparr>]\<rparr>)) (\<lambda>_. tx_return uid) s)"

definition member_at :: "string \<Rightarrow> string \<Rightarrow> member_row \<Rightarrow> bool" where
  "member_at org uid m \<longleftrightarrow> mb_org m = org \<and> mb_user m = uid"

definition createMembership :: "tenancy_env \<Rightarrow> string \<Rightarrow> string \<Rightarrow> auth_role \<Rightarrow> (tenancy_db, unit) tx" where
  "createMembership env org uid role s =
    (let m = \<lparr>mb_org = org, mb_user = uid, mb_role = role, mb_status = ACTIVE\<rparr>
     in case ty_admit env s m of Some e \<Rightarrow> Inl e
        | None \<Rightarrow> if list_ex (member_at org uid) (au_members (td_auth s)) then Inl (DatabaseError ''23505'' ''memberships_pkey'')
            else tx_bind (on_auth (\<lambda>a. a\<lparr>au_members := au_members a @ [m]\<rparr>)) (\<lambda>_. queue_check org) s)"

definition createOwnerMembership :: "tenancy_env \<Rightarrow> string \<Rightarrow> string \<Rightarrow> (tenancy_db, unit) tx" where
  "createOwnerMembership env org uid = createMembership env org uid OWNER"

definition ensureLogicalBaileysAccount :: "tenancy_env \<Rightarrow> string \<Rightarrow> (tenancy_db, string) tx" where
  "ensureLogicalBaileysAccount env org s =
    (case find (\<lambda>p. pa_org p = org \<and> pa_provider p = ''BAILEYS'') (td_accounts s) of
       Some p \<Rightarrow> Inr (pa_id p, s)
     | None \<Rightarrow> (let p = \<lparr>pa_id = ty_fresh env (length (td_accounts s)), pa_org = org, pa_provider = ''BAILEYS'', pa_name = ''baileys''\<rparr>
         in Inr (pa_id p, s\<lparr>td_accounts := td_accounts s @ [p]\<rparr>)))"

definition audit_tenant :: "tenant_event \<Rightarrow> (tenancy_db, unit) tx" where
  "audit_tenant e = tx_modify (\<lambda>s. s\<lparr>td_audit := writeTenantAudit e (td_audit s)\<rparr>)"

section \<open>Input of the administrative commands\<close>

record onboarding =
  ob_name :: string
  ob_slug :: string
  ob_email :: string
  ob_password :: "string option"
  ob_request :: string

definition bounded :: "nat \<Rightarrow> string \<Rightarrow> bool" where
  "bounded n t \<longleftrightarrow> t \<noteq> '''' \<and> length t \<le> n"

definition validateCanonicalOnboardingInput :: "tenancy_env \<Rightarrow> onboarding \<Rightarrow> onboarding option" where
  "validateCanonicalOnboardingInput env i =
    (let name = js_trim (ob_name i); slug = ty_lower env (js_trim (ob_slug i)); email = ty_lower env (js_trim (ob_email i))
     in if bounded 200 name \<and> bounded 100 slug \<and> ty_email env email \<and> length email \<le> 320
           \<and> (case ob_password i of None \<Rightarrow> True | Some p \<Rightarrow> length p \<le> 1024 \<and> js_trim p \<noteq> '''')
           \<and> ty_uuid env (ob_request i)
        then Some \<lparr>ob_name = name, ob_slug = slug, ob_email = email, ob_password = ob_password i, ob_request = ob_request i\<rparr>
        else None)"

record tenant_result =
  tn_org :: string
  tn_owner :: string
  tn_account :: string

section \<open>The first tenant\<close>

definition lift_result :: "js_error + 'a \<Rightarrow> (tenancy_db, 'a) tx" where
  "lift_result r s = (case r of Inl e \<Rightarrow> Inl e | Inr a \<Rightarrow> Inr (a, s))"

definition bootstrap_transaction :: "tenancy_env \<Rightarrow> onboarding \<Rightarrow> string \<Rightarrow> (tenancy_db, tenant_result) tx" where
  "bootstrap_transaction env c password =
    tx_bind countOrganizations (\<lambda>n.
    if n \<noteq> 0 then tx_throw (BootstrapError ''BOOTSTRAP_ALREADY_COMPLETED'')
    else tx_bind (lift_result (ty_hash env password)) (\<lambda>hash.
    tx_bind (createOrganization env (ob_name c) (ob_slug c)) (\<lambda>org.
    tx_bind (createUser env (ob_email c) hash) (\<lambda>owner.
    tx_bind (createOwnerMembership env org owner) (\<lambda>_.
    tx_bind (ensureLogicalBaileysAccount env org) (\<lambda>account.
    tx_bind (\<lambda>s. case toSecurityAuditRecord \<lparr>se_type = BOOTSTRAP_COMPLETED, se_requestId = ob_request c, se_identityDigest = None,
         se_ipDigest = None\<rparr> of Inl e \<Rightarrow> Inl e | Inr r \<Rightarrow> Inr ((), s\<lparr>td_security := td_security s @ [r]\<rparr>)) (\<lambda>_.
    tx_return \<lparr>tn_org = org, tn_owner = owner, tn_account = account\<rparr>)))))))"

definition bootstrapFirstTenant :: "tenancy_env \<Rightarrow> onboarding \<Rightarrow> (tenancy_db, tenant_result) tx" where
  "bootstrapFirstTenant env i =
    (case validateCanonicalOnboardingInput env i of
       None \<Rightarrow> tx_throw (BootstrapError ''INVALID_BOOTSTRAP_INPUT'')
     | Some c \<Rightarrow> (case ob_password c of
         None \<Rightarrow> tx_throw (BootstrapError ''INVALID_BOOTSTRAP_INPUT'')
       | Some p \<Rightarrow> runInAdminTransaction env (bootstrap_transaction env c p)))"

section \<open>Further tenants\<close>

text \<open>\<open>LINK_EXISTING\<close> carries the confirmation and, where the input had one, the password property.\<close>

datatype owner_mode = CREATE_NEW "string option" | LINK_EXISTING bool "string option" | OTHER_MODE

record tenant_create =
  tc_credential :: string
  tc_name :: string
  tc_slug :: string
  tc_email :: string
  tc_request :: string
  tc_mode :: owner_mode

definition tenant_error :: "string \<Rightarrow> (tenancy_db, 'a) tx" where
  "tenant_error c = tx_throw (TenantCreateError c)"

definition canonical_tenant :: "tenancy_env \<Rightarrow> tenant_create \<Rightarrow> onboarding option" where
  "canonical_tenant env i = validateCanonicalOnboardingInput env \<lparr>ob_name = tc_name i, ob_slug = tc_slug i, ob_email = tc_email i,
     ob_password = (case tc_mode i of CREATE_NEW p \<Rightarrow> p | _ \<Rightarrow> None), ob_request = tc_request i\<rparr>"

definition mapDatabaseConflict :: "js_error \<Rightarrow> js_error" where
  "mapDatabaseConflict e = (if e = DatabaseError ''23505'' ''users_email_unique'' then TenantCreateError ''OWNER_EMAIL_ALREADY_EXISTS''
     else if e = DatabaseError ''23505'' ''organizations_slug_unique'' then TenantCreateError ''ORGANIZATION_SLUG_ALREADY_EXISTS'' else e)"

definition finishTenantCreation :: "tenancy_env \<Rightarrow> string \<Rightarrow> string \<Rightarrow> string \<Rightarrow> (tenancy_db, tenant_result) tx" where
  "finishTenantCreation env request org owner =
    tx_bind (createOwnerMembership env org owner) (\<lambda>_.
    tx_bind (ensureLogicalBaileysAccount env org) (\<lambda>account.
    tx_bind (audit_tenant \<lparr>te_type = TENANT_CREATED, te_org = org, te_actorId = None, te_actorKind = NoKind, te_resourceId = org,
      te_requestId = request\<rparr>) (\<lambda>_.
    tx_return \<lparr>tn_org = org, tn_owner = owner, tn_account = account\<rparr>)))"

definition tenant_transaction :: "tenancy_env \<Rightarrow> onboarding \<Rightarrow> owner_mode \<Rightarrow> (tenancy_db, tenant_result) tx" where
  "tenant_transaction env c mode =
    tx_bind countOrganizations (\<lambda>n.
    if n = 0 then tenant_error ''BOOTSTRAP_REQUIRED''
    else tx_bind (findUserByEmailForUpdate (ob_email c)) (\<lambda>existing.
    (case mode of
       CREATE_NEW _ \<Rightarrow>
         (if existing \<noteq> None then tenant_error ''OWNER_EMAIL_ALREADY_EXISTS''
          else case ob_password c of None \<Rightarrow> tenant_error ''INVALID_TENANT_INPUT''
          | Some p \<Rightarrow> tx_bind (lift_result (ty_hash env p)) (\<lambda>hash.
              tx_bind (createOrganization env (ob_name c) (ob_slug c)) (\<lambda>org.
              tx_bind (createUser env (ob_email c) hash) (\<lambda>owner.
              finishTenantCreation env (ob_request c) org owner))))
     | _ \<Rightarrow> (case existing of None \<Rightarrow> tenant_error ''OWNER_USER_NOT_FOUND''
         | Some u \<Rightarrow> if us_status u \<noteq> ACTIVE then tenant_error ''OWNER_USER_NOT_ACTIVE''
             else tx_bind (createOrganization env (ob_name c) (ob_slug c)) (\<lambda>org.
               finishTenantCreation env (ob_request c) org (us_id u))))))"

definition createTenant :: "tenancy_env \<Rightarrow> tenant_create \<Rightarrow> (tenancy_db, tenant_result) tx" where
  "createTenant env i =
    (if tc_mode i = OTHER_MODE then tenant_error ''INVALID_OWNER_MODE''
     else case canonical_tenant env i of None \<Rightarrow> tenant_error ''INVALID_TENANT_INPUT''
     | Some c \<Rightarrow>
       if (case tc_mode i of CREATE_NEW _ \<Rightarrow> ob_password c = None \<or> ob_password c = Some '''' | _ \<Rightarrow> False)
       then tenant_error ''INVALID_TENANT_INPUT''
       else if (case tc_mode i of LINK_EXISTING _ (Some _) \<Rightarrow> True | _ \<Rightarrow> False) then tenant_error ''LINK_EXISTING_PASSWORD_NOT_ALLOWED''
       else if (case tc_mode i of LINK_EXISTING False _ \<Rightarrow> True | _ \<Rightarrow> False) then tenant_error ''LINK_EXISTING_CONFIRMATION_REQUIRED''
       else if js_trim (tc_credential i) = '''' then tenant_error ''ADMINISTRATIVE_CREDENTIAL_REQUIRED''
       else case ty_credential env (tc_credential i) of Inl e \<Rightarrow> tx_throw e
       | Inr ok \<Rightarrow> if \<not> ok then tenant_error ''ADMINISTRATIVE_CREDENTIAL_INVALID''
           else tx_map_error mapDatabaseConflict (runInAdminTransaction env (tenant_transaction env c (tc_mode i))))"

section \<open>Memberships\<close>

record member_actor =
  ma_org :: string
  ma_user :: string

datatype member_command = SET_ROLE string auth_role string | REMOVE string string

fun command_user :: "member_command \<Rightarrow> string" where
  "command_user (SET_ROLE u r q) = u"
| "command_user (REMOVE u q) = u"

fun command_request :: "member_command \<Rightarrow> string" where
  "command_request (SET_ROLE u r q) = q"
| "command_request (REMOVE u q) = q"

definition find_member :: "string \<Rightarrow> string \<Rightarrow> tenancy_db \<Rightarrow> member_row option" where
  "find_member org uid s = find (member_at org uid) (au_members (td_auth s))"

definition countActiveOwners :: "string \<Rightarrow> tenancy_db \<Rightarrow> nat" where
  "countActiveOwners org s = length (filter (active_owner org) (au_members (td_auth s)))"

text \<open>An UPDATE of a membership, and its deferred check when it hits a row.\<close>

definition update_member :: "string \<Rightarrow> string \<Rightarrow> (member_row \<Rightarrow> member_row) \<Rightarrow> (tenancy_db, unit) tx" where
  "update_member org uid f s =
    (if find_member org uid s = None then Inr ((), s)
     else tx_bind (on_auth (\<lambda>a. a\<lparr>au_members := update_rows (member_at org uid) f (au_members a)\<rparr>)) (\<lambda>_. queue_check org) s)"

definition setMembershipRole :: "string \<Rightarrow> string \<Rightarrow> auth_role \<Rightarrow> (tenancy_db, unit) tx" where
  "setMembershipRole org uid role = update_member org uid (\<lambda>m. m\<lparr>mb_role := role\<rparr>)"

definition removeMembership :: "tenancy_env \<Rightarrow> string \<Rightarrow> string \<Rightarrow> (tenancy_db, unit) tx" where
  "removeMembership env org uid s =
    (if find_member org uid s = None then Inr ((), s)
     else if ty_referenced env org uid then update_member org uid (\<lambda>m. m\<lparr>mb_status := DISABLED\<rparr>) s
     else tx_bind (on_auth (\<lambda>a. a\<lparr>au_members := filter (\<lambda>m. \<not> member_at org uid m) (au_members a)\<rparr>)) (\<lambda>_. queue_check org) s)"

definition may_manage :: "member_row option \<Rightarrow> bool" where
  "may_manage m = (case m of None \<Rightarrow> False | Some a \<Rightarrow> mb_status a = ACTIVE \<and> (mb_role a = OWNER \<or> mb_role a = ADMIN))"

definition makes_owner :: "member_command \<Rightarrow> bool" where
  "makes_owner cmd = (case cmd of SET_ROLE _ r _ \<Rightarrow> r = OWNER | REMOVE _ _ \<Rightarrow> False)"

text \<open>What the transaction decides from the rows it has locked and the owners it counts.\<close>

definition decide_membership :: "member_actor \<Rightarrow> member_command \<Rightarrow> (tenancy_db, unit) tx" where
  "decide_membership actor cmd s =
    (case find_member (ma_org actor) (ma_user actor) s of
       None \<Rightarrow> Inl (MembershipError ''MEMBERSHIP_FORBIDDEN'')
     | Some a \<Rightarrow>
       if \<not> may_manage (Some a) then Inl (MembershipError ''MEMBERSHIP_FORBIDDEN'')
       else case (if ma_user actor = command_user cmd then Some a else find_member (ma_org actor) (command_user cmd) s) of
         None \<Rightarrow> Inl (MembershipError ''MEMBERSHIP_NOT_FOUND'')
       | Some t \<Rightarrow>
           if (mb_role t = OWNER \<or> makes_owner cmd) \<and> mb_role a \<noteq> OWNER then Inl (MembershipError ''OWNER_REQUIRED'')
           else if mb_role t = OWNER \<and> mb_status t = ACTIVE \<and> \<not> makes_owner cmd \<and> countActiveOwners (ma_org actor) s \<le> 1
           then Inl (MembershipError ''LAST_OWNER'')
           else Inr ((), s))"

definition apply_membership :: "tenancy_env \<Rightarrow> member_actor \<Rightarrow> member_command \<Rightarrow> (tenancy_db, unit) tx" where
  "apply_membership env actor cmd =
    tx_bind (case cmd of REMOVE u _ \<Rightarrow> removeMembership env (ma_org actor) u
      | SET_ROLE u r _ \<Rightarrow> setMembershipRole (ma_org actor) u r) (\<lambda>_.
    audit_tenant \<lparr>te_type = MEMBERSHIP_CHANGED, te_org = ma_org actor, te_actorId = Some (ma_user actor), te_actorKind = NoKind,
      te_resourceId = command_user cmd, te_requestId = command_request cmd\<rparr>)"

definition isLastOwnerConstraint :: "js_error \<Rightarrow> bool" where
  "isLastOwnerConstraint e \<longleftrightarrow> e = owner_violation"

definition member_errors :: "js_error \<Rightarrow> js_error" where
  "member_errors e = (if isLastOwnerConstraint e then MembershipError ''LAST_OWNER'' else e)"

definition changeMembership :: "tenancy_env \<Rightarrow> member_actor \<Rightarrow> member_command \<Rightarrow> (tenancy_db, unit) tx" where
  "changeMembership env actor cmd = tx_map_error member_errors
     (committed (tx_bind (decide_membership actor cmd) (\<lambda>_. apply_membership env actor cmd)))"

section \<open>User status\<close>

definition setUserStatus :: "string \<Rightarrow> row_status \<Rightarrow> (tenancy_db, unit) tx" where
  "setUserStatus uid st = on_auth (\<lambda>a. a\<lparr>au_users := update_rows (\<lambda>u. us_id u = uid) (\<lambda>u. u\<lparr>us_status := st\<rparr>) (au_users a)\<rparr>)"

end
