(* ===== verification/Tenancy_Properties.thy ===== *)
theory Tenancy_Properties
  imports Tenancy Auth_Grants
begin

text \<open>
  Every organization keeps an active owner, whatever order membership changes decide and commit in;
  who may change what; what the creation of a tenant leaves behind.
\<close>

section \<open>What a commit guarantees\<close>

definition owned :: "tenancy_db \<Rightarrow> bool" where
  "owned s \<longleftrightarrow> (\<forall>x \<in> set (au_orgs (td_auth s)). \<exists>m \<in> set (au_members (td_auth s)). active_owner (or_id x) m)"

definition tenancy_ok :: "tenancy_db \<Rightarrow> bool" where
  "tenancy_ok s \<longleftrightarrow> owned s \<and> distinct (map or_id (au_orgs (td_auth s))) \<and> distinct (map or_slug (au_orgs (td_auth s)))
     \<and> distinct (map us_id (au_users (td_auth s))) \<and> distinct (map us_email (au_users (td_auth s)))
     \<and> distinct (map (\<lambda>m. (mb_org m, mb_user m)) (au_members (td_auth s)))"

text \<open>
  Inside a transaction: keys stay unique, and an organization without an active owner is queued
  for the check.
\<close>

definition checked_later :: "tenancy_db \<Rightarrow> bool" where
  "checked_later s \<longleftrightarrow> (\<forall>x \<in> set (au_orgs (td_auth s)). (\<exists>m \<in> set (au_members (td_auth s)). active_owner (or_id x) m)
       \<or> or_id x \<in> set (td_deferred s))
     \<and> distinct (map or_id (au_orgs (td_auth s))) \<and> distinct (map or_slug (au_orgs (td_auth s)))
     \<and> distinct (map us_id (au_users (td_auth s))) \<and> distinct (map us_email (au_users (td_auth s)))
     \<and> distinct (map (\<lambda>m. (mb_org m, mb_user m)) (au_members (td_auth s)))"

abbreviation keeps_checked :: "tenancy_db \<Rightarrow> tenancy_db \<Rightarrow> bool" where
  "keeps_checked \<equiv> (\<lambda>s s'. checked_later s \<longrightarrow> checked_later s')"

interpretation checked: tx_frame keeps_checked
  by (rule tx_frame_invariant)

lemma list_ex_id: "list_ex (\<lambda>r. f r = k) rs \<longleftrightarrow> k \<in> f ` set rs"
  by (auto simp: list_ex_iff)

lemma checked_createOrganization: "tx_respects keeps_checked (createOrganization env name slug)"
  unfolding tx_respects_def createOrganization_def Let_def checked_later_def on_auth_def queue_check_def
  by (auto simp: list_ex_id tx_bind_def split: if_splits)

lemma checked_createUser: "tx_respects keeps_checked (createUser env email hash)"
  unfolding tx_respects_def createUser_def Let_def checked_later_def on_auth_def
  by (auto simp: list_ex_id tx_bind_def split: if_splits)

lemma checked_createMembership: "tx_respects keeps_checked (createMembership env org uid role)"
  unfolding tx_respects_def createMembership_def Let_def checked_later_def on_auth_def queue_check_def
  by (auto simp: list_ex_iff member_at_def tx_bind_def split: if_splits option.splits)

lemma checked_account: "tx_respects keeps_checked (ensureLogicalBaileysAccount env org)"
  unfolding tx_respects_def ensureLogicalBaileysAccount_def Let_def checked_later_def
  by (auto split: option.splits)

lemma checked_audit: "tx_respects keeps_checked (audit_tenant e)"
  unfolding tx_respects_def audit_tenant_def checked_later_def by auto

lemma keys_update: "(\<And>m. mb_org (f m) = mb_org m \<and> mb_user (f m) = mb_user m) \<Longrightarrow>
    map (\<lambda>m. (mb_org m, mb_user m)) (update_rows p f ms) = map (\<lambda>m. (mb_org m, mb_user m)) ms"
  by (rule map_update_rows) simp

lemma other_owner_kept: "m \<in> set ms \<Longrightarrow> active_owner o' m \<Longrightarrow> o' \<noteq> org \<Longrightarrow> m \<in> set (update_rows (member_at org uid) f ms)"
  by (auto simp: update_rows_def active_owner_def member_at_def image_iff intro!: bexI [of _ m])

lemma checked_update_member:
  assumes "\<And>m. mb_org (f m) = mb_org m \<and> mb_user (f m) = mb_user m"
  shows "tx_respects keeps_checked (update_member org uid f)"
proof (rule tx_respectsI, rule impI)
  fix s a s' assume run: "update_member org uid f s = Inr (a, s')" and ok: "checked_later s"
  show "checked_later s'"
  proof (cases "find_member org uid s")
    case None
    with run ok show ?thesis by (simp add: update_member_def)
  next
    case (Some m)
    with run have s': "s' = s\<lparr>td_auth := (td_auth s)\<lparr>au_members := update_rows (member_at org uid) f (au_members (td_auth s))\<rparr>,
        td_deferred := td_deferred s @ [org]\<rparr>"
      by (auto simp: update_member_def on_auth_def queue_check_def tx_bind_def)
    from ok show ?thesis unfolding checked_later_def s'
      by (auto simp: keys_update [OF assms] intro: other_owner_kept)
  qed
qed

lemma checked_removeMembership: "tx_respects keeps_checked (removeMembership env org uid)"
proof (rule tx_respectsI, rule impI)
  fix s a s' assume run: "removeMembership env org uid s = Inr (a, s')" and ok: "checked_later s"
  note upd = tx_respectsD [OF checked_update_member [of "\<lambda>m. m\<lparr>mb_status := DISABLED\<rparr>" org uid]]
  have "s' = s \<or> update_member org uid (\<lambda>m. m\<lparr>mb_status := DISABLED\<rparr>) s = Inr (a, s')
    \<or> s' = s\<lparr>td_auth := (td_auth s)\<lparr>au_members := filter (\<lambda>m. \<not> member_at org uid m) (au_members (td_auth s))\<rparr>,
        td_deferred := td_deferred s @ [org]\<rparr>"
    using run by (cases "find_member org uid s = None"; cases "ty_referenced env org uid")
      (simp_all add: removeMembership_def on_auth_def queue_check_def tx_bind_def)
  then consider "s' = s" | "update_member org uid (\<lambda>m. m\<lparr>mb_status := DISABLED\<rparr>) s = Inr (a, s')"
    | "s' = s\<lparr>td_auth := (td_auth s)\<lparr>au_members := filter (\<lambda>m. \<not> member_at org uid m) (au_members (td_auth s))\<rparr>,
        td_deferred := td_deferred s @ [org]\<rparr>" by blast
  then show "checked_later s'"
  proof cases
    case 1 with ok show ?thesis by simp
  next
    case 2 with upd ok show ?thesis by simp
  next
    case 3
    have "o' \<noteq> org \<Longrightarrow> active_owner o' m \<Longrightarrow> \<not> member_at org uid m" for o' m
      by (auto simp: active_owner_def member_at_def)
    then have "active_owner o' m \<Longrightarrow> member_at org uid m \<Longrightarrow> o' = org" for o' m by blast
    with ok show ?thesis unfolding checked_later_def 3 by (auto intro: distinct_map_filter) blast
  qed
qed

lemma committed_ok:
  assumes "tx_respects keeps_checked m" and "committed m s = Inr (a, s')" and "tenancy_ok s"
  shows "tenancy_ok s'"
proof -
  obtain s1 where m: "m (s\<lparr>td_deferred := []\<rparr>) = Inr (a, s1)" and all: "list_all (\<lambda>org. ensure_organization_has_owner org s1) (td_deferred s1)"
      and s': "s' = s1\<lparr>td_deferred := []\<rparr>"
    using assms(2) by (auto simp: committed_def commit_checks_def tx_bind_eq_Inr split: if_splits)
  from assms(3) have "checked_later (s\<lparr>td_deferred := []\<rparr>)"
    by (simp add: tenancy_ok_def checked_later_def owned_def)
  with tx_respectsD [OF assms(1) m] have "checked_later s1" by simp
  with all show ?thesis unfolding tenancy_ok_def checked_later_def owned_def s'
    by (fastforce simp: list_all_iff list_ex_iff ensure_organization_has_owner_def)
qed

section \<open>Interleavings\<close>

text \<open>
  A membership change decides on what it reads and writes later; between the two, other transactions
  commit. The row locks of the code, which forbid some of these orders, are left out: every order
  is a run.
\<close>

type_synonym tenancy_run_state = "tenancy_db \<times> (member_actor \<times> member_command) list"

inductive tenancy_step :: "tenancy_run_state \<Rightarrow> tenancy_run_state \<Rightarrow> bool" where
  decided: "decide_membership actor cmd s = Inr ((), s) \<Longrightarrow> tenancy_step (s, ps) (s, (actor, cmd) # ps)"
| written: "(actor, cmd) \<in> set ps \<Longrightarrow> committed (apply_membership env actor cmd) s = Inr ((), s') \<Longrightarrow>
    tenancy_step (s, ps) (s', remove1 (actor, cmd) ps)"
| bootstrapped: "bootstrapFirstTenant env i s = Inr (r, s') \<Longrightarrow> tenancy_step (s, ps) (s', ps)"
| created: "createTenant env c s = Inr (r, s') \<Longrightarrow> tenancy_step (s, ps) (s', ps)"
| changed: "changeMembership env actor cmd s = Inr ((), s') \<Longrightarrow> tenancy_step (s, ps) (s', ps)"
| blocked: "setUserStatus uid st s = Inr ((), s') \<Longrightarrow> tenancy_step (s, ps) (s', ps)"

lemma checked_apply: "tx_respects keeps_checked (apply_membership env actor cmd)"
  unfolding apply_membership_def setMembershipRole_def
  by (rule checked.respects_bind)
    (auto split: member_command.splits intro!: checked_removeMembership checked_update_member checked_audit)

lemma checked_lift: "tx_respects keeps_checked (lift_result r)"
  by (auto simp: tx_respects_def lift_result_def split: sum.splits)

lemma checked_security: "tx_respects keeps_checked (\<lambda>s. case r of Inl e \<Rightarrow> Inl e | Inr x \<Rightarrow> Inr ((), s\<lparr>td_security := td_security s @ [x]\<rparr>))"
  by (auto simp: tx_respects_def checked_later_def split: sum.splits)

lemmas checked_statements = checked_createOrganization checked_createUser checked_createMembership checked_account checked_audit
  checked_lift checked_security

lemma checked_bootstrap: "tx_respects keeps_checked (bootstrap_transaction env c p)"
  unfolding bootstrap_transaction_def countOrganizations_def createOwnerMembership_def
  by (intro checked.respects_intros checked_statements)

lemma checked_tenant: "tx_respects keeps_checked (tenant_transaction env c mode)"
  unfolding tenant_transaction_def countOrganizations_def findUserByEmailForUpdate_def finishTenantCreation_def
    createOwnerMembership_def tenant_error_def
  by (intro checked.respects_bind checked.respects_gets checked.respects_if)
    (auto split: owner_mode.split intro!: checked.respects_intros checked_statements)

lemma admin_run: "runInAdminTransaction env m s = Inr (r, s') \<Longrightarrow> committed m s = Inr (r, s')"
  by (simp add: runInAdminTransaction_def split: if_splits)

lemma bootstrap_run:
  assumes "bootstrapFirstTenant env i s = Inr (r, s')"
  obtains c p where "validateCanonicalOnboardingInput env i = Some c" "committed (bootstrap_transaction env c p) s = Inr (r, s')"
  using assms by (auto simp: bootstrapFirstTenant_def split: option.splits dest!: admin_run)

lemma create_run:
  assumes "createTenant env i s = Inr (r, s')"
  obtains c where "canonical_tenant env i = Some c" "committed (tenant_transaction env c (tc_mode i)) s = Inr (r, s')"
  using assms by (auto simp: createTenant_def tenant_error_def split: option.splits sum.splits if_splits dest!: admin_run)

lemma change_run:
  assumes "changeMembership env actor cmd s = Inr ((), s')"
  shows "committed (tx_bind (decide_membership actor cmd) (\<lambda>_. apply_membership env actor cmd)) s = Inr ((), s')"
  using assms by (simp add: changeMembership_def)

lemma decide_reads: "decide_membership actor cmd s = Inr (u, s') \<Longrightarrow> s' = s"
  by (auto simp: decide_membership_def split: option.splits if_splits)

lemma tenancy_step_ok: "tenancy_step x y \<Longrightarrow> tenancy_ok (fst x) \<Longrightarrow> tenancy_ok (fst y)"
proof (induction rule: tenancy_step.induct)
  case (written actor cmd ps env s s')
  with committed_ok [OF checked_apply] show ?case by auto
next
  case (bootstrapped env i s r s' ps)
  then show ?case using committed_ok [OF checked_bootstrap] by (auto elim!: bootstrap_run)
next
  case (created env c s r s' ps)
  then show ?case using committed_ok [OF checked_tenant] by (auto elim!: create_run)
next
  case (changed env actor cmd s s' ps)
  have "tx_respects keeps_checked (tx_bind (decide_membership actor cmd) (\<lambda>_. apply_membership env actor cmd))"
    by (intro checked.respects_bind checked_apply checked.respects_reading) (rule decide_reads)
  from committed_ok [OF this change_run [OF changed(1)]] changed show ?case by simp
next
  case (blocked uid st s s' ps)
  then show ?case
    by (auto simp: setUserStatus_def on_auth_def tenancy_ok_def owned_def map_update_rows)
qed simp

text \<open>
  C16: In every interleaving of membership changes (decided on what they read, written later),
  tenant creations, bootstraps and status changes, every organization keeps an active owner, and
  organizations, slugs, users, e-mail addresses and memberships stay unique.
\<close>

theorem every_organization_keeps_an_owner:
  assumes "tenancy_step\<^sup>*\<^sup>* (s, ps) (t, qs)" and "tenancy_ok s"
  shows "tenancy_ok t"
proof -
  have "tenancy_ok (fst y)" if "tenancy_step\<^sup>*\<^sup>* x y" "tenancy_ok (fst x)" for x y
    using that by (induction) (blast intro: tenancy_step_ok)+
  from this [OF assms(1)] assms(2) show ?thesis by simp
qed

section \<open>Who changes what\<close>

definition change_event :: "member_actor \<Rightarrow> member_command \<Rightarrow> tenant_event" where
  "change_event actor cmd = \<lparr>te_type = MEMBERSHIP_CHANGED, te_org = ma_org actor, te_actorId = Some (ma_user actor),
     te_actorKind = NoKind, te_resourceId = command_user cmd, te_requestId = command_request cmd\<rparr>"

text \<open>Only the row of the command's user in the actor's organization differs.\<close>

definition same_elsewhere :: "string \<Rightarrow> string \<Rightarrow> tenancy_db \<Rightarrow> tenancy_db \<Rightarrow> bool" where
  "same_elsewhere org uid s s' \<longleftrightarrow> td_accounts s' = td_accounts s \<and> td_security s' = td_security s
     \<and> (\<exists>ms. td_auth s' = (td_auth s)\<lparr>au_members := ms\<rparr>
        \<and> filter (\<lambda>m. \<not> member_at org uid m) ms = filter (\<lambda>m. \<not> member_at org uid m) (au_members (td_auth s)))"

lemma filter_update_member: "(\<And>m. mb_org (f m) = mb_org m \<and> mb_user (f m) = mb_user m) \<Longrightarrow>
    filter (\<lambda>m. \<not> member_at org uid m) (update_rows (member_at org uid) f ms) = filter (\<lambda>m. \<not> member_at org uid m) ms"
  by (rule filter_update_rows_other) (simp_all add: member_at_def)

lemma update_member_same:
  assumes "update_member org uid f s = Inr (u, s')" and "\<And>m. mb_org (f m) = mb_org m \<and> mb_user (f m) = mb_user m"
  shows "same_elsewhere org uid s s' \<and> td_audit s' = td_audit s"
  using assms(1) unfolding same_elsewhere_def
  by (auto simp: update_member_def on_auth_def queue_check_def tx_bind_def filter_update_member [OF assms(2)] split: if_splits
      intro: exI [of _ "au_members (td_auth s)"])

lemma remove_same:
  assumes "removeMembership env org uid s = Inr (u, s')"
  shows "same_elsewhere org uid s s' \<and> td_audit s' = td_audit s"
proof (cases "find_member org uid s = None")
  case True
  with assms show ?thesis by (auto simp: removeMembership_def same_elsewhere_def intro: exI [of _ "au_members (td_auth s)"])
next
  case False
  with assms update_member_same [of org uid "\<lambda>m. m\<lparr>mb_status := DISABLED\<rparr>" s u s'] show ?thesis
    by (cases "ty_referenced env org uid")
      (auto simp: removeMembership_def on_auth_def queue_check_def tx_bind_def same_elsewhere_def)
qed

lemma apply_same:
  assumes "apply_membership env actor cmd s = Inr (u, s')"
  shows "same_elsewhere (ma_org actor) (command_user cmd) s s' \<and> td_audit s' = writeTenantAudit (change_event actor cmd) (td_audit s)"
proof -
  obtain s1 where s1: "(case cmd of REMOVE u _ \<Rightarrow> removeMembership env (ma_org actor) u
      | SET_ROLE u r _ \<Rightarrow> setMembershipRole (ma_org actor) u r) s = Inr ((), s1)"
    and s': "s' = s1\<lparr>td_audit := writeTenantAudit (change_event actor cmd) (td_audit s1)\<rparr>"
    using assms by (auto simp: apply_membership_def tx_bind_eq_Inr audit_tenant_def change_event_def)
  have "same_elsewhere (ma_org actor) (command_user cmd) s s1 \<and> td_audit s1 = td_audit s"
  proof (cases cmd)
    case (SET_ROLE u r q)
    with s1 have "update_member (ma_org actor) u (\<lambda>m. m\<lparr>mb_role := r\<rparr>) s = Inr ((), s1)" by (simp add: setMembershipRole_def)
    from update_member_same [OF this] SET_ROLE show ?thesis by simp
  next
    case (REMOVE u q)
    with s1 have "removeMembership env (ma_org actor) u s = Inr ((), s1)" by simp
    from remove_same [OF this] REMOVE show ?thesis by simp
  qed
  with s' show ?thesis by (simp add: same_elsewhere_def)
qed

lemma decide_facts:
  assumes "decide_membership actor cmd s = Inr (u, s')"
  obtains a t where "find_member (ma_org actor) (ma_user actor) s = Some a" "mb_status a = ACTIVE" "mb_role a = OWNER \<or> mb_role a = ADMIN"
    "find_member (ma_org actor) (command_user cmd) s = Some t" "mb_role t = OWNER \<or> makes_owner cmd \<Longrightarrow> mb_role a = OWNER"
    "active_owner (ma_org actor) t \<Longrightarrow> \<not> makes_owner cmd \<Longrightarrow> 1 < countActiveOwners (ma_org actor) s"
  using assms unfolding decide_membership_def may_manage_def
  by (fastforce split: option.splits if_splits simp: active_owner_def)

lemma change_parts:
  assumes "changeMembership env actor cmd s = Inr ((), s')"
  obtains s1 where "decide_membership actor cmd (s\<lparr>td_deferred := []\<rparr>) = Inr ((), s\<lparr>td_deferred := []\<rparr>)"
    and "apply_membership env actor cmd (s\<lparr>td_deferred := []\<rparr>) = Inr ((), s1)" and "s' = s1\<lparr>td_deferred := []\<rparr>"
proof -
  from change_run [OF assms] obtain u s0 s1 where d: "decide_membership actor cmd (s\<lparr>td_deferred := []\<rparr>) = Inr (u, s0)"
    and a: "apply_membership env actor cmd s0 = Inr ((), s1)" and s': "s' = s1\<lparr>td_deferred := []\<rparr>"
    by (auto simp: committed_def commit_checks_def tx_bind_eq_Inr split: if_splits)
  from decide_reads [OF d] d a s' that show thesis by simp
qed

lemma reads_deferred [simp]:
  "find_member org uid (s\<lparr>td_deferred := ds\<rparr>) = find_member org uid s"
  "countActiveOwners org (s\<lparr>td_deferred := ds\<rparr>) = countActiveOwners org s"
  by (simp_all add: find_member_def countActiveOwners_def)


section \<open>Removal and sessions\<close>

lemma removed_row:
  assumes "removeMembership env org uid s = Inr (u, s')"
  shows "\<forall>m \<in> set (au_members (td_auth s')). member_at org uid m \<longrightarrow> mb_status m = DISABLED"
proof (cases "find_member org uid s")
  case None
  with assms have "s' = s" by (simp add: removeMembership_def)
  with find_None_all [OF None [unfolded find_member_def]] show ?thesis by auto
next
  case (Some m)
  show ?thesis
  proof (cases "ty_referenced env org uid")
    case True
    with assms Some have "au_members (td_auth s') = update_rows (member_at org uid) (\<lambda>m. m\<lparr>mb_status := DISABLED\<rparr>) (au_members (td_auth s))"
      by (simp add: removeMembership_def update_member_def on_auth_def queue_check_def tx_bind_def) auto
    then show ?thesis by (auto dest!: set_update_rows)
  next
    case False
    with assms Some have "au_members (td_auth s') = filter (\<lambda>m. \<not> member_at org uid m) (au_members (td_auth s))"
      by (simp add: removeMembership_def on_auth_def queue_check_def tx_bind_def) auto
    then show ?thesis by simp
  qed
qed


section \<open>New tenants\<close>

text \<open>What a new tenant adds: one organization with its owner, an account and nothing else.\<close>

definition new_tenant :: "onboarding \<Rightarrow> tenant_result \<Rightarrow> user_row list \<Rightarrow> tenancy_db \<Rightarrow> tenancy_db \<Rightarrow> bool" where
  "new_tenant c r us s s' \<longleftrightarrow>
     td_auth s' = (td_auth s)\<lparr>au_orgs := au_orgs (td_auth s) @ [\<lparr>or_id = tn_org r, or_name = ob_name c, or_slug = ob_slug c, or_status = ACTIVE\<rparr>],
       au_users := us, au_members := au_members (td_auth s) @ [\<lparr>mb_org = tn_org r, mb_user = tn_owner r, mb_role = OWNER, mb_status = ACTIVE\<rparr>]\<rparr>
   \<and> (\<exists>p \<in> set (td_accounts s'). pa_id p = tn_account r \<and> pa_org p = tn_org r \<and> pa_provider p = ''BAILEYS'')
   \<and> ob_slug c \<notin> or_slug ` set (au_orgs (td_auth s))"

lemma account_found:
  assumes "ensureLogicalBaileysAccount env org s = Inr (pid, s')"
  shows "td_auth s' = td_auth s \<and> td_audit s' = td_audit s \<and> td_security s' = td_security s
    \<and> (\<exists>p \<in> set (td_accounts s'). pa_id p = pid \<and> pa_org p = org \<and> pa_provider p = ''BAILEYS'')"
proof (cases "find (\<lambda>p. pa_org p = org \<and> pa_provider p = ''BAILEYS'') (td_accounts s)")
  case None
  with assms show ?thesis by (auto simp: ensureLogicalBaileysAccount_def Let_def)
next
  case (Some p)
  from find_mem [OF Some] assms Some show ?thesis by (auto simp: ensureLogicalBaileysAccount_def)
qed

lemma created_org:
  assumes "createOrganization env name slug s = Inr (org, s')"
  shows "s' = s\<lparr>td_auth := (td_auth s)\<lparr>au_orgs := au_orgs (td_auth s) @ [\<lparr>or_id = org, or_name = name, or_slug = slug, or_status = ACTIVE\<rparr>]\<rparr>,
      td_deferred := td_deferred s @ [org]\<rparr> \<and> slug \<notin> or_slug ` set (au_orgs (td_auth s))"
proof (cases "list_ex (\<lambda>r. or_slug r = slug) (au_orgs (td_auth s))")
  case True
  with assms show ?thesis by (simp add: createOrganization_def Let_def split: if_splits)
next
  case False
  with assms show ?thesis
    by (cases "list_ex (\<lambda>r. or_id r = ty_fresh env (length (au_orgs (td_auth s)))) (au_orgs (td_auth s))")
      (auto simp: createOrganization_def Let_def on_auth_def queue_check_def tx_bind_def list_ex_id split: if_splits)
qed

lemma created_user:
  assumes "createUser env email hash s = Inr (uid, s')"
  shows "s' = s\<lparr>td_auth := (td_auth s)\<lparr>au_users := au_users (td_auth s) @ [\<lparr>us_id = uid, us_email = email, us_passwordHash = hash,
      us_version = 0, us_status = ACTIVE\<rparr>]\<rparr>\<rparr>"
proof -
  let ?taken = "\<not> ty_normal env email \<or> list_ex (\<lambda>u. us_id u = ty_fresh env (length (au_users (td_auth s)))) (au_users (td_auth s))
    \<or> list_ex (\<lambda>u. us_email u = email) (au_users (td_auth s))"
  show ?thesis
  proof (cases ?taken)
    case True
    with assms show ?thesis by (simp add: createUser_def Let_def split: if_splits)
  next
    case False
    with assms show ?thesis by (simp add: createUser_def Let_def on_auth_def tx_bind_def) auto
  qed
qed

lemma created_owner:
  assumes "createOwnerMembership env org uid s = Inr (u, s')"
  shows "s' = s\<lparr>td_auth := (td_auth s)\<lparr>au_members := au_members (td_auth s) @ [\<lparr>mb_org = org, mb_user = uid, mb_role = OWNER, mb_status = ACTIVE\<rparr>]\<rparr>,
      td_deferred := td_deferred s @ [org]\<rparr>"
  using assms by (cases "list_ex (member_at org uid) (au_members (td_auth s))")
    (simp_all add: createOwnerMembership_def createMembership_def Let_def on_auth_def queue_check_def tx_bind_def split: option.splits)

lemma committed_run: "committed m s = Inr (r, s') \<Longrightarrow>
    \<exists>s1. m (s\<lparr>td_deferred := []\<rparr>) = Inr (r, s1) \<and> s' = s1\<lparr>td_deferred := []\<rparr>"
  by (auto simp: committed_def commit_checks_def tx_bind_eq_Inr split: if_splits)

definition creation_event :: "string \<Rightarrow> string \<Rightarrow> tenant_event" where
  "creation_event request org = \<lparr>te_type = TENANT_CREATED, te_org = org, te_actorId = None, te_actorKind = NoKind,
     te_resourceId = org, te_requestId = request\<rparr>"

lemma finish_run:
  assumes "finishTenantCreation env request org owner s = Inr (r, s')"
  shows "td_auth s' = (td_auth s)\<lparr>au_members := au_members (td_auth s) @ [\<lparr>mb_org = org, mb_user = owner, mb_role = OWNER, mb_status = ACTIVE\<rparr>]\<rparr>
    \<and> td_audit s' = td_audit s @ [toTenantAuditRecord (creation_event request org)] \<and> tn_org r = org \<and> tn_owner r = owner
    \<and> (\<exists>p \<in> set (td_accounts s'). pa_id p = tn_account r \<and> pa_org p = org \<and> pa_provider p = ''BAILEYS'')"
  using assms unfolding finishTenantCreation_def
  by (auto simp: tx_bind_eq_Inr audit_tenant_def writeTenantAudit_def creation_event_def dest!: created_owner account_found)

definition owner_of_mode :: "tenancy_env \<Rightarrow> onboarding \<Rightarrow> owner_mode \<Rightarrow> tenant_result \<Rightarrow> user_row list \<Rightarrow> user_row list \<Rightarrow> bool" where
  "owner_of_mode env c mode r us us' = (case mode of
     CREATE_NEW _ \<Rightarrow> \<exists>pw hash. ob_password c = Some pw \<and> ty_hash env pw = Inr hash
       \<and> us' = us @ [\<lparr>us_id = tn_owner r, us_email = ob_email c, us_passwordHash = hash, us_version = 0, us_status = ACTIVE\<rparr>]
       \<and> ob_email c \<notin> us_email ` set us
   | _ \<Rightarrow> us' = us \<and> (\<exists>u \<in> set us. us_id u = tn_owner r \<and> us_email u = ob_email c \<and> us_status u = ACTIVE))"

lemma tenant_new_run:
  assumes "tenant_transaction env c (CREATE_NEW p) s = Inr (r, s')"
  shows "\<exists>us. new_tenant c r us s s' \<and> owner_of_mode env c (CREATE_NEW p) r (au_users (td_auth s)) us
    \<and> td_audit s' = td_audit s @ [toTenantAuditRecord (creation_event (ob_request c) (tn_org r))] \<and> au_orgs (td_auth s) \<noteq> []"
proof -
  from assms obtain pw hash org owner s1 s2 where free: "find (\<lambda>u. us_email u = ob_email c) (au_users (td_auth s)) = None"
    and pw: "ob_password c = Some pw" "ty_hash env pw = Inr hash" and n: "au_orgs (td_auth s) \<noteq> []"
    and o1: "createOrganization env (ob_name c) (ob_slug c) s = Inr (org, s1)" and o2: "createUser env (ob_email c) hash s1 = Inr (owner, s2)"
    and o3: "finishTenantCreation env (ob_request c) org owner s2 = Inr (r, s')"
    unfolding tenant_transaction_def countOrganizations_def findUserByEmailForUpdate_def tenant_error_def lift_result_def
    by (auto simp: tx_bind_eq_Inr split: if_splits option.splits sum.splits)
  from find_None_all [OF free] have fresh: "ob_email c \<notin> us_email ` set (au_users (td_auth s))" by fastforce
  note f = finish_run [OF o3] and u = created_user [OF o2] and g = created_org [OF o1]
  show ?thesis using f u g pw n fresh unfolding new_tenant_def owner_of_mode_def
    by (intro exI [of _ "au_users (td_auth s) @ [\<lparr>us_id = owner, us_email = ob_email c, us_passwordHash = hash, us_version = 0, us_status = ACTIVE\<rparr>]"]) auto
qed

lemma tenant_link_run:
  assumes "tenant_transaction env c mode s = Inr (r, s')" and "\<And>p. mode \<noteq> CREATE_NEW p"
  shows "\<exists>us. new_tenant c r us s s' \<and> owner_of_mode env c mode r (au_users (td_auth s)) us
    \<and> td_audit s' = td_audit s @ [toTenantAuditRecord (creation_event (ob_request c) (tn_org r))] \<and> au_orgs (td_auth s) \<noteq> []"
proof -
  from assms obtain u org s1 where found: "find (\<lambda>u. us_email u = ob_email c) (au_users (td_auth s)) = Some u" "us_status u = ACTIVE"
    and n: "au_orgs (td_auth s) \<noteq> []" and o1: "createOrganization env (ob_name c) (ob_slug c) s = Inr (org, s1)"
    and o3: "finishTenantCreation env (ob_request c) org (us_id u) s1 = Inr (r, s')"
    unfolding tenant_transaction_def countOrganizations_def findUserByEmailForUpdate_def tenant_error_def
    by (cases mode) (auto simp: tx_bind_eq_Inr split: if_splits option.splits)
  have "owner_of_mode env c mode r (au_users (td_auth s)) (au_users (td_auth s))"
    using assms(2) find_mem [OF found(1)] found(2) finish_run [OF o3] by (cases mode) (auto simp: owner_of_mode_def)
  with finish_run [OF o3] created_org [OF o1] n show ?thesis unfolding new_tenant_def
    by (intro exI [of _ "au_users (td_auth s)"]) auto
qed

lemma tenant_transaction_run:
  assumes "committed (tenant_transaction env c mode) s = Inr (r, s')"
  shows "\<exists>us. new_tenant c r us s s' \<and> owner_of_mode env c mode r (au_users (td_auth s)) us
    \<and> td_audit s' = td_audit s @ [toTenantAuditRecord (creation_event (ob_request c) (tn_org r))] \<and> au_orgs (td_auth s) \<noteq> []"
proof -
  from committed_run [OF assms] obtain s1 where t: "tenant_transaction env c mode (s\<lparr>td_deferred := []\<rparr>) = Inr (r, s1)"
    and s': "s' = s1\<lparr>td_deferred := []\<rparr>" by blast
  have "\<exists>us. new_tenant c r us (s\<lparr>td_deferred := []\<rparr>) s1 \<and> owner_of_mode env c mode r (au_users (td_auth s)) us
    \<and> td_audit s1 = td_audit s @ [toTenantAuditRecord (creation_event (ob_request c) (tn_org r))] \<and> au_orgs (td_auth s) \<noteq> []"
  proof (cases mode)
    case (CREATE_NEW p)
    from tenant_new_run [OF t [unfolded CREATE_NEW]] CREATE_NEW show ?thesis by simp
  next
    case (LINK_EXISTING ok p)
    with tenant_link_run [OF t] show ?thesis by simp
  next
    case OTHER_MODE
    with tenant_link_run [OF t] show ?thesis by simp
  qed
  with s' show ?thesis by (simp add: new_tenant_def)
qed

text \<open>
  C23: A tenant is created only for a valid administrative credential and never before the first one;
  then exactly one active organization with its canonical name and slug is added, with one OWNER
  membership, an account and one audit row. The owner is a new user with the hash of the given
  password, or an existing active user whose linking was confirmed and came without a password.
\<close>

theorem created_tenants_are_owned:
  assumes "createTenant env i s = Inr (r, s')"
  shows "\<exists>c us. canonical_tenant env i = Some c \<and> new_tenant c r us s s' \<and> au_orgs (td_auth s) \<noteq> []
    \<and> owner_of_mode env c (tc_mode i) r (au_users (td_auth s)) us
    \<and> ty_credential env (tc_credential i) = Inr True
    \<and> (\<forall>ok p. tc_mode i = LINK_EXISTING ok p \<longrightarrow> ok \<and> p = None)
    \<and> td_audit s' = td_audit s @ [toTenantAuditRecord (creation_event (ob_request c) (tn_org r))]"
proof -
  obtain c where c: "canonical_tenant env i = Some c" and t: "committed (tenant_transaction env c (tc_mode i)) s = Inr (r, s')"
    by (rule create_run [OF assms])
  have "ty_credential env (tc_credential i) = Inr True \<and> (\<forall>ok p. tc_mode i = LINK_EXISTING ok p \<longrightarrow> ok \<and> p = None)"
    using assms c by (cases "tc_mode i") (auto simp: createTenant_def tenant_error_def split: option.splits sum.splits if_splits bool.splits)
  with c tenant_transaction_run [OF t] show ?thesis by blast
qed

section \<open>The first tenant\<close>

lemma bootstrap_transaction_run:
  assumes "bootstrapFirstTenant env i s = Inr (r, s')"
  shows "au_orgs (td_auth s) = [] \<and> (\<exists>x. au_orgs (td_auth s') = [x] \<and> or_id x = tn_org r)"
proof -
  obtain c p where "committed (bootstrap_transaction env c p) s = Inr (r, s')" by (rule bootstrap_run [OF assms])
  from committed_run [OF this] obtain s1 where b: "bootstrap_transaction env c p (s\<lparr>td_deferred := []\<rparr>) = Inr (r, s1)"
    and s': "s' = s1\<lparr>td_deferred := []\<rparr>" by blast
  from b obtain hash org owner s2 s3 s4 s5 where z: "au_orgs (td_auth s) = []"
    and o1: "createOrganization env (ob_name c) (ob_slug c) (s\<lparr>td_deferred := []\<rparr>) = Inr (org, s2)"
    and o2: "createUser env (ob_email c) hash s2 = Inr (owner, s3)" and o3: "createOwnerMembership env org owner s3 = Inr ((), s4)"
    and o4: "ensureLogicalBaileysAccount env org s4 = Inr (tn_account r, s5)" and o5: "td_auth s1 = td_auth s5" "tn_org r = org"
    unfolding bootstrap_transaction_def countOrganizations_def lift_result_def
    by (auto simp: tx_bind_eq_Inr toSecurityAuditRecord_def split: if_splits sum.splits)
  from created_org [OF o1] created_user [OF o2] created_owner [OF o3] account_found [OF o4] o5 z s' show ?thesis by simp
qed

lemma step_keeps_organizations: "tenancy_step x y \<Longrightarrow> au_orgs (td_auth (fst x)) \<noteq> [] \<Longrightarrow> au_orgs (td_auth (fst y)) \<noteq> []"
proof (induction rule: tenancy_step.induct)
  case (written actor cmd ps env s s')
  from committed_run [OF written(2)] obtain s1 where "apply_membership env actor cmd (s\<lparr>td_deferred := []\<rparr>) = Inr ((), s1)"
    "s' = s1\<lparr>td_deferred := []\<rparr>" by blast
  with apply_same written show ?case by (fastforce simp: same_elsewhere_def)
next
  case (bootstrapped env i s r s' ps)
  with bootstrap_transaction_run [OF bootstrapped(1)] show ?case by auto
next
  case (created env c s r s' ps)
  then show ?case by (auto elim!: create_run dest!: tenant_transaction_run simp: new_tenant_def)
next
  case (changed env actor cmd s s' ps)
  obtain s1 where "apply_membership env actor cmd (s\<lparr>td_deferred := []\<rparr>) = Inr ((), s1)" "s' = s1\<lparr>td_deferred := []\<rparr>"
    by (rule change_parts [OF changed(1)])
  with apply_same changed show ?case by (fastforce simp: same_elsewhere_def)
qed (auto simp: setUserStatus_def on_auth_def)

text \<open>
  The first tenant is bootstrapped once: after it, in every later state, another bootstrap is
  refused and changes nothing.
\<close>

theorem the_first_tenant_is_bootstrapped_once:
  assumes "bootstrapFirstTenant env i s = Inr (r, s')" and "tenancy_step\<^sup>*\<^sup>* (s', ps) (t, qs)"
  shows "\<exists>e. run_tx (bootstrapFirstTenant env' j) t = (Inl e, t) \<and> e \<in> {BootstrapError ''INVALID_BOOTSTRAP_INPUT'',
    BootstrapError ''BOOTSTRAP_ALREADY_COMPLETED'', PlainError ''Administrative connection cannot SET ROLE jrc_migrator''}"
proof -
  have "au_orgs (td_auth (fst y)) \<noteq> []" if "tenancy_step\<^sup>*\<^sup>* x y" "au_orgs (td_auth (fst x)) \<noteq> []" for x y
    using that by induction (simp, metis step_keeps_organizations)
  from this [OF assms(2)] bootstrap_transaction_run [OF assms(1)] have "au_orgs (td_auth t) \<noteq> []" by auto
  then show ?thesis
    by (auto simp: bootstrapFirstTenant_def runInAdminTransaction_def committed_def bootstrap_transaction_def countOrganizations_def
        run_tx_def tx_bind_def split: option.splits)
qed

end
