(* ===== verification/Tenancy_Demo.thy ===== *)
theory Tenancy_Demo
  imports Tenancy_Properties
begin

text \<open>
  Two owners who leave at the same time, a removed member with a refresh token, and the first two
  tenants: the witnesses of the properties of organizations and memberships.
\<close>

definition tx_env0 :: tenancy_env where
  "tx_env0 = \<lparr>ty_fresh = (\<lambda>n. ''id'' @ replicate n CHR ''x''), ty_normal = (\<lambda>_. True), ty_admit = (\<lambda>_ _. None),
     ty_referenced = (\<lambda>_ _. False), ty_lower = map to_lower, ty_email = (\<lambda>e. CHR ''@'' \<in> set e), ty_uuid = (\<lambda>_. True),
     ty_hash = (\<lambda>p. Inr (rev p)), ty_credential = (\<lambda>c. Inr (c = ''adm'')), ty_canSetRole = True\<rparr>"

definition two_owners :: tenancy_db where
  "two_owners = \<lparr>td_auth = \<lparr>
     au_users = [\<lparr>us_id = ''u1'', us_email = ''a@x'', us_passwordHash = ''h'', us_version = 0, us_status = ACTIVE\<rparr>,
       \<lparr>us_id = ''u2'', us_email = ''b@x'', us_passwordHash = ''h'', us_version = 0, us_status = ACTIVE\<rparr>],
     au_orgs = [\<lparr>or_id = ''o'', or_name = ''O'', or_slug = ''o'', or_status = ACTIVE\<rparr>],
     au_members = [\<lparr>mb_org = ''o'', mb_user = ''u1'', mb_role = OWNER, mb_status = ACTIVE\<rparr>,
       \<lparr>mb_org = ''o'', mb_user = ''u2'', mb_role = OWNER, mb_status = ACTIVE\<rparr>],
     au_logins = [],
     au_tokens = [\<lparr>rt_id = ''t1'', rt_org = ''o'', rt_user = ''u1'', rt_family = ''f1'', rt_hash = ''h1'', rt_version = 0, rt_expires = 100,
         rt_revoked = None, rt_replacedBy = None\<rparr>,
       \<lparr>rt_id = ''t2'', rt_org = ''o'', rt_user = ''u2'', rt_family = ''f2'', rt_hash = ''h2'', rt_version = 0, rt_expires = 100,
         rt_revoked = None, rt_replacedBy = None\<rparr>]\<rparr>,
     td_accounts = [], td_audit = [], td_security = [], td_deferred = []\<rparr>"

abbreviation leaving :: "string \<Rightarrow> member_actor \<times> member_command" where
  "leaving u \<equiv> (\<lparr>ma_org = ''o'', ma_user = u\<rparr>, REMOVE u ''q'')"

abbreviation write_leaving :: "string \<Rightarrow> (tenancy_db, unit) tx" where
  "write_leaving u \<equiv> committed (apply_membership tx_env0 (fst (leaving u)) (snd (leaving u)))"

definition one_left :: tenancy_db where
  "one_left = end_state two_owners (write_leaving ''u1'' two_owners)"

lemma leaving_runs:
  "commits (write_leaving ''u1'' two_owners) (\<lambda>_. True)"
  "write_leaving ''u2'' one_left = Inl owner_violation"
  by code_simp+

lemma both_decide: "decide_membership (fst (leaving u)) (snd (leaving u)) two_owners = Inr ((), two_owners)" if "u \<in> {''u1'', ''u2''}" for u
  using that by (auto simp: decide_membership_def two_owners_def find_member_def member_at_def countActiveOwners_def active_owner_def
      may_manage_def makes_owner_def)

theorem every_organization_keeps_an_owner_witness:
  "tenancy_step\<^sup>*\<^sup>* (two_owners, []) (one_left, [leaving ''u2'']) \<and> tenancy_ok one_left
    \<and> write_leaving ''u2'' one_left = Inl owner_violation"
proof -
  have s1: "tenancy_step (two_owners, []) (two_owners, [leaving ''u1''])"
    and s2: "tenancy_step (two_owners, [leaving ''u1'']) (two_owners, [leaving ''u2'', leaving ''u1''])"
    using both_decide [of "''u1''"] both_decide [of "''u2''"] by (auto intro: tenancy_step.decided)
  obtain u where "write_leaving ''u1'' two_owners = Inr (u, one_left)"
    using commits_end [OF leaving_runs(1)] unfolding one_left_def by blast
  then have s3: "tenancy_step (two_owners, [leaving ''u2'', leaving ''u1'']) (one_left, [leaving ''u2''])"
    using tenancy_step.written [of "fst (leaving ''u1'')" "snd (leaving ''u1'')" "[leaving ''u2'', leaving ''u1'']"] by simp
  from s1 s2 s3 have run: "tenancy_step\<^sup>*\<^sup>* (two_owners, []) (one_left, [leaving ''u2''])"
    by (meson r_into_rtranclp rtranclp_trans)
  have "tenancy_ok two_owners" by (simp add: tenancy_ok_def owned_def two_owners_def active_owner_def)
  from every_organization_keeps_an_owner [OF run this] run leaving_runs(2) show ?thesis by blast
qed

abbreviation removing :: "string \<Rightarrow> (tenancy_db, unit) tx" where
  "removing u \<equiv> changeMembership tx_env0 \<lparr>ma_org = ''o'', ma_user = ''u1''\<rparr> (REMOVE u ''q'')"

lemma removing_runs: "commits (removing ''u2'' two_owners) (\<lambda>_. True)"
  by code_simp

definition u2_removed :: tenancy_db where
  "u2_removed = end_state two_owners (removing ''u2'' two_owners)"

lemma u2_removed: "removing ''u2'' two_owners = Inr ((), u2_removed)"
  using commits_end [OF removing_runs] unfolding u2_removed_def by auto


abbreviation renewal :: new_token where
  "renewal \<equiv> \<lparr>nt_id = ''t3'', nt_family = ''f3'', nt_hash = ''h3'', nt_expires = 200\<rparr>"


section \<open>The first two tenants\<close>

definition no_tenants :: tenancy_db where
  "no_tenants = \<lparr>td_auth = \<lparr>au_users = [], au_orgs = [], au_members = [], au_logins = [], au_tokens = []\<rparr>,
     td_accounts = [], td_audit = [], td_security = [], td_deferred = []\<rparr>"

definition first_input :: onboarding where
  "first_input = \<lparr>ob_name = '' JRC '', ob_slug = ''JRC'', ob_email = ''A@x'', ob_password = Some ''secret'', ob_request = ''r''\<rparr>"

definition second_input :: tenant_create where
  "second_input = \<lparr>tc_credential = ''adm'', tc_name = ''Two'', tc_slug = ''two'', tc_email = ''b@x'', tc_request = ''r2'',
     tc_mode = CREATE_NEW (Some ''pw'')\<rparr>"

lemma first_runs: "commits (bootstrapFirstTenant tx_env0 first_input no_tenants) (\<lambda>_. True)"
  by code_simp

definition first_tenant :: tenancy_db where
  "first_tenant = end_state no_tenants (bootstrapFirstTenant tx_env0 first_input no_tenants)"

lemma second_runs: "commits (createTenant tx_env0 second_input first_tenant) (\<lambda>r. tn_owner r = ''idx'')"
  by code_simp

definition second_tenant :: tenancy_db where
  "second_tenant = end_state no_tenants (createTenant tx_env0 second_input first_tenant)"

theorem created_tenants_are_owned_witness:
  "\<exists>r. createTenant tx_env0 second_input first_tenant = Inr (r, second_tenant)
    \<and> (\<exists>c us. canonical_tenant tx_env0 second_input = Some c \<and> new_tenant c r us first_tenant second_tenant)"
proof -
  obtain r where r: "createTenant tx_env0 second_input first_tenant = Inr (r, second_tenant)"
    using commits_end [OF second_runs] unfolding second_tenant_def by blast
  from created_tenants_are_owned [OF r] r show ?thesis by blast
qed

theorem the_first_tenant_is_bootstrapped_once_witness:
  "\<exists>e. run_tx (bootstrapFirstTenant tx_env0 first_input) second_tenant = (Inl e, second_tenant)"
proof -
  obtain r where f: "bootstrapFirstTenant tx_env0 first_input no_tenants = Inr (r, first_tenant)"
    using commits_end [OF first_runs] unfolding first_tenant_def by blast
  obtain q where "createTenant tx_env0 second_input first_tenant = Inr (q, second_tenant)"
    using commits_end [OF second_runs] unfolding second_tenant_def by blast
  from tenancy_step.created [OF this, of "[]"] have "tenancy_step\<^sup>*\<^sup>* (first_tenant, []) (second_tenant, [])" by simp
  from the_first_tenant_is_bootstrapped_once [OF f this, of tx_env0 first_input] show ?thesis by blast
qed

end
