(* ===== verification/Purge_Order.thy ===== *)
theory Purge_Order
  imports Prelude
begin

text \<open>
  The order in which the tables of a removed tenant are emptied, modules/lifecycle/purge-order.ts: a
  topological order of the foreign keys, children before their parents, computed with counters of the
  children that are left. The loop ends on every input; it returns an order exactly when there is one.
\<close>

section \<open>The plan\<close>

record foreign_key =
  fk_child :: string
  fk_parent :: string
  fk_deferrable :: bool

definition tableIdentifier :: "string \<Rightarrow> bool" where
  "tableIdentifier t = (case t of [] \<Rightarrow> False
     | c # cs \<Rightarrow> lower_char c \<and> length cs \<le> 62 \<and> list_all (\<lambda>d. lower_char d \<or> digit_char d \<or> d = CHR ''_'') cs)"

text \<open>The map from a table to the set of its parents keeps the order of insertion.\<close>

type_synonym parent_map = "(string \<times> string list) list"

definition parents_of :: "parent_map \<Rightarrow> string \<Rightarrow> string list" where
  "parents_of out t = (case map_of out t of None \<Rightarrow> [] | Some ps \<Rightarrow> ps)"

definition add_parent :: "string \<Rightarrow> string \<Rightarrow> parent_map \<Rightarrow> parent_map" where
  "add_parent c p out = map (\<lambda>(t, ps). (t, if t = c then ps @ [p] else ps)) out"

fun read_keys :: "string list \<Rightarrow> foreign_key list \<Rightarrow> parent_map \<Rightarrow> (string \<Rightarrow> int) \<Rightarrow> js_error + parent_map \<times> (string \<Rightarrow> int)" where
  "read_keys names [] out inc = Inr (out, inc)"
| "read_keys names (k # ks) out inc =
    (if fk_child k \<notin> set names \<or> fk_parent k \<notin> set names then read_keys names ks out inc
     else if fk_child k = fk_parent k
     then (if fk_deferrable k then read_keys names ks out inc else Inl (PlainError ''TENANT_PURGE_CYCLE''))
     else if fk_parent k \<in> set (parents_of out (fk_child k)) then read_keys names ks out inc
     else read_keys names ks (add_parent (fk_child k) (fk_parent k) out) (inc(fk_parent k := inc (fk_parent k) + 1)))"

fun release :: "string list \<Rightarrow> (string \<Rightarrow> int) \<Rightarrow> string list \<Rightarrow> (string \<Rightarrow> int) \<times> string list" where
  "release [] inc ready = (inc, ready)"
| "release (p # ps) inc ready =
    (let inc' = inc(p := inc p - 1) in release ps inc' (if inc' p = 0 then sort (ready @ [p]) else ready))"

text \<open>The tables that wait for a child; each iteration moves one of them to the ready list for each new ready table.\<close>

definition waiting :: "parent_map \<Rightarrow> (string \<Rightarrow> int) \<Rightarrow> string set" where
  "waiting out inc = {p \<in> set (concat (map snd out)). 1 \<le> inc p}"

lemma finite_waiting [simp]: "finite (waiting out inc)"
  by (simp add: waiting_def)

lemma release_waiting:
  assumes "set ps \<subseteq> set (concat (map snd out))"
  shows "length (snd (release ps inc ready)) + card (waiting out (fst (release ps inc ready))) \<le> length ready + card (waiting out inc)"
  using assms
proof (induction ps inc ready rule: release.induct)
  case (2 p ps inc ready)
  let ?inc = "inc(p := inc p - 1)"
  let ?ready = "if ?inc p = 0 then sort (ready @ [p]) else ready"
  have sub: "waiting out ?inc \<subseteq> waiting out inc" by (auto simp: waiting_def)
  have first: "length ?ready + card (waiting out ?inc) \<le> length ready + card (waiting out inc)"
  proof (cases "inc p = 1")
    case True
    with 2(2) have "p \<in> waiting out inc" "p \<notin> waiting out ?inc" by (auto simp: waiting_def)
    with sub have "card (waiting out ?inc) < card (waiting out inc)" by (intro psubset_card_mono) auto
    with True show ?thesis by simp
  next
    case False
    with card_mono [OF finite_waiting sub] show ?thesis by simp
  qed
  have rest: "length (snd (release ps ?inc ?ready)) + card (waiting out (fst (release ps ?inc ?ready)))
      \<le> length ?ready + card (waiting out ?inc)"
    by (rule 2(1) [OF refl]) (use 2(2) in simp)
  have "release (p # ps) inc ready = release ps ?inc ?ready" by (simp add: Let_def)
  with order_trans [OF rest first] show ?case by (simp only:)
qed simp

lemma parents_of_mem: "set (parents_of out t) \<subseteq> set (concat (map snd out))"
  by (cases "map_of out t") (auto simp: parents_of_def dest!: map_of_SomeD)

function drain :: "parent_map \<Rightarrow> (string \<Rightarrow> int) \<Rightarrow> string list \<Rightarrow> string list \<Rightarrow> string list" where
  "drain out inc [] ordered = ordered"
| "drain out inc (t # ready) ordered =
    drain out (fst (release (parents_of out t) inc ready)) (snd (release (parents_of out t) inc ready)) (ordered @ [t])"
  by pat_completeness auto

termination
proof (relation "measure (\<lambda>(out, inc, ready, ordered). length ready + card (waiting out inc))")
  fix out :: parent_map and inc t ready ordered
  show "((out, fst (release (parents_of out t) inc ready), snd (release (parents_of out t) inc ready), ordered @ [t]),
      out, inc, t # ready, ordered) \<in> measure (\<lambda>(out, inc, ready, ordered). length ready + card (waiting out inc))"
    using release_waiting [OF parents_of_mem, of out t inc ready] by simp
qed simp

definition planTenantPurgeOrder :: "string list \<Rightarrow> foreign_key list \<Rightarrow> js_error + string list" where
  "planTenantPurgeOrder tables keys =
    (if \<not> list_all tableIdentifier tables then Inl (PlainError ''TENANT_PURGE_CATALOGUE_INVALID'')
     else (let names = rev (remdups (rev tables))
       in case read_keys names keys (map (\<lambda>t. (t, [])) names) (\<lambda>_. 0) of Inl e \<Rightarrow> Inl e
          | Inr (out, inc) \<Rightarrow>
             (let ordered = drain out inc (sort (filter (\<lambda>t. inc t = 0) names)) []
              in if length ordered \<noteq> length names then Inl (PlainError ''TENANT_PURGE_CYCLE'') else Inr ordered)))"

section \<open>What the counters count\<close>

definition edges :: "parent_map \<Rightarrow> (string \<times> string) set" where
  "edges out = {(c, p). p \<in> set (parents_of out c)}"

definition key_edges :: "string list \<Rightarrow> foreign_key list \<Rightarrow> (string \<times> string) set" where
  "key_edges tables keys = {(fk_child k, fk_parent k) | k. k \<in> set keys \<and> fk_child k \<noteq> fk_parent k
     \<and> fk_child k \<in> set tables \<and> fk_parent k \<in> set tables}"

text \<open>A table waits for as many children as have not been emptied.\<close>

definition counted :: "string list \<Rightarrow> parent_map \<Rightarrow> (string \<Rightarrow> int) \<Rightarrow> string set \<Rightarrow> bool" where
  "counted names out inc emptied \<longleftrightarrow> (\<forall>n. inc n = int (card {c. (c, n) \<in> edges out \<and> c \<notin> emptied}))
     \<and> edges out \<subseteq> set names \<times> set names \<and> (\<forall>t. distinct (parents_of out t))"

lemma map_of_add: "map_of (add_parent c p out) t = map_option (\<lambda>ps. if t = c then ps @ [p] else ps) (map_of out t)"
  by (induction out) (auto simp: add_parent_def)

lemma parents_add: "c \<in> fst ` set out \<Longrightarrow> parents_of (add_parent c p out) t = (if t = c then parents_of out t @ [p] else parents_of out t)"
proof -
  assume "c \<in> fst ` set out"
  then obtain ps where "map_of out c = Some ps" using map_of_eq_None_iff [of out c] by (cases "map_of out c") auto
  then show ?thesis by (cases "map_of out t") (auto simp: parents_of_def map_of_add)
qed

lemma fst_add: "fst ` set (add_parent c p out) = fst ` set out"
  by (force simp: add_parent_def)

lemma finite_edges: "counted names out inc em \<Longrightarrow> finite {c. (c, n) \<in> edges out \<and> P c}"
  by (rule finite_subset [of _ "set names"]) (auto simp: counted_def)

lemma read_keys_counted:
  assumes "counted names out inc {}" and "fst ` set out = set names" and "read_keys names keys out inc = Inr (out', inc')"
  shows "counted names out' inc' {} \<and> edges out' = edges out \<union> key_edges names keys
    \<and> (\<forall>k \<in> set keys. fk_child k = fk_parent k \<and> fk_child k \<in> set names \<longrightarrow> fk_deferrable k)"
  using assms
proof (induction names keys out inc rule: read_keys.induct)
  case (1 names out inc)
  then show ?case by (simp add: key_edges_def)
next
  case (2 names k ks out inc)
  let ?c = "fk_child k" and ?p = "fk_parent k"
  have key: "key_edges names (k # ks) = (if ?c \<noteq> ?p \<and> ?c \<in> set names \<and> ?p \<in> set names then insert (?c, ?p) (key_edges names ks)
      else key_edges names ks)"
    by (auto simp: key_edges_def)
  show ?case
  proof (cases "?c \<in> set names \<and> ?p \<in> set names \<and> ?c \<noteq> ?p \<and> ?p \<notin> set (parents_of out ?c)")
    case True
    let ?out = "add_parent ?c ?p out" and ?inc = "inc(?p := inc ?p + 1)"
    from True 2(6) have par: "parents_of ?out t = (if t = ?c then parents_of out t @ [?p] else parents_of out t)" for t
      by (simp add: parents_add)
    then have e: "edges ?out = insert (?c, ?p) (edges out)" by (auto simp: edges_def split: if_splits)
    from True have new: "(?c, ?p) \<notin> edges out" by (simp add: edges_def)
    have split: "{c. (c, n) \<in> edges ?out} = (if n = ?p then insert ?c {c. (c, n) \<in> edges out} else {c. (c, n) \<in> edges out})" for n
      unfolding e by auto
    have "counted names ?out ?inc {}"
      using 2(5) True new finite_edges [OF 2(5), of ?p "\<lambda>_. True"] par unfolding counted_def
      by (auto simp: split) (auto simp: e)
    moreover from True 2(6) have "fst ` set ?out = set names" by (simp add: fst_add)
    moreover from True 2(7) have "read_keys names ks ?out ?inc = Inr (out', inc')" by simp
    moreover from True have "\<not> (?c \<notin> set names \<or> ?p \<notin> set names)" "?c \<noteq> ?p" "?p \<notin> set (parents_of out ?c)" by auto
    ultimately have "counted names out' inc' {} \<and> edges out' = edges ?out \<union> key_edges names ks
        \<and> (\<forall>k \<in> set ks. fk_child k = fk_parent k \<and> fk_child k \<in> set names \<longrightarrow> fk_deferrable k)"
      by (intro 2(4))
    with True show ?thesis by (auto simp: e key)
  next
    case False
    show ?thesis
    proof (cases "?c \<notin> set names \<or> ?p \<notin> set names")
      case True
      with 2(1) [OF True 2(5,6)] 2(7) show ?thesis by (auto simp: key)
    next
      case inside: False
      show ?thesis
      proof (cases "?c = ?p")
        case True
        with inside 2(7) have "fk_deferrable k" "read_keys names ks out inc = Inr (out', inc')" by (auto split: if_splits)
        with 2(2) [OF inside True _ 2(5,6)] True show ?thesis by (auto simp: key)
      next
        case False
        with \<open>\<not> (?c \<in> set names \<and> ?p \<in> set names \<and> ?c \<noteq> ?p \<and> ?p \<notin> set (parents_of out ?c))\<close> inside
        have old: "?p \<in> set (parents_of out ?c)" by simp
        with 2(7) inside False have "read_keys names ks out inc = Inr (out', inc')" by simp
        from 2(3) [OF inside False old 2(5,6) this] old inside False show ?thesis by (auto simp: key edges_def)
      qed
    qed
  qed
qed

section \<open>The loop\<close>

lemma release_spec:
  "distinct ps \<Longrightarrow> (\<forall>n. fst (release ps inc ready) n = (if n \<in> set ps then inc n - 1 else inc n))
     \<and> set (snd (release ps inc ready)) = set ready \<union> {p \<in> set ps. inc p = 1}
     \<and> (distinct ready \<and> (\<forall>p \<in> set ps. inc p = 1 \<longrightarrow> p \<notin> set ready) \<longrightarrow> distinct (snd (release ps inc ready)))"
proof (induction ps arbitrary: inc ready)
  case (Cons p ps)
  let ?inc = "inc(p := inc p - 1)"
  let ?ready = "if inc p = 1 then sort (ready @ [p]) else ready"
  have step: "release (p # ps) inc ready = release ps ?inc ?ready" by (simp add: Let_def)
  from Cons.prems have p: "p \<notin> set ps" and d: "distinct ps" by auto
  have same: "q \<in> set ps \<Longrightarrow> ?inc q = inc q" for q using p by auto
  then have ones: "{q \<in> set ps. ?inc q = 1} = {q \<in> set ps. inc q = 1}" by (intro Collect_cong) metis
  have old: "set ?ready = set ready \<union> (if inc p = 1 then {p} else {})" by auto
  note ih = Cons.IH [OF d, of ?inc ?ready]
  have "fst (release ps ?inc ?ready) n = (if n \<in> set (p # ps) then inc n - 1 else inc n)" for n
    unfolding spec [OF conjunct1 [OF ih], of n] using p by simp
  moreover have "set (snd (release ps ?inc ?ready)) = set ready \<union> {q \<in> set (p # ps). inc q = 1}"
    unfolding conjunct1 [OF conjunct2 [OF ih]] ones old by auto
  moreover have "distinct (snd (release ps ?inc ?ready))"
    if "distinct ready" "\<forall>q \<in> set (p # ps). inc q = 1 \<longrightarrow> q \<notin> set ready"
  proof -
    from that have "distinct ?ready" by simp
    moreover have "\<forall>q \<in> set ps. ?inc q = 1 \<longrightarrow> q \<notin> set ?ready" using that same p unfolding old by auto
    ultimately show ?thesis using conjunct2 [OF conjunct2 [OF ih]] by blast
  qed
  ultimately show ?case unfolding step by blast
qed simp

definition drained :: "string list \<Rightarrow> parent_map \<Rightarrow> (string \<Rightarrow> int) \<Rightarrow> string list \<Rightarrow> string list \<Rightarrow> bool" where
  "drained names out inc ready ordered \<longleftrightarrow> counted names out inc (set ordered) \<and> distinct (ordered @ ready)
     \<and> set (ordered @ ready) = {n \<in> set names. inc n = 0}
     \<and> (\<forall>i < length ordered. \<forall>c. (c, ordered ! i) \<in> edges out \<longrightarrow> c \<in> set (take i ordered))"

lemma drained_step:
  assumes "drained names out inc (t # ready) ordered"
  shows "drained names out (fst (release (parents_of out t) inc ready)) (snd (release (parents_of out t) inc ready)) (ordered @ [t])"
proof -
  let ?ps = "parents_of out t"
  let ?inc = "fst (release ?ps inc ready)" and ?ready = "snd (release ?ps inc ready)"
  from assms have cnt: "counted names out inc (set ordered)" and dist: "distinct (ordered @ t # ready)"
    and zero: "set (ordered @ t # ready) = {n \<in> set names. inc n = 0}"
    and closed: "\<forall>i < length ordered. \<forall>c. (c, ordered ! i) \<in> edges out \<longrightarrow> c \<in> set (take i ordered)"
    by (simp_all add: drained_def)
  from cnt have dps: "distinct ?ps" by (simp add: counted_def)
  note fin = finite_edges [OF cnt, of _ "\<lambda>c. c \<notin> set ordered"]
  have inc: "inc n = int (card {c. (c, n) \<in> edges out \<and> c \<notin> set ordered})" for n using cnt by (simp add: counted_def)
  have here: "n \<in> set ?ps \<longleftrightarrow> (t, n) \<in> edges out" for n by (simp add: edges_def)
  from dist have t: "t \<notin> set ordered" by simp
  have pos: "1 \<le> inc n" if "n \<in> set ?ps" for n
  proof -
    from that t have "t \<in> {c. (c, n) \<in> edges out \<and> c \<notin> set ordered}" by (simp add: here)
    with fin [of n] have "0 < card {c. (c, n) \<in> edges out \<and> c \<notin> set ordered}" by (simp add: card_gt_0_iff) blast
    then show ?thesis by (simp add: inc)
  qed
  have fresh: "\<forall>p \<in> set ?ps. inc p = 1 \<longrightarrow> p \<notin> set ready"
  proof (intro ballI impI notI)
    fix p assume "inc p = 1" "p \<in> set ready"
    moreover from this(2) zero have "inc p = 0" by (metis (mono_tags, lifting) Un_iff list.set_intros(2) mem_Collect_eq set_append)
    ultimately show False by simp
  qed
  note rel = release_spec [OF dps, of inc ready]
  from rel fresh dist have dr: "distinct ?ready" and sr: "set ?ready = set ready \<union> {p \<in> set ?ps. inc p = 1}"
    and ir: "\<And>n. ?inc n = (if n \<in> set ?ps then inc n - 1 else inc n)" by auto
  have left: "{c. (c, n) \<in> edges out \<and> c \<notin> set (ordered @ [t])} = {c. (c, n) \<in> edges out \<and> c \<notin> set ordered} - {t}" for n by auto
  have "?inc n = int (card {c. (c, n) \<in> edges out \<and> c \<notin> set (ordered @ [t])})" for n
    unfolding left using t fin [of n] pos [of n] by (auto simp: ir inc here card_Diff_singleton_if)
  with cnt have c1: "counted names out ?inc (set (ordered @ [t]))" by (simp add: counted_def)
  have "set ((ordered @ [t]) @ ?ready) = {n \<in> set names. ?inc n = 0}"
  proof -
    have "n \<in> set names" if "n \<in> set ?ps" for n using cnt that by (auto simp: counted_def here)
    then have "?inc n = 0 \<longleftrightarrow> inc n = 0 \<or> n \<in> set ?ps \<and> inc n = 1" for n using pos [of n] by (auto simp: ir)
    then have "{n \<in> set names. ?inc n = 0} = {n \<in> set names. inc n = 0} \<union> {n \<in> set ?ps. inc n = 1}"
      using \<open>\<And>n. n \<in> set ?ps \<Longrightarrow> n \<in> set names\<close> by blast
    then show ?thesis unfolding zero [symmetric] by (simp add: sr Un_ac insert_commute)
  qed
  moreover have "distinct ((ordered @ [t]) @ ?ready)"
  proof -
    have "inc p = 0" if "p \<in> set (ordered @ t # ready)" for p using zero that by blast
    then have "p \<notin> set (ordered @ [t])" if "inc p = 1" for p using that by fastforce
    with dist dr sr show ?thesis by auto
  qed
  moreover have "c \<in> set (take i (ordered @ [t]))" if "i < length (ordered @ [t])" "(c, (ordered @ [t]) ! i) \<in> edges out" for i c
  proof (cases "i < length ordered")
    case True
    with closed that show ?thesis by (auto simp: nth_append)
  next
    case False
    with that(1) have i: "i = length ordered" by simp
    with that(2) have "(c, t) \<in> edges out" by simp
    note i this
    moreover have "inc t = 0" using zero by auto
    then have "{c. (c, t) \<in> edges out \<and> c \<notin> set ordered} = {}" using fin [of t] by (simp add: inc)
    ultimately show ?thesis by auto
  qed
  ultimately show ?thesis using c1 unfolding drained_def by blast
qed

lemma drain_drained:
  assumes "drained names out inc ready ordered"
  shows "\<exists>inc'. drained names out inc' [] (drain out inc ready ordered)"
  using assms
proof (induction out inc ready ordered rule: drain.induct)
  case (2 out inc t ready ordered)
  from 2(1) [OF drained_step [OF 2(2)]] show ?case by simp
qed auto

lemma drained_covers:
  assumes "drained names out inc [] ordered" and "acyclic (edges out)"
  shows "set ordered = set names"
proof (rule ccontr)
  assume "set ordered \<noteq> set names"
  let ?R = "set names - set ordered"
  from assms(1) have cnt: "counted names out inc (set ordered)" by (simp only: drained_def)
  from assms(1) have zero: "set ordered = {n \<in> set names. inc n = 0}" by (simp add: drained_def)
  have sub: "edges out \<subseteq> set names \<times> set names" using cnt by (simp add: counted_def)
  then have "finite (edges out)" by (rule finite_subset) simp
  then have "wf (edges out)" using assms(2) by (rule finite_acyclic_wf)
  moreover obtain x where "x \<in> ?R" using zero \<open>set ordered \<noteq> set names\<close> by blast
  ultimately obtain z where z: "z \<in> ?R" "\<And>y. (y, z) \<in> edges out \<Longrightarrow> y \<notin> ?R" using wfE_min [of "edges out" x ?R] by metis
  from z(1) zero have "inc z \<noteq> 0" by blast
  moreover have "inc z = int (card {c. (c, z) \<in> edges out \<and> c \<notin> set ordered})" using cnt by (simp add: counted_def)
  ultimately have "{c. (c, z) \<in> edges out \<and> c \<notin> set ordered} \<noteq> {}" by (metis card.empty of_nat_0)
  then obtain c where "(c, z) \<in> edges out" "c \<notin> set ordered" by blast
  with z(2) sub show False by blast
qed

section \<open>What the plan promises\<close>

lemma plan_start:
  assumes "read_keys names keys (map (\<lambda>t. (t, [])) names) (\<lambda>_. 0) = Inr (out, inc)" and "distinct names"
  shows "drained names out inc (sort (filter (\<lambda>t. inc t = 0) names)) [] \<and> edges out = key_edges names keys
    \<and> (\<forall>k \<in> set keys. fk_child k = fk_parent k \<and> fk_child k \<in> set names \<longrightarrow> fk_deferrable k)"
proof -
  have none: "parents_of (map (\<lambda>t. (t, [])) names) t = []" for t
    by (induction names) (auto simp: parents_of_def)
  then have "counted names (map (\<lambda>t. (t, [])) names) (\<lambda>_. 0) {}" by (simp add: counted_def edges_def)
  from read_keys_counted [OF this _ assms(1)] none have "counted names out inc {}" "edges out = key_edges names keys"
    "\<forall>k \<in> set keys. fk_child k = fk_parent k \<and> fk_child k \<in> set names \<longrightarrow> fk_deferrable k"
    by (auto simp: image_image edges_def)
  with assms(2) show ?thesis by (simp add: drained_def)
qed

lemma read_keys_refuses:
  "read_keys names keys out inc = Inl e \<Longrightarrow> e = PlainError ''TENANT_PURGE_CYCLE''
     \<and> (\<exists>k \<in> set keys. fk_child k = fk_parent k \<and> fk_child k \<in> set names \<and> \<not> fk_deferrable k)"
  by (induction names keys out inc rule: read_keys.induct) (auto split: if_splits)

lemma key_edges_names: "key_edges (rev (remdups (rev tables))) keys = key_edges tables keys"
  by (simp add: key_edges_def)

lemma plan_run:
  assumes "list_all tableIdentifier tables"
  obtains (refused) "planTenantPurgeOrder tables keys = Inl (PlainError ''TENANT_PURGE_CYCLE'')"
      "\<exists>k \<in> set keys. fk_child k = fk_parent k \<and> fk_child k \<in> set tables \<and> \<not> fk_deferrable k"
  | (drained) out inc ordered where "drained (rev (remdups (rev tables))) out inc [] ordered" "edges out = key_edges tables keys"
      "\<forall>k \<in> set keys. fk_child k = fk_parent k \<and> fk_child k \<in> set tables \<longrightarrow> fk_deferrable k"
      "planTenantPurgeOrder tables keys = (if length ordered \<noteq> length (rev (remdups (rev tables)))
         then Inl (PlainError ''TENANT_PURGE_CYCLE'') else Inr ordered)"
proof (cases "read_keys (rev (remdups (rev tables))) keys (map (\<lambda>t. (t, [])) (rev (remdups (rev tables)))) (\<lambda>_. 0)")
  case (Inl e)
  with read_keys_refuses [OF Inl] assms show thesis by (intro refused) (auto simp: planTenantPurgeOrder_def)
next
  case (Inr r)
  obtain out inc where r: "r = (out, inc)" by fastforce
  from plan_start [OF Inr [unfolded r]] have st: "drained (rev (remdups (rev tables))) out inc
      (sort (filter (\<lambda>t. inc t = 0) (rev (remdups (rev tables))))) []" and e: "edges out = key_edges tables keys"
    and k: "\<forall>k \<in> set keys. fk_child k = fk_parent k \<and> fk_child k \<in> set tables \<longrightarrow> fk_deferrable k"
    by (auto simp: key_edges_names)
  from drain_drained [OF st] obtain inc' where
    "drained (rev (remdups (rev tables))) out inc' [] (drain out inc (sort (filter (\<lambda>t. inc t = 0) (rev (remdups (rev tables))))) [])" ..
  from drained [OF this e k] Inr r assms show thesis by (simp add: planTenantPurgeOrder_def Let_def)
qed

text \<open>
  C39: When the plan returns an order, it lists every table once, and for each foreign key between two
  tables the child is emptied before the parent.
\<close>

theorem children_are_purged_before_parents:
  assumes "planTenantPurgeOrder tables keys = Inr order"
  shows "distinct order \<and> set order = set tables
    \<and> (\<forall>k \<in> set keys. fk_child k \<noteq> fk_parent k \<and> fk_child k \<in> set tables \<and> fk_parent k \<in> set tables \<longrightarrow>
        (\<exists>i j. i < j \<and> j < length order \<and> order ! i = fk_child k \<and> order ! j = fk_parent k))"
proof -
  from assms have "list_all tableIdentifier tables" by (auto simp: planTenantPurgeOrder_def split: if_splits)
  then show ?thesis
  proof (cases rule: plan_run [of tables keys])
    case refused
    with assms show ?thesis by simp
  next
    case (drained out inc ordered)
    let ?names = "rev (remdups (rev tables))"
    from drained(4) assms have o: "ordered = order" "length order = length ?names" by (auto split: if_splits)
    with drained(1) have d: "distinct order" and sub: "set order \<subseteq> set ?names"
      and closed: "\<And>i c. i < length order \<Longrightarrow> (c, order ! i) \<in> edges out \<Longrightarrow> c \<in> set (take i order)"
      by (auto simp: drained_def)
    from d o(2) have "card (set order) = card (set ?names)" by (simp only: distinct_card distinct_rev distinct_remdups)
    with sub have all: "set order = set tables" using card_subset_eq [of "set ?names" "set order"] by simp
    have "\<exists>i j. i < j \<and> j < length order \<and> order ! i = c \<and> order ! j = p" if "(c, p) \<in> key_edges tables keys" for c p
    proof -
      from that all have "p \<in> set order" by (auto simp: key_edges_def)
      then obtain j where j: "j < length order" "order ! j = p" by (auto simp: in_set_conv_nth)
      with closed [of j c] that drained(2) obtain i where "i < j" "take j order ! i = c" by (auto simp: in_set_conv_nth)
      with j show ?thesis by (intro exI [of _ i] exI [of _ j]) auto
    qed
    with d all show ?thesis by (fastforce simp: key_edges_def)
  qed
qed

text \<open>
  C40: The plan ends on every input, and for well-named tables it returns an order exactly when the
  foreign keys between different tables have no cycle and every key of a table to itself is deferrable;
  otherwise it reports the cycle.
\<close>

theorem a_purge_order_is_found_exactly_when_it_exists:
  assumes "list_all tableIdentifier tables"
  shows "(if acyclic (key_edges tables keys) \<and> (\<forall>k \<in> set keys. fk_child k = fk_parent k \<and> fk_child k \<in> set tables \<longrightarrow> fk_deferrable k)
    then \<exists>order. planTenantPurgeOrder tables keys = Inr order
    else planTenantPurgeOrder tables keys = Inl (PlainError ''TENANT_PURGE_CYCLE''))"
  using assms
proof (cases rule: plan_run [of tables keys])
  case refused
  then show ?thesis by auto
next
  case (drained out inc ordered)
  let ?names = "rev (remdups (rev tables))"
  show ?thesis
  proof (cases "acyclic (key_edges tables keys)")
    case True
    with drained_covers [OF drained(1)] drained(1,2) have "set ordered = set ?names" "distinct ordered" by (auto simp: drained_def)
    then have "length ordered = length ?names" by (metis distinct_card distinct_remdups distinct_rev)
    with drained(4) have "planTenantPurgeOrder tables keys = Inr ordered" by simp
    with drained(3) True show ?thesis by auto
  next
    case False
    have "length ordered \<noteq> length ?names"
    proof
      assume len: "length ordered = length ?names"
      with drained(4) have plan: "planTenantPurgeOrder tables keys = Inr ordered" by simp
      from drained(1) have "distinct ordered" and closed: "\<And>i c. i < length ordered \<Longrightarrow> (c, ordered ! i) \<in> edges out \<Longrightarrow> c \<in> set (take i ordered)"
        and sub: "set ordered \<subseteq> set ?names" by (auto simp: drained_def)
      moreover from this(1) len have "card (set ordered) = card (set ?names)" by (simp only: distinct_card distinct_rev distinct_remdups)
      ultimately have all: "set ordered = set tables" using card_subset_eq [of "set ?names" "set ordered"] by simp
      define pos where "pos t = (THE i. i < length ordered \<and> ordered ! i = t)" for t
      have pos: "pos (ordered ! i) = i" if "i < length ordered" for i
        unfolding pos_def using that \<open>distinct ordered\<close> by (auto intro!: the_equality simp: nth_eq_iff_index_eq)
      have "key_edges tables keys \<subseteq> measure pos"
      proof (rule subrelI)
        fix c p assume e: "(c, p) \<in> key_edges tables keys"
        with all have "p \<in> set ordered" by (auto simp: key_edges_def)
        then obtain j where j: "j < length ordered" "ordered ! j = p" by (auto simp: in_set_conv_nth)
        with closed [of j c] e drained(2) obtain i where "i < j" "ordered ! i = c" by (auto simp: in_set_conv_nth)
        with j pos show "(c, p) \<in> measure pos" by (metis in_measure order_less_trans)
      qed
      with False show False using acyclic_subset [OF wf_acyclic [OF wf_measure]] by blast
    qed
    with drained(4) False show ?thesis by simp
  qed
qed

definition purge_keys :: "foreign_key list" where
  "purge_keys = [\<lparr>fk_child = ''outbox'', fk_parent = ''messages'', fk_deferrable = False\<rparr>,
     \<lparr>fk_child = ''messages'', fk_parent = ''channels'', fk_deferrable = False\<rparr>,
     \<lparr>fk_child = ''messages'', fk_parent = ''messages'', fk_deferrable = True\<rparr>,
     \<lparr>fk_child = ''outbox'', fk_parent = ''messages'', fk_deferrable = True\<rparr>]"

lemma purge_plan: "planTenantPurgeOrder [''channels'', ''messages'', ''outbox''] purge_keys = Inr [''outbox'', ''messages'', ''channels'']"
  by code_simp

theorem children_are_purged_before_parents_witness:
  "planTenantPurgeOrder [''channels'', ''messages'', ''outbox''] purge_keys = Inr [''outbox'', ''messages'', ''channels'']
    \<and> set [''outbox'', ''messages'', ''channels''] = set [''channels'', ''messages'', ''outbox'']"
  using children_are_purged_before_parents [OF purge_plan] purge_plan by blast

theorem a_purge_order_is_found_exactly_when_it_exists_witness:
  "\<not> acyclic (key_edges [''a'', ''b''] [\<lparr>fk_child = ''a'', fk_parent = ''b'', fk_deferrable = False\<rparr>, \<lparr>fk_child = ''b'', fk_parent = ''a'', fk_deferrable = False\<rparr>])
    \<and> planTenantPurgeOrder [''a'', ''b''] [\<lparr>fk_child = ''a'', fk_parent = ''b'', fk_deferrable = False\<rparr>, \<lparr>fk_child = ''b'', fk_parent = ''a'', fk_deferrable = False\<rparr>]
      = Inl (PlainError ''TENANT_PURGE_CYCLE'')"
proof -
  let ?ks = "[\<lparr>fk_child = ''a'', fk_parent = ''b'', fk_deferrable = False\<rparr>, \<lparr>fk_child = ''b'', fk_parent = ''a'', fk_deferrable = False\<rparr>]"
  have e: "(''a'', ''b'') \<in> key_edges [''a'', ''b''] ?ks" "(''b'', ''a'') \<in> key_edges [''a'', ''b''] ?ks"
    unfolding key_edges_def by (fastforce intro: exI [of _ "?ks ! 0"] exI [of _ "?ks ! 1"])+
  then have c: "\<not> acyclic (key_edges [''a'', ''b''] ?ks)"
    unfolding acyclic_def by (meson trancl.r_into_trancl trancl.trancl_into_trancl)
  have "list_all tableIdentifier [''a'', ''b'']" by code_simp
  from a_purge_order_is_found_exactly_when_it_exists [OF this, of ?ks] c show ?thesis by simp
qed

end
