(* ===== verification/Graph_Search.thy ===== *)
theory Graph_Search
  imports Main
begin

text \<open>
  The two depth-first searches the flow validators are written with: \<open>walk\<close> collects what is
  reachable, \<open>cycles\<close> looks for a cycle with a set of active and a set of visited identifiers shared
  by all calls (packages/contracts/src/flows.ts and automations-v1.ts). The fuel bounds the depth of
  the recursion; more fuel than identifiers is enough, and then both answers are exact.
\<close>

section \<open>The searches\<close>

text \<open>The sets of the code as lists, the last added first.\<close>

fun walk :: "nat \<Rightarrow> ('a \<Rightarrow> 'a list) \<Rightarrow> 'a \<Rightarrow> 'a list \<Rightarrow> 'a list" where
  "walk 0 ts x reachable = reachable"
| "walk (Suc k) ts x reachable =
    (if x \<in> set reachable then reachable else fold (walk k ts) (ts x) (x # reachable))"

text \<open>\<open>Array.some\<close> with a callback that changes a state.\<close>

fun some_of :: "('a \<Rightarrow> 's \<Rightarrow> bool \<times> 's) \<Rightarrow> 'a list \<Rightarrow> 's \<Rightarrow> bool \<times> 's" where
  "some_of f [] s = (False, s)"
| "some_of f (x # xs) s = (case f x s of (True, s') \<Rightarrow> (True, s') | (False, s') \<Rightarrow> some_of f xs s')"

fun cycles :: "nat \<Rightarrow> ('a \<Rightarrow> 'a list) \<Rightarrow> 'a \<Rightarrow> 'a list \<times> 'a list \<Rightarrow> bool \<times> 'a list \<times> 'a list" where
  "cycles 0 ts x s = (False, s)"
| "cycles (Suc k) ts x (active, visited) =
    (if x \<in> set active then (True, (active, visited))
     else if x \<in> set visited then (False, (active, visited))
     else case some_of (cycles k ts) (ts x) (x # active, x # visited) of
       (True, s) \<Rightarrow> (True, s)
     | (False, (active', visited')) \<Rightarrow> (False, (removeAll x active', visited')))"

definition search_edges :: "('a \<Rightarrow> 'a list) \<Rightarrow> ('a \<times> 'a) set" where
  "search_edges ts = {(x, t). t \<in> set (ts x)}"

lemma search_edge [simp]: "(x, t) \<in> search_edges ts \<longleftrightarrow> t \<in> set (ts x)"
  by (simp add: search_edges_def)

text \<open>What a finished set has: it is closed under the edges and holds no cycle.\<close>

definition finished :: "('a \<times> 'a) set \<Rightarrow> 'a set \<Rightarrow> bool" where
  "finished R F \<longleftrightarrow> R `` F \<subseteq> F \<and> (\<forall>x \<in> F. (x, x) \<notin> R\<^sup>+)"

lemma closed_rtrancl: "(x, y) \<in> R\<^sup>* \<Longrightarrow> R `` F \<subseteq> F \<Longrightarrow> x \<in> F \<Longrightarrow> y \<in> F"
  by (induction rule: rtrancl_induct) auto

lemma finished_insert:
  assumes "finished R F" and "R `` {x} \<subseteq> F" and "x \<notin> F"
  shows "finished R (insert x F)"
proof -
  have "(x, x) \<notin> R\<^sup>+"
  proof
    assume "(x, x) \<in> R\<^sup>+"
    then obtain y where "(x, y) \<in> R" "(y, x) \<in> R\<^sup>*" by (auto dest: tranclD)
    with assms(1,2) have "x \<in> F" by (auto simp: finished_def intro: closed_rtrancl)
    with assms(3) show False by simp
  qed
  with assms(1,2) show ?thesis by (auto simp: finished_def)
qed

section \<open>What they find\<close>

locale graph_search =
  fixes ts :: "'a \<Rightarrow> 'a list" and U :: "'a set"
  assumes finite_universe: "finite U"
    and closed_universe: "x \<in> U \<Longrightarrow> t \<in> set (ts x) \<Longrightarrow> t \<in> U"
begin

abbreviation "R \<equiv> search_edges ts"

lemma unvisited_less: "x \<in> U \<Longrightarrow> x \<notin> V \<Longrightarrow> V \<subseteq> V' \<Longrightarrow> x \<in> V' \<Longrightarrow> card (U - V) \<le> k \<Longrightarrow> card (U - V') < k"
proof -
  assume a: "x \<in> U" "x \<notin> V" "V \<subseteq> V'" "x \<in> V'" "card (U - V) \<le> k"
  then have "card (U - V') < card (U - V)" by (intro psubset_card_mono) (use finite_universe in auto)
  with a(5) show ?thesis by simp
qed

lemma unvisited_mono: "card (U - V) < k \<Longrightarrow> V \<subseteq> V' \<Longrightarrow> card (U - V') < k"
  by (meson Diff_mono card_mono finite_Diff finite_universe le_less_trans subset_refl)

lemma walk_spec:
  assumes "x \<in> U" and "card (U - set s) < k"
  shows "set s \<subseteq> set (walk k ts x s) \<and> x \<in> set (walk k ts x s)
    \<and> set (walk k ts x s) \<subseteq> set s \<union> {y. (x, y) \<in> R\<^sup>*}
    \<and> (\<forall>y \<in> set (walk k ts x s) - set s. set (ts y) \<subseteq> set (walk k ts x s))"
  using assms
proof (induction k arbitrary: x s)
  case (Suc k)
  show ?case
  proof (cases "x \<in> set s")
    case False
    have rest: "set ys \<subseteq> U \<Longrightarrow> card (U - set s') < k \<Longrightarrow> set s' \<subseteq> set (fold (walk k ts) ys s') \<and> set ys \<subseteq> set (fold (walk k ts) ys s')
        \<and> set (fold (walk k ts) ys s') \<subseteq> set s' \<union> {z. \<exists>y \<in> set ys. (y, z) \<in> R\<^sup>*}
        \<and> (\<forall>y \<in> set (fold (walk k ts) ys s') - set s'. set (ts y) \<subseteq> set (fold (walk k ts) ys s'))" for ys s'
    proof (induction ys arbitrary: s')
      case (Cons y ys)
      let ?s = "walk k ts y s'"
      from Cons.prems Suc.IH [of y s'] have one: "set s' \<subseteq> set ?s" "y \<in> set ?s" "set ?s \<subseteq> set s' \<union> {z. (y, z) \<in> R\<^sup>*}"
        "\<forall>z \<in> set ?s - set s'. set (ts z) \<subseteq> set ?s" by auto
      from Cons.prems Cons.IH [of ?s] unvisited_mono [OF _ one(1)] have all: "set ?s \<subseteq> set (fold (walk k ts) ys ?s)"
        "set ys \<subseteq> set (fold (walk k ts) ys ?s)" "set (fold (walk k ts) ys ?s) \<subseteq> set ?s \<union> {z. \<exists>y \<in> set ys. (y, z) \<in> R\<^sup>*}"
        "\<forall>z \<in> set (fold (walk k ts) ys ?s) - set ?s. set (ts z) \<subseteq> set (fold (walk k ts) ys ?s)" by auto
      have "set (ts z) \<subseteq> set (fold (walk k ts) ys ?s)" if "z \<in> set (fold (walk k ts) ys ?s) - set s'" for z
        using that one(4) all(1,4) by (cases "z \<in> set ?s") blast+
      with one all show ?case by (simp only: fold_simps set_simps) blast
    qed simp
    have "card (U - set (x # s)) < k" using Suc.prems False by (intro unvisited_less [of x "set s"]) auto
    moreover have "set (ts x) \<subseteq> U" using Suc.prems(1) closed_universe by auto
    ultimately have f: "set (x # s) \<subseteq> set (fold (walk k ts) (ts x) (x # s)) \<and> set (ts x) \<subseteq> set (fold (walk k ts) (ts x) (x # s))
        \<and> set (fold (walk k ts) (ts x) (x # s)) \<subseteq> set (x # s) \<union> {z. \<exists>y \<in> set (ts x). (y, z) \<in> R\<^sup>*}
        \<and> (\<forall>y \<in> set (fold (walk k ts) (ts x) (x # s)) - set (x # s). set (ts y) \<subseteq> set (fold (walk k ts) (ts x) (x # s)))"
      by (intro rest)
    have down: "(y, z) \<in> R\<^sup>* \<Longrightarrow> y \<in> set (ts x) \<Longrightarrow> (x, z) \<in> R\<^sup>*" for y z
      by (rule converse_rtrancl_into_rtrancl) simp_all
    have "walk (Suc k) ts x s = fold (walk k ts) (ts x) (x # s)" using False by simp
    with f down show ?thesis by (simp only:) (auto 0 3)
  qed auto
qed simp

lemma walk_exact:
  assumes "x \<in> U" and "card U < k"
  shows "set (walk k ts x []) = {y. (x, y) \<in> R\<^sup>*}"
proof -
  from walk_spec [of x "[]" k] assms have s: "x \<in> set (walk k ts x [])" "set (walk k ts x []) \<subseteq> {y. (x, y) \<in> R\<^sup>*}"
    "\<forall>y \<in> set (walk k ts x []). set (ts y) \<subseteq> set (walk k ts x [])" by auto
  have "y \<in> set (walk k ts x [])" if "(x, y) \<in> R\<^sup>*" for y
    using closed_rtrancl [OF that _ s(1)] s(3) by (auto simp: Image_def)
  with s(2) show ?thesis by blast
qed

lemma some_of_restores:
  assumes "\<And>x a v a' v'. x \<in> set xs \<Longrightarrow> f x (a, v) = (False, (a', v')) \<Longrightarrow> a' = a \<and> set v \<subseteq> set v'"
  shows "some_of f xs (a, v) = (False, (a', v')) \<Longrightarrow> a' = a \<and> set v \<subseteq> set v'"
  using assms
proof (induction xs arbitrary: v)
  case (Cons x xs)
  obtain b a1 v1 where r: "f x (a, v) = (b, (a1, v1))" by (cases "f x (a, v)") auto
  from Cons.prems(1) r have "\<not> b" by auto
  with r Cons.prems(2) [of x a v a1 v1] have one: "a1 = a" "set v \<subseteq> set v1" by simp_all
  with Cons.prems(1) r \<open>\<not> b\<close> have rest: "some_of f xs (a, v1) = (False, (a', v'))" by simp
  have "a' = a \<and> set v1 \<subseteq> set v'"
    by (rule Cons.IH [OF rest], rule Cons.prems(2)) auto
  with one show ?case by auto
qed simp

lemma cycles_restores: "cycles k ts x (a, v) = (False, (a', v')) \<Longrightarrow> a' = a \<and> set v \<subseteq> set v'"
proof (induction k arbitrary: x a v a' v')
  case (Suc k)
  show ?case
  proof (cases "x \<in> set a \<or> x \<in> set v")
    case True
    with Suc.prems show ?thesis by (auto split: if_splits)
  next
    case False
    with Suc.prems obtain a1 where r: "some_of (cycles k ts) (ts x) (x # a, x # v) = (False, (a1, v'))" "a' = removeAll x a1"
      by (auto split: prod.splits bool.splits)
    from some_of_restores [OF _ r(1)] Suc.IH have "a1 = x # a" "set (x # v) \<subseteq> set v'" by blast+
    with r(2) False show ?thesis by (auto simp: removeAll_id)
  qed
qed simp

definition leads_to_cycle :: "'a \<Rightarrow> bool" where
  "leads_to_cycle x \<longleftrightarrow> (\<exists>c. (x, c) \<in> R\<^sup>* \<and> (c, c) \<in> R\<^sup>+)"

lemma some_of_True:
  assumes "some_of f xs s = (True, s')" and "P s"
    and "\<And>x s s'. x \<in> set xs \<Longrightarrow> P s \<Longrightarrow> f x s = (False, s') \<Longrightarrow> P s'"
  shows "\<exists>x \<in> set xs. \<exists>t t'. P t \<and> f x t = (True, t')"
  using assms
proof (induction xs arbitrary: s)
  case (Cons x xs)
  obtain b t where r: "f x s = (b, t)" by fastforce
  show ?case
  proof (cases b)
    case True
    with r Cons.prems(2) show ?thesis by auto
  next
    case False
    with r Cons.prems have "some_of f xs t = (True, s')" "P t" by auto
    from Cons.IH [OF this] Cons.prems(3) show ?thesis by (metis list.set_intros(2))
  qed
qed simp

lemma cycles_True:
  assumes "cycles k ts x (a, v) = (True, s')" and "\<forall>y \<in> set a. (y, x) \<in> R\<^sup>+"
  shows "leads_to_cycle x"
  using assms
proof (induction k arbitrary: x a v s')
  case (Suc k)
  show ?case
  proof (cases "x \<in> set a")
    case True
    with Suc.prems(2) show ?thesis unfolding leads_to_cycle_def by blast
  next
    case False
    with Suc.prems(1) have r: "some_of (cycles k ts) (ts x) (x # a, x # v) = (True, s')"
      by (auto split: if_splits prod.splits bool.splits)
    have keeps: "fst s = x # a \<Longrightarrow> cycles k ts t s = (False, s1) \<Longrightarrow> fst s1 = x # a" for t s s1
      by (cases s; cases s1) (auto dest: cycles_restores)
    from some_of_True [OF r, of "\<lambda>s. fst s = x # a"] keeps
    obtain t w s2 where t: "t \<in> set (ts x)" "cycles k ts t (x # a, w) = (True, s2)" by (metis fst_conv prod.collapse)
    then have "(x, t) \<in> R" by simp
    with Suc.prems(2) have "\<forall>y \<in> set (x # a). (y, t) \<in> R\<^sup>+" by (auto intro: trancl_into_trancl)
    from Suc.IH [OF t(2) this] \<open>(x, t) \<in> R\<close> show ?thesis
      unfolding leads_to_cycle_def by (blast intro: converse_rtrancl_into_rtrancl)
  qed
qed simp

lemma cycles_False:
  assumes "cycles k ts x (a, v) = (False, (a', v'))" and "x \<in> U" and "card (U - set v) < k" and "set a \<subseteq> set v"
    and "finished R (set v - set a)"
  shows "x \<in> set v' - set a \<and> finished R (set v' - set a)"
  using assms
proof (induction k arbitrary: x a v a' v')
  case (Suc k)
  show ?case
  proof (cases "x \<in> set a \<or> x \<in> set v")
    case True
    with Suc.prems show ?thesis by (auto split: if_splits)
  next
    case False
    with Suc.prems(1) obtain a1 where r: "some_of (cycles k ts) (ts x) (x # a, x # v) = (False, (a1, v'))"
      by (auto split: prod.splits bool.splits)
    have all: "set ys \<subseteq> U \<Longrightarrow> some_of (cycles k ts) ys (x # a, w) = (False, (b, v')) \<Longrightarrow> card (U - set w) < k \<Longrightarrow> set (x # a) \<subseteq> set w
        \<Longrightarrow> finished R (set w - set (x # a)) \<Longrightarrow> set ys \<subseteq> set v' - set (x # a) \<and> finished R (set v' - set (x # a)) \<and> set w \<subseteq> set v'" for ys w b
    proof (induction ys arbitrary: w)
      case (Cons y ys)
      obtain c a2 w2 where y: "cycles k ts y (x # a, w) = (c, (a2, w2))" by (cases "cycles k ts y (x # a, w)") auto
      with Cons.prems(2) have "\<not> c" by auto
      with y cycles_restores [of k y "x # a" w a2 w2] have keep: "a2 = x # a" "set w \<subseteq> set w2" by simp_all
      with y \<open>\<not> c\<close> have yF: "cycles k ts y (x # a, w) = (False, (x # a, w2))" by simp
      from Suc.IH [OF yF _ Cons.prems(3,4,5)] Cons.prems(1) have one: "y \<in> set w2 - set (x # a)" "finished R (set w2 - set (x # a))" by auto
      from Cons.prems(2) yF have "some_of (cycles k ts) ys (x # a, w2) = (False, (b, v'))" by simp
      from Cons.IH [OF _ this unvisited_mono [OF Cons.prems(3) keep(2)] _ one(2)] Cons.prems(1,4) keep(2)
      have "set ys \<subseteq> set v' - set (x # a)" "finished R (set v' - set (x # a))" "set w2 \<subseteq> set v'" by auto
      with one keep(2) show ?case by auto
    qed auto
    have "card (U - set (x # v)) < k" using Suc.prems False by (intro unvisited_less [of x "set v"]) auto
    moreover have "set (x # v) - set (x # a) = set v - set a" using False by auto
    moreover have "set (ts x) \<subseteq> U" using Suc.prems(2) closed_universe by auto
    ultimately have f: "set (ts x) \<subseteq> set v' - set (x # a)" "finished R (set v' - set (x # a))" "set (x # v) \<subseteq> set v'"
      using all [OF _ r] Suc.prems(4,5) by auto
    have eq: "set v' - set a = insert x (set v' - set (x # a))" using f(3) False by auto
    have "finished R (insert x (set v' - set (x # a)))" using f(1,2) by (intro finished_insert) auto
    with eq show ?thesis by simp
  qed
qed simp

lemma cycles_exact:
  assumes "set xs \<subseteq> U" and "card U < k"
  shows "fst (some_of (cycles k ts) xs ([], [])) \<longleftrightarrow> (\<exists>x \<in> set xs. leads_to_cycle x)"
proof -
  obtain b s where Pair: "some_of (cycles k ts) xs ([], []) = (b, s)" by (metis prod.collapse)
  show ?thesis
  proof (cases b)
    case True
    have keeps: "fst s = [] \<Longrightarrow> cycles k ts t s = (False, s1) \<Longrightarrow> fst s1 = []" for t s s1
      by (cases s; cases s1) (auto dest: cycles_restores)
    from Pair True have T: "some_of (cycles k ts) xs ([], []) = (True, s)" by simp
    from some_of_True [OF T, of "\<lambda>s. fst s = []"] keeps
    obtain x w t where "x \<in> set xs" "cycles k ts x ([], w) = (True, t)" by (metis fst_conv prod.collapse)
    with cycles_True [of k x "[]" w t] Pair True show ?thesis by auto
  next
    case False
    have all: "set xs \<subseteq> U \<Longrightarrow> some_of (cycles k ts) xs ([], w) = (False, s) \<Longrightarrow> finished R (set w) \<Longrightarrow> card (U - set w) < k \<Longrightarrow>
        \<exists>v. set xs \<subseteq> set v \<and> finished R (set v) \<and> set w \<subseteq> set v" for xs w
    proof (induction xs arbitrary: w)
      case (Cons y ys)
      obtain c a2 w2 where y: "cycles k ts y ([], w) = (c, (a2, w2))" by (cases "cycles k ts y ([], w)") auto
      with Cons.prems(2) have "\<not> c" by auto
      with y cycles_restores [of k y "[]" w a2 w2] have keep: "a2 = []" "set w \<subseteq> set w2" by simp_all
      with y \<open>\<not> c\<close> have yF: "cycles k ts y ([], w) = (False, ([], w2))" by simp
      from cycles_False [OF yF _ Cons.prems(4)] Cons.prems(1,3) have one: "y \<in> set w2" "finished R (set w2)" by auto
      from Cons.prems(2) yF have "some_of (cycles k ts) ys ([], w2) = (False, s)" by simp
      from Cons.IH [OF _ this one(2) unvisited_mono [OF Cons.prems(4) keep(2)]] Cons.prems(1)
      obtain v where "set ys \<subseteq> set v" "finished R (set v)" "set w2 \<subseteq> set v" by auto
      with one keep(2) show ?case by (intro exI [of _ v]) auto
    qed auto
    have "card (U - set []) < k" using assms(2) by simp
    from Pair False have "some_of (cycles k ts) xs ([], []) = (False, s)" by simp
    from all [OF assms(1) this _ \<open>card (U - set []) < k\<close>] obtain v where v: "set xs \<subseteq> set v" "finished R (set v)"
      by (auto simp: finished_def)
    have "\<not> leads_to_cycle x" if "x \<in> set xs" for x
      using v that closed_rtrancl [of x _ R "set v"] unfolding leads_to_cycle_def finished_def by blast
    with Pair False show ?thesis by simp
  qed
qed

end

end
