(* ===== verification/Flows.thy ===== *)
theory Flows
  imports Js_Text Graph_Search
begin

text \<open>
  The conversation flows of packages/contracts/src/flows.ts: the graph of a flow, the contract its
  validator decides (\<open>validateFlow\<close>) and the interpreter that runs one message of a conversation
  through it (\<open>executeFlow\<close>). Coordinates and numbers are integers. The lower case of a locale and
  JavaScript's conversion to a number are parameters.
\<close>

section \<open>Graphs\<close>

record flow_node =
  fn_id :: string
  fn_type :: string
  fn_label :: string
  fn_x :: int
  fn_y :: int
  fn_data :: "(string \<times> json) list"

record flow_edge =
  fe_id :: string
  fe_source :: string
  fe_target :: string
  fe_port :: string

record flow_graph =
  fg_nodes :: "flow_node list"
  fg_edges :: "flow_edge list"

text \<open>\<open>fv_lower\<close> is \<open>toLocaleLowerCase\<close>, \<open>fv_positive\<close> tells whether \<open>Number(x) > 0\<close>.\<close>

record flow_env =
  fv_lower :: "string \<Rightarrow> string"
  fv_positive :: "json \<Rightarrow> bool"

definition node_data :: "flow_node \<Rightarrow> string \<Rightarrow> json option" where
  "node_data n k = map_of (fn_data n) k"

definition flow_value :: "json option \<Rightarrow> string" where
  "flow_value x = (case x of Some (JStr s) \<Rightarrow> s | Some (JNum i) \<Rightarrow> show_int i
     | Some (JBool b) \<Rightarrow> (if b then ''true'' else ''false'') | _ \<Rightarrow> '''')"

fun split_dots :: "string \<Rightarrow> string list" where
  "split_dots [] = [[]]"
| "split_dots (c # cs) = (if c = CHR ''.'' then [] # split_dots cs
     else case split_dots cs of p # ps \<Rightarrow> (c # p) # ps | [] \<Rightarrow> [[c]])"

definition dangerous :: "string list" where
  "dangerous = [''__proto__'', ''prototype'', ''constructor'']"

definition key_start :: "char \<Rightarrow> bool" where
  "key_start c \<longleftrightarrow> lower_char c \<or> upper_char c \<or> c = CHR ''_''"

definition key_char :: "char \<Rightarrow> bool" where
  "key_char c \<longleftrightarrow> key_start c \<or> digit_char c \<or> c = CHR ''.'' \<or> c = CHR ''-''"

definition safeKey :: "string \<Rightarrow> bool" where
  "safeKey k = (case k of [] \<Rightarrow> False
     | c # cs \<Rightarrow> key_start c \<and> length cs \<le> 99 \<and> list_all key_char cs \<and> list_all (\<lambda>s. s \<notin> set dangerous) (split_dots k))"

definition safe_json_key :: "json option \<Rightarrow> bool" where
  "safe_json_key x = (case x of Some (JStr k) \<Rightarrow> safeKey k | _ \<Rightarrow> False)"

record menu_option =
  mo_value :: string
  mo_label :: string

definition option_number :: "string \<Rightarrow> bool" where
  "option_number v = (case v of [c] \<Rightarrow> digit_char c \<and> c \<noteq> CHR ''0''
     | [c, d] \<Rightarrow> digit_char c \<and> c \<noteq> CHR ''0'' \<and> digit_char d | _ \<Rightarrow> False)"

definition menu_option_of :: "json \<Rightarrow> menu_option list" where
  "menu_option_of raw = (case raw of
     JObj kvs \<Rightarrow> (let v = js_trim (flow_value (map_of kvs ''value'')); l = js_trim (flow_value (map_of kvs ''label''))
       in if option_number v \<and> l \<noteq> '''' \<and> length l \<le> 120 then [\<lparr>mo_value = v, mo_label = l\<rparr>] else [])
   | _ \<Rightarrow> [])"

definition menuOptions :: "flow_node \<Rightarrow> menu_option list" where
  "menuOptions n = (case node_data n ''options'' of
     Some (JArr raws) \<Rightarrow> (if fn_type n = ''menu'' then concat (map menu_option_of raws) else []) | _ \<Rightarrow> [])"

definition flowPorts :: "flow_node \<Rightarrow> string list" where
  "flowPorts n = (if fn_type n = ''condition'' then [''yes'', ''no'']
     else if fn_type n = ''menu'' then map (\<lambda>m. ''option-'' @ mo_value m) (menuOptions n)
     else if fn_type n \<in> {''end'', ''handoff''} then [] else [''next''])"

section \<open>The schema\<close>

fun json_stringify :: "json \<Rightarrow> string" where
  "json_stringify JNull = ''null''"
| "json_stringify (JBool b) = (if b then ''true'' else ''false'')"
| "json_stringify (JNum i) = show_int i"
| "json_stringify (JStr s) = json_quote s"
| "json_stringify (JArr xs) = ''['' @ join_with '','' (map json_stringify xs) @ '']''"
| "json_stringify (JObj kvs) = ''{'' @ join_with '','' (map (\<lambda>kv. json_quote (fst kv) @ '':'' @ json_stringify (snd kv)) kvs) @ ''}''"

definition node_json :: "flow_node \<Rightarrow> json" where
  "node_json n = JObj [(''id'', JStr (fn_id n)), (''type'', JStr (fn_type n)), (''label'', JStr (fn_label n)),
     (''position'', JObj [(''x'', JNum (fn_x n)), (''y'', JNum (fn_y n))]), (''data'', JObj (fn_data n))]"

definition edge_json :: "flow_edge \<Rightarrow> json" where
  "edge_json e = JObj [(''id'', JStr (fe_id e)), (''source'', JStr (fe_source e)), (''target'', JStr (fe_target e)), (''port'', JStr (fe_port e))]"

definition graph_json :: "flow_graph \<Rightarrow> json" where
  "graph_json g = JObj [(''nodes'', JArr (map node_json (fg_nodes g))), (''edges'', JArr (map edge_json (fg_edges g)))]"

definition flow_id :: "string \<Rightarrow> bool" where
  "flow_id s \<longleftrightarrow> s \<noteq> '''' \<and> length s \<le> 100"

definition FlowGraphSchema :: "flow_graph \<Rightarrow> bool" where
  "FlowGraphSchema g \<longleftrightarrow> fg_nodes g \<noteq> [] \<and> length (fg_nodes g) \<le> 150
     \<and> list_all (\<lambda>n. flow_id (fn_id n) \<and> flow_id (fn_type n) \<and> length (fn_label n) \<le> 160
         \<and> -10000 \<le> fn_x n \<and> fn_x n \<le> 100000 \<and> -10000 \<le> fn_y n \<and> fn_y n \<le> 100000
         \<and> list_all (\<lambda>kv. length (fst kv) \<le> 100) (fn_data n)) (fg_nodes g)
     \<and> length (fg_edges g) \<le> 300
     \<and> list_all (\<lambda>e. flow_id (fe_id e) \<and> flow_id (fe_source e) \<and> flow_id (fe_target e) \<and> flow_id (fe_port e)) (fg_edges g)
     \<and> int (length (json_stringify (graph_json g))) \<le> 250000"

section \<open>Validation\<close>

text \<open>The messages of the validator, with the label and the port or type they name.\<close>

datatype flow_error =
    BadFormat | DuplicateNodes | DuplicateEdges | OneStart | MissingBlock
  | DuplicatePort | InvalidPort string | IntoStart
  | UnknownType string string | Unconnected string string | BadMessage string | BadVariable string
  | LongQuestion string | TimeoutUnsupported string | CaptureVersion string
  | BadMenuText string | BadOptions string | BadCondition string
  | UnreachableBlocks | CycleWithoutInput

definition FLOW_NODE_CATALOG :: "string list" where
  "FLOW_NODE_CATALOG = [''start'', ''message'', ''input'', ''menu'', ''condition'', ''variable'', ''handoff'', ''end'']"

definition node_ids :: "flow_graph \<Rightarrow> string list" where
  "node_ids g = map fn_id (fg_nodes g)"

definition find_node :: "flow_graph \<Rightarrow> string \<Rightarrow> flow_node option" where
  "find_node g x = find (\<lambda>n. fn_id n = x) (fg_nodes g)"

definition connected :: "flow_graph \<Rightarrow> string \<Rightarrow> string \<Rightarrow> bool" where
  "connected g x port \<longleftrightarrow> list_ex (\<lambda>e. fe_source e = x \<and> fe_port e = port) (fg_edges g)"

text \<open>\<open>seen\<close> is the set of the ports that are connected by an earlier edge.\<close>

fun edge_errors :: "flow_graph \<Rightarrow> (string \<times> string) list \<Rightarrow> flow_edge list \<Rightarrow> flow_error list" where
  "edge_errors g seen [] = []"
| "edge_errors g seen (e # es) =
    (if (fe_source e, fe_port e) \<in> set seen then [DuplicatePort] else [])
    @ (case find_node g (fe_source e) of None \<Rightarrow> []
       | Some n \<Rightarrow> if fe_port e \<notin> set (flowPorts n) then [InvalidPort (fn_label n)] else [])
    @ (case find_node g (fe_target e) of None \<Rightarrow> [] | Some n \<Rightarrow> if fn_type n = ''start'' then [IntoStart] else [])
    @ edge_errors g ((fe_source e, fe_port e) # seen) es"

definition raw_options :: "flow_node \<Rightarrow> json list" where
  "raw_options n = (case node_data n ''options'' of Some (JArr raws) \<Rightarrow> raws | _ \<Rightarrow> [])"

definition bad_text :: "flow_node \<Rightarrow> bool" where
  "bad_text n \<longleftrightarrow> js_trim (flow_value (node_data n ''text'')) = '''' \<or> 4096 < length (flow_value (node_data n ''text''))"

definition bad_options :: "flow_node \<Rightarrow> bool" where
  "bad_options n \<longleftrightarrow> length (menuOptions n) < 2 \<or> 10 < length (menuOptions n)
     \<or> length (menuOptions n) \<noteq> length (raw_options n) \<or> \<not> distinct (map mo_value (menuOptions n))"

definition comparisons :: "string list" where
  "comparisons = [''equals'', ''not_equals'', ''contains'', ''starts_with'', ''present'']"

definition error_if :: "bool \<Rightarrow> flow_error \<Rightarrow> flow_error list" where
  "error_if b e = (if b then [e] else [])"

lemma error_if_Nil [simp]: "error_if b e = [] \<longleftrightarrow> \<not> b" "[] = error_if b e \<longleftrightarrow> \<not> b"
  by (simp_all add: error_if_def)

definition node_errors :: "flow_env \<Rightarrow> flow_graph \<Rightarrow> flow_node \<Rightarrow> flow_error list" where
  "node_errors env g n =
    (let l = fn_label n; t = fn_type n
     in if t \<notin> set FLOW_NODE_CATALOG then [UnknownType l t]
        else concat (map (\<lambda>port. error_if (\<not> connected g (fn_id n) port) (Unconnected l port)) (flowPorts n))
          @ error_if (t = ''message'' \<and> bad_text n) (BadMessage l)
          @ error_if (t \<in> {''input'', ''variable''} \<and> \<not> safe_json_key (node_data n ''variable'')) (BadVariable l)
          @ error_if (t = ''input'' \<and> 4096 < length (flow_value (node_data n ''text''))) (LongQuestion l)
          @ error_if (t = ''input'' \<and> (case node_data n ''timeout'' of None \<Rightarrow> False | Some x \<Rightarrow> x \<noteq> JNull \<and> fv_positive env x))
              (TimeoutUnsupported l)
          @ error_if (t = ''input'' \<and> (case node_data n ''inputConfigVersion'' of None \<Rightarrow> False | Some x \<Rightarrow> x \<notin> {JNum 1, JNum 2}))
              (CaptureVersion l)
          @ error_if (t = ''menu'' \<and> bad_text n) (BadMenuText l)
          @ error_if (t = ''menu'' \<and> bad_options n) (BadOptions l)
          @ error_if (t = ''condition'' \<and> (\<not> safe_json_key (node_data n ''field'')
                \<or> flow_value (node_data n ''operator'') \<notin> set comparisons)) (BadCondition l))"

definition edge_targets :: "flow_graph \<Rightarrow> string \<Rightarrow> string list" where
  "edge_targets g x = map fe_target (filter (\<lambda>e. fe_source e = x) (fg_edges g))"

text \<open>The edges the search for cycles follows: not those of a block that waits for an answer.\<close>

definition waits :: "flow_graph \<Rightarrow> string \<Rightarrow> bool" where
  "waits g x \<longleftrightarrow> (case find_node g x of Some n \<Rightarrow> fn_type n = ''input'' | None \<Rightarrow> False)"

definition moving_targets :: "flow_graph \<Rightarrow> string \<Rightarrow> string list" where
  "moving_targets g x = (if waits g x then [] else edge_targets g x)"

definition search_fuel :: "flow_graph \<Rightarrow> nat" where
  "search_fuel g = Suc (length (fg_nodes g) + length (fg_edges g))"

definition reachable_ids :: "flow_graph \<Rightarrow> string list" where
  "reachable_ids g = (case find (\<lambda>n. fn_type n = ''start'') (fg_nodes g) of None \<Rightarrow> []
     | Some n \<Rightarrow> walk (search_fuel g) (edge_targets g) (fn_id n) [])"

definition has_cycle :: "flow_graph \<Rightarrow> bool" where
  "has_cycle g = fst (some_of (cycles (search_fuel g) (moving_targets g)) (node_ids g) ([], []))"

definition validateFlow :: "flow_env \<Rightarrow> flow_graph \<Rightarrow> flow_error list" where
  "validateFlow env g = (if \<not> FlowGraphSchema g then [BadFormat]
     else rev (remdups (rev (
       error_if (\<not> distinct (node_ids g)) DuplicateNodes
       @ error_if (\<not> distinct (map fe_id (fg_edges g))) DuplicateEdges
       @ error_if (length (filter (\<lambda>n. fn_type n = ''start'') (fg_nodes g)) \<noteq> 1) OneStart
       @ error_if (list_ex (\<lambda>e. fe_source e \<notin> set (node_ids g) \<or> fe_target e \<notin> set (node_ids g)) (fg_edges g)) MissingBlock
       @ edge_errors g [] (fg_edges g)
       @ concat (map (node_errors env g) (fg_nodes g))
       @ error_if (list_ex (\<lambda>x. x \<notin> set (reachable_ids g)) (node_ids g)) UnreachableBlocks
       @ error_if (has_cycle g) CycleWithoutInput))))"

section \<open>Rendering\<close>

text \<open>
  The markers of a text are replaced from left to right by the variable they name, or by nothing. A
  marker has at least one character between its braces, which is trimmed.
\<close>

function render_markers :: "(string \<Rightarrow> string) \<Rightarrow> string \<Rightarrow> string" where
  "render_markers f [] = []"
| "render_markers f (c # cs) = (case match_marker (c # cs) of
     Some (b, rest) \<Rightarrow> if b = '''' then c # render_markers f cs else f (js_trim b) @ render_markers f rest
   | None \<Rightarrow> c # render_markers f cs)"
  by pat_completeness auto
termination by (relation "measure (\<lambda>(f, t). length t)") (auto dest: match_marker_shorter)

type_synonym flow_vars = "string \<Rightarrow> string option"

definition renderFlowText :: "json option \<Rightarrow> flow_vars \<Rightarrow> string" where
  "renderFlowText text vars = take 4096 (render_markers
     (\<lambda>key. if safeKey key then (case vars key of Some v \<Rightarrow> v | None \<Rightarrow> '''') else '''') (flow_value text))"

section \<open>Execution\<close>

datatype flow_status = waiting | completed | handoff

record flow_state =
  fs_status :: flow_status
  fs_node :: "string option"
  fs_vars :: flow_vars
  fs_steps :: nat

record flow_input =
  fi_text :: string
  fi_vars :: flow_vars
  fi_state :: "flow_state option"

record flow_result = flow_state +
  fr_texts :: "string list"
  fr_trace :: "(string \<times> string \<times> string) list"

text \<open>\<open>JsTypeError\<close> is what JavaScript throws where the code assumes an edge or a start that is missing.\<close>

datatype flow_failure =
    FlowRefused flow_error | InvalidCapture | StepLimit | TurnLimit | JsTypeError

definition flow_next :: "flow_graph \<Rightarrow> string \<Rightarrow> string \<Rightarrow> flow_failure + string" where
  "flow_next g x port = (case find (\<lambda>e. fe_source e = x \<and> fe_port e = port) (fg_edges g) of
     None \<Rightarrow> Inl JsTypeError | Some e \<Rightarrow> Inr (fe_target e))"

definition join_lines :: "string list \<Rightarrow> string" where
  "join_lines ls = join_with [CHR 0x0A] (filter (\<lambda>l. l \<noteq> '''') ls)"

definition option_lines :: "flow_node \<Rightarrow> string" where
  "option_lines n = join_with [CHR 0x0A] (map (\<lambda>m. mo_value m @ '' - '' @ mo_label m) (menuOptions n))"

definition ask_again :: string where
  "ask_again = ''Responda com o n'' @ [CHR 0xFA] @ ''mero da op'' @ [CHR 0xE7, CHR 0xE3] @ ''o.''"

definition condition_holds :: "flow_env \<Rightarrow> flow_node \<Rightarrow> flow_vars \<Rightarrow> bool" where
  "condition_holds env n vars =
    (let a = (case vars (flow_value (node_data n ''field'')) of Some v \<Rightarrow> v | None \<Rightarrow> '''');
         b = renderFlowText (node_data n ''value'') vars; op = node_data n ''operator''; low = fv_lower env
     in if op = Some (JStr ''present'') then js_trim a \<noteq> ''''
        else if op = Some (JStr ''not_equals'') then a \<noteq> b
        else if op = Some (JStr ''contains'') then occurs_in (low b) (low a)
        else if op = Some (JStr ''starts_with'') then take (length (low b)) (low a) = low b
        else a = b)"

definition flow_result_of :: "flow_status \<Rightarrow> string option \<Rightarrow> flow_vars \<Rightarrow> string list \<Rightarrow> (string \<times> string \<times> string) list \<Rightarrow> nat \<Rightarrow> flow_result" where
  "flow_result_of st x vars texts trace steps =
    \<lparr>fs_status = st, fs_node = x, fs_vars = vars, fs_steps = steps, fr_texts = texts, fr_trace = trace\<rparr>"

fun run_flow :: "nat \<Rightarrow> flow_env \<Rightarrow> flow_graph \<Rightarrow> string \<Rightarrow> nat \<Rightarrow> flow_vars \<Rightarrow> string list
    \<Rightarrow> (string \<times> string \<times> string) list \<Rightarrow> flow_failure + flow_result" where
  "run_flow 0 env g current steps vars texts trace = Inl TurnLimit"
| "run_flow (Suc turns) env g current steps vars texts trace =
    (if 1000 < Suc steps then Inl StepLimit
     else case find_node g current of
       None \<Rightarrow> Inl JsTypeError
     | Some n \<Rightarrow>
        (let trace' = trace @ [(fn_id n, fn_label n, fn_type n)]; prompt = renderFlowText (node_data n ''text'') vars
         in if fn_type n = ''end'' then Inr (flow_result_of completed None vars texts trace' (Suc steps))
            else if fn_type n = ''handoff'' then Inr (flow_result_of handoff None vars texts trace' (Suc steps))
            else if fn_type n = ''input''
            then Inr (flow_result_of waiting (Some (fn_id n)) vars (texts @ (if js_trim prompt = '''' then [] else [prompt])) trace' (Suc steps))
            else if fn_type n = ''menu''
            then Inr (flow_result_of waiting (Some (fn_id n)) vars (texts @ [join_lines [prompt, option_lines n]]) trace' (Suc steps))
            else (case flow_next g (fn_id n) (if fn_type n = ''condition'' then (if condition_holds env n vars then ''yes'' else ''no'') else ''next'') of
               Inl e \<Rightarrow> Inl e
             | Inr target \<Rightarrow> run_flow turns env g target (Suc steps)
                 (if fn_type n = ''variable'' then vars(flow_value (node_data n ''variable'') \<mapsto> renderFlowText (node_data n ''value'') vars) else vars)
                 (if fn_type n = ''message'' then texts @ [prompt] else texts) trace')))"

text \<open>The variables of a message: the safe ones of the state or the input, cut, and the text itself.\<close>

definition flow_variables :: "flow_input \<Rightarrow> flow_vars" where
  "flow_variables i =
    (let given = (case fi_state i of Some s \<Rightarrow> fs_vars s | None \<Rightarrow> fi_vars i)
     in (\<lambda>k. if safeKey k then map_option (take 4096) (given k) else None)(''message'' \<mapsto> take 4096 (fi_text i)))"

text \<open>The block a waiting conversation answers: where it goes on, or what is asked again.\<close>

datatype flow_answer = GoOn string flow_vars | AskAgain string string

definition answer_flow :: "flow_graph \<Rightarrow> string \<Rightarrow> string \<Rightarrow> flow_vars \<Rightarrow> flow_failure + flow_answer" where
  "answer_flow g current text vars =
    (case find_node g current of
       None \<Rightarrow> Inl InvalidCapture
     | Some n \<Rightarrow>
        if fn_type n = ''input'' then
          (case flow_next g (fn_id n) ''next'' of Inl e \<Rightarrow> Inl e
           | Inr t \<Rightarrow> Inr (GoOn t (vars(flow_value (node_data n ''variable'') \<mapsto> take 4096 text))))
        else if fn_type n = ''menu'' then
          (let selected = js_trim text
           in case find (\<lambda>m. mo_value m = selected) (menuOptions n) of
                None \<Rightarrow> Inr (AskAgain (fn_id n) (join_lines [renderFlowText (node_data n ''text'') vars, option_lines n, ask_again]))
              | Some m \<Rightarrow> (case flow_next g (fn_id n) (''option-'' @ mo_value m) of Inl e \<Rightarrow> Inl e
                  | Inr t \<Rightarrow> Inr (GoOn t (vars((let v = flow_value (node_data n ''variable'') in if v = '''' then ''menu.choice'' else v) \<mapsto> selected)))))
        else Inl InvalidCapture)"

definition executeFlow :: "flow_env \<Rightarrow> flow_graph \<Rightarrow> flow_input \<Rightarrow> flow_failure + flow_result" where
  "executeFlow env g i =
    (case validateFlow env g of
       e # _ \<Rightarrow> Inl (FlowRefused e)
     | [] \<Rightarrow>
        (let vars = flow_variables i; steps = (case fi_state i of Some s \<Rightarrow> fs_steps s | None \<Rightarrow> 0);
             start = (case find (\<lambda>n. fn_type n = ''start'') (fg_nodes g) of Some n \<Rightarrow> Inr (fn_id n) | None \<Rightarrow> Inl JsTypeError)
         in case (case Option.bind (fi_state i) fs_node of Some x \<Rightarrow> Inr x | None \<Rightarrow> start) of
              Inl e \<Rightarrow> Inl e
            | Inr current \<Rightarrow>
               (case fi_state i of
                  None \<Rightarrow> run_flow 100 env g current steps vars [] []
                | Some s \<Rightarrow>
                   if fs_status s \<noteq> waiting then Inr (flow_result_of (fs_status s) None vars [] [] steps)
                   else (case answer_flow g current (fi_text i) vars of
                       Inl e \<Rightarrow> Inl e
                     | Inr (AskAgain x text) \<Rightarrow> Inr (flow_result_of waiting (Some x) vars [text] [] steps)
                     | Inr (GoOn x vars') \<Rightarrow> run_flow 100 env g x steps vars' [] []))))"

end
