(* ===== verification/Flow_Properties.thy ===== *)
theory Flow_Properties
  imports Flows
begin

text \<open>
  What the validator of flows decides, stated without its searches, and what a flow it accepts
  gives the interpreter: every message of every conversation finds its blocks and edges.
\<close>

section \<open>The contract of a flow\<close>

definition flow_edges :: "flow_graph \<Rightarrow> (string \<times> string) set" where
  "flow_edges g = {(fe_source e, fe_target e) | e. e \<in> set (fg_edges g)}"

text \<open>The edges a run takes without waiting for an answer.\<close>

definition moving_edges :: "flow_graph \<Rightarrow> (string \<times> string) set" where
  "moving_edges g = {(x, t) \<in> flow_edges g. \<forall>n \<in> set (fg_nodes g). fn_id n = x \<longrightarrow> fn_type n \<noteq> ''input''}"

definition node_sound :: "flow_env \<Rightarrow> flow_graph \<Rightarrow> flow_node \<Rightarrow> bool" where
  "node_sound env g n \<longleftrightarrow> fn_type n \<in> set FLOW_NODE_CATALOG
     \<and> (\<forall>port \<in> set (flowPorts n). \<exists>e \<in> set (fg_edges g). fe_source e = fn_id n \<and> fe_port e = port)
     \<and> (fn_type n \<in> {''message'', ''menu''} \<longrightarrow> \<not> bad_text n)
     \<and> (fn_type n \<in> {''input'', ''variable''} \<longrightarrow> safe_json_key (node_data n ''variable''))
     \<and> (fn_type n = ''input'' \<longrightarrow> length (flow_value (node_data n ''text'')) \<le> 4096
          \<and> (\<forall>x. node_data n ''timeout'' = Some x \<longrightarrow> x = JNull \<or> \<not> fv_positive env x)
          \<and> (\<forall>x. node_data n ''inputConfigVersion'' = Some x \<longrightarrow> x = JNum 1 \<or> x = JNum 2))
     \<and> (fn_type n = ''menu'' \<longrightarrow> \<not> bad_options n)
     \<and> (fn_type n = ''condition'' \<longrightarrow> safe_json_key (node_data n ''field'') \<and> flow_value (node_data n ''operator'') \<in> set comparisons)"

definition edge_sound :: "flow_graph \<Rightarrow> flow_edge \<Rightarrow> bool" where
  "edge_sound g e \<longleftrightarrow> (\<forall>n \<in> set (fg_nodes g). fn_id n = fe_source e \<longrightarrow> fe_port e \<in> set (flowPorts n))
     \<and> (\<forall>n \<in> set (fg_nodes g). fn_id n = fe_target e \<longrightarrow> fn_type n \<noteq> ''start'')"

definition sound_flow :: "flow_env \<Rightarrow> flow_graph \<Rightarrow> bool" where
  "sound_flow env g \<longleftrightarrow> FlowGraphSchema g \<and> distinct (node_ids g) \<and> distinct (map fe_id (fg_edges g))
     \<and> length (filter (\<lambda>n. fn_type n = ''start'') (fg_nodes g)) = 1
     \<and> flow_edges g \<subseteq> set (node_ids g) \<times> set (node_ids g)
     \<and> distinct (map (\<lambda>e. (fe_source e, fe_port e)) (fg_edges g))
     \<and> (\<forall>e \<in> set (fg_edges g). edge_sound g e)
     \<and> (\<forall>n \<in> set (fg_nodes g). node_sound env g n)
     \<and> (\<forall>x \<in> set (node_ids g). \<exists>s \<in> set (fg_nodes g). fn_type s = ''start'' \<and> (fn_id s, x) \<in> (flow_edges g)\<^sup>*)
     \<and> acyclic (moving_edges g)"

section \<open>The searches on a flow\<close>

definition flow_universe :: "flow_graph \<Rightarrow> string set" where
  "flow_universe g = set (node_ids g) \<union> fe_target ` set (fg_edges g)"

lemma flow_universe_small: "card (flow_universe g) < search_fuel g"
proof -
  have "card (flow_universe g) \<le> card (set (node_ids g)) + card (fe_target ` set (fg_edges g))"
    unfolding flow_universe_def by (rule card_Un_le)
  also have "\<dots> \<le> length (node_ids g) + length (fg_edges g)"
    by (intro add_mono card_length order_trans [OF card_image_le]) simp
  finally show ?thesis by (simp add: search_fuel_def node_ids_def)
qed

interpretation reach: graph_search "edge_targets g" "flow_universe g" for g
  by unfold_locales (auto simp: flow_universe_def edge_targets_def)

interpretation moves: graph_search "moving_targets g" "flow_universe g" for g
  by unfold_locales (auto simp: flow_universe_def edge_targets_def moving_targets_def split: if_splits)

lemma edge_targets_edges: "search_edges (edge_targets g) = flow_edges g"
  by (auto simp: search_edges_def flow_edges_def edge_targets_def)

lemma find_distinct: "distinct (map f xs) \<Longrightarrow> find (\<lambda>n. f n = x) xs = Some n \<longleftrightarrow> n \<in> set xs \<and> f n = x"
  by (induction xs) auto

lemma find_node_iff: "distinct (node_ids g) \<Longrightarrow> find_node g x = Some n \<longleftrightarrow> n \<in> set (fg_nodes g) \<and> fn_id n = x"
  by (simp add: find_node_def node_ids_def find_distinct)

lemma find_node_all:
  "distinct (node_ids g) \<Longrightarrow> (\<forall>n \<in> set (fg_nodes g). fn_id n = x \<longrightarrow> P n) \<longleftrightarrow> (\<forall>n. find_node g x = Some n \<longrightarrow> P n)"
  by (auto simp: find_node_iff)

lemma moving_targets_edges:
  assumes "distinct (node_ids g)"
  shows "search_edges (moving_targets g) = moving_edges g"
proof -
  have "\<not> waits g x \<longleftrightarrow> (\<forall>n \<in> set (fg_nodes g). fn_id n = x \<longrightarrow> fn_type n \<noteq> ''input'')" for x
    unfolding find_node_all [OF assms] waits_def by (cases "find_node g x") simp_all
  note w = this
  have "(x, t) \<in> search_edges (moving_targets g) \<longleftrightarrow> (x, t) \<in> moving_edges g" for x t
  proof (cases "waits g x")
    case True
    with w [of x] show ?thesis by (auto simp: moving_edges_def moving_targets_def)
  next
    case False
    with w [of x] show ?thesis
      by (auto simp: moving_edges_def moving_targets_def edge_targets_edges [symmetric])
  qed
  then show ?thesis by auto
qed

lemma one_filter: "length (filter P ns) = 1 \<Longrightarrow> \<exists>n. find P ns = Some n \<and> n \<in> set ns \<and> P n \<and> (\<forall>m \<in> set ns. P m \<longrightarrow> m = n)"
  by (induction ns) (auto simp: filter_empty_conv split: if_splits)

lemma unique_bex: "n \<in> S \<Longrightarrow> P n \<Longrightarrow> \<forall>m \<in> S. P m \<longrightarrow> m = n \<Longrightarrow> (\<exists>s \<in> S. P s \<and> Q s) \<longleftrightarrow> Q n"
  by blast

abbreviation is_start :: "flow_node \<Rightarrow> bool" where
  "is_start n \<equiv> fn_type n = ''start''"

lemma one_start:
  assumes "length (filter is_start (fg_nodes g)) = 1"
  obtains n where "find is_start (fg_nodes g) = Some n" "n \<in> set (fg_nodes g)" "is_start n"
    "\<forall>m \<in> set (fg_nodes g). is_start m \<longrightarrow> m = n"
  using one_filter [OF assms] by metis

lemma reachable_exact:
  assumes "length (filter is_start (fg_nodes g)) = 1"
  shows "set (reachable_ids g) = {x. \<exists>s \<in> set (fg_nodes g). is_start s \<and> (fn_id s, x) \<in> (flow_edges g)\<^sup>*}"
proof -
  obtain n where n: "find is_start (fg_nodes g) = Some n" "n \<in> set (fg_nodes g)" "is_start n"
    "\<forall>m \<in> set (fg_nodes g). is_start m \<longrightarrow> m = n" by (rule one_start [OF assms])
  from n(2) have "fn_id n \<in> flow_universe g" by (simp add: flow_universe_def node_ids_def)
  from reach.walk_exact [OF this flow_universe_small]
  have "set (reachable_ids g) = {x. (fn_id n, x) \<in> (flow_edges g)\<^sup>*}"
    by (simp only: reachable_ids_def n(1) option.case edge_targets_edges)
  then show ?thesis unfolding unique_bex [OF n(2), of is_start, OF n(3,4)] .
qed

lemma cycle_exact:
  assumes "distinct (node_ids g)" and "flow_edges g \<subseteq> set (node_ids g) \<times> set (node_ids g)"
  shows "has_cycle g \<longleftrightarrow> \<not> acyclic (moving_edges g)"
proof -
  have "set (node_ids g) \<subseteq> flow_universe g" by (simp add: flow_universe_def)
  from moves.cycles_exact [OF this flow_universe_small]
  have h: "has_cycle g \<longleftrightarrow> (\<exists>x \<in> set (node_ids g). \<exists>c. (x, c) \<in> (moving_edges g)\<^sup>* \<and> (c, c) \<in> (moving_edges g)\<^sup>+)"
    by (simp add: has_cycle_def moves.leads_to_cycle_def moving_targets_edges [OF assms(1)])
  have "c \<in> set (node_ids g)" if "(c, c) \<in> (moving_edges g)\<^sup>+" for c
    using tranclD [OF that] assms(2) by (auto simp: moving_edges_def)
  with h show ?thesis unfolding acyclic_def by blast
qed

section \<open>What the validator decides\<close>

lemma distinct_seen:
  "key e \<notin> set seen \<and> Q \<and> distinct (map key es) \<and> (\<forall>d \<in> set es. key d \<notin> set (key e # seen)) \<and> P
    \<longleftrightarrow> distinct (map key (e # es)) \<and> (\<forall>d \<in> set (e # es). key d \<notin> set seen) \<and> Q \<and> P"
  by (force simp: image_iff)

lemma edge_errors_Nil:
  assumes "distinct (node_ids g)"
  shows "edge_errors g seen es = [] \<longleftrightarrow> distinct (map (\<lambda>e. (fe_source e, fe_port e)) es)
    \<and> (\<forall>e \<in> set es. (fe_source e, fe_port e) \<notin> set seen)
    \<and> (\<forall>e \<in> set es. edge_sound g e)"
proof (induction es arbitrary: seen)
  case (Cons e es)
  have src: "(case find_node g (fe_source e) of None \<Rightarrow> [] | Some n \<Rightarrow> if fe_port e \<notin> set (flowPorts n) then [InvalidPort (fn_label n)] else []) = []
      \<longleftrightarrow> (\<forall>n \<in> set (fg_nodes g). fn_id n = fe_source e \<longrightarrow> fe_port e \<in> set (flowPorts n))"
    unfolding find_node_all [OF assms] by (cases "find_node g (fe_source e)") simp_all
  have tgt: "(case find_node g (fe_target e) of None \<Rightarrow> [] | Some n \<Rightarrow> if fn_type n = ''start'' then [IntoStart] else []) = []
      \<longleftrightarrow> (\<forall>n \<in> set (fg_nodes g). fn_id n = fe_target e \<longrightarrow> fn_type n \<noteq> ''start'')"
    unfolding find_node_all [OF assms] by (cases "find_node g (fe_target e)") simp_all
  have "edge_errors g seen (e # es) = [] \<longleftrightarrow> (fe_source e, fe_port e) \<notin> set seen
      \<and> edge_sound g e \<and> edge_errors g ((fe_source e, fe_port e) # seen) es = []"
    unfolding edge_errors.simps append_is_Nil_conv src tgt edge_sound_def by simp
  then show ?case unfolding Cons.IH distinct_seen [of "\<lambda>e. (fe_source e, fe_port e)"] by simp
qed simp

lemma node_errors_Nil: "node_errors env g n = [] \<longleftrightarrow> node_sound env g n"
proof (cases "fn_type n \<in> set FLOW_NODE_CATALOG")
  case True
  have ports: "concat (map (\<lambda>port. error_if (\<not> connected g (fn_id n) port) (Unconnected (fn_label n) port)) (flowPorts n)) = []
      \<longleftrightarrow> (\<forall>port \<in> set (flowPorts n). \<exists>e \<in> set (fg_edges g). fe_source e = fn_id n \<and> fe_port e = port)"
    by (simp add: connected_def list_ex_iff)
  have opt: "(case x of None \<Rightarrow> False | Some y \<Rightarrow> P y) \<longleftrightarrow> (\<exists>y. x = Some y \<and> P y)" for x :: "json option" and P
    by (cases x) simp_all
  from True have notin: "\<not> (fn_type n \<notin> set FLOW_NODE_CATALOG)" by simp
  show ?thesis using True
    unfolding node_errors_def node_sound_def Let_def if_not_P [OF notin]
      append_is_Nil_conv error_if_Nil ports opt insert_iff empty_iff linorder_not_less [symmetric]
    by blast
next
  case False
  then show ?thesis by (simp add: node_errors_def node_sound_def Let_def)
qed

lemma accepted_flows: "validateFlow env g = [] \<longleftrightarrow> sound_flow env g"
proof (cases "FlowGraphSchema g \<and> distinct (node_ids g) \<and> length (filter (\<lambda>n. fn_type n = ''start'') (fg_nodes g)) = 1
    \<and> \<not> list_ex (\<lambda>e. fe_source e \<notin> set (node_ids g) \<or> fe_target e \<notin> set (node_ids g)) (fg_edges g)")
  case False
  then have "validateFlow env g \<noteq> []" by (auto simp: validateFlow_def)
  moreover from False have "\<not> sound_flow env g"
    by (auto simp: sound_flow_def flow_edges_def list_ex_iff)
  ultimately show ?thesis by simp
next
  case True
  then have edges: "flow_edges g \<subseteq> set (node_ids g) \<times> set (node_ids g)" by (auto simp: flow_edges_def list_ex_iff)
  have all: "concat (map (node_errors env g) (fg_nodes g)) = [] \<longleftrightarrow> (\<forall>n \<in> set (fg_nodes g). node_sound env g n)"
    by (auto simp: node_errors_Nil)
  have "list_ex (\<lambda>x. x \<notin> set (reachable_ids g)) (node_ids g) \<longleftrightarrow>
      \<not> (\<forall>x \<in> set (node_ids g). \<exists>s \<in> set (fg_nodes g). fn_type s = ''start'' \<and> (fn_id s, x) \<in> (flow_edges g)\<^sup>*)"
    using reachable_exact [of g] True by (auto simp: list_ex_iff)
  with True edges all cycle_exact [of g] edge_errors_Nil [of g "[]" "fg_edges g"] show ?thesis
    by (auto simp: validateFlow_def sound_flow_def)
qed


section \<open>Running an accepted flow\<close>

text \<open>Along moving edges the set of the blocks that can follow shrinks, so a run has few turns.\<close>

definition ahead :: "flow_graph \<Rightarrow> string \<Rightarrow> string set" where
  "ahead g x = {y. (x, y) \<in> (moving_edges g)\<^sup>*}"

lemma moving_flow: "moving_edges g \<subseteq> flow_edges g"
  by (auto simp: moving_edges_def)

lemma ahead_ids:
  assumes "sound_flow env g" and "x \<in> set (node_ids g)"
  shows "ahead g x \<subseteq> set (node_ids g)"
proof
  fix y assume "y \<in> ahead g x"
  then have "(x, y) \<in> (moving_edges g)\<^sup>*" by (simp add: ahead_def)
  moreover have "moving_edges g `` set (node_ids g) \<subseteq> set (node_ids g)"
    using assms(1) moving_flow [of g] unfolding sound_flow_def by blast
  ultimately show "y \<in> set (node_ids g)" using assms(2) by (rule closed_rtrancl)
qed

lemma ahead_less:
  assumes "sound_flow env g" and "x \<in> set (node_ids g)" and "(x, t) \<in> moving_edges g"
  shows "card (ahead g t) < card (ahead g x)"
proof (rule psubset_card_mono)
  show "finite (ahead g x)" using ahead_ids [OF assms(1,2)] finite_subset by blast
  have "ahead g t \<subseteq> ahead g x" using assms(3) by (auto simp: ahead_def intro: converse_rtrancl_into_rtrancl)
  moreover have "x \<in> ahead g x" by (simp add: ahead_def)
  moreover have "x \<notin> ahead g t"
    using assms(1,3) rtrancl_into_trancl2 [of x t "moving_edges g" x] unfolding sound_flow_def acyclic_def ahead_def by blast
  ultimately show "ahead g t \<subset> ahead g x" by blast
qed

lemma sound_node:
  assumes "sound_flow env g" and "x \<in> set (node_ids g)"
  obtains n where "find_node g x = Some n" "n \<in> set (fg_nodes g)" "fn_id n = x" "node_sound env g n"
proof -
  from assms(2) obtain n where n: "n \<in> set (fg_nodes g)" "fn_id n = x" by (auto simp: node_ids_def)
  from assms(1) have "distinct (node_ids g)" by (simp add: sound_flow_def)
  from find_node_iff [OF this, of x n] n have "find_node g x = Some n" by simp
  moreover from assms(1) n(1) have "node_sound env g n" by (simp add: sound_flow_def)
  ultimately show thesis using that n by blast
qed

lemma sound_next:
  assumes "sound_flow env g" and "n \<in> set (fg_nodes g)" and "port \<in> set (flowPorts n)"
  obtains t where "flow_next g (fn_id n) port = Inr t" "(fn_id n, t) \<in> flow_edges g" "t \<in> set (node_ids g)"
proof -
  from assms have "\<exists>e \<in> set (fg_edges g). fe_source e = fn_id n \<and> fe_port e = port"
    by (simp add: sound_flow_def node_sound_def)
  then obtain e where e: "find (\<lambda>e. fe_source e = fn_id n \<and> fe_port e = port) (fg_edges g) = Some e"
    by (cases "find (\<lambda>e. fe_source e = fn_id n \<and> fe_port e = port) (fg_edges g)") (auto simp: find_None_iff)
  from find_mem [OF e] have "(fn_id n, fe_target e) \<in> flow_edges g" unfolding flow_edges_def by force
  moreover with assms(1) have "fe_target e \<in> set (node_ids g)" by (auto simp: sound_flow_def)
  ultimately show thesis using that e by (simp add: flow_next_def)
qed

text \<open>The states a conversation can be left in.\<close>

definition flow_state_ok :: "flow_graph \<Rightarrow> 'a flow_state_scheme \<Rightarrow> bool" where
  "flow_state_ok g s \<longleftrightarrow> (if fs_status s = waiting
     then \<exists>n \<in> set (fg_nodes g). fs_node s = Some (fn_id n) \<and> fn_type n \<in> {''input'', ''menu''}
     else fs_node s = None)"

lemma flow_state_ok_result [simp]: "flow_state_ok g (flow_result_of st x vars texts trace steps) \<longleftrightarrow> (if st = waiting
     then \<exists>n \<in> set (fg_nodes g). x = Some (fn_id n) \<and> fn_type n \<in> {''input'', ''menu''} else x = None)"
  by (simp add: flow_state_ok_def flow_result_of_def)

lemma fs_steps_result [simp]: "fs_steps (flow_result_of st x vars texts trace steps) = steps"
  by (simp add: flow_result_of_def)

definition run_outcome :: "flow_graph \<Rightarrow> bool \<Rightarrow> bool \<Rightarrow> nat \<Rightarrow> flow_failure + flow_result \<Rightarrow> bool" where
  "run_outcome g turns_out steps_out most r = (case r of
     Inr q \<Rightarrow> flow_state_ok g q \<and> fs_steps q \<le> most
   | Inl e \<Rightarrow> e = TurnLimit \<and> turns_out \<or> e = StepLimit \<and> steps_out)"

lemma run_flow_outcome:
  assumes "sound_flow env g" and "x \<in> set (node_ids g)"
  shows "run_outcome g (turns < card (ahead g x)) (1000 < steps + turns) (steps + turns)
    (run_flow turns env g x steps vars texts trace)"
  using assms(2)
proof (induction turns arbitrary: x steps vars texts trace)
  case 0
  have "x \<in> ahead g x" by (simp add: ahead_def)
  moreover have "finite (ahead g x)" using ahead_ids [OF assms(1) 0] finite_subset by blast
  ultimately have "0 < card (ahead g x)" by (auto simp: card_gt_0_iff)
  then show ?case by (simp add: run_outcome_def)
next
  case (Suc turns)
  obtain n where n: "find_node g x = Some n" "n \<in> set (fg_nodes g)" "fn_id n = x" "node_sound env g n"
    by (rule sound_node [OF assms(1) Suc.prems])
  show ?case
  proof (cases "1000 < Suc steps \<or> fn_type n \<in> {''end'', ''handoff'', ''input'', ''menu''}")
    case True
    with n show ?thesis by (auto simp: run_outcome_def Let_def)
  next
    case False
    let ?port = "if fn_type n = ''condition'' then (if condition_holds env n vars then ''yes'' else ''no'') else ''next''"
    from False have "?port \<in> set (flowPorts n)" by (simp add: flowPorts_def)
    then obtain t where t: "flow_next g (fn_id n) ?port = Inr t" "(fn_id n, t) \<in> flow_edges g" "t \<in> set (node_ids g)"
      by (rule sound_next [OF assms(1) n(2)])
    from assms(1) have d: "distinct (node_ids g)" by (simp add: sound_flow_def)
    have "fn_type m \<noteq> ''input''" if "m \<in> set (fg_nodes g)" "fn_id m = x" for m
      using find_node_iff [OF d, of x m] that n(1) False by simp
    with t(2) n(3) have "(x, t) \<in> moving_edges g" by (auto simp: moving_edges_def)
    then have less: "card (ahead g t) < card (ahead g x)" by (rule ahead_less [OF assms(1) Suc.prems])
    from False n t(1) obtain vars' texts' trace' where
      "run_flow (Suc turns) env g x steps vars texts trace = run_flow turns env g t (Suc steps) vars' texts' trace'"
      by (simp add: Let_def)
    with Suc.IH [OF t(3), of "Suc steps" vars' texts' trace'] less show ?thesis
      by (auto simp: run_outcome_def split: sum.splits)
  qed
qed

lemma answer_flow_outcome:
  assumes "sound_flow env g" and "n \<in> set (fg_nodes g)" and "fn_type n \<in> {''input'', ''menu''}"
  obtains (on) t vars' where "answer_flow g (fn_id n) text vars = Inr (GoOn t vars')" "t \<in> set (node_ids g)"
  | (again) a where "answer_flow g (fn_id n) text vars = Inr (AskAgain (fn_id n) a)"
proof -
  have x: "fn_id n \<in> set (node_ids g)" using assms(2) by (simp add: node_ids_def)
  obtain m where m: "find_node g (fn_id n) = Some m" "m \<in> set (fg_nodes g)" "fn_id m = fn_id n"
    by (rule sound_node [OF assms(1) x])
  from assms(1) have d: "distinct (node_ids g)" by (simp add: sound_flow_def)
  from find_node_iff [OF d, of "fn_id n" n] assms(2) m(1) have n: "find_node g (fn_id n) = Some n" by simp
  show thesis
  proof (cases "fn_type n = ''input''")
    case True
    then have "''next'' \<in> set (flowPorts n)" by (simp add: flowPorts_def)
    then obtain t where "flow_next g (fn_id n) ''next'' = Inr t" "t \<in> set (node_ids g)"
      by (rule sound_next [OF assms(1,2)])
    with n True show thesis by (intro on) (auto simp: answer_flow_def)
  next
    case False
    with assms(3) have menu: "fn_type n = ''menu''" by simp
    show thesis
    proof (cases "find (\<lambda>m. mo_value m = js_trim text) (menuOptions n)")
      case None
      with n menu show thesis by (intro again) (auto simp: answer_flow_def Let_def)
    next
      case (Some m)
      from find_mem [OF Some] have "m \<in> set (menuOptions n)" by (rule conjunct1)
      with menu have "''option-'' @ mo_value m \<in> set (flowPorts n)" by (simp add: flowPorts_def imageI)
      then obtain t where "flow_next g (fn_id n) (''option-'' @ mo_value m) = Inr t" "t \<in> set (node_ids g)"
        by (rule sound_next [OF assms(1,2)])
      with n menu Some show thesis by (intro on) (auto simp: answer_flow_def Let_def)
    qed
  qed
qed

lemma executeFlow_outcome:
  assumes "sound_flow env g" and "\<forall>s. fi_state i = Some s \<longrightarrow> flow_state_ok g s"
  shows "run_outcome g (100 < length (fg_nodes g)) (900 < (case fi_state i of Some s \<Rightarrow> fs_steps s | None \<Rightarrow> 0))
    ((case fi_state i of Some s \<Rightarrow> fs_steps s | None \<Rightarrow> 0) + 100) (executeFlow env g i)"
proof -
  let ?steps = "case fi_state i of Some s \<Rightarrow> fs_steps s | None \<Rightarrow> 0"
  have valid: "validateFlow env g = []" using assms(1) by (simp add: accepted_flows)
  have run: "run_outcome g (100 < length (fg_nodes g)) (900 < steps) (steps + 100) (run_flow 100 env g x steps vars texts trace)"
    if "x \<in> set (node_ids g)" for x steps vars texts trace
  proof -
    have "card (ahead g x) \<le> card (set (node_ids g))" using ahead_ids [OF assms(1) that] by (intro card_mono) auto
    also have "\<dots> \<le> length (fg_nodes g)" using card_length [of "node_ids g"] by (simp add: node_ids_def)
    finally have "card (ahead g x) \<le> length (fg_nodes g)" .
    with run_flow_outcome [OF assms(1) that, of 100 steps vars texts trace] show ?thesis
      by (auto simp: run_outcome_def split: sum.splits)
  qed
  from assms(1) have one: "length (filter is_start (fg_nodes g)) = 1" by (simp add: sound_flow_def)
  obtain s0 where s0: "find is_start (fg_nodes g) = Some s0" "s0 \<in> set (fg_nodes g)" by (rule one_start [OF one])
  show ?thesis
  proof (cases "fi_state i")
    case None
    from s0(2) have "fn_id s0 \<in> set (node_ids g)" by (simp add: node_ids_def)
    from run [OF this, of 0] None s0(1) valid show ?thesis by (simp add: executeFlow_def Let_def)
  next
    case (Some s)
    show ?thesis
    proof (cases "fs_status s = waiting")
      case False
      with Some assms(2) have "fs_node s = None" by (simp add: flow_state_ok_def)
      with Some False s0(1) valid show ?thesis by (simp add: executeFlow_def Let_def run_outcome_def)
    next
      case True
      with Some assms(2) obtain n where n: "n \<in> set (fg_nodes g)" "fs_node s = Some (fn_id n)" "fn_type n \<in> {''input'', ''menu''}"
        by (auto simp: flow_state_ok_def)
      from assms(1) n(1,3) show ?thesis
      proof (cases rule: answer_flow_outcome [of env g n "fi_text i" "flow_variables i"])
        case (on t vars')
        with run [OF on(2), of "fs_steps s" vars'] Some True n(2) valid show ?thesis by (simp add: executeFlow_def Let_def)
      next
        case (again a)
        with Some True n valid show ?thesis by (auto simp: executeFlow_def Let_def run_outcome_def)
      qed
    qed
  qed
qed

text \<open>The conversations of a flow: each message is run with the state the one before left.\<close>

inductive flow_session :: "flow_env \<Rightarrow> flow_graph \<Rightarrow> flow_state option \<Rightarrow> bool" for env g where
  fresh: "flow_session env g None"
| message: "flow_session env g st \<Longrightarrow> fi_state i = st \<Longrightarrow> executeFlow env g i = Inr r \<Longrightarrow>
    flow_session env g (Some (flow_state.truncate r))"

lemma flow_state_ok_truncate [simp]: "flow_state_ok g (flow_state.truncate r) = flow_state_ok g r"
  by (simp add: flow_state_ok_def flow_state.truncate_def)

lemma session_states:
  assumes "sound_flow env g" and "flow_session env g st"
  shows "\<forall>s. st = Some s \<longrightarrow> flow_state_ok g s"
  using assms(2)
proof (induction rule: flow_session.induct)
  case (message st i r)
  from executeFlow_outcome [OF assms(1), of i] message show ?case by (simp add: run_outcome_def)
qed simp

text \<open>
  C10: In every conversation over an accepted flow each message has a result, or the run was stopped by
  one of its two limits: 100 blocks in one message, which only a flow of more than 100 blocks reaches,
  or 1000 blocks in the conversation. No block or edge the interpreter assumes is ever missing, and a
  conversation that waits does so at a block that asks.
\<close>

theorem accepted_flows_run:
  assumes "validateFlow env g = []" and "flow_session env g (fi_state i)"
  shows "case executeFlow env g i of
      Inr r \<Rightarrow> flow_state_ok g r \<and> fs_steps r \<le> (case fi_state i of Some s \<Rightarrow> fs_steps s | None \<Rightarrow> 0) + 100
    | Inl e \<Rightarrow> e = TurnLimit \<and> 100 < length (fg_nodes g)
        \<or> e = StepLimit \<and> (\<exists>s. fi_state i = Some s \<and> 900 < fs_steps s)"
proof -
  from assms(1) have sound: "sound_flow env g" by (simp add: accepted_flows)
  from executeFlow_outcome [OF sound session_states [OF sound assms(2)]] show ?thesis
    by (auto simp: run_outcome_def split: sum.splits option.splits)
qed

end
