(* ===== verification/Flow_Demo.thy ===== *)
theory Flow_Demo
  imports Flow_Properties
begin

text \<open>The two flows the contract ships, and a conversation over one of them.\<close>

definition flow_env0 :: flow_env where
  "flow_env0 = \<lparr>fv_lower = map to_lower, fv_positive = (\<lambda>x. case x of JNum i \<Rightarrow> 0 < i | _ \<Rightarrow> False)\<rparr>"

definition welcomeFlow :: flow_graph where
  "welcomeFlow = \<lparr>fg_nodes = [
     \<lparr>fn_id = ''start'', fn_type = ''start'', fn_label = ''Mensagem recebida'', fn_x = 60, fn_y = 140, fn_data = []\<rparr>,
     \<lparr>fn_id = ''welcome'', fn_type = ''message'', fn_label = ''Boas-vindas'', fn_x = 340, fn_y = 140,
       fn_data = [(''text'', JStr (''Ol'' @ [CHR 0xE1] @ '', {{contact.name}}! Como podemos ajudar?''))]\<rparr>,
     \<lparr>fn_id = ''end'', fn_type = ''end'', fn_label = ''Encerrar'', fn_x = 620, fn_y = 140, fn_data = []\<rparr>],
   fg_edges = [\<lparr>fe_id = ''e1'', fe_source = ''start'', fe_target = ''welcome'', fe_port = ''next''\<rparr>,
     \<lparr>fe_id = ''e2'', fe_source = ''welcome'', fe_target = ''end'', fe_port = ''next''\<rparr>]\<rparr>"

definition triageFlow :: flow_graph where
  "triageFlow = \<lparr>fg_nodes = [
     \<lparr>fn_id = ''start'', fn_type = ''start'', fn_label = ''Mensagem recebida'', fn_x = 50, fn_y = 180, fn_data = []\<rparr>,
     \<lparr>fn_id = ''name'', fn_type = ''input'', fn_label = ''Conhecer o cliente'', fn_x = 300, fn_y = 180,
       fn_data = [(''text'', JStr (''Ol'' @ [CHR 0xE1] @ ''! Qual '' @ [CHR 0xE9] @ '' o seu nome?'')), (''variable'', JStr ''nome'')]\<rparr>,
     \<lparr>fn_id = ''question'', fn_type = ''input'', fn_label = ''Motivo do contato'', fn_x = 550, fn_y = 180,
       fn_data = [(''text'', JStr ''Obrigado, {{nome}}. Como podemos ajudar?''), (''variable'', JStr ''pedido'')]\<rparr>,
     \<lparr>fn_id = ''handoff'', fn_type = ''handoff'', fn_label = ''Transferir para atendente'', fn_x = 800, fn_y = 180, fn_data = []\<rparr>],
   fg_edges = [\<lparr>fe_id = ''e1'', fe_source = ''start'', fe_target = ''name'', fe_port = ''next''\<rparr>,
     \<lparr>fe_id = ''e2'', fe_source = ''name'', fe_target = ''question'', fe_port = ''next''\<rparr>,
     \<lparr>fe_id = ''e3'', fe_source = ''question'', fe_target = ''handoff'', fe_port = ''next''\<rparr>]\<rparr>"

lemma welcome_accepted: "validateFlow flow_env0 welcomeFlow = []"
  by code_simp

lemma triage_accepted: "validateFlow flow_env0 triageFlow = []"
  by code_simp

definition say :: "flow_state option \<Rightarrow> string \<Rightarrow> flow_input" where
  "say st t = \<lparr>fi_text = t, fi_vars = (\<lambda>_. None), fi_state = st\<rparr>"

definition answers :: "flow_failure + flow_result \<Rightarrow> (flow_status \<times> string option \<times> nat \<times> string list) option" where
  "answers r = (case r of Inl _ \<Rightarrow> None | Inr q \<Rightarrow> Some (fs_status q, fs_node q, fs_steps q, fr_texts q))"

definition state_after :: "flow_failure + flow_result \<Rightarrow> flow_state option" where
  "state_after r = (case r of Inl _ \<Rightarrow> None | Inr q \<Rightarrow> Some (flow_state.truncate q))"

definition hello :: "flow_failure + flow_result" where
  "hello = executeFlow flow_env0 triageFlow (say None ''oi'')"

lemma hello_answers: "answers hello = Some (waiting, Some ''name'', 2, [''Ol'' @ [CHR 0xE1] @ ''! Qual '' @ [CHR 0xE9] @ '' o seu nome?''])"
  unfolding hello_def executeFlow_def triage_accepted list.case by code_simp

lemma named_answers: "answers (executeFlow flow_env0 triageFlow (say (state_after hello) ''Ana''))
    = Some (waiting, Some ''question'', 3, [''Obrigado, Ana. Como podemos ajudar?''])"
  unfolding hello_def executeFlow_def triage_accepted list.case by code_simp

lemma answered: "answers r = Some a \<Longrightarrow> \<exists>q. r = Inr q"
  by (cases r) (simp_all add: answers_def)

theorem accepted_flows_run_witness:
  "\<exists>q. executeFlow flow_env0 triageFlow (say (state_after hello) ''Ana'') = Inr q \<and> flow_state_ok triageFlow q \<and> fs_steps q = 3"
proof -
  have f: "fi_state (say st t) = st" for st t by (simp add: say_def)
  obtain h where h: "hello = Inr h" using answered [OF hello_answers] ..
  have s: "flow_session flow_env0 triageFlow (state_after hello)"
    using flow_session.message [OF flow_session.fresh f] h by (simp add: hello_def state_after_def)
  obtain q where q: "executeFlow flow_env0 triageFlow (say (state_after hello) ''Ana'') = Inr q" using answered [OF named_answers] ..
  from accepted_flows_run [OF triage_accepted, of "say (state_after hello) ''Ana''", unfolded f, OF s] q named_answers
  show ?thesis by (simp add: answers_def)
qed

end
