(* ===== verification/Runtime_State.thy ===== *)
theory Runtime_State
  imports Flows
begin

text \<open>
  The state an automation keeps between turns, apps/api/src/modules/automations/types.ts and
  runtime-state.ts: variables as a JavaScript object in the order of insertion, the limits on their
  JSON text, the versions, and the rendering of texts and values. A character is one UTF-16 unit
  below 256, so its UTF-8 form has one byte or two; numbers are integers.
\<close>

section \<open>Values\<close>

definition utf8_length :: "string \<Rightarrow> int" where
  "utf8_length s = int (length s) + int (length (filter (\<lambda>c. 128 \<le> (of_char c :: nat)) s))"

fun json_depth :: "json \<Rightarrow> nat" where
  "json_depth (JArr xs) = fold (\<lambda>x d. max (Suc (json_depth x)) d) xs 0"
| "json_depth (JObj kvs) = fold (\<lambda>kv d. max (Suc (json_depth (snd kv))) d) kvs 0"
| "json_depth _ = 0"

definition RUNTIME_VALUE_BYTES :: int where "RUNTIME_VALUE_BYTES = 65536"

definition RUNTIME_STATE_BYTES :: int where "RUNTIME_STATE_BYTES = 262144"

definition automation_error :: "string \<Rightarrow> js_error + 'a" where
  "automation_error c = Inl (PlainError (''AUTOMATION_'' @ c))"

text \<open>\<open>undefined\<close> is no JSON value; a JSON value has no cycle, getter or symbol that could be refused.\<close>

definition runtimeJson :: "json option \<Rightarrow> js_error + json" where
  "runtimeJson v = (case v of None \<Rightarrow> automation_error ''STATE_VALUE_INVALID''
     | Some x \<Rightarrow> if 64 < json_depth x then automation_error ''STATE_VALUE_INVALID''
         else if RUNTIME_VALUE_BYTES < utf8_length (json_stringify x) then automation_error ''STATE_VALUE_LIMIT''
         else Inr x)"

definition runtimeText :: "json option \<Rightarrow> string" where
  "runtimeText v = (case v of None \<Rightarrow> '''' | Some (JStr s) \<Rightarrow> s | Some x \<Rightarrow> json_stringify x)"

section \<open>Variables\<close>

type_synonym run_vars = "(string \<times> json) list"

fun set_var :: "string \<Rightarrow> json \<Rightarrow> run_vars \<Rightarrow> run_vars" where
  "set_var k v [] = [(k, v)]"
| "set_var k v (kv # kvs) = (if fst kv = k then (k, v) # kvs else kv # set_var k v kvs)"

lemma map_of_set_var [simp]: "map_of (set_var k v vs) = (map_of vs)(k \<mapsto> v)"
  by (induction vs) (auto simp: fun_eq_iff)

lemma fst_set_var: "fst ` set (set_var k v vs) = insert k (fst ` set vs)"
  by (induction vs) auto

section \<open>The state\<close>

datatype wait_kind = EVENT | DELAY | IO

record wait_state =
  ws_kind :: wait_kind
  ws_node :: string
  ws_wake :: "int option"
  ws_id :: "string option"
  ws_deadline :: "int option"
  ws_invalid :: "int option"
  ws_input3 :: bool

record child_ref =
  cr_node :: string
  cr_automation :: string
  cr_version :: int
  cr_correlation :: string
  cr_input :: run_vars

record run_frame =
  fr_automation :: string
  fr_version :: int
  fr_return :: string
  fr_deadline :: "int option"
  fr_schema :: "json option"
  fr_child :: "child_ref option"

record run_state =
  rs_format :: "int option"
  rs_automation :: string
  rs_version :: int
  rs_node :: "string option"
  rs_vars :: run_vars
  rs_steps :: int
  rs_stack :: "run_frame list"
  rs_waiting :: "wait_state option"

definition opt_field :: "string \<Rightarrow> ('a \<Rightarrow> json) \<Rightarrow> 'a option \<Rightarrow> (string \<times> json) list" where
  "opt_field k f x = (case x of None \<Rightarrow> [] | Some a \<Rightarrow> [(k, f a)])"

definition wait_kind_json :: "wait_kind \<Rightarrow> json" where
  "wait_kind_json k = JStr (case k of EVENT \<Rightarrow> ''EVENT'' | DELAY \<Rightarrow> ''DELAY'' | IO \<Rightarrow> ''IO'')"

definition wait_json :: "wait_state \<Rightarrow> json" where
  "wait_json w = JObj ([(''kind'', wait_kind_json (ws_kind w)), (''nodeId'', JStr (ws_node w))]
     @ opt_field ''wakeAt'' JNum (ws_wake w) @ opt_field ''waitId'' JStr (ws_id w) @ opt_field ''deadlineAt'' JNum (ws_deadline w)
     @ opt_field ''invalidAttempts'' JNum (ws_invalid w) @ (if ws_input3 w then [(''inputConfigVersion'', JNum 3)] else []))"

definition child_json :: "child_ref \<Rightarrow> json" where
  "child_json c = JObj [(''nodeId'', JStr (cr_node c)), (''automationId'', JStr (cr_automation c)), (''version'', JNum (cr_version c)),
     (''correlationId'', JStr (cr_correlation c)), (''input'', JObj (cr_input c))]"

definition frame_json :: "run_frame \<Rightarrow> json" where
  "frame_json f = JObj ([(''automationId'', JStr (fr_automation f)), (''version'', JNum (fr_version f)), (''returnNodeId'', JStr (fr_return f))]
     @ opt_field ''deadlineAt'' JNum (fr_deadline f) @ opt_field ''outputSchema'' id (fr_schema f) @ opt_field ''child'' child_json (fr_child f))"

definition state_json :: "run_state \<Rightarrow> json" where
  "state_json s = JObj (opt_field ''runtimeStateVersion'' JNum (rs_format s)
     @ [(''automationId'', JStr (rs_automation s)), (''version'', JNum (rs_version s)),
        (''nodeId'', case rs_node s of None \<Rightarrow> JNull | Some n \<Rightarrow> JStr n), (''variables'', JObj (rs_vars s)),
        (''steps'', JNum (rs_steps s)), (''stack'', JArr (map frame_json (rs_stack s)))]
     @ opt_field ''waiting'' wait_json (rs_waiting s))"

fun check_values :: "run_vars \<Rightarrow> js_error option" where
  "check_values [] = None"
| "check_values (kv # kvs) = (case runtimeJson (Some (snd kv)) of Inl e \<Rightarrow> Some e | Inr _ \<Rightarrow> check_values kvs)"

definition assertRuntimeState :: "run_state \<Rightarrow> js_error option" where
  "assertRuntimeState s = (case check_values (rs_vars s) of Some e \<Rightarrow> Some e
     | None \<Rightarrow> if RUNTIME_STATE_BYTES < utf8_length (json_stringify (state_json s))
         then Some (PlainError ''AUTOMATION_STATE_TOTAL_LIMIT'') else None)"

section \<open>Versions\<close>

text \<open>\<open>published\<close> is \<open>None\<close> where the argument is missing and the default applies.\<close>

definition runtimeStateVersion :: "run_state option \<Rightarrow> int option \<Rightarrow> js_error + int" where
  "runtimeStateVersion previous published =
    (let p = (case published of None \<Rightarrow> 1 | Some v \<Rightarrow> v)
     in if p \<noteq> 1 \<and> p \<noteq> 2 then automation_error ''STATE_VERSION_UNSUPPORTED''
        else let v = (case previous of None \<Rightarrow> p | Some s \<Rightarrow> (case rs_format s of None \<Rightarrow> 1 | Some w \<Rightarrow> w))
             in if v \<noteq> 1 \<and> v \<noteq> 2 then automation_error ''STATE_VERSION_UNSUPPORTED''
                else if v \<noteq> p then automation_error ''STATE_VERSION_MISMATCH'' else Inr v)"

section \<open>Rendering\<close>

definition render_key :: "run_vars \<Rightarrow> string \<Rightarrow> string" where
  "render_key vars key = (if safeKey key then runtimeText (map_of vars key) else '''')"

definition renderRuntimeText :: "json option \<Rightarrow> run_vars \<Rightarrow> js_error + string" where
  "renderRuntimeText text vars = (let rendered = render_markers (render_key vars) (flow_value text)
     in case runtimeJson (Some (JStr rendered)) of Inl e \<Rightarrow> Inl e | Inr _ \<Rightarrow> Inr rendered)"

text \<open>A text that is one marker and nothing else stands for the value of its variable.\<close>

definition whole_marker :: "json option \<Rightarrow> string option" where
  "whole_marker v = (case v of
     Some (JStr t) \<Rightarrow> (case match_marker t of Some (b, rest) \<Rightarrow> if b \<noteq> '''' \<and> rest = '''' then Some (js_trim b) else None | None \<Rightarrow> None)
   | _ \<Rightarrow> None)"

definition renderRuntimeValue :: "json option \<Rightarrow> run_vars \<Rightarrow> js_error + json" where
  "renderRuntimeValue v vars =
    (case (case whole_marker v of Some key \<Rightarrow> if safeKey key then map_of vars key else None | None \<Rightarrow> None) of
       Some x \<Rightarrow> runtimeJson (Some x)
     | None \<Rightarrow> (case v of
         Some (JStr t) \<Rightarrow> (case renderRuntimeText v vars of Inl e \<Rightarrow> Inl e | Inr s \<Rightarrow> Inr (JStr s))
       | _ \<Rightarrow> runtimeJson v))"

end
