(* ===== verification/Automation_Nodes.thy ===== *)
theory Automation_Nodes
  imports Runtime_State
begin

text \<open>
  The configuration of automation blocks, packages/contracts/src: what a block asks and how often
  (automation-input.ts, automation-menu.ts), the outputs of every type of block
  (automation-node-definitions.ts), the choice of a switch (automation-switch.ts) and the policy of
  subflows (automation-subflow.ts). A configuration is the JSON object of the block.
\<close>

type_synonym block_data = "(string \<times> json) list"

section \<open>Values of the language\<close>

text \<open>\<open>String(x)\<close> of a JSON value.\<close>

fun js_string :: "json \<Rightarrow> string" where
  "js_string JNull = ''null''"
| "js_string (JBool b) = (if b then ''true'' else ''false'')"
| "js_string (JNum i) = show_int i"
| "js_string (JStr s) = s"
| "js_string (JArr xs) = join_with '','' (map (\<lambda>x. if x = JNull then '''' else js_string x) xs)"
| "js_string (JObj _) = ''[object Object]''"

definition date_valid :: "int \<Rightarrow> bool" where
  "date_valid t \<longleftrightarrow> \<bar>t\<bar> \<le> 8640000000000000"

section \<open>Variables and bounded numbers\<close>

definition DataVariableKeySchema :: "json option \<Rightarrow> string option" where
  "DataVariableKeySchema x = (case x of
     Some (JStr k) \<Rightarrow> if safeKey k \<and> list_all (\<lambda>p. p \<noteq> '''') (split_dots k) then Some k else None
   | _ \<Rightarrow> None)"

definition int_between :: "int \<Rightarrow> int \<Rightarrow> json option \<Rightarrow> int option" where
  "int_between lo hi x = (case x of Some (JNum i) \<Rightarrow> if lo \<le> i \<and> i \<le> hi then Some i else None | _ \<Rightarrow> None)"

text \<open>An optional field: absent is allowed, anything else has to satisfy the schema.\<close>

definition optional :: "(json option \<Rightarrow> 'a option) \<Rightarrow> json option \<Rightarrow> 'a option option" where
  "optional f x = (case x of None \<Rightarrow> Some None | Some _ \<Rightarrow> (case f x of None \<Rightarrow> None | Some a \<Rightarrow> Some (Some a)))"

definition trimmed_text :: "json option \<Rightarrow> string option" where
  "trimmed_text x = (case x of Some (JStr s) \<Rightarrow> (let t = js_trim s in if 1 \<le> length t \<and> length t \<le> 4096 then Some t else None) | _ \<Rightarrow> None)"

definition short_text :: "json option \<Rightarrow> string option" where
  "short_text x = (case x of Some (JStr s) \<Rightarrow> if length s \<le> 4096 then Some s else None | _ \<Rightarrow> None)"

section \<open>Captures\<close>

text \<open>For version 1 the type is empty and one attempt is all there is.\<close>

record capture_config =
  cc_version :: int
  cc_variable :: string
  cc_timeout :: "int option"
  cc_type :: string
  cc_max :: int
  cc_error :: "string option"

definition CAPTURE_TYPES :: "string list" where
  "CAPTURE_TYPES = [''text'', ''number'', ''cpf'', ''cnpj'', ''email'', ''phone'', ''date'']"

definition capture_type :: "int \<Rightarrow> json option \<Rightarrow> string option" where
  "capture_type v x = (case x of Some (JStr t) \<Rightarrow>
     if v = 2 \<and> t \<in> set CAPTURE_TYPES \<or> v = 3 \<and> t \<in> {''image'', ''file''} then Some t else None | _ \<Rightarrow> None)"

definition InputCaptureConfigSchema :: "block_data \<Rightarrow> capture_config option" where
  "InputCaptureConfigSchema d =
    (case (map_of d ''inputConfigVersion'', DataVariableKeySchema (map_of d ''variable''), optional short_text (map_of d ''text''),
           optional (int_between 1 604800) (map_of d ''timeoutSeconds'')) of
       (Some (JNum v), Some k, Some _, Some timeout) \<Rightarrow>
         if v = 1 then Some \<lparr>cc_version = 1, cc_variable = k, cc_timeout = timeout, cc_type = '''', cc_max = 1, cc_error = None\<rparr>
         else if v = 2 \<or> v = 3 then
           (case (capture_type v (map_of d ''inputType''), int_between 1 100 (map_of d ''maxAttempts''), optional trimmed_text (map_of d ''errorMessage'')) of
              (Some t, Some m, Some e) \<Rightarrow>
                Some \<lparr>cc_version = v, cc_variable = k, cc_timeout = timeout, cc_type = t, cc_max = m, cc_error = e\<rparr>
            | _ \<Rightarrow> None)
         else None
     | _ \<Rightarrow> None)"

section \<open>Menus\<close>

record menu_config =
  mc_version :: int
  mc_max :: int
  mc_error :: string
  mc_timeout :: "int option"

definition MenuAttemptConfigSchema :: "block_data \<Rightarrow> menu_config option" where
  "MenuAttemptConfigSchema d =
    (case (map_of d ''menuConfigVersion'', int_between 1 100 (map_of d ''maxAttempts'')) of
       (Some (JNum v), Some m) \<Rightarrow>
         if v = 1 then Some \<lparr>mc_version = 1, mc_max = m, mc_error = '''', mc_timeout = None\<rparr>
         else if v = 2 then
           (case (trimmed_text (map_of d ''errorMessage''), optional (int_between 1 604800) (map_of d ''timeoutSeconds'')) of
              (Some e, Some t) \<Rightarrow> Some \<lparr>mc_version = 2, mc_max = m, mc_error = e, mc_timeout = t\<rparr>
            | _ \<Rightarrow> None)
         else None
     | _ \<Rightarrow> None)"

lemma capture_config_bounds:
  "InputCaptureConfigSchema d = Some c \<Longrightarrow> 1 \<le> cc_max c \<and> cc_max c \<le> 100 \<and> safeKey (cc_variable c) \<and> cc_version c \<in> {1, 2, 3}"
  by (auto simp: InputCaptureConfigSchema_def DataVariableKeySchema_def int_between_def
      split: option.splits json.splits if_splits prod.splits)

lemma menu_config_bounds:
  "MenuAttemptConfigSchema d = Some c \<Longrightarrow> 1 \<le> mc_max c \<and> mc_max c \<le> 100 \<and> mc_version c \<in> {1, 2}"
  by (auto simp: MenuAttemptConfigSchema_def int_between_def split: option.splits json.splits if_splits prod.splits)

section \<open>Switches\<close>

record switch_case =
  sw_id :: string
  sw_value :: json

definition case_id :: "string \<Rightarrow> bool" where
  "case_id s = (case s of [] \<Rightarrow> False
     | c # cs \<Rightarrow> (lower_char c \<or> upper_char c) \<and> length cs \<le> 31 \<and> list_all (\<lambda>d. key_start d \<or> digit_char d \<or> d = CHR ''-'') cs)"

definition scalar :: "json option \<Rightarrow> json option" where
  "scalar x = (case x of Some (JStr s) \<Rightarrow> if length s \<le> 4096 then x else None | Some (JArr _) \<Rightarrow> None | Some (JObj _) \<Rightarrow> None | _ \<Rightarrow> x)"

definition switch_case_of :: "json \<Rightarrow> switch_case option" where
  "switch_case_of x = (case x of
     JObj kvs \<Rightarrow> (case (map_of kvs ''id'', map_of kvs ''label'', scalar (map_of kvs ''value'')) of
       (Some (JStr i), Some (JStr l), Some v) \<Rightarrow>
         (let t = js_trim l in if case_id i \<and> 1 \<le> length t \<and> length t \<le> 80 \<and> fst ` set kvs = {''id'', ''label'', ''value''}
          then Some \<lparr>sw_id = i, sw_value = v\<rparr> else None)
     | _ \<Rightarrow> None)
   | _ \<Rightarrow> None)"

fun all_some :: "'a option list \<Rightarrow> 'a list option" where
  "all_some [] = Some []"
| "all_some (x # xs) = (case (x, all_some xs) of (Some a, Some as) \<Rightarrow> Some (a # as) | _ \<Rightarrow> None)"

record switch_config =
  sc_variable :: string
  sc_cases :: "switch_case list"

definition SwitchNodeConfigSchema :: "block_data \<Rightarrow> switch_config option" where
  "SwitchNodeConfigSchema d =
    (case (map_of d ''switchVersion'', DataVariableKeySchema (map_of d ''variable''), map_of d ''cases'') of
       (Some (JNum v), Some k, Some (JArr raws)) \<Rightarrow>
         (case all_some (map switch_case_of raws) of
            None \<Rightarrow> None
          | Some cs \<Rightarrow> if v = 1 \<and> fst ` set d = {''switchVersion'', ''variable'', ''cases''} \<and> 1 \<le> length cs \<and> length cs \<le> 20
                \<and> distinct (map sw_id cs) \<and> distinct (map sw_value cs)
              then Some \<lparr>sc_variable = k, sc_cases = cs\<rparr> else None)
     | _ \<Rightarrow> None)"

definition selectSwitchPort :: "switch_config \<Rightarrow> run_vars \<Rightarrow> string" where
  "selectSwitchPort c vars = (case find (\<lambda>i. Some (sw_value i) = map_of vars (sc_variable c)) (sc_cases c) of
     Some i \<Rightarrow> ''case-'' @ sw_id i | None \<Rightarrow> ''default'')"

text \<open>The identifiers the editor can name, whether or not the whole configuration is valid.\<close>

definition raw_case_id :: "json \<Rightarrow> string list" where
  "raw_case_id x = (case x of JObj kvs \<Rightarrow> (case map_of kvs ''id'' of Some (JStr i) \<Rightarrow> if case_id i then [i] else [] | _ \<Rightarrow> []) | _ \<Rightarrow> [])"

definition switchNodePorts :: "block_data \<Rightarrow> string list" where
  "switchNodePorts d = (let ids = (case map_of d ''cases'' of Some (JArr raws) \<Rightarrow> concat (map raw_case_id (take 20 raws)) | _ \<Rightarrow> [])
     in rev (remdups (rev (map (\<lambda>i. ''case-'' @ i) ids))) @ [''default''])"

section \<open>Outputs\<close>

definition DATA_NODE_TYPES :: "string list" where
  "DATA_NODE_TYPES = [''data-set'', ''data-rename'', ''data-pick'', ''data-merge'', ''data-map'', ''data-filter'',
     ''json-parse'', ''json-stringify'', ''expression'']"

definition AI_TYPES :: "string list" where
  "AI_TYPES = [''ai-generate'', ''ai-classify'', ''ai-extract'', ''ai-summarize'', ''ai-agent'']"

definition CONVERSATION_TYPES :: "string list" where
  "CONVERSATION_TYPES = [''tag'', ''attribute'', ''note'', ''resolve'', ''media'', ''domain'']"

text \<open>\<open>number\<close> is JavaScript's \<open>Number\<close>, \<open>None\<close> where it gives no integer.\<close>

definition inputCapturePorts :: "(json option \<Rightarrow> int option) \<Rightarrow> flow_node \<Rightarrow> string list" where
  "inputCapturePorts number n = (let v = number (node_data n ''inputConfigVersion'')
     in [''next''] @ (if v \<in> {Some 2, Some 3} then [''exhausted''] else [])
        @ (if v \<in> {Some 1, Some 2, Some 3} \<and> node_data n ''timeoutSeconds'' \<noteq> None then [''timeout''] else []))"

definition menuAttemptPorts :: "(json option \<Rightarrow> int option) \<Rightarrow> flow_node \<Rightarrow> string list" where
  "menuAttemptPorts number n = map (\<lambda>m. ''option-'' @ mo_value m) (menuOptions n)
     @ (if number (node_data n ''menuConfigVersion'') \<in> {Some 1, Some 2} then [''exhausted''] else [])
     @ (if node_data n ''menuConfigVersion'' = Some (JNum 2) \<and> node_data n ''timeoutSeconds'' \<noteq> None then [''timeout''] else [])"

definition conversationEffectPorts :: "flow_node \<Rightarrow> string list" where
  "conversationEffectPorts n =
    (let c = node_data n ''conversationEffectVersion''; m = node_data n ''mediaEffectVersion''
     in if c = Some (JNum 2) \<and> (node_data n ''operation'' = Some (JStr ''resolve'') \<or> fn_type n = ''resolve'') then []
        else if c = Some (JNum 2) \<or> m = Some (JNum 2) then [''success'', ''error'', ''timeout'']
        else if c = Some (JNum 1) \<or> m = Some (JNum 1) then [''success'', ''error'', ''timeout'', ''unknown'']
        else [''success'', ''error''])"

definition automationNodePorts :: "(json option \<Rightarrow> int option) \<Rightarrow> flow_node \<Rightarrow> string list" where
  "automationNodePorts number n =
    (let t = fn_type n
     in if t = ''input'' then inputCapturePorts number n
        else if t = ''menu'' then menuAttemptPorts number n
        else if t = ''condition'' then [''yes'', ''no'']
        else if t = ''switch'' then switchNodePorts (fn_data n)
        else if t \<in> set DATA_NODE_TYPES then (if node_data n ''configVersion'' = Some (JNum 2) then [''success'', ''error''] else [''next''])
        else if t = ''http'' then [''success'', ''client_error'', ''server_error'', ''timeout'', ''unknown'']
        else if t \<in> {''sql'', ''code''} then [''success'', ''error'']
        else if t \<in> set AI_TYPES then (if node_data n ''aiConfigVersion'' = None then [''success'', ''error''] else [''success'', ''error'', ''timeout'', ''unknown''])
        else if t \<in> {''handoff'', ''end''} then []
        else if t = ''schedule'' then [''open'', ''closed'']
        else if t \<in> set CONVERSATION_TYPES then conversationEffectPorts n
        else [''next''])"

section \<open>Subflows\<close>

definition SUBFLOW_MAX_DEPTH :: nat where "SUBFLOW_MAX_DEPTH = 8"

definition publishedDependencyPolicy :: "flow_graph \<Rightarrow> js_error + bool" where
  "publishedDependencyPolicy g =
    (case Option.bind (find (\<lambda>n. fn_type n = ''start'') (fg_nodes g)) (\<lambda>n. node_data n ''dependencyPolicyVersion'') of
       None \<Rightarrow> Inr False
     | Some v \<Rightarrow> if v = JNum 1 then Inr True else automation_error ''DEPENDENCY_POLICY_INVALID'')"

end
