(* ===== verification/Automation_Engine.thy ===== *)
theory Automation_Engine
  imports Automation_Nodes
begin

text \<open>
  One turn of an automation, \<open>executeAutomation\<close> of apps/api/src/modules/automations/engine.ts: the
  answer a waiting block gets, and the loop over the blocks that follow. The loop of the code runs
  at most 500 times and is a recursion on the number of turns that are left. What the engine calls
  in other modules is a parameter of the environment: the published versions, the executor of data
  blocks, the schemas of effects and handoffs, the business hours, the parsers of captured answers,
  the identifiers drawn.
\<close>

section \<open>Input, output and environment\<close>

datatype run_event = MESSAGE | RESUME | TIMER

record run_input =
  ri_text :: string
  ri_event :: run_event
  ri_now :: int
  ri_payload :: block_data
  ri_media :: "json option"
  ri_wait :: "(string \<times> int option) option"
  ri_effect_id :: "(string \<Rightarrow> int \<Rightarrow> string \<Rightarrow> int \<Rightarrow> string) option"

record published =
  pb_automation :: string
  pb_version :: int
  pb_graph :: flow_graph
  pb_format :: "int option"

datatype effect_kind = SEND_TEXT | HANDOFF | IO_HTTP | IO_SQL | IO_CODE | IO_AI | IO_CONVERSATION | SEND_MEDIA

record run_effect =
  ef_node :: string
  ef_ordinal :: nat
  ef_kind :: effect_kind
  ef_payload :: block_data

text \<open>\<open>tr_live\<close> marks an output that refers to the variables of the run, whatever becomes of them.\<close>

record run_trace =
  tr_node :: string
  tr_type :: string
  tr_label :: string
  tr_input :: block_data
  tr_output :: block_data
  tr_live :: bool

record wait_result =
  wr_kind :: wait_kind
  wr_node :: string
  wr_wake :: "int option"
  wr_id :: "string option"
  wr_deadline :: "int option"

datatype run_status = WAITING | HANDED_OFF | RUN_COMPLETED

record run_result =
  rr_status :: run_status
  rr_state :: run_state
  rr_effects :: "run_effect list"
  rr_trace :: "run_trace list"
  rr_wait :: "wait_result option"

text \<open>
  \<open>ae_number\<close> is \<open>Number\<close>, \<open>ae_lower\<close> \<open>toLowerCase\<close>, \<open>ae_iso\<close> \<open>toISOString\<close>; \<open>ae_uuid n\<close> is the
  identifier drawn after \<open>n\<close> others in a turn. \<open>ae_data\<close> answers the output of a data block and the
  variables it leaves. A schema answers the parsed configuration.
\<close>

record engine_env =
  ae_number :: "json option \<Rightarrow> int option"
  ae_lower :: "string \<Rightarrow> string"
  ae_iso :: "int \<Rightarrow> string"
  ae_uuid :: "nat \<Rightarrow> string"
  ae_is_uuid :: "string \<Rightarrow> bool"
  ae_resolve :: "string \<Rightarrow> int option \<Rightarrow> js_error + published"
  ae_capture :: "string \<Rightarrow> string \<Rightarrow> json option"
  ae_media_capture :: "string \<Rightarrow> json option \<Rightarrow> json option"
  ae_handoff :: "block_data \<Rightarrow> block_data option"
  ae_effect :: "block_data \<Rightarrow> block_data option"
  ae_media_effect :: "block_data \<Rightarrow> block_data option"
  ae_data_schema :: "string \<Rightarrow> block_data \<Rightarrow> bool"
  ae_data :: "string \<Rightarrow> block_data \<Rightarrow> bool \<Rightarrow> run_vars \<Rightarrow> js_error + (block_data \<times> run_vars)"
  ae_open :: "block_data \<Rightarrow> int \<Rightarrow> js_error + bool"

text \<open>What the loop changes. The variables are those of the state.\<close>

record run_loop =
  lp_state :: run_state
  lp_pub :: published
  lp_effects :: "run_effect list"
  lp_trace :: "run_trace list"
  lp_drawn :: nat

definition zod_error :: "js_error + 'a" where
  "zod_error = Inl (PlainError ''ZodError'')"

definition or_error :: "'a option \<Rightarrow> js_error + 'a" where
  "or_error x = (case x of None \<Rightarrow> zod_error | Some a \<Rightarrow> Inr a)"

definition run_bind :: "js_error + 'a \<Rightarrow> ('a \<Rightarrow> js_error + 'b) \<Rightarrow> js_error + 'b" where
  "run_bind m f = (case m of Inl e \<Rightarrow> Inl e | Inr a \<Rightarrow> f a)"

lemma run_bind_eq_Inr [simp]: "run_bind m f = Inr b \<longleftrightarrow> (\<exists>a. m = Inr a \<and> f a = Inr b)"
  by (cases m) (auto simp: run_bind_def)

definition loop_vars :: "run_loop \<Rightarrow> run_vars" where
  "loop_vars l = rs_vars (lp_state l)"

definition put_vars :: "run_vars \<Rightarrow> run_loop \<Rightarrow> run_loop" where
  "put_vars vs l = l\<lparr>lp_state := (lp_state l)\<lparr>rs_vars := vs\<rparr>\<rparr>"

definition put_var :: "string \<Rightarrow> json \<Rightarrow> run_loop \<Rightarrow> run_loop" where
  "put_var k v l = put_vars (set_var k v (loop_vars l)) l"

definition push_effect :: "string \<Rightarrow> effect_kind \<Rightarrow> block_data \<Rightarrow> run_loop \<Rightarrow> run_loop" where
  "push_effect n k p l = l\<lparr>lp_effects := lp_effects l @ [\<lparr>ef_node = n, ef_ordinal = length (lp_effects l), ef_kind = k, ef_payload = p\<rparr>]\<rparr>"

definition say_text :: "string \<Rightarrow> string \<Rightarrow> run_loop \<Rightarrow> run_loop" where
  "say_text n t = push_effect n SEND_TEXT [(''text'', JStr t)]"

definition push_trace :: "flow_node \<Rightarrow> block_data \<Rightarrow> block_data \<Rightarrow> run_loop \<Rightarrow> run_loop" where
  "push_trace n i out l = l\<lparr>lp_trace := lp_trace l @ [\<lparr>tr_node = fn_id n, tr_type = fn_type n, tr_label = fn_label n,
     tr_input = i, tr_output = out, tr_live = False\<rparr>]\<rparr>"

definition draw :: "engine_env \<Rightarrow> run_loop \<Rightarrow> string \<times> run_loop" where
  "draw env l = (ae_uuid env (lp_drawn l), l\<lparr>lp_drawn := Suc (lp_drawn l)\<rparr>)"

definition run_next :: "flow_graph \<Rightarrow> string \<Rightarrow> string \<Rightarrow> string option" where
  "run_next g x port = map_option fe_target (find (\<lambda>e. fe_source e = x \<and> fe_port e = port) (fg_edges g))"

definition getPublished :: "engine_env \<Rightarrow> published \<Rightarrow> string \<Rightarrow> int option \<Rightarrow> js_error + published" where
  "getPublished env root a v = (if a = pb_automation root \<and> v = Some (pb_version root) then Inr root else ae_resolve env a v)"

section \<open>Results\<close>

definition show_trace :: "run_vars \<Rightarrow> run_trace \<Rightarrow> run_trace" where
  "show_trace vs t = (if tr_live t then t\<lparr>tr_output := tr_output t @ [(''variables'', JObj vs)]\<rparr> else t)"

definition finish :: "run_status \<Rightarrow> run_loop \<Rightarrow> wait_result option \<Rightarrow> js_error + run_result" where
  "finish st l w = (case assertRuntimeState (lp_state l) of Some e \<Rightarrow> Inl e
     | None \<Rightarrow> Inr \<lparr>rr_status = st, rr_state = lp_state l, rr_effects = lp_effects l,
         rr_trace = map (show_trace (loop_vars l)) (lp_trace l), rr_wait = w\<rparr>)"

definition wait_for :: "wait_kind \<Rightarrow> string \<Rightarrow> wait_result" where
  "wait_for k n = \<lparr>wr_kind = k, wr_node = n, wr_wake = None, wr_id = None, wr_deadline = None\<rparr>"

definition pending_wait :: "run_loop \<Rightarrow> string \<Rightarrow> wait_state \<Rightarrow> wait_result" where
  "pending_wait l n saved = (wait_for EVENT n)\<lparr>wr_id := Option.bind (rs_waiting (lp_state l)) ws_id, wr_deadline := ws_deadline saved\<rparr>"

definition set_waiting :: "wait_state option \<Rightarrow> run_loop \<Rightarrow> run_loop" where
  "set_waiting w l = l\<lparr>lp_state := (lp_state l)\<lparr>rs_waiting := w\<rparr>\<rparr>"

section \<open>The answer to a waiting block\<close>

text \<open>
  \<open>Paused\<close> answers that the run still waits, \<open>Ended\<close> that it is complete, \<open>Resumed\<close> goes on at the
  next block, if there is one.
\<close>

datatype resumed = Paused run_loop wait_result | Ended run_loop | Resumed run_loop "string option"

definition resume_delay :: "run_input \<Rightarrow> run_loop \<Rightarrow> flow_node \<Rightarrow> wait_state \<Rightarrow> js_error + resumed" where
  "resume_delay i l n w =
    (if (case ws_wake w of None \<Rightarrow> False | Some t \<Rightarrow> \<not> date_valid t) then automation_error ''DELAY_STATE_INVALID''
     else if ri_event i \<noteq> TIMER \<or> (case ws_wake w of None \<Rightarrow> False | Some t \<Rightarrow> ri_now i < t)
     then Inr (Paused l ((wait_for DELAY (fn_id n))\<lparr>wr_wake := ws_wake w\<rparr>))
     else Inr (Resumed l (run_next (pb_graph (lp_pub l)) (fn_id n) ''next'')))"

definition has_effect2 :: "flow_node \<Rightarrow> bool" where
  "has_effect2 n \<longleftrightarrow> node_data n ''conversationEffectVersion'' = Some (JNum 2) \<or> node_data n ''mediaEffectVersion'' = Some (JNum 2)"

definition resume_answer :: "engine_env \<Rightarrow> int \<Rightarrow> run_input \<Rightarrow> run_loop \<Rightarrow> flow_node \<Rightarrow> js_error + resumed" where
  "resume_answer env format i l n =
    (if ri_event i \<noteq> RESUME then Inr (Paused l (wait_for IO (fn_id n)))
     else let target = flow_value (node_data n ''target''); output = map_of (ri_payload i) ''output'';
              outcome = (let o' = flow_value (map_of (ri_payload i) ''outcome'') in if o' = '''' then ''unknown'' else o');
              allowed = automationNodePorts (ae_number env) n;
              port = (if outcome \<in> set allowed then outcome else if allowed = [] then ''next'' else last allowed)
       in run_bind (if \<not> safeKey target then Inr l
            else if format = 1
            then run_bind (runtimeJson (Some (case output of None \<Rightarrow> JNull | Some x \<Rightarrow> x))) (\<lambda>x.
                 run_bind (runtimeJson (Some (JStr (runtimeText (Some x))))) (\<lambda>t. Inr (put_var target t l)))
            else run_bind (runtimeJson output) (\<lambda>x. Inr (put_var target x l)))
          (\<lambda>l'. Inr (Resumed l' (run_next (pb_graph (lp_pub l)) (fn_id n) port))))"

definition resume_io :: "engine_env \<Rightarrow> int \<Rightarrow> run_input \<Rightarrow> run_loop \<Rightarrow> flow_node \<Rightarrow> wait_state \<Rightarrow> js_error + resumed" where
  "resume_io env format i l n w =
    (if has_effect2 n then
       (case ws_id w of
          None \<Rightarrow> automation_error ''EFFECT_WAIT_INVALID''
        | Some wid \<Rightarrow>
           (let pending = Paused l ((wait_for IO (fn_id n))\<lparr>wr_id := Some wid\<rparr>); outcome = map_of (ri_payload i) ''outcome''
            in if wid = '''' then automation_error ''EFFECT_WAIT_INVALID''
               else if ri_event i \<noteq> RESUME \<or> map_of (ri_payload i) ''waitId'' \<noteq> Some (JStr wid) then Inr pending
               else if (case outcome of None \<Rightarrow> True | Some x \<Rightarrow> js_string x \<notin> {''success'', ''error'', ''timeout''})
               then Inr (Paused (push_trace n [] [(''outcome'', JStr ''unknown''), (''pending'', JBool True)] l)
                      ((wait_for IO (fn_id n))\<lparr>wr_id := Some wid\<rparr>))
               else if fn_type n = ''resolve'' then
                 (if outcome \<noteq> Some (JStr ''success'') then automation_error ''CONVERSATION_RESOLVE_FAILED''
                  else Inr (Ended (l\<lparr>lp_state := (lp_state l)\<lparr>rs_node := None, rs_stack := [], rs_waiting := None\<rparr>\<rparr>)))
               else resume_answer env format i l n))
     else resume_answer env format i l n)"

text \<open>The instant the server admitted the answer to a wait, if the input carries one for it.\<close>

definition admitted_at :: "run_input \<Rightarrow> int option" where
  "admitted_at i = Option.bind (ri_wait i) snd"

definition attempt_trace :: "int \<Rightarrow> int \<Rightarrow> block_data" where
  "attempt_trace used most = [(''invalidAttempts'', JNum used), (''maxAttempts'', JNum most),
     (''port'', JStr (if used = most then ''exhausted'' else ''retry''))]"

definition capture_again :: string where
  "capture_again = ''Resposta inv'' @ [CHR 0xE1] @ ''lida. Confira o formato e tente novamente.''"

definition resume_capture :: "engine_env \<Rightarrow> int \<Rightarrow> run_input \<Rightarrow> run_loop \<Rightarrow> flow_node \<Rightarrow> wait_state \<Rightarrow> js_error + resumed" where
  "resume_capture env format i l n saved =
    run_bind (or_error (InputCaptureConfigSchema (fn_data n))) (\<lambda>c.
    let next = run_next (pb_graph (lp_pub l)) (fn_id n); pending = Inr (Paused l (pending_wait l (fn_id n) saved));
        go = (\<lambda>l' x. if cc_version c \<noteq> 1 \<and> x = None then automation_error ''INPUT_CONNECTION_MISSING'' else Inr (Resumed l' x))
    in if cc_version c = 3 \<and> \<not> ws_input3 saved then automation_error ''INPUT_WAIT_INVALID''
       else if ws_id saved = None \<or> ws_id saved = Some '''' then automation_error ''INPUT_WAIT_INVALID''
       else if cc_version c \<noteq> 1 \<and> (case ws_invalid saved of None \<Rightarrow> True | Some k \<Rightarrow> k < 0 \<or> cc_max c \<le> k)
       then automation_error ''INPUT_WAIT_INVALID''
       else if map_option fst (ri_wait i) \<noteq> ws_id saved then pending
       else if ri_event i = TIMER then
         (case ws_deadline saved of None \<Rightarrow> pending
          | Some d \<Rightarrow> if ri_now i < d then pending else go l (next ''timeout''))
       else (case (ri_event i, admitted_at i) of
          (MESSAGE, Some at) \<Rightarrow>
            (if (case ws_deadline saved of None \<Rightarrow> False | Some d \<Rightarrow> d < at) then go l (next ''timeout'')
             else if cc_version c = 1 then
               run_bind (runtimeJson (Some (JStr (ri_text i)))) (\<lambda>t. go (put_var (flow_value (node_data n ''variable'')) t l) (next ''next''))
             else if format \<noteq> 2 then automation_error ''INPUT_RUNTIME_VERSION_MISMATCH''
             else (case (if cc_version c = 3 then ae_media_capture env (cc_type c) (ri_media i) else ae_capture env (cc_type c) (ri_text i)) of
                 Some v \<Rightarrow> run_bind (runtimeJson (Some v)) (\<lambda>x.
                   go (push_trace n [] [(''valid'', JBool True), (''inputType'', JStr (cc_type c)), (''port'', JStr ''next'')] (put_var (cc_variable c) x l))
                      (next ''next''))
               | None \<Rightarrow>
                   (let used = (case ws_invalid saved of None \<Rightarrow> 1 | Some k \<Rightarrow> k + 1);
                        l1 = push_trace n [] ([(''valid'', JBool False), (''inputType'', JStr (cc_type c))] @ attempt_trace used (cc_max c)) l
                    in if used = cc_max c then
                         (if next ''exhausted'' = None then automation_error ''INPUT_EXHAUSTED_CONNECTION_MISSING'' else go l1 (next ''exhausted''))
                       else (case draw env l1 of (wid, l2) \<Rightarrow>
                         let l3 = say_text (fn_id n) (case cc_error c of None \<Rightarrow> capture_again | Some e \<Rightarrow> e)
                               (set_waiting (Some (saved\<lparr>ws_id := Some wid, ws_invalid := Some used\<rparr>)) l2)
                         in Inr (Paused l3 (pending_wait l3 (fn_id n) saved))))))
        | _ \<Rightarrow> pending))"

definition lines_of :: "string list \<Rightarrow> string" where
  "lines_of ls = join_with [CHR 0x0A] (filter (\<lambda>l. l \<noteq> '''') ls)"

definition choose_option :: "run_loop \<Rightarrow> flow_node \<Rightarrow> string \<Rightarrow> menu_option \<Rightarrow> run_loop \<times> string option" where
  "choose_option l n selected m =
    (let v = flow_value (node_data n ''variable''); key = (if v = '''' then ''menu.choice'' else v)
     in (if safeKey key then put_var key (JStr selected) l else l, run_next (pb_graph (lp_pub l)) (fn_id n) (''option-'' @ mo_value m)))"

definition selected_option :: "run_input \<Rightarrow> flow_node \<Rightarrow> menu_option option" where
  "selected_option i n = find (\<lambda>m. mo_value m = js_trim (ri_text i)) (menuOptions n)"

definition resume_menu2 :: "engine_env \<Rightarrow> run_input \<Rightarrow> run_loop \<Rightarrow> flow_node \<Rightarrow> wait_state \<Rightarrow> js_error + resumed" where
  "resume_menu2 env i l n saved =
    run_bind (or_error (MenuAttemptConfigSchema (fn_data n))) (\<lambda>c.
    let next = run_next (pb_graph (lp_pub l)) (fn_id n); pending = Inr (Paused l (pending_wait l (fn_id n) saved));
        go = (\<lambda>l' x. if x = None then automation_error ''MENU_CONNECTION_MISSING'' else Inr (Resumed l' x))
    in if mc_version c \<noteq> 2 \<or> ws_id saved = None \<or> ws_id saved = Some ''''
          \<or> (case ws_invalid saved of None \<Rightarrow> True | Some k \<Rightarrow> k < 0 \<or> mc_max c \<le> k)
          \<or> (mc_timeout c \<noteq> None) \<noteq> (ws_deadline saved \<noteq> None) then automation_error ''MENU_WAIT_INVALID''
       else if map_option fst (ri_wait i) \<noteq> ws_id saved then pending
       else if ri_event i = TIMER then
         (case ws_deadline saved of None \<Rightarrow> pending | Some d \<Rightarrow> if ri_now i < d then pending else go l (next ''timeout''))
       else (case (ri_event i, admitted_at i) of
          (MESSAGE, Some at) \<Rightarrow>
            (if (case ws_deadline saved of None \<Rightarrow> False | Some d \<Rightarrow> d < at) then go l (next ''timeout'')
             else (case selected_option i n of
                 Some m \<Rightarrow> (case choose_option l n (js_trim (ri_text i)) m of (l', x) \<Rightarrow> go l' x)
               | None \<Rightarrow>
                   (let used = (case ws_invalid saved of None \<Rightarrow> 1 | Some k \<Rightarrow> k + 1); l1 = push_trace n [] (attempt_trace used (mc_max c)) l
                    in if used = mc_max c then go l1 (next ''exhausted'')
                       else (case draw env l1 of (wid, l2) \<Rightarrow>
                         run_bind (renderRuntimeText (node_data n ''text'') (loop_vars l)) (\<lambda>prompt.
                         run_bind (renderRuntimeText (Some (JStr (mc_error c))) (loop_vars l)) (\<lambda>err.
                         let l3 = say_text (fn_id n) (lines_of [err, prompt, option_lines n])
                               (set_waiting (Some (saved\<lparr>ws_id := Some wid, ws_invalid := Some used\<rparr>)) l2)
                         in Inr (Paused l3 (pending_wait l3 (fn_id n) saved))))))))
        | _ \<Rightarrow> pending))"

definition resume_menu1 :: "run_input \<Rightarrow> run_loop \<Rightarrow> flow_node \<Rightarrow> wait_state \<Rightarrow> js_error + resumed" where
  "resume_menu1 i l n saved =
    run_bind (or_error (MenuAttemptConfigSchema (fn_data n))) (\<lambda>c.
    case ws_invalid saved of
      None \<Rightarrow> automation_error ''MENU_WAIT_INVALID''
    | Some k \<Rightarrow>
       if k < 0 \<or> mc_max c \<le> k then automation_error ''MENU_WAIT_INVALID''
       else if ri_event i \<noteq> MESSAGE then Inr (Paused l (wait_for EVENT (fn_id n)))
       else (case selected_option i n of
           Some m \<Rightarrow> (case choose_option l n (js_trim (ri_text i)) m of (l', x) \<Rightarrow> Inr (Resumed l' x))
         | None \<Rightarrow>
            (let l1 = push_trace n [] (attempt_trace (k + 1) (mc_max c)) l
             in if k + 1 = mc_max c then
                  (case run_next (pb_graph (lp_pub l)) (fn_id n) ''exhausted'' of
                     None \<Rightarrow> automation_error ''MENU_EXHAUSTED_CONNECTION_MISSING'' | Some x \<Rightarrow> Inr (Resumed l1 (Some x)))
                else run_bind (renderRuntimeText (node_data n ''text'') (loop_vars l)) (\<lambda>prompt.
                  Inr (Paused (say_text (fn_id n) (lines_of [prompt, option_lines n, ask_again])
                    (set_waiting (Some (saved\<lparr>ws_invalid := Some (k + 1)\<rparr>)) l1)) (wait_for EVENT (fn_id n)))))))"

definition resume_plain :: "run_input \<Rightarrow> run_loop \<Rightarrow> flow_node \<Rightarrow> js_error + resumed" where
  "resume_plain i l n =
    (if ri_event i = TIMER then automation_error ''EVENT_WAIT_REQUIRES_EVENT''
     else if fn_type n = ''input'' then
       (let key = flow_value (node_data n ''variable'') in
        run_bind (if safeKey key then run_bind (runtimeJson (Some (JStr (ri_text i)))) (\<lambda>t. Inr (put_var key t l)) else Inr l)
          (\<lambda>l'. Inr (Resumed l' (run_next (pb_graph (lp_pub l)) (fn_id n) ''next''))))
     else if fn_type n = ''menu'' then
       (case selected_option i n of
          None \<Rightarrow> run_bind (renderRuntimeText (node_data n ''text'') (loop_vars l)) (\<lambda>prompt.
            Inr (Paused (say_text (fn_id n) (lines_of [prompt, option_lines n, ask_again]) l) (wait_for EVENT (fn_id n))))
        | Some m \<Rightarrow> (case choose_option l n (js_trim (ri_text i)) m of (l', x) \<Rightarrow> Inr (Resumed l' x)))
     else automation_error ''EVENT_WAIT_INVALID'')"

definition resume :: "engine_env \<Rightarrow> int \<Rightarrow> run_input \<Rightarrow> run_loop \<Rightarrow> wait_state \<Rightarrow> js_error + resumed" where
  "resume env format i l w =
    (case find_node (pb_graph (lp_pub l)) (ws_node w) of
       None \<Rightarrow> automation_error ''WAIT_NODE_MISSING''
     | Some n \<Rightarrow>
        if ri_media i \<noteq> None \<and> (fn_type n \<noteq> ''input'' \<or> node_data n ''inputConfigVersion'' \<noteq> Some (JNum 3))
        then automation_error ''INPUT_MEDIA_VERSION_MISMATCH''
        else if ws_kind w = DELAY then resume_delay i l n w
        else if ws_kind w = IO then resume_io env format i l n w
        else if fn_type n = ''input'' \<and> node_data n ''inputConfigVersion'' \<noteq> None then resume_capture env format i l n w
        else if fn_type n = ''menu'' \<and> node_data n ''menuConfigVersion'' = Some (JNum 2) then resume_menu2 env i l n w
        else if fn_type n = ''menu'' \<and> node_data n ''menuConfigVersion'' \<noteq> None then resume_menu1 i l n w
        else resume_plain i l n)"

end
