(* ===== verification/Automation_Run.thy ===== *)
theory Automation_Run
  imports Automation_Engine
begin

text \<open>
  The loop of \<open>executeAutomation\<close>: what each block does in a turn, the subflows it enters and leaves,
  and the call as a whole.
\<close>

section \<open>Schemas of subflows\<close>

text \<open>A schema constrains what it names; properties an object inherits do not count as its own.\<close>

fun schemaMatches :: "json option \<Rightarrow> json option \<Rightarrow> bool" where
  "schemaMatches (Some (JObj kvs)) v =
    (let t = map_of kvs ''type''
     in if t = Some (JStr ''object'') then
          (case v of
             Some (JObj vs) \<Rightarrow>
               (case map_of kvs ''required'' of
                  Some (JArr rs) \<Rightarrow> (\<forall>r \<in> set rs. case r of JStr k \<Rightarrow> map_of vs k \<noteq> None | _ \<Rightarrow> True) | _ \<Rightarrow> True)
               \<and> (\<forall>kv \<in> set kvs. fst kv = ''properties'' \<longrightarrow> (case snd kv of
                    JObj ps \<Rightarrow> (\<forall>p \<in> set ps. map_of vs (fst p) \<noteq> None \<longrightarrow> schemaMatches (Some (snd p)) (map_of vs (fst p))) | _ \<Rightarrow> True))
           | _ \<Rightarrow> False)
        else if t = Some (JStr ''array'') then
          (case v of
             Some (JArr xs) \<Rightarrow> (\<forall>kv \<in> set kvs. fst kv = ''items'' \<longrightarrow> (\<forall>x \<in> set xs. schemaMatches (Some (snd kv)) (Some x)))
           | _ \<Rightarrow> False)
        else if t = Some (JStr ''string'') then (case v of Some (JStr _) \<Rightarrow> True | _ \<Rightarrow> False)
        else if t = Some (JStr ''number'') \<or> t = Some (JStr ''integer'') then (case v of Some (JNum _) \<Rightarrow> True | _ \<Rightarrow> False)
        else if t = Some (JStr ''boolean'') then (case v of Some (JBool _) \<Rightarrow> True | _ \<Rightarrow> False)
        else if t = Some (JStr ''null'') then v = Some JNull
        else True)"
| "schemaMatches _ v = True"

section \<open>A turn\<close>

datatype turned = Finished run_result | Turned run_loop "string option"

definition finish_turn :: "js_error + run_result \<Rightarrow> js_error + turned" where
  "finish_turn r = run_bind r (\<lambda>x. Inr (Finished x))"

definition output_last :: "block_data \<Rightarrow> run_loop \<Rightarrow> run_loop" where
  "output_last out l = l\<lparr>lp_trace := butlast (lp_trace l) @ [(last (lp_trace l))\<lparr>tr_output := out\<rparr>]\<rparr>"

definition set_node :: "string option \<Rightarrow> run_loop \<Rightarrow> run_loop" where
  "set_node x l = l\<lparr>lp_state := (lp_state l)\<lparr>rs_node := x\<rparr>\<rparr>"

text \<open>The end of an automation: the subflow it was called from, or the end of the run.\<close>

definition leave_block :: "engine_env \<Rightarrow> published \<Rightarrow> run_loop \<Rightarrow> js_error + turned" where
  "leave_block env root l =
    (if rs_stack (lp_state l) = [] then finish_turn (finish RUN_COMPLETED (set_node None l) None)
     else let f = last (rs_stack (lp_state l)); l1 = l\<lparr>lp_state := (lp_state l)\<lparr>rs_stack := butlast (rs_stack (lp_state l))\<rparr>\<rparr>
       in if fr_schema f \<noteq> None \<and> \<not> schemaMatches (fr_schema f) (Some (JObj (loop_vars l)))
          then automation_error ''SUBFLOW_OUTPUT_SCHEMA_INVALID''
          else let l2 = (case fr_child f of None \<Rightarrow> l1
               | Some c \<Rightarrow> l1\<lparr>lp_trace := lp_trace l1 @ [\<lparr>tr_node = cr_node c, tr_type = ''subflow-result'', tr_label = ''Subflow conclu'' @ [CHR 0xED] @ ''do'',
                   tr_input = cr_input c, tr_output = [(''automationId'', JStr (cr_automation c)), (''version'', JNum (cr_version c)),
                     (''correlationId'', JStr (cr_correlation c))], tr_live = True\<rparr>]\<rparr>)
            in run_bind (getPublished env root (fr_automation f) (Some (fr_version f))) (\<lambda>p.
               Inr (Turned (l2\<lparr>lp_pub := p, lp_state := (lp_state l2)\<lparr>rs_automation := fr_automation f, rs_version := fr_version f\<rparr>\<rparr>)
                 (Some (fr_return f)))))"

definition native_handoff :: "flow_node \<Rightarrow> bool" where
  "native_handoff n \<longleftrightarrow> list_ex (\<lambda>k. node_data n k \<noteq> None) [''handoffVersion'', ''destination'', ''target'']"

definition field_of :: "string \<Rightarrow> block_data \<Rightarrow> block_data" where
  "field_of k d = opt_field k id (map_of d k)"

definition handoff_block :: "engine_env \<Rightarrow> run_loop \<Rightarrow> flow_node \<Rightarrow> js_error + turned" where
  "handoff_block env l n =
    (case (if native_handoff n then map_option Some (ae_handoff env (fn_data n)) else Some None) of
       None \<Rightarrow> automation_error ''HANDOFF_CONFIG_INVALID''
     | Some parsed \<Rightarrow>
        (let out = (case parsed of Some d \<Rightarrow> (''status'', JStr ''HANDOFF_PENDING'') # field_of ''destination'' d @ field_of ''target'' d
               | None \<Rightarrow> [(''status'', JStr ''ACTION_REQUIRED''), (''reason'', JStr ''HANDOFF_DESTINATION_REQUIRED'')]);
             l1 = push_effect (fn_id n) HANDOFF (case parsed of Some d \<Rightarrow> d | None \<Rightarrow> []) (output_last out l)
         in finish_turn (finish HANDED_OFF (set_node None l1) None)))"

definition deadline_after :: "run_input \<Rightarrow> int option \<Rightarrow> int option" where
  "deadline_after i t = map_option (\<lambda>s. ri_now i + s * 1000) t"

definition start_wait :: "run_loop \<Rightarrow> wait_state \<Rightarrow> wait_result \<Rightarrow> js_error + turned" where
  "start_wait l w r = finish_turn (finish WAITING (set_waiting (Some w) (set_node (Some (ws_node w)) l)) (Some r))"

definition plain_wait :: "wait_kind \<Rightarrow> string \<Rightarrow> wait_state" where
  "plain_wait k n = \<lparr>ws_kind = k, ws_node = n, ws_wake = None, ws_id = None, ws_deadline = None, ws_invalid = None, ws_input3 = False\<rparr>"

definition ask_block :: "engine_env \<Rightarrow> int \<Rightarrow> run_input \<Rightarrow> run_loop \<Rightarrow> flow_node \<Rightarrow> js_error + turned" where
  "ask_block env format i l n =
    run_bind (renderRuntimeText (node_data n ''text'') (loop_vars l)) (\<lambda>prompt.
    let t = (if fn_type n = ''menu'' then lines_of [prompt, option_lines n] else prompt);
        l1 = (if js_trim t = '''' then l else say_text (fn_id n) t l); x = fn_id n
    in if fn_type n = ''input'' \<and> node_data n ''inputConfigVersion'' \<noteq> None then
         run_bind (or_error (InputCaptureConfigSchema (fn_data n))) (\<lambda>c.
         (case draw env l1 of (wid, l2) \<Rightarrow>
           let d = deadline_after i (cc_timeout c)
           in if cc_version c \<noteq> 1 \<and> format \<noteq> 2 then automation_error ''INPUT_RUNTIME_VERSION_MISMATCH''
              else start_wait l2 ((plain_wait EVENT x)\<lparr>ws_id := Some wid, ws_input3 := (cc_version c = 3),
                  ws_invalid := (if cc_version c \<noteq> 1 then Some 0 else None), ws_deadline := d\<rparr>)
                ((wait_for EVENT x)\<lparr>wr_id := Some wid, wr_deadline := d\<rparr>)))
       else if fn_type n = ''menu'' \<and> node_data n ''menuConfigVersion'' \<noteq> None then
         run_bind (or_error (MenuAttemptConfigSchema (fn_data n))) (\<lambda>c.
         if mc_version c = 2 then
           (case draw env l1 of (wid, l2) \<Rightarrow>
             let d = deadline_after i (mc_timeout c)
             in start_wait l2 ((plain_wait EVENT x)\<lparr>ws_id := Some wid, ws_invalid := Some 0, ws_deadline := d\<rparr>)
                  ((wait_for EVENT x)\<lparr>wr_id := Some wid, wr_deadline := d\<rparr>))
         else start_wait l1 ((plain_wait EVENT x)\<lparr>ws_invalid := Some 0\<rparr>) (wait_for EVENT x))
       else start_wait l1 (plain_wait EVENT x) (wait_for EVENT x))"

text \<open>A delay whose seconds are no number has no instant to wake at; the validator refuses it.\<close>

definition delay_block :: "engine_env \<Rightarrow> int \<Rightarrow> run_input \<Rightarrow> run_loop \<Rightarrow> flow_node \<Rightarrow> js_error + turned" where
  "delay_block env format i l n =
    (case ae_number env (node_data n ''seconds'') of
       None \<Rightarrow> Inl (PlainError ''Invalid Date'')
     | Some s \<Rightarrow> (let wake = ri_now i + s * 1000
         in start_wait l ((plain_wait DELAY (fn_id n))\<lparr>ws_wake := (if format = 2 then Some wake else None)\<rparr>)
              ((wait_for DELAY (fn_id n))\<lparr>wr_wake := Some wake\<rparr>)))"

fun child_inputs :: "int \<Rightarrow> run_vars \<Rightarrow> block_data \<Rightarrow> js_error + run_vars" where
  "child_inputs format vars [] = Inr []"
| "child_inputs format vars (kv # kvs) =
    run_bind (if format = 2 then renderRuntimeValue (Some (snd kv)) vars
              else run_bind (renderRuntimeText (Some (snd kv)) vars) (\<lambda>t. Inr (JStr t))) (\<lambda>v.
    run_bind (child_inputs format vars kvs) (\<lambda>rest. Inr ((fst kv, v) # rest)))"

fun assign_safe :: "run_vars \<Rightarrow> run_vars \<Rightarrow> js_error + run_vars" where
  "assign_safe [] vars = Inr vars"
| "assign_safe (kv # kvs) vars =
    (if safeKey (fst kv) then run_bind (runtimeJson (Some (snd kv))) (\<lambda>x. assign_safe kvs (set_var (fst kv) x vars))
     else assign_safe kvs vars)"

definition subflow_block :: "engine_env \<Rightarrow> published \<Rightarrow> bool \<Rightarrow> int \<Rightarrow> run_input \<Rightarrow> run_loop \<Rightarrow> flow_node \<Rightarrow> js_error + turned" where
  "subflow_block env root policy format i l n =
    (let s = lp_state l; a = flow_value (node_data n ''automationId''); v = ae_number env (node_data n ''version'')
     in if policy \<and> SUBFLOW_MAX_DEPTH \<le> length (rs_stack s) then automation_error ''SUBFLOW_DEPTH_LIMIT''
        else case run_next (pb_graph (lp_pub l)) (fn_id n) ''next'' of
          None \<Rightarrow> automation_error ''SUBFLOW_RETURN_MISSING''
        | Some back \<Rightarrow>
           if list_ex (\<lambda>f. fr_automation f = a) (rs_stack s) \<or> a = pb_automation (lp_pub l) then automation_error ''SUBFLOW_RECURSION''
           else run_bind (getPublished env root a v) (\<lambda>child.
             run_bind (runtimeStateVersion None (pb_format child)) (\<lambda>cv.
             if cv \<noteq> format then automation_error ''SUBFLOW_RUNTIME_VERSION_MISMATCH''
             else run_bind (child_inputs format (rs_vars s) (case node_data n ''input'' of Some (JObj kvs) \<Rightarrow> kvs | _ \<Rightarrow> [])) (\<lambda>given.
               if \<not> schemaMatches (node_data n ''inputSchema'') (Some (JObj given)) then automation_error ''SUBFLOW_INPUT_SCHEMA_INVALID''
               else run_bind (assign_safe given (rs_vars s)) (\<lambda>vars.
                 case (v, find (\<lambda>m. fn_type m = ''start'') (fg_nodes (pb_graph child))) of
                   (Some version, Some st) \<Rightarrow>
                     (case draw env l of (correlation, l1) \<Rightarrow>
                       let deadline = map_option (\<lambda>t. ri_now i + t)
                             (case node_data n ''timeoutMs'' of None \<Rightarrow> Some 10000 | Some JNull \<Rightarrow> Some 10000 | x \<Rightarrow> ae_number env x);
                           frame = \<lparr>fr_automation = pb_automation (lp_pub l), fr_version = pb_version (lp_pub l), fr_return = back, fr_deadline = deadline,
                             fr_schema = (case node_data n ''outputSchema'' of Some (JObj k) \<Rightarrow> Some (JObj k) | Some (JArr k) \<Rightarrow> Some (JArr k) | _ \<Rightarrow> None),
                             fr_child = Some \<lparr>cr_node = fn_id n, cr_automation = a, cr_version = version, cr_correlation = correlation, cr_input = given\<rparr>\<rparr>;
                           out = [(''automationId'', JStr a), (''version'', JNum version), (''correlationId'', JStr correlation),
                             (''input'', JObj given), (''status'', JStr ''STARTED'')]
                       in Inr (Turned ((output_last out l1)\<lparr>lp_pub := child,
                            lp_state := s\<lparr>rs_vars := vars, rs_stack := rs_stack s @ [frame], rs_automation := a, rs_version := version\<rparr>\<rparr>)
                            (Some (fn_id st))))
                 | _ \<Rightarrow> Inl (PlainError ''TypeError''))))))"

text \<open>The failures of a data block that a run survives.\<close>

definition caught_prefixes :: "string list" where
  "caught_prefixes = [''AUTOMATION_DATA_'', ''AUTOMATION_JSON_'', ''AUTOMATION_EXPRESSION_'', ''AUTOMATION_STATE_VALUE_'']"

definition caught :: "js_error \<Rightarrow> string option" where
  "caught e = (case e of
     PlainError c \<Rightarrow> if c \<noteq> ''AUTOMATION_DATA_RUNTIME_VERSION_MISMATCH''
         \<and> list_ex (\<lambda>p. take (length p) c = p \<and> length p < length c
             \<and> list_all (\<lambda>d. upper_char d \<or> d = CHR ''_'') (drop (length p) c)) caught_prefixes
       then Some c else None
   | _ \<Rightarrow> None)"

definition data_block2 :: "engine_env \<Rightarrow> int \<Rightarrow> run_loop \<Rightarrow> flow_node \<Rightarrow> js_error + turned" where
  "data_block2 env format l n =
    (if \<not> ae_data_schema env (fn_type n) (fn_data n) then automation_error ''DATA_CONFIG_INVALID''
     else let next = run_next (pb_graph (lp_pub l)) (fn_id n);
              go = (\<lambda>l' x. if x = None then automation_error ''DATA_RETURN_MISSING'' else Inr (Turned l' x))
       in case ae_data env (fn_type n) (fn_data n) (format = 2) (loop_vars l) of
            Inr (out, vars) \<Rightarrow> go (output_last out (put_vars vars l)) (next ''success'')
          | Inl e \<Rightarrow> (case caught e of None \<Rightarrow> Inl e
              | Some code \<Rightarrow> run_bind (runtimeJson (Some (JObj [(''code'', JStr code)]))) (\<lambda>x.
                  go (output_last [(''outcome'', JStr ''ERROR''), (''code'', JStr code)] (put_var (flow_value (node_data n ''errorVariable'')) x l))
                     (next ''error''))))"

definition block_payload :: "block_data \<Rightarrow> flow_node \<Rightarrow> int \<Rightarrow> run_loop \<Rightarrow> block_data" where
  "block_payload d n format l = set_var ''variables'' (JObj (loop_vars l))
     (set_var ''runtimeStateVersion'' (JNum format) (set_var ''nodeType'' (JStr (fn_type n)) d))"

definition queue_io :: "effect_kind \<Rightarrow> string \<Rightarrow> block_data \<Rightarrow> string option \<Rightarrow> run_loop \<Rightarrow> flow_node \<Rightarrow> js_error + turned" where
  "queue_io k name payload wid l n =
    start_wait (push_effect (fn_id n) k payload (output_last ([(''queued'', JBool True), (''kind'', JStr name)] @ opt_field ''waitId'' JStr wid) l))
      ((plain_wait IO (fn_id n))\<lparr>ws_id := wid\<rparr>) ((wait_for IO (fn_id n))\<lparr>wr_id := wid\<rparr>)"

definition effect_block :: "engine_env \<Rightarrow> int \<Rightarrow> run_input \<Rightarrow> run_loop \<Rightarrow> flow_node \<Rightarrow> js_error + turned" where
  "effect_block env format i l n =
    (let media = fn_type n = ''media''
     in run_bind (or_error (if media then ae_media_effect env (fn_data n) else ae_effect env (fn_data n))) (\<lambda>c.
        if \<not> media \<and> map_of c ''operation'' \<noteq> Some (JStr (fn_type n)) then automation_error ''EFFECT_CONFIG_INVALID''
        else let s = lp_state l;
                 (wid, l1) = (case ri_effect_id i of None \<Rightarrow> draw env l | Some f \<Rightarrow> (f (rs_automation s) (rs_version s) (fn_id n) (rs_steps s), l))
          in if \<not> flow_id (fn_id n) \<or> fn_type n \<notin> set CONVERSATION_TYPES \<or> \<not> ae_is_uuid env wid then zod_error
             else let payload = set_var ''definitionVersion'' (JNum (rs_version s)) (set_var ''definitionAutomationId'' (JStr (rs_automation s))
                    (set_var ''waitId'' (JStr wid) (block_payload c n format l1)))
               in queue_io (if media then SEND_MEDIA else IO_CONVERSATION) (if media then ''SEND_MEDIA'' else ''IO_CONVERSATION'') payload (Some wid) l1 n))"

definition IO_TYPES :: "string list" where
  "IO_TYPES = [''http'', ''sql'', ''code''] @ AI_TYPES"

definition io_kind :: "string \<Rightarrow> effect_kind \<times> string" where
  "io_kind t = (if t = ''http'' then (IO_HTTP, ''IO_HTTP'') else if t = ''sql'' then (IO_SQL, ''IO_SQL'')
     else if t = ''code'' then (IO_CODE, ''IO_CODE'') else (IO_AI, ''IO_AI''))"

definition run_condition :: "engine_env \<Rightarrow> run_loop \<Rightarrow> flow_node \<Rightarrow> js_error + bool" where
  "run_condition env l n =
    run_bind (renderRuntimeText (node_data n ''value'') (loop_vars l)) (\<lambda>rendered.
    let normalize = (\<lambda>t. if node_data n ''comparisonMode'' = Some (JStr ''JRC_NORMALIZED'') then js_trim (ae_lower env t) else t);
        actual = normalize (runtimeText (map_of (loop_vars l) (flow_value (node_data n ''field''))));
        expected = normalize rendered; op = flow_value (node_data n ''operator''); low = ae_lower env
    in Inr (if op = ''present'' then js_trim actual \<noteq> ''''
            else if op = ''not_equals'' then actual \<noteq> expected
            else if op = ''contains'' then occurs_in (low expected) (low actual)
            else if op = ''starts_with'' then take (length (low expected)) (low actual) = low expected
            else actual = expected))"

text \<open>The blocks that change variables or choose an output, and go on in the same turn.\<close>

definition plain_port :: "engine_env \<Rightarrow> int \<Rightarrow> run_input \<Rightarrow> run_loop \<Rightarrow> flow_node \<Rightarrow> js_error + run_loop \<times> string" where
  "plain_port env format i l n =
    (let t = fn_type n in
     if t = ''variable'' then
       (let key = flow_value (node_data n ''variable'') in
        if \<not> safeKey key then Inr (l, ''next'')
        else run_bind (if format = 2 then renderRuntimeValue (node_data n ''value'') (loop_vars l)
                else run_bind (renderRuntimeText (node_data n ''value'') (loop_vars l)) (\<lambda>s. Inr (JStr s))) (\<lambda>x.
          Inr (put_var key x l, ''next'')))
     else if t = ''switch'' then
       run_bind (or_error (SwitchNodeConfigSchema (fn_data n))) (\<lambda>c.
         let port = selectSwitchPort c (loop_vars l) in Inr (output_last [(''port'', JStr port)] l, port))
     else if t = ''schedule'' then
       run_bind (ae_open env (fn_data n) (ri_now i)) (\<lambda>is_open.
         Inr (output_last ((''open'', JBool is_open) # field_of ''timezone'' (fn_data n) @ [(''at'', JStr (ae_iso env (ri_now i)))]) l,
              if is_open then ''open'' else ''closed''))
     else if t = ''condition'' then
       run_bind (run_condition env l n) (\<lambda>holds. Inr (l, if holds then ''yes'' else ''no''))
     else Inr (l, ''next''))"

definition plain_block :: "engine_env \<Rightarrow> int \<Rightarrow> run_input \<Rightarrow> run_loop \<Rightarrow> flow_node \<Rightarrow> js_error + turned" where
  "plain_block env format i l n =
    run_bind (plain_port env format i l n) (\<lambda>(l', port).
      let x = run_next (pb_graph (lp_pub l')) (fn_id n) port in Inr (Turned (set_node x l') x))"

text \<open>What follows a message and a versionless data block: effects, the blocks that wait for a result, the rest.\<close>

definition later_block :: "engine_env \<Rightarrow> int \<Rightarrow> run_input \<Rightarrow> run_loop \<Rightarrow> flow_node \<Rightarrow> js_error + turned" where
  "later_block env format i l n =
    (if has_effect2 n then effect_block env format i l n
     else if fn_type n \<in> set IO_TYPES
     then queue_io (fst (io_kind (fn_type n))) (snd (io_kind (fn_type n))) (block_payload (fn_data n) n format l) None l n
     else plain_block env format i l n)"

definition run_block :: "engine_env \<Rightarrow> published \<Rightarrow> bool \<Rightarrow> int \<Rightarrow> run_input \<Rightarrow> run_loop \<Rightarrow> flow_node \<Rightarrow> js_error + turned" where
  "run_block env root policy format i l0 n =
    (let t = fn_type n; message = (case map_of (loop_vars l0) ''message'' of None \<Rightarrow> JStr '''' | Some JNull \<Rightarrow> JStr '''' | Some x \<Rightarrow> x);
         l = push_trace n [(''message'', message)] [] l0
     in if t = ''end'' then Inr (Turned l None)
        else if t = ''handoff'' then handoff_block env l n
        else if t = ''message'' then
          run_bind (renderRuntimeText (node_data n ''text'') (loop_vars l)) (\<lambda>s.
            later_block env format i (say_text (fn_id n) s (output_last [(''text'', JStr s)] l)) n)
        else if t \<in> {''input'', ''menu''} then ask_block env format i l n
        else if t = ''delay'' then delay_block env format i l n
        else if t = ''subflow'' then subflow_block env root policy format i l n
        else if t \<in> set DATA_NODE_TYPES then
          (if node_data n ''configVersion'' = Some (JNum 2) then data_block2 env format l n
           else run_bind (ae_data env t (fn_data n) (format = 2) (loop_vars l)) (\<lambda>(out, vars).
             later_block env format i (output_last out (put_vars vars l)) n))
        else later_block env format i l n)"

definition frame_expired :: "run_input \<Rightarrow> run_state \<Rightarrow> bool" where
  "frame_expired i s \<longleftrightarrow> rs_stack s \<noteq> [] \<and> (case fr_deadline (last (rs_stack s)) of None \<Rightarrow> False | Some d \<Rightarrow> d \<noteq> 0 \<and> d < ri_now i)"

definition turn :: "engine_env \<Rightarrow> published \<Rightarrow> bool \<Rightarrow> int \<Rightarrow> run_input \<Rightarrow> run_loop \<Rightarrow> string option \<Rightarrow> js_error + turned" where
  "turn env root policy format i l0 current =
    (case assertRuntimeState (lp_state l0) of
       Some e \<Rightarrow> Inl e
     | None \<Rightarrow>
        (let l = l0\<lparr>lp_state := (lp_state l0)\<lparr>rs_steps := rs_steps (lp_state l0) + 1\<rparr>\<rparr>
         in if 5000 < rs_steps (lp_state l) then automation_error ''STEP_LIMIT''
            else if frame_expired i (lp_state l) then automation_error ''SUBFLOW_TIMEOUT''
            else (case current of
               None \<Rightarrow> leave_block env root l
             | Some x \<Rightarrow> (case find_node (pb_graph (lp_pub l)) x of
                  None \<Rightarrow> automation_error ''NODE_MISSING''
                | Some n \<Rightarrow> run_block env root policy format i l n))))"

fun turns :: "nat \<Rightarrow> engine_env \<Rightarrow> published \<Rightarrow> bool \<Rightarrow> int \<Rightarrow> run_input \<Rightarrow> run_loop \<Rightarrow> string option \<Rightarrow> js_error + run_result" where
  "turns 0 env root policy format i l current = automation_error ''TURN_LIMIT''"
| "turns (Suc k) env root policy format i l current =
    (case turn env root policy format i l current of
       Inl e \<Rightarrow> Inl e
     | Inr (Finished r) \<Rightarrow> Inr r
     | Inr (Turned l' x) \<Rightarrow> turns k env root policy format i l' x)"

section \<open>The call\<close>

fun kept_vars :: "int \<Rightarrow> run_vars \<Rightarrow> js_error + run_vars" where
  "kept_vars format [] = Inr []"
| "kept_vars format (kv # kvs) =
    (if safeKey (fst kv) then
       run_bind (runtimeJson (Some (if format = 1 then JStr (flow_value (Some (snd kv))) else snd kv))) (\<lambda>x.
       run_bind (kept_vars format kvs) (\<lambda>rest. Inr ((fst kv, x) # rest)))
     else kept_vars format kvs)"

definition identified_wait :: "run_state option \<Rightarrow> wait_state option" where
  "identified_wait previous = Option.bind previous (\<lambda>s. Option.bind (rs_waiting s) (\<lambda>w. if ws_id w = None then None else Some w))"

definition wait_admitted :: "run_input \<Rightarrow> wait_state \<Rightarrow> bool" where
  "wait_admitted i w \<longleftrightarrow> (case ri_wait i of
     Some (wid, Some at) \<Rightarrow> ws_id w = Some wid \<and> (case ws_deadline w of None \<Rightarrow> True | Some d \<Rightarrow> at \<le> d)
   | _ \<Rightarrow> False)"

definition accepts_message :: "run_input \<Rightarrow> run_state option \<Rightarrow> bool" where
  "accepts_message i previous \<longleftrightarrow> ri_event i = MESSAGE
     \<and> (case Option.bind previous rs_waiting of None \<Rightarrow> True | Some w \<Rightarrow> ws_kind w = EVENT)
     \<and> (case identified_wait previous of None \<Rightarrow> True | Some w \<Rightarrow> wait_admitted i w)"

definition first_state :: "published \<Rightarrow> run_input \<Rightarrow> int \<Rightarrow> run_state option \<Rightarrow> js_error + run_state" where
  "first_state root i format previous =
    run_bind (case previous of None \<Rightarrow> Inr [] | Some s \<Rightarrow> kept_vars format (rs_vars s)) (\<lambda>kept.
    run_bind (if format = 1 \<and> identified_wait previous = None \<or> previous = None \<or> accepts_message i previous
      then run_bind (runtimeJson (Some (JStr (ri_text i)))) (\<lambda>t. Inr (set_var ''message'' t kept)) else Inr kept) (\<lambda>vars.
    case previous of
      Some s \<Rightarrow> Inr (s\<lparr>rs_format := Some format, rs_vars := vars\<rparr>)
    | None \<Rightarrow> (case find (\<lambda>n. fn_type n = ''start'') (fg_nodes (pb_graph root)) of
        None \<Rightarrow> Inl (PlainError ''TypeError'')
      | Some n \<Rightarrow> Inr \<lparr>rs_format = Some format, rs_automation = pb_automation root, rs_version = pb_version root, rs_node = Some (fn_id n),
          rs_vars = vars, rs_steps = 0, rs_stack = [], rs_waiting = None\<rparr>)))"

definition executeAutomation :: "engine_env \<Rightarrow> published \<Rightarrow> run_input \<Rightarrow> run_state option \<Rightarrow> js_error + run_result" where
  "executeAutomation env root i previous =
    (if ri_media i \<noteq> None \<and> Option.bind previous rs_waiting = None then automation_error ''INPUT_MEDIA_VERSION_MISMATCH''
     else run_bind (publishedDependencyPolicy (pb_graph root)) (\<lambda>policy.
       run_bind (runtimeStateVersion previous (pb_format root)) (\<lambda>format.
       run_bind (first_state root i format previous) (\<lambda>s.
       case assertRuntimeState s of Some e \<Rightarrow> Inl e
       | None \<Rightarrow> run_bind (getPublished env root (rs_automation s) (Some (rs_version s))) (\<lambda>pub.
           let l = \<lparr>lp_state = s, lp_pub = pub, lp_effects = [], lp_trace = [], lp_drawn = 0\<rparr>
           in case rs_waiting s of
                None \<Rightarrow> turns 500 env root policy format i l (rs_node s)
              | Some w \<Rightarrow> run_bind (resume env format i l w) (\<lambda>r. case r of
                    Paused l' wr \<Rightarrow> finish WAITING l' (Some wr)
                  | Ended l' \<Rightarrow> finish RUN_COMPLETED l' None
                  | Resumed l' x \<Rightarrow> turns 500 env root policy format i (set_waiting None l') x))))))"

end
