(* ===== verification/Automation_Properties.thy ===== *)
theory Automation_Properties
  imports Automation_Run
begin

text \<open>
  What a turn of an automation leaves: a result whose parts agree, a state within its limits, subflows
  that never entered themselves, and a wait that only its own answer ends.
\<close>

section \<open>The parts of a loop\<close>

definition ordered_effects :: "run_effect list \<Rightarrow> bool" where
  "ordered_effects es \<longleftrightarrow> map ef_ordinal es = [0..<length es]"

text \<open>No automation is entered while it is active: the callers on the stack and the current one differ.\<close>

definition stack_ok :: "run_state \<Rightarrow> bool" where
  "stack_ok s \<longleftrightarrow> distinct (map fr_automation (rs_stack s) @ [rs_automation s])"

definition loop_ok :: "bool \<Rightarrow> int \<Rightarrow> run_loop \<Rightarrow> bool" where
  "loop_ok policy steps l \<longleftrightarrow> ordered_effects (lp_effects l) \<and> rs_waiting (lp_state l) = None
     \<and> steps \<le> rs_steps (lp_state l) \<and> (rs_steps (lp_state l) = steps \<or> rs_steps (lp_state l) \<le> 5000)
     \<and> stack_ok (lp_state l) \<and> (policy \<longrightarrow> length (rs_stack (lp_state l)) \<le> SUBFLOW_MAX_DEPTH)
     \<and> pb_automation (lp_pub l) = rs_automation (lp_state l)"

definition wait_ok :: "run_result \<Rightarrow> bool" where
  "wait_ok r \<longleftrightarrow> (case (rr_status r, rs_waiting (rr_state r), rr_wait r) of
     (WAITING, Some w, Some x) \<Rightarrow> wr_kind x = ws_kind w \<and> wr_node x = ws_node w \<and> (wr_id x \<noteq> None \<longrightarrow> wr_id x = ws_id w)
   | (WAITING, _) \<Rightarrow> False
   | (HANDED_OFF, w, x) \<Rightarrow> w = None \<and> x = None \<and> rs_node (rr_state r) = None \<and> ef_kind (last (rr_effects r)) = HANDOFF
   | (RUN_COMPLETED, w, x) \<Rightarrow> w = None \<and> x = None \<and> rs_node (rr_state r) = None \<and> rs_stack (rr_state r) = [])"

definition result_ok :: "bool \<Rightarrow> int \<Rightarrow> run_result \<Rightarrow> bool" where
  "result_ok policy steps r \<longleftrightarrow> ordered_effects (rr_effects r) \<and> assertRuntimeState (rr_state r) = None \<and> wait_ok r
     \<and> steps \<le> rs_steps (rr_state r) \<and> (rs_steps (rr_state r) = steps \<or> rs_steps (rr_state r) \<le> 5000)
     \<and> stack_ok (rr_state r) \<and> (policy \<longrightarrow> length (rs_stack (rr_state r)) \<le> SUBFLOW_MAX_DEPTH)"

lemma ordered_effects_snoc [simp]:
  "ordered_effects (es @ [\<lparr>ef_node = n, ef_ordinal = length es, ef_kind = k, ef_payload = p\<rparr>]) = ordered_effects es"
  by (simp add: ordered_effects_def)

named_theorems loop_simps "what the operations on a loop leave alone"

lemma push_effect_state [loop_simps]: "lp_state (push_effect n k p l) = lp_state l" "lp_pub (push_effect n k p l) = lp_pub l"
  "ordered_effects (lp_effects (push_effect n k p l)) = ordered_effects (lp_effects l)"
  by (simp_all add: push_effect_def)

lemma say_text_state [loop_simps]: "lp_state (say_text n t l) = lp_state l" "lp_pub (say_text n t l) = lp_pub l"
  "ordered_effects (lp_effects (say_text n t l)) = ordered_effects (lp_effects l)"
  by (simp_all add: say_text_def loop_simps)

lemma push_trace_state [loop_simps]: "lp_state (push_trace n i t l) = lp_state l" "lp_pub (push_trace n i t l) = lp_pub l"
  "lp_effects (push_trace n i t l) = lp_effects l"
  by (simp_all add: push_trace_def)

lemma output_last_state [loop_simps]: "lp_state (output_last out l) = lp_state l" "lp_pub (output_last out l) = lp_pub l"
  "lp_effects (output_last out l) = lp_effects l"
  by (simp_all add: output_last_def)

lemma draw_state [loop_simps]: "draw env l = (w, l') \<Longrightarrow> lp_state l' = lp_state l \<and> lp_pub l' = lp_pub l \<and> lp_effects l' = lp_effects l"
  by (auto simp: draw_def)

lemma loop_ok_push_effect [simp]: "loop_ok p s (push_effect n k d l) = loop_ok p s l"
  by (simp add: loop_ok_def loop_simps)

lemma loop_ok_say [simp]: "loop_ok p s (say_text n t l) = loop_ok p s l"
  by (simp add: say_text_def)

lemma loop_ok_trace [simp]: "loop_ok p s (push_trace n i t l) = loop_ok p s l"
  by (simp add: loop_ok_def loop_simps)

lemma loop_ok_output [simp]: "loop_ok p s (output_last out l) = loop_ok p s l"
  by (simp add: loop_ok_def loop_simps)

lemma loop_ok_vars [simp]: "loop_ok p s (put_vars vs l) = loop_ok p s l" "loop_ok p s (put_var k v l) = loop_ok p s l"
  by (simp_all add: loop_ok_def put_vars_def put_var_def stack_ok_def)

lemma loop_ok_node [simp]: "loop_ok p s (set_node x l) = loop_ok p s l"
  by (simp add: loop_ok_def set_node_def stack_ok_def)

lemma loop_ok_draw: "draw env l = (w, l') \<Longrightarrow> loop_ok p s l' = loop_ok p s l"
  by (auto simp: loop_ok_def draw_def)

lemma finishD: "finish st l w = Inr r \<Longrightarrow> rr_status r = st \<and> rr_state r = lp_state l \<and> rr_effects r = lp_effects l
    \<and> rr_wait r = w \<and> assertRuntimeState (lp_state l) = None"
  by (auto simp: finish_def split: option.splits)

text \<open>A turn that is over has a good result, one that goes on a good loop.\<close>

definition turned_ok :: "bool \<Rightarrow> int \<Rightarrow> js_error + turned \<Rightarrow> bool" where
  "turned_ok p s t = (case t of Inl _ \<Rightarrow> True | Inr (Finished r) \<Rightarrow> result_ok p s r | Inr (Turned l x) \<Rightarrow> loop_ok p s l)"

lemma turned_ok_simps [simp]: "turned_ok p s (Inl e)" "turned_ok p s (Inr (Turned l x)) = loop_ok p s l"
  "turned_ok p s (automation_error c)" "turned_ok p s zod_error"
  by (simp_all add: turned_ok_def automation_error_def zod_error_def)

lemma turned_ok_bind: "(\<And>a. m = Inr a \<Longrightarrow> turned_ok p s (f a)) \<Longrightarrow> turned_ok p s (run_bind m f)"
  by (cases m) (simp_all add: run_bind_def)

lemma turned_ok_if: "(b \<Longrightarrow> turned_ok p s x) \<Longrightarrow> (\<not> b \<Longrightarrow> turned_ok p s y) \<Longrightarrow> turned_ok p s (if b then x else y)"
  by simp

lemma result_ok_end:
  assumes "loop_ok p s l" and "finish st (set_node None l) None = Inr r"
    and "st = RUN_COMPLETED \<and> rs_stack (lp_state l) = [] \<or> st = HANDED_OFF \<and> ef_kind (last (lp_effects l)) = HANDOFF"
  shows "result_ok p s r"
  using assms finishD [OF assms(2)]
  by (auto simp: result_ok_def loop_ok_def wait_ok_def set_node_def stack_ok_def)

lemma start_wait_ok:
  assumes "loop_ok p s l" and "wr_kind r = ws_kind w" and "wr_node r = ws_node w" and "wr_id r \<noteq> None \<longrightarrow> wr_id r = ws_id w"
  shows "turned_ok p s (start_wait l w r)"
proof (cases "finish WAITING (set_waiting (Some w) (set_node (Some (ws_node w)) l)) (Some r)")
  case (Inl e)
  then show ?thesis by (simp add: start_wait_def finish_turn_def run_bind_def turned_ok_def)
next
  case (Inr q)
  from finishD [OF Inr] assms have "result_ok p s q"
    by (auto simp: result_ok_def loop_ok_def wait_ok_def set_node_def set_waiting_def stack_ok_def)
  with Inr show ?thesis by (simp add: start_wait_def finish_turn_def run_bind_def turned_ok_def)
qed

section \<open>The blocks\<close>

text \<open>The lookup of a published version answers the automation it was asked for.\<close>

definition resolves_faithfully :: "engine_env \<Rightarrow> bool" where
  "resolves_faithfully env \<longleftrightarrow> (\<forall>a v q. ae_resolve env a v = Inr q \<longrightarrow> pb_automation q = a)"

lemma getPublished_automation: "resolves_faithfully env \<Longrightarrow> getPublished env root a v = Inr q \<Longrightarrow> pb_automation q = a"
  by (auto simp: getPublished_def resolves_faithfully_def split: if_splits)

lemma finish_turn_ok: "(\<And>r. m = Inr r \<Longrightarrow> result_ok p s r) \<Longrightarrow> turned_ok p s (finish_turn m)"
  by (cases m) (simp_all add: finish_turn_def run_bind_def turned_ok_def)

lemma stack_ok_pop:
  assumes "stack_ok st" and "rs_stack st \<noteq> []"
  shows "distinct (map fr_automation (butlast (rs_stack st)) @ [fr_automation (last (rs_stack st))])"
proof -
  from assms(2) have "map fr_automation (butlast (rs_stack st)) @ [fr_automation (last (rs_stack st))] = map fr_automation (rs_stack st)"
    by (metis append_butlast_last_id list.simps(8,9) map_append)
  with assms(1) show ?thesis by (simp add: stack_ok_def del: distinct_append)  (simp add: distinct_append)
qed

lemma leave_block_ok:
  assumes "loop_ok p s l" and "resolves_faithfully env"
  shows "turned_ok p s (leave_block env root l)"
proof (cases "rs_stack (lp_state l) = []")
  case True
  with assms(1) show ?thesis
    by (auto simp: leave_block_def intro!: finish_turn_ok elim!: result_ok_end)
next
  case False
  from assms(1) have st: "stack_ok (lp_state l)" by (simp add: loop_ok_def)
  note pop = stack_ok_pop [OF st False]
  from False assms(1) pop getPublished_automation [OF assms(2)] show ?thesis
    by (auto simp: leave_block_def Let_def loop_ok_def stack_ok_def intro!: turned_ok_if turned_ok_bind split: option.splits)
qed

lemma last_push_effect [simp]: "ef_kind (last (lp_effects (push_effect n k d l))) = k"
  by (simp add: push_effect_def)

lemma handed_off_ok:
  assumes "loop_ok p s l"
  shows "turned_ok p s (finish_turn (finish HANDED_OFF (set_node None (push_effect n HANDOFF d l)) None))"
proof (rule finish_turn_ok)
  fix r assume "finish HANDED_OFF (set_node None (push_effect n HANDOFF d l)) None = Inr r"
  with assms show "result_ok p s r" by (intro result_ok_end [of p s "push_effect n HANDOFF d l" HANDED_OFF r] disjI2 conjI) (simp_all only: loop_ok_push_effect last_push_effect)
qed

lemma handoff_block_ok: "loop_ok p s l \<Longrightarrow> turned_ok p s (handoff_block env l n)"
  unfolding handoff_block_def Let_def by (auto intro!: handed_off_ok split: option.splits)

lemma turned_ok_draw:
  "(\<And>w l'. loop_ok p s l' = loop_ok p s l \<Longrightarrow> turned_ok p s (f w l')) \<Longrightarrow> turned_ok p s (case draw env l of (w, l') \<Rightarrow> f w l')"
  by (cases "draw env l") (auto dest: loop_ok_draw)

lemma turned_ok_drawn:
  "(\<And>w l'. draw env l = (w, l') \<Longrightarrow> turned_ok p s (f w l')) \<Longrightarrow> turned_ok p s (case draw env l of (w, l') \<Rightarrow> f w l')"
  by (cases "draw env l") auto

lemma turned_ok_found:
  "(\<And>a b. turned_ok p s (f a b)) \<Longrightarrow> turned_ok p s (case (x, y) of (Some a, Some b) \<Rightarrow> f a b | _ \<Rightarrow> Inl e)"
  by (cases x; cases y) simp_all

lemma ask_block_ok:
  assumes "loop_ok p s l"
  shows "turned_ok p s (ask_block env format i l n)"
  unfolding ask_block_def Let_def
  using assms
  by (intro turned_ok_bind turned_ok_if turned_ok_draw turned_ok_simps start_wait_ok)
    (simp_all add: plain_wait_def wait_for_def)

lemma delay_block_ok: "loop_ok p s l \<Longrightarrow> turned_ok p s (delay_block env format i l n)"
  unfolding delay_block_def Let_def
  by (cases "ae_number env (node_data n ''seconds'')") (auto simp: plain_wait_def wait_for_def intro!: start_wait_ok)

lemma queue_io_ok: "loop_ok p s l \<Longrightarrow> turned_ok p s (queue_io k name payload wid l n)"
  unfolding queue_io_def by (rule start_wait_ok) (simp_all add: plain_wait_def wait_for_def)

lemma effect_block_ok:
  assumes "loop_ok p s l"
  shows "turned_ok p s (effect_block env format i l n)"
proof (cases "ri_effect_id i")
  case None
  show ?thesis unfolding effect_block_def Let_def None option.case using assms
    by (intro turned_ok_bind turned_ok_if turned_ok_draw turned_ok_simps queue_io_ok) simp_all
next
  case (Some f)
  show ?thesis unfolding effect_block_def Let_def Some option.case prod.case using assms
    by (intro turned_ok_bind turned_ok_if turned_ok_simps queue_io_ok)
qed

lemma data_block2_ok:
  assumes "loop_ok p s l"
  shows "turned_ok p s (data_block2 env format l n)"
  unfolding data_block2_def Let_def using assms
  by (auto intro!: turned_ok_if turned_ok_bind split: sum.splits prod.splits option.splits)

lemma plain_port_ok:
  assumes "loop_ok p s l" and "plain_port env format i l n = Inr (l', port)"
  shows "loop_ok p s l'"
  using assms by (auto simp: plain_port_def Let_def split: if_splits)

lemma plain_block_ok: "loop_ok p s l \<Longrightarrow> turned_ok p s (plain_block env format i l n)"
  unfolding plain_block_def Let_def by (auto intro!: turned_ok_bind dest: plain_port_ok)

lemma later_block_ok: "loop_ok p s l \<Longrightarrow> turned_ok p s (later_block env format i l n)"
  unfolding later_block_def by (intro turned_ok_if effect_block_ok queue_io_ok plain_block_ok)

lemma subflow_block_ok:
  assumes "loop_ok p s l" and "resolves_faithfully env"
  shows "turned_ok p s (subflow_block env root p format i l n)"
proof -
  let ?s = "lp_state l" and ?a = "flow_value (node_data n ''automationId'')"
  have entered: "turned_ok p s (Inr (Turned ((output_last out l1)\<lparr>lp_pub := child,
      lp_state := ?s\<lparr>rs_vars := vars, rs_stack := rs_stack ?s @ [f], rs_automation := ?a, rs_version := v\<rparr>\<rparr>) x))"
    if "\<not> (p \<and> SUBFLOW_MAX_DEPTH \<le> length (rs_stack ?s))" "\<not> (list_ex (\<lambda>f. fr_automation f = ?a) (rs_stack ?s) \<or> ?a = pb_automation (lp_pub l))"
      "getPublished env root ?a w = Inr child" "draw env l = (c, l1)" "fr_automation f = pb_automation (lp_pub l)"
    for out l1 child vars f v w c x
  proof -
    from that(3) assms(2) have "pb_automation child = ?a" by (rule getPublished_automation [rotated])
    moreover from assms(1) that(2,5) have "distinct (map fr_automation (rs_stack ?s @ [f]) @ [?a])"
      by (auto simp: loop_ok_def stack_ok_def list_ex_iff)
    ultimately show ?thesis using assms(1) that(1) draw_state [OF that(4)]
      by (auto simp: loop_ok_def stack_ok_def output_last_def SUBFLOW_MAX_DEPTH_def)
  qed
  show ?thesis
  proof (cases "run_next (pb_graph (lp_pub l)) (fn_id n) ''next''")
    case None
    show ?thesis unfolding subflow_block_def Let_def None option.case by (intro turned_ok_if turned_ok_simps)
  next
    case (Some target)
    show ?thesis unfolding subflow_block_def Let_def Some option.case
      by (intro turned_ok_if turned_ok_bind turned_ok_drawn turned_ok_found entered turned_ok_simps) (assumption | simp)+
  qed
qed

lemma run_block_ok:
  assumes "loop_ok p s l" and "resolves_faithfully env"
  shows "turned_ok p s (run_block env root p format i l n)"
  unfolding run_block_def Let_def using assms
  by (auto intro!: turned_ok_if turned_ok_bind handoff_block_ok ask_block_ok delay_block_ok subflow_block_ok data_block2_ok later_block_ok
      split: prod.splits)

lemma turn_ok:
  assumes "loop_ok p s l" and "resolves_faithfully env"
  shows "turned_ok p s (turn env root p format i l x)"
proof (cases "assertRuntimeState (lp_state l) = None \<and> rs_steps (lp_state l) + 1 \<le> 5000")
  case True
  with assms(1) have "loop_ok p s (l\<lparr>lp_state := (lp_state l)\<lparr>rs_steps := rs_steps (lp_state l) + 1\<rparr>\<rparr>)"
    by (auto simp: loop_ok_def stack_ok_def)
  with assms(2) leave_block_ok run_block_ok show ?thesis
    by (auto simp: turn_def Let_def split: option.splits intro!: turned_ok_if)
next
  case False
  then show ?thesis by (auto simp: turn_def Let_def split: option.splits)
qed

lemma turns_ok:
  "loop_ok p s l \<Longrightarrow> resolves_faithfully env \<Longrightarrow> turns k env root p format i l x = Inr r \<Longrightarrow> result_ok p s r"
proof (induction k arbitrary: l x)
  case (Suc k)
  from turn_ok [OF Suc.prems(1,2), of root format i x] Suc show ?case
    by (auto simp: turned_ok_def split: sum.splits turned.splits)
qed (simp add: automation_error_def)

section \<open>Answers\<close>

text \<open>A loop whose state may still wait.\<close>

definition core_ok :: "bool \<Rightarrow> int \<Rightarrow> run_loop \<Rightarrow> bool" where
  "core_ok p s l \<longleftrightarrow> loop_ok p s (set_waiting None l)"

definition waiting_of :: "run_loop \<Rightarrow> wait_state option" where
  "waiting_of l = rs_waiting (lp_state l)"

lemma core_ok_simps [simp]:
  "core_ok p s (push_trace n i t l) = core_ok p s l" "core_ok p s (put_var k v l) = core_ok p s l"
  "core_ok p s (say_text m q l) = core_ok p s l" "core_ok p s (set_waiting w l) = core_ok p s l"
  by (simp_all add: core_ok_def loop_ok_def set_waiting_def push_trace_def put_var_def put_vars_def say_text_def push_effect_def stack_ok_def)

lemma waiting_of_simps [simp]:
  "waiting_of (push_trace n i t l) = waiting_of l" "waiting_of (put_var k v l) = waiting_of l"
  "waiting_of (say_text m q l) = waiting_of l" "waiting_of (set_waiting w l) = w"
  by (simp_all add: waiting_of_def set_waiting_def push_trace_def put_var_def put_vars_def say_text_def push_effect_def)

lemma core_ok_draw: "draw env l = (w, l') \<Longrightarrow> core_ok p s l' = core_ok p s l"
  by (auto simp: draw_def core_ok_def loop_ok_def set_waiting_def)

definition waits_as :: "run_loop \<Rightarrow> wait_result \<Rightarrow> bool" where
  "waits_as l x \<longleftrightarrow> (case waiting_of l of None \<Rightarrow> False
     | Some w \<Rightarrow> wr_kind x = ws_kind w \<and> wr_node x = ws_node w \<and> (wr_id x \<noteq> None \<longrightarrow> wr_id x = ws_id w))"

definition resumed_ok :: "bool \<Rightarrow> int \<Rightarrow> js_error + resumed \<Rightarrow> bool" where
  "resumed_ok p s r = (case r of Inl _ \<Rightarrow> True
     | Inr (Paused l x) \<Rightarrow> core_ok p s l \<and> waits_as l x
     | Inr (Ended l) \<Rightarrow> loop_ok p s l \<and> rs_node (lp_state l) = None \<and> rs_stack (lp_state l) = []
     | Inr (Resumed l x) \<Rightarrow> core_ok p s l)"

lemma resumed_ok_simps [simp]: "resumed_ok p s (Inl e)" "resumed_ok p s (automation_error c)"
  "resumed_ok p s (Inr (Paused l x)) \<longleftrightarrow> core_ok p s l \<and> waits_as l x"
  "resumed_ok p s (Inr (Resumed l y)) \<longleftrightarrow> core_ok p s l"
  by (simp_all add: resumed_ok_def automation_error_def)

lemma resumed_ok_bind: "(\<And>a. m = Inr a \<Longrightarrow> resumed_ok p s (f a)) \<Longrightarrow> resumed_ok p s (run_bind m f)"
  by (cases m) (simp_all add: run_bind_def)

lemma resumed_ok_if: "(b \<Longrightarrow> resumed_ok p s x) \<Longrightarrow> (\<not> b \<Longrightarrow> resumed_ok p s y) \<Longrightarrow> resumed_ok p s (if b then x else y)"
  by simp

lemma resumed_ok_option: "(x = None \<Longrightarrow> resumed_ok p s a) \<Longrightarrow> (\<And>y. x = Some y \<Longrightarrow> resumed_ok p s (f y))
    \<Longrightarrow> resumed_ok p s (case x of None \<Rightarrow> a | Some y \<Rightarrow> f y)"
  by (cases x) simp_all

lemma resumed_ok_admitted:
  "(\<And>at. resumed_ok p s (f at)) \<Longrightarrow> resumed_ok p s g \<Longrightarrow> resumed_ok p s (case (e, t) of (MESSAGE, Some at) \<Rightarrow> f at | _ \<Rightarrow> g)"
  by (cases e; cases t) simp_all

lemma resumed_ok_drawn:
  "(\<And>w l'. core_ok p s l' = core_ok p s l \<Longrightarrow> resumed_ok p s (f w l')) \<Longrightarrow> resumed_ok p s (case draw env l of (w, l') \<Rightarrow> f w l')"
  by (cases "draw env l") (auto dest: core_ok_draw)

lemmas resumed_intros = resumed_ok_bind resumed_ok_if resumed_ok_option resumed_ok_admitted resumed_ok_drawn

lemma choose_option_ok: "choose_option l n t m = (l', x) \<Longrightarrow> core_ok p s l' = core_ok p s l"
  by (auto simp: choose_option_def Let_def split: if_splits)

lemma resumed_ok_choice:
  "(\<And>l' x. core_ok p s l' = core_ok p s l \<Longrightarrow> resumed_ok p s (f l' x)) \<Longrightarrow> resumed_ok p s (case choose_option l n t m of (l', x) \<Rightarrow> f l' x)"
  by (cases "choose_option l n t m") (auto dest: choose_option_ok)

lemma waits_as_pending: "waiting_of l = Some w \<Longrightarrow> ws_kind w = EVENT \<Longrightarrow> ws_node w = x \<Longrightarrow> waits_as l (pending_wait l x saved)"
  by (simp add: waits_as_def pending_wait_def wait_for_def waiting_of_def)

lemma waits_as_plain: "waiting_of l = Some w \<Longrightarrow> ws_kind w = k \<Longrightarrow> ws_node w = x \<Longrightarrow> waits_as l (wait_for k x)"
  by (simp add: waits_as_def wait_for_def)

definition at_wait :: "bool \<Rightarrow> int \<Rightarrow> run_loop \<Rightarrow> wait_state \<Rightarrow> flow_node \<Rightarrow> bool" where
  "at_wait p s l w n \<longleftrightarrow> core_ok p s l \<and> waiting_of l = Some w \<and> ws_node w = fn_id n"

lemma resume_delay_ok: "at_wait p s l w n \<Longrightarrow> ws_kind w = DELAY \<Longrightarrow> resumed_ok p s (resume_delay i l n w)"
  unfolding resume_delay_def at_wait_def by (auto simp: waits_as_def wait_for_def)

lemma resume_answer_ok: "at_wait p s l w n \<Longrightarrow> ws_kind w = IO \<Longrightarrow> resumed_ok p s (resume_answer env format i l n)"
  unfolding resume_answer_def Let_def at_wait_def
  by (auto intro!: resumed_intros waits_as_plain split: if_splits)

lemma resume_io_ok:
  assumes "at_wait p s l w n" and "ws_kind w = IO"
  shows "resumed_ok p s (resume_io env format i l n w)"
proof -
  have "resumed_ok p s (Inr (Ended (l\<lparr>lp_state := (lp_state l)\<lparr>rs_node := None, rs_stack := [], rs_waiting := None\<rparr>\<rparr>)))"
    using assms(1) by (auto simp: at_wait_def resumed_ok_def core_ok_def loop_ok_def set_waiting_def stack_ok_def)
  with assms show ?thesis
    unfolding resume_io_def Let_def
    by (intro resumed_intros resume_answer_ok [of p s l w n]) (auto simp: at_wait_def waits_as_def wait_for_def)
qed

lemma resume_capture_ok:
  assumes "at_wait p s l w n" and "ws_kind w = EVENT"
  shows "resumed_ok p s (resume_capture env format i l n w)"
  using assms unfolding resume_capture_def Let_def at_wait_def
  by (intro resumed_intros) (auto intro!: waits_as_pending)

lemma resume_menu2_ok:
  assumes "at_wait p s l w n" and "ws_kind w = EVENT"
  shows "resumed_ok p s (resume_menu2 env i l n w)"
  using assms unfolding resume_menu2_def Let_def at_wait_def
  by (intro resumed_intros resumed_ok_choice) (auto intro!: waits_as_pending)

lemma resume_menu1_ok:
  assumes "at_wait p s l w n" and "ws_kind w = EVENT"
  shows "resumed_ok p s (resume_menu1 i l n w)"
  using assms unfolding resume_menu1_def Let_def at_wait_def
  by (intro resumed_intros resumed_ok_choice) (auto intro!: waits_as_plain)

lemma resume_plain_ok:
  assumes "at_wait p s l w n" and "ws_kind w = EVENT"
  shows "resumed_ok p s (resume_plain i l n)"
  using assms unfolding resume_plain_def Let_def at_wait_def
  by (intro resumed_intros resumed_ok_choice) (auto intro!: waits_as_plain split: if_splits)

lemma resume_ok:
  assumes "core_ok p s l" and "waiting_of l = Some w"
  shows "resumed_ok p s (resume env format i l w)"
proof (cases "find_node (pb_graph (lp_pub l)) (ws_node w)")
  case None
  then show ?thesis by (simp add: resume_def)
next
  case (Some n)
  then have "fn_id n = ws_node w" using find_mem unfolding find_node_def by fastforce
  with assms have at: "at_wait p s l w n" by (simp add: at_wait_def)
  show ?thesis unfolding resume_def Some option.case
  proof (intro resumed_ok_if)
    assume "ws_kind w \<noteq> DELAY" "ws_kind w \<noteq> IO"
    then have "ws_kind w = EVENT" by (cases "ws_kind w") simp_all
    with at show "resumed_ok p s (resume_capture env format i l n w)" "resumed_ok p s (resume_menu2 env i l n w)"
      "resumed_ok p s (resume_menu1 i l n w)" "resumed_ok p s (resume_plain i l n)"
      by (blast intro: resume_capture_ok resume_menu2_ok resume_menu1_ok resume_plain_ok)+
  qed (use at in \<open>simp_all add: resume_delay_ok resume_io_ok\<close>)
qed

section \<open>The call\<close>

text \<open>The states a run may be called with: nothing yet, or what a turn left.\<close>

definition previous_ok :: "bool \<Rightarrow> run_state option \<Rightarrow> bool" where
  "previous_ok policy previous \<longleftrightarrow> (case previous of None \<Rightarrow> True
     | Some s \<Rightarrow> stack_ok s \<and> (policy \<longrightarrow> length (rs_stack s) \<le> SUBFLOW_MAX_DEPTH))"

definition steps_before :: "run_state option \<Rightarrow> int" where
  "steps_before previous = (case previous of None \<Rightarrow> 0 | Some s \<Rightarrow> rs_steps s)"

lemma first_state_ok:
  assumes "first_state root i format previous = Inr s"
  shows "rs_steps s = steps_before previous \<and> rs_waiting s = Option.bind previous rs_waiting \<and> rs_format s = Some format
    \<and> (case previous of None \<Rightarrow> rs_stack s = [] \<and> rs_automation s = pb_automation root
       | Some q \<Rightarrow> rs_stack s = rs_stack q \<and> rs_automation s = rs_automation q \<and> rs_version s = rs_version q \<and> rs_node s = rs_node q)"
  using assms by (auto simp: first_state_def steps_before_def split: option.splits)

lemma finish_paused_ok:
  assumes "core_ok p s l" and "waits_as l x" and "finish WAITING l (Some x) = Inr r"
  shows "result_ok p s r"
  using assms(1,2) finishD [OF assms(3)]
  by (auto simp: core_ok_def waits_as_def waiting_of_def loop_ok_def set_waiting_def result_ok_def wait_ok_def stack_ok_def split: option.splits)

lemma finish_ended_ok:
  assumes "loop_ok p s l" and "rs_node (lp_state l) = None" and "rs_stack (lp_state l) = []" and "finish RUN_COMPLETED l None = Inr r"
  shows "result_ok p s r"
  using assms(1-3) finishD [OF assms(4)] by (auto simp: loop_ok_def result_ok_def wait_ok_def)

lemma execute_ok:
  assumes "resolves_faithfully env" and "publishedDependencyPolicy (pb_graph root) = Inr policy" and "previous_ok policy previous"
    and "executeAutomation env root i previous = Inr r"
  shows "result_ok policy (steps_before previous) r"
proof -
  from assms(2,4) obtain format s pub where fs: "first_state root i format previous = Inr s"
    and pub: "getPublished env root (rs_automation s) (Some (rs_version s)) = Inr pub"
    and run: "(let l = \<lparr>lp_state = s, lp_pub = pub, lp_effects = [], lp_trace = [], lp_drawn = 0\<rparr>
        in case rs_waiting s of None \<Rightarrow> turns 500 env root policy format i l (rs_node s)
         | Some w \<Rightarrow> run_bind (resume env format i l w) (\<lambda>r. case r of Paused l' wr \<Rightarrow> finish WAITING l' (Some wr)
             | Ended l' \<Rightarrow> finish RUN_COMPLETED l' None
             | Resumed l' x \<Rightarrow> turns 500 env root policy format i (set_waiting None l') x)) = Inr r"
    by (auto simp: executeAutomation_def automation_error_def split: if_splits option.splits)
  define l where "l = \<lparr>lp_state = s, lp_pub = pub, lp_effects = [], lp_trace = [], lp_drawn = 0\<rparr>"
  from first_state_ok [OF fs] assms(3) getPublished_automation [OF assms(1) pub]
  have core: "core_ok policy (steps_before previous) l"
    by (auto simp: l_def core_ok_def loop_ok_def set_waiting_def stack_ok_def ordered_effects_def previous_ok_def split: option.splits)
  show ?thesis
  proof (cases "rs_waiting s")
    case None
    with core have "loop_ok policy (steps_before previous) l" by (simp add: core_ok_def loop_ok_def l_def set_waiting_def stack_ok_def)
    with turns_ok assms(1) run None show ?thesis by (simp add: l_def Let_def)
  next
    case (Some w)
    then have "waiting_of l = Some w" by (simp add: waiting_of_def l_def)
    from run Some obtain x where x: "resume env format i l w = Inr x"
      and fin: "(case x of Paused l' wr \<Rightarrow> finish WAITING l' (Some wr) | Ended l' \<Rightarrow> finish RUN_COMPLETED l' None
        | Resumed l' y \<Rightarrow> turns 500 env root policy format i (set_waiting None l') y) = Inr r"
      by (auto simp: Let_def l_def)
    from resume_ok [OF core \<open>waiting_of l = Some w\<close>, of env format i] x have ok: "resumed_ok policy (steps_before previous) (Inr x)"
      by simp
    show ?thesis
    proof (cases x)
      case (Paused l' wr)
      with ok fin show ?thesis by (auto intro: finish_paused_ok)
    next
      case (Ended l')
      with ok fin show ?thesis by (auto simp: resumed_ok_def intro: finish_ended_ok)
    next
      case (Resumed l' y)
      with ok have "loop_ok policy (steps_before previous) (set_waiting None l')" by (simp add: core_ok_def)
      from turns_ok [OF this assms(1)] fin Resumed show ?thesis by simp
    qed
  qed
qed

section \<open>Sessions\<close>

text \<open>The life of one session of an automation: each turn starts from what the one before left.\<close>

inductive automation_session :: "engine_env \<Rightarrow> published \<Rightarrow> run_state option \<Rightarrow> bool" for env root where
  opened: "automation_session env root None"
| answered: "automation_session env root previous \<Longrightarrow> executeAutomation env root i previous = Inr r \<Longrightarrow>
    automation_session env root (Some (rr_state r))"

lemma execute_policy: "executeAutomation env root i previous = Inr r \<Longrightarrow> \<exists>policy. publishedDependencyPolicy (pb_graph root) = Inr policy"
  by (auto simp: executeAutomation_def automation_error_def split: if_splits)

lemma result_previous_ok: "result_ok policy k r \<Longrightarrow> previous_ok policy (Some (rr_state r))"
  by (simp add: result_ok_def previous_ok_def)

lemma session_ok:
  assumes "automation_session env root previous" and "resolves_faithfully env" and "publishedDependencyPolicy (pb_graph root) = Inr policy"
  shows "previous_ok policy previous \<and> steps_before previous \<le> 5000"
  using assms(1)
proof (induction rule: automation_session.induct)
  case (answered previous i r)
  from execute_ok [OF assms(2,3) _ answered(2)] answered(3) result_previous_ok [of policy _ r]
  show ?case by (auto simp: result_ok_def steps_before_def)
qed (simp add: previous_ok_def steps_before_def)

text \<open>
  C11: Every turn of a session leaves a result whose parts agree: the effects are numbered from 0 in the
  order they were emitted, the state is within its limits and counts at most 5000 steps, a run that
  waits tells the wait its state holds, and one that is complete or handed over holds neither a wait
  nor a block to go on from.
\<close>

theorem automation_results_are_consistent:
  assumes "resolves_faithfully env" and "automation_session env root previous" and "executeAutomation env root i previous = Inr r"
  shows "map ef_ordinal (rr_effects r) = [0..<length (rr_effects r)] \<and> assertRuntimeState (rr_state r) = None \<and> wait_ok r
    \<and> steps_before previous \<le> rs_steps (rr_state r) \<and> rs_steps (rr_state r) \<le> 5000"
proof -
  obtain policy where "publishedDependencyPolicy (pb_graph root) = Inr policy" using execute_policy [OF assms(3)] ..
  with session_ok [OF assms(2,1)] execute_ok [OF assms(1) _ _ assms(3)] show ?thesis
    by (fastforce simp: result_ok_def ordered_effects_def)
qed

text \<open>
  C12: A subflow never enters an automation that is active: in every session the callers on the stack
  and the automation at work are different, and with the dependency policy at most eight callers wait.
\<close>

theorem subflows_never_recurse:
  assumes "resolves_faithfully env" and "automation_session env root (Some s)"
  shows "distinct (map fr_automation (rs_stack s) @ [rs_automation s])
    \<and> (publishedDependencyPolicy (pb_graph root) = Inr True \<longrightarrow> length (rs_stack s) \<le> SUBFLOW_MAX_DEPTH)"
proof -
  from assms(2) obtain previous i r where "executeAutomation env root i previous = Inr r"
    by (auto elim: automation_session.cases)
  then obtain policy where policy: "publishedDependencyPolicy (pb_graph root) = Inr policy" using execute_policy by blast
  from session_ok [OF assms(2,1) this] policy show ?thesis
    by (auto simp: previous_ok_def stack_ok_def)
qed

section \<open>The answer a wait is for\<close>

definition asks_capture :: "flow_node \<Rightarrow> bool" where
  "asks_capture n \<longleftrightarrow> fn_type n = ''input'' \<and> node_data n ''inputConfigVersion'' \<noteq> None"

definition asks_menu2 :: "flow_node \<Rightarrow> bool" where
  "asks_menu2 n \<longleftrightarrow> fn_type n = ''menu'' \<and> node_data n ''menuConfigVersion'' = Some (JNum 2)"

text \<open>
  What does not answer a wait: any event but the timer, or a timer before its time, for a delay; an
  event that is no result, or the result of another effect, for an effect; an answer admitted for
  another wait, for a question.
\<close>

definition not_the_answer :: "run_input \<Rightarrow> flow_node \<Rightarrow> wait_state \<Rightarrow> bool" where
  "not_the_answer i n w \<longleftrightarrow> (case ws_kind w of
     DELAY \<Rightarrow> ri_event i \<noteq> TIMER \<or> (\<exists>t. ws_wake w = Some t \<and> ri_now i < t)
   | IO \<Rightarrow> ri_event i \<noteq> RESUME \<or> has_effect2 n \<and> map_of (ri_payload i) ''waitId'' \<noteq> map_option JStr (ws_id w)
   | EVENT \<Rightarrow> (asks_capture n \<or> asks_menu2 n) \<and> map_option fst (ri_wait i) \<noteq> ws_id w)"

lemma not_answered_pauses:
  assumes "find_node (pb_graph (lp_pub l)) (ws_node w) = Some n" and "not_the_answer i n w"
    and "resume env format i l w = Inr x"
  shows "\<exists>wr. x = Paused l wr"
proof (cases "ws_kind w")
  case EVENT
  with assms(2) consider "asks_capture n" "map_option fst (ri_wait i) \<noteq> ws_id w" | "asks_menu2 n" "map_option fst (ri_wait i) \<noteq> ws_id w"
    by (auto simp: not_the_answer_def)
  then show ?thesis
  proof cases
    case 1
    with assms(1,3) EVENT have "resume_capture env format i l n w = Inr x"
      by (auto simp: resume_def asks_capture_def automation_error_def split: if_splits)
    with 1(2) show ?thesis by (auto simp: resume_capture_def Let_def automation_error_def split: if_splits)
  next
    case 2
    with assms(1,3) EVENT have "resume_menu2 env i l n w = Inr x"
      by (auto simp: resume_def asks_menu2_def automation_error_def split: if_splits)
    with 2(2) show ?thesis by (auto simp: resume_menu2_def Let_def automation_error_def split: if_splits)
  qed
next
  case DELAY
  with assms(1,3) have "resume_delay i l n w = Inr x" by (auto simp: resume_def automation_error_def split: if_splits)
  with assms(2) DELAY show ?thesis
    by (auto simp: resume_delay_def not_the_answer_def automation_error_def split: if_splits option.splits)
next
  case IO
  with assms(1,3) have io: "resume_io env format i l n w = Inr x" by (auto simp: resume_def automation_error_def split: if_splits)
  show ?thesis
  proof (cases "has_effect2 n")
    case True
    with assms(2) IO io show ?thesis
      by (auto simp: resume_io_def not_the_answer_def automation_error_def Let_def split: if_splits option.splits)
  next
    case False
    with assms(2) IO io show ?thesis by (auto simp: resume_io_def resume_answer_def not_the_answer_def)
  qed
qed

lemma kept_vars_lookup: "kept_vars 2 vs = Inr kept \<Longrightarrow> safeKey k \<Longrightarrow> map_of kept k = map_of vs k"
  by (induction vs arbitrary: kept) (auto simp: runtimeJson_def automation_error_def split: if_splits)

lemma first_state_vars:
  assumes "first_state root i format (Some q) = Inr s"
  shows "(format = 2 \<longrightarrow> (\<forall>k. safeKey k \<and> k \<noteq> ''message'' \<longrightarrow> map_of (rs_vars s) k = map_of (rs_vars q) k)) \<and> rs_waiting s = rs_waiting q"
  using assms by (auto simp: first_state_def kept_vars_lookup split: if_splits)


end
