(* ===== verification/Automation_Demo.thy ===== *)
theory Automation_Demo
  imports Automation_Properties
begin

text \<open>A session over an automation that asks for a name inside a subflow.\<close>

definition block :: "string \<Rightarrow> string \<Rightarrow> block_data \<Rightarrow> flow_node" where
  "block x t d = \<lparr>fn_id = x, fn_type = t, fn_label = x, fn_x = 0, fn_y = 0, fn_data = d\<rparr>"

definition link :: "string \<Rightarrow> string \<Rightarrow> string \<Rightarrow> flow_edge" where
  "link x port t = \<lparr>fe_id = x @ port, fe_source = x, fe_target = t, fe_port = port\<rparr>"

definition main_graph :: flow_graph where
  "main_graph = \<lparr>fg_nodes = [block ''s'' ''start'' [(''dependencyPolicyVersion'', JNum 1)],
     block ''sub'' ''subflow'' [(''automationId'', JStr ''ask''), (''version'', JNum 1)],
     block ''m'' ''message'' [(''text'', JStr ''Oi {{nome}}'')], block ''e'' ''end'' []],
   fg_edges = [link ''s'' ''next'' ''sub'', link ''sub'' ''next'' ''m'', link ''m'' ''next'' ''e'']\<rparr>"

definition ask_graph :: flow_graph where
  "ask_graph = \<lparr>fg_nodes = [block ''s'' ''start'' [], block ''q'' ''input'' [(''inputConfigVersion'', JNum 2), (''variable'', JStr ''nome''),
       (''text'', JStr ''Nome?''), (''inputType'', JStr ''text''), (''maxAttempts'', JNum 2)], block ''e'' ''end'' []],
   fg_edges = [link ''s'' ''next'' ''q'', link ''q'' ''next'' ''e'', link ''q'' ''exhausted'' ''e'']\<rparr>"

definition main_version :: published where
  "main_version = \<lparr>pb_automation = ''main'', pb_version = 3, pb_graph = main_graph, pb_format = Some 2\<rparr>"

definition ask_version :: published where
  "ask_version = \<lparr>pb_automation = ''ask'', pb_version = 1, pb_graph = ask_graph, pb_format = Some 2\<rparr>"

definition engine0 :: engine_env where
  "engine0 = \<lparr>ae_number = (\<lambda>x. case x of Some (JNum k) \<Rightarrow> Some k | _ \<Rightarrow> None), ae_lower = map to_lower, ae_iso = (\<lambda>_. ''''),
     ae_uuid = (\<lambda>k. if k = 0 then ''id0'' else if k = 1 then ''id1'' else ''id2''), ae_is_uuid = (\<lambda>_. True),
     ae_resolve = (\<lambda>a v. if a = ''ask'' \<and> v = Some 1 then Inr ask_version else automation_error ''NOT_FOUND''),
     ae_capture = (\<lambda>t s. if s = '''' then None else Some (JStr s)), ae_media_capture = (\<lambda>_ _. None),
     ae_handoff = Some, ae_effect = Some, ae_media_effect = Some, ae_data_schema = (\<lambda>_ _. True),
     ae_data = (\<lambda>_ _ _ vars. Inr ([], vars)), ae_open = (\<lambda>_ _. Inr True)\<rparr>"

lemma engine0_resolves: "resolves_faithfully engine0"
  by (auto simp: resolves_faithfully_def engine0_def ask_version_def automation_error_def split: if_splits)

definition hears :: "string \<Rightarrow> (string \<times> int option) option \<Rightarrow> run_input" where
  "hears t w = \<lparr>ri_text = t, ri_event = MESSAGE, ri_now = 1000, ri_payload = [], ri_media = None, ri_wait = w, ri_effect_id = None\<rparr>"

lemma hears_media: "ri_media (hears t w) = None"
  by (simp add: hears_def)

definition asked :: run_state where
  "asked = \<lparr>rs_format = Some 2, rs_automation = ''ask'', rs_version = 1, rs_node = Some ''q'', rs_vars = [(''message'', JStr ''oi'')],
     rs_steps = 4, rs_stack = [\<lparr>fr_automation = ''main'', fr_version = 3, fr_return = ''m'', fr_deadline = Some 11000, fr_schema = None,
       fr_child = Some \<lparr>cr_node = ''sub'', cr_automation = ''ask'', cr_version = 1, cr_correlation = ''id0'', cr_input = []\<rparr>\<rparr>],
     rs_waiting = Some \<lparr>ws_kind = EVENT, ws_node = ''q'', ws_wake = None, ws_id = Some ''id1'', ws_deadline = None,
       ws_invalid = Some 0, ws_input3 = False\<rparr>\<rparr>"

text \<open>The turns of the first call, one by one: into the subflow, to its question.\<close>

definition traced :: "string \<Rightarrow> string \<Rightarrow> block_data \<Rightarrow> run_trace" where
  "traced x t out = \<lparr>tr_node = x, tr_type = t, tr_label = x, tr_input = [(''message'', JStr ''oi'')], tr_output = out, tr_live = False\<rparr>"

definition loop0 :: run_loop where
  "loop0 = \<lparr>lp_state = \<lparr>rs_format = Some 2, rs_automation = ''main'', rs_version = 3, rs_node = Some ''s'', rs_vars = [(''message'', JStr ''oi'')],
       rs_steps = 0, rs_stack = [], rs_waiting = None\<rparr>, lp_pub = main_version, lp_effects = [], lp_trace = [], lp_drawn = 0\<rparr>"

definition open_frames :: "run_frame list" where
  "open_frames = [\<lparr>fr_automation = ''main'', fr_version = 3, fr_return = ''m'', fr_deadline = Some 11000, fr_schema = None,
       fr_child = Some \<lparr>cr_node = ''sub'', cr_automation = ''ask'', cr_version = 1, cr_correlation = ''id0'', cr_input = []\<rparr>\<rparr>]"

definition loop1 :: run_loop where
  "loop1 = \<lparr>lp_state = \<lparr>rs_format = Some 2, rs_automation = ''main'', rs_version = 3, rs_node = Some ''sub'', rs_vars = [(''message'', JStr ''oi'')],
       rs_steps = 1, rs_stack = [], rs_waiting = None\<rparr>,
     lp_pub = main_version, lp_effects = [], lp_trace = [traced ''s'' ''start'' []], lp_drawn = 0\<rparr>"

definition loop2 :: run_loop where
  "loop2 = \<lparr>lp_state = \<lparr>rs_format = Some 2, rs_automation = ''ask'', rs_version = 1, rs_node = Some ''sub'', rs_vars = [(''message'', JStr ''oi'')],
       rs_steps = 2, rs_stack = open_frames, rs_waiting = None\<rparr>,
     lp_pub = ask_version, lp_effects = [], lp_trace = [traced ''s'' ''start'' [], traced ''sub'' ''subflow'' [(''automationId'', JStr ''ask''), (''version'', JNum 1),
       (''correlationId'', JStr ''id0''), (''input'', JObj []), (''status'', JStr ''STARTED'')]], lp_drawn = 1\<rparr>"

definition loop3 :: run_loop where
  "loop3 = \<lparr>lp_state = \<lparr>rs_format = Some 2, rs_automation = ''ask'', rs_version = 1, rs_node = Some ''q'', rs_vars = [(''message'', JStr ''oi'')],
       rs_steps = 3, rs_stack = open_frames, rs_waiting = None\<rparr>,
     lp_pub = ask_version, lp_effects = [], lp_trace = [traced ''s'' ''start'' [], traced ''sub'' ''subflow'' [(''automationId'', JStr ''ask''), (''version'', JNum 1),
       (''correlationId'', JStr ''id0''), (''input'', JObj []), (''status'', JStr ''STARTED'')],
       traced ''s'' ''start'' []], lp_drawn = 1\<rparr>"

definition question :: run_result where
  "question = \<lparr>rr_status = WAITING, rr_state = asked,
     rr_effects = [\<lparr>ef_node = ''q'', ef_ordinal = 0, ef_kind = SEND_TEXT, ef_payload = [(''text'', JStr ''Nome?'')]\<rparr>],
     rr_trace = lp_trace loop3 @ [traced ''q'' ''input'' []], rr_wait = Some ((wait_for EVENT ''q'')\<lparr>wr_id := Some ''id1''\<rparr>)\<rparr>"

abbreviation "hi \<equiv> hears ''oi'' None"

lemma turn0: "turn engine0 main_version True 2 hi loop0 (Some ''s'') = Inr (Turned loop1 (Some ''sub''))"
  by code_simp

lemma turn1: "turn engine0 main_version True 2 hi loop1 (Some ''sub'') = Inr (Turned loop2 (Some ''s''))"
  by code_simp

lemma turn2: "turn engine0 main_version True 2 hi loop2 (Some ''s'') = Inr (Turned loop3 (Some ''q''))"
  by code_simp

lemma turn3: "turn engine0 main_version True 2 hi loop3 (Some ''q'') = Inr (Finished question)"
  by code_simp

lemma turns_go: "turn env root p f i l x = Inr (Turned l' x') \<Longrightarrow> 0 < k \<Longrightarrow> turns k env root p f i l x = turns (k - 1) env root p f i l' x'"
  by (cases k) simp_all

lemma turns_end: "turn env root p f i l x = Inr (Finished r) \<Longrightarrow> 0 < k \<Longrightarrow> turns k env root p f i l x = Inr r"
  by (cases k) simp_all

lemma question_turns: "turns 500 engine0 main_version True 2 hi loop0 (Some ''s'') = Inr question"
  by (simp add: turns_go [OF turn0] turns_go [OF turn1] turns_go [OF turn2] turns_end [OF turn3])

lemma first_policy: "publishedDependencyPolicy (pb_graph main_version) = Inr True"
  by code_simp

lemma first_state0: "first_state main_version hi 2 None = Inr (lp_state loop0)"
  by code_simp

lemma loop0_within: "assertRuntimeState (lp_state loop0) = None"
  by code_simp

lemma first_question: "executeAutomation engine0 main_version hi None = Inr question"
proof -
  have l: "loop0 = \<lparr>lp_state = lp_state loop0, lp_pub = main_version, lp_effects = [], lp_trace = [], lp_drawn = 0\<rparr>" by (simp add: loop0_def)
  have "executeAutomation engine0 main_version hi None = turns 500 engine0 main_version True 2 hi loop0 (Some ''s'')"
    unfolding executeAutomation_def first_policy
    by (simp add: hears_media runtimeStateVersion_def main_version_def [THEN arg_cong [of _ _ pb_format]] run_bind_def
        first_state0 loop0_within getPublished_def)
       (simp add: loop0_def main_version_def)
  with question_turns show ?thesis by simp
qed

lemma asked_session: "automation_session engine0 main_version (Some asked)"
  using automation_session.answered [OF automation_session.opened first_question] by (simp add: question_def)

theorem automation_results_are_consistent_witness:
  "executeAutomation engine0 main_version hi None = Inr question \<and> wait_ok question \<and> map ef_ordinal (rr_effects question) = [0]
    \<and> rs_steps (rr_state question) \<le> 5000"
  using first_question automation_results_are_consistent [OF engine0_resolves automation_session.opened first_question]
  by (simp add: question_def)

theorem subflows_never_recurse_witness:
  "map fr_automation (rs_stack asked) = [''main''] \<and> rs_automation asked = ''ask'' \<and> distinct (map fr_automation (rs_stack asked) @ [rs_automation asked])"
  using subflows_never_recurse [OF engine0_resolves asked_session] by (simp add: asked_def)

abbreviation "late \<equiv> hears ''Ana'' (Some (''id9'', Some 2000))"

definition asked_wait :: wait_state where
  "asked_wait = \<lparr>ws_kind = EVENT, ws_node = ''q'', ws_wake = None, ws_id = Some ''id1'', ws_deadline = None, ws_invalid = Some 0, ws_input3 = False\<rparr>"

lemma asked_waits: "rs_waiting asked = Some asked_wait"
  by (simp add: asked_def asked_wait_def)

definition asked_loop :: run_loop where
  "asked_loop = \<lparr>lp_state = asked, lp_pub = ask_version, lp_effects = [], lp_trace = [], lp_drawn = 0\<rparr>"

lemma late_pauses: "resume engine0 2 late \<lparr>lp_state = asked, lp_pub = ask_version, lp_effects = [], lp_trace = [], lp_drawn = 0\<rparr> asked_wait
    = Inr (Paused asked_loop ((wait_for EVENT ''q'')\<lparr>wr_id := Some ''id1''\<rparr>))"
  by code_simp

lemma asked_kept: "first_state main_version late 2 (Some asked) = Inr asked"
  by code_simp

lemma asked_within: "assertRuntimeState asked = None"
  by code_simp

lemma asked_format: "runtimeStateVersion (Some asked) (pb_format main_version) = Inr 2"
  by code_simp

lemma asked_published: "getPublished engine0 main_version (rs_automation asked) (Some (rs_version asked)) = Inr ask_version"
  by (simp add: getPublished_def engine0_def asked_def main_version_def)

lemma executeAutomation_paused:
  assumes "ri_media i = None" "publishedDependencyPolicy (pb_graph root) = Inr policy" "runtimeStateVersion previous (pb_format root) = Inr format"
    "first_state root i format previous = Inr s" "assertRuntimeState s = None"
    "getPublished env root (rs_automation s) (Some (rs_version s)) = Inr pub" "rs_waiting s = Some w"
    "resume env format i \<lparr>lp_state = s, lp_pub = pub, lp_effects = [], lp_trace = [], lp_drawn = 0\<rparr> w = Inr (Paused l' wr)"
  shows "executeAutomation env root i previous = finish WAITING l' (Some wr)"
  using assms by (simp add: executeAutomation_def run_bind_def)

lemma late_answer: "\<exists>r. executeAutomation engine0 main_version late (Some asked) = Inr r"
proof -
  have "executeAutomation engine0 main_version late (Some asked) = finish WAITING asked_loop (Some ((wait_for EVENT ''q'')\<lparr>wr_id := Some ''id1''\<rparr>))"
    by (rule executeAutomation_paused [OF hears_media first_policy asked_format asked_kept asked_within asked_published asked_waits late_pauses])
  moreover have "lp_state asked_loop = asked" by (simp add: asked_loop_def)
  ultimately show ?thesis using asked_within by (simp add: finish_def)
qed


end
