(* ===== verification/Lifecycle.thy ===== *)
theory Lifecycle
  imports Auth_Repository
begin

text \<open>
  The removal of channels and organizations, apps/api/src/modules/lifecycle/service.ts, with the SQL
  functions it calls (drizzle/migrations/0032_lifecycle_deletion.sql, 0038_group_company_removal.sql).
  A request leaves a deletion and one cleanup item for each instance at the provider; a worker takes
  a lease on a deletion, asks the provider to drop each instance, and purges the data. The worker is a
  program of transactions and calls (\<open>prog\<close>), written as \<open>processOne\<close> is, so that workers interleave
  between any two of them. Timestamps are microseconds; a transaction reads the clock as often as its
  statements do. The data of other modules, what they still have pending and the adapters of the
  provider and of private media are parameters of \<open>lifecycle_env\<close>.
\<close>

section \<open>Tables\<close>

datatype deletion_kind = CHANNEL | ORGANIZATION

datatype DeletionStatus = REQUESTED | BLOCKING | CLEANING_EXTERNAL | REMOVING_DATA | COMPLETED | ACTION_REQUIRED

datatype actor_table = TENANT | PLATFORM

datatype item_status = TO_DELETE | IN_FLIGHT | GONE | ATTENTION

record deletion_row =
  dl_id :: string
  dl_org :: string
  dl_kind :: deletion_kind
  dl_resource :: string
  dl_name :: "string option"
  dl_actorKind :: actor_table
  dl_actor :: string
  dl_reason :: "string option"
  dl_status :: DeletionStatus
  dl_error :: "string option"
  dl_lease :: "string option"
  dl_expires :: "int option"
  dl_requested :: int
  dl_reconcile :: bool

record cleanup_item =
  cu_deletion :: string
  cu_instance :: string
  cu_key :: string
  cu_status :: item_status
  cu_attempts :: nat
  cu_error :: "string option"

record platform_user =
  pu_id :: string
  pu_super :: bool
  pu_active :: bool

record lifecycle_db =
  lc_deletions :: "deletion_row list"
  lc_items :: "cleanup_item list"
  lc_users :: "user_row list"
  lc_members :: "member_row list"
  lc_platform :: "platform_user list"

text \<open>
  The moment of a transaction: its readings of the clock, the first when it starts, and the rows that
  others hold locked. A call for cleanup names the deletion, the lease and the instance.
\<close>

record tx_moment =
  tm_clock :: "nat \<Rightarrow> int"
  tm_locked :: "string \<Rightarrow> bool"

record CleanupDispatchContext =
  cx_deletion :: string
  cx_lease :: string
  cx_instance :: string

datatype media_state = MEDIA_COMPLETE | MEDIA_PENDING | MEDIA_UNKNOWN

text \<open>
  \<open>le_assert\<close> refuses a cleanup whose binding changed, \<open>le_exists\<close> and \<open>le_media\<close> tell whether those
  adapters are configured, \<open>le_refuse\<close> is what a purge finds pending in other tables, \<open>le_channel\<close> and
  \<open>le_company\<close> the names and instances a request finds (the key of a Meta channel is absent),
  \<open>le_pending\<close> what a request finds pending; they answer for the moment of the transaction.
\<close>

record lifecycle_env =
  le_assert :: "tx_moment \<Rightarrow> CleanupDispatchContext \<Rightarrow> bool \<Rightarrow> js_error option"
  le_exists :: bool
  le_media :: bool
  le_refuse :: "tx_moment \<Rightarrow> string \<Rightarrow> js_error option"
  le_channel :: "tx_moment \<Rightarrow> string \<Rightarrow> string \<Rightarrow> (string \<times> string option) option"
  le_company :: "tx_moment \<Rightarrow> string \<Rightarrow> (string \<times> (string \<times> string) list) option"
  le_pending :: "tx_moment \<Rightarrow> string \<Rightarrow> string \<Rightarrow> js_error option"

definition lease_time :: int where "lease_time = 600000000"

definition set_deletions :: "(deletion_row \<Rightarrow> bool) \<Rightarrow> (deletion_row \<Rightarrow> deletion_row) \<Rightarrow> lifecycle_db \<Rightarrow> lifecycle_db" where
  "set_deletions p f s = s\<lparr>lc_deletions := update_rows p f (lc_deletions s)\<rparr>"

definition set_items :: "string \<Rightarrow> string \<Rightarrow> (cleanup_item \<Rightarrow> cleanup_item) \<Rightarrow> lifecycle_db \<Rightarrow> lifecycle_db" where
  "set_items d i f s = s\<lparr>lc_items := update_rows (\<lambda>x. cu_deletion x = d \<and> cu_instance x = i) f (lc_items s)\<rparr>"

definition leased :: "string \<Rightarrow> string \<Rightarrow> deletion_row \<Rightarrow> bool" where
  "leased d lease r \<longleftrightarrow> dl_id r = d \<and> dl_lease r = Some lease"

definition alive :: "int \<Rightarrow> deletion_row \<Rightarrow> bool" where
  "alive now r \<longleftrightarrow> (case dl_expires r of None \<Rightarrow> False | Some e \<Rightarrow> now < e)"

section \<open>Errors\<close>

definition lease_lost :: js_error where
  "lease_lost = LifecycleError ''LIFECYCLE_LEASE_LOST'' 409"

definition actor_revoked :: js_error where
  "actor_revoked = LifecycleError ''LIFECYCLE_ACTOR_REVOKED'' 403"

fun translateError :: "js_error \<Rightarrow> js_error" where
  "translateError (LifecycleError c n) = LifecycleError c n"
| "translateError (DatabaseError code con) =
    (if code = ''P0002'' then LifecycleError ''LIFECYCLE_RESOURCE_NOT_FOUND'' 404
     else if code = ''42501'' then LifecycleError ''LIFECYCLE_FORBIDDEN'' 403
     else if con = ''lifecycle_pending_work'' then LifecycleError ''LIFECYCLE_PENDING_WORK'' 409
     else if con = ''lifecycle_conflict'' then LifecycleError ''LIFECYCLE_CONFLICT'' 409
     else if con = ''channel_deletion_in_progress'' then LifecycleError ''CHANNEL_DELETION_IN_PROGRESS'' 409
     else LifecycleError ''LIFECYCLE_UNAVAILABLE'' 503)"
| "translateError _ = LifecycleError ''LIFECYCLE_UNAVAILABLE'' 503"

section \<open>Who may remove\<close>

definition tenant_may :: "string \<Rightarrow> string \<Rightarrow> lifecycle_db \<Rightarrow> bool" where
  "tenant_may org actor s \<longleftrightarrow> list_ex (\<lambda>m. mb_org m = org \<and> mb_user m = actor \<and> mb_status m = ACTIVE \<and> mb_role m \<in> {OWNER, ADMIN}
     \<and> list_ex (\<lambda>u. us_id u = actor \<and> us_status u = ACTIVE) (lc_users s)) (lc_members s)"

definition platform_may :: "string \<Rightarrow> lifecycle_db \<Rightarrow> bool" where
  "platform_may actor s \<longleftrightarrow> list_ex (\<lambda>u. pu_id u = actor \<and> pu_super u \<and> pu_active u) (lc_platform s)"

definition actor_may :: "deletion_row \<Rightarrow> lifecycle_db \<Rightarrow> bool" where
  "actor_may r s \<longleftrightarrow> (if dl_actorKind r = PLATFORM then platform_may (dl_actor r) s else tenant_may (dl_org r) (dl_actor r) s)"

definition actorAuthorized :: "int \<Rightarrow> string \<Rightarrow> string \<Rightarrow> lifecycle_db \<Rightarrow> bool" where
  "actorAuthorized now d lease s \<longleftrightarrow> (case find (\<lambda>r. leased d lease r \<and> alive now r) (lc_deletions s) of
     None \<Rightarrow> False | Some r \<Rightarrow> actor_may r s)"

section \<open>Requests\<close>

definition btrim :: "string \<Rightarrow> string" where
  "btrim t = rev (dropWhile (\<lambda>c. c = CHR '' '') (rev (dropWhile (\<lambda>c. c = CHR '' '') t)))"

definition reason_ok :: "string \<Rightarrow> bool" where
  "reason_ok t \<longleftrightarrow> 5 \<le> length (btrim t) \<and> length (btrim t) \<le> 500"

definition db_throw :: "string \<Rightarrow> string \<Rightarrow> (lifecycle_db, 'a) tx" where
  "db_throw code con = tx_throw (DatabaseError code con)"

definition requested_anew :: "actor_table \<Rightarrow> string \<Rightarrow> string \<Rightarrow> deletion_row \<Rightarrow> deletion_row" where
  "requested_anew kind actor reason r = r\<lparr>dl_status := REQUESTED, dl_error := None, dl_lease := None, dl_expires := None,
     dl_actorKind := kind, dl_actor := actor, dl_reason := Some reason\<rparr>"

text \<open>A deletion and its items are written together; a primary key or unique key may refuse them.\<close>

definition insert_deletion :: "deletion_row \<Rightarrow> (string \<times> string) list \<Rightarrow> (lifecycle_db, string) tx" where
  "insert_deletion r instances s =
    (if dl_id r \<in> dl_id ` set (lc_deletions s) \<or> \<not> distinct (map fst instances)
        \<or> (\<exists>x \<in> set (lc_deletions s). dl_kind x = dl_kind r \<and> dl_resource x = dl_resource r) then Inl (DatabaseError ''23505'' '''')
     else Inr (dl_id r, s\<lparr>lc_deletions := lc_deletions s @ [r],
       lc_items := lc_items s @ map (\<lambda>(i, k). \<lparr>cu_deletion = dl_id r, cu_instance = i, cu_key = k, cu_status = TO_DELETE,
         cu_attempts = 0, cu_error = None\<rparr>) instances\<rparr>))"

definition new_deletion :: "tx_moment \<Rightarrow> string \<Rightarrow> string \<Rightarrow> deletion_kind \<Rightarrow> string \<Rightarrow> string \<Rightarrow> actor_table \<Rightarrow> string \<Rightarrow> string \<Rightarrow> deletion_row" where
  "new_deletion m fresh org kind resource name actorKind actor reason =
    \<lparr>dl_id = fresh, dl_org = org, dl_kind = kind, dl_resource = resource, dl_name = Some name, dl_actorKind = actorKind, dl_actor = actor,
     dl_reason = Some reason, dl_status = REQUESTED, dl_error = None, dl_lease = None, dl_expires = None,
     dl_requested = tm_clock m 0, dl_reconcile = False\<rparr>"

definition open_deletion :: "deletion_kind \<Rightarrow> deletion_row \<Rightarrow> bool" where
  "open_deletion kind r \<longleftrightarrow> dl_kind r = kind \<and> dl_status r \<noteq> COMPLETED"

definition lifecycle_request_channel ::
  "lifecycle_env \<Rightarrow> tx_moment \<Rightarrow> string \<Rightarrow> string \<Rightarrow> string \<Rightarrow> string \<Rightarrow> string \<Rightarrow> actor_table \<Rightarrow> string \<Rightarrow> (lifecycle_db, string) tx" where
  "lifecycle_request_channel env m fresh org resource name reason actorKind actor s =
    (if \<not> reason_ok reason then db_throw ''42501'' '''' s
     else if list_ex (\<lambda>r. open_deletion ORGANIZATION r \<and> dl_resource r = org) (lc_deletions s) then db_throw ''23514'' ''lifecycle_conflict'' s
     else if \<not> (case actorKind of TENANT \<Rightarrow> tenant_may org actor s | PLATFORM \<Rightarrow> platform_may actor s) then db_throw ''42501'' '''' s
     else (case find (\<lambda>r. dl_kind r = CHANNEL \<and> dl_resource r = resource) (lc_deletions s) of
        Some r \<Rightarrow>
          if dl_org r \<noteq> org \<or> dl_name r \<noteq> Some name then db_throw ''P0002'' '''' s
          else if dl_status r = ACTION_REQUIRED
          then Inr (dl_id r, set_deletions (\<lambda>x. dl_id x = dl_id r) (requested_anew actorKind actor reason) s)
          else Inr (dl_id r, s)
      | None \<Rightarrow>
          (case le_channel env m org resource of
             None \<Rightarrow> db_throw ''P0002'' '''' s
           | Some (label, key) \<Rightarrow>
               if label \<noteq> name then db_throw ''P0002'' '''' s
               else (case le_pending env m org resource of Some e \<Rightarrow> Inl e
                 | None \<Rightarrow> insert_deletion (new_deletion m fresh org CHANNEL resource name actorKind actor reason)
                     (case key of None \<Rightarrow> [] | Some k \<Rightarrow> [(resource, k)]) s))))"

definition lifecycle_request_organization ::
  "lifecycle_env \<Rightarrow> tx_moment \<Rightarrow> string \<Rightarrow> string \<Rightarrow> string \<Rightarrow> string \<Rightarrow> string \<Rightarrow> (lifecycle_db, string) tx" where
  "lifecycle_request_organization env m fresh org name reason actor s =
    (if \<not> reason_ok reason \<or> \<not> platform_may actor s then db_throw ''42501'' '''' s
     else if list_ex (\<lambda>r. open_deletion CHANNEL r \<and> dl_org r = org) (lc_deletions s) then db_throw ''23514'' ''lifecycle_conflict'' s
     else (case find (\<lambda>r. dl_kind r = ORGANIZATION \<and> dl_resource r = org) (lc_deletions s) of
        Some r \<Rightarrow>
          if dl_name r \<noteq> Some name then db_throw ''P0002'' '''' s
          else if dl_status r = ACTION_REQUIRED
          then Inr (dl_id r, set_deletions (\<lambda>x. dl_id x = dl_id r) (requested_anew (dl_actorKind r) actor reason) s)
          else Inr (dl_id r, s)
      | None \<Rightarrow>
          (case le_company env m org of
             None \<Rightarrow> db_throw ''P0002'' '''' s
           | Some (label, instances) \<Rightarrow>
               if label \<noteq> name then db_throw ''P0002'' '''' s
               else (case le_pending env m org org of Some e \<Rightarrow> Inl e
                 | None \<Rightarrow> insert_deletion (new_deletion m fresh org ORGANIZATION org name PLATFORM actor reason) instances s))))"

definition lifecycle_request_reconciliation ::
  "string \<Rightarrow> string \<Rightarrow> string \<Rightarrow> string \<Rightarrow> actor_table \<Rightarrow> string \<Rightarrow> (lifecycle_db, string) tx" where
  "lifecycle_request_reconciliation org resource operation reason actorKind actor s =
    (if \<not> reason_ok reason then db_throw ''42501'' '''' s
     else if \<not> (case actorKind of TENANT \<Rightarrow> tenant_may org actor s | PLATFORM \<Rightarrow> platform_may actor s) then db_throw ''42501'' '''' s
     else (case find (\<lambda>r. dl_id r = operation \<and> dl_org r = org \<and> dl_resource r = resource) (lc_deletions s) of
        None \<Rightarrow> db_throw ''P0002'' '''' s
      | Some r \<Rightarrow>
          if actorKind = TENANT \<and> dl_kind r \<noteq> CHANNEL then db_throw ''42501'' '''' s
          else if dl_reconcile r \<and> dl_status r \<in> {REQUESTED, CLEANING_EXTERNAL} then Inr (dl_id r, s)
          else if dl_status r \<noteq> ACTION_REQUIRED
              \<or> (case dl_error r of None \<Rightarrow> False
                  | Some c \<Rightarrow> c \<notin> {''EVOLUTION_CLEANUP_UNVERIFIED'', ''EVOLUTION_INSTANCE_STILL_PRESENT''})
          then db_throw ''23514'' ''lifecycle_conflict'' s
          else Inr (dl_id r, set_deletions (\<lambda>x. dl_id x = dl_id r) (\<lambda>x. (requested_anew actorKind actor reason x)\<lparr>dl_reconcile := True\<rparr>) s)))"

text \<open>The service answers a request with the state of the operation, and its errors in its own words.\<close>

definition deletion_status :: "string \<Rightarrow> (lifecycle_db, string \<times> DeletionStatus) tx" where
  "deletion_status d s = (case find (\<lambda>r. dl_id r = d) (lc_deletions s) of
     None \<Rightarrow> Inl (PlainError ''TypeError'') | Some r \<Rightarrow> Inr ((d, dl_status r), s))"

definition secure :: "(lifecycle_db, 'a) tx \<Rightarrow> (lifecycle_db, 'a) tx" where
  "secure t = tx_map_error translateError t"

definition requestChannel ::
  "lifecycle_env \<Rightarrow> tx_moment \<Rightarrow> string \<Rightarrow> string \<Rightarrow> string \<Rightarrow> string \<Rightarrow> string \<Rightarrow> actor_table \<Rightarrow> string \<Rightarrow> (lifecycle_db, string \<times> DeletionStatus) tx" where
  "requestChannel env m fresh org resource name reason actorKind actor =
    secure (tx_bind (lifecycle_request_channel env m fresh org resource name reason actorKind actor) deletion_status)"

definition requestOrganization ::
  "lifecycle_env \<Rightarrow> tx_moment \<Rightarrow> string \<Rightarrow> string \<Rightarrow> string \<Rightarrow> string \<Rightarrow> string \<Rightarrow> (lifecycle_db, string \<times> DeletionStatus) tx" where
  "requestOrganization env m fresh org name reason actor =
    secure (tx_bind (lifecycle_request_organization env m fresh org name reason actor) deletion_status)"

definition requestReconciliation ::
  "string \<Rightarrow> string \<Rightarrow> string \<Rightarrow> string \<Rightarrow> actor_table \<Rightarrow> string \<Rightarrow> (lifecycle_db, string \<times> DeletionStatus) tx" where
  "requestReconciliation org resource operation reason actorKind actor =
    secure (tx_bind (lifecycle_request_reconciliation org resource operation reason actorKind actor) deletion_status)"

definition status :: "string \<Rightarrow> string \<Rightarrow> string \<Rightarrow> (lifecycle_db, string \<times> DeletionStatus \<times> string option) tx" where
  "status org resource operation = secure (\<lambda>s.
    case find (\<lambda>r. dl_org r = org \<and> dl_resource r = resource \<and> dl_id r = operation) (lc_deletions s) of
      None \<Rightarrow> Inl (LifecycleError ''LIFECYCLE_RESOURCE_NOT_FOUND'' 404)
    | Some r \<Rightarrow> Inr ((dl_id r, dl_status r, dl_error r), s))"

end
