(* ===== verification/Lifecycle_Worker.thy ===== *)
theory Lifecycle_Worker
  imports Lifecycle
begin

text \<open>
  The worker of apps/api/src/modules/lifecycle/service.ts: the transactions of \<open>processOne\<close>, the
  purge of drizzle/migrations/0032_lifecycle_deletion.sql as far as it concerns the tables of this
  component, and the worker as a program.
\<close>

section \<open>Transactions\<close>

record work_row =
  wk_id :: string
  wk_org :: string
  wk_kind :: deletion_kind
  wk_reconcile :: bool

definition claimable_deletion :: "tx_moment \<Rightarrow> deletion_row \<Rightarrow> bool" where
  "claimable_deletion m r \<longleftrightarrow> \<not> tm_locked m (dl_id r) \<and> (dl_status r = REQUESTED
     \<or> dl_status r \<in> {BLOCKING, CLEANING_EXTERNAL, REMOVING_DATA} \<and> (case dl_expires r of None \<Rightarrow> False | Some e \<Rightarrow> e < tm_clock m 1))"

definition earliest :: "deletion_row list \<Rightarrow> deletion_row option" where
  "earliest rs = (case sort_key (\<lambda>r. (dl_requested r, dl_id r)) rs of [] \<Rightarrow> None | r # _ \<Rightarrow> Some r)"

definition claimDeletion :: "tx_moment \<Rightarrow> string \<Rightarrow> (lifecycle_db, work_row option) tx" where
  "claimDeletion m lease s = (case earliest (filter (claimable_deletion m) (lc_deletions s)) of
     None \<Rightarrow> Inr (None, s)
   | Some r \<Rightarrow> Inr (Some \<lparr>wk_id = dl_id r, wk_org = dl_org r, wk_kind = dl_kind r, wk_reconcile = dl_reconcile r\<rparr>,
       set_deletions (\<lambda>x. dl_id x = dl_id r) (\<lambda>x. x\<lparr>dl_status := CLEANING_EXTERNAL, dl_lease := Some lease,
         dl_expires := Some (tm_clock m 2 + lease_time), dl_error := None\<rparr>) s))"

definition lockCurrentLease :: "tx_moment \<Rightarrow> string \<Rightarrow> string \<Rightarrow> (lifecycle_db, unit) tx" where
  "lockCurrentLease m d lease s =
    (if \<not> list_ex (leased d lease) (lc_deletions s) then Inl lease_lost
     else if \<not> list_ex (\<lambda>r. leased d lease r \<and> alive (tm_clock m 1) r \<and> dl_status r \<in> {CLEANING_EXTERNAL, REMOVING_DATA}) (lc_deletions s)
     then Inl lease_lost else Inr ((), s))"

text \<open>The updates that need the lease alive throw where no row is changed.\<close>

definition update_alive :: "int \<Rightarrow> string \<Rightarrow> string \<Rightarrow> (deletion_row \<Rightarrow> deletion_row) \<Rightarrow> (lifecycle_db, unit) tx" where
  "update_alive now d lease f s =
    (if list_ex (\<lambda>r. leased d lease r \<and> alive now r) (lc_deletions s)
     then Inr ((), set_deletions (\<lambda>r. leased d lease r \<and> alive now r) f s) else Inl lease_lost)"

definition let_go :: "DeletionStatus \<Rightarrow> deletion_row \<Rightarrow> deletion_row" where
  "let_go st r = r\<lparr>dl_status := st, dl_lease := None, dl_expires := None\<rparr>"

definition require_action :: "bool \<Rightarrow> string \<Rightarrow> string \<Rightarrow> string \<Rightarrow> (lifecycle_db, unit) tx" where
  "require_action ends_reconciliation code d lease = tx_modify (set_deletions (leased d lease)
     (\<lambda>r. (let_go ACTION_REQUIRED r)\<lparr>dl_error := Some code, dl_reconcile := (if ends_reconciliation then False else dl_reconcile r)\<rparr>))"

definition check_actor :: "tx_moment \<Rightarrow> string \<Rightarrow> string \<Rightarrow> (lifecycle_db, unit) tx" where
  "check_actor m d lease s = (if actorAuthorized (tm_clock m 2) d lease s then Inr ((), s) else Inl actor_revoked)"

definition guarded :: "tx_moment \<Rightarrow> string \<Rightarrow> string \<Rightarrow> (lifecycle_db, unit) tx" where
  "guarded m d lease = tx_bind (lockCurrentLease m d lease) (\<lambda>_. check_actor m d lease)"

definition authorize_deletion :: "tx_moment \<Rightarrow> string \<Rightarrow> string \<Rightarrow> (lifecycle_db, bool) tx" where
  "authorize_deletion m d lease = tx_bind (lockCurrentLease m d lease) (\<lambda>_. tx_gets (actorAuthorized (tm_clock m 2) d lease))"

definition read_items :: "string \<Rightarrow> (lifecycle_db, cleanup_item list) tx" where
  "read_items d = tx_gets (\<lambda>s. sort_key cu_instance (filter (\<lambda>x. cu_deletion x = d) (lc_items s)))"

definition may_deprovision :: "tx_moment \<Rightarrow> string \<Rightarrow> string \<Rightarrow> (lifecycle_db, bool) tx" where
  "may_deprovision m d lease =
    tx_bind (lockCurrentLease m d lease) (\<lambda>_.
    tx_bind (update_alive (tm_clock m 2) d lease (\<lambda>r. r\<lparr>dl_expires := Some (tm_clock m 3 + lease_time)\<rparr>)) (\<lambda>_.
    tx_bind (tx_gets (actorAuthorized (tm_clock m 4) d lease)) (\<lambda>ok.
    if ok then tx_return True
    else tx_bind (require_action False ''LIFECYCLE_ACTOR_REVOKED'' d lease) (\<lambda>_. tx_return False))))"

definition asserted :: "lifecycle_env \<Rightarrow> tx_moment \<Rightarrow> CleanupDispatchContext \<Rightarrow> bool \<Rightarrow> (lifecycle_db, unit) tx" where
  "asserted env m cx mutation s = (case le_assert env m cx mutation of Some e \<Rightarrow> Inl e | None \<Rightarrow> Inr ((), s))"

definition settle_found :: "lifecycle_env \<Rightarrow> tx_moment \<Rightarrow> CleanupDispatchContext \<Rightarrow> bool \<Rightarrow> (lifecycle_db, unit) tx" where
  "settle_found env m cx exists =
    tx_bind (guarded m (cx_deletion cx) (cx_lease cx)) (\<lambda>_.
    tx_bind (asserted env m cx False) (\<lambda>_.
    tx_modify (set_items (cx_deletion cx) (cx_instance cx) (\<lambda>x. x\<lparr>cu_status := (if exists then TO_DELETE else GONE), cu_error := None\<rparr>))))"

definition begin_delete :: "tx_moment \<Rightarrow> CleanupDispatchContext \<Rightarrow> (lifecycle_db, unit) tx" where
  "begin_delete m cx =
    tx_bind (guarded m (cx_deletion cx) (cx_lease cx)) (\<lambda>_.
    tx_modify (set_items (cx_deletion cx) (cx_instance cx)
      (\<lambda>x. if cu_status x = TO_DELETE then x\<lparr>cu_status := IN_FLIGHT, cu_attempts := cu_attempts x + 1\<rparr> else x)))"

definition delete_failed :: "tx_moment \<Rightarrow> CleanupDispatchContext \<Rightarrow> (lifecycle_db, unit) tx" where
  "delete_failed m cx s =
    (case lockCurrentLease m (cx_deletion cx) (cx_lease cx) s of
       Inl e \<Rightarrow> if e = lease_lost then Inr ((), s) else Inl e
     | Inr _ \<Rightarrow> tx_bind (tx_modify (set_items (cx_deletion cx) (cx_instance cx)
           (\<lambda>x. x\<lparr>cu_status := ATTENTION, cu_error := Some ''EVOLUTION_CLEANUP_UNVERIFIED''\<rparr>)))
         (\<lambda>_. require_action False ''EVOLUTION_CLEANUP_UNVERIFIED'' (cx_deletion cx) (cx_lease cx)) s)"

definition delete_done :: "lifecycle_env \<Rightarrow> tx_moment \<Rightarrow> CleanupDispatchContext \<Rightarrow> (lifecycle_db, unit) tx" where
  "delete_done env m cx =
    tx_bind (lockCurrentLease m (cx_deletion cx) (cx_lease cx)) (\<lambda>_.
    tx_bind (asserted env m cx True) (\<lambda>_.
    tx_modify (set_items (cx_deletion cx) (cx_instance cx) (\<lambda>x. x\<lparr>cu_status := GONE, cu_error := None\<rparr>))))"

definition still_present :: "string \<Rightarrow> (lifecycle_db, bool) tx" where
  "still_present d = tx_gets (\<lambda>s. list_ex (\<lambda>x. cu_deletion x = d \<and> cu_status x \<noteq> GONE) (lc_items s))"

definition yield_deletion :: "tx_moment \<Rightarrow> string \<Rightarrow> string \<Rightarrow> (lifecycle_db, unit) tx" where
  "yield_deletion m d lease = tx_bind (guarded m d lease) (\<lambda>_. update_alive (tm_clock m 3) d lease (let_go REQUESTED))"

section \<open>The purge\<close>

definition lifecycle_validate_purge :: "tx_moment \<Rightarrow> string \<Rightarrow> string \<Rightarrow> deletion_kind \<Rightarrow> (lifecycle_db, deletion_row) tx" where
  "lifecycle_validate_purge m d lease kind s =
    (case find (\<lambda>r. dl_id r = d) (lc_deletions s) of
       None \<Rightarrow> db_throw ''23514'' ''lifecycle_operation_not_ready'' s
     | Some r \<Rightarrow>
        if dl_kind r \<noteq> kind \<or> dl_status r \<noteq> REMOVING_DATA \<or> dl_lease r \<noteq> Some lease \<or> \<not> alive (tm_clock m 0) r
        then db_throw ''23514'' ''lifecycle_operation_not_ready'' s
        else if \<not> (case dl_actorKind r of
            TENANT \<Rightarrow> dl_kind r = CHANNEL \<and> tenant_may (dl_org r) (dl_actor r) s | PLATFORM \<Rightarrow> platform_may (dl_actor r) s)
        then db_throw ''42501'' '''' s
        else if list_ex (\<lambda>x. cu_deletion x = d \<and> cu_status x \<noteq> GONE) (lc_items s) then db_throw ''23514'' ''lifecycle_external_pending'' s
        else if \<not> alive (tm_clock m 4) r then db_throw ''23514'' ''lifecycle_operation_not_ready'' s
        else Inr (r, s))"

text \<open>An organization goes with its memberships, and with the users that belong to no other.\<close>

definition drop_members :: "string \<Rightarrow> lifecycle_db \<Rightarrow> lifecycle_db" where
  "drop_members org s =
    (let rest = filter (\<lambda>m. mb_org m \<noteq> org) (lc_members s);
         candidates = map mb_user (filter (\<lambda>m. mb_org m = org) (lc_members s))
     in s\<lparr>lc_members := rest, lc_users := filter (\<lambda>u. us_id u \<notin> set candidates \<or> us_id u \<in> mb_user ` set rest) (lc_users s)\<rparr>)"

definition lifecycle_purge :: "lifecycle_env \<Rightarrow> tx_moment \<Rightarrow> string \<Rightarrow> string \<Rightarrow> deletion_kind \<Rightarrow> (lifecycle_db, unit) tx" where
  "lifecycle_purge env m d lease kind =
    tx_bind (lifecycle_validate_purge m d lease kind) (\<lambda>r s.
    case le_refuse env m d of Some e \<Rightarrow> Inl e
    | None \<Rightarrow>
       (let s1 = (if kind = ORGANIZATION then drop_members (dl_org r) s else s);
            s2 = s1\<lparr>lc_items := filter (\<lambda>x. cu_deletion x \<noteq> d) (lc_items s1)\<rparr>
        in Inr ((), set_deletions (\<lambda>x. dl_id x = d)
             (\<lambda>x. (let_go COMPLETED x)\<lparr>dl_name := None, dl_reason := None, dl_error := None\<rparr>) s2)))"

definition purge :: "lifecycle_env \<Rightarrow> tx_moment \<Rightarrow> work_row \<Rightarrow> string \<Rightarrow> (lifecycle_db, unit) tx" where
  "purge env m w lease =
    tx_bind (guarded m (wk_id w) lease) (\<lambda>_.
    tx_bind (update_alive (tm_clock m 3) (wk_id w) lease (\<lambda>r. r\<lparr>dl_status := REMOVING_DATA\<rparr>)) (\<lambda>_.
    lifecycle_purge env m (wk_id w) lease (wk_kind w)))"

section \<open>Programs\<close>

text \<open>
  A program returns, throws, runs a transaction or calls an adapter. A transaction gives the next
  state and, from what it saw, the rest of the program; the last argument is the rest where the
  connection fails. A call goes on with its answer: whether a deletion returned, what a lookup
  found, what became of private media (absent where the adapter threw).
\<close>

datatype prog =
    Returned bool
  | Threw js_error
  | Transact "tx_moment \<Rightarrow> lifecycle_db \<Rightarrow> lifecycle_db" "tx_moment \<Rightarrow> lifecycle_db \<Rightarrow> prog" "js_error \<Rightarrow> prog"
  | Deprovision string string CleanupDispatchContext "bool \<Rightarrow> prog"
  | InstanceExists string string CleanupDispatchContext "bool option \<Rightarrow> prog"
  | CleanupMedia string string "media_state option \<Rightarrow> prog"

definition transact :: "(tx_moment \<Rightarrow> (lifecycle_db, 'a) tx) \<Rightarrow> (js_error \<Rightarrow> prog) \<Rightarrow> ('a \<Rightarrow> prog) \<Rightarrow> prog" where
  "transact t catch k = Transact (\<lambda>m s. snd (run_tx (t m) s))
     (\<lambda>m s. case fst (run_tx (t m) s) of Inl e \<Rightarrow> catch e | Inr a \<Rightarrow> k a) catch"

section \<open>The worker\<close>

definition cleanup_context :: "work_row \<Rightarrow> string \<Rightarrow> cleanup_item \<Rightarrow> CleanupDispatchContext" where
  "cleanup_context w lease x = \<lparr>cx_deletion = wk_id w, cx_lease = lease, cx_instance = cu_instance x\<rparr>"

definition attention :: "work_row \<Rightarrow> string \<Rightarrow> (js_error \<Rightarrow> prog) \<Rightarrow> string \<Rightarrow> prog" where
  "attention w lease catch code = transact (\<lambda>_. require_action True code (wk_id w) lease) catch (\<lambda>_. Returned True)"

definition reconcile_item :: "lifecycle_env \<Rightarrow> work_row \<Rightarrow> string \<Rightarrow> (js_error \<Rightarrow> prog) \<Rightarrow> cleanup_item \<Rightarrow> prog \<Rightarrow> prog" where
  "reconcile_item env w lease catch x rest =
    (if cu_status x = TO_DELETE then rest
     else if \<not> le_exists env then attention w lease catch ''EVOLUTION_CLEANUP_UNVERIFIED''
     else InstanceExists (wk_org w) (cu_key x) (cleanup_context w lease x) (\<lambda>answer. case answer of
         None \<Rightarrow> attention w lease catch ''EVOLUTION_CLEANUP_UNVERIFIED''
       | Some exists \<Rightarrow> transact (\<lambda>m. settle_found env m (cleanup_context w lease x) exists) catch (\<lambda>_. rest)))"

definition delete_item :: "lifecycle_env \<Rightarrow> work_row \<Rightarrow> string \<Rightarrow> (js_error \<Rightarrow> prog) \<Rightarrow> cleanup_item \<Rightarrow> prog \<Rightarrow> prog" where
  "delete_item env w lease catch x rest =
    (if cu_status x \<noteq> TO_DELETE then attention w lease catch ''EVOLUTION_CLEANUP_UNVERIFIED''
     else transact (\<lambda>m. begin_delete m (cleanup_context w lease x)) catch (\<lambda>_.
       Deprovision (wk_org w) (cu_key x) (cleanup_context w lease x) (\<lambda>returned.
         if returned then transact (\<lambda>m. delete_done env m (cleanup_context w lease x)) catch (\<lambda>_. rest)
         else transact (\<lambda>m. delete_failed m (cleanup_context w lease x)) catch (\<lambda>_. Returned True))))"

fun clean_items :: "lifecycle_env \<Rightarrow> work_row \<Rightarrow> string \<Rightarrow> (js_error \<Rightarrow> prog) \<Rightarrow> prog \<Rightarrow> cleanup_item list \<Rightarrow> prog" where
  "clean_items env w lease catch after [] = after"
| "clean_items env w lease catch after (x # xs) =
    (if cu_status x = GONE then clean_items env w lease catch after xs
     else transact (\<lambda>m. may_deprovision m (wk_id w) lease) catch (\<lambda>may.
       if \<not> may then Returned True
       else if wk_reconcile w then reconcile_item env w lease catch x (clean_items env w lease catch after xs)
       else delete_item env w lease catch x (clean_items env w lease catch after xs)))"

definition purge_data :: "lifecycle_env \<Rightarrow> work_row \<Rightarrow> string \<Rightarrow> (js_error \<Rightarrow> prog) \<Rightarrow> prog" where
  "purge_data env w lease catch = transact (\<lambda>m. purge env m w lease) catch (\<lambda>_. Returned True)"

definition clean_media :: "lifecycle_env \<Rightarrow> work_row \<Rightarrow> string \<Rightarrow> (js_error \<Rightarrow> prog) \<Rightarrow> prog" where
  "clean_media env w lease catch =
    (if \<not> le_media env then purge_data env w lease catch
     else transact (\<lambda>m. guarded m (wk_id w) lease) catch (\<lambda>_.
       CleanupMedia (wk_id w) lease (\<lambda>answer. case answer of
         None \<Rightarrow> attention w lease catch ''MEDIA_PRIVATE_CLEANUP_UNVERIFIED''
       | Some MEDIA_UNKNOWN \<Rightarrow> attention w lease catch ''MEDIA_PRIVATE_CLEANUP_UNVERIFIED''
       | Some MEDIA_PENDING \<Rightarrow> transact (\<lambda>m. yield_deletion m (wk_id w) lease) catch (\<lambda>_. Returned True)
       | Some MEDIA_COMPLETE \<Rightarrow> purge_data env w lease catch)))"

definition after_items :: "lifecycle_env \<Rightarrow> work_row \<Rightarrow> string \<Rightarrow> (js_error \<Rightarrow> prog) \<Rightarrow> prog" where
  "after_items env w lease catch =
    (if wk_reconcile w then transact (\<lambda>_. still_present (wk_id w)) catch (\<lambda>pending.
       if pending then attention w lease catch ''EVOLUTION_INSTANCE_STILL_PRESENT'' else clean_media env w lease catch)
     else clean_media env w lease catch)"

definition failure_code :: "js_error \<Rightarrow> string" where
  "failure_code e = (case e of
     LifecycleError c _ \<Rightarrow> if c = ''LIFECYCLE_ACTOR_REVOKED'' then c
       else if c = ''LIFECYCLE_LEASE_LOST'' then ''EVOLUTION_CLEANUP_UNVERIFIED'' else ''LIFECYCLE_PURGE_FAILED''
   | _ \<Rightarrow> ''LIFECYCLE_PURGE_FAILED'')"

definition fail_work :: "work_row \<Rightarrow> string \<Rightarrow> js_error \<Rightarrow> prog" where
  "fail_work w lease e = transact (\<lambda>_. require_action True (failure_code e) (wk_id w) lease) Threw (\<lambda>_. Returned True)"

definition process_claimed :: "lifecycle_env \<Rightarrow> string \<Rightarrow> work_row \<Rightarrow> prog" where
  "process_claimed env lease w =
    (let catch = fail_work w lease in
     transact (\<lambda>m. authorize_deletion m (wk_id w) lease) catch (\<lambda>authorized.
     if \<not> authorized
     then transact (\<lambda>_. require_action False ''LIFECYCLE_ACTOR_REVOKED'' (wk_id w) lease) catch (\<lambda>_. Returned True)
     else transact (\<lambda>_. read_items (wk_id w)) catch (\<lambda>items.
       clean_items env w lease catch (after_items env w lease catch) items)))"

definition processOne :: "lifecycle_env \<Rightarrow> string \<Rightarrow> prog" where
  "processOne env lease = transact (\<lambda>m. claimDeletion m lease) Threw (\<lambda>claimed.
     case claimed of None \<Rightarrow> Returned False | Some w \<Rightarrow> process_claimed env lease w)"

end
