(* ===== verification/Lifecycle_System.thy ===== *)
theory Lifecycle_System
  imports Lifecycle_Worker
begin

text \<open>
  Workers and requests that interleave on one database, and the points a worker passes: between two
  of them it runs one transaction or waits for one answer (\<open>code_moves\<close>).
\<close>

section \<open>Steps\<close>

datatype lc_event = Deleted CleanupDispatchContext bool | Looked CleanupDispatchContext "bool option" | Cleaned string "media_state option"

text \<open>
  A transaction commits and answers, or its connection fails: nothing is committed, or everything is
  and the worker does not learn it.
\<close>

inductive prog_step :: "prog \<Rightarrow> lifecycle_db \<Rightarrow> lc_event list \<Rightarrow> prog \<Rightarrow> lifecycle_db \<Rightarrow> bool" where
  committed: "prog_step (Transact u k h) s [] (k m s) (u m s)"
| lost: "prog_step (Transact u k h) s [] (h e) s"
| unanswered: "prog_step (Transact u k h) s [] (h e) (u m s)"
| deprovisioned: "prog_step (Deprovision org key cx f) s [Deleted cx b] (f b) s"
| looked_up: "prog_step (InstanceExists org key cx f) s [Looked cx b] (f b) s"
| media_cleaned: "prog_step (CleanupMedia d lease f) s [Cleaned d b] (f b) s"

inductive_cases transact_step: "prog_step (Transact u k h) s ev p s'"
inductive_cases deprovision_step: "prog_step (Deprovision org key cx f) s ev p s'"
inductive_cases exists_step: "prog_step (InstanceExists org key cx f) s ev p s'"
inductive_cases media_step: "prog_step (CleanupMedia d lease f) s ev p s'"
inductive_simps no_step [simp]: "prog_step (Returned b) s ev p s'" "prog_step (Threw e) s ev p s'"

record lc_system =
  sy_db :: lifecycle_db
  sy_workers :: "(string \<times> prog) list"
  sy_leases :: "string list"
  sy_trace :: "lc_event list"

definition with_people :: "user_row list \<Rightarrow> member_row list \<Rightarrow> platform_user list \<Rightarrow> lifecycle_db \<Rightarrow> lifecycle_db" where
  "with_people us ms ps s = s\<lparr>lc_users := us, lc_members := ms, lc_platform := ps\<rparr>"

text \<open>A lease is a random identifier: no two workers draw the same.\<close>

inductive sys_step :: "lifecycle_env \<Rightarrow> lc_system \<Rightarrow> lc_system \<Rightarrow> bool" for env where
  start: "lease \<notin> set (sy_leases y) \<Longrightarrow>
    sys_step env y (y\<lparr>sy_workers := sy_workers y @ [(lease, processOne env lease)], sy_leases := lease # sy_leases y\<rparr>)"
| work: "sy_workers y = ws @ (lease, p) # vs \<Longrightarrow> prog_step p (sy_db y) ev p' s' \<Longrightarrow>
    sys_step env y (y\<lparr>sy_db := s', sy_workers := ws @ (lease, p') # vs, sy_trace := sy_trace y @ ev\<rparr>)"
| stop: "sy_workers y = ws @ v # vs \<Longrightarrow> sys_step env y (y\<lparr>sy_workers := ws @ vs\<rparr>)"
| ask_channel: "sys_step env y (y\<lparr>sy_db := snd (run_tx (requestChannel env m fresh org resource name reason kind actor) (sy_db y))\<rparr>)"
| ask_organization: "sys_step env y (y\<lparr>sy_db := snd (run_tx (requestOrganization env m fresh org name reason actor) (sy_db y))\<rparr>)"
| ask_reconciliation: "sys_step env y (y\<lparr>sy_db := snd (run_tx (requestReconciliation org resource operation reason kind actor) (sy_db y))\<rparr>)"
| people: "sys_step env y (y\<lparr>sy_db := with_people us ms ps (sy_db y)\<rparr>)"

definition empty_system :: "user_row list \<Rightarrow> member_row list \<Rightarrow> platform_user list \<Rightarrow> lc_system" where
  "empty_system us ms ps = \<lparr>sy_db = \<lparr>lc_deletions = [], lc_items = [], lc_users = us, lc_members = ms, lc_platform = ps\<rparr>,
     sy_workers = [], sy_leases = [], sy_trace = []\<rparr>"

inductive sys_run :: "lifecycle_env \<Rightarrow> lc_system \<Rightarrow> bool" for env where
  begun: "sys_run env (empty_system us ms ps)"
| stepped: "sys_run env y \<Longrightarrow> sys_step env y y' \<Longrightarrow> sys_run env y'"

section \<open>The points of a worker\<close>

datatype point =
    AtClaim
  | AtAuthorize work_row
  | AtRefusal work_row
  | AtRead work_row
  | AtItem work_row cleanup_item "cleanup_item list"
  | AtLookup work_row cleanup_item "cleanup_item list"
  | AtSettle work_row cleanup_item "cleanup_item list" bool
  | AtMark work_row cleanup_item "cleanup_item list"
  | AtDelete work_row cleanup_item "cleanup_item list"
  | AtDone work_row cleanup_item "cleanup_item list"
  | AtFailed work_row cleanup_item
  | AtPending work_row
  | AtGuard work_row
  | AtMedia work_row
  | AtYield work_row
  | AtPurge work_row
  | AtAttention work_row string
  | AtFailure work_row js_error
  | AtReturn bool
  | AtThrow js_error

abbreviation "items_prog env w l xs \<equiv> clean_items env w l (fail_work w l) (after_items env w l (fail_work w l)) xs"

fun code :: "lifecycle_env \<Rightarrow> string \<Rightarrow> point \<Rightarrow> prog" where
  "code env l AtClaim = processOne env l"
| "code env l (AtAuthorize w) = process_claimed env l w"
| "code env l (AtRefusal w) = transact (\<lambda>_. require_action False ''LIFECYCLE_ACTOR_REVOKED'' (wk_id w) l) (fail_work w l) (\<lambda>_. Returned True)"
| "code env l (AtRead w) = transact (\<lambda>_. read_items (wk_id w)) (fail_work w l) (items_prog env w l)"
| "code env l (AtItem w x xs) = transact (\<lambda>m. may_deprovision m (wk_id w) l) (fail_work w l) (\<lambda>may.
     if \<not> may then Returned True
     else if wk_reconcile w then reconcile_item env w l (fail_work w l) x (items_prog env w l xs)
     else delete_item env w l (fail_work w l) x (items_prog env w l xs))"
| "code env l (AtLookup w x xs) = InstanceExists (wk_org w) (cu_key x) (cleanup_context w l x) (\<lambda>answer. case answer of
      None \<Rightarrow> attention w l (fail_work w l) ''EVOLUTION_CLEANUP_UNVERIFIED''
    | Some b \<Rightarrow> transact (\<lambda>m. settle_found env m (cleanup_context w l x) b) (fail_work w l) (\<lambda>_. items_prog env w l xs))"
| "code env l (AtSettle w x xs b) = transact (\<lambda>m. settle_found env m (cleanup_context w l x) b) (fail_work w l) (\<lambda>_. items_prog env w l xs)"
| "code env l (AtMark w x xs) = transact (\<lambda>m. begin_delete m (cleanup_context w l x)) (fail_work w l) (\<lambda>_.
     Deprovision (wk_org w) (cu_key x) (cleanup_context w l x) (\<lambda>returned.
       if returned then transact (\<lambda>m. delete_done env m (cleanup_context w l x)) (fail_work w l) (\<lambda>_. items_prog env w l xs)
       else transact (\<lambda>m. delete_failed m (cleanup_context w l x)) (fail_work w l) (\<lambda>_. Returned True)))"
| "code env l (AtDelete w x xs) = Deprovision (wk_org w) (cu_key x) (cleanup_context w l x) (\<lambda>returned.
       if returned then transact (\<lambda>m. delete_done env m (cleanup_context w l x)) (fail_work w l) (\<lambda>_. items_prog env w l xs)
       else transact (\<lambda>m. delete_failed m (cleanup_context w l x)) (fail_work w l) (\<lambda>_. Returned True))"
| "code env l (AtDone w x xs) = transact (\<lambda>m. delete_done env m (cleanup_context w l x)) (fail_work w l) (\<lambda>_. items_prog env w l xs)"
| "code env l (AtFailed w x) = transact (\<lambda>m. delete_failed m (cleanup_context w l x)) (fail_work w l) (\<lambda>_. Returned True)"
| "code env l (AtPending w) = transact (\<lambda>_. still_present (wk_id w)) (fail_work w l) (\<lambda>pending.
     if pending then attention w l (fail_work w l) ''EVOLUTION_INSTANCE_STILL_PRESENT'' else clean_media env w l (fail_work w l))"
| "code env l (AtGuard w) = transact (\<lambda>m. guarded m (wk_id w) l) (fail_work w l) (\<lambda>_. CleanupMedia (wk_id w) l (\<lambda>answer. case answer of
      None \<Rightarrow> attention w l (fail_work w l) ''MEDIA_PRIVATE_CLEANUP_UNVERIFIED''
    | Some MEDIA_UNKNOWN \<Rightarrow> attention w l (fail_work w l) ''MEDIA_PRIVATE_CLEANUP_UNVERIFIED''
    | Some MEDIA_PENDING \<Rightarrow> transact (\<lambda>m. yield_deletion m (wk_id w) l) (fail_work w l) (\<lambda>_. Returned True)
    | Some MEDIA_COMPLETE \<Rightarrow> purge_data env w l (fail_work w l)))"
| "code env l (AtMedia w) = CleanupMedia (wk_id w) l (\<lambda>answer. case answer of
      None \<Rightarrow> attention w l (fail_work w l) ''MEDIA_PRIVATE_CLEANUP_UNVERIFIED''
    | Some MEDIA_UNKNOWN \<Rightarrow> attention w l (fail_work w l) ''MEDIA_PRIVATE_CLEANUP_UNVERIFIED''
    | Some MEDIA_PENDING \<Rightarrow> transact (\<lambda>m. yield_deletion m (wk_id w) l) (fail_work w l) (\<lambda>_. Returned True)
    | Some MEDIA_COMPLETE \<Rightarrow> purge_data env w l (fail_work w l))"
| "code env l (AtYield w) = transact (\<lambda>m. yield_deletion m (wk_id w) l) (fail_work w l) (\<lambda>_. Returned True)"
| "code env l (AtPurge w) = purge_data env w l (fail_work w l)"
| "code env l (AtAttention w c) = attention w l (fail_work w l) c"
| "code env l (AtFailure w e) = fail_work w l e"
| "code env l (AtReturn b) = Returned b"
| "code env l (AtThrow e) = Threw e"

definition at_media :: "lifecycle_env \<Rightarrow> work_row \<Rightarrow> point" where
  "at_media env w = (if le_media env then AtGuard w else AtPurge w)"

fun at_items :: "lifecycle_env \<Rightarrow> work_row \<Rightarrow> cleanup_item list \<Rightarrow> point" where
  "at_items env w [] = (if wk_reconcile w then AtPending w else at_media env w)"
| "at_items env w (x # xs) = (if cu_status x = GONE then at_items env w xs else AtItem w x xs)"

definition at_item :: "lifecycle_env \<Rightarrow> work_row \<Rightarrow> cleanup_item \<Rightarrow> cleanup_item list \<Rightarrow> point" where
  "at_item env w x xs =
    (if wk_reconcile w then
       (if cu_status x = TO_DELETE then at_items env w xs
        else if le_exists env then AtLookup w x xs else AtAttention w ''EVOLUTION_CLEANUP_UNVERIFIED'')
     else if cu_status x = TO_DELETE then AtMark w x xs else AtAttention w ''EVOLUTION_CLEANUP_UNVERIFIED'')"

lemma code_media: "code env l (at_media env w) = clean_media env w l (fail_work w l)"
  by (simp add: at_media_def clean_media_def)

lemma code_after: "code env l (at_items env w []) = after_items env w l (fail_work w l)"
  by (simp add: after_items_def code_media)

lemma code_items: "code env l (at_items env w xs) = items_prog env w l xs"
proof (induction xs)
  case Nil
  show ?case by (simp only: code_after clean_items.simps)
next
  case (Cons x xs)
  then show ?case by (simp only: at_items.simps clean_items.simps code.simps split: if_split) simp
qed

lemma code_item: "code env l (at_item env w x xs) =
   (if wk_reconcile w then reconcile_item env w l (fail_work w l) x (items_prog env w l xs)
    else delete_item env w l (fail_work w l) x (items_prog env w l xs))"
  by (simp add: at_item_def reconcile_item_def delete_item_def code_items)

text \<open>What the transaction at a point answers, as the point that follows, with the state it leaves.\<close>

definition then_at :: "('a \<Rightarrow> point) \<Rightarrow> (js_error \<Rightarrow> point) \<Rightarrow> (lifecycle_db, 'a) tx \<Rightarrow> lifecycle_db \<Rightarrow> point \<times> lifecycle_db" where
  "then_at k h t s = (case run_tx t s of (Inl e, s') \<Rightarrow> (h e, s') | (Inr a, s') \<Rightarrow> (k a, s'))"

fun failed :: "point \<Rightarrow> js_error \<Rightarrow> point" where
  "failed (AtAuthorize w) e = AtFailure w e" | "failed (AtRefusal w) e = AtFailure w e"
| "failed (AtRead w) e = AtFailure w e" | "failed (AtItem w x xs) e = AtFailure w e"
| "failed (AtSettle w x xs b) e = AtFailure w e" | "failed (AtMark w x xs) e = AtFailure w e"
| "failed (AtDone w x xs) e = AtFailure w e" | "failed (AtFailed w x) e = AtFailure w e"
| "failed (AtPending w) e = AtFailure w e" | "failed (AtGuard w) e = AtFailure w e"
| "failed (AtYield w) e = AtFailure w e" | "failed (AtPurge w) e = AtFailure w e"
| "failed (AtAttention w c) e = AtFailure w e" | "failed _ e = AtThrow e"

fun point_tx :: "lifecycle_env \<Rightarrow> string \<Rightarrow> tx_moment \<Rightarrow> lifecycle_db \<Rightarrow> point \<Rightarrow> (point \<times> lifecycle_db) option" where
  "point_tx env l m s AtClaim = Some (then_at (\<lambda>c. case c of None \<Rightarrow> AtReturn False | Some w \<Rightarrow> AtAuthorize w) AtThrow (claimDeletion m l) s)"
| "point_tx env l m s (AtAuthorize w) = Some (then_at (\<lambda>b. if b then AtRead w else AtRefusal w) (AtFailure w) (authorize_deletion m (wk_id w) l) s)"
| "point_tx env l m s (AtRefusal w) = Some (then_at (\<lambda>_. AtReturn True) (AtFailure w) (require_action False ''LIFECYCLE_ACTOR_REVOKED'' (wk_id w) l) s)"
| "point_tx env l m s (AtRead w) = Some (then_at (at_items env w) (AtFailure w) (read_items (wk_id w)) s)"
| "point_tx env l m s (AtItem w x xs) =
     Some (then_at (\<lambda>may. if may then at_item env w x xs else AtReturn True) (AtFailure w) (may_deprovision m (wk_id w) l) s)"
| "point_tx env l m s (AtSettle w x xs b) = Some (then_at (\<lambda>_. at_items env w xs) (AtFailure w) (settle_found env m (cleanup_context w l x) b) s)"
| "point_tx env l m s (AtMark w x xs) = Some (then_at (\<lambda>_. AtDelete w x xs) (AtFailure w) (begin_delete m (cleanup_context w l x)) s)"
| "point_tx env l m s (AtDone w x xs) = Some (then_at (\<lambda>_. at_items env w xs) (AtFailure w) (delete_done env m (cleanup_context w l x)) s)"
| "point_tx env l m s (AtFailed w x) = Some (then_at (\<lambda>_. AtReturn True) (AtFailure w) (delete_failed m (cleanup_context w l x)) s)"
| "point_tx env l m s (AtPending w) = Some (then_at (\<lambda>b. if b then AtAttention w ''EVOLUTION_INSTANCE_STILL_PRESENT'' else at_media env w)
     (AtFailure w) (still_present (wk_id w)) s)"
| "point_tx env l m s (AtGuard w) = Some (then_at (\<lambda>_. AtMedia w) (AtFailure w) (guarded m (wk_id w) l) s)"
| "point_tx env l m s (AtYield w) = Some (then_at (\<lambda>_. AtReturn True) (AtFailure w) (yield_deletion m (wk_id w) l) s)"
| "point_tx env l m s (AtPurge w) = Some (then_at (\<lambda>_. AtReturn True) (AtFailure w) (purge env m w l) s)"
| "point_tx env l m s (AtAttention w c) = Some (then_at (\<lambda>_. AtReturn True) (AtFailure w) (require_action True c (wk_id w) l) s)"
| "point_tx env l m s (AtFailure w e) = Some (then_at (\<lambda>_. AtReturn True) AtThrow (require_action True (failure_code e) (wk_id w) l) s)"
| "point_tx env l m s _ = None"

text \<open>The answers that other systems give.\<close>

definition lookup_point :: "work_row \<Rightarrow> cleanup_item \<Rightarrow> cleanup_item list \<Rightarrow> bool option \<Rightarrow> point" where
  "lookup_point w x xs b = (case b of None \<Rightarrow> AtAttention w ''EVOLUTION_CLEANUP_UNVERIFIED'' | Some c \<Rightarrow> AtSettle w x xs c)"

definition delete_point :: "work_row \<Rightarrow> cleanup_item \<Rightarrow> cleanup_item list \<Rightarrow> bool \<Rightarrow> point" where
  "delete_point w x xs b = (if b then AtDone w x xs else AtFailed w x)"

definition media_point :: "work_row \<Rightarrow> media_state option \<Rightarrow> point" where
  "media_point w b = (case b of None \<Rightarrow> AtAttention w ''MEDIA_PRIVATE_CLEANUP_UNVERIFIED''
     | Some MEDIA_UNKNOWN \<Rightarrow> AtAttention w ''MEDIA_PRIVATE_CLEANUP_UNVERIFIED'' | Some MEDIA_PENDING \<Rightarrow> AtYield w
     | Some MEDIA_COMPLETE \<Rightarrow> AtPurge w)"

fun point_call :: "point \<Rightarrow> string \<Rightarrow> (lc_event \<times> point) set" where
  "point_call (AtLookup w x xs) l = range (\<lambda>b. (Looked (cleanup_context w l x) b, lookup_point w x xs b))"
| "point_call (AtDelete w x xs) l = range (\<lambda>b. (Deleted (cleanup_context w l x) b, delete_point w x xs b))"
| "point_call (AtMedia w) l = range (\<lambda>b. (Cleaned (wk_id w) b, media_point w b))"
| "point_call _ l = {}"

lemma code_calls:
  "code env l (AtLookup w x xs) = InstanceExists (wk_org w) (cu_key x) (cleanup_context w l x) (\<lambda>b. code env l (lookup_point w x xs b))"
  "code env l (AtDelete w x xs) = Deprovision (wk_org w) (cu_key x) (cleanup_context w l x) (\<lambda>b. code env l (delete_point w x xs b))"
  "code env l (AtMedia w) = CleanupMedia (wk_id w) l (\<lambda>b. code env l (media_point w b))"
  by (auto simp: lookup_point_def delete_point_def media_point_def fun_eq_iff split: option.splits media_state.splits)

lemma transact_at:
  assumes "\<And>e. code env l (h e) = catch e" and "\<And>a. code env l (k' a) = k a"
    and "prog_step (transact t catch k) s ev p s'"
  shows "ev = [] \<and> (\<exists>m. p = code env l (fst (then_at k' h (t m) s)) \<and> s' = snd (then_at k' h (t m) s)
    \<or> (\<exists>e. p = code env l (h e) \<and> (s' = s \<or> s' = snd (then_at k' h (t m) s))))"
proof -
  have s2: "snd (run_tx (t m) s) = snd (then_at k' h (t m) s)" for m
    by (auto simp: then_at_def split: prod.splits sum.splits)
  have p2: "(case fst (run_tx (t m) s) of Inl e \<Rightarrow> catch e | Inr a \<Rightarrow> k a) = code env l (fst (then_at k' h (t m) s))" for m
    by (auto simp: then_at_def assms(1,2) split: prod.splits sum.splits)
  from assms(3) show ?thesis
    unfolding transact_def by (rule transact_step) (auto simp: p2 s2 assms(1))
qed

inductive moves :: "lifecycle_env \<Rightarrow> string \<Rightarrow> point \<Rightarrow> lifecycle_db \<Rightarrow> lc_event list \<Rightarrow> point \<Rightarrow> lifecycle_db \<Rightarrow> bool" for env l where
  commits: "point_tx env l m s pt = Some (pt', s') \<Longrightarrow> moves env l pt s [] pt' s'"
| loses: "point_tx env l m s pt \<noteq> None \<Longrightarrow> moves env l pt s [] (failed pt e) s"
| hears_nothing: "point_tx env l m s pt = Some (pt', s') \<Longrightarrow> moves env l pt s [] (failed pt e) s'"
| is_answered: "(ev, pt') \<in> point_call pt l \<Longrightarrow> moves env l pt s [ev] pt' s"

lemma moves_at:
  assumes "\<And>m s. point_tx env l m s pt = Some (then_at k' (failed pt) (t m) s)"
    and "\<And>e. code env l (failed pt e) = catch e" and "\<And>a. code env l (k' a) = k a"
    and "prog_step (transact t catch k) s ev p s'"
  shows "\<exists>pt'. p = code env l pt' \<and> moves env l pt s ev pt' s'"
proof -
  from transact_at [of env l "failed pt" catch k' k, OF assms(2,3,4)] obtain m e where "ev = []"
    and "p = code env l (fst (then_at k' (failed pt) (t m) s)) \<and> s' = snd (then_at k' (failed pt) (t m) s)
      \<or> p = code env l (failed pt e) \<and> (s' = s \<or> s' = snd (then_at k' (failed pt) (t m) s))" by blast
  then show ?thesis
    using commits [of env l m s pt "fst (then_at k' (failed pt) (t m) s)" "snd (then_at k' (failed pt) (t m) s)"]
      loses [of env l m s pt e] hears_nothing [of env l m s pt "fst (then_at k' (failed pt) (t m) s)" "snd (then_at k' (failed pt) (t m) s)" e]
    by (auto simp: assms(1))
qed

lemma moves_answer: "(ev, pt') \<in> point_call pt l \<Longrightarrow> p = code env l pt' \<Longrightarrow> \<exists>pt'. p = code env l pt' \<and> moves env l pt s [ev] pt' s"
  using is_answered by blast

lemma failed_points [simp]:
  "failed AtClaim = AtThrow" "failed (AtFailure w e) = AtThrow" "failed (AtAuthorize w) = AtFailure w" "failed (AtRefusal w) = AtFailure w"
  "failed (AtRead w) = AtFailure w" "failed (AtItem w x xs) = AtFailure w" "failed (AtSettle w x xs b) = AtFailure w"
  "failed (AtMark w x xs) = AtFailure w" "failed (AtDone w x xs) = AtFailure w" "failed (AtFailed w x) = AtFailure w"
  "failed (AtPending w) = AtFailure w" "failed (AtGuard w) = AtFailure w" "failed (AtYield w) = AtFailure w"
  "failed (AtPurge w) = AtFailure w" "failed (AtAttention w c) = AtFailure w"
  by (simp_all add: fun_eq_iff)

lemma code_moves:
  assumes "prog_step (code env l pt) s ev p s'"
  shows "\<exists>pt'. p = code env l pt' \<and> moves env l pt s ev pt' s'"
proof (cases pt)
  case AtClaim
  with assms show ?thesis
    by (intro moves_at [of env l pt "\<lambda>c. case c of None \<Rightarrow> AtReturn False | Some w \<Rightarrow> AtAuthorize w" "\<lambda>m. claimDeletion m l" "Threw"]) (auto simp: processOne_def split: option.splits)
next
  case (AtAuthorize w)
  with assms show ?thesis
    by (intro moves_at [of env l pt "\<lambda>b. if b then AtRead w else AtRefusal w" "\<lambda>m. authorize_deletion m (wk_id w) l" "fail_work w l"]) (auto simp: process_claimed_def Let_def)
next
  case (AtRefusal w)
  with assms show ?thesis
    by (intro moves_at [of env l pt "\<lambda>_. AtReturn True" "\<lambda>_. require_action False ''LIFECYCLE_ACTOR_REVOKED'' (wk_id w) l" "fail_work w l"]) auto
next
  case (AtRead w)
  with assms show ?thesis
    by (intro moves_at [of env l pt "at_items env w" "\<lambda>_. read_items (wk_id w)" "fail_work w l"]) (auto simp: code_items)
next
  case (AtItem w x xs)
  with assms show ?thesis
    by (intro moves_at [of env l pt "\<lambda>may. if may then at_item env w x xs else AtReturn True" "\<lambda>m. may_deprovision m (wk_id w) l" "fail_work w l"]) (auto simp: code_item)
next
  case (AtSettle w x xs b)
  with assms show ?thesis
    by (intro moves_at [of env l pt "\<lambda>_. at_items env w xs" "\<lambda>m. settle_found env m (cleanup_context w l x) b" "fail_work w l"]) (auto simp: code_items)
next
  case (AtMark w x xs)
  with assms show ?thesis
    by (intro moves_at [of env l pt "\<lambda>_. AtDelete w x xs" "\<lambda>m. begin_delete m (cleanup_context w l x)" "fail_work w l"]) auto
next
  case (AtDone w x xs)
  with assms show ?thesis
    by (intro moves_at [of env l pt "\<lambda>_. at_items env w xs" "\<lambda>m. delete_done env m (cleanup_context w l x)" "fail_work w l"]) (auto simp: code_items)
next
  case (AtFailed w x)
  with assms show ?thesis
    by (intro moves_at [of env l pt "\<lambda>_. AtReturn True" "\<lambda>m. delete_failed m (cleanup_context w l x)" "fail_work w l"]) auto
next
  case (AtPending w)
  with assms show ?thesis
    by (intro moves_at [of env l pt "\<lambda>b. if b then AtAttention w ''EVOLUTION_INSTANCE_STILL_PRESENT'' else at_media env w" "\<lambda>_. still_present (wk_id w)" "fail_work w l"]) (auto simp: code_media)
next
  case (AtGuard w)
  with assms show ?thesis
    by (intro moves_at [of env l pt "\<lambda>_. AtMedia w" "\<lambda>m. guarded m (wk_id w) l" "fail_work w l"]) auto
next
  case (AtYield w)
  with assms show ?thesis
    by (intro moves_at [of env l pt "\<lambda>_. AtReturn True" "\<lambda>m. yield_deletion m (wk_id w) l" "fail_work w l"]) auto
next
  case (AtPurge w)
  with assms show ?thesis
    by (intro moves_at [of env l pt "\<lambda>_. AtReturn True" "\<lambda>m. purge env m w l" "fail_work w l"]) (auto simp: purge_data_def)
next
  case (AtAttention w c)
  with assms show ?thesis
    by (intro moves_at [of env l pt "\<lambda>_. AtReturn True" "\<lambda>_. require_action True c (wk_id w) l" "fail_work w l"]) (auto simp: attention_def)
next
  case (AtFailure w e')
  with assms show ?thesis
    by (intro moves_at [of env l pt "\<lambda>_. AtReturn True" "\<lambda>_. require_action True (failure_code e') (wk_id w) l" "Threw"]) (auto simp: fail_work_def)
next
  case (AtLookup w x xs)
  from assms [unfolded AtLookup code_calls] show ?thesis
    unfolding AtLookup by (rule exists_step) (auto intro!: moves_answer)
next
  case (AtDelete w x xs)
  from assms [unfolded AtDelete code_calls] show ?thesis
    unfolding AtDelete by (rule deprovision_step) (auto intro!: moves_answer)
next
  case (AtMedia w)
  from assms [unfolded AtMedia code_calls] show ?thesis
    unfolding AtMedia by (rule media_step) (auto intro!: moves_answer)
qed (use assms in auto)

end
