(* ===== verification/Lifecycle_Safety.thy ===== *)
theory Lifecycle_Safety
  imports Lifecycle_System
begin

text \<open>
  What the workers and requests of Lifecycle_System keep between them: a transaction of a worker
  leaves the items of every deletion that is leased to somebody else as they were, so a worker that
  holds its lease finds the items as it read them.
\<close>

section \<open>The tables\<close>

definition ids :: "lifecycle_db \<Rightarrow> string set" where
  "ids s = dl_id ` set (lc_deletions s)"

definition items_of :: "lifecycle_db \<Rightarrow> string \<Rightarrow> cleanup_item list" where
  "items_of s d = filter (\<lambda>x. cu_deletion x = d) (lc_items s)"

definition leased_to :: "lifecycle_db \<Rightarrow> string \<Rightarrow> string \<Rightarrow> bool" where
  "leased_to s d l \<longleftrightarrow> (\<exists>r \<in> set (lc_deletions s). leased d l r)"

definition item_key :: "cleanup_item \<Rightarrow> string \<times> string" where
  "item_key x = (cu_deletion x, cu_instance x)"

definition lc_wf :: "lifecycle_db \<Rightarrow> bool" where
  "lc_wf s \<longleftrightarrow> distinct (map dl_id (lc_deletions s)) \<and> distinct (map item_key (lc_items s)) \<and> cu_deletion ` set (lc_items s) \<subseteq> ids s"

definition kept :: "string set \<Rightarrow> lifecycle_db \<Rightarrow> lifecycle_db \<Rightarrow> bool" where
  "kept A s s' \<longleftrightarrow> (lc_wf s \<longrightarrow> lc_wf s' \<and> ids s \<subseteq> ids s'
     \<and> (\<forall>d l. l \<notin> A \<longrightarrow> leased_to s' d l \<longrightarrow> leased_to s d l \<and> items_of s' d = items_of s d))"

interpretation lf: tx_frame "kept A"
  by unfold_locales (auto simp: kept_def)

lemma kept_refl [intro, simp]: "kept A s s"
  by (rule lf.R_refl)

lemma kept_mono: "kept A s s' \<Longrightarrow> A \<subseteq> B \<Longrightarrow> kept B s s'"
  by (auto simp: kept_def)

lemma one_lease: "lc_wf s \<Longrightarrow> leased_to s d l \<Longrightarrow> leased_to s d l' \<Longrightarrow> l = l'"
  unfolding lc_wf_def leased_to_def leased_def
  by (auto simp: distinct_map) (metis inj_onD option.inject)

lemma kept_set_deletions:
  assumes "\<And>r. p r \<Longrightarrow> dl_id (f r) = dl_id r" and "\<And>r. p r \<Longrightarrow> dl_lease (f r) \<in> {dl_lease r, None} \<union> Some ` A"
  shows "kept A s (set_deletions p f s)"
proof -
  have "map dl_id (update_rows p f rs) = map dl_id rs" for rs using assms(1) by (rule map_update_rows)
  then have i: "ids (set_deletions p f s) = ids s" and m: "map dl_id (lc_deletions (set_deletions p f s)) = map dl_id (lc_deletions s)"
    by (simp_all add: ids_def set_deletions_def flip: set_map)
  have "leased_to s d l" if "leased_to (set_deletions p f s) d l" "l \<notin> A" for d l
    using that assms by (auto simp: leased_to_def leased_def set_deletions_def dest!: set_update_rows) fastforce
  then show ?thesis
    by (auto simp: kept_def lc_wf_def i m) (auto simp: set_deletions_def items_of_def)
qed

lemma update_keys: "(\<And>x. item_key (f x) = item_key x) \<Longrightarrow> map item_key (update_rows p f xs) = map item_key xs"
  by (rule map_update_rows)

lemma filter_update_other: "(\<And>x. p x \<Longrightarrow> \<not> q x) \<Longrightarrow> (\<And>x. p x \<Longrightarrow> \<not> q (f x)) \<Longrightarrow> filter q (update_rows p f xs) = filter q xs"
  by (rule filter_update_rows_other)

text \<open>Whoever holds the lease of a deletion may change its items.\<close>

lemma kept_owned:
  assumes "leased_to s d l" and "lc_wf s \<Longrightarrow> lc_wf s'" and "ids s' = ids s" and "lc_deletions s' = lc_deletions s"
    and "\<And>d'. d' \<noteq> d \<Longrightarrow> items_of s' d' = items_of s d'"
  shows "kept {l} s s'"
  unfolding kept_def
proof (intro impI conjI allI)
  assume wf: "lc_wf s"
  then show "lc_wf s'" by (rule assms(2))
  show "ids s \<subseteq> ids s'" by (simp add: assms(3))
  fix d' l' assume l: "l' \<notin> {l}" "leased_to s' d' l'"
  then show *: "leased_to s d' l'" by (simp add: leased_to_def assms(4))
  with wf assms(1) l(1) have "d' \<noteq> d" using one_lease by blast
  then show "items_of s' d' = items_of s d'" by (rule assms(5))
qed

lemma kept_set_items:
  assumes "leased_to s d l" and "\<And>x. item_key (f x) = item_key x"
  shows "kept {l} s (set_items d i f s)"
proof -
  have k: "map item_key (lc_items (set_items d i f s)) = map item_key (lc_items s)"
    by (simp add: set_items_def update_keys [OF assms(2)])
  have "map cu_deletion (lc_items (set_items d i f s)) = map cu_deletion (lc_items s)"
    using assms(2) by (auto simp: set_items_def item_key_def intro!: map_update_rows)
  then have c: "cu_deletion ` set (lc_items (set_items d i f s)) = cu_deletion ` set (lc_items s)"
    by (metis set_map)
  have d: "lc_deletions (set_items d i f s) = lc_deletions s" by (simp add: set_items_def)
  have o: "items_of (set_items d i f s) d' = items_of s d'" if "d' \<noteq> d" for d'
    unfolding items_of_def set_items_def using that assms(2) by (auto simp: item_key_def intro!: filter_update_other)
  have wf: "lc_wf s \<Longrightarrow> lc_wf (set_items d i f s)"
    unfolding lc_wf_def k c by (simp add: d ids_def)
  show ?thesis
    by (rule kept_owned [OF assms(1) wf _ _ o]) (simp_all add: ids_def d)
qed

lemma kept_drop_items:
  assumes "leased_to s d l"
  shows "kept {l} s (s\<lparr>lc_items := filter (\<lambda>x. cu_deletion x \<noteq> d) (lc_items s)\<rparr>)"
proof (rule kept_owned [OF assms])
  show "lc_wf s \<Longrightarrow> lc_wf (s\<lparr>lc_items := filter (\<lambda>x. cu_deletion x \<noteq> d) (lc_items s)\<rparr>)"
    by (auto simp: lc_wf_def ids_def distinct_map_filter)
  show "items_of (s\<lparr>lc_items := filter (\<lambda>x. cu_deletion x \<noteq> d) (lc_items s)\<rparr>) d' = items_of s d'" if "d' \<noteq> d" for d'
    using that by (auto simp: items_of_def intro: filter_cong)
qed (simp_all add: ids_def)

lemma kept_people: "kept A s (s\<lparr>lc_users := us, lc_members := ms\<rparr>)" "kept A s (with_people us ms ps s)"
  by (auto simp: kept_def lc_wf_def ids_def leased_to_def items_of_def with_people_def)

section \<open>Requests\<close>

definition new_items :: "string \<Rightarrow> (string \<times> string) list \<Rightarrow> cleanup_item list" where
  "new_items d xs = map (\<lambda>(i, k). \<lparr>cu_deletion = d, cu_instance = i, cu_key = k, cu_status = TO_DELETE, cu_attempts = 0, cu_error = None\<rparr>) xs"

lemma new_items_keys: "map item_key (new_items d xs) = map (Pair d) (map fst xs)" "x \<in> set (new_items d xs) \<Longrightarrow> cu_deletion x = d"
  by (auto simp: new_items_def item_key_def)

lemma insert_deletion_state:
  assumes "insert_deletion r xs s = Inr (a, s')"
  shows "dl_id r \<notin> ids s" "distinct (map fst xs)" "s' = s\<lparr>lc_deletions := lc_deletions s @ [r], lc_items := lc_items s @ new_items (dl_id r) xs\<rparr>"
  using assms by (auto simp: insert_deletion_def ids_def new_items_def split: if_splits)

lemma insert_deletion_kept:
  assumes "insert_deletion r xs s = Inr (a, s')" and "dl_lease r = None"
  shows "kept {} s s'"
proof -
  note i = insert_deletion_state [OF assms(1)]
  have d: "ids s' = insert (dl_id r) (ids s)" by (auto simp: ids_def i(3))
  have k: "distinct (map item_key (new_items (dl_id r) xs))"
    using i(2) by (simp add: new_items_keys distinct_map inj_on_def)
  have wf: "lc_wf s'" if w: "lc_wf s"
  proof -
    have "item_key ` set (lc_items s) \<inter> item_key ` set (new_items (dl_id r) xs) = {}"
      using w i(1) new_items_keys(2) by (fastforce simp: lc_wf_def item_key_def)
    moreover have "cu_deletion ` set (new_items (dl_id r) xs) \<subseteq> {dl_id r}" using new_items_keys(2) by auto
    ultimately show ?thesis using w k i(1) unfolding lc_wf_def d by (auto simp: i(3) ids_def)
  qed
  have l: "leased_to s d' l" if "leased_to s' d' l" for d' l
    using that assms(2) by (auto simp: leased_to_def leased_def i(3))
  have o: "items_of s' d' = items_of s d'" if "leased_to s' d' l" for d' l
  proof -
    from l [OF that] have "d' \<in> ids s" by (auto simp: leased_to_def leased_def ids_def)
    with i(1) have "\<forall>x \<in> set (new_items (dl_id r) xs). cu_deletion x \<noteq> d'" using new_items_keys(2) by metis
    then show ?thesis by (simp add: items_of_def i(3))
  qed
  show ?thesis unfolding kept_def using wf l o d by auto
qed

text \<open>What a request leaves: the same tables, a deletion asked for again, or a new one with its items.\<close>

lemma request_cases:
  assumes "lifecycle_request_channel env m fresh org res name reason k actor s = Inr (a, s')
    \<or> lifecycle_request_organization env m fresh org name reason actor s = Inr (a, s')
    \<or> lifecycle_request_reconciliation org res oper reason k actor s = Inr (a, s')"
  obtains (same) "s' = s"
  | (again) p f where "s' = set_deletions p f s" "\<And>r. dl_id (f r) = dl_id r" "\<And>r. dl_lease (f r) = None" "\<And>r. dl_status (f r) \<noteq> COMPLETED"
  | (fresh) r xs where "insert_deletion r xs s = Inr (a, s')" "dl_lease r = None" "dl_status r \<noteq> COMPLETED"
  using assms
proof (elim disjE)
  assume "lifecycle_request_channel env m fresh org res name reason k actor s = Inr (a, s')"
  then show thesis
    by (auto simp: lifecycle_request_channel_def db_throw_def new_deletion_def split: if_splits option.splits
        intro: same again [where f = "requested_anew k actor reason"] fresh simp: requested_anew_def)
next
  assume "lifecycle_request_organization env m fresh org name reason actor s = Inr (a, s')"
  then show thesis
    by (auto simp: lifecycle_request_organization_def db_throw_def new_deletion_def requested_anew_def split: if_splits option.splits
        intro: same again fresh)
next
  assume "lifecycle_request_reconciliation org res oper reason k actor s = Inr (a, s')"
  then show thesis
    by (auto simp: lifecycle_request_reconciliation_def db_throw_def requested_anew_def split: if_splits option.splits intro: same again)
qed

end
