(* ===== verification/Lifecycle_Moves.thy ===== *)
theory Lifecycle_Moves
  imports Lifecycle_Safety
begin

text \<open>
  One move of a worker: what each of its transactions does to the tables, the items it still has to
  handle (\<open>todo\<close>), and the deletions it is about to ask for or to allow again (\<open>load\<close>).
\<close>

section \<open>The transactions\<close>

lemma lock_ok: "lockCurrentLease m d l s = Inr (a, s') \<Longrightarrow> s' = s \<and> leased_to s d l"
  by (auto simp: lockCurrentLease_def leased_to_def list_ex_iff split: if_splits)

lemma guarded_ok: "guarded m d l s = Inr (a, s') \<Longrightarrow> s' = s \<and> leased_to s d l"
  by (auto simp: guarded_def tx_bind_eq_Inr check_actor_def dest!: lock_ok split: if_splits)

lemma update_alive_ok: "update_alive now d l f s = Inr (a, s') \<Longrightarrow> s' = set_deletions (\<lambda>r. leased d l r \<and> alive now r) f s"
  by (auto simp: update_alive_def split: if_splits)

lemma authorize_ok: "authorize_deletion m d l s = Inr (a, s') \<Longrightarrow> s' = s"
  by (auto simp: authorize_deletion_def tx_bind_eq_Inr dest!: lock_ok)

lemma asserted_ok: "asserted env m cx b s = Inr (a, s') \<Longrightarrow> s' = s"
  by (auto simp: asserted_def split: option.splits)

lemma settle_found_ok: "settle_found env m cx b s = Inr (a, s') \<Longrightarrow> leased_to s (cx_deletion cx) (cx_lease cx) \<and>
    s' = set_items (cx_deletion cx) (cx_instance cx) (\<lambda>x. x\<lparr>cu_status := (if b then TO_DELETE else GONE), cu_error := None\<rparr>) s"
  by (auto simp: settle_found_def tx_bind_eq_Inr dest!: guarded_ok asserted_ok)

lemma begin_delete_ok: "begin_delete m cx s = Inr (a, s') \<Longrightarrow> leased_to s (cx_deletion cx) (cx_lease cx) \<and>
    s' = set_items (cx_deletion cx) (cx_instance cx)
      (\<lambda>x. if cu_status x = TO_DELETE then x\<lparr>cu_status := IN_FLIGHT, cu_attempts := cu_attempts x + 1\<rparr> else x) s"
  by (auto simp: begin_delete_def tx_bind_eq_Inr dest!: guarded_ok)

lemma delete_done_ok: "delete_done env m cx s = Inr (a, s') \<Longrightarrow> leased_to s (cx_deletion cx) (cx_lease cx) \<and>
    s' = set_items (cx_deletion cx) (cx_instance cx) (\<lambda>x. x\<lparr>cu_status := GONE, cu_error := None\<rparr>) s"
  by (auto simp: delete_done_def tx_bind_eq_Inr dest!: lock_ok asserted_ok)

definition gave_up :: "CleanupDispatchContext \<Rightarrow> lifecycle_db \<Rightarrow> lifecycle_db" where
  "gave_up cx s = set_items (cx_deletion cx) (cx_instance cx)
     (\<lambda>x. x\<lparr>cu_status := ATTENTION, cu_error := Some ''EVOLUTION_CLEANUP_UNVERIFIED''\<rparr>) s"

lemma delete_failed_ok: "delete_failed m cx s = Inr (a, s') \<Longrightarrow> s' = s \<or> leased_to s (cx_deletion cx) (cx_lease cx)
    \<and> require_action False ''EVOLUTION_CLEANUP_UNVERIFIED'' (cx_deletion cx) (cx_lease cx) (gave_up cx s) = Inr (a, s')"
  by (auto simp: delete_failed_def gave_up_def dest!: lock_ok split: sum.splits if_splits)

text \<open>The transactions that touch no item, and those that drop them.\<close>

definition only_deletions :: "string \<Rightarrow> lifecycle_db \<Rightarrow> lifecycle_db \<Rightarrow> bool" where
  "only_deletions l s s' \<longleftrightarrow> kept {l} s s' \<and> lc_items s' = lc_items s"

lemma only_deletions_trans: "only_deletions l s t \<Longrightarrow> only_deletions l t u \<Longrightarrow> only_deletions l s u"
  unfolding only_deletions_def using lf.R_trans by auto

lemma only_deletions_refl [simp]: "only_deletions l s s"
  by (simp add: only_deletions_def)

lemma only_deletions_set:
  assumes "\<And>r. p r \<Longrightarrow> dl_id (f r) = dl_id r" and "\<And>r. p r \<Longrightarrow> dl_lease (f r) \<in> {dl_lease r, None, Some l}"
  shows "only_deletions l s (set_deletions p f s)"
  unfolding only_deletions_def
proof
  show "kept {l} s (set_deletions p f s)"
  proof (rule kept_set_deletions)
    fix r assume "p r"
    then show "dl_id (f r) = dl_id r" "dl_lease (f r) \<in> {dl_lease r, None} \<union> Some ` {l}" using assms(1) assms(2) [of r] by auto
  qed
  show "lc_items (set_deletions p f s) = lc_items s" by (simp add: set_deletions_def)
qed

lemma claim_only: "claimDeletion m l s = Inr (a, s') \<Longrightarrow> only_deletions l s s'"
  by (auto simp: claimDeletion_def split: option.splits intro: only_deletions_set)

lemma require_only: "require_action b c d l s = Inr (a, s') \<Longrightarrow> only_deletions l s s'"
  by (auto simp: require_action_def let_go_def intro!: only_deletions_set)

lemma may_only: "may_deprovision m d l s = Inr (a, s') \<Longrightarrow> only_deletions l s s'"
proof -
  have u: "only_deletions l t (set_deletions p (\<lambda>r. r\<lparr>dl_expires := x\<rparr>) t)" for t p x by (auto intro: only_deletions_set)
  assume "may_deprovision m d l s = Inr (a, s')"
  then show ?thesis
    by (auto simp: may_deprovision_def tx_bind_eq_Inr u dest!: lock_ok update_alive_ok require_only split: if_splits
        intro: only_deletions_trans [OF u])
qed

lemma yield_only: "yield_deletion m d l s = Inr (a, s') \<Longrightarrow> only_deletions l s s'"
  by (auto simp: yield_deletion_def tx_bind_eq_Inr let_go_def dest!: guarded_ok update_alive_ok intro!: only_deletions_set)

lemma validate_ok: "lifecycle_validate_purge m d l k s = Inr (r, s') \<Longrightarrow>
    s' = s \<and> leased_to s d l \<and> (\<forall>x \<in> set (lc_items s). cu_deletion x = d \<longrightarrow> cu_status x = GONE)"
  by (auto simp: lifecycle_validate_purge_def db_throw_def leased_to_def leased_def list_ex_iff find_Some_iff
      split: option.splits if_splits)

lemma kept_drop_members: "kept A s (drop_members org s)"
  by (simp add: drop_members_def Let_def kept_def lc_wf_def ids_def leased_to_def items_of_def)

lemma purge_ok:
  assumes "purge env m w l s = Inr (a, s')"
  obtains s1 s2 where "only_deletions l s s1" "kept {l} s1 s2" "leased_to s1 (wk_id w) l"
    "\<forall>x \<in> set (lc_items s1). cu_deletion x = wk_id w \<longrightarrow> cu_status x = GONE"
    "lc_items s2 = filter (\<lambda>x. cu_deletion x \<noteq> wk_id w) (lc_items s1)"
    "s' = set_deletions (\<lambda>x. dl_id x = wk_id w) (\<lambda>x. (let_go COMPLETED x)\<lparr>dl_name := None, dl_reason := None, dl_error := None\<rparr>) s2"
    "lc_deletions s2 = lc_deletions s1"
proof -
  let ?s1 = "set_deletions (\<lambda>r. leased (wk_id w) l r \<and> alive (tm_clock m 3) r) (\<lambda>r. r\<lparr>dl_status := REMOVING_DATA\<rparr>) s"
  from assms have p: "lifecycle_purge env m (wk_id w) l (wk_kind w) ?s1 = Inr (a, s')"
    by (auto simp: purge_def tx_bind_eq_Inr dest!: guarded_ok update_alive_ok)
  then obtain r where v: "lifecycle_validate_purge m (wk_id w) l (wk_kind w) ?s1 = Inr (r, ?s1)"
    by (auto simp: lifecycle_purge_def tx_bind_eq_Inr dest: validate_ok)
  let ?t = "if wk_kind w = ORGANIZATION then drop_members (dl_org r) ?s1 else ?s1"
  let ?s2 = "?t\<lparr>lc_items := filter (\<lambda>x. cu_deletion x \<noteq> wk_id w) (lc_items ?t)\<rparr>"
  have t: "kept {l} ?s1 ?t" "lc_items ?t = lc_items ?s1" "lc_deletions ?t = lc_deletions ?s1"
    by (simp_all add: kept_drop_members) (simp_all add: drop_members_def Let_def)
  then have "leased_to ?t (wk_id w) l" using validate_ok [OF v] by (simp add: leased_to_def)
  then have "kept {l} ?s1 ?s2" using t(1) lf.R_trans kept_drop_items by blast
  moreover have "s' = set_deletions (\<lambda>x. dl_id x = wk_id w) (\<lambda>x. (let_go COMPLETED x)\<lparr>dl_name := None, dl_reason := None, dl_error := None\<rparr>) ?s2"
    using p v by (auto simp: lifecycle_purge_def tx_bind_eq_Inr Let_def split: option.splits)
  moreover have "only_deletions l s ?s1" by (rule only_deletions_set) auto
  ultimately show thesis using that [of ?s1 ?s2] validate_ok [OF v] t(2,3) by simp
qed

end
