(* ===== verification/Lifecycle_Invariant.thy ===== *)
theory Lifecycle_Invariant
  imports Lifecycle_Moves "HOL-Library.Sublist"
begin

text \<open>
  The invariant of a worker: while it holds its lease, the items it has still to handle are in the
  table with the status it read. From it, a move never creates more permissions to delete than the
  provider has confirmed.
\<close>

section \<open>Items as they were read\<close>

definition matches :: "lifecycle_db \<Rightarrow> string \<Rightarrow> cleanup_item list \<Rightarrow> bool" where
  "matches s d xs \<longleftrightarrow> distinct (map cu_instance xs) \<and> (\<forall>x \<in> set xs.
     (\<exists>y \<in> set (items_of s d). cu_instance y = cu_instance x) \<and>
     (\<forall>y \<in> set (items_of s d). cu_instance y = cu_instance x \<longrightarrow> cu_status y = cu_status x))"

definition pend :: "lifecycle_db \<Rightarrow> string \<Rightarrow> string \<Rightarrow> nat" where
  "pend s d i = of_bool (\<exists>y \<in> set (items_of s d). cu_instance y = i \<and> cu_status y = TO_DELETE)"

definition gone_evidence :: "lc_event list \<Rightarrow> string \<Rightarrow> string \<Rightarrow> bool" where
  "gone_evidence tr d i \<longleftrightarrow> (\<exists>cx. cx_deletion cx = d \<and> cx_instance cx = i \<and> (Deleted cx True \<in> set tr \<or> Looked cx (Some False) \<in> set tr))"

definition gone_ok :: "lifecycle_db \<Rightarrow> lc_event list \<Rightarrow> bool" where
  "gone_ok s tr \<longleftrightarrow> (\<forall>y \<in> set (lc_items s). cu_status y = GONE \<longrightarrow> gone_evidence tr (cu_deletion y) (cu_instance y))"

lemma matches_cong: "items_of s' d = items_of s d \<Longrightarrow> matches s' d xs = matches s d xs"
  by (simp add: matches_def)

lemma same_items: "lc_items s' = lc_items s \<Longrightarrow> items_of s' d = items_of s d \<and> matches s' d xs = matches s d xs \<and> pend s' d i = pend s d i \<and> gone_ok s' tr = gone_ok s tr"
  by (simp add: items_of_def matches_def pend_def gone_ok_def)

lemma matches_tail: "matches s d (x # xs) \<Longrightarrow> matches s d xs \<and> cu_instance x \<notin> cu_instance ` set xs"
  by (auto simp: matches_def)

lemma filter_update_item:
  assumes "\<And>x. cu_deletion (f x) = cu_deletion x"
  shows "filter (\<lambda>x. cu_deletion x = d') (update_rows (\<lambda>x. cu_deletion x = d \<and> cu_instance x = i) f xs) =
    (if d' = d then update_rows (\<lambda>x. cu_instance x = i) f (filter (\<lambda>x. cu_deletion x = d') xs) else filter (\<lambda>x. cu_deletion x = d') xs)"
  by (induction xs) (auto simp: assms)

lemma items_of_set_items:
  assumes "\<And>x. item_key (f x) = item_key x"
  shows "items_of (set_items d i f s) d' = (if d' = d then update_rows (\<lambda>x. cu_instance x = i) f (items_of s d) else items_of s d')"
  using assms unfolding items_of_def set_items_def by (simp add: filter_update_item item_key_def)

lemma matches_Nil [simp]: "matches s d []"
  by (simp add: matches_def)

lemma matches_set_items:
  assumes "matches s d xs" and "i \<notin> cu_instance ` set xs" and "\<And>x. item_key (f x) = item_key x"
  shows "matches (set_items d i f s) d xs"
  using assms(1,2) assms(3) [unfolded item_key_def]
  unfolding matches_def items_of_set_items [OF assms(3)]
  by (fastforce simp: update_rows_def)

lemma pend_set_items:
  assumes "\<And>x. item_key (f x) = item_key x"
  shows "pend (set_items d i f s) d' i' \<le> (if d' = d \<and> i' = i then of_bool (\<exists>x. cu_status (f x) = TO_DELETE) else pend s d' i')"
  using assms [unfolded item_key_def]
  unfolding pend_def items_of_set_items [OF assms] by (auto simp: update_rows_def)

lemma gone_set_items:
  assumes "gone_ok s tr" and "\<And>x. item_key (f x) = item_key x"
    and "\<And>x. cu_status (f x) = GONE \<Longrightarrow> cu_status x = GONE \<or> gone_evidence tr d i"
  shows "gone_ok (set_items d i f s) tr"
  unfolding gone_ok_def
proof (intro ballI impI)
  fix y assume y: "y \<in> set (lc_items (set_items d i f s))" "cu_status y = GONE"
  from y(1) consider "y \<in> set (lc_items s)" | x where "x \<in> set (lc_items s)" "y = f x" "cu_deletion x = d" "cu_instance x = i"
    unfolding set_items_def by (auto dest!: set_update_rows)
  then show "gone_evidence tr (cu_deletion y) (cu_instance y)"
  proof cases
    case 1
    then show ?thesis using assms(1) y(2) by (simp add: gone_ok_def)
  next
    case 2
    with y(2) assms(3) [of x] assms(1) assms(2) [of x] show ?thesis by (auto simp: gone_ok_def item_key_def)
  qed
qed

section \<open>Points\<close>

fun work_of :: "point \<Rightarrow> work_row option" where
  "work_of AtClaim = None" | "work_of (AtAuthorize w) = Some w" | "work_of (AtRefusal w) = Some w" | "work_of (AtRead w) = Some w"
| "work_of (AtItem w x xs) = Some w" | "work_of (AtLookup w x xs) = Some w" | "work_of (AtSettle w x xs b) = Some w"
| "work_of (AtMark w x xs) = Some w" | "work_of (AtDelete w x xs) = Some w" | "work_of (AtDone w x xs) = Some w"
| "work_of (AtFailed w x) = Some w" | "work_of (AtPending w) = Some w" | "work_of (AtGuard w) = Some w" | "work_of (AtMedia w) = Some w"
| "work_of (AtYield w) = Some w" | "work_of (AtPurge w) = Some w" | "work_of (AtAttention w c) = Some w"
| "work_of (AtFailure w e) = Some w" | "work_of (AtReturn b) = None" | "work_of (AtThrow e) = None"

fun todo :: "point \<Rightarrow> cleanup_item list" where
  "todo (AtItem w x xs) = x # xs" | "todo (AtLookup w x xs) = x # xs" | "todo (AtSettle w x xs b) = x # xs"
| "todo (AtMark w x xs) = x # xs" | "todo (AtDelete w x xs) = xs" | "todo (AtDone w x xs) = xs" | "todo _ = []"

fun load :: "string \<Rightarrow> string \<Rightarrow> point \<Rightarrow> nat" where
  "load d i (AtDelete w x xs) = of_bool (wk_id w = d \<and> cu_instance x = i)"
| "load d i (AtSettle w x xs b) = of_bool (b \<and> wk_id w = d \<and> cu_instance x = i)"
| "load d i _ = 0"

fun point_ok :: "lc_event list \<Rightarrow> point \<Rightarrow> bool" where
  "point_ok tr (AtMark w x xs) = (cu_status x = TO_DELETE)"
| "point_ok tr (AtDelete w x xs) = (cu_instance x \<notin> cu_instance ` set xs)"
| "point_ok tr (AtDone w x xs) = (cu_instance x \<notin> cu_instance ` set xs \<and> gone_evidence tr (wk_id w) (cu_instance x))"
| "point_ok tr (AtSettle w x xs b) = (b \<or> gone_evidence tr (wk_id w) (cu_instance x))"
| "point_ok tr _ = True"

definition worker_ok :: "lifecycle_db \<Rightarrow> string \<Rightarrow> lc_event list \<Rightarrow> point \<Rightarrow> bool" where
  "worker_ok s l tr pt \<longleftrightarrow> point_ok tr pt \<and> (pt = AtClaim \<longrightarrow> (\<forall>d. \<not> leased_to s d l))
     \<and> (\<forall>w. work_of pt = Some w \<longrightarrow> wk_id w \<in> ids s \<and> (leased_to s (wk_id w) l \<longrightarrow> matches s (wk_id w) (todo pt)))"

lemma at_items_cases:
  obtains "at_items env w xs \<in> {AtPending w, AtGuard w, AtPurge w}"
  | x ys where "at_items env w xs = AtItem w x ys" "suffix (x # ys) xs"
proof (induction xs)
  case Nil
  then show ?case by (auto simp: at_media_def split: if_splits)
next
  case (Cons x xs)
  then show ?case by (cases "cu_status x = GONE") (auto intro: suffix_ConsI)
qed

lemma matches_suffix: "matches s d xs \<Longrightarrow> suffix ys xs \<Longrightarrow> matches s d ys"
  by (auto simp: matches_def suffix_def)

lemma at_items_ok:
  assumes "wk_id w \<in> ids s" and "matches s (wk_id w) xs"
  shows "worker_ok s l tr (at_items env w xs)" "load d i (at_items env w xs) = 0"
proof -
  have "worker_ok s l tr (at_items env w xs) \<and> load d i (at_items env w xs) = 0"
  proof (rule at_items_cases [of env w xs])
    assume "at_items env w xs \<in> {AtPending w, AtGuard w, AtPurge w}"
    then show ?thesis using assms(1) by (auto simp: worker_ok_def matches_def)
  next
    fix x ys assume "at_items env w xs = AtItem w x ys" "suffix (x # ys) xs"
    then show ?thesis using assms matches_suffix by (auto simp: worker_ok_def)
  qed
  then show "worker_ok s l tr (at_items env w xs)" "load d i (at_items env w xs) = 0" by simp_all
qed

lemma at_item_ok:
  assumes "wk_id w \<in> ids s" and "matches s (wk_id w) (x # xs)"
  shows "worker_ok s l tr (at_item env w x xs)" "load d i (at_item env w x xs) = 0"
  using assms at_items_ok [OF assms(1), of xs] matches_tail [OF assms(2)]
  by (auto simp: at_item_def worker_ok_def)

section \<open>Moves\<close>

definition good_move :: "string \<Rightarrow> lc_event list \<Rightarrow> lifecycle_db \<Rightarrow> point \<Rightarrow> lifecycle_db \<Rightarrow> point \<Rightarrow> bool" where
  "good_move l tr s pt s' pt' \<longleftrightarrow> kept {l} s s' \<and> worker_ok s' l tr pt'
     \<and> (\<forall>d i. load d i pt' + pend s' d i \<le> load d i pt + pend s d i) \<and> (gone_ok s tr \<longrightarrow> gone_ok s' tr)"

lemma then_at_cases:
  assumes "then_at k h t s = (pt', s')"
  obtains e where "pt' = h e" "s' = s" | a where "t s = Inr (a, s')" "pt' = k a"
  using assms by (auto simp: then_at_def run_tx_def split: sum.splits)

lemma good_only:
  assumes "only_deletions l s s'" and "worker_ok s' l tr pt'" and "\<And>d i. load d i pt' = 0"
  shows "good_move l tr s pt s' pt'"
  using assms same_items [of s' s] by (auto simp: good_move_def only_deletions_def trans_le_add2)

lemma ids_mono: "kept A s s' \<Longrightarrow> lc_wf s \<Longrightarrow> d \<in> ids s \<Longrightarrow> d \<in> ids s'"
  by (auto simp: kept_def)

lemma idle_ok: "wk_id w \<in> ids s \<Longrightarrow> pt \<in> {AtAuthorize w, AtRefusal w, AtRead w, AtFailed w x, AtPending w, AtGuard w, AtMedia w, AtYield w, AtPurge w, AtAttention w c, AtFailure w e}
    \<Longrightarrow> worker_ok s l tr pt \<and> load d i pt = 0"
  by (auto simp: worker_ok_def)

lemma over_ok: "pt \<in> {AtReturn b, AtThrow e} \<Longrightarrow> worker_ok s l tr pt \<and> load d i pt = 0"
  by (auto simp: worker_ok_def)

lemma failed_cases: "failed pt e \<in> {AtThrow e} \<or> (\<exists>w. work_of pt = Some w \<and> failed pt e = AtFailure w e)"
  by (cases pt) auto

lemma failed_ok: "worker_ok s l tr pt \<Longrightarrow> lc_wf s \<Longrightarrow> kept {l} s s' \<Longrightarrow> worker_ok s' l tr' (failed pt e) \<and> load d i (failed pt e) = 0"
  using failed_cases [of pt e] by (auto simp: worker_ok_def ids_mono)

lemma read_matches:
  assumes "lc_wf s"
  shows "matches s d (sort_key cu_instance (filter (\<lambda>x. cu_deletion x = d) (lc_items s)))"
proof -
  have inj: "inj_on cu_instance (set (items_of s d))" and "distinct (items_of s d)"
    using assms by (auto simp: lc_wf_def items_of_def distinct_map inj_on_def item_key_def)
  then have "distinct (map cu_instance (sort_key cu_instance (items_of s d)))"
    by (simp add: distinct_map)
  with inj show ?thesis
    unfolding items_of_def [symmetric] by (auto simp: matches_def dest: inj_onD)
qed

lemma may_leased: "may_deprovision m d l s = Inr (a, s') \<Longrightarrow> leased_to s d l"
  by (auto simp: may_deprovision_def tx_bind_eq_Inr dest!: lock_ok)

text \<open>A change of the item a worker handles, under its lease.\<close>

lemma good_item_move:
  assumes "lc_wf s" and "leased_to s (wk_id w) l" and "s' = set_items (wk_id w) i f s" and "\<And>x. item_key (f x) = item_key x"
    and "\<And>x. cu_status (f x) = GONE \<Longrightarrow> cu_status x = GONE \<or> gone_evidence tr (wk_id w) i"
    and "worker_ok s' l tr pt'"
    and "load (wk_id w) i pt' + of_bool (\<exists>x. cu_status (f x) = TO_DELETE) \<le> load (wk_id w) i pt + pend s (wk_id w) i"
    and "\<And>d j. (d, j) \<noteq> (wk_id w, i) \<Longrightarrow> load d j pt' = 0"
  shows "good_move l tr s pt s' pt'"
  unfolding good_move_def
proof (intro conjI allI impI)
  show "kept {l} s s'" unfolding assms(3) by (rule kept_set_items [OF assms(2,4)])
  show "worker_ok s' l tr pt'" by (rule assms(6))
  show "gone_ok s' tr" if "gone_ok s tr" unfolding assms(3) by (rule gone_set_items [OF that assms(4,5)])
  fix d j
  show "load d j pt' + pend s' d j \<le> load d j pt + pend s d j"
    using pend_set_items [OF assms(4), of "wk_id w" i s d j] assms(7) assms(8) [of d j]
    by (cases "(d, j) = (wk_id w, i)") (auto simp: assms(3))
qed

lemma ids_set_items [simp]: "ids (set_items d i f s) = ids s"
  by (simp add: ids_def set_items_def)

end
