(* ===== verification/Lifecycle_Properties.thy ===== *)
theory Lifecycle_Properties
  imports Lifecycle_Invariant
begin

text \<open>
  What a removal promises in every interleaving of workers and requests: the provider is asked to drop
  an instance once, and again only as often as it confirmed that the instance is still there; the data
  of a deletion goes only after every instance is known to be gone.
\<close>

section \<open>Transactions of a worker\<close>

lemma good_failure: "worker_ok s l tr pt \<Longrightarrow> work_of pt = Some w \<Longrightarrow> good_move l tr s pt s (AtFailure w e)"
  by (rule good_only) (auto simp: worker_ok_def)

lemma good_idle:
  assumes "only_deletions l s s'" and "lc_wf s" and "worker_ok s l tr pt" and "work_of pt = Some w"
    and "pt' \<in> {AtAuthorize w, AtRefusal w, AtRead w, AtFailed w x, AtPending w, AtGuard w, AtMedia w, AtYield w, AtPurge w, AtAttention w c, AtFailure w e}"
  shows "good_move l tr s pt s' pt'"
proof -
  have "wk_id w \<in> ids s'" using assms(1,2,3,4) ids_mono by (auto simp: worker_ok_def only_deletions_def)
  from idle_ok [OF this assms(5)] show ?thesis using good_only [OF assms(1)] by blast
qed

lemma good_over: "only_deletions l s s' \<Longrightarrow> good_move l tr s pt s' (AtReturn b)" "only_deletions l s s' \<Longrightarrow> good_move l tr s pt s' (AtThrow e)"
  by (rule good_only; simp add: worker_ok_def)+

lemma move_item:
  assumes "lc_wf s" and "worker_ok s l tr (AtItem w x xs)" and "may_deprovision m (wk_id w) l s = Inr (True, s')"
  shows "good_move l tr s (AtItem w x xs) s' (at_item env w x xs)"
proof -
  note o = may_only [OF assms(3)]
  have id: "wk_id w \<in> ids s'" using assms(1,2) o ids_mono by (auto simp: worker_ok_def only_deletions_def)
  have "matches s (wk_id w) (x # xs)" using assms(2) may_leased [OF assms(3)] by (simp add: worker_ok_def)
  then have m: "matches s' (wk_id w) (x # xs)" using o same_items [of s' s] by (simp add: only_deletions_def)
  show ?thesis by (rule good_only [OF o at_item_ok(1) [OF id m] at_item_ok(2) [OF id m]])
qed

lemma move_settle:
  assumes "lc_wf s" and "worker_ok s l tr (AtSettle w x xs b)" and "settle_found env m (cleanup_context w l x) b s = Inr (a, s')"
  shows "good_move l tr s (AtSettle w x xs b) s' (at_items env w xs)"
proof -
  let ?f = "\<lambda>x. x\<lparr>cu_status := (if b then TO_DELETE else GONE), cu_error := None\<rparr>"
  from settle_found_ok [OF assms(3)] have l: "leased_to s (wk_id w) l" and s': "s' = set_items (wk_id w) (cu_instance x) ?f s"
    by (simp_all add: cleanup_context_def)
  have k: "item_key (?f y) = item_key y" for y by (simp add: item_key_def)
  from assms(2) l have id: "wk_id w \<in> ids s'" and m: "matches s (wk_id w) (x # xs)" and p: "b \<or> gone_evidence tr (wk_id w) (cu_instance x)"
    by (auto simp: worker_ok_def s')
  have m': "matches s' (wk_id w) xs" unfolding s' using matches_tail [OF m] k by (intro matches_set_items) auto
  show ?thesis
    by (rule good_item_move [OF assms(1) l s' k _ at_items_ok(1) [OF id m']]) (use p at_items_ok(2) [OF id m'] in \<open>auto split: if_splits\<close>)
qed

lemma move_mark:
  assumes "lc_wf s" and "worker_ok s l tr (AtMark w x xs)" and "begin_delete m (cleanup_context w l x) s = Inr (a, s')"
  shows "good_move l tr s (AtMark w x xs) s' (AtDelete w x xs)"
proof -
  let ?f = "\<lambda>x. if cu_status x = TO_DELETE then x\<lparr>cu_status := IN_FLIGHT, cu_attempts := cu_attempts x + 1\<rparr> else x"
  from begin_delete_ok [OF assms(3)] have l: "leased_to s (wk_id w) l" and s': "s' = set_items (wk_id w) (cu_instance x) ?f s"
    by (simp_all add: cleanup_context_def)
  have k: "item_key (?f y) = item_key y" for y by (simp add: item_key_def)
  from assms(2) l have id: "wk_id w \<in> ids s'" and m: "matches s (wk_id w) (x # xs)" and p: "cu_status x = TO_DELETE"
    by (auto simp: worker_ok_def s')
  have m': "matches s' (wk_id w) xs" unfolding s' using matches_tail [OF m] k by (intro matches_set_items) auto
  have "pend s (wk_id w) (cu_instance x) = 1" using m p by (auto simp: matches_def pend_def)
  then show ?thesis
    by (intro good_item_move [OF assms(1) l s' k]) (use id m' matches_tail [OF m] in \<open>auto simp: worker_ok_def split: if_splits\<close>)
qed

lemma move_done:
  assumes "lc_wf s" and "worker_ok s l tr (AtDone w x xs)" and "delete_done env m (cleanup_context w l x) s = Inr (a, s')"
  shows "good_move l tr s (AtDone w x xs) s' (at_items env w xs)"
proof -
  let ?f = "\<lambda>x. x\<lparr>cu_status := GONE, cu_error := None\<rparr>"
  from delete_done_ok [OF assms(3)] have l: "leased_to s (wk_id w) l" and s': "s' = set_items (wk_id w) (cu_instance x) ?f s"
    by (simp_all add: cleanup_context_def)
  have k: "item_key (?f y) = item_key y" for y by (simp add: item_key_def)
  from assms(2) l have id: "wk_id w \<in> ids s'" and m: "matches s (wk_id w) xs" and n: "cu_instance x \<notin> cu_instance ` set xs"
    and p: "gone_evidence tr (wk_id w) (cu_instance x)"
    by (auto simp: worker_ok_def s')
  have m': "matches s' (wk_id w) xs" unfolding s' using m n k by (intro matches_set_items) auto
  show ?thesis
    by (rule good_item_move [OF assms(1) l s' k _ at_items_ok(1) [OF id m']]) (use p at_items_ok(2) [OF id m'] in auto)
qed

lemma move_failed:
  assumes "lc_wf s" and "worker_ok s l tr (AtFailed w x)" and "delete_failed m (cleanup_context w l x) s = Inr (a, s')"
  shows "good_move l tr s (AtFailed w x) s' (AtReturn True)"
proof -
  let ?t = "gave_up (cleanup_context w l x) s"
  consider "s' = s" | "leased_to s (wk_id w) l" "only_deletions l ?t s'"
    using delete_failed_ok [OF assms(3)] by (auto simp: cleanup_context_def dest: require_only)
  then show ?thesis
  proof cases
    case 1
    then show ?thesis by (simp add: good_over)
  next
    case 2
    let ?f = "\<lambda>x. x\<lparr>cu_status := ATTENTION, cu_error := Some ''EVOLUTION_CLEANUP_UNVERIFIED''\<rparr>"
    have t: "?t = set_items (wk_id w) (cu_instance x) ?f s" by (simp add: gave_up_def cleanup_context_def)
    have "good_move l tr s (AtFailed w x) ?t (AtReturn True)"
      by (rule good_item_move [OF assms(1) 2(1) t]) (auto simp: item_key_def worker_ok_def)
    then show ?thesis
      using 2(2) lf.R_trans [of "{l}" s ?t s'] same_items [of s' ?t] by (auto simp: good_move_def only_deletions_def worker_ok_def)
  qed
qed

lemma move_purge:
  assumes "lc_wf s" and "purge env m w l s = Inr (a, s')"
  shows "good_move l tr s (AtPurge w) s' (AtReturn True)"
proof (rule purge_ok [OF assms(2)])
  fix s1 s2
  assume s1: "only_deletions l s s1" and s2: "kept {l} s1 s2" "lc_items s2 = filter (\<lambda>x. cu_deletion x \<noteq> wk_id w) (lc_items s1)"
    and s': "s' = set_deletions (\<lambda>x. dl_id x = wk_id w) (\<lambda>x. (let_go COMPLETED x)\<lparr>dl_name := None, dl_reason := None, dl_error := None\<rparr>) s2"
  have "only_deletions l s2 s'" unfolding s' by (rule only_deletions_set) (auto simp: let_go_def)
  then have i: "lc_items s' = filter (\<lambda>x. cu_deletion x \<noteq> wk_id w) (lc_items s)" and k: "kept {l} s s'"
    using s1 s2 lf.R_trans by (auto simp: only_deletions_def)
  have "pend s' d j \<le> pend s d j" for d j by (auto simp: pend_def items_of_def i)
  moreover have "gone_ok s' tr" if "gone_ok s tr" using that by (auto simp: gone_ok_def i)
  ultimately show ?thesis using k by (auto simp: good_move_def worker_ok_def)
qed

lemma earliest_mem: "earliest (filter p rs) = Some r \<Longrightarrow> r \<in> set rs"
proof -
  assume "earliest (filter p rs) = Some r"
  then obtain qs where "sort_key (\<lambda>r. (dl_requested r, dl_id r)) (filter p rs) = r # qs" by (auto simp: earliest_def split: list.splits)
  then have "r \<in> set (sort_key (\<lambda>r. (dl_requested r, dl_id r)) (filter p rs))" by (simp only: list.set_intros)
  then show ?thesis by (simp only: set_sort set_filter) simp
qed

text \<open>A transaction at a point either fails, or answers and moves on.\<close>

lemma move_by_tx:
  assumes "worker_ok s l tr pt" and "work_of pt = Some w" and "then_at k (AtFailure w) t s = (pt', s')"
    and "\<And>a. t s = Inr (a, s') \<Longrightarrow> good_move l tr s pt s' (k a)"
  shows "good_move l tr s pt s' pt'"
  using assms(3)
proof (rule then_at_cases)
  show "pt' = AtFailure w e \<Longrightarrow> s' = s \<Longrightarrow> good_move l tr s pt s' pt'" for e using good_failure [OF assms(1,2)] by simp
  show "t s = Inr (a, s') \<Longrightarrow> pt' = k a \<Longrightarrow> good_move l tr s pt s' pt'" for a using assms(4) by simp
qed

lemma own_move:
  assumes "lc_wf s" and ok: "worker_ok s l tr pt" and "point_tx env l m s pt = Some (pt', s')"
  shows "good_move l tr s pt s' pt'"
  using assms(3)
proof (cases pt)
  case AtClaim
  with assms(3) have t: "then_at (\<lambda>c. case c of None \<Rightarrow> AtReturn False | Some w \<Rightarrow> AtAuthorize w) AtThrow (claimDeletion m l) s = (pt', s')" by simp
  then show ?thesis
  proof (rule then_at_cases)
    fix e assume "pt' = AtThrow e" "s' = s"
    then show ?thesis by (simp add: good_over)
  next
    fix c assume c: "claimDeletion m l s = Inr (c, s')" "pt' = (case c of None \<Rightarrow> AtReturn False | Some w \<Rightarrow> AtAuthorize w)"
    show ?thesis
    proof (cases c)
      case None
      then show ?thesis using c claim_only by (auto simp: good_over)
    next
      case (Some w)
      have "wk_id w \<in> ids s"
        using c(1) Some by (auto simp: claimDeletion_def ids_def split: option.splits) (metis earliest_mem image_eqI)
      then have "wk_id w \<in> ids s'" using ids_mono [OF _ assms(1)] claim_only [OF c(1)] by (auto simp: only_deletions_def)
      then show ?thesis using c(2) Some by (intro good_only [OF claim_only [OF c(1)]]) (auto simp: worker_ok_def)
    qed
  qed
next
  case (AtAuthorize w)
  show ?thesis unfolding AtAuthorize
  proof (rule move_by_tx [OF ok [unfolded AtAuthorize]])
    show "work_of (AtAuthorize w) = Some w" by simp
    from assms(3) show "then_at (\<lambda>b. if b then AtRead w else AtRefusal w) (AtFailure w) (authorize_deletion m (wk_id w) l) s = (pt', s')" by (simp add: AtAuthorize)
  next
    fix a assume t: "(authorize_deletion m (wk_id w) l) s = Inr (a, s')"
    show "good_move l tr s (AtAuthorize w) s' ((\<lambda>b. if b then AtRead w else AtRefusal w) a)"
      using authorize_ok [OF t] good_idle [OF _ assms(1) ok, of s w] by (simp add: AtAuthorize)
  qed
next
  case (AtRefusal w)
  show ?thesis unfolding AtRefusal
  proof (rule move_by_tx [OF ok [unfolded AtRefusal]])
    show "work_of (AtRefusal w) = Some w" by simp
    from assms(3) show "then_at (\<lambda>_. AtReturn True) (AtFailure w) (require_action False ''LIFECYCLE_ACTOR_REVOKED'' (wk_id w) l) s = (pt', s')" by (simp add: AtRefusal)
  next
    fix a assume t: "(require_action False ''LIFECYCLE_ACTOR_REVOKED'' (wk_id w) l) s = Inr (a, s')"
    show "good_move l tr s (AtRefusal w) s' ((\<lambda>_. AtReturn True) a)"
      using require_only [OF t] by (simp add: good_over)
  qed
next
  case (AtRead w)
  show ?thesis unfolding AtRead
  proof (rule move_by_tx [OF ok [unfolded AtRead]])
    show "work_of (AtRead w) = Some w" by simp
    from assms(3) show "then_at (at_items env w) (AtFailure w) (read_items (wk_id w)) s = (pt', s')" by (simp add: AtRead)
  next
    fix a assume t: "(read_items (wk_id w)) s = Inr (a, s')"
    show "good_move l tr s (AtRead w) s' ((at_items env w) a)"
      proof -
        have id: "wk_id w \<in> ids s" using ok by (simp add: AtRead worker_ok_def)
        from t have "s' = s" "a = sort_key cu_instance (filter (\<lambda>x. cu_deletion x = wk_id w) (lc_items s))" by (auto simp: read_items_def)
        then show ?thesis using at_items_ok [OF id read_matches [OF assms(1)]] by (intro good_only) simp_all
      qed
  qed
next
  case (AtItem w x xs)
  show ?thesis unfolding AtItem
  proof (rule move_by_tx [OF ok [unfolded AtItem]])
    show "work_of (AtItem w x xs) = Some w" by simp
    from assms(3) show "then_at (\<lambda>may. if may then at_item env w x xs else AtReturn True) (AtFailure w) (may_deprovision m (wk_id w) l) s = (pt', s')" by (simp add: AtItem)
  next
    fix a assume t: "(may_deprovision m (wk_id w) l) s = Inr (a, s')"
    show "good_move l tr s (AtItem w x xs) s' ((\<lambda>may. if may then at_item env w x xs else AtReturn True) a)"
      using t may_only [OF t] move_item [OF assms(1) ok [unfolded AtItem]] by (cases a) (auto simp: good_over)
  qed
next
  case (AtSettle w x xs b)
  show ?thesis unfolding AtSettle
  proof (rule move_by_tx [OF ok [unfolded AtSettle]])
    show "work_of (AtSettle w x xs b) = Some w" by simp
    from assms(3) show "then_at (\<lambda>_. at_items env w xs) (AtFailure w) (settle_found env m (cleanup_context w l x) b) s = (pt', s')" by (simp add: AtSettle)
  next
    fix a assume t: "(settle_found env m (cleanup_context w l x) b) s = Inr (a, s')"
    show "good_move l tr s (AtSettle w x xs b) s' ((\<lambda>_. at_items env w xs) a)"
      using move_settle [OF assms(1) ok [unfolded AtSettle] t] by simp
  qed
next
  case (AtMark w x xs)
  show ?thesis unfolding AtMark
  proof (rule move_by_tx [OF ok [unfolded AtMark]])
    show "work_of (AtMark w x xs) = Some w" by simp
    from assms(3) show "then_at (\<lambda>_. AtDelete w x xs) (AtFailure w) (begin_delete m (cleanup_context w l x)) s = (pt', s')" by (simp add: AtMark)
  next
    fix a assume t: "(begin_delete m (cleanup_context w l x)) s = Inr (a, s')"
    show "good_move l tr s (AtMark w x xs) s' ((\<lambda>_. AtDelete w x xs) a)"
      using move_mark [OF assms(1) ok [unfolded AtMark] t] by simp
  qed
next
  case (AtDone w x xs)
  show ?thesis unfolding AtDone
  proof (rule move_by_tx [OF ok [unfolded AtDone]])
    show "work_of (AtDone w x xs) = Some w" by simp
    from assms(3) show "then_at (\<lambda>_. at_items env w xs) (AtFailure w) (delete_done env m (cleanup_context w l x)) s = (pt', s')" by (simp add: AtDone)
  next
    fix a assume t: "(delete_done env m (cleanup_context w l x)) s = Inr (a, s')"
    show "good_move l tr s (AtDone w x xs) s' ((\<lambda>_. at_items env w xs) a)"
      using move_done [OF assms(1) ok [unfolded AtDone] t] by simp
  qed
next
  case (AtFailed w x)
  show ?thesis unfolding AtFailed
  proof (rule move_by_tx [OF ok [unfolded AtFailed]])
    show "work_of (AtFailed w x) = Some w" by simp
    from assms(3) show "then_at (\<lambda>_. AtReturn True) (AtFailure w) (delete_failed m (cleanup_context w l x)) s = (pt', s')" by (simp add: AtFailed)
  next
    fix a assume t: "(delete_failed m (cleanup_context w l x)) s = Inr (a, s')"
    show "good_move l tr s (AtFailed w x) s' ((\<lambda>_. AtReturn True) a)"
      using move_failed [OF assms(1) ok [unfolded AtFailed] t] by simp
  qed
next
  case (AtPending w)
  show ?thesis unfolding AtPending
  proof (rule move_by_tx [OF ok [unfolded AtPending]])
    show "work_of (AtPending w) = Some w" by simp
    from assms(3) show "then_at (\<lambda>b. if b then AtAttention w ''EVOLUTION_INSTANCE_STILL_PRESENT'' else at_media env w) (AtFailure w) (still_present (wk_id w)) s = (pt', s')" by (simp add: AtPending)
  next
    fix a assume t: "(still_present (wk_id w)) s = Inr (a, s')"
    show "good_move l tr s (AtPending w) s' ((\<lambda>b. if b then AtAttention w ''EVOLUTION_INSTANCE_STILL_PRESENT'' else at_media env w) a)"
      using t good_idle [OF only_deletions_refl assms(1) ok [unfolded AtPending], of w] by (auto simp: still_present_def at_media_def)
  qed
next
  case (AtGuard w)
  show ?thesis unfolding AtGuard
  proof (rule move_by_tx [OF ok [unfolded AtGuard]])
    show "work_of (AtGuard w) = Some w" by simp
    from assms(3) show "then_at (\<lambda>_. AtMedia w) (AtFailure w) (guarded m (wk_id w) l) s = (pt', s')" by (simp add: AtGuard)
  next
    fix a assume t: "(guarded m (wk_id w) l) s = Inr (a, s')"
    show "good_move l tr s (AtGuard w) s' ((\<lambda>_. AtMedia w) a)"
      using guarded_ok [OF t] good_idle [OF only_deletions_refl assms(1) ok [unfolded AtGuard], of w] by simp
  qed
next
  case (AtYield w)
  show ?thesis unfolding AtYield
  proof (rule move_by_tx [OF ok [unfolded AtYield]])
    show "work_of (AtYield w) = Some w" by simp
    from assms(3) show "then_at (\<lambda>_. AtReturn True) (AtFailure w) (yield_deletion m (wk_id w) l) s = (pt', s')" by (simp add: AtYield)
  next
    fix a assume t: "(yield_deletion m (wk_id w) l) s = Inr (a, s')"
    show "good_move l tr s (AtYield w) s' ((\<lambda>_. AtReturn True) a)"
      using yield_only [OF t] by (simp add: good_over)
  qed
next
  case (AtPurge w)
  show ?thesis unfolding AtPurge
  proof (rule move_by_tx [OF ok [unfolded AtPurge]])
    show "work_of (AtPurge w) = Some w" by simp
    from assms(3) show "then_at (\<lambda>_. AtReturn True) (AtFailure w) (purge env m w l) s = (pt', s')" by (simp add: AtPurge)
  next
    fix a assume t: "(purge env m w l) s = Inr (a, s')"
    show "good_move l tr s (AtPurge w) s' ((\<lambda>_. AtReturn True) a)"
      using move_purge [OF assms(1) t] by simp
  qed
next
  case (AtAttention w c)
  show ?thesis unfolding AtAttention
  proof (rule move_by_tx [OF ok [unfolded AtAttention]])
    show "work_of (AtAttention w c) = Some w" by simp
    from assms(3) show "then_at (\<lambda>_. AtReturn True) (AtFailure w) (require_action True c (wk_id w) l) s = (pt', s')" by (simp add: AtAttention)
  next
    fix a assume t: "(require_action True c (wk_id w) l) s = Inr (a, s')"
    show "good_move l tr s (AtAttention w c) s' ((\<lambda>_. AtReturn True) a)"
      using require_only [OF t] by (simp add: good_over)
  qed
next
  case (AtFailure w e)
  with assms(3) have "then_at (\<lambda>_. AtReturn True) AtThrow (require_action True (failure_code e) (wk_id w) l) s = (pt', s')" by simp
  then show ?thesis by (rule then_at_cases) (auto simp: good_over dest: require_only)
qed (use assms(3) in simp_all)

end
