(* ===== verification/Lifecycle_Runs.thy ===== *)
theory Lifecycle_Runs
  imports Lifecycle_Properties
begin

text \<open>The invariant of the system, and the two properties of removals.\<close>

section \<open>Counting\<close>

definition asked :: "lc_event list \<Rightarrow> string \<Rightarrow> string \<Rightarrow> nat" where
  "asked tr d i = length (filter (\<lambda>e. case e of Deleted cx b \<Rightarrow> cx_deletion cx = d \<and> cx_instance cx = i | _ \<Rightarrow> False) tr)"

definition confirmed :: "lc_event list \<Rightarrow> string \<Rightarrow> string \<Rightarrow> nat" where
  "confirmed tr d i = length (filter (\<lambda>e. case e of Looked cx (Some True) \<Rightarrow> cx_deletion cx = d \<and> cx_instance cx = i | _ \<Rightarrow> False) tr)"

definition loads :: "string \<Rightarrow> string \<Rightarrow> (string \<times> point) list \<Rightarrow> nat" where
  "loads d i pts = sum_list (map (load d i \<circ> snd) pts)"

lemma asked_append [simp]: "asked (tr @ ev) d i = asked tr d i + asked ev d i" "asked [] d i = 0"
  by (simp_all add: asked_def)

lemma confirmed_append [simp]: "confirmed (tr @ ev) d i = confirmed tr d i + confirmed ev d i" "confirmed [] d i = 0"
  by (simp_all add: confirmed_def)

lemma loads_simps [simp]: "loads d i [] = 0" "loads d i (p # pts) = load d i (snd p) + loads d i pts"
    "loads d i (ps @ pts) = loads d i ps + loads d i pts"
  by (simp_all add: loads_def)

section \<open>The invariant\<close>

definition counted :: "lifecycle_db \<Rightarrow> lc_event list \<Rightarrow> (string \<times> point) list \<Rightarrow> bool" where
  "counted s tr pts \<longleftrightarrow> (\<forall>d i. asked tr d i + loads d i pts + pend s d i \<le> Suc (confirmed tr d i) \<and> (d \<notin> ids s \<longrightarrow> asked tr d i = 0))"

definition inv_ok :: "lifecycle_db \<Rightarrow> lc_event list \<Rightarrow> string set \<Rightarrow> (string \<times> point) list \<Rightarrow> bool" where
  "inv_ok s tr ls pts \<longleftrightarrow> lc_wf s \<and> distinct (map fst pts) \<and> fst ` set pts \<subseteq> ls \<and> (\<forall>d l. leased_to s d l \<longrightarrow> l \<in> ls)
     \<and> (\<forall>p \<in> set pts. worker_ok s (fst p) tr (snd p)) \<and> gone_ok s tr \<and> counted s tr pts"

definition sys_ok :: "lifecycle_env \<Rightarrow> lc_system \<Rightarrow> (string \<times> point) list \<Rightarrow> bool" where
  "sys_ok env y pts \<longleftrightarrow> sy_workers y = map (\<lambda>p. (fst p, code env (fst p) (snd p))) pts
     \<and> inv_ok (sy_db y) (sy_trace y) (set (sy_leases y)) pts"

lemma evidence_mono: "gone_evidence tr d i \<Longrightarrow> gone_evidence (tr @ ev) d i"
  by (auto simp: gone_evidence_def)

lemma context_fields [simp]: "cx_deletion (cleanup_context w l x) = wk_id w" "cx_instance (cleanup_context w l x) = cu_instance x"
  by (simp_all add: cleanup_context_def)

lemma evidence_now:
  "gone_evidence (tr @ [Deleted (cleanup_context w l x) True]) (wk_id w) (cu_instance x)"
  "\<not> b \<Longrightarrow> gone_evidence (tr @ [Looked (cleanup_context w l x) (Some b)]) (wk_id w) (cu_instance x)"
  unfolding gone_evidence_def by (rule exI [of _ "cleanup_context w l x"], simp)+

lemma point_ok_mono: "point_ok tr pt \<Longrightarrow> point_ok (tr @ ev) pt"
  by (cases pt) (auto intro: evidence_mono)

lemma gone_ok_mono: "gone_ok s tr \<Longrightarrow> gone_ok s (tr @ ev)"
  by (auto simp: gone_ok_def intro: evidence_mono)

lemma other_ok:
  assumes "worker_ok s l tr pt" and "lc_wf s" and "kept A s s'" and "l \<notin> A"
  shows "worker_ok s' l (tr @ ev) pt"
  using assms point_ok_mono matches_cong unfolding worker_ok_def kept_def by (metis subsetD)

lemma load_of_known: "worker_ok s l tr pt \<Longrightarrow> d \<notin> ids s \<Longrightarrow> load d i pt = 0"
  by (cases pt) (auto simp: worker_ok_def)

lemma no_loads: "\<forall>p \<in> set pts. worker_ok s (fst p) tr (snd p) \<Longrightarrow> d \<notin> ids s \<Longrightarrow> loads d i pts = 0"
  by (induction pts) (auto dest: load_of_known)

lemma pend_unknown: "lc_wf s \<Longrightarrow> d \<notin> ids s \<Longrightarrow> pend s d i = 0"
  by (auto simp: pend_def items_of_def lc_wf_def)

section \<open>Steps\<close>

text \<open>A step of one worker: its transaction, its failed transaction, or an answer.\<close>

lemma counted_move:
  assumes "counted s tr (ps @ (l, pt) # qs)" and "kept {l} s s'" "lc_wf s"
    and "\<And>d i. asked ev d i + load d i pt' + pend s' d i \<le> load d i pt + pend s d i + confirmed ev d i"
    and "\<And>d i. asked ev d i \<noteq> 0 \<Longrightarrow> d \<in> ids s"
  shows "counted s' (tr @ ev) (ps @ (l, pt') # qs)"
  unfolding counted_def
proof (intro allI conjI impI)
  fix d i
  have "asked tr d i + loads d i (ps @ (l, pt) # qs) + pend s d i \<le> Suc (confirmed tr d i)" using assms(1) by (simp add: counted_def)
  with assms(4) [of d i] show "asked (tr @ ev) d i + loads d i (ps @ (l, pt') # qs) + pend s' d i \<le> Suc (confirmed (tr @ ev) d i)" by simp
  assume "d \<notin> ids s'"
  then have "d \<notin> ids s" using ids_mono [OF assms(2,3)] by blast
  then show "asked (tr @ ev) d i = 0" using assms(1,5) by (auto simp: counted_def)
qed

lemma inv_move:
  assumes inv: "inv_ok s tr ls (ps @ (l, pt) # qs)" and k: "kept {l} s s'" and w: "worker_ok s' l (tr @ ev) pt'" and g: "gone_ok s' (tr @ ev)"
    and "\<And>d i. asked ev d i + load d i pt' + pend s' d i \<le> load d i pt + pend s d i + confirmed ev d i"
    and "\<And>d i. asked ev d i \<noteq> 0 \<Longrightarrow> d \<in> ids s"
  shows "inv_ok s' (tr @ ev) ls (ps @ (l, pt') # qs)"
proof -
  from inv have wf: "lc_wf s" and c: "counted s tr (ps @ (l, pt) # qs)" and d: "l \<notin> fst ` set ps" "l \<notin> fst ` set qs" by (auto simp: inv_ok_def)
  have "worker_ok s' (fst p) (tr @ ev) (snd p)" if "p \<in> set ps \<union> set qs" for p
    using that inv d by (intro other_ok [OF _ wf k]) (auto simp: inv_ok_def)
  moreover have leases: "l \<in> ls" "\<forall>d l'. leased_to s d l' \<longrightarrow> l' \<in> ls" using inv by (auto simp: inv_ok_def)
  have "l' \<in> ls" if "leased_to s' d l'" for d l'
  proof (cases "l' = l")
    case False
    with that k wf have "leased_to s d l'" by (auto simp: kept_def)
    then show ?thesis using leases(2) by blast
  qed (simp add: leases(1))
  moreover have "lc_wf s'" using k wf by (simp add: kept_def)
  ultimately show ?thesis
    using inv w g counted_move [OF c k wf assms(5,6)] by (auto simp: inv_ok_def)
qed

lemma call_move:
  assumes "inv_ok s tr ls (ps @ (l, pt) # qs)" and "(ev, pt') \<in> point_call pt l"
  shows "inv_ok s (tr @ [ev]) ls (ps @ (l, pt') # qs)"
proof -
  from assms(1) have ok: "worker_ok s l tr pt" and g: "gone_ok s tr" by (auto simp: inv_ok_def)
  have w: "worker_ok s l (tr @ [ev]) pt' \<and> (\<forall>d i. asked [ev] d i + load d i pt' \<le> load d i pt + confirmed [ev] d i)
      \<and> (\<forall>d i. asked [ev] d i \<noteq> 0 \<longrightarrow> d \<in> ids s)"
    using assms(2) ok
    by (cases pt) (auto simp: worker_ok_def lookup_point_def delete_point_def media_point_def asked_def confirmed_def evidence_now
        split: option.splits media_state.splits if_splits dest: contrapos_np [OF _ evidence_now(2)])
  show ?thesis
    by (rule inv_move [OF assms(1) kept_refl _ gone_ok_mono [OF g]]) (use w in auto)
qed

lemma worker_moves:
  assumes "inv_ok s tr ls (ps @ (l, pt) # qs)" and "moves env l pt s ev pt' s'"
  shows "inv_ok s' (tr @ ev) ls (ps @ (l, pt') # qs)"
proof -
  from assms(1) have ok: "worker_ok s l tr pt" and wf: "lc_wf s" and g: "gone_ok s tr" by (auto simp: inv_ok_def)
  have by_good: "inv_ok t tr ls (ps @ (l, q) # qs)" if "good_move l tr s pt t q" for t q
    using inv_move [OF assms(1), of t "[]" q] that g by (auto simp: good_move_def)
  have failing: "inv_ok t tr ls (ps @ (l, failed pt e) # qs)" if "good_move l tr s pt t q" for t q e
  proof -
    from that have k: "kept {l} s t" by (simp add: good_move_def)
    have "pend t d i \<le> load d i pt + pend s d i" for d i
    proof -
      from that have "load d i q + pend t d i \<le> load d i pt + pend s d i" by (simp add: good_move_def)
      then show ?thesis by linarith
    qed
    with failed_ok [OF ok wf k] that have "good_move l tr s pt t (failed pt e)" by (simp add: good_move_def)
    then show ?thesis by (rule by_good)
  qed
  from assms(2) show ?thesis
  proof cases
    case (commits m)
    then show ?thesis using by_good own_move [OF wf ok] by simp
  next
    case (loses m e)
    have "good_move l tr s pt s (failed pt e)" using failed_ok [OF ok wf kept_refl] by (simp add: good_move_def trans_le_add2)
    with loses show ?thesis using by_good by simp
  next
    case (hears_nothing m q e)
    then show ?thesis using failing [OF own_move [OF wf ok]] by simp
  next
    case (is_answered e)
    then show ?thesis using call_move [OF assms(1)] by simp
  qed
qed

text \<open>A request changes nothing that is under way: its new deletion is one nobody was asked about.\<close>

lemma request_move:
  assumes inv: "inv_ok s tr ls pts" and "lifecycle_request_channel env m fresh org res name reason k actor s = Inr (a, s')
    \<or> lifecycle_request_organization env m fresh org name reason actor s = Inr (a, s')
    \<or> lifecycle_request_reconciliation org res oper reason k actor s = Inr (a, s')"
  shows "inv_ok s' tr ls pts"
proof -
  have wf: "lc_wf s" and ok: "\<forall>p \<in> set pts. worker_ok s (fst p) tr (snd p)" and g: "gone_ok s tr" and c: "counted s tr pts"
    using inv by (auto simp: inv_ok_def)
  have step: "inv_ok t tr ls pts" if k: "kept {} s t" and "gone_ok t tr" and "\<And>d i. d \<in> ids s \<Longrightarrow> pend t d i \<le> pend s d i" for t
  proof -
    have "worker_ok t (fst p) tr (snd p)" if "p \<in> set pts" for p using other_ok [OF _ wf k, of _ _ _ "[]"] ok that by auto
    moreover have "counted t tr pts"
      unfolding counted_def
    proof (intro allI conjI impI)
      fix d i
      have "pend t d i \<le> 1" by (simp add: pend_def)
      with c that(3) [of d i] no_loads [OF ok, of d i] show "asked tr d i + loads d i pts + pend t d i \<le> Suc (confirmed tr d i)"
        by (cases "d \<in> ids s") (force simp: counted_def dest: spec [of _ d] spec [of _ i])+
      assume "d \<notin> ids t"
      then show "asked tr d i = 0" using c ids_mono [OF k wf] by (auto simp: counted_def)
    qed
    ultimately show ?thesis using inv that by (auto simp: inv_ok_def kept_def, blast)
  qed
  from assms(2) show ?thesis
  proof (rule request_cases)
    assume "s' = s" then show ?thesis using inv by simp
  next
    fix p f assume f: "s' = set_deletions p f s" "\<And>r. dl_id (f r) = dl_id r" "\<And>r. dl_lease (f r) = None"
    then have k: "kept {} s s'" by (auto intro: kept_set_deletions)
    have "lc_items s' = lc_items s" by (simp add: f(1) set_deletions_def)
    then show ?thesis using step [OF k] g same_items [of s' s] by simp
  next
    fix r xs assume r: "insert_deletion r xs s = Inr (a, s')" "dl_lease r = None"
    note i = insert_deletion_state [OF r(1)]
    have "gone_ok s' tr" using g by (auto simp: gone_ok_def i(3) new_items_def)
    moreover have "pend s' d j \<le> pend s d j" if "d \<in> ids s" for d j
      using that i(1) new_items_keys(2) by (fastforce simp: pend_def items_of_def i(3))
    ultimately show ?thesis using step [OF insert_deletion_kept [OF r]] by simp
  qed
qed

lemma secured_request:
  assumes "inv_ok s tr ls pts" and "\<And>a s'. t s = Inr (a, s') \<Longrightarrow> inv_ok s' tr ls pts"
  shows "inv_ok (snd (run_tx (secure (tx_bind t deletion_status)) s)) tr ls pts"
  using assms by (auto simp: run_tx_def secure_def tx_map_error_def tx_bind_def deletion_status_def split: sum.splits option.splits prod.splits)

lemma with_people_move: "inv_ok s tr ls pts \<Longrightarrow> inv_ok (with_people us ms ps s) tr ls pts"
  by (simp add: inv_ok_def lc_wf_def ids_def leased_to_def gone_ok_def counted_def pend_def items_of_def worker_ok_def matches_def with_people_def)

lemma map_split: "map f xs = ws @ y # vs \<Longrightarrow> \<exists>ps p qs. xs = ps @ p # qs \<and> map f ps = ws \<and> f p = y \<and> map f qs = vs"
  by (auto simp: map_eq_append_conv Cons_eq_map_conv)

lemma counted_drop: "counted s tr (ps @ p # qs) \<Longrightarrow> counted s tr (ps @ qs)"
proof -
  assume c: "counted s tr (ps @ p # qs)"
  have "asked tr d i + loads d i (ps @ qs) + pend s d i \<le> Suc (confirmed tr d i)" for d i
  proof -
    from c have "asked tr d i + loads d i (ps @ p # qs) + pend s d i \<le> Suc (confirmed tr d i)" by (simp add: counted_def)
    then show ?thesis by simp
  qed
  with c show ?thesis by (simp add: counted_def)
qed

lemma sys_step_ok:
  assumes "sys_ok env y pts" and "sys_step env y y'"
  shows "\<exists>pts'. sys_ok env y' pts'"
  using assms(2)
proof cases
  case (start lease)
  have "inv_ok (sy_db y) (sy_trace y) (set (lease # sy_leases y)) (pts @ [(lease, AtClaim)])"
    using assms(1) start(2) by (auto simp: sys_ok_def inv_ok_def worker_ok_def counted_def)
  then show ?thesis using assms(1) start(1) by (intro exI [of _ "pts @ [(lease, AtClaim)]"]) (simp add: sys_ok_def)
next
  case (work ws l p vs ev p' s')
  from work(2) assms(1) have "map (\<lambda>p. (fst p, code env (fst p) (snd p))) pts = ws @ (l, p) # vs" by (simp add: sys_ok_def)
  then obtain ps pt qs where pts: "pts = ps @ (l, pt) # qs" "p = code env l pt"
      "ws = map (\<lambda>p. (fst p, code env (fst p) (snd p))) ps" "vs = map (\<lambda>p. (fst p, code env (fst p) (snd p))) qs"
    by (auto dest!: map_split)
  from code_moves work(3) obtain pt' where "p' = code env l pt'" "moves env l pt (sy_db y) ev pt' s'" unfolding pts(2) by blast
  with worker_moves assms(1) pts work(1) show ?thesis
    by (intro exI [of _ "ps @ (l, pt') # qs"]) (auto simp: sys_ok_def)
next
  case (stop ws v vs)
  from stop(2) assms(1) have "map (\<lambda>p. (fst p, code env (fst p) (snd p))) pts = ws @ v # vs" by (simp add: sys_ok_def)
  then obtain ps p qs where "pts = ps @ p # qs" "map (\<lambda>p. (fst p, code env (fst p) (snd p))) ps = ws"
      "map (\<lambda>p. (fst p, code env (fst p) (snd p))) qs = vs"
    by (auto dest!: map_split)
  with assms(1) stop(1) show ?thesis
    by (intro exI [of _ "ps @ qs"]) (auto simp: sys_ok_def inv_ok_def intro: counted_drop)
next
  case (ask_channel m fresh org resource name reason kind actor)
  have inv: "inv_ok (sy_db y) (sy_trace y) (set (sy_leases y)) pts" using assms(1) by (simp add: sys_ok_def)
  show ?thesis using ask_channel assms(1) secured_request [OF inv request_move [OF inv disjI1]]
    by (intro exI [of _ pts]) (simp add: sys_ok_def requestChannel_def)
next
  case (ask_organization m fresh org name reason actor)
  have inv: "inv_ok (sy_db y) (sy_trace y) (set (sy_leases y)) pts" using assms(1) by (simp add: sys_ok_def)
  show ?thesis using ask_organization assms(1) secured_request [OF inv request_move [OF inv disjI2 [OF disjI1]]]
    by (intro exI [of _ pts]) (simp add: sys_ok_def requestOrganization_def)
next
  case (ask_reconciliation org resource operation reason kind actor)
  have inv: "inv_ok (sy_db y) (sy_trace y) (set (sy_leases y)) pts" using assms(1) by (simp add: sys_ok_def)
  show ?thesis using ask_reconciliation assms(1) secured_request [OF inv request_move [OF inv disjI2 [OF disjI2]]]
    by (intro exI [of _ pts]) (simp add: sys_ok_def requestReconciliation_def)
next
  case (people us ms ps)
  with assms(1) show ?thesis by (intro exI [of _ pts]) (simp add: sys_ok_def with_people_move)
qed

lemma lc_run_ok: "sys_run env y \<Longrightarrow> \<exists>pts. sys_ok env y pts"
proof (induction rule: sys_run.induct)
  case (begun us ms ps)
  show ?case
    by (intro exI [of _ "[]"]) (auto simp: sys_ok_def inv_ok_def empty_system_def lc_wf_def leased_to_def gone_ok_def counted_def pend_def
        items_of_def asked_def ids_def)
next
  case (stepped y y')
  then show ?case using sys_step_ok by blast
qed

section \<open>Deletions\<close>

text \<open>
  C4: The provider is asked to drop an instance once, and again only as often as it confirmed that the
  instance still exists: in every interleaving of workers, requests, crashes and failing connections
  the requests for an instance under a deletion are at most one more than the lookups that found it.
\<close>

theorem deletions_are_not_repeated_on_doubt:
  assumes "sys_run env y"
  shows "asked (sy_trace y) d i \<le> Suc (confirmed (sy_trace y) d i)"
proof -
  from lc_run_ok [OF assms] obtain pts where "counted (sy_db y) (sy_trace y) pts" by (auto simp: sys_ok_def inv_ok_def)
  then have "asked (sy_trace y) d i + loads d i pts + pend (sy_db y) d i \<le> Suc (confirmed (sy_trace y) d i)" by (simp add: counted_def)
  then show ?thesis by linarith
qed

section \<open>Purges\<close>

text \<open>Every statement but the last one of a purge completes no deletion.\<close>

definition calm :: "lifecycle_db \<Rightarrow> lifecycle_db \<Rightarrow> bool" where
  "calm s s' \<longleftrightarrow> (\<forall>r \<in> set (lc_deletions s'). dl_status r = COMPLETED \<longrightarrow> (\<exists>q \<in> set (lc_deletions s). dl_id q = dl_id r \<and> dl_status q = COMPLETED))"

interpretation cf: tx_frame calm
  by unfold_locales (auto simp: calm_def, metis)

lemma calm_set:
  assumes "\<And>r. p r \<Longrightarrow> dl_id (f r) = dl_id r" and "\<And>r. p r \<Longrightarrow> dl_status (f r) = COMPLETED \<Longrightarrow> dl_status r = COMPLETED"
  shows "calm s (set_deletions p f s)"
  using assms by (fastforce simp: calm_def set_deletions_def dest!: set_update_rows)

lemma calm_items: "lc_deletions s' = lc_deletions s \<Longrightarrow> calm s s'"
  by (auto simp: calm_def)

lemma calm_update: "tx_respects calm (update_alive now d l f)"
  if "\<And>r. dl_id (f r) = dl_id r" "\<And>r. dl_status (f r) = COMPLETED \<Longrightarrow> dl_status r = COMPLETED"
  using that by (auto intro!: tx_respectsI calm_set dest!: update_alive_ok)

lemma calm_modify_items: "tx_respects calm (tx_modify (set_items d i f))"
  by (auto intro!: tx_respectsI calm_items simp: set_items_def)

lemma calm_reading: "tx_respects calm (lockCurrentLease m d l)" "tx_respects calm (guarded m d l)" "tx_respects calm (authorize_deletion m d l)"
    "tx_respects calm (asserted env m cx b)" "tx_respects calm (read_items d)" "tx_respects calm (still_present d)"
  by (auto intro!: cf.respects_reading dest: lock_ok guarded_ok authorize_ok asserted_ok simp: read_items_def still_present_def)

lemma calm_require: "tx_respects calm (require_action b c d l)"
  by (auto intro!: tx_respectsI calm_set simp: require_action_def let_go_def)

lemma calm_transactions:
  "tx_respects calm (claimDeletion m l)" "tx_respects calm (may_deprovision m d l)" "tx_respects calm (settle_found env m cx b)"
  "tx_respects calm (begin_delete m cx)" "tx_respects calm (delete_done env m cx)" "tx_respects calm (yield_deletion m d l)"
  unfolding may_deprovision_def settle_found_def begin_delete_def delete_done_def yield_deletion_def
  by (auto intro!: cf.respects_intros calm_reading calm_require calm_update calm_modify_items simp: let_go_def)
    (auto intro!: tx_respectsI calm_set cf.R_refl simp: claimDeletion_def split: option.splits)

lemma calm_failed: "tx_respects calm (delete_failed m cx)"
proof (rule tx_respectsI)
  fix s a s'
  assume "delete_failed m cx s = Inr (a, s')"
  have g: "calm s (gave_up cx s)" by (simp add: calm_items gave_up_def set_items_def)
  from \<open>delete_failed m cx s = Inr (a, s')\<close> have "s' = s \<or> require_action False ''EVOLUTION_CLEANUP_UNVERIFIED'' (cx_deletion cx) (cx_lease cx) (gave_up cx s) = Inr (a, s')"
    using delete_failed_ok by blast
  then show "calm s s'"
  proof
    assume "s' = s" then show ?thesis by (simp add: cf.R_refl)
  next
    assume "require_action False ''EVOLUTION_CLEANUP_UNVERIFIED'' (cx_deletion cx) (cx_lease cx) (gave_up cx s) = Inr (a, s')"
    then show ?thesis by (rule cf.R_trans [OF g tx_respectsD [OF calm_require]])
  qed
qed

lemma calm_then_at: "tx_respects calm t \<Longrightarrow> then_at k h t s = (pt', s') \<Longrightarrow> calm s s'"
  by (auto elim!: then_at_cases dest: tx_respectsD intro: cf.R_refl)

definition completes_clean :: "lifecycle_db \<Rightarrow> lifecycle_db \<Rightarrow> bool" where
  "completes_clean s s' \<longleftrightarrow> (\<forall>r \<in> set (lc_deletions s'). dl_status r = COMPLETED \<longrightarrow>
     (\<exists>q \<in> set (lc_deletions s). dl_id q = dl_id r \<and> dl_status q = COMPLETED)
     \<or> (\<forall>x \<in> set (lc_items s). cu_deletion x = dl_id r \<longrightarrow> cu_status x = GONE))"

lemma calm_clean: "calm s s' \<Longrightarrow> completes_clean s s'"
  by (auto simp: calm_def completes_clean_def)

lemma purge_clean: "purge env m w l s = Inr (a, s') \<Longrightarrow> completes_clean s s'"
proof -
  let ?s1 = "set_deletions (\<lambda>r. leased (wk_id w) l r \<and> alive (tm_clock m 3) r) (\<lambda>r. r\<lparr>dl_status := REMOVING_DATA\<rparr>) s"
  assume "purge env m w l s = Inr (a, s')"
  then have p: "lifecycle_purge env m (wk_id w) l (wk_kind w) ?s1 = Inr (a, s')"
    by (auto simp: purge_def tx_bind_eq_Inr dest!: guarded_ok update_alive_ok)
  have c: "calm s ?s1" by (rule calm_set) auto
  have i: "lc_items ?s1 = lc_items s" by (simp add: set_deletions_def)
  from p obtain r where v: "lifecycle_validate_purge m (wk_id w) l (wk_kind w) ?s1 = Inr (r, ?s1)"
    by (auto simp: lifecycle_purge_def tx_bind_eq_Inr dest: validate_ok)
  from p v have "lc_deletions s' = update_rows (\<lambda>x. dl_id x = wk_id w) (\<lambda>x. (let_go COMPLETED x)\<lparr>dl_name := None, dl_reason := None, dl_error := None\<rparr>)
      (lc_deletions ?s1)"
    by (auto simp: lifecycle_purge_def tx_bind_eq_Inr Let_def drop_members_def set_deletions_def split: option.splits if_splits)
  then have "q \<in> set (lc_deletions ?s1) \<or> dl_id q = wk_id w" if "q \<in> set (lc_deletions s')" for q
    using that by (auto simp: let_go_def dest!: set_update_rows)
  with c validate_ok [OF v] show ?thesis unfolding completes_clean_def calm_def i by metis
qed

lemma then_at_clean:
  assumes "\<And>a s'. t s = Inr (a, s') \<Longrightarrow> completes_clean s s'" and "then_at k h t s = (pt', s')"
  shows "completes_clean s s'"
  using assms(2) by (rule then_at_cases) (use assms(1) calm_clean [OF cf.R_refl] in auto)

lemma then_calm: "then_at k h t s = (pt', s') \<Longrightarrow> tx_respects calm t \<Longrightarrow> completes_clean s s'"
  by (rule calm_clean [OF calm_then_at])

lemmas calm_points = calm_transactions [THEN then_calm [rotated]] calm_reading [THEN then_calm [rotated]]
  calm_require [THEN then_calm [rotated]] calm_failed [THEN then_calm [rotated]]

lemma point_tx_clean: "point_tx env l m s pt = Some (pt', s') \<Longrightarrow> completes_clean s s'"
  by (cases pt) (auto intro: calm_points then_at_clean [OF purge_clean])

lemma moves_clean: "moves env l pt s ev pt' s' \<Longrightarrow> completes_clean s s'"
  by (auto elim!: moves.cases dest: point_tx_clean intro: calm_clean cf.R_refl)

lemma secured_calm:
  assumes "\<And>a s'. t s = Inr (a, s') \<Longrightarrow> calm s s'"
  shows "calm s (snd (run_tx (secure (tx_bind t deletion_status)) s))"
  using assms cf.R_refl
  by (auto simp: run_tx_def secure_def tx_map_error_def tx_bind_def deletion_status_def split: sum.splits option.splits prod.splits)

lemma request_calm:
  assumes "lifecycle_request_channel env m fresh org res name reason k actor s = Inr (a, s')
    \<or> lifecycle_request_organization env m fresh org name reason actor s = Inr (a, s')
    \<or> lifecycle_request_reconciliation org res oper reason k actor s = Inr (a, s')"
  shows "calm s s'"
  using assms
proof (rule request_cases)
  show "s' = s \<Longrightarrow> calm s s'" by (simp add: cf.R_refl)
  show "s' = set_deletions p f s \<Longrightarrow> (\<And>r. dl_id (f r) = dl_id r) \<Longrightarrow> (\<And>r. dl_status (f r) \<noteq> COMPLETED) \<Longrightarrow> calm s s'" for p f
    by (auto intro: calm_set)
  show "insert_deletion r xs s = Inr (a, s') \<Longrightarrow> dl_status r \<noteq> COMPLETED \<Longrightarrow> calm s s'" for r xs
    by (auto simp: calm_def dest!: insert_deletion_state(3))
qed

text \<open>
  C5: The data of a deletion goes only after every instance is known to be gone: whatever step
  completes a deletion, for each of its instances the provider had acknowledged the removal or
  answered that the instance does not exist.
\<close>

theorem purges_follow_confirmed_removals:
  assumes "sys_run env y" and "sys_step env y y'" and "r \<in> set (lc_deletions (sy_db y'))" and "dl_status r = COMPLETED"
    and "\<not> (\<exists>q \<in> set (lc_deletions (sy_db y)). dl_id q = dl_id r \<and> dl_status q = COMPLETED)"
    and "x \<in> set (lc_items (sy_db y))" and "cu_deletion x = dl_id r"
  shows "gone_evidence (sy_trace y) (dl_id r) (cu_instance x)"
proof -
  from lc_run_ok [OF assms(1)] obtain pts where ok: "sys_ok env y pts" by blast
  then have g: "gone_ok (sy_db y) (sy_trace y)" by (simp add: sys_ok_def inv_ok_def)
  from assms(2) have "completes_clean (sy_db y) (sy_db y')"
  proof cases
    case (work ws l p vs ev p' s')
    from work(2) ok have "map (\<lambda>p. (fst p, code env (fst p) (snd p))) pts = ws @ (l, p) # vs" by (simp add: sys_ok_def)
    then obtain pt where "p = code env l pt" by (auto dest!: map_split)
    then show ?thesis using code_moves work moves_clean by fastforce
  next
    case (ask_channel m fresh org resource name reason kind actor)
    then show ?thesis using secured_calm [OF request_calm [OF disjI1]] by (auto intro!: calm_clean simp: requestChannel_def)
  next
    case (ask_organization m fresh org name reason actor)
    then show ?thesis using secured_calm [OF request_calm [OF disjI2 [OF disjI1]]] by (auto intro!: calm_clean simp: requestOrganization_def)
  next
    case (ask_reconciliation org resource operation reason kind actor)
    then show ?thesis using secured_calm [OF request_calm [OF disjI2 [OF disjI2]]] by (auto intro!: calm_clean simp: requestReconciliation_def)
  qed (simp_all add: calm_clean calm_items with_people_def)
  with assms(3-7) g show ?thesis unfolding completes_clean_def gone_ok_def by metis
qed

end
