(* ===== verification/Lifecycle_Demo.thy ===== *)
theory Lifecycle_Demo
  imports Lifecycle_Runs
begin

text \<open>
  Runs of one worker, played from the readings of the clock and the answers of the adapters, and the
  removal of a channel from its request to the purge.
\<close>

section \<open>Playing a worker\<close>

datatype play_turn = Commit tx_moment | DeletionAnswer bool | LookupAnswer "bool option" | MediaAnswer "media_state option"

type_synonym played = "point \<times> lifecycle_db \<times> lc_event list"

fun play :: "lifecycle_env \<Rightarrow> string \<Rightarrow> play_turn \<Rightarrow> played \<Rightarrow> played option" where
  "play env l (Commit m) (pt, s, tr) = map_option (\<lambda>(pt', s'). (pt', s', tr)) (point_tx env l m s pt)"
| "play env l (DeletionAnswer b) (AtDelete w x xs, s, tr) = Some (delete_point w x xs b, s, tr @ [Deleted (cleanup_context w l x) b])"
| "play env l (LookupAnswer b) (AtLookup w x xs, s, tr) = Some (lookup_point w x xs b, s, tr @ [Looked (cleanup_context w l x) b])"
| "play env l (MediaAnswer b) (AtMedia w, s, tr) = Some (media_point w b, s, tr @ [Cleaned (wk_id w) b])"
| "play env l _ _ = None"

fun play_all :: "lifecycle_env \<Rightarrow> string \<Rightarrow> play_turn list \<Rightarrow> played \<Rightarrow> played option" where
  "play_all env l [] p = Some p"
| "play_all env l (t # ts) p = Option.bind (play env l t p) (play_all env l ts)"

lemma transact_commits:
  assumes "\<And>e. code env l (h e) = catch e" and "\<And>a. code env l (k' a) = k a" and "then_at k' h (t m) s = (pt', s')"
  shows "prog_step (transact t catch k) s [] (code env l pt') s'"
proof -
  have "(case fst (run_tx (t m) s) of Inl e \<Rightarrow> catch e | Inr a \<Rightarrow> k a) = code env l pt'" "snd (run_tx (t m) s) = s'"
    using assms(3) by (auto simp: then_at_def assms(1,2) split: prod.splits sum.splits)
  then show ?thesis unfolding transact_def by (metis (no_types, lifting) committed)
qed

lemma point_commits:
  assumes "point_tx env l m s pt = Some (pt', s')"
  shows "prog_step (code env l pt) s [] (code env l pt') s'"
proof (cases pt)
  case AtClaim
  with assms show ?thesis
    by (auto simp: processOne_def intro!: transact_commits [where k' = "\<lambda>c. case c of None \<Rightarrow> AtReturn False | Some w \<Rightarrow> AtAuthorize w"
        and h = AtThrow] split: option.splits)
next
  case (AtItem w x xs)
  with assms show ?thesis
    by (auto simp: code_item intro!: transact_commits [where k' = "\<lambda>may. if may then at_item env w x xs else AtReturn True" and h = "AtFailure w"])
qed (use assms in \<open>auto simp: process_claimed_def Let_def fail_work_def attention_def purge_data_def code_items code_media
      elim!: transact_commits [rotated 2]\<close>)

definition driven :: "lifecycle_env \<Rightarrow> string \<Rightarrow> played \<Rightarrow> lc_system" where
  "driven env l p = (case p of (pt, s, tr) \<Rightarrow> \<lparr>sy_db = s, sy_workers = [(l, code env l pt)], sy_leases = [l], sy_trace = tr\<rparr>)"

lemma driven_step:
  assumes "prog_step (code env l pt) s ev (code env l pt') s'"
  shows "sys_step env (driven env l (pt, s, tr)) (driven env l (pt', s', tr @ ev))"
  using work [of "driven env l (pt, s, tr)" "[]" l "code env l pt" "[]" ev "code env l pt'" s' env] assms
  by (simp add: driven_def)

lemma play_step: "play env l t p = Some q \<Longrightarrow> sys_step env (driven env l p) (driven env l q)"
proof (induction env l t p rule: play.induct)
  case (1 env l m pt s tr)
  then obtain pt' s' where t: "point_tx env l m s pt = Some (pt', s')" and q: "q = (pt', s', tr)" by auto
  show ?case unfolding q using driven_step [OF point_commits [OF t], of tr] by simp
next
  case (2 env l b w x xs s tr)
  have "prog_step (code env l (AtDelete w x xs)) s [Deleted (cleanup_context w l x) b] (code env l (delete_point w x xs b)) s"
    unfolding code_calls by (rule deprovisioned)
  from driven_step [OF this] 2 show ?case by (auto simp del: code.simps)
next
  case (3 env l b w x xs s tr)
  have "prog_step (code env l (AtLookup w x xs)) s [Looked (cleanup_context w l x) b] (code env l (lookup_point w x xs b)) s"
    unfolding code_calls by (rule looked_up)
  from driven_step [OF this] 3 show ?case by (auto simp del: code.simps)
next
  case (4 env l b w s tr)
  have "prog_step (code env l (AtMedia w)) s [Cleaned (wk_id w) b] (code env l (media_point w b)) s"
    unfolding code_calls by (rule media_cleaned)
  from driven_step [OF this] 4 show ?case by (auto simp del: code.simps)
qed simp_all

lemma play_all_runs: "sys_run env (driven env l p) \<Longrightarrow> play_all env l ts p = Some q \<Longrightarrow> sys_run env (driven env l q)"
proof (induction ts arbitrary: p)
  case (Cons t ts)
  then obtain r where t: "play env l t p = Some r" and ts: "play_all env l ts r = Some q" by (auto simp: bind_eq_Some_conv)
  show ?case by (rule Cons.IH [OF stepped [OF Cons.prems(1) play_step [OF t]] ts])
qed simp

section \<open>The removal of a channel\<close>

definition demo_env :: lifecycle_env where
  "demo_env = \<lparr>le_assert = (\<lambda>_ _ _. None), le_exists = True, le_media = True, le_refuse = (\<lambda>_ _. None),
     le_channel = (\<lambda>_ _ _. Some (''Loja'', Some ''k1'')), le_company = (\<lambda>_ _. None), le_pending = (\<lambda>_ _ _. None)\<rparr>"

definition demo_moment :: tx_moment where
  "demo_moment = \<lparr>tm_clock = (\<lambda>n. 1000 + int n), tm_locked = (\<lambda>_. False)\<rparr>"

definition demo_start :: lc_system where
  "demo_start = empty_system [\<lparr>us_id = ''u1'', us_email = ''a@b.c'', us_passwordHash = ''h'', us_version = 1, us_status = ACTIVE\<rparr>]
     [\<lparr>mb_org = ''o1'', mb_user = ''u1'', mb_role = OWNER, mb_status = ACTIVE\<rparr>] []"

definition demo_asked :: lifecycle_db where
  "demo_asked = snd (run_tx (requestChannel demo_env demo_moment ''d1'' ''o1'' ''c1'' ''Loja'' ''Encerrada'' TENANT ''u1'') (sy_db demo_start))"

definition demo_turns :: "play_turn list" where
  "demo_turns = [Commit demo_moment, Commit demo_moment, Commit demo_moment, Commit demo_moment, Commit demo_moment, DeletionAnswer True,
     Commit demo_moment, Commit demo_moment, MediaAnswer (Some MEDIA_COMPLETE), Commit demo_moment]"

definition demo_after :: "nat \<Rightarrow> played" where
  "demo_after n = the (play_all demo_env ''w1'' (take n demo_turns) (AtClaim, demo_asked, []))"

lemma demo_begins: "sys_run demo_env (driven demo_env ''w1'' (AtClaim, demo_asked, []))"
proof -
  let ?y = "demo_start\<lparr>sy_db := demo_asked\<rparr>"
  have "sys_run demo_env demo_start" unfolding demo_start_def by (rule begun)
  then have "sys_run demo_env ?y"
    unfolding demo_asked_def by (rule stepped) (rule ask_channel)
  then have "sys_run demo_env (?y\<lparr>sy_workers := sy_workers ?y @ [(''w1'', processOne demo_env ''w1'')], sy_leases := ''w1'' # sy_leases ?y\<rparr>)"
    by (rule stepped [OF _ start]) (simp add: demo_start_def empty_system_def)
  then show ?thesis by (simp add: driven_def demo_start_def empty_system_def)
qed

lemma demo_plays: "play_all demo_env ''w1'' (take 9 demo_turns) (AtClaim, demo_asked, []) = Some (demo_after 9)"
    "play_all demo_env ''w1'' (take 6 demo_turns) (AtClaim, demo_asked, []) = Some (demo_after 6)"
    "play demo_env ''w1'' (Commit demo_moment) (demo_after 9) = Some (demo_after 10)"
  by code_simp+

lemma removal_runs: "sys_run demo_env (driven demo_env ''w1'' (demo_after 9))" "sys_run demo_env (driven demo_env ''w1'' (demo_after 6))"
  by (rule play_all_runs [OF demo_begins]; rule demo_plays)+

lemma demo_ends: "sys_step demo_env (driven demo_env ''w1'' (demo_after 9)) (driven demo_env ''w1'' (demo_after 10))"
  by (rule play_step [OF demo_plays(3)])

lemma driven_fields: "sy_db (driven env l p) = fst (snd p)" "sy_trace (driven env l p) = snd (snd p)"
  by (simp_all add: driven_def split: prod.split)

lemma deletions_are_not_repeated_on_doubt_witness:
  "asked (sy_trace (driven demo_env ''w1'' (demo_after 6))) ''d1'' ''c1'' = 1 \<and>
   asked (sy_trace (driven demo_env ''w1'' (demo_after 6))) ''d1'' ''c1''
     \<le> Suc (confirmed (sy_trace (driven demo_env ''w1'' (demo_after 6))) ''d1'' ''c1'')"
proof
  show "asked (sy_trace (driven demo_env ''w1'' (demo_after 6))) ''d1'' ''c1'' = 1" unfolding driven_fields by code_simp
qed (rule deletions_are_not_repeated_on_doubt [OF removal_runs(2)])

definition demo_row :: deletion_row where
  "demo_row = hd (lc_deletions (fst (snd (demo_after 10))))"

definition demo_item :: cleanup_item where
  "demo_item = hd (lc_items (fst (snd (demo_after 9))))"

lemma purges_follow_confirmed_removals_witness: "gone_evidence (sy_trace (driven demo_env ''w1'' (demo_after 9))) ''d1'' ''c1''"
proof -
  have id: "dl_id demo_row = ''d1''" "cu_instance demo_item = ''c1''" by code_simp+
  have "gone_evidence (sy_trace (driven demo_env ''w1'' (demo_after 9))) (dl_id demo_row) (cu_instance demo_item)"
  proof (rule purges_follow_confirmed_removals [OF removal_runs(1) demo_ends])
    show "demo_row \<in> set (lc_deletions (sy_db (driven demo_env ''w1'' (demo_after 10))))" unfolding driven_fields by code_simp
    show "dl_status demo_row = COMPLETED" by code_simp
    show "\<not> (\<exists>q \<in> set (lc_deletions (sy_db (driven demo_env ''w1'' (demo_after 9)))). dl_id q = dl_id demo_row \<and> dl_status q = COMPLETED)"
      unfolding driven_fields by code_simp
    show "demo_item \<in> set (lc_items (sy_db (driven demo_env ''w1'' (demo_after 9))))" unfolding driven_fields by code_simp
    show "cu_deletion demo_item = dl_id demo_row" by code_simp
  qed
  then show ?thesis unfolding id .
qed

end
